(* ===== verification/Prelude.thy ===== *)
theory Prelude
  imports Main "HOL-Library.List_Lexorder" "HOL-Library.Char_ord" "HOL-Library.Sublist"
    "HOL-Library.Multiset" "HOL-Library.AList"
begin

text \<open>
  Shared vocabulary of the development: results of code that may throw, the list, set, map and
  string operations of the JavaScript standard library that the sources use, and the generic
  lemmas about them.

  Strings are char lists whose characters stand for UTF-16 code units below 256 (Latin-1).
  On such strings \<open>trim\<close>, \<open>toLowerCase\<close>, \<open>length\<close> and the default code-unit order of
  \<open>Array.prototype.sort\<close> are modelled exactly. A \<open>Set\<close> is the list of its elements in
  insertion order, a \<open>Map\<close> an association list in insertion order.
\<close>

named_theorems result_simps \<comment> \<open>unfolding of successful and failing results\<close>

section \<open>Results of code that may throw\<close>

text \<open>A function that may throw returns \<open>Inl\<close> of the error or \<open>Inr\<close> of its value.\<close>

definition and_then :: "'e + 'a \<Rightarrow> ('a \<Rightarrow> 'e + 'b) \<Rightarrow> 'e + 'b" where
  "and_then r f = (case r of Inl e \<Rightarrow> Inl e | Inr a \<Rightarrow> f a)"

lemma and_then_Inl [simp]: "and_then (Inl e) f = Inl e"
  by (simp add: and_then_def)

lemma and_then_Inr [simp]: "and_then (Inr a) f = f a"
  by (simp add: and_then_def)

lemma and_then_eq_Inr [result_simps]:
  "and_then r f = Inr b \<longleftrightarrow> (\<exists>a. r = Inr a \<and> f a = Inr b)"
  by (cases r) auto

lemma and_then_eq_Inl [result_simps]:
  "and_then r f = Inl e \<longleftrightarrow> r = Inl e \<or> (\<exists>a. r = Inr a \<and> f a = Inl e)"
  by (cases r) auto

lemma if_Inl_eq_Inr [result_simps]:
  "(if c then Inl e else r) = Inr b \<longleftrightarrow> \<not> c \<and> r = Inr b"
  by simp

text \<open>\<open>xs.map((x, i) => ...)\<close> with a callback that may throw: the first error stops it.\<close>

fun map_try :: "(nat \<Rightarrow> 'a \<Rightarrow> 'e + 'b) \<Rightarrow> nat \<Rightarrow> 'a list \<Rightarrow> 'e + 'b list" where
  "map_try f i [] = Inr []"
| "map_try f i (x # xs) =
     and_then (f i x) (\<lambda>y. and_then (map_try f (Suc i) xs) (\<lambda>ys. Inr (y # ys)))"

lemma map_try_length: "map_try f i xs = Inr ys \<Longrightarrow> length ys = length xs"
  by (induction xs arbitrary: i ys) (auto simp: result_simps)

lemma map_try_nth:
  "map_try f i xs = Inr ys \<Longrightarrow> j < length xs \<Longrightarrow> f (i + j) (xs ! j) = Inr (ys ! j)"
proof (induction xs arbitrary: i ys j)
  case Nil
  then show ?case by simp
next
  case (Cons x xs)
  from Cons.prems(1) obtain y ys' where ys: "ys = y # ys'"
    and fx: "f i x = Inr y" and rest: "map_try f (Suc i) xs = Inr ys'"
    by (auto simp: result_simps)
  show ?case
  proof (cases j)
    case 0
    with fx ys show ?thesis by simp
  next
    case (Suc k)
    with Cons.IH[OF rest, of k] Cons.prems(2) ys show ?thesis by simp
  qed
qed

text \<open>What holds of every successful callback holds of every element of the result.\<close>

lemma map_try_all:
  assumes "map_try f i xs = Inr ys" and "\<And>j x y. f j x = Inr y \<Longrightarrow> P y"
  shows "\<forall>y\<in>set ys. P y"
  using assms by (induction xs arbitrary: i ys) (auto simp: result_simps)

lemma map_try_all_rel:
  assumes "map_try f i xs = Inr ys" and "\<And>j x y. f j x = Inr y \<Longrightarrow> R x y"
  shows "list_all2 R xs ys"
  using assms by (induction xs arbitrary: i ys) (auto simp: result_simps)

lemma map_try_Inr_map:
  assumes "\<And>j x. x \<in> set xs \<Longrightarrow> f j x = Inr (g x)"
  shows "map_try f i xs = Inr (map g xs)"
  using assms by (induction xs arbitrary: i) auto

section \<open>Sets and maps in insertion order\<close>

text \<open>\<open>[...new Set(xs)]\<close>: the first occurrence of every element.\<close>

fun js_set :: "'a list \<Rightarrow> 'a list" where
  "js_set [] = []"
| "js_set (x # xs) = x # filter (\<lambda>y. y \<noteq> x) (js_set xs)"

lemma set_js_set [simp]: "set (js_set xs) = set xs"
  by (induction xs) auto

lemma distinct_js_set [simp]: "distinct (js_set xs)"
  by (induction xs) auto

lemma js_set_distinct [simp]: "distinct xs \<Longrightarrow> js_set xs = xs"
proof (induction xs)
  case (Cons x xs)
  then have "filter (\<lambda>y. y \<noteq> x) xs = xs" by (auto simp: filter_id_conv)
  with Cons show ?case by simp
qed simp

text \<open>\<open>new Set(xs).size !== xs.length\<close> is how the sources detect duplicates.\<close>

definition has_duplicates :: "'a list \<Rightarrow> bool" where
  "has_duplicates xs \<longleftrightarrow> length (js_set xs) \<noteq> length xs"

lemma length_js_set: "length (js_set xs) = card (set xs)"
  by (metis distinct_card distinct_js_set set_js_set)

lemma has_duplicates_iff [simp]: "has_duplicates xs \<longleftrightarrow> \<not> distinct xs"
  by (auto simp: has_duplicates_def length_js_set distinct_card card_distinct)

text \<open>\<open>new Map(entries)\<close>: a later entry of a key overwrites the value in place.\<close>

fun js_map :: "('k \<times> 'v) list \<Rightarrow> ('k \<times> 'v) list" where
  "js_map es = fold (\<lambda>(k, v) m. AList.update k v m) es []"

lemma fold_update_distinct:
  "distinct (map fst (m @ es)) \<Longrightarrow> fold (\<lambda>(k, v) m. AList.update k v m) es m = m @ es"
proof (induction es arbitrary: m)
  case (Cons e es)
  obtain k v where e: "e = (k, v)" by (cases e)
  have upd: "AList.update k v m = m @ [(k, v)]" if "k \<notin> fst ` set m" for m
    using that by (induction m) auto
  from Cons.prems e have "k \<notin> fst ` set m" by auto
  with Cons e show ?case by (simp add: upd)
qed simp

lemma js_map_distinct [simp]: "distinct (map fst es) \<Longrightarrow> js_map es = es"
  using fold_update_distinct[of "[]" es] by simp

lemma map_of_fold_update:
  "map_of (fold (\<lambda>(k, v) m. AList.update k v m) es m) = map_of m ++ map_of (rev es)"
proof (induction es arbitrary: m)
  case (Cons e es)
  obtain k v where e: "e = (k, v)" by (cases e)
  show ?case
    by (simp add: e Cons.IH update_conv' map_add_assoc[symmetric])
       (rule ext, simp add: map_add_def split: option.splits)
qed simp

lemma map_of_js_map: "map_of (js_map es) = map_of (rev es)"
  by (simp add: map_of_fold_update)

lemma distinct_fold_update:
  "distinct (map fst m) \<Longrightarrow> distinct (map fst (fold (\<lambda>(k, v) m. AList.update k v m) es m))"
  by (induction es arbitrary: m) (auto simp: distinct_update)

lemma distinct_js_map [simp]: "distinct (map fst (js_map es))"
  using distinct_fold_update[of "[]" es] by simp

lemma keys_js_map [simp]: "fst ` set (js_map es) = fst ` set es"
proof -
  have "dom (map_of (js_map es)) = dom (map_of (rev es))"
    by (simp only: map_of_js_map)
  then show ?thesis by (simp only: dom_map_of_conv_image_fst set_rev)
qed

declare js_map.simps [simp del]

section \<open>Stable sorting with a comparator\<close>

text \<open>
  \<open>xs.sort(compare)\<close>, stable, for a comparator given as "not after": \<open>le x y\<close> stands for
  \<open>compare(x, y) <= 0\<close>. Without a comparator the sources sort strings by code unit, which
  is \<^const>\<open>sort\<close> on char lists.
\<close>

fun insert_by :: "('a \<Rightarrow> 'a \<Rightarrow> bool) \<Rightarrow> 'a \<Rightarrow> 'a list \<Rightarrow> 'a list" where
  "insert_by le x [] = [x]"
| "insert_by le x (y # ys) = (if le x y then x # y # ys else y # insert_by le x ys)"

definition sort_by :: "('a \<Rightarrow> 'a \<Rightarrow> bool) \<Rightarrow> 'a list \<Rightarrow> 'a list" where
  "sort_by le xs = foldr (insert_by le) xs []"

text \<open>A comparator is usable when it is a total preorder.\<close>

definition total_preorder :: "('a \<Rightarrow> 'a \<Rightarrow> bool) \<Rightarrow> bool" where
  "total_preorder le \<longleftrightarrow> (\<forall>x y. le x y \<or> le y x) \<and> (\<forall>x y z. le x y \<longrightarrow> le y z \<longrightarrow> le x z)"

lemma total_preorder_linorder [simp]: "total_preorder ((\<le>) :: 'a :: linorder \<Rightarrow> 'a \<Rightarrow> bool)"
  by (auto simp: total_preorder_def)

lemma mset_insert_by [simp]: "mset (insert_by le x xs) = add_mset x (mset xs)"
  by (induction xs) auto

lemma mset_sort_by [simp]: "mset (sort_by le xs) = mset xs"
  unfolding sort_by_def by (induction xs) auto

lemma set_sort_by [simp]: "set (sort_by le xs) = set xs"
  by (rule mset_eq_setD) simp

lemma length_sort_by [simp]: "length (sort_by le xs) = length xs"
  by (rule mset_eq_length) simp

lemma distinct_map_sort_by [simp]: "distinct (map f (sort_by le xs)) = distinct (map f xs)"
  by (rule mset_eq_imp_distinct_iff) simp

lemma sorted_insert_by:
  assumes "total_preorder le" and "sorted_wrt le xs"
  shows "sorted_wrt le (insert_by le x xs)"
  using assms(2)
proof (induction xs)
  case (Cons y ys)
  have "set (insert_by le x ys) = insert x (set ys)"
    by (metis mset_insert_by set_mset_add_mset_insert set_mset_mset)
  with Cons assms(1) show ?case
    unfolding total_preorder_def by auto
qed simp

lemma sorted_sort_by: "total_preorder le \<Longrightarrow> sorted_wrt le (sort_by le xs)"
  unfolding sort_by_def by (induction xs) (auto intro: sorted_insert_by)

section \<open>Strings\<close>

text \<open>White space as \<open>String.prototype.trim\<close> has it, below code unit 256.\<close>

definition is_space :: "char \<Rightarrow> bool" where
  "is_space c \<longleftrightarrow> c \<in> {CHR 0x09, CHR 0x0A, CHR 0x0B, CHR 0x0C, CHR 0x0D, CHR 0x20, CHR 0xA0}"

definition trim :: "string \<Rightarrow> string" where
  "trim s = rev (dropWhile is_space (rev (dropWhile is_space s)))"

lemma dropWhile_fixed: "xs = [] \<or> \<not> P (hd xs) \<Longrightarrow> dropWhile P xs = xs"
  by (cases xs) auto

lemma trim_hd_last:
  assumes "trim s \<noteq> []"
  shows "\<not> is_space (hd (trim s)) \<and> \<not> is_space (last (trim s))"
proof -
  define u where "u = dropWhile is_space s"
  have tr: "rev (trim s) = dropWhile is_space (rev u)" by (simp add: trim_def u_def)
  then obtain p where "rev u = p @ rev (trim s)"
    by (metis takeWhile_dropWhile_id)
  then have "u = trim s @ rev p" by (metis rev_append rev_rev_ident)
  with assms have "hd u = hd (trim s)" and "u \<noteq> []" by auto
  then have "\<not> is_space (hd (trim s))"
    using hd_dropWhile[of is_space s] by (simp add: u_def)
  moreover have "\<not> is_space (hd (rev (trim s)))"
    using hd_dropWhile[of is_space "rev u"] tr assms by (metis rev_is_Nil_conv)
  ultimately show ?thesis using assms by (simp add: hd_rev)
qed

lemma trim_idem [simp]: "trim (trim s) = trim s"
proof -
  have "dropWhile is_space (trim s) = trim s"
    by (rule dropWhile_fixed) (use trim_hd_last in blast)
  moreover have "dropWhile is_space (rev (trim s)) = rev (trim s)"
    by (rule dropWhile_fixed) (use trim_hd_last in \<open>auto simp: hd_rev\<close>)
  ultimately show ?thesis by (simp add: trim_def[of "trim s"])
qed

lemma length_trim_le: "length (trim s) \<le> length s"
  using length_dropWhile_le[of is_space "rev (dropWhile is_space s)"]
    length_dropWhile_le[of is_space s]
  by (simp add: trim_def)

text \<open>\<open>text.includes(word)\<close>.\<close>

fun str_includes :: "'a list \<Rightarrow> 'a list \<Rightarrow> bool" where
  "str_includes [] w \<longleftrightarrow> w = []"
| "str_includes (c # cs) w \<longleftrightarrow> prefix w (c # cs) \<or> str_includes cs w"

lemma str_includes_iff_sublist: "str_includes s w \<longleftrightarrow> sublist w s"
  by (induction s) (auto simp: sublist_Cons_right)

text \<open>\<open>toLowerCase\<close> on Latin-1: ASCII letters and the accented capitals except U+00D7.\<close>

definition lower_char :: "char \<Rightarrow> char" where
  "lower_char c =
     (let n = of_char c :: nat
      in if (65 \<le> n \<and> n \<le> 90) \<or> (192 \<le> n \<and> n \<le> 222 \<and> n \<noteq> 215) then char_of (n + 32) else c)"

definition lower :: "string \<Rightarrow> string" where
  "lower s = map lower_char s"

text \<open>\<open>xs.join(sep)\<close>.\<close>

fun join :: "'a list \<Rightarrow> 'a list list \<Rightarrow> 'a list" where
  "join sep [] = []"
| "join sep [x] = x"
| "join sep (x # y # ys) = x @ sep @ join sep (y # ys)"

text \<open>Template literals render indices and counts in decimal.\<close>

fun show_nat :: "nat \<Rightarrow> string" where
  "show_nat n =
     (if n < 10 then [''0123456789'' ! n] else show_nat (n div 10) @ [''0123456789'' ! (n mod 10)])"

declare show_nat.simps [simp del]

text \<open>Decimal texts determine their number.\<close>

definition decimal_digits :: "char set" where
  "decimal_digits = set ''0123456789''"

lemma digit_char: "n < 10 \<Longrightarrow> ''0123456789'' ! n \<in> decimal_digits"
  unfolding decimal_digits_def by (rule nth_mem) simp

lemma show_nat_digits: "set (show_nat n) \<subseteq> decimal_digits \<and> show_nat n \<noteq> []"
proof (induction n rule: less_induct)
  case (less n)
  show ?case
  proof (cases "n < 10")
    case True
    then show ?thesis using digit_char[of n] by (subst (1 2) show_nat.simps) simp
  next
    case False
    then have "n div 10 < n" by simp
    with less[OF this] False digit_char[of "n mod 10"] show ?thesis
      by (subst (1 2) show_nat.simps) simp
  qed
qed

definition read_digit :: "char \<Rightarrow> nat" where
  "read_digit c = of_char c - 48"

lemma read_digit_char: "n < 10 \<Longrightarrow> read_digit (''0123456789'' ! n) = n"
proof -
  assume "n < 10"
  moreover have "list_all (\<lambda>n. read_digit (''0123456789'' ! n) = n) [0..<10]" by code_simp
  ultimately show ?thesis by (simp add: list_all_iff)
qed

lemma read_show_nat: "foldl (\<lambda>a c. 10 * a + read_digit c) 0 (show_nat n) = n"
proof (induction n rule: less_induct)
  case (less n)
  show ?case
  proof (cases "n < 10")
    case True
    then show ?thesis by (subst show_nat.simps) (simp add: read_digit_char)
  next
    case False
    then have "n div 10 < n" by simp
    with less[OF this] False show ?thesis
      by (subst show_nat.simps) (simp add: read_digit_char)
  qed
qed

lemma show_nat_inject [simp]: "show_nat m = show_nat n \<longleftrightarrow> m = n"
  by (metis read_show_nat)

lemma takeWhile_until:
  "set u \<subseteq> A \<Longrightarrow> x = [] \<or> hd x \<notin> A \<Longrightarrow> takeWhile (\<lambda>c. c \<in> A) (u @ x) = u"
  by (induction u) (cases x; simp)+

definition show_int :: "int \<Rightarrow> string" where
  "show_int i = (if i < 0 then ''-'' @ show_nat (nat (- i)) else show_nat (nat i))"

definition is_upper :: "char \<Rightarrow> bool" where
  "is_upper c \<longleftrightarrow> CHR ''A'' \<le> c \<and> c \<le> CHR ''Z''"

definition is_lower :: "char \<Rightarrow> bool" where
  "is_lower c \<longleftrightarrow> CHR ''a'' \<le> c \<and> c \<le> CHR ''z''"

definition is_digit :: "char \<Rightarrow> bool" where
  "is_digit c \<longleftrightarrow> CHR ''0'' \<le> c \<and> c \<le> CHR ''9''"

section \<open>Generic list lemmas\<close>

lemma sort_eq_iff_mset: "sort xs = sort ys \<longleftrightarrow> mset xs = mset ys"
  by (metis mset_sort properties_for_sort sorted_sort)

lemma find_SomeD: "find P xs = Some x \<Longrightarrow> x \<in> set xs \<and> P x"
  by (auto simp: find_Some_iff)

lemma find_None_iff': "find P xs = None \<longleftrightarrow> (\<forall>x\<in>set xs. \<not> P x)"
  by (auto simp: find_None_iff)

end
