(* ===== verification/Errors.thy ===== *)
theory Errors
  imports Prelude
begin

text \<open>
  The error classes of the control plane, one constructor per class. A constructor carries the
  message where the class takes one, and the code where the class has one; the classes with a
  fixed message have none.
\<close>

datatype domain_transition_error_code =
  Guard_failed | Invalid_transition | Terminal_state | Version_conflict

datatype js_error =
    DomainTransitionError domain_transition_error_code string
  | VersionConflictError
  | IdempotencyConflictError
  | IdempotencyInProgressError
  | CommandValidationError string
  | GoalNotFoundError
  | Unauthorized string
  | IssuePlanValidationError string
  | IssuePlanApprovalError string
  | ModelRouteUnavailableError string
  | SpecBundleValidationError string
  | AcceptanceVerificationPlanValidationError string
  | GoalVerifierContractError string
  | GoalWorkspaceValidationError string
  | GoalWorkspaceNotFoundError
  | SpecCompilationGateError
  | RoleBindingConflictError
  | RoleBindingValidationError
  | AuthorizationDeniedError
  | ReleaseCenterValidationError string
  | ReleaseCenterNotFoundError
  | ReleaseCenterVersionConflictError
  | ReleaseCenterIdempotencyConflictError
  | SpecApprovalValidationError string
  | ClassificationValidationError string
  | ClarificationValidationError string
  | ClarificationNotFoundError
  | ClarificationExpiredError
  | SpecGenerationValidationError string
  | IssuePlanGenerationError string
  | PlannerExecutionError string
  | ArtifactIntegrityError
  | ArtifactIngestionError string
  | ArtifactDownloadError string string
  | ObjectStoreValidationError string
  | ExternalEventValidationError string
  | ExternalEventConflictError
  | TaskActionError string string
  | RequestSecurityError string nat
  | PlainError string

end
