(* ===== verification/Json_Values.thy ===== *)
theory Json_Values
  imports Errors
begin

text \<open>
  Values of type \<open>unknown\<close> as the validators receive them, and the checks that several
  validators of \<^verbatim>\<open>domain/\<close> share (closed objects, bounded trimmed text, bounded arrays of
  distinct texts). The error class is an argument, since every module has its own.

  A number is an integer or a number that is not an integral one, carried by its decimal
  rendering: the validators only ask whether a number is a safe integer. An object is the list
  of its own enumerable properties in the order \<open>Object.keys\<close> gives.
\<close>

datatype json =
    JUndefined
  | JNull
  | JBool bool
  | JInt int
  | JFrac string
  | JStr string
  | JArr "json list"
  | JObj "(string \<times> json) list"

text \<open>\<open>record.key\<close>: a missing property reads as undefined.\<close>

definition js_get :: "(string \<times> json) list \<Rightarrow> string \<Rightarrow> json" where
  "js_get fields k = (case map_of fields k of None \<Rightarrow> JUndefined | Some v \<Rightarrow> v)"

lemma js_get_simps [simp]:
  "js_get [] k = JUndefined"
  "js_get ((k', v) # fs) k = (if k' = k then v else js_get fs k)"
  by (auto simp: js_get_def)

text \<open>\<open>String(value)\<close>: an array joins its elements, null and undefined elements as blanks.\<close>

fun js_String :: "json \<Rightarrow> string" where
  "js_String JUndefined = ''undefined''"
| "js_String JNull = ''null''"
| "js_String (JBool b) = (if b then ''true'' else ''false'')"
| "js_String (JInt i) = show_int i"
| "js_String (JFrac s) = s"
| "js_String (JStr s) = s"
| "js_String (JArr vs) =
     join '','' (map (\<lambda>v. if v = JNull \<or> v = JUndefined then '''' else js_String v) vs)"
| "js_String (JObj fs) = ''[object Object]''"

text \<open>\<open>if (x)\<close> for the result of \<open>find\<close> on strings: undefined and the empty string are false.\<close>

definition truthy_string :: "string option \<Rightarrow> bool" where
  "truthy_string s \<longleftrightarrow> s \<noteq> None \<and> s \<noteq> Some ''''"

definition index_path :: "string \<Rightarrow> nat \<Rightarrow> string" where
  "index_path name i = name @ ''['' @ show_nat i @ '']''"

text \<open>A match with one accepted shape succeeds only on that shape.\<close>

lemma case_json_Inr [result_simps]:
  "(case v of JArr vs \<Rightarrow> f vs | _ \<Rightarrow> Inl e) = Inr r \<longleftrightarrow> (\<exists>vs. v = JArr vs \<and> f vs = Inr r)"
  "(case v of JObj fs \<Rightarrow> g fs | _ \<Rightarrow> Inl e) = Inr r \<longleftrightarrow> (\<exists>fs. v = JObj fs \<and> g fs = Inr r)"
  "(case v of JBool b \<Rightarrow> j b | _ \<Rightarrow> Inl e) = Inr r \<longleftrightarrow> (\<exists>b. v = JBool b \<and> j b = Inr r)"
  "(case v of JStr s \<Rightarrow> h s | _ \<Rightarrow> Inl e) = Inr r \<longleftrightarrow> (\<exists>s. v = JStr s \<and> h s = Inr r)"
  by (cases v; auto)+

lemma case_option_Inr [result_simps]:
  "(case opt of None \<Rightarrow> Inl e | Some k \<Rightarrow> f k) = Inr r \<longleftrightarrow> (\<exists>k. opt = Some k \<and> f k = Inr r)"
  by (cases opt) auto

section \<open>Closed objects\<close>

definition closed_object ::
  "(string \<Rightarrow> js_error) \<Rightarrow> json \<Rightarrow> string \<Rightarrow> string list \<Rightarrow> js_error + (string \<times> json) list" where
  "closed_object err v name keys =
     (case v of
        JObj fields \<Rightarrow>
          let unknown = find (\<lambda>k. k \<notin> set keys) (map fst fields);
              missing = find (\<lambda>k. k \<notin> set (map fst fields)) keys
          in if truthy_string unknown then
               Inl (err (name @ ''.'' @ the unknown @ '' is not allowed''))
             else if truthy_string missing then
               Inl (err (name @ ''.'' @ the missing @ '' is required''))
             else Inr fields
      | _ \<Rightarrow> Inl (err (name @ '' must be an object'')))"

lemma closed_object_Inr:
  "closed_object err v name keys = Inr fs \<longleftrightarrow>
     v = JObj fs \<and> \<not> truthy_string (find (\<lambda>k. k \<notin> set keys) (map fst fs)) \<and>
     \<not> truthy_string (find (\<lambda>k. k \<notin> set (map fst fs)) keys)"
  by (auto simp: closed_object_def Let_def split: json.splits)

text \<open>An object with exactly the expected keys, in their order, is accepted.\<close>

lemma closed_object_exact:
  "map fst fs = keys \<Longrightarrow> closed_object err (JObj fs) name keys = Inr fs"
proof -
  assume k: "map fst fs = keys"
  have "find (\<lambda>k. k \<notin> set keys) keys = None" by (auto simp: find_None_iff)
  with k show ?thesis by (simp add: closed_object_def truthy_string_def)
qed

section \<open>Bounded text\<close>

definition bounded_string ::
  "(string \<Rightarrow> js_error) \<Rightarrow> json \<Rightarrow> string \<Rightarrow> nat \<Rightarrow> js_error + string" where
  "bounded_string err v name maximum =
     (case v of
        JStr s \<Rightarrow>
          if trim s = [] \<or> length (trim s) > maximum
          then Inl (err (name @ '' must be non-blank and bounded''))
          else Inr (trim s)
      | _ \<Rightarrow> Inl (err (name @ '' must be non-blank and bounded'')))"

text \<open>What a bounded text looks like after validation.\<close>

definition clean_text :: "nat \<Rightarrow> string \<Rightarrow> bool" where
  "clean_text maximum s \<longleftrightarrow> trim s = s \<and> s \<noteq> [] \<and> length s \<le> maximum"

lemma bounded_string_Inr:
  "bounded_string err v name maximum = Inr t \<longleftrightarrow>
     (\<exists>s. v = JStr s \<and> t = trim s \<and> clean_text maximum t)"
  by (auto simp: bounded_string_def clean_text_def split: json.splits if_splits)

lemma bounded_string_clean:
  "bounded_string err v name maximum = Inr t \<Longrightarrow> clean_text maximum t"
  by (auto simp: bounded_string_Inr)

lemma bounded_string_encode [simp]:
  "clean_text maximum s \<Longrightarrow> bounded_string err (JStr s) name maximum = Inr s"
  by (auto simp: bounded_string_Inr clean_text_def)

section \<open>Bounded arrays of distinct texts\<close>

definition string_array ::
  "(string \<Rightarrow> js_error) \<Rightarrow> string \<Rightarrow> string \<Rightarrow> nat \<Rightarrow> json \<Rightarrow> string \<Rightarrow> nat \<Rightarrow> js_error + string list"
where
  "string_array err not_array duplicates item_max v name maximum =
     (case v of
        JArr vs \<Rightarrow>
          if length vs > maximum then Inl (err (name @ not_array))
          else and_then
                 (map_try (\<lambda>i item. bounded_string err item (index_path name i) item_max) 0 vs)
                 (\<lambda>result. if has_duplicates result then Inl (err (name @ duplicates))
                           else Inr result)
      | _ \<Rightarrow> Inl (err (name @ not_array)))"

definition clean_texts :: "nat \<Rightarrow> nat \<Rightarrow> string list \<Rightarrow> bool" where
  "clean_texts maximum item_max ss \<longleftrightarrow>
     length ss \<le> maximum \<and> distinct ss \<and> list_all (clean_text item_max) ss"

definition texts_json :: "string list \<Rightarrow> json" where
  "texts_json ss = JArr (map JStr ss)"

lemma map_try_encode:
  assumes "\<And>j x. x \<in> set xs \<Longrightarrow> f j (enc x) = Inr x"
  shows "map_try f i (map enc xs) = Inr xs"
  using assms by (induction xs arbitrary: i) auto

lemma string_array_clean:
  assumes "string_array err na du item_max v name maximum = Inr ss"
  shows "clean_texts maximum item_max ss"
proof -
  from assms obtain vs where v: "v = JArr vs" and len: "length vs \<le> maximum"
    and m: "map_try (\<lambda>i item. bounded_string err item (index_path name i) item_max) 0 vs = Inr ss"
    and d: "distinct ss"
    by (auto simp: string_array_def result_simps not_less)
  have "\<forall>s\<in>set ss. clean_text item_max s"
    by (rule map_try_all[OF m]) (rule bounded_string_clean)
  with v len d map_try_length[OF m] show ?thesis
    by (auto simp: clean_texts_def list_all_iff)
qed

lemma string_array_encode [simp]:
  assumes "clean_texts maximum item_max ss"
  shows "string_array err na du item_max (texts_json ss) name maximum = Inr ss"
proof -
  have "map_try (\<lambda>i item. bounded_string err item (index_path name i) item_max) 0 (map JStr ss)
      = Inr ss"
    using assms by (intro map_try_encode) (auto simp: clean_texts_def list_all_iff)
  with assms show ?thesis
    by (simp add: string_array_def texts_json_def clean_texts_def)
qed

end
