(* ===== verification/Issue_Plan.thy ===== *)
theory Issue_Plan
  imports Json_Values
begin

text \<open>
  \<^verbatim>\<open>domain/issue-plan.ts\<close>: the data of an issue plan draft and its validator, which turns an
  unknown value (a planner's output, or the issues a user submits for a revision) into a draft
  or throws. The lemmas characterise the accepted values: the result is a normal form, and a
  normal form, written back as a value, is accepted unchanged.
\<close>

section \<open>Data\<close>

datatype completion_evidence_kind = Artifact | Test | Review | Commit | Push | Audit

record issue_acceptance =
  criterionRef :: string
  statement :: string

record completion_evidence_requirement =
  evidence_kind :: completion_evidence_kind
  description :: string
  required :: bool

record issue_conflict_resources =
  directories :: "string list"
  publicInterfaces :: "string list"
  databaseObjects :: "string list"
  sharedConfigurations :: "string list"
  landingOrder :: "string list"

record issue_draft =
  key :: string
  title :: string
  goal :: string
  requirementRefs :: "string list"
  acceptance :: "issue_acceptance list"
  nonGoals :: "string list"
  dependencyCandidates :: "string list"
  expectedFiles :: "string list"
  conflictResources :: issue_conflict_resources
  developmentPrompt :: string
  verify :: "string list"
  completionEvidence :: "completion_evidence_requirement list"

text \<open>The draft's only other field, \<open>schemaVersion\<close>, is a constant of the validated type.\<close>

type_synonym issue_plan_draft = "issue_draft list"

definition issuePlanDraftSchemaVersion :: string where
  "issuePlanDraftSchemaVersion = ''issue-plan-draft.v1''"

section \<open>The validator\<close>

abbreviation issue_object :: "json \<Rightarrow> string \<Rightarrow> string list \<Rightarrow> js_error + (string \<times> json) list" where
  "issue_object \<equiv> closed_object IssuePlanValidationError"

abbreviation stringValue :: "json \<Rightarrow> string \<Rightarrow> nat \<Rightarrow> js_error + string" where
  "stringValue \<equiv> bounded_string IssuePlanValidationError"

abbreviation stringArray :: "json \<Rightarrow> string \<Rightarrow> nat \<Rightarrow> js_error + string list" where
  "stringArray \<equiv> string_array IssuePlanValidationError '' must be a bounded string array''
     '' must not contain duplicates'' 2000"

definition issueKeys :: "string list" where
  "issueKeys = [''key'', ''title'', ''goal'', ''requirementRefs'', ''acceptance'', ''nonGoals'',
     ''dependencyCandidates'', ''expectedFiles'', ''conflictResources'', ''developmentPrompt'',
     ''verify'', ''completionEvidence'']"

definition conflictKeys :: "string list" where
  "conflictKeys = [''directories'', ''publicInterfaces'', ''databaseObjects'',
     ''sharedConfigurations'', ''landingOrder'']"

text \<open>The pattern \<^verbatim>\<open>^[A-Z][A-Z0-9-]*$\<close>.\<close>

fun issue_key_format :: "string \<Rightarrow> bool" where
  "issue_key_format [] \<longleftrightarrow> False"
| "issue_key_format (c # cs) \<longleftrightarrow> is_upper c \<and>
     list_all (\<lambda>d. is_upper d \<or> is_digit d \<or> d = CHR ''-'') cs"

fun evidence_kind_name :: "completion_evidence_kind \<Rightarrow> string" where
  "evidence_kind_name Artifact = ''artifact''"
| "evidence_kind_name Test = ''test''"
| "evidence_kind_name Review = ''review''"
| "evidence_kind_name Commit = ''commit''"
| "evidence_kind_name Push = ''push''"
| "evidence_kind_name Audit = ''audit''"

definition completionEvidenceKinds :: "completion_evidence_kind list" where
  "completionEvidenceKinds = [Artifact, Test, Review, Commit, Push, Audit]"

text \<open>\<open>completionEvidenceKinds.includes(value)\<close>, with the kind it names.\<close>

definition parse_evidence_kind :: "json \<Rightarrow> completion_evidence_kind option" where
  "parse_evidence_kind v = find (\<lambda>k. v = JStr (evidence_kind_name k)) completionEvidenceKinds"

definition validate_acceptance_item :: "string \<Rightarrow> nat \<Rightarrow> json \<Rightarrow> js_error + issue_acceptance" where
  "validate_acceptance_item name i item =
     (let path = index_path (name @ ''.acceptance'') i in
      and_then (issue_object item path [''criterionRef'', ''statement'']) (\<lambda>accepted.
      and_then (stringValue (js_get accepted ''criterionRef'') (path @ ''.criterionRef'') 100) (\<lambda>ref.
      and_then (stringValue (js_get accepted ''statement'') (path @ ''.statement'') 4000) (\<lambda>st.
      Inr \<lparr>criterionRef = ref, statement = st\<rparr>))))"

definition validate_conflict_resources :: "string \<Rightarrow> json \<Rightarrow> js_error + issue_conflict_resources" where
  "validate_conflict_resources name v =
     (let path = name @ ''.conflictResources'' in
      and_then (issue_object v path conflictKeys) (\<lambda>conflict.
      and_then (stringArray (js_get conflict ''directories'') (path @ ''.directories'') 100) (\<lambda>ds.
      and_then (stringArray (js_get conflict ''publicInterfaces'') (path @ ''.publicInterfaces'') 100) (\<lambda>ps.
      and_then (stringArray (js_get conflict ''databaseObjects'') (path @ ''.databaseObjects'') 100) (\<lambda>bs.
      and_then (stringArray (js_get conflict ''sharedConfigurations'') (path @ ''.sharedConfigurations'') 100) (\<lambda>ss.
      and_then (stringArray (js_get conflict ''landingOrder'') (path @ ''.landingOrder'') 100) (\<lambda>ls.
      Inr \<lparr>directories = ds, publicInterfaces = ps, databaseObjects = bs,
           sharedConfigurations = ss, landingOrder = ls\<rparr>)))))))"

definition validate_evidence_item ::
  "string \<Rightarrow> nat \<Rightarrow> json \<Rightarrow> js_error + completion_evidence_requirement" where
  "validate_evidence_item name i item =
     (let path = index_path (name @ ''.completionEvidence'') i in
      and_then (issue_object item path [''kind'', ''description'', ''required'']) (\<lambda>evidence.
      case (parse_evidence_kind (js_get evidence ''kind''), js_get evidence ''required'') of
        (Some k, JBool b) \<Rightarrow>
          and_then (stringValue (js_get evidence ''description'') (path @ ''.description'') 2000) (\<lambda>d.
          Inr \<lparr>evidence_kind = k, description = d, required = b\<rparr>)
      | _ \<Rightarrow> Inl (IssuePlanValidationError (path @ '' is invalid''))))"

text \<open>Everything the development prompt must quote.\<close>

definition required_context ::
  "string \<Rightarrow> string list \<Rightarrow> issue_acceptance list \<Rightarrow> string list \<Rightarrow> string list \<Rightarrow> string list" where
  "required_context g reqs acc ngs files =
     g # reqs @ map criterionRef acc @ map statement acc @ ngs @ files"

definition validate_acceptance :: "string \<Rightarrow> json \<Rightarrow> js_error + issue_acceptance list" where
  "validate_acceptance name v =
     (case v of
        JArr items \<Rightarrow>
          if length items > 200 then
            Inl (IssuePlanValidationError (name @ ''.acceptance must be a bounded array''))
          else and_then (map_try (validate_acceptance_item name) 0 items) (\<lambda>acc.
            if has_duplicates (map criterionRef acc) then
              Inl (IssuePlanValidationError (name @ ''.acceptance contains duplicate criterion refs''))
            else Inr acc)
      | _ \<Rightarrow> Inl (IssuePlanValidationError (name @ ''.acceptance must be a bounded array'')))"

definition validate_evidence :: "string \<Rightarrow> json \<Rightarrow> js_error + completion_evidence_requirement list" where
  "validate_evidence name v =
     (case v of
        JArr items \<Rightarrow>
          if items = [] \<or> length items > 50 then
            Inl (IssuePlanValidationError (name @ ''.completionEvidence must be non-empty and bounded''))
          else and_then (map_try (validate_evidence_item name) 0 items) (\<lambda>ev.
            if \<not> list_ex required ev then
              Inl (IssuePlanValidationError
                (name @ ''.completionEvidence requires at least one mandatory item''))
            else Inr ev)
      | _ \<Rightarrow> Inl (IssuePlanValidationError (name @ ''.completionEvidence must be non-empty and bounded'')))"

definition validateIssue :: "nat \<Rightarrow> json \<Rightarrow> js_error + issue_draft" where
  "validateIssue i v =
     (let name = index_path ''issues'' i in
      and_then (issue_object v name issueKeys) (\<lambda>rec.
      and_then (stringValue (js_get rec ''key'') (name @ ''.key'') 64) (\<lambda>k.
      if \<not> issue_key_format k then
        Inl (IssuePlanValidationError (name @ ''.key has an invalid format'')) else
      and_then (stringValue (js_get rec ''title'') (name @ ''.title'') 300) (\<lambda>t.
      and_then (stringValue (js_get rec ''goal'') (name @ ''.goal'') 4000) (\<lambda>g.
      and_then (stringArray (js_get rec ''requirementRefs'') (name @ ''.requirementRefs'') 100) (\<lambda>reqs.
      and_then (validate_acceptance name (js_get rec ''acceptance'')) (\<lambda>acc.
      and_then (stringArray (js_get rec ''nonGoals'') (name @ ''.nonGoals'') 100) (\<lambda>ngs.
      and_then (stringArray (js_get rec ''dependencyCandidates'') (name @ ''.dependencyCandidates'') 100) (\<lambda>deps.
      and_then (stringArray (js_get rec ''expectedFiles'') (name @ ''.expectedFiles'') 500) (\<lambda>files.
      and_then (validate_conflict_resources name (js_get rec ''conflictResources'')) (\<lambda>conflict.
      and_then (stringValue (js_get rec ''developmentPrompt'') (name @ ''.developmentPrompt'') 40000) (\<lambda>prompt.
      if length prompt < 80 then
        Inl (IssuePlanValidationError (name @ ''.developmentPrompt is not self-contained''))
      else if list_ex (\<lambda>context. \<not> str_includes prompt context)
                (required_context g reqs acc ngs files) then
        Inl (IssuePlanValidationError (name @ ''.developmentPrompt omits required context'')) else
      and_then (stringArray (js_get rec ''verify'') (name @ ''.verify'') 50) (\<lambda>commands.
      if commands = [] \<or> list_ex (\<lambda>c. \<not> str_includes prompt c) commands then
        Inl (IssuePlanValidationError
          (name @ ''.developmentPrompt must include verification commands'')) else
      and_then (validate_evidence name (js_get rec ''completionEvidence'')) (\<lambda>evidence.
      Inr \<lparr>key = k, title = t, goal = g, requirementRefs = reqs, acceptance = acc, nonGoals = ngs,
           dependencyCandidates = deps, expectedFiles = files, conflictResources = conflict,
           developmentPrompt = prompt, verify = commands, completionEvidence = evidence\<rparr>))))))))))))))"

definition validateIssuePlanDraft :: "json \<Rightarrow> js_error + issue_plan_draft" where
  "validateIssuePlanDraft v =
     and_then (issue_object v ''issuePlanDraft'' [''schemaVersion'', ''issues'']) (\<lambda>rec.
     if js_get rec ''schemaVersion'' \<noteq> JStr issuePlanDraftSchemaVersion then
       Inl (IssuePlanValidationError (''schemaVersion must be '' @ issuePlanDraftSchemaVersion))
     else
       (case js_get rec ''issues'' of
          JArr items \<Rightarrow>
            if items = [] \<or> length items > 100 then
              Inl (IssuePlanValidationError ''issues must be non-empty and bounded'')
            else and_then (map_try validateIssue 0 items) (\<lambda>issues.
              if has_duplicates (map key issues) then
                Inl (IssuePlanValidationError ''issue keys must be unique'')
              else Inr issues)
        | _ \<Rightarrow> Inl (IssuePlanValidationError ''issues must be non-empty and bounded'')))"

section \<open>The normal form of a draft\<close>

definition clean_acceptance :: "issue_acceptance \<Rightarrow> bool" where
  "clean_acceptance a \<longleftrightarrow> clean_text 100 (criterionRef a) \<and> clean_text 4000 (statement a)"

definition clean_conflicts :: "issue_conflict_resources \<Rightarrow> bool" where
  "clean_conflicts c \<longleftrightarrow> clean_texts 100 2000 (directories c) \<and>
     clean_texts 100 2000 (publicInterfaces c) \<and> clean_texts 100 2000 (databaseObjects c) \<and>
     clean_texts 100 2000 (sharedConfigurations c) \<and> clean_texts 100 2000 (landingOrder c)"

definition clean_issue :: "issue_draft \<Rightarrow> bool" where
  "clean_issue d \<longleftrightarrow>
     clean_text 64 (key d) \<and> issue_key_format (key d) \<and>
     clean_text 300 (title d) \<and> clean_text 4000 (goal d) \<and>
     clean_texts 100 2000 (requirementRefs d) \<and>
     length (acceptance d) \<le> 200 \<and> distinct (map criterionRef (acceptance d)) \<and>
     list_all clean_acceptance (acceptance d) \<and>
     clean_texts 100 2000 (nonGoals d) \<and> clean_texts 100 2000 (dependencyCandidates d) \<and>
     clean_texts 500 2000 (expectedFiles d) \<and> clean_conflicts (conflictResources d) \<and>
     clean_text 40000 (developmentPrompt d) \<and> length (developmentPrompt d) \<ge> 80 \<and>
     list_all (\<lambda>c. sublist c (developmentPrompt d))
       (required_context (goal d) (requirementRefs d) (acceptance d) (nonGoals d) (expectedFiles d)) \<and>
     clean_texts 50 2000 (verify d) \<and> verify d \<noteq> [] \<and>
     list_all (\<lambda>c. sublist c (developmentPrompt d)) (verify d) \<and>
     completionEvidence d \<noteq> [] \<and> length (completionEvidence d) \<le> 50 \<and>
     list_all (\<lambda>e. clean_text 2000 (description e)) (completionEvidence d) \<and>
     list_ex required (completionEvidence d)"

definition clean_draft :: "issue_plan_draft \<Rightarrow> bool" where
  "clean_draft ds \<longleftrightarrow> ds \<noteq> [] \<and> length ds \<le> 100 \<and> distinct (map key ds) \<and> list_all clean_issue ds"

section \<open>A draft written back as a value\<close>

definition acceptance_json :: "issue_acceptance \<Rightarrow> json" where
  "acceptance_json a = JObj [(''criterionRef'', JStr (criterionRef a)), (''statement'', JStr (statement a))]"

definition conflicts_json :: "issue_conflict_resources \<Rightarrow> json" where
  "conflicts_json c = JObj [(''directories'', texts_json (directories c)),
     (''publicInterfaces'', texts_json (publicInterfaces c)),
     (''databaseObjects'', texts_json (databaseObjects c)),
     (''sharedConfigurations'', texts_json (sharedConfigurations c)),
     (''landingOrder'', texts_json (landingOrder c))]"

definition evidence_json :: "completion_evidence_requirement \<Rightarrow> json" where
  "evidence_json e = JObj [(''kind'', JStr (evidence_kind_name (evidence_kind e))),
     (''description'', JStr (description e)), (''required'', JBool (required e))]"

definition issue_json :: "issue_draft \<Rightarrow> json" where
  "issue_json d = JObj [(''key'', JStr (key d)), (''title'', JStr (title d)), (''goal'', JStr (goal d)),
     (''requirementRefs'', texts_json (requirementRefs d)),
     (''acceptance'', JArr (map acceptance_json (acceptance d))),
     (''nonGoals'', texts_json (nonGoals d)),
     (''dependencyCandidates'', texts_json (dependencyCandidates d)),
     (''expectedFiles'', texts_json (expectedFiles d)),
     (''conflictResources'', conflicts_json (conflictResources d)),
     (''developmentPrompt'', JStr (developmentPrompt d)),
     (''verify'', texts_json (verify d)),
     (''completionEvidence'', JArr (map evidence_json (completionEvidence d)))]"

definition draft_json :: "issue_plan_draft \<Rightarrow> json" where
  "draft_json ds = JObj [(''schemaVersion'', JStr issuePlanDraftSchemaVersion),
     (''issues'', JArr (map issue_json ds))]"

section \<open>Accepted values are normal forms\<close>

named_theorems clean_results \<comment> \<open>what a successful part validator says of its result\<close>

declare bounded_string_clean [clean_results] string_array_clean [clean_results]

lemma validate_acceptance_item_clean [clean_results]:
  "validate_acceptance_item name i v = Inr a \<Longrightarrow> clean_acceptance a"
  by (auto simp: validate_acceptance_item_def clean_acceptance_def Let_def result_simps
      intro: clean_results)

lemma validate_acceptance_clean [clean_results]:
  assumes "validate_acceptance name v = Inr acc"
  shows "length acc \<le> 200 \<and> distinct (map criterionRef acc) \<and> list_all clean_acceptance acc"
proof -
  from assms obtain items where len: "length items \<le> 200"
    and m: "map_try (validate_acceptance_item name) 0 items = Inr acc"
    and d: "distinct (map criterionRef acc)"
    by (auto simp: validate_acceptance_def result_simps not_less)
  have "\<forall>a\<in>set acc. clean_acceptance a"
    by (rule map_try_all[OF m]) (rule validate_acceptance_item_clean)
  with len d map_try_length[OF m] show ?thesis by (simp add: list_all_iff)
qed

lemma validate_conflict_resources_clean [clean_results]:
  "validate_conflict_resources name v = Inr c \<Longrightarrow> clean_conflicts c"
  by (auto simp: validate_conflict_resources_def clean_conflicts_def Let_def result_simps
      intro: clean_results)

lemma validate_evidence_item_clean [clean_results]:
  "validate_evidence_item name i v = Inr e \<Longrightarrow> clean_text 2000 (description e)"
  by (auto simp: validate_evidence_item_def Let_def result_simps
      intro: clean_results)

lemma validate_evidence_clean [clean_results]:
  assumes "validate_evidence name v = Inr es"
  shows "es \<noteq> [] \<and> length es \<le> 50 \<and> list_all (\<lambda>e. clean_text 2000 (description e)) es \<and>
    list_ex required es"
proof -
  from assms obtain items where len: "items \<noteq> []" "length items \<le> 50"
    and m: "map_try (validate_evidence_item name) 0 items = Inr es" and r: "list_ex required es"
    by (auto simp: validate_evidence_def result_simps not_less)
  have "\<forall>e\<in>set es. clean_text 2000 (description e)"
    by (rule map_try_all[OF m]) (rule validate_evidence_item_clean)
  with len r map_try_length[OF m] show ?thesis by (auto simp: list_all_iff)
qed

lemma not_list_ex: "\<not> list_ex (\<lambda>x. \<not> P x) xs \<longleftrightarrow> list_all P xs"
  by (auto simp: list_all_iff list_ex_iff)

lemma validateIssue_clean [clean_results]:
  assumes "validateIssue i v = Inr d"
  shows "clean_issue d"
proof -
  note [simp] = str_includes_iff_sublist not_list_ex
  from assms obtain k t g reqs acc ngs deps files conflict prompt commands evidence name fs where
    d: "d = \<lparr>key = k, title = t, goal = g, requirementRefs = reqs, acceptance = acc, nonGoals = ngs,
           dependencyCandidates = deps, expectedFiles = files, conflictResources = conflict,
           developmentPrompt = prompt, verify = commands, completionEvidence = evidence\<rparr>"
    and parts: "stringValue (js_get fs ''key'') (name @ ''.key'') 64 = Inr k"
      "issue_key_format k"
      "stringValue (js_get fs ''title'') (name @ ''.title'') 300 = Inr t"
      "stringValue (js_get fs ''goal'') (name @ ''.goal'') 4000 = Inr g"
      "stringArray (js_get fs ''requirementRefs'') (name @ ''.requirementRefs'') 100 = Inr reqs"
      "validate_acceptance name (js_get fs ''acceptance'') = Inr acc"
      "stringArray (js_get fs ''nonGoals'') (name @ ''.nonGoals'') 100 = Inr ngs"
      "stringArray (js_get fs ''dependencyCandidates'') (name @ ''.dependencyCandidates'') 100 = Inr deps"
      "stringArray (js_get fs ''expectedFiles'') (name @ ''.expectedFiles'') 500 = Inr files"
      "validate_conflict_resources name (js_get fs ''conflictResources'') = Inr conflict"
      "stringValue (js_get fs ''developmentPrompt'') (name @ ''.developmentPrompt'') 40000 = Inr prompt"
      "80 \<le> length prompt"
      "list_all (\<lambda>c. sublist c prompt) (required_context g reqs acc ngs files)"
      "stringArray (js_get fs ''verify'') (name @ ''.verify'') 50 = Inr commands"
      "commands \<noteq> []" "list_all (\<lambda>c. sublist c prompt) commands"
      "validate_evidence name (js_get fs ''completionEvidence'') = Inr evidence"
    by (auto simp: validateIssue_def Let_def result_simps not_less)
  from parts(6,17) show ?thesis
    using parts by (simp add: d clean_issue_def clean_results)
qed

lemma validateIssuePlanDraft_clean:
  assumes "validateIssuePlanDraft v = Inr ds"
  shows "clean_draft ds"
proof -
  from assms obtain items where len: "items \<noteq> []" "length items \<le> 100"
    and m: "map_try validateIssue 0 items = Inr ds" and dist: "distinct (map key ds)"
    by (auto simp: validateIssuePlanDraft_def result_simps not_less)
  have "\<forall>d\<in>set ds. clean_issue d"
    by (rule map_try_all[OF m]) (rule validateIssue_clean)
  with len dist map_try_length[OF m] show ?thesis by (auto simp: clean_draft_def list_all_iff)
qed

section \<open>Normal forms are accepted unchanged\<close>

lemma parse_evidence_kind_name [simp]: "parse_evidence_kind (JStr (evidence_kind_name k)) = Some k"
  by (cases k) (simp_all add: parse_evidence_kind_def completionEvidenceKinds_def)

lemma validate_acceptance_item_json:
  "clean_acceptance a \<Longrightarrow> validate_acceptance_item name i (acceptance_json a) = Inr a"
  by (simp add: validate_acceptance_item_def acceptance_json_def clean_acceptance_def
      closed_object_exact)

lemma validate_acceptance_json:
  "length acc \<le> 200 \<Longrightarrow> distinct (map criterionRef acc) \<Longrightarrow> list_all clean_acceptance acc \<Longrightarrow>
     validate_acceptance name (JArr (map acceptance_json acc)) = Inr acc"
  by (simp add: validate_acceptance_def map_try_encode validate_acceptance_item_json list_all_iff)

lemma validate_conflict_resources_json:
  "clean_conflicts c \<Longrightarrow> validate_conflict_resources name (conflicts_json c) = Inr c"
  by (simp add: validate_conflict_resources_def conflicts_json_def clean_conflicts_def
      closed_object_exact conflictKeys_def)

lemma validate_evidence_item_json:
  "clean_text 2000 (description e) \<Longrightarrow> validate_evidence_item name i (evidence_json e) = Inr e"
  by (simp add: validate_evidence_item_def evidence_json_def closed_object_exact)

lemma validate_evidence_json:
  "es \<noteq> [] \<Longrightarrow> length es \<le> 50 \<Longrightarrow> list_all (\<lambda>e. clean_text 2000 (description e)) es \<Longrightarrow>
     list_ex required es \<Longrightarrow> validate_evidence name (JArr (map evidence_json es)) = Inr es"
  by (simp add: validate_evidence_def map_try_encode validate_evidence_item_json list_all_iff)

lemma validateIssue_json:
  assumes "clean_issue d"
  shows "validateIssue i (issue_json d) = Inr d"
proof -
  have obj: "issue_object (issue_json d) name issueKeys =
      Inr (case issue_json d of JObj fs \<Rightarrow> fs | _ \<Rightarrow> [])" for name
    unfolding issue_json_def json.case by (rule closed_object_exact) (simp add: issueKeys_def)
  note [simp] = str_includes_iff_sublist not_list_ex
  from assms show ?thesis
    by (simp add: validateIssue_def Let_def obj clean_issue_def)
       (simp add: issue_json_def validate_acceptance_json validate_conflict_resources_json
          validate_evidence_json)
qed

lemma validateIssuePlanDraft_json:
  assumes "clean_draft ds"
  shows "validateIssuePlanDraft (draft_json ds) = Inr ds"
proof -
  have "map_try validateIssue 0 (map issue_json ds) = Inr ds"
    using assms by (intro map_try_encode validateIssue_json) (auto simp: clean_draft_def list_all_iff)
  with assms show ?thesis
    by (simp add: validateIssuePlanDraft_def draft_json_def closed_object_exact clean_draft_def)
qed

section \<open>Properties\<close>

text \<open>
  Property C37. The drafts the validator can return are exactly the normal forms: between 1 and
  100 issues with distinct well-formed keys, every text trimmed, non-blank and within its
  limit, every list free of duplicates and within its limit, at least one verification command
  and one mandatory piece of evidence, and a development prompt of at least 80 characters that
  quotes the goal, every reference, statement, non-goal, file and command of its issue. A
  draft written back as a value is accepted, unchanged, exactly when it is such a normal form;
  so validating the issues of a stored plan again, as a revision does, cannot fail or change
  them.
\<close>

theorem validated_drafts_are_normal_forms:
  "((\<exists>v. validateIssuePlanDraft v = Inr ds) \<longleftrightarrow> clean_draft ds) \<and>
   (validateIssuePlanDraft (draft_json ds) = Inr ds \<longleftrightarrow> clean_draft ds)"
  using validateIssuePlanDraft_clean validateIssuePlanDraft_json by blast

text \<open>
  The closed-object check has a hole: \<open>find\<close> returns the first unknown property
  name and \<open>if (unknown)\<close> treats the empty name as none. An object that lists a property with
  the empty name first is validated as if it had no unknown property, so any further unknown
  property \<open>k\<close> passes; without the empty name the same object is rejected for \<open>k\<close>.
\<close>

theorem empty_property_name_hides_unknown_ones:
  assumes "k \<notin> {'''', ''schemaVersion'', ''issues''}"
  shows "validateIssuePlanDraft (JObj [('''', x), (k, y), (''schemaVersion'', s), (''issues'', i)]) =
      validateIssuePlanDraft (JObj [(''schemaVersion'', s), (''issues'', i)]) \<and>
    validateIssuePlanDraft (JObj [(k, y), (''schemaVersion'', s), (''issues'', i)]) =
      Inl (IssuePlanValidationError (''issuePlanDraft.'' @ k @ '' is not allowed''))"
  using assms
  by (simp add: validateIssuePlanDraft_def closed_object_def truthy_string_def)

theorem empty_property_name_hides_unknown_ones_witness:
  "''debug'' \<notin> {'''', ''schemaVersion'', ''issues''} \<and>
   validateIssuePlanDraft (JObj [(''debug'', JNull), (''schemaVersion'', JNull), (''issues'', JNull)]) =
     Inl (IssuePlanValidationError ''issuePlanDraft.debug is not allowed'')"
proof -
  have h: "''debug'' \<notin> {'''', ''schemaVersion'', ''issues''}" by simp
  show ?thesis
    using h empty_property_name_hides_unknown_ones[OF h, of JNull JNull JNull JNull] by simp
qed

section \<open>A sample issue\<close>

text \<open>Used by the witnesses of this and later theories.\<close>

definition sample_issue :: "string \<Rightarrow> string list \<Rightarrow> string list \<Rightarrow> issue_draft" where
  "sample_issue k deps files = \<lparr>
     key = k, title = ''Title'', goal = ''Goal'', requirementRefs = [''R1''],
     acceptance = [\<lparr>criterionRef = ''A1'', statement = ''Works''\<rparr>], nonGoals = [],
     dependencyCandidates = deps, expectedFiles = files,
     conflictResources = \<lparr>directories = [], publicInterfaces = [], databaseObjects = [],
       sharedConfigurations = [], landingOrder = []\<rparr>,
     developmentPrompt = ''Goal. Requirement R1 with criterion A1: Works. Verify with make test.'' @
       concat (map (\<lambda>f. '' File '' @ f) files) @ '' End of the prompt.'',
     verify = [''make test''],
     completionEvidence = [\<lparr>evidence_kind = Test, description = ''suite'', required = True\<rparr>]\<rparr>"

lemma sample_draft_clean: "clean_draft [sample_issue ''A'' [] [''x.ts''], sample_issue ''B'' [''A''] []]"
  by (simp add: clean_draft_def clean_issue_def sample_issue_def clean_text_def clean_texts_def
      clean_acceptance_def clean_conflicts_def required_context_def trim_def is_space_def
      is_upper_def is_digit_def less_eq_char_def flip: str_includes_iff_sublist)

end
