(* ===== verification/Layering.thy ===== *)
theory Layering
  imports Prelude
begin

text \<open>
  Two loops of \<^verbatim>\<open>domain/\<close> peel a dependency map layer by layer: the topological order of the
  issue compiler and the execution waves. Both keep a \<open>Map\<close> from the remaining keys to the
  \<open>Set\<close> of their unmet dependencies, take the keys without unmet dependencies, pick some of
  them, and delete the picked keys from the map and from every set. This theory models the
  shared steps and states the contract of such a loop as a locale; the lemmas of the locale
  say that the layers respect the dependencies, repeat no key, and cover all keys exactly when
  the dependencies are acyclic.
\<close>

type_synonym remaining = "(string \<times> string list) list"

section \<open>Steps on the map of unmet dependencies\<close>

definition ready :: "remaining \<Rightarrow> string list" where
  "ready rem = sort (map fst (filter (\<lambda>(k, ds). ds = []) rem))"

definition drop_key :: "string \<Rightarrow> remaining \<Rightarrow> remaining" where
  "drop_key k rem =
     map (\<lambda>(k', ds). (k', filter (\<lambda>d. d \<noteq> k) ds)) (filter (\<lambda>(k', ds). k' \<noteq> k) rem)"

definition drop_keys :: "string list \<Rightarrow> remaining \<Rightarrow> remaining" where
  "drop_keys ks rem = fold drop_key ks rem"

lemma drop_keys_simps [simp]:
  "drop_keys [] rem = rem"
  "drop_keys (k # ks) rem = drop_keys ks (drop_key k rem)"
  by (simp_all add: drop_keys_def)

lemma drop_keys_eq:
  "drop_keys ks rem =
     map (\<lambda>(k, ds). (k, filter (\<lambda>d. d \<notin> set ks) ds)) (filter (\<lambda>(k, ds). k \<notin> set ks) rem)"
proof (induction ks arbitrary: rem)
  case Nil
  have "map (\<lambda>(k, ds). (k, filter (\<lambda>d. True) ds)) rem = rem"
    by (induction rem) auto
  then show ?case by simp
next
  case (Cons k ks)
  have "drop_keys (k # ks) rem = drop_keys ks (drop_key k rem)" by simp
  also have "\<dots> = map (\<lambda>(k', ds). (k', filter (\<lambda>d. d \<notin> set (k # ks)) ds))
      (filter (\<lambda>(k', ds). k' \<notin> set (k # ks)) rem)"
    unfolding Cons.IH by (induction rem) (auto simp: drop_key_def conj_commute)
  finally show ?case .
qed

lemma in_drop_keys:
  "(k, es) \<in> set (drop_keys ks rem) \<longleftrightarrow>
     k \<notin> set ks \<and> (\<exists>ds. (k, ds) \<in> set rem \<and> es = filter (\<lambda>d. d \<notin> set ks) ds)"
  by (auto simp: drop_keys_eq)

lemma keys_drop_keys: "fst ` set (drop_keys ks rem) = fst ` set rem - set ks"
  by (force simp: drop_keys_eq)

lemma distinct_drop_keys:
  "distinct (map fst rem) \<Longrightarrow> distinct (map fst (drop_keys ks rem))"
proof -
  assume d: "distinct (map fst rem)"
  have "map fst (drop_keys ks rem) = filter (\<lambda>k. k \<notin> set ks) (map fst rem)"
    by (induction rem) (auto simp: drop_keys_eq)
  with d show ?thesis by simp
qed

lemma in_ready: "k \<in> set (ready rem) \<longleftrightarrow> (k, []) \<in> set rem"
  by (force simp: ready_def)

lemma distinct_ready: "distinct (map fst rem) \<Longrightarrow> distinct (ready rem)"
  by (simp add: ready_def distinct_map_filter)

lemma drop_keys_shorter:
  assumes "ks \<noteq> []" and "set ks \<subseteq> fst ` set rem"
  shows "length (drop_keys ks rem) < length rem"
proof -
  from assms obtain k where "k \<in> set ks" "k \<in> fst ` set rem" by (cases ks) auto
  then obtain ds where "(k, ds) \<in> set rem" "k \<in> set ks" by auto
  then show ?thesis
    by (auto simp: drop_keys_eq intro!: length_filter_less[of "(k, ds)"])
qed

text \<open>The dependency relation of a map, from a dependency to the key that needs it.\<close>

definition needs :: "remaining \<Rightarrow> (string \<times> string) set" where
  "needs rem = {(d, k). \<exists>ds. (k, ds) \<in> set rem \<and> d \<in> set ds}"

definition closed_map :: "remaining \<Rightarrow> bool" where
  "closed_map rem \<longleftrightarrow> (\<forall>(k, ds) \<in> set rem. set ds \<subseteq> fst ` set rem)"

lemma finite_needs: "finite (needs rem)"
proof -
  have "needs rem \<subseteq> (\<Union>(k, ds) \<in> set rem. set ds \<times> {k})" by (auto simp: needs_def)
  then show ?thesis by (rule finite_subset) auto
qed

lemma needs_drop_keys: "needs (drop_keys ks rem) \<subseteq> needs rem"
  by (auto simp: needs_def in_drop_keys)

lemma closed_drop_keys: "closed_map rem \<Longrightarrow> closed_map (drop_keys ks rem)"
  unfolding closed_map_def keys_drop_keys by (fastforce simp: in_drop_keys)

text \<open>An acyclic map that is closed and not empty has a key without dependencies.\<close>

lemma ready_nonempty:
  assumes "acyclic (needs rem)" and "closed_map rem" and "rem \<noteq> []"
  shows "ready rem \<noteq> []"
proof -
  from assms(1) finite_needs have "wf (needs rem)" by (rule finite_acyclic_wf[rotated])
  moreover from assms(3) obtain x where "x \<in> fst ` set rem" by (cases rem) auto
  ultimately obtain k where k: "k \<in> fst ` set rem"
    and min: "\<And>d. (d, k) \<in> needs rem \<Longrightarrow> d \<notin> fst ` set rem"
    by (rule wfE_min) blast
  from k obtain ds where kds: "(k, ds) \<in> set rem" by auto
  have "d \<notin> set ds" for d
  proof
    assume "d \<in> set ds"
    with kds have "(d, k) \<in> needs rem" by (auto simp: needs_def)
    moreover from kds \<open>d \<in> set ds\<close> assms(2) have "d \<in> fst ` set rem"
      by (auto simp: closed_map_def)
    ultimately show False using min by blast
  qed
  then have "ds = []" by (cases ds) auto
  with kds have "k \<in> set (ready rem)" by (simp add: in_ready)
  then show ?thesis by (cases "ready rem") auto
qed

section \<open>The contract of a peeling loop\<close>

locale layering =
  fixes loop :: "remaining \<Rightarrow> string list list"
    and pick :: "string list \<Rightarrow> string list"
  assumes loop_stop: "ready rem = [] \<Longrightarrow> loop rem = []"
    and loop_step: "ready rem \<noteq> [] \<Longrightarrow>
      loop rem = pick (ready rem) # loop (drop_keys (pick (ready rem)) rem)"
    and pick_nonempty: "ks \<noteq> [] \<Longrightarrow> pick ks \<noteq> []"
    and pick_subset: "set (pick ks) \<subseteq> set ks"
    and pick_distinct: "distinct ks \<Longrightarrow> distinct (pick ks)"
begin

lemma picked_keys: "set (pick (ready rem)) \<subseteq> fst ` set rem"
  using pick_subset[of "ready rem"] by (force simp: in_ready)

lemma shorter: "ready rem \<noteq> [] \<Longrightarrow> length (drop_keys (pick (ready rem)) rem) < length rem"
  by (rule drop_keys_shorter) (simp_all add: pick_nonempty picked_keys)

lemma layering_induct [case_names stop step]:
  assumes stop: "\<And>rem. ready rem = [] \<Longrightarrow> P rem"
    and step: "\<And>rem. ready rem \<noteq> [] \<Longrightarrow> P (drop_keys (pick (ready rem)) rem) \<Longrightarrow> P rem"
  shows "P rem"
proof (induction rem rule: measure_induct_rule[of length])
  case (less rem)
  show ?case
    using stop step shorter less by (cases "ready rem = []") blast+
qed

lemma layers_keys: "set (concat (loop rem)) \<subseteq> fst ` set rem"
proof (induction rem rule: layering_induct)
  case (stop rem)
  then show ?case by (simp add: loop_stop)
next
  case (step rem)
  then show ?case
    using picked_keys[of rem] by (auto simp: loop_step keys_drop_keys)
qed

lemma layers_distinct: "distinct (map fst rem) \<Longrightarrow> distinct (concat (loop rem))"
proof (induction rem rule: layering_induct)
  case (stop rem)
  then show ?case by (simp add: loop_stop)
next
  case (step rem)
  have "distinct (pick (ready rem))"
    using step.prems by (intro pick_distinct distinct_ready)
  moreover have "distinct (concat (loop (drop_keys (pick (ready rem)) rem)))"
    using step.prems by (intro step.IH distinct_drop_keys)
  moreover have "set (concat (loop (drop_keys (pick (ready rem)) rem))) \<inter> set (pick (ready rem)) = {}"
    using layers_keys[of "drop_keys (pick (ready rem)) rem"] by (auto simp: keys_drop_keys)
  ultimately show ?case using step.hyps by (auto simp: loop_step)
qed

text \<open>Every layer is not empty and consists of keys whose dependencies lie in earlier layers.\<close>

lemma layers_nonempty: "[] \<notin> set (loop rem)"
proof (induction rem rule: layering_induct)
  case (stop rem)
  then show ?case by (simp add: loop_stop)
next
  case (step rem)
  then show ?case using pick_nonempty[of "ready rem"] by (auto simp: loop_step)
qed

lemma layers_respect_needs:
  assumes "distinct (map fst rem)" and "loop rem = pre @ layer # post"
    and "k \<in> set layer" and "(k, ds) \<in> set rem"
  shows "set ds \<subseteq> set (concat pre)"
  using assms
proof (induction rem arbitrary: pre ds rule: layering_induct)
  case (stop rem)
  then show ?case by (simp add: loop_stop)
next
  case (step rem)
  let ?p = "pick (ready rem)" and ?rem = "drop_keys (pick (ready rem)) rem"
  from step.hyps step.prems(2) have eq: "?p # loop ?rem = pre @ layer # post"
    by (simp add: loop_step)
  show ?case
  proof (cases pre)
    case Nil
    with eq step.prems(3) have "k \<in> set ?p" by simp
    then have "k \<in> set (ready rem)" using pick_subset by blast
    then have "(k, []) \<in> set rem" by (simp add: in_ready)
    with step.prems(1,4) have "ds = []" by (rule eq_key_imp_eq_value)
    then show ?thesis by simp
  next
    case (Cons l pre')
    note parts = eq[unfolded Cons append_Cons list.inject]
    then have l: "l = ?p" by simp
    from parts have rest: "loop ?rem = pre' @ layer # post" by (rule conjunct2)
    from rest step.prems(3) have "k \<in> set (concat (loop ?rem))" by auto
    then have "k \<notin> set ?p" using layers_keys[of ?rem] by (auto simp: keys_drop_keys)
    with step.prems(4) have "(k, filter (\<lambda>d. d \<notin> set ?p) ds) \<in> set ?rem"
      by (auto simp: in_drop_keys)
    from step.IH[OF distinct_drop_keys[OF step.prems(1)] rest step.prems(3) this]
    show ?thesis using Cons l by auto
  qed
qed

lemma layers_complete:
  assumes "acyclic (needs rem)" and "closed_map rem"
  shows "set (concat (loop rem)) = fst ` set rem"
  using assms
proof (induction rem rule: layering_induct)
  case (stop rem)
  with ready_nonempty have "rem = []" by blast
  with stop.hyps show ?case by (simp add: loop_stop)
next
  case (step rem)
  have "acyclic (needs (drop_keys (pick (ready rem)) rem))"
    using step.prems(1) needs_drop_keys by (rule acyclic_subset)
  with step.IH step.prems(2)
  have "set (concat (loop (drop_keys (pick (ready rem)) rem))) = fst ` set rem - set (pick (ready rem))"
    by (simp add: closed_drop_keys keys_drop_keys)
  with step.hyps picked_keys[of rem] show ?case by (auto simp: loop_step)
qed

lemma acyclic_if_complete:
  assumes "distinct (map fst rem)" and "set (concat (loop rem)) = fst ` set rem"
  shows "acyclic (needs rem)"
  using assms
proof (induction rem rule: layering_induct)
  case (stop rem)
  then have "rem = []" by (simp add: loop_stop)
  then show ?case by (simp add: needs_def acyclic_def)
next
  case (step rem)
  let ?p = "pick (ready rem)" and ?rem = "drop_keys (pick (ready rem)) rem"
  have dis: "set (concat (loop ?rem)) \<inter> set ?p = {}"
    using layers_keys[of ?rem] by (auto simp: keys_drop_keys)
  with step.hyps step.prems have "set (concat (loop ?rem)) = fst ` set ?rem"
    by (auto simp: loop_step keys_drop_keys)
  with step.IH distinct_drop_keys[OF step.prems(1)] have IH: "acyclic (needs ?rem)" by blast
  have picked: "ds = []" if "(k, ds) \<in> set rem" "k \<in> set ?p" for k ds
    using that pick_subset[of "ready rem"] step.prems(1)
    by (metis eq_key_imp_eq_value in_ready subsetD)
  have split: "(a, b) \<in> needs ?rem \<or> a \<in> set ?p" and no_in: "b \<notin> set ?p"
    if "(a, b) \<in> needs rem" for a b
    using that picked by (fastforce simp: needs_def in_drop_keys)+
  have path: "(a, b) \<in> (needs ?rem)\<^sup>+ \<or> a \<in> set ?p" "b \<notin> set ?p" if "(a, b) \<in> (needs rem)\<^sup>+" for a b
    using that
  proof (induction rule: trancl_induct)
    case (base y)
    { case 1 then show ?case using split[OF base] by blast
    next case 2 then show ?case using no_in[OF base] . }
  next
    case (step y z)
    { case 1 then show ?case using step.IH split[OF step.hyps(2)]
        by (meson trancl.trancl_into_trancl)
    next case 2 then show ?case using no_in[OF step.hyps(2)] . }
  qed
  show ?case
  proof (rule acyclicI, intro allI notI)
    fix x assume "(x, x) \<in> (needs rem)\<^sup>+"
    with path[OF this] IH show False by (auto simp: acyclic_def)
  qed
qed

end

end
