(* ===== verification/Dependency_Graph.thy ===== *)
theory Dependency_Graph
  imports Layering
begin

text \<open>
  The two graph algorithms of \<^verbatim>\<open>domain/issue-compiler.ts\<close>: the depth-first search for a
  dependency cycle and the layered topological order. The search keeps a mark per visited key
  and the stack of the keys being visited, as the code does; its recursion carries fuel, and
  \<open>findCycle_fuel\<close> shows that one unit per key of the map (and one more) always suffices. The
  lemmas show that the search answers with a real cycle, and with none exactly when the
  dependencies are acyclic.
\<close>

type_synonym dependency_map = "(string \<times> string list) list"

section \<open>The cycle search\<close>

datatype mark = Visiting | Done

datatype visit_result =
    Cycle "string list"
  | Continue "string \<rightharpoonup> mark" "string list"
  | Out_of_fuel

text \<open>\<open>stack.slice(stack.indexOf(x))\<close>; an index of -1 slices off the last element.\<close>

definition slice_from :: "string \<Rightarrow> string list \<Rightarrow> string list" where
  "slice_from x stack =
     (if x \<in> set stack then dropWhile (\<lambda>y. y \<noteq> x) stack else drop (length stack - 1) stack)"

definition successors :: "dependency_map \<Rightarrow> string \<Rightarrow> string list" where
  "successors g k = (case map_of g k of None \<Rightarrow> [] | Some ds \<Rightarrow> sort ds)"

fun visit :: "nat \<Rightarrow> dependency_map \<Rightarrow> string \<Rightarrow> (string \<rightharpoonup> mark) \<Rightarrow> string list \<Rightarrow> visit_result"
  and visit_deps ::
    "nat \<Rightarrow> dependency_map \<Rightarrow> string list \<Rightarrow> (string \<rightharpoonup> mark) \<Rightarrow> string list \<Rightarrow> visit_result"
where
  "visit 0 g k st stack = Out_of_fuel"
| "visit (Suc n) g k st stack =
     (case visit_deps n g (successors g k) (st(k \<mapsto> Visiting)) (stack @ [k]) of
        Continue st' stack' \<Rightarrow> Continue (st'(k \<mapsto> Done)) (butlast stack')
      | r \<Rightarrow> r)"
| "visit_deps n g [] st stack = Continue st stack"
| "visit_deps n g (d # ds) st stack =
     (if map_of g d = None then visit_deps n g ds st stack
      else if st d = Some Visiting then Cycle (slice_from d stack @ [d])
      else if st d = None then
        (case visit n g d st stack of
           Continue st' stack' \<Rightarrow> visit_deps n g ds st' stack'
         | r \<Rightarrow> r)
      else visit_deps n g ds st stack)"

fun visit_roots ::
  "nat \<Rightarrow> dependency_map \<Rightarrow> string list \<Rightarrow> (string \<rightharpoonup> mark) \<Rightarrow> string list \<Rightarrow> visit_result" where
  "visit_roots n g [] st stack = Continue st stack"
| "visit_roots n g (k # ks) st stack =
     (if st k = None then
        (case visit n g k st stack of
           Continue st' stack' \<Rightarrow> visit_roots n g ks st' stack'
         | r \<Rightarrow> r)
      else visit_roots n g ks st stack)"

definition findCycle :: "string list \<Rightarrow> dependency_map \<Rightarrow> string list" where
  "findCycle keys g =
     (case visit_roots (Suc (length g)) g (sort keys) Map.empty [] of Cycle c \<Rightarrow> c | _ \<Rightarrow> [])"

section \<open>The topological order\<close>

text \<open>The map of the remaining keys: every key once, with its known dependencies as a set.\<close>

definition remaining_of :: "string list \<Rightarrow> dependency_map \<Rightarrow> remaining" where
  "remaining_of keys g =
     (let uniqueKeys = sort (js_set keys) in
      map (\<lambda>k. (k, js_set (filter (\<lambda>d. d \<in> set uniqueKeys)
             (case map_of g k of None \<Rightarrow> [] | Some ds \<Rightarrow> ds)))) uniqueKeys)"

text \<open>The while loop, one list of keys per round.\<close>

function topo_rounds :: "remaining \<Rightarrow> string list list" where
  "topo_rounds rem =
     (if ready rem = [] then [] else ready rem # topo_rounds (drop_keys (ready rem) rem))"
  by pat_completeness auto
termination
proof (relation "measure length")
  fix rem assume "ready rem \<noteq> []"
  moreover have "set (ready rem) \<subseteq> fst ` set rem" by (force simp: in_ready)
  ultimately show "(drop_keys (ready rem) rem, rem) \<in> measure length"
    by (simp add: drop_keys_shorter)
qed simp

declare topo_rounds.simps [simp del]

definition topologicalOrder :: "string list \<Rightarrow> dependency_map \<Rightarrow> string list" where
  "topologicalOrder keys g = concat (topo_rounds (remaining_of keys g))"

interpretation topo: layering topo_rounds "\<lambda>ks. ks"
  by unfold_locales (simp_all add: topo_rounds.simps)

section \<open>The dependency relation\<close>

text \<open>\<open>edge g\<close> holds from a key to each of its dependencies that is itself a key.\<close>

definition edge :: "dependency_map \<Rightarrow> (string \<times> string) set" where
  "edge g = {(k, d). (\<exists>ds. map_of g k = Some ds \<and> d \<in> set ds) \<and> map_of g d \<noteq> None}"

lemma edge_successors: "(k, d) \<in> edge g \<longleftrightarrow> d \<in> set (successors g k) \<and> map_of g d \<noteq> None"
  by (cases "map_of g k") (auto simp: edge_def successors_def)

definition edge_path :: "dependency_map \<Rightarrow> string list \<Rightarrow> bool" where
  "edge_path g xs \<longleftrightarrow> (\<forall>i. Suc i < length xs \<longrightarrow> (xs ! i, xs ! Suc i) \<in> edge g)"

definition is_cycle :: "dependency_map \<Rightarrow> string list \<Rightarrow> bool" where
  "is_cycle g c \<longleftrightarrow> length c \<ge> 2 \<and> hd c = last c \<and> edge_path g c"

lemma edge_path_simps [simp]:
  "edge_path g []"
  "edge_path g [x]"
  "edge_path g (x # y # xs) \<longleftrightarrow> (x, y) \<in> edge g \<and> edge_path g (y # xs)"
  by (auto simp: edge_path_def nth_Cons less_Suc_eq_0_disj split: nat.splits)

lemma edge_path_snoc:
  "edge_path g (xs @ [x]) \<longleftrightarrow> edge_path g xs \<and> (xs \<noteq> [] \<longrightarrow> (last xs, x) \<in> edge g)"
  by (induction xs rule: induct_list012) auto

lemma edge_path_dropWhile: "edge_path g xs \<Longrightarrow> edge_path g (dropWhile P xs)"
  by (induction xs rule: induct_list012) auto

lemma edge_path_trancl:
  "edge_path g (x # xs) \<Longrightarrow> xs \<noteq> [] \<Longrightarrow> (x, last xs) \<in> (edge g)\<^sup>+"
proof (induction xs arbitrary: x)
  case (Cons y ys)
  then show ?case by (cases ys) (auto intro: trancl_into_trancl2)
qed simp

lemma is_cycle_trancl:
  assumes "is_cycle g c"
  shows "(hd c, hd c) \<in> (edge g)\<^sup>+"
proof -
  from assms have len: "2 \<le> length c" by (simp add: is_cycle_def)
  then obtain x xs where c: "c = x # xs" by (cases c) auto
  with len have ne: "xs \<noteq> []" by auto
  with c have "last xs = last c" by simp
  with assms c have "last xs = x" "edge_path g (x # xs)" by (simp_all add: is_cycle_def)
  with c edge_path_trancl[of g x xs] ne show ?thesis by simp
qed

section \<open>Enough fuel, and no cycle missed\<close>

definition unvisited :: "dependency_map \<Rightarrow> (string \<rightharpoonup> mark) \<Rightarrow> string set" where
  "unvisited g st = {k. map_of g k \<noteq> None \<and> st k = None}"

lemma finite_unvisited [simp]: "finite (unvisited g st)"
proof -
  have "unvisited g st \<subseteq> dom (map_of g)" by (auto simp: unvisited_def)
  then show ?thesis by (rule finite_subset) (rule finite_dom_map_of)
qed

text \<open>Finished keys are closed under dependencies and lie on no cycle.\<close>

definition done_ok :: "dependency_map \<Rightarrow> (string \<rightharpoonup> mark) \<Rightarrow> bool" where
  "done_ok g st \<longleftrightarrow> (\<forall>k d. st k = Some Done \<longrightarrow> (k, d) \<in> edge g \<longrightarrow> st d = Some Done) \<and>
     (\<forall>k. st k = Some Done \<longrightarrow> (k, k) \<notin> (edge g)\<^sup>+)"

text \<open>What a call that returns without a cycle leaves of the marks.\<close>

definition marks_grow :: "(string \<rightharpoonup> mark) \<Rightarrow> (string \<rightharpoonup> mark) \<Rightarrow> bool" where
  "marks_grow st st' \<longleftrightarrow> (\<forall>x. st x = Some Done \<longrightarrow> st' x = Some Done) \<and>
     (\<forall>x. (st' x = Some Visiting) = (st x = Some Visiting))"

lemma marks_grow_refl [simp]: "marks_grow st st"
  by (simp add: marks_grow_def)

lemma marks_grow_trans: "marks_grow a b \<Longrightarrow> marks_grow b c \<Longrightarrow> marks_grow a c"
  by (auto simp: marks_grow_def)

lemma unvisited_grow: "marks_grow st st' \<Longrightarrow> unvisited g st' \<subseteq> unvisited g st"
proof
  fix x assume g: "marks_grow st st'" and x: "x \<in> unvisited g st'"
  show "x \<in> unvisited g st"
  proof (cases "st x")
    case None
    with x show ?thesis by (simp add: unvisited_def)
  next
    case (Some m)
    with g have "st' x = Some m" by (cases m) (simp_all add: marks_grow_def)
    with x show ?thesis by (simp add: unvisited_def)
  qed
qed

lemma done_ok_finish:
  assumes "done_ok g st" and "\<And>d. (k, d) \<in> edge g \<Longrightarrow> st d = Some Done" and "st k = Some Visiting"
  shows "done_ok g (st(k \<mapsto> Done))"
proof -
  let ?D = "{x. st x = Some Done}"
  have closed: "(x, y) \<in> (edge g)\<^sup>+ \<Longrightarrow> x \<in> ?D \<Longrightarrow> y \<in> ?D" for x y
    by (induction rule: trancl_induct) (use assms(1) in \<open>auto simp: done_ok_def\<close>)
  have "(k, k) \<notin> (edge g)\<^sup>+"
  proof
    assume kk: "(k, k) \<in> (edge g)\<^sup>+"
    then obtain d where "(k, d) \<in> edge g" "d = k \<or> (d, k) \<in> (edge g)\<^sup>+"
      by (meson converse_tranclE)
    with assms(2) closed assms(3) show False by fastforce
  qed
  with assms show ?thesis by (auto simp: done_ok_def)
qed

lemma visit_continue:
  "visit n g k st stack = Continue st' stack' \<Longrightarrow> st k = None \<Longrightarrow> done_ok g st \<Longrightarrow>
     stack' = stack \<and> done_ok g st' \<and> marks_grow st st' \<and> st' k = Some Done"
  "visit_deps n g ds st stack = Continue st' stack' \<Longrightarrow> done_ok g st \<Longrightarrow>
     stack' = stack \<and> done_ok g st' \<and> marks_grow st st' \<and>
     (\<forall>d\<in>set ds. map_of g d \<noteq> None \<longrightarrow> st' d = Some Done)"
proof (induction n g k st stack and n g ds st stack arbitrary: st' stack' and st' stack'
    rule: visit_visit_deps.induct)
  case (1 g k st stack)
  then show ?case by simp
next
  case (2 n g k st stack)
  from "2.prems"(1) obtain st1 stack1
    where sub: "visit_deps n g (successors g k) (st(k \<mapsto> Visiting)) (stack @ [k]) = Continue st1 stack1"
      and res: "st' = st1(k \<mapsto> Done)" "stack' = butlast stack1"
    by (auto split: visit_result.splits)
  have "done_ok g (st(k \<mapsto> Visiting))"
    using "2.prems"(2,3) by (auto simp: done_ok_def)
  from "2.IH"[OF sub this] have IH: "stack1 = stack @ [k]" "done_ok g st1"
    "marks_grow (st(k \<mapsto> Visiting)) st1"
    "\<forall>d\<in>set (successors g k). map_of g d \<noteq> None \<longrightarrow> st1 d = Some Done" by blast+
  from IH(3) have vis: "st1 k = Some Visiting" by (simp add: marks_grow_def)
  have "done_ok g st'"
    unfolding res by (rule done_ok_finish) (use IH vis in \<open>auto simp: edge_successors\<close>)
  moreover have "marks_grow st st'"
    using IH(3) "2.prems"(2) unfolding res marks_grow_def by (metis fun_upd_apply mark.distinct(1) option.distinct(1) option.inject)
  moreover have "st' k = Some Done" by (simp add: res(1))
  moreover have "stack' = stack" by (simp add: res(2) IH(1))
  ultimately show ?case by blast
next
  case (3 n g st stack)
  then show ?case by simp
next
  case (4 n g d ds st stack)
  consider (unknown) "map_of g d = None" | (fresh) "map_of g d \<noteq> None" "st d = None"
    | (seen) "map_of g d \<noteq> None" "st d \<noteq> None"
    by blast
  then show ?case
  proof cases
    case unknown
    with "4.prems"(1) have "visit_deps n g ds st stack = Continue st' stack'" by simp
    from "4.IH"(1)[OF unknown this "4.prems"(2)] unknown show ?thesis by simp
  next
    case fresh
    then have nv: "st d \<noteq> Some Visiting" by simp
    from fresh "4.prems"(1) obtain st1 stack1 where v: "visit n g d st stack = Continue st1 stack1"
      and rest: "visit_deps n g ds st1 stack1 = Continue st' stack'"
      by (auto split: visit_result.splits)
    from "4.IH"(2)[OF fresh(1) nv fresh(2) v fresh(2) "4.prems"(2)]
    have A: "stack1 = stack" "done_ok g st1" "marks_grow st st1" "st1 d = Some Done" by blast+
    from "4.IH"(3)[OF fresh(1) nv fresh(2) v rest A(2)]
    have B: "stack' = stack1" "done_ok g st'" "marks_grow st1 st'"
      "\<forall>d\<in>set ds. map_of g d \<noteq> None \<longrightarrow> st' d = Some Done" by blast+
    from A(4) B(3) have "st' d = Some Done" by (simp add: marks_grow_def)
    with A(1) B marks_grow_trans[OF A(3) B(3)] show ?thesis by simp
  next
    case seen
    with "4.prems"(1) have nv: "st d \<noteq> Some Visiting" by auto
    with seen have fin: "st d = Some Done" by (metis mark.exhaust not_None_eq)
    from seen nv "4.prems"(1) have "visit_deps n g ds st stack = Continue st' stack'" by auto
    from "4.IH"(4)[OF seen(1) nv seen(2) this "4.prems"(2)] fin show ?thesis
      by (simp add: marks_grow_def)
  qed
qed

text \<open>The fuel left bounds the keys that can still be visited below.\<close>

lemma visit_fuel:
  "done_ok g st \<Longrightarrow> st k = None \<Longrightarrow> card (unvisited g st - {k}) < n \<Longrightarrow>
     visit n g k st stack \<noteq> Out_of_fuel"
  "done_ok g st \<Longrightarrow> card (unvisited g st) \<le> n \<Longrightarrow> visit_deps n g ds st stack \<noteq> Out_of_fuel"
proof (induction n g k st stack and n g ds st stack rule: visit_visit_deps.induct)
  case (1 g k st stack)
  then show ?case by simp
next
  case (2 n g k st stack)
  have "unvisited g (st(k \<mapsto> Visiting)) = unvisited g st - {k}"
    by (auto simp: unvisited_def)
  moreover have "done_ok g (st(k \<mapsto> Visiting))"
    using "2.prems"(1,2) by (auto simp: done_ok_def)
  ultimately have "done_ok g (st(k \<mapsto> Visiting))" "card (unvisited g (st(k \<mapsto> Visiting))) \<le> n"
    using "2.prems"(3) by (simp_all only: less_Suc_eq_le)
  from "2.IH"[OF this]
  have "visit_deps n g (successors g k) (st(k \<mapsto> Visiting)) (stack @ [k]) \<noteq> Out_of_fuel" .
  then show ?case by (auto split: visit_result.split)
next
  case (3 n g st stack)
  then show ?case by simp
next
  case (4 n g d ds st stack)
  consider (unknown) "map_of g d = None" | (fresh) "map_of g d \<noteq> None" "st d = None"
    | (seen) "map_of g d \<noteq> None" "st d \<noteq> None"
    by blast
  then show ?case
  proof cases
    case unknown
    with "4.IH"(1) "4.prems" show ?thesis by simp
  next
    case fresh
    then have nv: "st d \<noteq> Some Visiting" by simp
    from fresh have mem: "d \<in> unvisited g st" by (auto simp: unvisited_def)
    then have "card (unvisited g st - {d}) < card (unvisited g st)"
      by (intro card_Diff1_less) simp_all
    with "4.prems"(2) have "card (unvisited g st - {d}) < n" by simp
    from "4.IH"(2)[OF fresh(1) nv fresh(2) "4.prems"(1) fresh(2) this]
    have no: "visit n g d st stack \<noteq> Out_of_fuel" .
    show ?thesis
    proof (cases "visit n g d st stack")
      case (Continue st1 stack1)
      from visit_continue(1)[OF Continue fresh(2) "4.prems"(1)]
      have A: "done_ok g st1" "marks_grow st st1" by blast+
      have "card (unvisited g st1) \<le> card (unvisited g st)"
        by (intro card_mono unvisited_grow A) simp
      with "4.prems"(2) have "card (unvisited g st1) \<le> n" by simp
      from "4.IH"(3)[OF fresh(1) nv fresh(2) Continue A(1) this] fresh Continue
      show ?thesis by auto
    qed (use no fresh in auto)
  next
    case seen
    with "4.IH"(4)[OF seen(1)] "4.prems" show ?thesis by auto
  qed
qed

section \<open>Every answer is a cycle\<close>

text \<open>The stack is the path of the keys being visited.\<close>

definition stack_ok :: "dependency_map \<Rightarrow> (string \<rightharpoonup> mark) \<Rightarrow> string list \<Rightarrow> bool" where
  "stack_ok g st stack \<longleftrightarrow> edge_path g stack \<and> (\<forall>x. st x = Some Visiting \<longleftrightarrow> x \<in> set stack)"

lemma stack_ok_grow: "stack_ok g st stack \<Longrightarrow> marks_grow st st' \<Longrightarrow> stack_ok g st' stack"
  by (simp add: stack_ok_def marks_grow_def)

lemma last_dropWhile: "dropWhile P xs \<noteq> [] \<Longrightarrow> last (dropWhile P xs) = last xs"
  by (induction xs) (auto split: if_splits)

lemma slice_from_cycle:
  assumes "edge_path g stack" and "d \<in> set stack" and "(last stack, d) \<in> edge g"
  shows "is_cycle g (slice_from d stack @ [d])"
proof -
  let ?c = "dropWhile (\<lambda>y. y \<noteq> d) stack"
  from assms(2) have ne: "?c \<noteq> []" by simp
  then have "hd ?c = d" using hd_dropWhile[of "\<lambda>y. y \<noteq> d" stack] assms(2) by auto
  moreover from ne have "last ?c = last stack" by (rule last_dropWhile)
  moreover have "edge_path g ?c" using assms(1) by (rule edge_path_dropWhile)
  ultimately have "edge_path g (?c @ [d])" "hd (?c @ [d]) = d"
    using assms(3) ne by (simp_all add: edge_path_snoc)
  with ne assms(2) show ?thesis
    by (cases ?c) (auto simp: is_cycle_def slice_from_def)
qed

lemma visit_cycle:
  "visit n g k st stack = Cycle c \<Longrightarrow> st k = None \<Longrightarrow> done_ok g st \<Longrightarrow> stack_ok g st stack \<Longrightarrow>
     stack = [] \<or> (last stack, k) \<in> edge g \<Longrightarrow> is_cycle g c"
  "visit_deps n g ds st stack = Cycle c \<Longrightarrow> done_ok g st \<Longrightarrow> stack_ok g st stack \<Longrightarrow>
     (\<forall>d\<in>set ds. map_of g d \<noteq> None \<longrightarrow> (last stack, d) \<in> edge g) \<Longrightarrow> is_cycle g c"
proof (induction n g k st stack and n g ds st stack rule: visit_visit_deps.induct)
  case (1 g k st stack)
  then show ?case by simp
next
  case (2 n g k st stack)
  from "2.prems"(1) have
    sub: "visit_deps n g (successors g k) (st(k \<mapsto> Visiting)) (stack @ [k]) = Cycle c"
    by (auto split: visit_result.splits)
  show ?case
  proof (rule "2.IH"[OF sub])
    show "done_ok g (st(k \<mapsto> Visiting))"
      using "2.prems"(2,3) by (auto simp: done_ok_def)
    show "stack_ok g (st(k \<mapsto> Visiting)) (stack @ [k])"
      using "2.prems"(4,5) by (auto simp: stack_ok_def edge_path_snoc)
    show "\<forall>d\<in>set (successors g k). map_of g d \<noteq> None \<longrightarrow> (last (stack @ [k]), d) \<in> edge g"
      by (simp add: edge_successors)
  qed
next
  case (3 n g st stack)
  then show ?case by simp
next
  case (4 n g d ds st stack)
  consider (unknown) "map_of g d = None" | (fresh) "map_of g d \<noteq> None" "st d = None"
    | (onstack) "map_of g d \<noteq> None" "st d = Some Visiting"
    | (seen) "map_of g d \<noteq> None" "st d \<noteq> None" "st d \<noteq> Some Visiting"
    by blast
  then show ?case
  proof cases
    case unknown
    with "4.IH"(1) "4.prems" show ?thesis by simp
  next
    case onstack
    with "4.prems" have "c = slice_from d stack @ [d]" "d \<in> set stack" "(last stack, d) \<in> edge g"
      "edge_path g stack" by (auto simp: stack_ok_def)
    with slice_from_cycle show ?thesis by blast
  next
    case fresh
    then have nv: "st d \<noteq> Some Visiting" by simp
    show ?thesis
    proof (cases "visit n g d st stack")
      case (Cycle c')
      with fresh "4.prems"(1) have "visit n g d st stack = Cycle c" by auto
      from "4.IH"(2)[OF fresh(1) nv fresh(2) this fresh(2) "4.prems"(2,3)] fresh "4.prems"(4)
      show ?thesis by simp
    next
      case (Continue st1 stack1)
      from visit_continue(1)[OF Continue fresh(2) "4.prems"(2)]
      have A: "stack1 = stack" "done_ok g st1" "marks_grow st st1" by blast+
      from fresh Continue "4.prems"(1) have "visit_deps n g ds st1 stack1 = Cycle c" by auto
      from "4.IH"(3)[OF fresh(1) nv fresh(2) Continue this A(2)] A(1) "4.prems"(4)
        stack_ok_grow[OF "4.prems"(3) A(3)]
      show ?thesis by simp
    next
      case Out_of_fuel
      with fresh "4.prems"(1) show ?thesis by auto
    qed
  next
    case seen
    with "4.IH"(4)[OF seen(1,3,2)] "4.prems" show ?thesis by auto
  qed
qed

section \<open>The search from all keys\<close>

lemma visit_roots_result:
  assumes "done_ok g st" and "stack_ok g st []" and "card (unvisited g st) < n"
  shows "(\<exists>c. visit_roots n g ks st [] = Cycle c \<and> is_cycle g c) \<or>
    (\<exists>st'. visit_roots n g ks st [] = Continue st' [] \<and> done_ok g st' \<and> marks_grow st st' \<and>
       (\<forall>k\<in>set ks. st' k = Some Done))"
  using assms
proof (induction ks arbitrary: st)
  case Nil
  then show ?case by simp
next
  case (Cons k ks)
  have nv: "st x \<noteq> Some Visiting" for x using Cons.prems(2) by (simp add: stack_ok_def)
  show ?case
  proof (cases "st k")
    case None
    have "card (unvisited g st - {k}) \<le> card (unvisited g st)" by (rule card_Diff1_le)
    with Cons.prems(3) have "card (unvisited g st - {k}) < n" by simp
    from visit_fuel(1)[OF Cons.prems(1) None this]
    have no: "visit n g k st [] \<noteq> Out_of_fuel" .
    show ?thesis
    proof (cases "visit n g k st []")
      case (Cycle c)
      with visit_cycle(1)[OF Cycle None Cons.prems(1,2)] None show ?thesis by simp
    next
      case (Continue st1 stack1)
      from visit_continue(1)[OF Continue None Cons.prems(1)]
      have A: "stack1 = []" "done_ok g st1" "marks_grow st st1" "st1 k = Some Done" by blast+
      have "card (unvisited g st1) \<le> card (unvisited g st)"
        by (intro card_mono unvisited_grow A) simp
      with Cons.prems(3) have "card (unvisited g st1) < n" by simp
      from Cons.IH[OF A(2) stack_ok_grow[OF Cons.prems(2) A(3)] this]
      show ?thesis
        using None Continue A marks_grow_trans[OF A(3)] by (auto simp: marks_grow_def)
    qed (use no in simp)
  next
    case (Some m)
    with nv[of k] have "m = Done" by (cases m) auto
    with Some Cons.IH[OF Cons.prems] show ?thesis by (auto simp: marks_grow_def)
  qed
qed

lemma card_keys_le: "card (unvisited g st) < Suc (length g)"
proof -
  have "unvisited g st \<subseteq> fst ` set g" by (auto simp: unvisited_def map_of_eq_None_iff)
  then have "card (unvisited g st) \<le> card (fst ` set g)" by (intro card_mono) auto
  also have "\<dots> \<le> length g"
    using card_image_le[of "set g" fst] card_length[of g] by simp
  finally show ?thesis by simp
qed

lemma findCycle_cases:
  obtains (cycle) "findCycle keys g \<noteq> []" "is_cycle g (findCycle keys g)"
  | (none) st where "findCycle keys g = []" "done_ok g st" "\<forall>k\<in>set keys. st k = Some Done"
proof -
  have "done_ok g Map.empty" "stack_ok g Map.empty []"
    by (simp_all add: done_ok_def stack_ok_def)
  from visit_roots_result[OF this card_keys_le, of "sort keys"]
  consider c where "visit_roots (Suc (length g)) g (sort keys) Map.empty [] = Cycle c" "is_cycle g c"
    | st' where "visit_roots (Suc (length g)) g (sort keys) Map.empty [] = Continue st' []"
        "done_ok g st'" "\<forall>k\<in>set (sort keys). st' k = Some Done"
    by blast
  then show thesis
  proof cases
    case 1
    then have "findCycle keys g = c" by (simp add: findCycle_def)
    moreover from 1 have "c \<noteq> []" by (auto simp: is_cycle_def)
    ultimately show thesis using cycle 1 by simp
  next
    case 2
    then show thesis using none[of st'] by (simp add: findCycle_def)
  qed
qed

lemma findCycle_Nil_iff:
  assumes "fst ` set g \<subseteq> set keys"
  shows "findCycle keys g = [] \<longleftrightarrow> acyclic (edge g)"
proof (cases rule: findCycle_cases[of keys g])
  case cycle
  with is_cycle_trancl show ?thesis by (auto simp: acyclic_def)
next
  case (none st)
  have "acyclic (edge g)"
  proof (rule acyclicI, intro allI notI)
    fix x assume x: "(x, x) \<in> (edge g)\<^sup>+"
    then obtain y where "(x, y) \<in> edge g" by (meson tranclD)
    then have "x \<in> fst ` set g" by (auto simp: edge_def dest!: map_of_SomeD intro: rev_image_eqI)
    with assms none(3) have "st x = Some Done" by blast
    with none(2) x show False by (simp add: done_ok_def)
  qed
  with none show ?thesis by simp
qed

section \<open>The topological order is complete and ordered\<close>

lemma keys_remaining_of [simp]: "fst ` set (remaining_of keys g) = set keys"
  by (force simp: remaining_of_def Let_def)

lemma distinct_remaining_of [simp]: "distinct (map fst (remaining_of keys g))"
  by (simp add: remaining_of_def Let_def o_def)

lemma closed_remaining_of [simp]: "closed_map (remaining_of keys g)"
  unfolding closed_map_def keys_remaining_of
  by (auto simp: remaining_of_def Let_def)

lemma in_remaining_of:
  "(k, ds) \<in> set (remaining_of keys g) \<longleftrightarrow> k \<in> set keys \<and>
     ds = js_set (filter (\<lambda>d. d \<in> set keys) (case map_of g k of None \<Rightarrow> [] | Some ds \<Rightarrow> ds))"
  by (auto simp: remaining_of_def Let_def)

lemma set_remaining_of:
  "(k, ds) \<in> set (remaining_of keys g) \<Longrightarrow> set ds = {d \<in> set keys. d \<in> set (successors g k)}"
  by (cases "map_of g k") (auto simp: in_remaining_of successors_def)

lemma needs_remaining_of:
  assumes "fst ` set g = set keys"
  shows "needs (remaining_of keys g) = (edge g)\<inverse>"
proof -
  have dom: "map_of g d \<noteq> None \<longleftrightarrow> d \<in> set keys" for d
    unfolding assms[symmetric] by (auto simp: map_of_eq_None_iff)
  have "(d, k) \<in> needs (remaining_of keys g) \<longleftrightarrow> (k, d) \<in> edge g" for d k
  proof
    assume "(d, k) \<in> needs (remaining_of keys g)"
    then show "(k, d) \<in> edge g"
      using set_remaining_of dom[of d] by (fastforce simp: needs_def edge_successors)
  next
    assume e: "(k, d) \<in> edge g"
    then have "k \<in> set keys" using dom[of k] by (auto simp: edge_def)
    then obtain ds where ds: "(k, ds) \<in> set (remaining_of keys g)" by (auto simp: in_remaining_of)
    with e set_remaining_of[OF ds] dom[of d] show "(d, k) \<in> needs (remaining_of keys g)"
      by (auto simp: needs_def edge_successors)
  qed
  then show ?thesis by auto
qed

lemma acyclic_needs_iff:
  "fst ` set g = set keys \<Longrightarrow> acyclic (needs (remaining_of keys g)) \<longleftrightarrow> acyclic (edge g)"
  by (simp add: needs_remaining_of)

lemma distinct_topologicalOrder: "distinct (topologicalOrder keys g)"
  unfolding topologicalOrder_def by (rule topo.layers_distinct) simp

lemma topologicalOrder_subset: "set (topologicalOrder keys g) \<subseteq> set keys"
  unfolding topologicalOrder_def using topo.layers_keys[of "remaining_of keys g"] by simp

lemma topologicalOrder_complete_iff:
  assumes "fst ` set g = set keys"
  shows "set (topologicalOrder keys g) = set keys \<longleftrightarrow> acyclic (edge g)"
  unfolding topologicalOrder_def acyclic_needs_iff[OF assms, symmetric]
  using topo.layers_complete[of "remaining_of keys g"] topo.acyclic_if_complete[of "remaining_of keys g"]
  by auto

text \<open>Every dependency of a listed key stands before it.\<close>

lemma topologicalOrder_ordered:
  assumes "topologicalOrder keys g = xs @ k # ys" and "d \<in> set (successors g k)" and "d \<in> set keys"
  shows "d \<in> set xs"
proof -
  let ?L = "topo_rounds (remaining_of keys g)"
  have dist: "distinct (concat ?L)" by (rule topo.layers_distinct) simp
  from assms(1) have eq: "concat ?L = xs @ k # ys" by (simp add: topologicalOrder_def)
  then have "k \<in> set (concat ?L)" by simp
  then obtain pre layer post where L: "?L = pre @ layer # post" and k: "k \<in> set layer"
    by (metis UN_E set_concat split_list)
  from eq topo.layers_keys[of "remaining_of keys g"] have "k \<in> set keys" by auto
  then obtain ds where ds: "(k, ds) \<in> set (remaining_of keys g)" by (auto simp: in_remaining_of)
  with assms(2,3) have "d \<in> set ds" by (simp add: set_remaining_of)
  with topo.layers_respect_needs[OF _ L k ds] have "d \<in> set (concat pre)" by auto
  moreover from k obtain l1 l2 where "layer = l1 @ k # l2" by (metis split_list)
  ultimately have "concat ?L = (concat pre @ l1) @ k # (l2 @ concat post)" "d \<in> set (concat pre @ l1)"
    using L by simp_all
  moreover from dist eq have "k \<notin> set xs" "k \<notin> set ys" by auto
  ultimately have "concat pre @ l1 = xs"
    using eq by (metis append_Cons_eq_iff)
  with \<open>d \<in> set (concat pre @ l1)\<close> show ?thesis by simp
qed

section \<open>Properties\<close>

text \<open>
  Property C20. The cycle search is sound and complete and never runs out of fuel: when the
  searched keys include every key of the dependency map, it answers the empty list exactly
  when the dependencies between keys are acyclic, and any other answer is a closed walk of at
  least one dependency step (it starts and ends with the same key and every step goes from a
  key to one of its dependencies).
\<close>

theorem findCycle_correct:
  assumes "fst ` set g \<subseteq> set keys"
  shows "(findCycle keys g = [] \<longleftrightarrow> acyclic (edge g)) \<and>
    (findCycle keys g = [] \<or> is_cycle g (findCycle keys g)) \<and>
    visit_roots (Suc (length g)) g (sort keys) Map.empty [] \<noteq> Out_of_fuel"
proof -
  have "done_ok g Map.empty" "stack_ok g Map.empty []"
    by (simp_all add: done_ok_def stack_ok_def)
  from visit_roots_result[OF this card_keys_le, of "sort keys"]
  have "visit_roots (Suc (length g)) g (sort keys) Map.empty [] \<noteq> Out_of_fuel" by auto
  moreover have "findCycle keys g = [] \<or> is_cycle g (findCycle keys g)"
    by (cases rule: findCycle_cases[of keys g]) auto
  ultimately show ?thesis using findCycle_Nil_iff[OF assms] by simp
qed

definition sample_dependencies :: dependency_map where
  "sample_dependencies =
     [(''A'', [''B'']), (''B'', [''D'', ''C'']), (''C'', [''X'', ''B'']), (''D'', [])]"

theorem findCycle_correct_witness:
  "fst ` set sample_dependencies \<subseteq> set [''A'', ''B'', ''C'', ''D''] \<and>
   findCycle [''A'', ''B'', ''C'', ''D''] sample_dependencies = [''B'', ''C'', ''B''] \<and>
   \<not> acyclic (edge sample_dependencies)"
proof -
  have h: "fst ` set sample_dependencies \<subseteq> set [''A'', ''B'', ''C'', ''D'']"
    by (simp add: sample_dependencies_def)
  have c: "findCycle [''A'', ''B'', ''C'', ''D''] sample_dependencies = [''B'', ''C'', ''B'']"
    by code_simp
  show ?thesis using h c findCycle_correct[OF h] by simp
qed

text \<open>
  The topological order lists no key twice and only known keys; it lists all keys
  exactly when the dependencies are acyclic; and every dependency that is a known key stands
  before the key that needs it, whether or not the list is complete.
\<close>

theorem topologicalOrder_correct:
  assumes "fst ` set g = set keys"
  shows "distinct (topologicalOrder keys g) \<and> set (topologicalOrder keys g) \<subseteq> set keys \<and>
    (set (topologicalOrder keys g) = set keys \<longleftrightarrow> acyclic (edge g)) \<and>
    (\<forall>xs k ys d. topologicalOrder keys g = xs @ k # ys \<and> (k, d) \<in> edge g \<longrightarrow> d \<in> set xs)"
proof (intro conjI allI impI)
  fix xs k ys d
  assume "topologicalOrder keys g = xs @ k # ys \<and> (k, d) \<in> edge g"
  then have eq: "topologicalOrder keys g = xs @ k # ys" and d: "d \<in> set (successors g k)"
    and "map_of g d \<noteq> None" by (auto simp: edge_successors)
  then have "d \<in> fst ` set g" by (simp add: map_of_eq_None_iff)
  with assms have "d \<in> set keys" by simp
  with eq d show "d \<in> set xs" by (rule topologicalOrder_ordered)
qed (simp_all add: distinct_topologicalOrder topologicalOrder_subset
      topologicalOrder_complete_iff[OF assms])

theorem topologicalOrder_correct_witness:
  "fst ` set [(''B'', [''A'']), (''A'', [])] = set [''B'', ''A''] \<and>
   topologicalOrder [''B'', ''A''] [(''B'', [''A'']), (''A'', [])] = [''A'', ''B''] \<and>
   acyclic (edge [(''B'', [''A'']), (''A'', [])])"
proof -
  have h: "fst ` set [(''B'', [''A'']), (''A'', [])] = set [''B'', ''A'']" by simp
  have c: "topologicalOrder [''B'', ''A''] [(''B'', [''A'']), (''A'', [])] = [''A'', ''B'']"
    by code_simp
  show ?thesis using h c topologicalOrder_correct[OF h] by auto
qed

end
