(* ===== verification/Issue_Compiler.thy ===== *)
theory Issue_Compiler
  imports Issue_Plan Dependency_Graph
begin

text \<open>
  \<^verbatim>\<open>domain/issue-compiler.ts\<close>: the compiler that checks an issue plan against the approved
  specification (traceability in both directions, coverage, dependencies) and orders it. The
  diagnostics are modelled with their codes, paths, messages and order. The lemmas show what
  each code reports and that the absence of diagnostics is exactly a declarative notion of a
  traceable, covered and acyclic plan.
\<close>

section \<open>Data\<close>

datatype issue_compilation_diagnostic_code =
  Duplicate_issue_key | Unknown_requirement_ref | Unknown_acceptance_ref
  | Acceptance_without_requirement | Orphan_issue | Uncovered_requirement | Uncovered_acceptance
  | Missing_dependency | Self_dependency | Duplicate_dependency | Dependency_cycle

record issue_compilation_diagnostic =
  diag_code :: issue_compilation_diagnostic_code
  diag_path :: string
  diag_message :: string
  diag_impact :: string
  relatedIssueKeys :: "string list"

record coverage =
  covered :: "string list"
  uncovered :: "string list"

record issue_compilation_result =
  compiled_valid :: bool
  diagnostics :: "issue_compilation_diagnostic list"
  requirement_coverage :: coverage
  acceptance_coverage :: coverage
  topological_order :: "string list"

record source_requirement =
  requirement_id :: string
  acceptanceCriterionRefs :: "string list"

record compile_input =
  requirements :: "source_requirement list"
  acceptanceCriterionIds :: "string list"
  issues :: "issue_draft list"

definition diagnostic ::
  "issue_compilation_diagnostic_code \<Rightarrow> string \<Rightarrow> string \<Rightarrow> string \<Rightarrow> string list \<Rightarrow>
     issue_compilation_diagnostic" where
  "diagnostic code path message impact related =
     \<lparr>diag_code = code, diag_path = path, diag_message = message, diag_impact = impact,
      relatedIssueKeys = related\<rparr>"

section \<open>The checks of one issue\<close>

text \<open>
  The loop body pushes diagnostics and adds to three collections. The model returns the
  diagnostics of each inner loop as a list, in the order of the pushes, and computes the
  collections (seen keys, covered references, dependency map) by functions of their own.
\<close>

definition requirement_ref_diagnostics ::
  "string list \<Rightarrow> string \<Rightarrow> string \<Rightarrow> string list \<Rightarrow> issue_compilation_diagnostic list" where
  "requirement_ref_diagnostics requirementIds k path refs =
     concat (map (\<lambda>(i, ref).
       if ref \<notin> set requirementIds then
         [diagnostic Unknown_requirement_ref (index_path (path @ ''.requirementRefs'') i)
            (''Requirement '' @ ref @ '' does not exist'')
            ''Approval would claim coverage for an unapproved requirement'' [k]]
       else []) (enumerate 0 refs))"

text \<open>\<open>acceptanceByRequirement.get(ref) ?? []\<close>, for a map built from all requirements.\<close>

definition acceptance_of :: "source_requirement list \<Rightarrow> string \<Rightarrow> string list" where
  "acceptance_of reqs ref =
     (case map_of (js_map (map (\<lambda>r. (requirement_id r, js_set (acceptanceCriterionRefs r))) reqs)) ref of
        None \<Rightarrow> [] | Some refs \<Rightarrow> refs)"

definition permitted_acceptance :: "source_requirement list \<Rightarrow> issue_draft \<Rightarrow> string list" where
  "permitted_acceptance reqs d = js_set (concat (map (acceptance_of reqs) (requirementRefs d)))"

definition acceptance_diagnostics ::
  "string list \<Rightarrow> string list \<Rightarrow> string \<Rightarrow> string \<Rightarrow> issue_acceptance list \<Rightarrow>
     issue_compilation_diagnostic list" where
  "acceptance_diagnostics acceptanceIds permitted k path acc =
     concat (map (\<lambda>(i, a).
       if criterionRef a \<notin> set acceptanceIds then
         [diagnostic Unknown_acceptance_ref (index_path (path @ ''.acceptance'') i @ ''.criterionRef'')
            (''Acceptance criterion '' @ criterionRef a @ '' does not exist'')
            ''The completion proof would target an unknown criterion'' [k]]
       else if criterionRef a \<notin> set permitted then
         [diagnostic Acceptance_without_requirement (index_path (path @ ''.acceptance'') i)
            (''Acceptance criterion '' @ criterionRef a @ '' is not linked by the Issue requirements'')
            ''Bidirectional traceability is broken'' [k]]
       else []) (enumerate 0 acc))"

fun dependency_diagnostics ::
  "string list \<Rightarrow> string \<Rightarrow> string \<Rightarrow> nat \<Rightarrow> string list \<Rightarrow> string list \<Rightarrow>
     issue_compilation_diagnostic list" where
  "dependency_diagnostics known k path i seen [] = []"
| "dependency_diagnostics known k path i seen (d # ds) =
     (let dpath = index_path (path @ ''.dependencyCandidates'') i in
      (if d \<in> set seen then
         [diagnostic Duplicate_dependency dpath (''Dependency '' @ d @ '' is repeated'')
            ''The graph contains an ambiguous duplicate edge'' [k, d]] else []) @
      (if d = k then
         [diagnostic Self_dependency dpath (''Issue '' @ k @ '' depends on itself'')
            ''The Issue can never become dependency-ready'' [k]]
       else if d \<notin> set known then
         [diagnostic Missing_dependency dpath (''Dependency '' @ d @ '' does not exist'')
            ''The Issue can never be safely scheduled'' [k, d]] else []) @
      dependency_diagnostics known k path (Suc i) (seen @ [d]) ds)"

definition issue_diagnostics ::
  "compile_input \<Rightarrow> nat \<Rightarrow> string list \<Rightarrow> issue_draft \<Rightarrow> issue_compilation_diagnostic list" where
  "issue_diagnostics input i seenKeys d =
     (let path = index_path ''issues'' i; k = key d;
          requirementIds = js_set (map requirement_id (requirements input));
          acceptanceIds = js_set (acceptanceCriterionIds input);
          known = js_set (map key (issues input)) in
      (if k \<in> set seenKeys then
         [diagnostic Duplicate_issue_key (path @ ''.key'') (''Issue key '' @ k @ '' is duplicated'')
            ''The dependency graph cannot identify a unique delivery unit'' [k]] else []) @
      (if requirementRefs d = [] \<and> acceptance d = [] then
         [diagnostic Orphan_issue path (''Issue '' @ k @ '' has no traceability references'')
            ''The Issue cannot be justified by the approved specification'' [k]] else []) @
      requirement_ref_diagnostics requirementIds k path (requirementRefs d) @
      acceptance_diagnostics acceptanceIds (permitted_acceptance (requirements input) d) k path
        (acceptance d) @
      dependency_diagnostics known k path 0 [] (dependencyCandidates d))"

fun issues_diagnostics ::
  "compile_input \<Rightarrow> nat \<Rightarrow> string list \<Rightarrow> issue_draft list \<Rightarrow> issue_compilation_diagnostic list" where
  "issues_diagnostics input i seenKeys [] = []"
| "issues_diagnostics input i seenKeys (d # ds) =
     issue_diagnostics input i seenKeys d @ issues_diagnostics input (Suc i) (seenKeys @ [key d]) ds"

section \<open>Coverage and the dependency map\<close>

definition covered_requirements :: "compile_input \<Rightarrow> string list" where
  "covered_requirements input = js_set (filter (\<lambda>r. r \<in> set (map requirement_id (requirements input)))
     (concat (map requirementRefs (issues input))))"

definition covered_acceptance :: "compile_input \<Rightarrow> string list" where
  "covered_acceptance input = js_set (filter (\<lambda>r. r \<in> set (acceptanceCriterionIds input))
     (concat (map (\<lambda>d. map criterionRef (acceptance d)) (issues input))))"

definition dependencies :: "compile_input \<Rightarrow> dependency_map" where
  "dependencies input = js_map (map (\<lambda>d. (key d, dependencyCandidates d)) (issues input))"

definition uncovered_diagnostics :: "string list \<Rightarrow> string list \<Rightarrow> issue_compilation_diagnostic list" where
  "uncovered_diagnostics reqs accs =
     map (\<lambda>r. diagnostic Uncovered_requirement (''requirements.'' @ r)
        (''Requirement '' @ r @ '' is not covered'')
        ''The approved PRD would not be fully implemented'' []) reqs @
     map (\<lambda>a. diagnostic Uncovered_acceptance (''acceptanceCriteria.'' @ a)
        (''Acceptance criterion '' @ a @ '' is not covered'')
        ''Goal verification would have no implementing Issue'' []) accs"

definition cycle_diagnostics :: "string list \<Rightarrow> issue_compilation_diagnostic list" where
  "cycle_diagnostics cycle =
     (if cycle \<noteq> [] then
        [diagnostic Dependency_cycle ''issues[*].dependencyCandidates''
           (''Dependency cycle: '' @ join '' -> '' cycle)
           ''No Issue in the cycle can become dependency-ready'' cycle] else [])"

section \<open>The compiler\<close>

definition compileIssuePlan :: "compile_input \<Rightarrow> issue_compilation_result" where
  "compileIssuePlan input =
     (let requirementIds = js_set (map requirement_id (requirements input));
          acceptanceIds = js_set (acceptanceCriterionIds input);
          issueKeys = map key (issues input);
          coveredRequirements = covered_requirements input;
          coveredAcceptance = covered_acceptance input;
          uncoveredRequirements = sort (filter (\<lambda>r. r \<notin> set coveredRequirements) requirementIds);
          uncoveredAcceptance = sort (filter (\<lambda>a. a \<notin> set coveredAcceptance) acceptanceIds);
          cycle = findCycle issueKeys (dependencies input);
          ds = issues_diagnostics input 0 [] (issues input) @
            uncovered_diagnostics uncoveredRequirements uncoveredAcceptance @ cycle_diagnostics cycle
      in \<lparr>compiled_valid = (ds = []),
          diagnostics = ds,
          requirement_coverage =
            \<lparr>covered = sort (filter (\<lambda>r. r \<in> set requirementIds) coveredRequirements),
             uncovered = uncoveredRequirements\<rparr>,
          acceptance_coverage =
            \<lparr>covered = sort (filter (\<lambda>a. a \<in> set acceptanceIds) coveredAcceptance),
             uncovered = uncoveredAcceptance\<rparr>,
          topological_order =
            (if cycle \<noteq> [] then [] else topologicalOrder issueKeys (dependencies input))\<rparr>)"

section \<open>When a check is silent\<close>

lemma concat_enumerate_Nil:
  assumes "\<And>i x. f i x = [] \<longleftrightarrow> Q x"
  shows "concat (map (\<lambda>(i, x). f i x) (enumerate n xs)) = [] \<longleftrightarrow> (\<forall>x \<in> set xs. Q x)"
  using assms by (induction xs arbitrary: n) auto

lemma requirement_ref_diagnostics_Nil:
  "requirement_ref_diagnostics ids k path refs = [] \<longleftrightarrow> set refs \<subseteq> set ids"
  unfolding requirement_ref_diagnostics_def
  by (subst concat_enumerate_Nil[where Q = "\<lambda>ref. ref \<in> set ids"]) auto

lemma acceptance_diagnostics_Nil:
  "acceptance_diagnostics ids permitted k path acc = [] \<longleftrightarrow>
     criterionRef ` set acc \<subseteq> set ids \<inter> set permitted"
  unfolding acceptance_diagnostics_def
  by (subst concat_enumerate_Nil[where Q = "\<lambda>a. criterionRef a \<in> set ids \<inter> set permitted"]) auto

lemma dependency_diagnostics_Nil:
  "dependency_diagnostics known k path i seen ds = [] \<longleftrightarrow>
     distinct ds \<and> set seen \<inter> set ds = {} \<and> k \<notin> set ds \<and> set ds \<subseteq> set known"
  by (induction ds arbitrary: i seen) (auto simp: Let_def)

definition issue_traceable :: "compile_input \<Rightarrow> issue_draft \<Rightarrow> bool" where
  "issue_traceable input d \<longleftrightarrow>
     (requirementRefs d \<noteq> [] \<or> acceptance d \<noteq> []) \<and>
     set (requirementRefs d) \<subseteq> set (map requirement_id (requirements input)) \<and>
     criterionRef ` set (acceptance d) \<subseteq> set (acceptanceCriterionIds input) \<and>
     criterionRef ` set (acceptance d) \<subseteq>
       (\<Union>ref \<in> set (requirementRefs d). set (acceptance_of (requirements input) ref)) \<and>
     distinct (dependencyCandidates d) \<and> key d \<notin> set (dependencyCandidates d) \<and>
     set (dependencyCandidates d) \<subseteq> set (map key (issues input))"

lemma issue_diagnostics_Nil:
  "issue_diagnostics input i seen d = [] \<longleftrightarrow> key d \<notin> set seen \<and> issue_traceable input d"
  by (auto simp: issue_diagnostics_def issue_traceable_def Let_def requirement_ref_diagnostics_Nil
      acceptance_diagnostics_Nil dependency_diagnostics_Nil permitted_acceptance_def)

lemma issues_diagnostics_Nil:
  "issues_diagnostics input i seen ds = [] \<longleftrightarrow>
     distinct (map key ds) \<and> set seen \<inter> set (map key ds) = {} \<and> list_all (issue_traceable input) ds"
  by (induction ds arbitrary: i seen) (auto simp: issue_diagnostics_Nil)

lemma keys_dependencies [simp]: "fst ` set (dependencies input) = set (map key (issues input))"
  by (force simp: dependencies_def)

text \<open>A plan as the compiler wants it: keys identify issues, every issue is traceable, every
  requirement and criterion is claimed by some issue, and the dependencies have no cycle.\<close>

definition plan_ok :: "compile_input \<Rightarrow> bool" where
  "plan_ok input \<longleftrightarrow>
     distinct (map key (issues input)) \<and>
     (\<forall>d \<in> set (issues input). issue_traceable input d) \<and>
     (\<forall>r \<in> set (requirements input). \<exists>d \<in> set (issues input). requirement_id r \<in> set (requirementRefs d)) \<and>
     (\<forall>a \<in> set (acceptanceCriterionIds input).
        \<exists>d \<in> set (issues input). a \<in> criterionRef ` set (acceptance d)) \<and>
     acyclic (edge (dependencies input))"

lemma uncovered_diagnostics_Nil [simp]: "uncovered_diagnostics reqs accs = [] \<longleftrightarrow> reqs = [] \<and> accs = []"
  by (simp add: uncovered_diagnostics_def)

lemma cycle_diagnostics_Nil [simp]: "cycle_diagnostics c = [] \<longleftrightarrow> c = []"
  by (simp add: cycle_diagnostics_def)

lemma sort_Nil_iff [simp]: "sort xs = [] \<longleftrightarrow> xs = []"
  by (metis set_empty set_sort)

lemma compiled_valid_iff: "compiled_valid (compileIssuePlan input) \<longleftrightarrow> plan_ok input"
proof -
  have cycle: "findCycle (map key (issues input)) (dependencies input) = [] \<longleftrightarrow>
      acyclic (edge (dependencies input))"
    by (rule findCycle_Nil_iff) simp
  have reqs: "filter (\<lambda>r. r \<notin> set (covered_requirements input))
        (js_set (map requirement_id (requirements input))) = [] \<longleftrightarrow>
      (\<forall>r \<in> set (requirements input). \<exists>d \<in> set (issues input). requirement_id r \<in> set (requirementRefs d))"
    by (auto simp: covered_requirements_def filter_empty_conv)
  have accs: "filter (\<lambda>a. a \<notin> set (covered_acceptance input))
        (js_set (acceptanceCriterionIds input)) = [] \<longleftrightarrow>
      (\<forall>a \<in> set (acceptanceCriterionIds input).
        \<exists>d \<in> set (issues input). a \<in> criterionRef ` set (acceptance d))"
    by (auto simp: covered_acceptance_def filter_empty_conv)
  show ?thesis
    by (simp add: compileIssuePlan_def Let_def cycle reqs accs issues_diagnostics_Nil plan_ok_def
        list_all_iff conj_assoc)
qed

section \<open>Properties\<close>

text \<open>
  Property C16. The compiler reports a plan as valid exactly when issue keys are distinct, every
  issue has references and all of them resolve, every criterion it claims is linked by one of
  the requirements it names, its dependencies are distinct other issues of the plan, every
  requirement and every criterion of the specification is claimed by some issue, and the
  dependencies have no cycle.
\<close>

theorem compile_valid_iff_plan_ok:
  "compiled_valid (compileIssuePlan input) \<longleftrightarrow> plan_ok input"
  by (rule compiled_valid_iff)

lemma map_of_dependencies:
  assumes "distinct (map key (issues input))" and "d \<in> set (issues input)"
  shows "map_of (dependencies input) (key d) = Some (dependencyCandidates d)"
proof -
  have "map fst (map (\<lambda>d. (key d, dependencyCandidates d)) (issues input)) = map key (issues input)"
    by simp
  with assms have "dependencies input = map (\<lambda>d. (key d, dependencyCandidates d)) (issues input)"
    unfolding dependencies_def by (intro js_map_distinct) (simp add: o_def)
  with assms show ?thesis by (auto intro!: map_of_is_SomeI simp: o_def)
qed

lemma edge_dependencies:
  assumes "plan_ok input" and "d \<in> set (issues input)" and "dep \<in> set (dependencyCandidates d)"
  shows "(key d, dep) \<in> edge (dependencies input)"
proof -
  have "map_of (dependencies input) (key d) = Some (dependencyCandidates d)"
    using assms by (intro map_of_dependencies) (auto simp: plan_ok_def)
  moreover from assms have "dep \<in> fst ` set (dependencies input)"
    by (auto simp: plan_ok_def issue_traceable_def)
  ultimately show ?thesis using assms(3) by (auto simp: edge_def map_of_eq_None_iff)
qed

text \<open>
  A valid plan is ordered completely: the topological order lists every issue key
  exactly once, and every dependency of an issue stands before the issue.
\<close>

theorem valid_plan_is_ordered:
  assumes "compiled_valid (compileIssuePlan input)"
  shows "mset (topological_order (compileIssuePlan input)) = mset (map key (issues input)) \<and>
    (\<forall>xs d ys dep. topological_order (compileIssuePlan input) = xs @ key d # ys \<and>
       d \<in> set (issues input) \<and> dep \<in> set (dependencyCandidates d) \<longrightarrow> dep \<in> set xs)"
proof -
  let ?keys = "map key (issues input)" and ?g = "dependencies input"
  from assms have ok: "plan_ok input" by (simp add: compiled_valid_iff)
  then have acyc: "acyclic (edge ?g)" by (simp add: plan_ok_def)
  then have "findCycle ?keys ?g = []" by (subst findCycle_Nil_iff) simp_all
  then have order: "topological_order (compileIssuePlan input) = topologicalOrder ?keys ?g"
    by (simp add: compileIssuePlan_def Let_def)
  have keys: "fst ` set ?g = set ?keys" by simp
  from acyc have set_eq: "set (topologicalOrder ?keys ?g) = set ?keys"
    by (subst topologicalOrder_complete_iff[OF keys])
  from ok have "distinct ?keys" by (simp add: plan_ok_def)
  with set_eq have "mset (topologicalOrder ?keys ?g) = mset ?keys"
    using distinct_topologicalOrder by (metis set_eq_iff_mset_eq_distinct)
  moreover have "dep \<in> set xs" if "topologicalOrder ?keys ?g = xs @ key d # ys"
    "d \<in> set (issues input)" "dep \<in> set (dependencyCandidates d)" for xs d ys dep
  proof (rule topologicalOrder_ordered[OF that(1)])
    from edge_dependencies[OF ok that(2,3)]
    show "dep \<in> set (successors ?g (key d))" by (simp add: edge_successors)
    from ok that(2,3) show "dep \<in> set ?keys" by (auto simp: plan_ok_def issue_traceable_def)
  qed
  ultimately show ?thesis unfolding order by blast
qed

definition sample_input :: compile_input where
  "sample_input = \<lparr>requirements = [\<lparr>requirement_id = ''R1'', acceptanceCriterionRefs = [''A1'']\<rparr>],
     acceptanceCriterionIds = [''A1''],
     issues = [sample_issue ''B'' [''A''] [], sample_issue ''A'' [] []]\<rparr>"

theorem valid_plan_is_ordered_witness:
  "compiled_valid (compileIssuePlan sample_input) \<and>
   topological_order (compileIssuePlan sample_input) = [''A'', ''B''] \<and>
   mset (topological_order (compileIssuePlan sample_input)) = {#''A'', ''B''#}"
proof -
  have h: "compiled_valid (compileIssuePlan sample_input)" by code_simp
  have o: "topological_order (compileIssuePlan sample_input) = [''A'', ''B'']" by code_simp
  show ?thesis using h o valid_plan_is_ordered[OF h]
    by (simp add: sample_input_def sample_issue_def)
qed

lemma compiled_coverage:
  "requirement_coverage (compileIssuePlan input) =
     \<lparr>covered = sort (filter (\<lambda>r. r \<in> requirement_id ` set (requirements input))
        (covered_requirements input)),
      uncovered = sort (filter (\<lambda>r. r \<notin> set (covered_requirements input))
        (js_set (map requirement_id (requirements input))))\<rparr>"
  "acceptance_coverage (compileIssuePlan input) =
     \<lparr>covered = sort (filter (\<lambda>a. a \<in> set (acceptanceCriterionIds input))
        (covered_acceptance input)),
      uncovered = sort (filter (\<lambda>a. a \<notin> set (covered_acceptance input))
        (js_set (acceptanceCriterionIds input)))\<rparr>"
  by (simp_all add: compileIssuePlan_def Let_def)

text \<open>
  Coverage is a partition: of the requirements (and of the acceptance criteria) of
  the specification, each is reported exactly once, as covered or as uncovered, in sorted
  order, and it is reported as covered exactly when some issue of the plan refers to it.
\<close>

theorem coverage_is_a_partition:
  "let r = compileIssuePlan input;
       refs = \<Union> (set (map (\<lambda>d. set (requirementRefs d)) (issues input)));
       crits = \<Union> (set (map (\<lambda>d. criterionRef ` set (acceptance d)) (issues input)))
   in sorted (covered (requirement_coverage r)) \<and> sorted (uncovered (requirement_coverage r)) \<and>
      distinct (covered (requirement_coverage r) @ uncovered (requirement_coverage r)) \<and>
      set (covered (requirement_coverage r)) = requirement_id ` set (requirements input) \<inter> refs \<and>
      set (uncovered (requirement_coverage r)) = requirement_id ` set (requirements input) - refs \<and>
      sorted (covered (acceptance_coverage r)) \<and> sorted (uncovered (acceptance_coverage r)) \<and>
      distinct (covered (acceptance_coverage r) @ uncovered (acceptance_coverage r)) \<and>
      set (covered (acceptance_coverage r)) = set (acceptanceCriterionIds input) \<inter> crits \<and>
      set (uncovered (acceptance_coverage r)) = set (acceptanceCriterionIds input) - crits"
  unfolding Let_def compiled_coverage
  by (auto simp: covered_requirements_def covered_acceptance_def)

end
