(* ===== verification/Execution_Waves.thy ===== *)
theory Execution_Waves
  imports Issue_Compiler
begin

text \<open>
  \<^verbatim>\<open>domain/execution-waves.ts\<close>: which issues conflict over a resource, and the schedule of an
  issue plan in waves, so that the issues of one wave can run in parallel. The locale-sensitive
  comparison \<open>localeCompare\<close> of the runtime is a parameter \<open>lc\<close> (\<open>lc a b\<close>: a does not sort
  after b), documented to be a total preorder of the strings.

  The scheduler stores a conflict under the pair of keys in \<open>localeCompare\<close> order and looks it
  up under the pair in code-unit order. The lemmas therefore assume that the two orders agree
  on the keys of the plan (they do on validated keys, which are upper-case letters, digits and
  hyphens) and \<open>conflict_missed\<close> shows what happens where they do not.
\<close>

section \<open>Data\<close>

datatype conflict_resource_kind =
  File | Directory | Public_interface | Database_object | Shared_configuration | Landing_order

record issue_conflict =
  issueKeys_pair :: "string \<times> string"
  resourceKinds :: "conflict_resource_kind list"
  resourceKeys :: "string list"
  conflict_reasons :: "string list"

record execution_wave =
  number :: nat
  wave_issueKeys :: "string list"
  wave_reasons :: "string list"

record execution_wave_plan =
  policyRevision :: string
  conflicts :: "issue_conflict list"
  waves :: "execution_wave list"

definition conflictPolicyRevision :: string where
  "conflictPolicyRevision = ''issue-conflicts.v1''"

section \<open>Paths\<close>

text \<open>\<^verbatim>\<open>value.trim().replaceAll("\\", "/").replace(/^\.\//, "").replace(/\/+/g, "/")\<close>.\<close>

fun collapse_slashes :: "string \<Rightarrow> string" where
  "collapse_slashes (a # b # cs) =
     (if a = CHR ''/'' \<and> b = CHR ''/'' then collapse_slashes (b # cs)
      else a # collapse_slashes (b # cs))"
| "collapse_slashes cs = cs"

definition drop_dot_slash :: "string \<Rightarrow> string" where
  "drop_dot_slash s = (if prefix ''./'' s then drop 2 s else s)"

definition normalizedPath :: "string \<Rightarrow> string" where
  "normalizedPath value =
     collapse_slashes (drop_dot_slash
       (map (\<lambda>c. if c = CHR 0x5C then CHR ''/'' else c) (trim value)))"

text \<open>A claimed directory: a final \<^verbatim>\<open>/**\<close> is dropped, a final slash is added.\<close>

definition drop_star_suffix :: "string \<Rightarrow> string" where
  "drop_star_suffix s = (if suffix ''/**'' s then take (length s - 3) s else s)"

definition directory :: "string \<Rightarrow> string" where
  "directory value =
     (let normalized = drop_star_suffix (normalizedPath value)
      in if suffix ''/'' normalized then normalized else normalized @ ''/'')"

definition intersections :: "string list \<Rightarrow> string list \<Rightarrow> string list" where
  "intersections left right =
     (let rightSet = js_set (map (\<lambda>v. lower (trim v)) right)
      in sort (js_set (filter (\<lambda>v. v \<in> set rightSet) (map (\<lambda>v. lower (trim v)) left))))"

section \<open>Conflicts of two issues\<close>

fun kind_name :: "conflict_resource_kind \<Rightarrow> string" where
  "kind_name File = ''file''"
| "kind_name Directory = ''directory''"
| "kind_name Public_interface = ''public_interface''"
| "kind_name Database_object = ''database_object''"
| "kind_name Shared_configuration = ''shared_configuration''"
| "kind_name Landing_order = ''landing_order''"

text \<open>The directories that one issue claims and the other claims or writes into.\<close>

definition directory_overlaps :: "issue_draft \<Rightarrow> issue_draft \<Rightarrow> string list" where
  "directory_overlaps left right =
     (let leftDirectories = map directory (directories (conflictResources left));
          rightDirectories = map directory (directories (conflictResources right))
      in js_set (filter (\<lambda>claimed.
             list_ex (\<lambda>candidate. prefix claimed candidate \<or> prefix candidate claimed) rightDirectories \<or>
             list_ex (\<lambda>file. prefix claimed (normalizedPath file)) (expectedFiles right)) leftDirectories @
           filter (\<lambda>claimed. list_ex (\<lambda>file. prefix claimed (normalizedPath file)) (expectedFiles left))
             rightDirectories))"

text \<open>The four categories of named resources, with the label of their reason.\<close>

definition categories ::
  "((issue_conflict_resources \<Rightarrow> string list) \<times> conflict_resource_kind \<times> string) list" where
  "categories =
     [(publicInterfaces, Public_interface, ''public interface''),
      (databaseObjects, Database_object, ''database object''),
      (sharedConfigurations, Shared_configuration, ''shared configuration''),
      (landingOrder, Landing_order, ''landing order key'')]"

text \<open>One finding of the comparison: its kind, its resource keys and its reason.\<close>

type_synonym conflict_part = "conflict_resource_kind \<times> string list \<times> string"

definition conflict_parts :: "issue_draft \<Rightarrow> issue_draft \<Rightarrow> conflict_part list" where
  "conflict_parts left right =
     (let files = intersections (map normalizedPath (expectedFiles left))
                    (map normalizedPath (expectedFiles right));
          directoryKeys = sort (directory_overlaps left right)
      in (if files \<noteq> [] then
            [(File, map (\<lambda>v. ''file:'' @ v) files,
              ''Both Issues expect to modify '' @ join '', '' files)] else []) @
         (if directoryKeys \<noteq> [] then
            [(Directory, map (\<lambda>v. ''directory:'' @ v) directoryKeys,
              ''Directory claims overlap at '' @ join '', '' directoryKeys)] else []) @
         concat (map (\<lambda>(property, kind, label).
           let keys = intersections (property (conflictResources left)) (property (conflictResources right))
           in if keys = [] then []
              else [(kind, map (\<lambda>v. kind_name kind @ '':'' @ v) keys,
                     ''Both Issues claim the same '' @ label @ '': '' @ join '', '' keys)]) categories))"

definition conflictFor :: "issue_draft \<Rightarrow> issue_draft \<Rightarrow> issue_conflict option" where
  "conflictFor left right =
     (let parts = conflict_parts left right
      in if parts = [] then None
         else Some \<lparr>issueKeys_pair = (key left, key right),
                resourceKinds = map fst parts,
                resourceKeys = sort (js_set (concat (map (fst \<circ> snd) parts))),
                conflict_reasons = map (snd \<circ> snd) parts\<rparr>)"

type_synonym locale_compare = "string \<Rightarrow> string \<Rightarrow> bool"

definition sorted_issues :: "locale_compare \<Rightarrow> issue_draft list \<Rightarrow> issue_draft list" where
  "sorted_issues lc ds = sort_by (\<lambda>a b. lc (key a) (key b)) ds"

text \<open>The two nested loops over the positions of the sorted issues.\<close>

fun pair_conflicts :: "issue_draft list \<Rightarrow> issue_conflict list" where
  "pair_conflicts [] = []"
| "pair_conflicts (d # ds) =
     concat (map (\<lambda>e. case conflictFor d e of None \<Rightarrow> [] | Some c \<Rightarrow> [c]) ds) @ pair_conflicts ds"

definition analyzeIssueConflicts :: "locale_compare \<Rightarrow> issue_draft list \<Rightarrow> issue_conflict list" where
  "analyzeIssueConflicts lc ds = pair_conflicts (sorted_issues lc ds)"

section \<open>The schedule\<close>

text \<open>The set of conflicting pairs: the code joins the two keys with a NUL character, which no
  key contains, and the model keeps the pair.\<close>

definition conflict_keys :: "issue_conflict list \<Rightarrow> (string \<times> string) list" where
  "conflict_keys cs = js_set (map issueKeys_pair cs)"

text \<open>\<open>[left, right].sort()\<close>, by code units, is the pair that is looked up.\<close>

definition hasConflict :: "(string \<times> string) list \<Rightarrow> string \<Rightarrow> string \<Rightarrow> bool" where
  "hasConflict pairs left right \<longleftrightarrow>
     (if left \<le> right then (left, right) else (right, left)) \<in> set pairs"

definition select_step :: "(string \<times> string) list \<Rightarrow> string \<Rightarrow> string list \<Rightarrow> string list" where
  "select_step pairs k selected =
     (if list_all (\<lambda>prior. \<not> hasConflict pairs prior k) selected then selected @ [k] else selected)"

definition select_wave :: "(string \<times> string) list \<Rightarrow> string list \<Rightarrow> string list" where
  "select_wave pairs ks =
     (let selected = fold (select_step pairs) ks []
      in if selected = [] then take 1 ks else selected)"

definition wave_reason :: "issue_draft list \<Rightarrow> nat \<Rightarrow> string \<Rightarrow> string" where
  "wave_reason ordered n k =
     (let deps = (case find (\<lambda>d. key d = k) ordered of None \<Rightarrow> [] | Some d \<Rightarrow> dependencyCandidates d)
      in if deps \<noteq> []
         then k @ '' dependencies are complete and no Wave '' @ show_nat n @ '' resource conflicts remain''
         else k @ '' has no unmet dependencies and no Wave '' @ show_nat n @ '' resource conflicts'')"

definition waves_remaining :: "issue_draft list \<Rightarrow> remaining" where
  "waves_remaining ordered =
     js_map (map (\<lambda>d. (key d, js_set (filter (\<lambda>x. x \<in> set (map key ordered)) (dependencyCandidates d))))
       ordered)"

lemma fold_select_subset:
  "set (fold (select_step pairs) ks sel) \<subseteq> set sel \<union> set ks"
proof (induction ks arbitrary: sel)
  case (Cons k ks)
  have "set (select_step pairs k sel) \<subseteq> insert k (set sel)" by (auto simp: select_step_def)
  with Cons.IH[of "select_step pairs k sel"] show ?case by auto
qed simp

lemma select_wave_subset: "set (select_wave pairs ks) \<subseteq> set ks"
  using fold_select_subset[of pairs ks "[]"]
  by (auto simp: select_wave_def Let_def dest: in_set_takeD)

lemma select_wave_nonempty: "ks \<noteq> [] \<Longrightarrow> select_wave pairs ks \<noteq> []"
  by (simp add: select_wave_def Let_def)

function wave_loop ::
  "(string \<times> string) list \<Rightarrow> issue_draft list \<Rightarrow> nat \<Rightarrow> remaining \<Rightarrow> execution_wave list" where
  "wave_loop pairs ordered made rem =
     (if ready rem = [] then []
      else
        let selected = select_wave pairs (ready rem); n = made + 1
        in \<lparr>number = n, wave_issueKeys = selected, wave_reasons = map (wave_reason ordered n) selected\<rparr> #
           wave_loop pairs ordered n (drop_keys selected rem))"
  by pat_completeness auto
termination
proof (relation "measure (\<lambda>(pairs, ordered, made, rem). length rem)", goal_cases)
  case (2 pairs ordered made rem selected n)
  have "set (ready rem) \<subseteq> fst ` set rem" by (force simp: in_ready)
  with select_wave_subset[of pairs "ready rem"] 2 show ?case
    by (auto intro!: drop_keys_shorter simp: select_wave_nonempty)
qed simp

declare wave_loop.simps [simp del]

definition scheduleExecutionWaves :: "locale_compare \<Rightarrow> issue_draft list \<Rightarrow> execution_wave_plan" where
  "scheduleExecutionWaves lc ds =
     (let ordered = sorted_issues lc ds;
          cs = analyzeIssueConflicts lc ordered
      in \<lparr>policyRevision = conflictPolicyRevision, conflicts = cs,
          waves = wave_loop (conflict_keys cs) ordered 0 (waves_remaining ordered)\<rparr>)"

section \<open>The loop as a peeling loop\<close>

lemma fold_select_distinct:
  "distinct ks \<Longrightarrow> distinct sel \<Longrightarrow> set sel \<inter> set ks = {} \<Longrightarrow>
     distinct (fold (select_step pairs) ks sel)"
  by (induction ks arbitrary: sel) (auto simp: select_step_def)

lemma select_wave_distinct: "distinct ks \<Longrightarrow> distinct (select_wave pairs ks)"
  using fold_select_distinct[of ks "[]" pairs] by (simp add: select_wave_def Let_def)

lemma wave_keys_independent:
  "map wave_issueKeys (wave_loop pairs ordered m rem) =
   map wave_issueKeys (wave_loop pairs ordered n rem)"
proof (induction pairs ordered m rem arbitrary: n rule: wave_loop.induct)
  case (1 pairs ordered m rem)
  show ?case
  proof (cases "ready rem = []")
    case True
    then show ?thesis by (simp add: wave_loop.simps)
  next
    case False
    from "1.IH"[OF False refl refl, of "n + 1"] False show ?thesis
      by (simp add: wave_loop.simps[of pairs ordered m rem] wave_loop.simps[of pairs ordered n rem] Let_def)
  qed
qed

definition wave_keys :: "(string \<times> string) list \<Rightarrow> issue_draft list \<Rightarrow> remaining \<Rightarrow> string list list" where
  "wave_keys pairs ordered rem = map wave_issueKeys (wave_loop pairs ordered 0 rem)"

interpretation waving: layering "wave_keys pairs ordered" "select_wave pairs" for pairs ordered
proof
  fix rem assume "ready rem = []"
  then show "wave_keys pairs ordered rem = []" by (simp add: wave_keys_def wave_loop.simps)
next
  fix rem assume "ready rem \<noteq> []"
  then show "wave_keys pairs ordered rem =
      select_wave pairs (ready rem) # wave_keys pairs ordered (drop_keys (select_wave pairs (ready rem)) rem)"
    by (simp add: wave_keys_def wave_loop.simps[of pairs ordered 0 rem] Let_def wave_keys_independent[of pairs ordered "Suc 0" _ 0])
qed (simp_all add: select_wave_nonempty select_wave_subset select_wave_distinct)

lemma wave_numbers:
  "map number (wave_loop pairs ordered m rem) = [m + 1 ..< m + 1 + length (wave_loop pairs ordered m rem)]"
proof (induction pairs ordered m rem rule: wave_loop.induct)
  case (1 pairs ordered m rem)
  show ?case
  proof (cases "ready rem = []")
    case True
    then show ?thesis by (simp add: wave_loop.simps)
  next
    case False
    from "1.IH"[OF False refl refl] False show ?thesis
      by (simp add: wave_loop.simps[of pairs ordered m rem] Let_def upt_conv_Cons del: upt_Suc)
  qed
qed

section \<open>No conflict inside a wave\<close>

lemma hasConflict_sym: "hasConflict pairs a b \<longleftrightarrow> hasConflict pairs b a"
  by (auto simp: hasConflict_def)

definition conflict_free :: "(string \<times> string) list \<Rightarrow> string list \<Rightarrow> bool" where
  "conflict_free pairs ks \<longleftrightarrow> (\<forall>a\<in>set ks. \<forall>b\<in>set ks. a \<noteq> b \<longrightarrow> \<not> hasConflict pairs a b)"

lemma fold_select_free:
  "conflict_free pairs sel \<Longrightarrow> conflict_free pairs (fold (select_step pairs) ks sel)"
proof (induction ks arbitrary: sel)
  case (Cons k ks)
  have "conflict_free pairs (select_step pairs k sel)"
    using Cons.prems hasConflict_sym by (auto simp: conflict_free_def select_step_def list_all_iff)
  with Cons.IH show ?case by simp
qed simp

lemma select_wave_free: "conflict_free pairs (select_wave pairs ks)"
proof -
  have one: "conflict_free pairs (take 1 ks)" by (cases ks) (auto simp: conflict_free_def)
  have "conflict_free pairs []" by (simp add: conflict_free_def)
  from fold_select_free[OF this] one show ?thesis by (simp add: select_wave_def Let_def)
qed

lemma wave_loop_free:
  "w \<in> set (wave_loop pairs ordered m rem) \<Longrightarrow> conflict_free pairs (wave_issueKeys w)"
proof (induction pairs ordered m rem rule: wave_loop.induct)
  case (1 pairs ordered m rem)
  show ?case
  proof (cases "ready rem = []")
    case True
    with "1.prems" show ?thesis by (simp add: wave_loop.simps)
  next
    case False
    with "1.prems" consider "wave_issueKeys w = select_wave pairs (ready rem)"
      | "w \<in> set (wave_loop pairs ordered (m + 1) (drop_keys (select_wave pairs (ready rem)) rem))"
      by (auto simp: wave_loop.simps[of pairs ordered m rem] Let_def)
    then show ?thesis
      using "1.IH"[OF False refl refl] by cases (simp_all add: select_wave_free)
  qed
qed

section \<open>Conflicts are symmetric\<close>

lemma intersections_Nil:
  "intersections xs ys = [] \<longleftrightarrow>
     (\<lambda>v. lower (trim v)) ` set xs \<inter> (\<lambda>v. lower (trim v)) ` set ys = {}"
proof -
  have "intersections xs ys = [] \<longleftrightarrow> set (intersections xs ys) = {}" by simp
  also have "set (intersections xs ys) =
      (\<lambda>v. lower (trim v)) ` set xs \<inter> (\<lambda>v. lower (trim v)) ` set ys"
    by (auto simp: intersections_def Let_def)
  finally show ?thesis .
qed

lemma js_set_Nil [simp]: "js_set xs = [] \<longleftrightarrow> xs = []"
  by (cases xs) auto

lemma directory_overlaps_sym: "directory_overlaps d e = [] \<longleftrightarrow> directory_overlaps e d = []"
  unfolding directory_overlaps_def Let_def
  by (simp add: filter_empty_conv list_ex_iff) blast

lemma conflictFor_None:
  "conflictFor d e = None \<longleftrightarrow>
     intersections (map normalizedPath (expectedFiles d)) (map normalizedPath (expectedFiles e)) = [] \<and>
     directory_overlaps d e = [] \<and>
     (\<forall>(property, kind, label) \<in> set categories.
        intersections (property (conflictResources d)) (property (conflictResources e)) = [])"
  by (simp add: conflictFor_def conflict_parts_def Let_def categories_def)

lemma conflictFor_sym: "conflictFor d e = None \<longleftrightarrow> conflictFor e d = None"
  unfolding conflictFor_None intersections_Nil
  by (subst directory_overlaps_sym) (simp add: Int_commute categories_def)

section \<open>Where the two orders agree\<close>

definition code_unit_order_on :: "locale_compare \<Rightarrow> string list \<Rightarrow> bool" where
  "code_unit_order_on lc ks \<longleftrightarrow> (\<forall>a\<in>set ks. \<forall>b\<in>set ks. lc a b \<longleftrightarrow> a \<le> b)"

lemma insert_by_code_units:
  assumes "\<forall>y\<in>set ys. lc (f x) (f y) \<longleftrightarrow> f x \<le> f y"
  shows "insert_by (\<lambda>a b. lc (f a) (f b)) x ys = insort_key f x ys"
  using assms by (induction ys) auto

lemma sort_by_code_units:
  assumes "code_unit_order_on lc (map f xs)"
  shows "sort_by (\<lambda>a b. lc (f a) (f b)) xs = sort_key f xs"
  using assms
proof (induction xs)
  case Nil
  then show ?case by (simp add: sort_by_def)
next
  case (Cons x xs)
  then have IH: "sort_by (\<lambda>a b. lc (f a) (f b)) xs = sort_key f xs"
    by (simp add: code_unit_order_on_def)
  have "sort_by (\<lambda>a b. lc (f a) (f b)) (x # xs) = insert_by (\<lambda>a b. lc (f a) (f b)) x (sort_key f xs)"
    by (simp add: sort_by_def flip: IH)
  also have "\<dots> = insort_key f x (sort_key f xs)"
    using Cons.prems by (intro insert_by_code_units) (simp add: code_unit_order_on_def)
  finally show ?case by simp
qed

lemma set_sorted_issues [simp]: "set (sorted_issues lc ds) = set ds"
  by (simp add: sorted_issues_def)

lemma distinct_sorted_issues [simp]:
  "distinct (map key (sorted_issues lc ds)) \<longleftrightarrow> distinct (map key ds)"
  by (simp add: sorted_issues_def)

lemma sorted_issues_code_units:
  "code_unit_order_on lc (map key ds) \<Longrightarrow> sorted (map key (sorted_issues lc ds))"
  by (simp add: sorted_issues_def sort_by_code_units)

lemma pair_conflicts_complete:
  assumes "ds = xs @ d # ys" and "e \<in> set ys" and "conflictFor d e \<noteq> None"
  shows "(key d, key e) \<in> set (map issueKeys_pair (pair_conflicts ds))"
  using assms
proof (induction xs arbitrary: ds)
  case Nil
  then obtain c where "conflictFor d e = Some c" by auto
  moreover from this have "issueKeys_pair c = (key d, key e)"
    by (auto simp: conflictFor_def Let_def split: if_splits)
  ultimately show ?case using Nil by (force split: option.splits)
qed auto

lemma ordered_pair_position:
  assumes "d \<in> set ds" and "e \<in> set ds" and "d \<noteq> e"
  obtains xs ys where "ds = xs @ d # ys" "e \<in> set ys" | xs ys where "ds = xs @ e # ys" "d \<in> set ys"
proof -
  from assms(1) obtain xs ys where ds: "ds = xs @ d # ys" by (metis split_list)
  show thesis
  proof (cases "e \<in> set ys")
    case True
    with ds that(1) show thesis by blast
  next
    case False
    with ds assms have "e \<in> set xs" by auto
    then obtain us vs where "xs = us @ e # vs" by (metis split_list)
    with ds have "ds = us @ e # (vs @ d # ys)" "d \<in> set (vs @ d # ys)" by auto
    with that(2) show thesis by blast
  qed
qed

lemma hasConflict_complete:
  assumes "sorted (map key ds)" and "d \<in> set ds" and "e \<in> set ds" and "d \<noteq> e"
    and "conflictFor d e \<noteq> None"
  shows "hasConflict (conflict_keys (pair_conflicts ds)) (key d) (key e)"
  using assms(2-4)
proof (cases rule: ordered_pair_position)
  case (1 xs ys)
  with assms(1) have "key d \<le> key e" by (auto simp: sorted_append)
  with pair_conflicts_complete[OF 1 assms(5)] show ?thesis
    by (simp add: hasConflict_def conflict_keys_def)
next
  case (2 xs ys)
  with assms(1) have le: "key e \<le> key d" by (auto simp: sorted_append)
  from assms(5) have "conflictFor e d \<noteq> None" by (metis conflictFor_sym)
  from pair_conflicts_complete[OF 2 this] le show ?thesis
    by (auto simp: hasConflict_def conflict_keys_def)
qed

section \<open>Dependencies of the schedule\<close>

text \<open>From a dependency that is itself an issue of the plan to the issue that needs it.\<close>

definition issue_needs :: "issue_draft list \<Rightarrow> (string \<times> string) set" where
  "issue_needs ds = {(dep, key d) | dep d.
     d \<in> set ds \<and> dep \<in> set (dependencyCandidates d) \<and> dep \<in> key ` set ds}"

lemma waves_remaining_eq:
  assumes "distinct (map key ds)"
  shows "waves_remaining ds =
    map (\<lambda>d. (key d, js_set (filter (\<lambda>x. x \<in> key ` set ds) (dependencyCandidates d)))) ds"
proof -
  have "distinct (map fst
      (map (\<lambda>d. (key d, js_set (filter (\<lambda>x. x \<in> key ` set ds) (dependencyCandidates d)))) ds))"
    using assms by (simp add: o_def)
  then show ?thesis by (simp add: waves_remaining_def)
qed

lemma keys_waves_remaining: "distinct (map key ds) \<Longrightarrow> fst ` set (waves_remaining ds) = key ` set ds"
  by (force simp: waves_remaining_eq)

lemma distinct_waves_remaining [simp]: "distinct (map fst (waves_remaining ds))"
  by (simp add: waves_remaining_def)

lemma needs_waves_remaining:
  "distinct (map key ds) \<Longrightarrow> needs (waves_remaining ds) = issue_needs ds"
  by (auto simp: needs_def issue_needs_def waves_remaining_eq)

lemma closed_waves_remaining: "distinct (map key ds) \<Longrightarrow> closed_map (waves_remaining ds)"
  by (auto simp: closed_map_def keys_waves_remaining) (auto simp: waves_remaining_eq)

lemma issue_needs_cong: "set ds = set es \<Longrightarrow> issue_needs ds = issue_needs es"
  by (simp add: issue_needs_def)

lemma scheduled_keys:
  "map wave_issueKeys (waves (scheduleExecutionWaves lc ds)) =
     wave_keys (conflict_keys (analyzeIssueConflicts lc (sorted_issues lc ds))) (sorted_issues lc ds)
       (waves_remaining (sorted_issues lc ds))"
  by (simp add: scheduleExecutionWaves_def Let_def wave_keys_def)

lemma edge_dependencies_needs:
  assumes "distinct (map key (issues input))"
  shows "edge (dependencies input) = (issue_needs (issues input))\<inverse>"
proof -
  have known: "map_of (dependencies input) x \<noteq> None \<longleftrightarrow> x \<in> key ` set (issues input)" for x
    by (simp add: map_of_eq_None_iff)
  have "(k, dep) \<in> edge (dependencies input) \<longleftrightarrow> (dep, k) \<in> issue_needs (issues input)" for k dep
  proof
    assume e: "(k, dep) \<in> edge (dependencies input)"
    then have "map_of (dependencies input) k \<noteq> None" by (auto simp: edge_def)
    then obtain d where d: "d \<in> set (issues input)" "k = key d" unfolding known by auto
    with e known[of dep] map_of_dependencies[OF assms d(1)]
    show "(dep, k) \<in> issue_needs (issues input)" by (auto simp: edge_def issue_needs_def)
  next
    assume "(dep, k) \<in> issue_needs (issues input)"
    with known[of dep] map_of_dependencies[OF assms]
    show "(k, dep) \<in> edge (dependencies input)" by (auto simp: edge_def issue_needs_def)
  qed
  then show ?thesis by auto
qed

lemma dependencies_scheduled_before:
  assumes "distinct (map key ds)"
    and "waves (scheduleExecutionWaves lc ds) = pre @ w # post"
    and "d \<in> set ds" and "key d \<in> set (wave_issueKeys w)"
    and "dep \<in> set (dependencyCandidates d)" and "dep \<in> key ` set ds"
  shows "\<exists>w' \<in> set pre. dep \<in> set (wave_issueKeys w')"
proof -
  let ?s = "sorted_issues lc ds"
  have dist: "distinct (map key ?s)" using assms(1) by simp
  from assms(2) scheduled_keys[of lc ds]
  have L: "wave_keys (conflict_keys (analyzeIssueConflicts lc ?s)) ?s (waves_remaining ?s) =
      map wave_issueKeys pre @ wave_issueKeys w # map wave_issueKeys post" by simp
  have mem: "(key d, js_set (filter (\<lambda>x. x \<in> key ` set ?s) (dependencyCandidates d)))
      \<in> set (waves_remaining ?s)"
    unfolding waves_remaining_eq[OF dist] using assms(3) by auto
  from waving.layers_respect_needs[OF distinct_waves_remaining L assms(4) mem] assms(5,6)
  have "dep \<in> set (concat (map wave_issueKeys pre))" by auto
  then show ?thesis by auto
qed

lemma schedule_covers:
  assumes "distinct (map key ds)"
  shows "distinct (concat (map wave_issueKeys (waves (scheduleExecutionWaves lc ds)))) \<and>
    set (concat (map wave_issueKeys (waves (scheduleExecutionWaves lc ds)))) \<subseteq> key ` set ds \<and>
    [] \<notin> set (map wave_issueKeys (waves (scheduleExecutionWaves lc ds))) \<and>
    map number (waves (scheduleExecutionWaves lc ds)) =
      [1 ..< Suc (length (waves (scheduleExecutionWaves lc ds)))] \<and>
    (set (concat (map wave_issueKeys (waves (scheduleExecutionWaves lc ds)))) = key ` set ds \<longleftrightarrow>
       acyclic (issue_needs ds))"
proof -
  let ?s = "sorted_issues lc ds"
  let ?p = "conflict_keys (analyzeIssueConflicts lc ?s)"
  have dist: "distinct (map key ?s)" using assms by simp
  have needs: "needs (waves_remaining ?s) = issue_needs ds"
    using needs_waves_remaining[OF dist] issue_needs_cong[OF set_sorted_issues] by simp
  have keys: "fst ` set (waves_remaining ?s) = key ` set ds"
    using keys_waves_remaining[OF dist] by simp
  have "set (concat (wave_keys ?p ?s (waves_remaining ?s))) = key ` set ds \<longleftrightarrow>
      acyclic (issue_needs ds)"
    using waving.layers_complete[of "waves_remaining ?s" ?p ?s]
      waving.acyclic_if_complete[of "waves_remaining ?s" ?p ?s]
      closed_waves_remaining[OF dist] unfolding needs keys by auto
  moreover have "map number (waves (scheduleExecutionWaves lc ds)) =
      [1 ..< Suc (length (waves (scheduleExecutionWaves lc ds)))]"
    by (simp add: scheduleExecutionWaves_def Let_def wave_numbers del: upt_Suc)
  ultimately show ?thesis
    unfolding scheduled_keys
    using waving.layers_distinct[OF distinct_waves_remaining, of ?p ?s ?s]
      waving.layers_nonempty[of ?p ?s "waves_remaining ?s"]
      waving.layers_keys[of ?p ?s "waves_remaining ?s"] keys
    by simp
qed

section \<open>Properties\<close>

text \<open>
  Property C17. Two different issues scheduled in the same wave have no resource conflict: they
  expect to modify no common file, neither claims a directory that the other claims or writes
  into, and they share no public interface, database object, configuration or landing-order
  key. This needs distinct keys and a locale order that agrees with the code-unit order on the
  keys of the plan.
\<close>

theorem waves_are_conflict_free:
  assumes "distinct (map key ds)" and "code_unit_order_on lc (map key ds)"
    and "w \<in> set (waves (scheduleExecutionWaves lc ds))"
    and "d \<in> set ds" and "e \<in> set ds" and "d \<noteq> e"
    and "key d \<in> set (wave_issueKeys w)" and "key e \<in> set (wave_issueKeys w)"
  shows "conflictFor d e = None"
proof (rule ccontr)
  assume c: "conflictFor d e \<noteq> None"
  let ?s = "sorted_issues lc ds" and ?t = "sorted_issues lc (sorted_issues lc ds)"
  have "code_unit_order_on lc (map key ?s)"
    using assms(2) by (simp add: code_unit_order_on_def)
  then have sorted: "sorted (map key ?t)" by (rule sorted_issues_code_units)
  have "hasConflict (conflict_keys (pair_conflicts ?t)) (key d) (key e)"
    by (rule hasConflict_complete[OF sorted]) (use assms(4-6) c in simp_all)
  moreover have "conflict_free (conflict_keys (pair_conflicts ?t)) (wave_issueKeys w)"
    using assms(3)
    by (auto simp: scheduleExecutionWaves_def Let_def analyzeIssueConflicts_def dest: wave_loop_free)
  moreover have "key d \<noteq> key e"
    using assms(1,4-6) by (metis distinct_map inj_onD)
  ultimately show False using assms(7,8) by (auto simp: conflict_free_def)
qed

text \<open>Three issues: the last needs the first, the first two write the same file.\<close>

definition sample_plan_issues :: "issue_draft list" where
  "sample_plan_issues =
     [sample_issue ''C'' [''A''] [''y''], sample_issue ''B'' [] [''X''], sample_issue ''A'' [] [''./x'']]"

lemma sample_plan_waves:
  "map wave_issueKeys (waves (scheduleExecutionWaves (\<le>) sample_plan_issues)) = [[''A''], [''B'', ''C'']]"
  by code_simp

theorem waves_are_conflict_free_witness:
  "map wave_issueKeys (waves (scheduleExecutionWaves (\<le>) sample_plan_issues)) = [[''A''], [''B'', ''C'']] \<and>
   conflictFor (sample_issue ''B'' [] [''X'']) (sample_issue ''C'' [''A''] [''y'']) = None \<and>
   conflictFor (sample_issue ''B'' [] [''X'']) (sample_issue ''A'' [] [''./x'']) \<noteq> None"
proof -
  let ?b = "sample_issue ''B'' [] [''X'']" and ?c = "sample_issue ''C'' [''A''] [''y'']"
  have "[''B'', ''C''] \<in> set (map wave_issueKeys (waves (scheduleExecutionWaves (\<le>) sample_plan_issues)))"
    by (simp add: sample_plan_waves)
  then obtain w where w: "w \<in> set (waves (scheduleExecutionWaves (\<le>) sample_plan_issues))"
    "wave_issueKeys w = [''B'', ''C'']" by auto
  have "conflictFor ?b ?c = None"
    by (rule waves_are_conflict_free[OF _ _ w(1)])
      (simp_all add: w(2) code_unit_order_on_def sample_plan_issues_def sample_issue_def)
  moreover have "conflictFor ?b (sample_issue ''A'' [] [''./x'']) \<noteq> None" by code_simp
  ultimately show ?thesis by (simp add: sample_plan_waves)
qed

text \<open>
  Property C19. Dependencies are scheduled first: an issue of wave n has every dependency that
  is itself an issue of the plan in one of the waves before n. No property of the locale order
  is needed.
\<close>

theorem waves_respect_dependencies:
  assumes "distinct (map key ds)"
    and "waves (scheduleExecutionWaves lc ds) = pre @ w # post"
    and "d \<in> set ds" and "key d \<in> set (wave_issueKeys w)"
    and "dep \<in> set (dependencyCandidates d)" and "dep \<in> key ` set ds"
  shows "\<exists>w' \<in> set pre. dep \<in> set (wave_issueKeys w')"
  using assms by (rule dependencies_scheduled_before)

theorem waves_respect_dependencies_witness:
  "sample_issue ''C'' [''A''] [''y''] \<in> set sample_plan_issues \<and>
   (\<exists>w' \<in> set (take 1 (waves (scheduleExecutionWaves (\<le>) sample_plan_issues))).
      ''A'' \<in> set (wave_issueKeys w'))"
proof -
  let ?ws = "waves (scheduleExecutionWaves (\<le>) sample_plan_issues)"
  obtain w1 w2 where ws: "?ws = [w1] @ w2 # []" and w2: "wave_issueKeys w2 = [''B'', ''C'']"
    using sample_plan_waves by (auto simp: map_eq_Cons_conv)
  have "\<exists>w' \<in> set [w1]. ''A'' \<in> set (wave_issueKeys w')"
    by (rule waves_respect_dependencies[OF _ ws, of "sample_issue ''C'' [''A''] [''y'']"])
      (simp_all add: w2 sample_plan_issues_def sample_issue_def)
  with ws show ?thesis by (simp add: sample_plan_issues_def)
qed

text \<open>
  Property C18. The schedule is complete exactly for acyclic plans: every issue key is scheduled
  at most once, the waves are numbered 1, 2, 3, ... and none is empty, and all issues are
  scheduled if and only if the dependencies between the issues have no cycle. The loop always
  ends, because every wave removes a key.
\<close>

theorem waves_cover_acyclic_plans:
  assumes "distinct (map key ds)"
  shows "distinct (concat (map wave_issueKeys (waves (scheduleExecutionWaves lc ds)))) \<and>
    set (concat (map wave_issueKeys (waves (scheduleExecutionWaves lc ds)))) \<subseteq> key ` set ds \<and>
    [] \<notin> set (map wave_issueKeys (waves (scheduleExecutionWaves lc ds))) \<and>
    map number (waves (scheduleExecutionWaves lc ds)) =
      [1 ..< Suc (length (waves (scheduleExecutionWaves lc ds)))] \<and>
    (set (concat (map wave_issueKeys (waves (scheduleExecutionWaves lc ds)))) = key ` set ds \<longleftrightarrow>
       acyclic (issue_needs ds))"
  using assms by (rule schedule_covers)

theorem waves_cover_acyclic_plans_witness:
  "distinct (map key sample_plan_issues) \<and> acyclic (issue_needs sample_plan_issues)"
proof -
  have h: "distinct (map key sample_plan_issues)"
    by (simp add: sample_plan_issues_def sample_issue_def)
  have "set (concat (map wave_issueKeys (waves (scheduleExecutionWaves (\<le>) sample_plan_issues)))) =
      key ` set sample_plan_issues"
    unfolding sample_plan_waves by (auto simp: sample_plan_issues_def sample_issue_def)
  with h waves_cover_acyclic_plans[OF h, of "(\<le>)"] show ?thesis by simp
qed

definition ignoring_case :: locale_compare where
  "ignoring_case a b \<longleftrightarrow> lower a \<le> lower b"

text \<open>
  The hypothesis on the two orders is needed. Conflicts are stored under
  \<open>localeCompare\<close> order and looked up under code-unit order: with a locale order that ignores
  case, the plan of the issues "a" and "B", which both modify the same file, has a recorded
  conflict, and still both are scheduled in the same wave.
\<close>

theorem conflict_missed_where_orders_differ:
  "total_preorder ignoring_case \<and>
   map issueKeys_pair (conflicts (scheduleExecutionWaves ignoring_case
     [sample_issue ''a'' [] [''x''], sample_issue ''B'' [] [''x'']])) = [(''a'', ''B'')] \<and>
   map wave_issueKeys (waves (scheduleExecutionWaves ignoring_case
     [sample_issue ''a'' [] [''x''], sample_issue ''B'' [] [''x'']])) = [[''B'', ''a'']]"
proof (intro conjI)
  show "total_preorder ignoring_case" by (auto simp: total_preorder_def ignoring_case_def)
qed code_simp+

end
