(* ===== verification/Model_Router.thy ===== *)
theory Model_Router
  imports Issue_Plan
begin

text \<open>
  \<^verbatim>\<open>domain/model-router.ts\<close>: the risk factors of an issue, the recommended capability tier and
  reasoning effort, the check that a route is available, and the override of a route. The lemmas
  show that the recommendation grows with the issue and that no sequence of overrides ever
  lowers the route of a high-risk issue.
\<close>

section \<open>Tiers, efforts and their order\<close>

datatype capability_tier = Cost_optimized | General_coding | Advanced_coding | Frontier

datatype reasoning_effort = Low_effort | Medium_effort | High_effort | Highest_effort

definition capabilityTiers :: "capability_tier list" where
  "capabilityTiers = [Cost_optimized, General_coding, Advanced_coding, Frontier]"

definition reasoningEfforts :: "reasoning_effort list" where
  "reasoningEfforts = [Low_effort, Medium_effort, High_effort, Highest_effort]"

fun tier_name :: "capability_tier \<Rightarrow> string" where
  "tier_name Cost_optimized = ''cost_optimized''"
| "tier_name General_coding = ''general_coding''"
| "tier_name Advanced_coding = ''advanced_coding''"
| "tier_name Frontier = ''frontier''"

fun effort_name :: "reasoning_effort \<Rightarrow> string" where
  "effort_name Low_effort = ''low''"
| "effort_name Medium_effort = ''medium''"
| "effort_name High_effort = ''high''"
| "effort_name Highest_effort = ''highest''"

text \<open>\<open>capabilityTiers.indexOf(tier)\<close> and \<open>reasoningEfforts.indexOf(effort)\<close> order them.\<close>

fun index_of :: "'a list \<Rightarrow> 'a \<Rightarrow> nat" where
  "index_of [] x = 0"
| "index_of (y # ys) x = (if x = y then 0 else Suc (index_of ys x))"

lemma index_of_less: "index_of xs x < length xs \<longleftrightarrow> x \<in> set xs"
  by (induction xs) auto

lemma nth_index_of: "x \<in> set xs \<Longrightarrow> xs ! index_of xs x = x"
  by (induction xs) auto

lemma index_of_inj: "x \<in> set xs \<Longrightarrow> y \<in> set xs \<Longrightarrow> index_of xs x = index_of xs y \<Longrightarrow> x = y"
  by (metis nth_index_of)

lemma all_tiers: "t \<in> set capabilityTiers"
  by (cases t) (auto simp: capabilityTiers_def)

lemma all_efforts: "e \<in> set reasoningEfforts"
  by (cases e) (auto simp: reasoningEfforts_def)

instantiation capability_tier :: linorder
begin

definition less_eq_capability_tier :: "capability_tier \<Rightarrow> capability_tier \<Rightarrow> bool" where
  "less_eq_capability_tier a b \<longleftrightarrow> index_of capabilityTiers a \<le> index_of capabilityTiers b"

definition less_capability_tier :: "capability_tier \<Rightarrow> capability_tier \<Rightarrow> bool" where
  "less_capability_tier a b \<longleftrightarrow> index_of capabilityTiers a < index_of capabilityTiers b"

instance
  by standard
    (auto simp: less_eq_capability_tier_def less_capability_tier_def
      intro: index_of_inj[OF all_tiers all_tiers])

end

instantiation reasoning_effort :: linorder
begin

definition less_eq_reasoning_effort :: "reasoning_effort \<Rightarrow> reasoning_effort \<Rightarrow> bool" where
  "less_eq_reasoning_effort a b \<longleftrightarrow> index_of reasoningEfforts a \<le> index_of reasoningEfforts b"

definition less_reasoning_effort :: "reasoning_effort \<Rightarrow> reasoning_effort \<Rightarrow> bool" where
  "less_reasoning_effort a b \<longleftrightarrow> index_of reasoningEfforts a < index_of reasoningEfforts b"

instance
  by standard
    (auto simp: less_eq_reasoning_effort_def less_reasoning_effort_def
      intro: index_of_inj[OF all_efforts all_efforts])

end

section \<open>Factors\<close>

datatype routing_risk = Low_risk | Medium_risk | High_risk
datatype code_scope = Narrow | Broad | Extensive
datatype difficulty = Standard | Complex

record model_routing_factors =
  route_risk :: routing_risk
  codeScope :: code_scope
  domainComplexity :: difficulty
  verificationDifficulty :: difficulty

definition risky_words :: "string list" where
  "risky_words = [''security'', ''auth'', ''credential'', ''permission'', ''migration'',
     ''secret'', ''token'']"

text \<open>The pattern \<^verbatim>\<open>/security|auth|...|token/i\<close>: one of the words occurs, ignoring case.\<close>

definition riskyText :: "issue_draft \<Rightarrow> string" where
  "riskyText issue =
     title issue @ '' '' @ goal issue @ '' '' @ join '' '' (requirementRefs issue)"

definition securityRisk :: "issue_draft \<Rightarrow> bool" where
  "securityRisk issue \<longleftrightarrow> list_ex (str_includes (lower (riskyText issue))) risky_words"

definition resourceRisk :: "issue_draft \<Rightarrow> bool" where
  "resourceRisk issue \<longleftrightarrow>
     length (databaseObjects (conflictResources issue)) > 0 \<or>
     length (sharedConfigurations (conflictResources issue)) > 0 \<or>
     length (landingOrder (conflictResources issue)) > 0"

definition publicRisk :: "issue_draft \<Rightarrow> bool" where
  "publicRisk issue \<longleftrightarrow> length (publicInterfaces (conflictResources issue)) > 0"

definition factors :: "issue_draft \<Rightarrow> model_routing_factors" where
  "factors issue = \<lparr>
     route_risk =
       (if resourceRisk issue \<and> (securityRisk issue \<or> publicRisk issue) then High_risk
        else if resourceRisk issue \<or> securityRisk issue \<or> publicRisk issue then Medium_risk
        else Low_risk),
     codeScope =
       (if length (expectedFiles issue) > 10 then Extensive
        else if length (expectedFiles issue) > 3 then Broad else Narrow),
     domainComplexity =
       (if length (requirementRefs issue) > 2 \<or> length (dependencyCandidates issue) > 1 \<or>
           length (publicInterfaces (conflictResources issue)) > 1
        then Complex else Standard),
     verificationDifficulty =
       (if length (verify issue) > 2 \<or> length (acceptance issue) > 3 \<or>
           length (completionEvidence issue) > 3
        then Complex else Standard)\<rparr>"

section \<open>Recommendation\<close>

text \<open>
  The tier and effort of an override come from outside and are checked at run time, so they are
  strings here. The tiers of a recommendation are always among the known ones.
\<close>

record model_route_override =
  override_tier :: string
  override_effort :: string
  override_actorId :: string
  override_reason :: string
  overriddenAt :: string

record model_recommendation =
  issueKey :: string
  capabilityTier :: capability_tier
  reasoningEffort :: reasoning_effort
  policyRevision :: string
  route_factors :: model_routing_factors
  route_reasons :: "string list"
  override :: "model_route_override option"

definition modelRouterPolicyRevision :: string where
  "modelRouterPolicyRevision = ''model-router.v1''"

fun risk_name :: "routing_risk \<Rightarrow> string" where
  "risk_name Low_risk = ''low''"
| "risk_name Medium_risk = ''medium''"
| "risk_name High_risk = ''high''"

fun scope_name :: "code_scope \<Rightarrow> string" where
  "scope_name Narrow = ''narrow''"
| "scope_name Broad = ''broad''"
| "scope_name Extensive = ''extensive''"

fun difficulty_name :: "difficulty \<Rightarrow> string" where
  "difficulty_name Standard = ''standard''"
| "difficulty_name Complex = ''complex''"

definition score :: "model_routing_factors \<Rightarrow> nat" where
  "score input =
     (case route_risk input of High_risk \<Rightarrow> 4 | Medium_risk \<Rightarrow> 2 | Low_risk \<Rightarrow> 0) +
     (case codeScope input of Extensive \<Rightarrow> 3 | Broad \<Rightarrow> 1 | Narrow \<Rightarrow> 0) +
     (if domainComplexity input = Complex then 2 else 0) +
     (if verificationDifficulty input = Complex then 2 else 0) +
     (if route_risk input = High_risk \<and> codeScope input = Extensive then 1 else 0)"

definition route_of_score :: "nat \<Rightarrow> capability_tier \<times> reasoning_effort" where
  "route_of_score s =
     (if s \<ge> 8 then (Frontier, Highest_effort)
      else if s \<ge> 5 then (Advanced_coding, High_effort)
      else if s \<ge> 2 then (General_coding, Medium_effort)
      else (Cost_optimized, Low_effort))"

definition recommendModelRoute :: "issue_draft \<Rightarrow> model_recommendation" where
  "recommendModelRoute issue =
     (let input = factors issue; s = score input in \<lparr>
        issueKey = key issue,
        capabilityTier = fst (route_of_score s),
        reasoningEffort = snd (route_of_score s),
        policyRevision = modelRouterPolicyRevision,
        route_factors = input,
        route_reasons = [
          ''risk='' @ risk_name (route_risk input),
          ''codeScope='' @ scope_name (codeScope input) @ '' ('' @
            show_nat (length (expectedFiles issue)) @ '' expected files)'',
          ''domainComplexity='' @ difficulty_name (domainComplexity input),
          ''verificationDifficulty='' @ difficulty_name (verificationDifficulty input),
          ''policy score='' @ show_nat s],
        override = None\<rparr>)"

definition assertRouteAvailable ::
  "model_recommendation \<Rightarrow> capability_tier list \<Rightarrow> reasoning_effort list \<Rightarrow> js_error + unit" where
  "assertRouteAvailable recommendation tiers efforts =
     (if capabilityTier recommendation \<notin> set tiers \<or>
         reasoningEffort recommendation \<notin> set efforts
      then Inl (ModelRouteUnavailableError
        (''Required '' @ tier_name (capabilityTier recommendation) @ ''/'' @
         effort_name (reasoningEffort recommendation) @
         '' route is unavailable; silent downgrade is forbidden''))
      else Inr ())"

section \<open>Override\<close>

definition nonBlank :: "string \<Rightarrow> string \<Rightarrow> js_error + string" where
  "nonBlank v name =
     (if trim v = [] \<or> length (trim v) > 4000
      then Inl (PlainError (name @ '' must be a non-blank bounded value''))
      else Inr (trim v))"

definition parse_tier :: "string \<Rightarrow> capability_tier option" where
  "parse_tier s = find (\<lambda>t. tier_name t = s) capabilityTiers"

definition parse_effort :: "string \<Rightarrow> reasoning_effort option" where
  "parse_effort s = find (\<lambda>e. effort_name e = s) reasoningEfforts"

text \<open>
  \<open>valid_date s\<close> stands for \<open>!Number.isNaN(new Date(s).getTime())\<close>, whose extent beyond the ISO
  format the language leaves to the implementation.
\<close>

definition withModelRouteOverride ::
  "(string \<Rightarrow> bool) \<Rightarrow> model_recommendation \<Rightarrow> model_route_override \<Rightarrow>
   js_error + model_recommendation"
where
  "withModelRouteOverride valid_date recommendation ov =
     and_then (nonBlank (override_actorId ov) ''actorId'') (\<lambda>_.
     and_then (nonBlank (override_reason ov) ''reason'') (\<lambda>reason.
       case (parse_tier (override_tier ov), parse_effort (override_effort ov)) of
         (Some tier, Some effort) \<Rightarrow>
           if \<not> valid_date (overriddenAt ov) then
             Inl (PlainError ''model route override is invalid'')
           else if route_risk (route_factors recommendation) = High_risk \<and>
             (index_of capabilityTiers tier <
                index_of capabilityTiers (capabilityTier recommendation) \<or>
              index_of reasoningEfforts effort <
                index_of reasoningEfforts (reasoningEffort recommendation)) then
             Inl (ModelRouteUnavailableError ''High-risk routes cannot be downgraded by override'')
           else Inr (recommendation\<lparr>
             capabilityTier := tier,
             reasoningEffort := effort,
             override := Some (ov\<lparr>override_actorId := trim (override_actorId ov),
                                  override_reason := reason\<rparr>)\<rparr>)
       | _ \<Rightarrow> Inl (PlainError ''model route override is invalid'')))"

section \<open>The recommendation grows with the issue\<close>

text \<open>
  \<open>at_least d e\<close>: issue \<open>e\<close> mentions and touches at least what \<open>d\<close> does.
\<close>

definition at_least :: "issue_draft \<Rightarrow> issue_draft \<Rightarrow> bool" where
  "at_least d e \<longleftrightarrow>
     sublist (riskyText d) (riskyText e) \<and>
     length (requirementRefs d) \<le> length (requirementRefs e) \<and>
     length (dependencyCandidates d) \<le> length (dependencyCandidates e) \<and>
     length (expectedFiles d) \<le> length (expectedFiles e) \<and>
     length (verify d) \<le> length (verify e) \<and>
     length (acceptance d) \<le> length (acceptance e) \<and>
     length (completionEvidence d) \<le> length (completionEvidence e) \<and>
     length (publicInterfaces (conflictResources d)) \<le> length (publicInterfaces (conflictResources e)) \<and>
     length (databaseObjects (conflictResources d)) \<le> length (databaseObjects (conflictResources e)) \<and>
     length (sharedConfigurations (conflictResources d)) \<le>
       length (sharedConfigurations (conflictResources e)) \<and>
     length (landingOrder (conflictResources d)) \<le> length (landingOrder (conflictResources e))"

lemma securityRisk_mono: "sublist (riskyText d) (riskyText e) \<Longrightarrow> securityRisk d \<Longrightarrow> securityRisk e"
  unfolding securityRisk_def list_ex_iff str_includes_iff_sublist
  by (metis lower_def map_mono_sublist sublist_order.order_trans)

definition risk_rank :: "routing_risk \<Rightarrow> nat" where
  "risk_rank r = (case r of Low_risk \<Rightarrow> 0 | Medium_risk \<Rightarrow> 1 | High_risk \<Rightarrow> 2)"

definition scope_rank :: "code_scope \<Rightarrow> nat" where
  "scope_rank s = (case s of Narrow \<Rightarrow> 0 | Broad \<Rightarrow> 1 | Extensive \<Rightarrow> 2)"

lemma factors_mono:
  assumes "at_least d e"
  shows "risk_rank (route_risk (factors d)) \<le> risk_rank (route_risk (factors e))"
    and "scope_rank (codeScope (factors d)) \<le> scope_rank (codeScope (factors e))"
    and "domainComplexity (factors d) = Complex \<Longrightarrow> domainComplexity (factors e) = Complex"
    and "verificationDifficulty (factors d) = Complex \<Longrightarrow>
         verificationDifficulty (factors e) = Complex"
proof -
  have sec: "securityRisk d \<Longrightarrow> securityRisk e"
    using assms securityRisk_mono by (auto simp: at_least_def)
  have res: "resourceRisk d \<Longrightarrow> resourceRisk e"
    using assms by (auto simp: at_least_def resourceRisk_def simp del: length_greater_0_conv)
  have pub: "publicRisk d \<Longrightarrow> publicRisk e"
    using assms by (auto simp: at_least_def publicRisk_def simp del: length_greater_0_conv)
  show "risk_rank (route_risk (factors d)) \<le> risk_rank (route_risk (factors e))"
    using sec res pub by (auto simp: factors_def risk_rank_def)
  show "scope_rank (codeScope (factors d)) \<le> scope_rank (codeScope (factors e))"
    using assms by (auto simp: at_least_def factors_def scope_rank_def)
  show "domainComplexity (factors d) = Complex \<Longrightarrow> domainComplexity (factors e) = Complex"
    using assms by (auto simp: at_least_def factors_def split: if_splits)
  show "verificationDifficulty (factors d) = Complex \<Longrightarrow> verificationDifficulty (factors e) = Complex"
    using assms by (auto simp: at_least_def factors_def split: if_splits)
qed

lemma score_mono:
  assumes "risk_rank (route_risk f) \<le> risk_rank (route_risk g)"
    and "scope_rank (codeScope f) \<le> scope_rank (codeScope g)"
    and "domainComplexity f = Complex \<Longrightarrow> domainComplexity g = Complex"
    and "verificationDifficulty f = Complex \<Longrightarrow> verificationDifficulty g = Complex"
  shows "score f \<le> score g"
  using assms
  by (cases "route_risk f"; cases "route_risk g"; cases "codeScope f"; cases "codeScope g")
    (auto simp: score_def risk_rank_def scope_rank_def)

lemma route_of_score_mono:
  assumes "s \<le> t"
  shows "fst (route_of_score s) \<le> fst (route_of_score t)"
    and "snd (route_of_score s) \<le> snd (route_of_score t)"
  using assms
  by (auto simp: route_of_score_def less_eq_capability_tier_def less_eq_reasoning_effort_def
      capabilityTiers_def reasoningEfforts_def)

lemma high_risk_score:
  "route_risk (factors d) = High_risk \<longleftrightarrow> resourceRisk d \<and> (securityRisk d \<or> publicRisk d)"
  by (simp add: factors_def)

text \<open>
  An issue that mentions and touches at least what another one does is never routed
  to a weaker model or a lower effort; tier and effort always go together, an issue is routed
  to the cheapest tier only when nothing about it is risky, and the strongest tier needs at
  least two raised factors.
\<close>

theorem recommendation_is_monotone:
  assumes "at_least d e"
  shows "capabilityTier (recommendModelRoute d) \<le> capabilityTier (recommendModelRoute e) \<and>
    reasoningEffort (recommendModelRoute d) \<le> reasoningEffort (recommendModelRoute e) \<and>
    index_of capabilityTiers (capabilityTier (recommendModelRoute d)) =
      index_of reasoningEfforts (reasoningEffort (recommendModelRoute d)) \<and>
    (capabilityTier (recommendModelRoute d) = Cost_optimized \<longrightarrow>
      \<not> resourceRisk d \<and> \<not> securityRisk d \<and> \<not> publicRisk d \<and> length (expectedFiles d) \<le> 10)"
proof -
  have "score (factors d) \<le> score (factors e)"
    by (rule score_mono) (use factors_mono[OF assms] in blast)+
  then have "capabilityTier (recommendModelRoute d) \<le> capabilityTier (recommendModelRoute e)"
    "reasoningEffort (recommendModelRoute d) \<le> reasoningEffort (recommendModelRoute e)"
    by (simp_all add: recommendModelRoute_def Let_def route_of_score_mono)
  moreover have "index_of capabilityTiers (capabilityTier (recommendModelRoute d)) =
      index_of reasoningEfforts (reasoningEffort (recommendModelRoute d))"
    by (simp add: recommendModelRoute_def Let_def route_of_score_def capabilityTiers_def
        reasoningEfforts_def)
  moreover have "capabilityTier (recommendModelRoute d) = Cost_optimized \<Longrightarrow>
      \<not> resourceRisk d \<and> \<not> securityRisk d \<and> \<not> publicRisk d \<and> length (expectedFiles d) \<le> 10"
    by (auto simp: recommendModelRoute_def Let_def route_of_score_def score_def factors_def
        split: if_splits)
  ultimately show ?thesis by blast
qed

lemma at_least_sample:
  "at_least (sample_issue ''A'' [] [''x'']) (sample_issue ''A'' [''B''] [''x'', ''y''])"
  by (simp add: at_least_def sample_issue_def riskyText_def)

theorem recommendation_is_monotone_witness:
  "capabilityTier (recommendModelRoute (sample_issue ''A'' [] [''x''])) \<le>
   capabilityTier (recommendModelRoute (sample_issue ''A'' [''B''] [''x'', ''y'']))"
  using recommendation_is_monotone[OF at_least_sample] by blast

section \<open>Overrides\<close>

lemma parse_tier_iff: "parse_tier s = Some t \<longleftrightarrow> s = tier_name t"
  by (cases t) (auto simp: parse_tier_def capabilityTiers_def)

lemma parse_effort_iff: "parse_effort s = Some e \<longleftrightarrow> s = effort_name e"
  by (cases e) (auto simp: parse_effort_def reasoningEfforts_def)

lemma parse_tier_name [simp]: "parse_tier (tier_name t) = Some t"
  by (simp add: parse_tier_iff)

lemma parse_effort_name [simp]: "parse_effort (effort_name e) = Some e"
  by (simp add: parse_effort_iff)

lemma tier_name_inj [simp]: "tier_name t = tier_name t' \<longleftrightarrow> t = t'"
  by (cases t; cases t') auto

lemma effort_name_inj [simp]: "effort_name e = effort_name e' \<longleftrightarrow> e = e'"
  by (cases e; cases e') auto

lemma nonBlank_Inr [result_simps]: "nonBlank v name = Inr r \<longleftrightarrow> r = trim v \<and> clean_text 4000 r"
  by (auto simp: nonBlank_def clean_text_def)

text \<open>When an override is accepted, and what it gives.\<close>

definition override_ok :: "(string \<Rightarrow> bool) \<Rightarrow> model_recommendation \<Rightarrow> model_route_override \<Rightarrow> bool" where
  "override_ok valid_date r ov \<longleftrightarrow>
     clean_text 4000 (trim (override_actorId ov)) \<and> clean_text 4000 (trim (override_reason ov)) \<and>
     valid_date (overriddenAt ov) \<and>
     (\<exists>t e. override_tier ov = tier_name t \<and> override_effort ov = effort_name e \<and>
        (route_risk (route_factors r) = High_risk \<longrightarrow>
           capabilityTier r \<le> t \<and> reasoningEffort r \<le> e))"

lemma withModelRouteOverride_Inr:
  "withModelRouteOverride valid_date r ov = Inr r' \<longleftrightarrow>
     override_ok valid_date r ov \<and>
     r' = r\<lparr>capabilityTier := the (parse_tier (override_tier ov)),
            reasoningEffort := the (parse_effort (override_effort ov)),
            override := Some (ov\<lparr>override_actorId := trim (override_actorId ov),
                                 override_reason := trim (override_reason ov)\<rparr>)\<rparr>"
proof (cases "parse_tier (override_tier ov)"; cases "parse_effort (override_effort ov)")
  fix t e
  assume "parse_tier (override_tier ov) = Some t" "parse_effort (override_effort ov) = Some e"
  then have "override_tier ov = tier_name t" "override_effort ov = effort_name e"
    by (simp_all only: parse_tier_iff parse_effort_iff)
  then show ?thesis
    by (auto simp: withModelRouteOverride_def override_ok_def result_simps
        less_eq_capability_tier_def less_eq_reasoning_effort_def not_less)
qed (auto simp: withModelRouteOverride_def override_ok_def result_simps)

text \<open>Overrides applied one after the other, up to the first that is refused.\<close>

fun override_all ::
  "(string \<Rightarrow> bool) \<Rightarrow> model_recommendation \<Rightarrow> model_route_override list \<Rightarrow>
   js_error + model_recommendation"
where
  "override_all valid_date r [] = Inr r"
| "override_all valid_date r (ov # ovs) =
     and_then (withModelRouteOverride valid_date r ov) (\<lambda>r'. override_all valid_date r' ovs)"

lemma override_keeps:
  assumes "withModelRouteOverride valid_date r ov = Inr r'"
  shows "route_factors r' = route_factors r" and "issueKey r' = issueKey r"
    and "route_reasons r' = route_reasons r" and "policyRevision r' = policyRevision r"
    and "route_risk (route_factors r) = High_risk \<Longrightarrow>
         capabilityTier r \<le> capabilityTier r' \<and> reasoningEffort r \<le> reasoningEffort r'"
  using assms by (auto simp: withModelRouteOverride_Inr override_ok_def)

lemma override_all_keeps:
  assumes "override_all valid_date r ovs = Inr r'"
  shows "route_factors r' = route_factors r \<and> issueKey r' = issueKey r \<and>
    route_reasons r' = route_reasons r \<and>
    (route_risk (route_factors r) = High_risk \<longrightarrow>
       capabilityTier r \<le> capabilityTier r' \<and> reasoningEffort r \<le> reasoningEffort r')"
  using assms
proof (induction ovs arbitrary: r)
  case (Cons ov ovs)
  from Cons.prems obtain q where q: "withModelRouteOverride valid_date r ov = Inr q"
    and rest: "override_all valid_date q ovs = Inr r'"
    by (auto simp: result_simps)
  show ?case using override_keeps[OF q] Cons.IH[OF rest] by auto
qed simp

text \<open>
  Property C38. However many overrides are applied, the route of an issue whose risk is high is
  never below the recommended one, neither in tier nor in effort, and the factors and reasons
  of the recommendation are kept. A single override is accepted exactly when actor and reason
  are non-blank and bounded, the date is valid, tier and effort are known, and a high-risk
  route does not go down; it then sets exactly the route it names.
\<close>

theorem overrides_never_downgrade_high_risk:
  "(override_all valid_date (recommendModelRoute d) ovs = Inr r \<longrightarrow>
      route_factors r = factors d \<and> issueKey r = key d \<and>
      route_reasons r = route_reasons (recommendModelRoute d) \<and>
      (resourceRisk d \<and> (securityRisk d \<or> publicRisk d) \<longrightarrow>
         capabilityTier (recommendModelRoute d) \<le> capabilityTier r \<and>
         reasoningEffort (recommendModelRoute d) \<le> reasoningEffort r)) \<and>
   (override_ok valid_date q ov \<longleftrightarrow> (\<exists>q'. withModelRouteOverride valid_date q ov = Inr q')) \<and>
   (withModelRouteOverride valid_date q ov = Inr q' \<longrightarrow>
      tier_name (capabilityTier q') = override_tier ov \<and>
      effort_name (reasoningEffort q') = override_effort ov)"
proof (intro conjI impI)
  assume "override_all valid_date (recommendModelRoute d) ovs = Inr r"
  note k = override_all_keeps[OF this]
  then show "route_factors r = factors d" "issueKey r = key d"
    "route_reasons r = route_reasons (recommendModelRoute d)"
    by (simp_all add: recommendModelRoute_def Let_def)
  assume "resourceRisk d \<and> (securityRisk d \<or> publicRisk d)"
  then have "route_risk (route_factors (recommendModelRoute d)) = High_risk"
    by (simp add: recommendModelRoute_def Let_def factors_def)
  with k show "capabilityTier (recommendModelRoute d) \<le> capabilityTier r"
    "reasoningEffort (recommendModelRoute d) \<le> reasoningEffort r" by auto
next
  show "override_ok valid_date q ov \<longleftrightarrow> (\<exists>q'. withModelRouteOverride valid_date q ov = Inr q')"
    by (simp add: withModelRouteOverride_Inr)
next
  assume "withModelRouteOverride valid_date q ov = Inr q'"
  then show "tier_name (capabilityTier q') = override_tier ov"
    "effort_name (reasoningEffort q') = override_effort ov"
    by (auto simp: withModelRouteOverride_Inr override_ok_def)
qed

definition sample_risky :: issue_draft where
  "sample_risky = (sample_issue ''A'' [] [''x''])\<lparr>title := ''Rotate the Token'',
     conflictResources := \<lparr>directories = [], publicInterfaces = [], databaseObjects = [''keys''],
       sharedConfigurations = [], landingOrder = []\<rparr>\<rparr>"

definition sample_override :: model_route_override where
  "sample_override = \<lparr>override_tier = ''frontier'', override_effort = ''high'',
     override_actorId = '' u1 '', override_reason = ''hard'', overriddenAt = ''2026-01-01''\<rparr>"

lemma sample_override_accepted:
  "\<not> isl (override_all (\<lambda>_. True) (recommendModelRoute sample_risky) [sample_override])"
  "resourceRisk sample_risky \<and> securityRisk sample_risky"
  by code_simp+

theorem overrides_never_downgrade_high_risk_witness:
  "\<exists>r. override_all (\<lambda>_. True) (recommendModelRoute sample_risky) [sample_override] = Inr r \<and>
     capabilityTier (recommendModelRoute sample_risky) \<le> capabilityTier r"
proof -
  obtain r where r: "override_all (\<lambda>_. True) (recommendModelRoute sample_risky) [sample_override] = Inr r"
    using sample_override_accepted(1) by (metis sumE isl_def)
  show ?thesis
    using overrides_never_downgrade_high_risk[of "\<lambda>_. True" sample_risky "[sample_override]" r]
      r sample_override_accepted(2) by blast
qed

end
