(* ===== verification/State_Machines.thy ===== *)
theory State_Machines
  imports Errors
begin

text \<open>
  \<^verbatim>\<open>domain/state-machines.ts\<close>: the four entity life cycles (goal, spec revision, issue, run)
  as tables, and the guarded, version-checked transition function over such a table. The
  lemmas show that a table that passes \<open>machine_ok\<close> gives a life cycle whose final states
  are absorbing and whose version counts the accepted commands, and that a goal completes
  only by the whole chain of guarded steps.
\<close>

section \<open>Tables\<close>

datatype goal_status =
  Goal_draft | Clarifying | Planning | Goal_approved | Executing | Verifying
  | Goal_completed | Goal_cancelled

datatype spec_revision_status =
  Spec_draft | In_review | Spec_approved | Spec_rejected | Spec_superseded

datatype issue_status =
  Issue_draft | Issue_approved | Ready | In_progress | Blocked | Issue_completed | Issue_cancelled

datatype run_status = Queued | Running | Succeeded | Failed | Run_cancelled

datatype transition_guard =
  AcceptanceVerified | AllIssuesCompleted | ApprovalRecorded | ArtifactDigestVerified
  | ClarificationsResolved | CompletionEvidence | DependenciesSatisfied | IssuesApproved
  | ReasonProvided | ReplacementExists | SpecApproved

definition goalStatuses :: "goal_status list" where
  "goalStatuses = [Goal_draft, Clarifying, Planning, Goal_approved, Executing, Verifying,
     Goal_completed, Goal_cancelled]"

definition specRevisionStatuses :: "spec_revision_status list" where
  "specRevisionStatuses = [Spec_draft, In_review, Spec_approved, Spec_rejected, Spec_superseded]"

definition issueStatuses :: "issue_status list" where
  "issueStatuses = [Issue_draft, Issue_approved, Ready, In_progress, Blocked, Issue_completed,
     Issue_cancelled]"

definition runStatuses :: "run_status list" where
  "runStatuses = [Queued, Running, Succeeded, Failed, Run_cancelled]"

fun guard_name :: "transition_guard \<Rightarrow> string" where
  "guard_name AcceptanceVerified = ''acceptanceVerified''"
| "guard_name AllIssuesCompleted = ''allIssuesCompleted''"
| "guard_name ApprovalRecorded = ''approvalRecorded''"
| "guard_name ArtifactDigestVerified = ''artifactDigestVerified''"
| "guard_name ClarificationsResolved = ''clarificationsResolved''"
| "guard_name CompletionEvidence = ''completionEvidence''"
| "guard_name DependenciesSatisfied = ''dependenciesSatisfied''"
| "guard_name IssuesApproved = ''issuesApproved''"
| "guard_name ReasonProvided = ''reasonProvided''"
| "guard_name ReplacementExists = ''replacementExists''"
| "guard_name SpecApproved = ''specApproved''"

record 's state_transition =
  tr_from :: 's
  tr_to :: 's
  tr_guard :: "transition_guard option"

record 's state_machine =
  machine_name :: string
  machine_states :: "'s list"
  terminalStates :: "'s list"
  transitions :: "'s state_transition list"

abbreviation step :: "'s \<Rightarrow> 's \<Rightarrow> 's state_transition" where
  "step a b \<equiv> \<lparr>tr_from = a, tr_to = b, tr_guard = None\<rparr>"

abbreviation guarded :: "'s \<Rightarrow> 's \<Rightarrow> transition_guard \<Rightarrow> 's state_transition" where
  "guarded a b g \<equiv> \<lparr>tr_from = a, tr_to = b, tr_guard = Some g\<rparr>"

definition cancellations :: "'s list \<Rightarrow> 's \<Rightarrow> 's state_transition list" where
  "cancellations states cancelled = map (\<lambda>s. guarded s cancelled ReasonProvided) states"

definition goalStateMachine :: "goal_status state_machine" where
  "goalStateMachine = \<lparr>
     machine_name = ''Goal'',
     machine_states = goalStatuses,
     terminalStates = [Goal_completed, Goal_cancelled],
     transitions = [
       step Goal_draft Clarifying,
       guarded Clarifying Planning ClarificationsResolved,
       guarded Planning Goal_approved SpecApproved,
       guarded Goal_approved Executing IssuesApproved,
       guarded Executing Verifying AllIssuesCompleted,
       guarded Verifying Goal_completed AcceptanceVerified] @
       cancellations [Goal_draft, Clarifying, Planning, Goal_approved, Executing, Verifying]
         Goal_cancelled\<rparr>"

definition specRevisionStateMachine :: "spec_revision_status state_machine" where
  "specRevisionStateMachine = \<lparr>
     machine_name = ''SpecRevision'',
     machine_states = specRevisionStatuses,
     terminalStates = [Spec_rejected, Spec_superseded],
     transitions = [
       guarded Spec_draft In_review ArtifactDigestVerified,
       guarded In_review Spec_approved ApprovalRecorded,
       guarded In_review Spec_rejected ReasonProvided,
       guarded Spec_draft Spec_superseded ReplacementExists,
       guarded In_review Spec_superseded ReplacementExists,
       guarded Spec_approved Spec_superseded ReplacementExists]\<rparr>"

definition issueStateMachine :: "issue_status state_machine" where
  "issueStateMachine = \<lparr>
     machine_name = ''Issue'',
     machine_states = issueStatuses,
     terminalStates = [Issue_completed, Issue_cancelled],
     transitions = [
       guarded Issue_draft Issue_approved SpecApproved,
       guarded Issue_approved Ready DependenciesSatisfied,
       step Ready In_progress,
       guarded In_progress Blocked ReasonProvided,
       guarded Blocked Ready DependenciesSatisfied,
       guarded In_progress Issue_completed CompletionEvidence] @
       cancellations [Issue_draft, Issue_approved, Ready, In_progress, Blocked]
         Issue_cancelled\<rparr>"

definition runStateMachine :: "run_status state_machine" where
  "runStateMachine = \<lparr>
     machine_name = ''Run'',
     machine_states = runStatuses,
     terminalStates = [Succeeded, Failed, Run_cancelled],
     transitions = [
       step Queued Running,
       guarded Running Succeeded CompletionEvidence,
       guarded Running Failed ReasonProvided,
       guarded Queued Run_cancelled ReasonProvided,
       guarded Running Run_cancelled ReasonProvided]\<rparr>"

section \<open>The transition function\<close>

record 's transition_state_input =
  in_machine :: "'s state_machine"
  currentState :: 's
  currentVersion :: int
  expectedVersion :: int
  nextState :: 's
  in_guards :: "transition_guard \<rightharpoonup> bool"

record 's state_transition_result =
  previousState :: 's
  new_state :: 's
  previousVersion :: int
  new_version :: int

definition transitionState ::
  "'s transition_state_input \<Rightarrow> js_error + 's state_transition_result" where
  "transitionState i =
     (let name = machine_name (in_machine i) in
      if currentVersion i \<noteq> expectedVersion i then
        Inl (DomainTransitionError Version_conflict
          (name @ '' version does not match expectedVersion''))
      else if currentState i \<in> set (terminalStates (in_machine i)) then
        Inl (DomainTransitionError Terminal_state (name @ '' is already terminal''))
      else
        (case find (\<lambda>t. tr_from t = currentState i \<and> tr_to t = nextState i)
                (transitions (in_machine i)) of
           None \<Rightarrow> Inl (DomainTransitionError Invalid_transition
                     (name @ '' transition is not allowed''))
         | Some t \<Rightarrow>
             (case tr_guard t of
                Some g \<Rightarrow>
                  if in_guards i g \<noteq> Some True then
                    Inl (DomainTransitionError Guard_failed
                      (name @ '' transition guard '' @ guard_name g @ '' failed''))
                  else Inr \<lparr>previousState = currentState i, new_state = nextState i,
                        previousVersion = currentVersion i, new_version = currentVersion i + 1\<rparr>
              | None \<Rightarrow> Inr \<lparr>previousState = currentState i, new_state = nextState i,
                        previousVersion = currentVersion i, new_version = currentVersion i + 1\<rparr>)))"

section \<open>Sequences of commands\<close>

text \<open>
  A command names the version it was written against, the wanted state and the guard facts it
  asserts. An entity that receives a sequence of commands moves on the accepted ones and stays
  where it is on a rejected one (the exception is reported to the caller). \<open>accepted\<close> lists
  the accepted steps: the version named, the states left and entered, the guard facts.
\<close>

type_synonym 's command = "int \<times> 's \<times> (transition_guard \<rightharpoonup> bool)"

type_synonym 's accepted_step = "int \<times> 's \<times> 's \<times> (transition_guard \<rightharpoonup> bool)"

definition attempt ::
  "'s state_machine \<Rightarrow> 's \<Rightarrow> int \<Rightarrow> 's command \<Rightarrow> js_error + 's state_transition_result" where
  "attempt m s v c = (case c of (ev, ns, gs) \<Rightarrow>
     transitionState \<lparr>in_machine = m, currentState = s, currentVersion = v,
       expectedVersion = ev, nextState = ns, in_guards = gs\<rparr>)"

fun run_commands ::
  "'s state_machine \<Rightarrow> 's \<Rightarrow> int \<Rightarrow> 's command list \<Rightarrow> 's \<times> int" where
  "run_commands m s v [] = (s, v)"
| "run_commands m s v (c # cs) =
     (case attempt m s v c of
        Inl _ \<Rightarrow> run_commands m s v cs
      | Inr r \<Rightarrow> run_commands m (new_state r) (new_version r) cs)"

fun accepted ::
  "'s state_machine \<Rightarrow> 's \<Rightarrow> int \<Rightarrow> 's command list \<Rightarrow> 's accepted_step list" where
  "accepted m s v [] = []"
| "accepted m s v (c # cs) =
     (case attempt m s v c of
        Inl _ \<Rightarrow> accepted m s v cs
      | Inr r \<Rightarrow> (fst c, s, new_state r, snd (snd c)) # accepted m (new_state r) (new_version r) cs)"

section \<open>Lemmas on single steps\<close>

lemma attempt_Inr:
  assumes "attempt m s v c = Inr r"
  shows "fst c = v" and "s \<notin> set (terminalStates m)"
    and "r = \<lparr>previousState = s, new_state = fst (snd c), previousVersion = v, new_version = v + 1\<rparr>"
    and "\<exists>t\<in>set (transitions m). tr_from t = s \<and> tr_to t = fst (snd c) \<and>
           (\<forall>g. tr_guard t = Some g \<longrightarrow> snd (snd c) g = Some True)"
proof -
  obtain ev ns gs where c: "c = (ev, ns, gs)" by (cases c)
  note eq = assms[unfolded c attempt_def transitionState_def Let_def, simplified]
  from eq c show "fst c = v" and "s \<notin> set (terminalStates m)"
    by (auto split: if_splits)
  from eq c show "r = \<lparr>previousState = s, new_state = fst (snd c), previousVersion = v,
      new_version = v + 1\<rparr>"
    by (auto split: if_splits option.splits)
  from eq obtain t where f: "find (\<lambda>t. tr_from t = s \<and> tr_to t = ns) (transitions m) = Some t"
    and g: "\<forall>g. tr_guard t = Some g \<longrightarrow> gs g = Some True"
    by (auto split: if_splits option.splits)
  from find_SomeD[OF f] g show "\<exists>t\<in>set (transitions m). tr_from t = s \<and> tr_to t = fst (snd c) \<and>
       (\<forall>g. tr_guard t = Some g \<longrightarrow> snd (snd c) g = Some True)"
    using c by auto
qed

lemma attempt_terminal: "s \<in> set (terminalStates m) \<Longrightarrow> \<exists>e. attempt m s v c = Inl e"
  using attempt_Inr(2)[of m s v c] by (cases "attempt m s v c") auto

text \<open>A table is well-formed when its rows stay inside the listed states and never leave a
  terminal state, no pair of states has two rows, and terminal and only terminal states are
  without successors.\<close>

definition machine_ok :: "'s state_machine \<Rightarrow> bool" where
  "machine_ok m \<longleftrightarrow>
     list_all (\<lambda>t. tr_from t \<in> set (machine_states m) \<and> tr_to t \<in> set (machine_states m) \<and>
        tr_from t \<notin> set (terminalStates m)) (transitions m) \<and>
     distinct (map (\<lambda>t. (tr_from t, tr_to t)) (transitions m)) \<and>
     list_all (\<lambda>s. s \<in> set (terminalStates m) \<or> list_ex (\<lambda>t. tr_from t = s) (transitions m))
       (machine_states m)"

lemmas machine_defs =
  goalStateMachine_def specRevisionStateMachine_def issueStateMachine_def runStateMachine_def
  cancellations_def goalStatuses_def specRevisionStatuses_def issueStatuses_def runStatuses_def

section \<open>Lemmas on sequences\<close>

lemma run_commands_terminal:
  "s \<in> set (terminalStates m) \<Longrightarrow> run_commands m s v cs = (s, v)"
proof (induction cs)
  case (Cons c cs)
  then show ?case using attempt_terminal[of s m v c] by auto
qed simp

lemma accepted_terminal: "s \<in> set (terminalStates m) \<Longrightarrow> accepted m s v cs = []"
proof (induction cs)
  case (Cons c cs)
  then show ?case using attempt_terminal[of s m v c] by auto
qed simp

text \<open>The accepted steps form a path of the table from the first to the last state.\<close>

fun path_of :: "'s state_machine \<Rightarrow> 's \<Rightarrow> 's accepted_step list \<Rightarrow> 's \<Rightarrow> bool" where
  "path_of m s [] s' \<longleftrightarrow> s = s'"
| "path_of m s ((ev, a, b, gs) # es) s' \<longleftrightarrow> a = s \<and>
     (\<exists>t\<in>set (transitions m). tr_from t = a \<and> tr_to t = b \<and>
        (\<forall>g. tr_guard t = Some g \<longrightarrow> gs g = Some True)) \<and> path_of m b es s'"

lemma run_commands_path:
  "path_of m s (accepted m s v cs) (fst (run_commands m s v cs)) \<and>
   snd (run_commands m s v cs) = v + int (length (accepted m s v cs)) \<and>
   map fst (accepted m s v cs) = map (\<lambda>i. v + int i) [0..<length (accepted m s v cs)]"
proof (induction cs arbitrary: s v)
  case (Cons c cs)
  show ?case
  proof (cases "attempt m s v c")
    case (Inl e)
    with Cons show ?thesis by simp
  next
    case (Inr r)
    note facts = attempt_Inr[OF Inr]
    obtain ev ns gs where c: "c = (ev, ns, gs)" by (cases c)
    from facts(3) c have "new_state r = ns" and "new_version r = v + 1" by simp_all
    moreover from facts(1) c have "ev = v" by simp
    ultimately show ?thesis
      using facts(4) Cons[of "new_state r" "new_version r"] Inr c
      by (simp add: map_upt_Suc o_def ac_simps del: upt_Suc)
  qed
qed simp

lemma goal_transitions_cases:
  assumes "t \<in> set (transitions goalStateMachine)"
  shows "tr_to t = Goal_cancelled \<or>
    (tr_from t, tr_to t, tr_guard t) \<in> {(Goal_draft, Clarifying, None),
      (Clarifying, Planning, Some ClarificationsResolved),
      (Planning, Goal_approved, Some SpecApproved),
      (Goal_approved, Executing, Some IssuesApproved),
      (Executing, Verifying, Some AllIssuesCompleted),
      (Verifying, Goal_completed, Some AcceptanceVerified)}"
  using assms by (simp only: machine_defs list.set list.map append.simps insert_iff empty_iff
      state_machine.simps, elim disjE; simp)

lemma goal_transitions_from:
  "t \<in> set (transitions goalStateMachine) \<Longrightarrow>
     tr_from t \<noteq> Goal_cancelled \<and> tr_from t \<noteq> Goal_completed"
  by (simp add: machine_defs, elim disjE; simp)

lemma goal_path_final:
  assumes "path_of goalStateMachine a es s" and "a = Goal_cancelled \<or> a = Goal_completed"
  shows "es = [] \<and> s = a"
proof (cases es)
  case Nil
  with assms show ?thesis by simp
next
  case (Cons e es')
  obtain ev a' b gs where "e = (ev, a', b, gs)" by (cases e)
  with assms Cons goal_transitions_from show ?thesis by fastforce
qed

text \<open>The next step of a path that ends in completion is forced.\<close>

lemma goal_path_step:
  assumes "path_of goalStateMachine a es Goal_completed" and "a \<noteq> Goal_completed"
  obtains ev b gs es' where "es = (ev, a, b, gs) # es'" and "path_of goalStateMachine b es' Goal_completed"
    and "\<exists>g. (a, b, g) \<in> {(Goal_draft, Clarifying, None),
      (Clarifying, Planning, Some ClarificationsResolved),
      (Planning, Goal_approved, Some SpecApproved),
      (Goal_approved, Executing, Some IssuesApproved),
      (Executing, Verifying, Some AllIssuesCompleted),
      (Verifying, Goal_completed, Some AcceptanceVerified)} \<and>
      (\<forall>x. g = Some x \<longrightarrow> gs x = Some True)"
proof (cases es)
  case Nil
  with assms show thesis by simp
next
  case (Cons e es')
  obtain ev a' b gs where e: "e = (ev, a', b, gs)" by (cases e)
  from assms(1) Cons e obtain t where t: "t \<in> set (transitions goalStateMachine)"
    "tr_from t = a" "tr_to t = b" "\<forall>g. tr_guard t = Some g \<longrightarrow> gs g = Some True"
    and p: "path_of goalStateMachine b es' Goal_completed" and a: "a' = a"
    by auto
  from p have "b \<noteq> Goal_cancelled" using goal_path_final by blast
  with goal_transitions_cases[OF t(1)] t(2-4) have "\<exists>g. (a, b, g) \<in> {(Goal_draft, Clarifying, None),
      (Clarifying, Planning, Some ClarificationsResolved),
      (Planning, Goal_approved, Some SpecApproved),
      (Goal_approved, Executing, Some IssuesApproved),
      (Executing, Verifying, Some AllIssuesCompleted),
      (Verifying, Goal_completed, Some AcceptanceVerified)} \<and>
      (\<forall>x. g = Some x \<longrightarrow> gs x = Some True)"
    by metis
  with that Cons e a p show thesis by blast
qed

section \<open>Properties\<close>

text \<open>
  Property C34. A goal that starts as a draft and ends as completed, under any sequence of
  commands (stale, illegal and unguarded ones included), took exactly the six steps draft,
  clarifying, planning, approved, executing, verifying, completed; the commands that made the
  last five asserted that clarifications were resolved, the specification approved, the issues
  approved, all issues completed and the acceptance verified; and the version grew by six.
\<close>

theorem goal_completion_needs_every_gate:
  assumes "fst (run_commands goalStateMachine Goal_draft v cs) = Goal_completed"
  shows "map (\<lambda>(ev, a, b, gs). (a, b)) (accepted goalStateMachine Goal_draft v cs) =
      [(Goal_draft, Clarifying), (Clarifying, Planning), (Planning, Goal_approved),
       (Goal_approved, Executing), (Executing, Verifying), (Verifying, Goal_completed)] \<and>
    map (\<lambda>(i, g). snd (snd (snd (accepted goalStateMachine Goal_draft v cs ! i))) g)
      [(1, ClarificationsResolved), (2, SpecApproved), (3, IssuesApproved),
       (4, AllIssuesCompleted), (5, AcceptanceVerified)] = replicate 5 (Some True) \<and>
    snd (run_commands goalStateMachine Goal_draft v cs) = v + 6"
proof -
  let ?acc = "accepted goalStateMachine Goal_draft v cs"
  note run = run_commands_path[of goalStateMachine Goal_draft v cs]
  from run assms have p0: "path_of goalStateMachine Goal_draft ?acc Goal_completed" by simp
  from p0 obtain e0 g0 es0 where 0: "?acc = (e0, Goal_draft, Clarifying, g0) # es0"
    and p1: "path_of goalStateMachine Clarifying es0 Goal_completed"
    by (rule goal_path_step) auto
  from p1 obtain e1 g1 es1 where 1: "es0 = (e1, Clarifying, Planning, g1) # es1"
    and g1: "g1 ClarificationsResolved = Some True"
    and p2: "path_of goalStateMachine Planning es1 Goal_completed"
    by (rule goal_path_step) auto
  from p2 obtain e2 g2 es2 where 2: "es1 = (e2, Planning, Goal_approved, g2) # es2"
    and g2: "g2 SpecApproved = Some True"
    and p3: "path_of goalStateMachine Goal_approved es2 Goal_completed"
    by (rule goal_path_step) auto
  from p3 obtain e3 g3 es3 where 3: "es2 = (e3, Goal_approved, Executing, g3) # es3"
    and g3: "g3 IssuesApproved = Some True"
    and p4: "path_of goalStateMachine Executing es3 Goal_completed"
    by (rule goal_path_step) auto
  from p4 obtain e4 g4 es4 where 4: "es3 = (e4, Executing, Verifying, g4) # es4"
    and g4: "g4 AllIssuesCompleted = Some True"
    and p5: "path_of goalStateMachine Verifying es4 Goal_completed"
    by (rule goal_path_step) auto
  from p5 obtain e5 g5 es5 where 5: "es4 = (e5, Verifying, Goal_completed, g5) # es5"
    and g5: "g5 AcceptanceVerified = Some True"
    and p6: "path_of goalStateMachine Goal_completed es5 Goal_completed"
    by (rule goal_path_step) auto
  from p6 have 6: "es5 = []" using goal_path_final by blast
  note acc = 0[unfolded 1 2 3 4 5 6]
  show ?thesis
    using run by (simp add: acc g1 g2 g3 g4 g5 numeral_eq_Suc)
qed

definition sample_goal_commands :: "goal_status command list" where
  "sample_goal_commands =
     [(1, Clarifying, Map.empty),
      (1, Planning, [ClarificationsResolved \<mapsto> True]),
      (2, Goal_approved, [SpecApproved \<mapsto> True]),
      (2, Planning, Map.empty),
      (2, Planning, [ClarificationsResolved \<mapsto> True]),
      (3, Goal_approved, [SpecApproved \<mapsto> True]),
      (4, Executing, [IssuesApproved \<mapsto> True]),
      (5, Verifying, [AllIssuesCompleted \<mapsto> True]),
      (6, Goal_completed, [AcceptanceVerified \<mapsto> True]),
      (7, Goal_cancelled, [ReasonProvided \<mapsto> True])]"

theorem goal_completion_needs_every_gate_witness:
  "fst (run_commands goalStateMachine Goal_draft 1 sample_goal_commands) = Goal_completed \<and>
   snd (run_commands goalStateMachine Goal_draft 1 sample_goal_commands) = 7"
proof -
  have h: "fst (run_commands goalStateMachine Goal_draft 1 sample_goal_commands) = Goal_completed"
    by (simp add: sample_goal_commands_def attempt_def transitionState_def machine_defs)
  show ?thesis using h goal_completion_needs_every_gate[OF h] by simp
qed

text \<open>
  Optimistic locking: whatever the table and whatever the commands, the accepted
  ones named the versions v, v+1, v+2, ... in this order (so no version accepts two
  commands, and a command written against an old version is never accepted), and the final
  version is the initial one plus their number.
\<close>

theorem version_admits_one_command:
  "map fst (accepted m s v cs) = map (\<lambda>i. v + int i) [0..<length (accepted m s v cs)] \<and>
   distinct (map fst (accepted m s v cs)) \<and>
   snd (run_commands m s v cs) = v + int (length (accepted m s v cs))"
proof -
  note run = run_commands_path[of m s v cs]
  then have "distinct (map fst (accepted m s v cs))"
    by (simp only:, simp add: distinct_map inj_on_def)
  with run show ?thesis by simp
qed

text \<open>
  The four life cycles are well formed: every row of a table stays inside the
  listed states, no pair of states has two rows (so the row that \<open>find\<close> returns is the only
  one), no row leaves a terminal state, and every state that is not terminal has a row. Hence
  every entity that reached a terminal state keeps its state and version for ever.
\<close>

theorem life_cycles_well_formed:
  "machine_ok goalStateMachine \<and> machine_ok specRevisionStateMachine \<and>
   machine_ok issueStateMachine \<and> machine_ok runStateMachine \<and>
   (\<forall>v cs. run_commands goalStateMachine Goal_completed v cs = (Goal_completed, v)) \<and>
   (\<forall>v cs. run_commands goalStateMachine Goal_cancelled v cs = (Goal_cancelled, v)) \<and>
   (\<forall>v cs. run_commands specRevisionStateMachine Spec_superseded v cs = (Spec_superseded, v)) \<and>
   (\<forall>v cs. run_commands issueStateMachine Issue_completed v cs = (Issue_completed, v)) \<and>
   (\<forall>v cs. run_commands runStateMachine Succeeded v cs = (Succeeded, v))"
  by (simp add: machine_ok_def machine_defs run_commands_terminal)

end
