(* ===== verification/Goal_Contract.thy ===== *)
theory Goal_Contract
  imports State_Machines
begin

text \<open>
  \<^verbatim>\<open>domain/goal-contract.ts\<close> and the scope of \<^verbatim>\<open>domain/clarification-history.ts\<close>: the data of a
  Goal and the key under which the in-memory repositories file a Goal's records. The type of
  texts is a parameter of the record: the services use strings, the classification uses lists of
  UTF-16 code units, since its keywords are not all Latin-1.
\<close>

record 'text goal_acceptance_criterion =
  criterion_id :: string
  position :: nat
  criterion_statement :: 'text
  criterion_version :: nat

record 'text goal_contract_draft =
  draft_title :: 'text
  draft_problemStatement :: 'text
  draft_desiredOutcome :: 'text
  draft_acceptanceCriteria :: "'text list"
  draft_nonGoals :: "'text list"
  draft_constraints :: "'text list"

record 'text goal_contract =
  goal_id :: string
  goal_organizationId :: string
  goal_projectId :: string
  goal_title :: 'text
  problemStatement :: 'text
  desiredOutcome :: 'text
  acceptanceCriteria :: "'text goal_acceptance_criterion list"
  goal_nonGoals :: "'text list"
  constraints :: "'text list"
  goal_state :: goal_status
  goal_version :: nat
  createdAt :: string
  updatedAt :: string

section \<open>Scopes and their keys\<close>

record goal_scope =
  organizationId :: string
  projectId :: string
  goalId :: string

text \<open>The template literal that files the records of a Goal in the in-memory repositories.\<close>

definition scope_key :: "goal_scope \<Rightarrow> string" where
  "scope_key s = organizationId s @ ''/'' @ projectId s @ ''/'' @ goalId s"

definition plain_id :: "string \<Rightarrow> bool" where
  "plain_id s \<longleftrightarrow> CHR ''/'' \<notin> set s"

lemma append_slash_inject:
  assumes "plain_id a" and "plain_id b"
  shows "a @ ''/'' @ x = b @ ''/'' @ y \<longleftrightarrow> a = b \<and> x = y"
proof
  assume e: "a @ ''/'' @ x = b @ ''/'' @ y"
  have "takeWhile (\<lambda>c. c \<noteq> CHR ''/'') (u @ ''/'' @ v) = u" if "plain_id u" for u v
    using that by (induction u) (auto simp: plain_id_def)
  from this[OF assms(1), of x] this[OF assms(2), of y] e have "a = b" by simp
  with e show "a = b \<and> x = y" by simp
qed simp

text \<open>Identifiers without a slash are filed under different keys.\<close>

lemma scope_key_inject:
  assumes "plain_id (organizationId s)" "plain_id (projectId s)"
    and "plain_id (organizationId t)" "plain_id (projectId t)"
  shows "scope_key s = scope_key t \<longleftrightarrow> s = t"
  using append_slash_inject[OF assms(1,3)] append_slash_inject[OF assms(2,4)]
  unfolding scope_key_def by (metis goal_scope.equality unit.exhaust goal_scope.surjective)

end
