(* ===== verification/Classification.thy ===== *)
theory Classification
  imports Goal_Contract
begin

text \<open>
  \<^verbatim>\<open>domain/deterministic-classification.ts\<close>: the deterministic size and risk classification of a
  Goal with its matched factors, required artifacts and approver roles, and the published policy
  tables. The lemmas show that the code follows the tables and that a larger or riskier Goal
  never needs less.

  Texts are lists of UTF-16 code units, and \<open>lowercase\<close> stands for
  \<open>toLocaleLowerCase("en-US")\<close>, whose tables are those of the Unicode standard.
\<close>

section \<open>Data\<close>

type_synonym units = "nat list"

datatype delivery_size = S | M | L | XL
datatype risk_level = Risk_low | Risk_medium | Risk_high
datatype factor_category = Size_factor | Risk_factor

datatype required_artifact =
  Proposal | Prd | Test_plan | Architecture_decision_record
  | Migration_plan | Rollback_plan | Risk_assessment | Recovery_plan

datatype required_approver_role = Project_approver | Technical_approver | Organization_approver

record classification_factor =
  factor_code :: string
  category :: factor_category
  points :: nat
  explanation :: string

record classification_output =
  class_size :: delivery_size
  class_risk :: risk_level
  sizeScore :: nat
  riskScore :: nat
  matchedFactors :: "classification_factor list"
  requiredArtifacts :: "required_artifact list"
  requiredApproverRoles :: "required_approver_role list"

datatype blocking_level = Blocker | High_blocking | Medium_blocking | Low_blocking
datatype clarification_status = Clarification_open | Clarification_answered

record clarification_state =
  blockingLevel :: blocking_level
  clarification_status :: clarification_status

record classification_input =
  input_goal :: "units goal_contract"
  clarifications :: "clarification_state list"

section \<open>The published policy\<close>

datatype keyword_group = Security | Migration | Production | Destructive

fun group_name :: "keyword_group \<Rightarrow> string" where
  "group_name Security = ''security''"
| "group_name Migration = ''migration''"
| "group_name Production = ''production''"
| "group_name Destructive = ''destructive''"

definition ascii :: "string \<Rightarrow> units" where
  "ascii = map of_char"

text \<open>The Chinese keywords are given by their code units, in the order of the source.\<close>

fun keywordGroups :: "keyword_group \<Rightarrow> units list" where
  "keywordGroups Security =
     map ascii [''authentication'', ''authorization'', ''credential'', ''secret'', ''token'',
       ''rbac'', ''oidc'', ''security''] @
     [[0x8BA4, 0x8BC1], [0x6388, 0x6743], [0x51ED, 0x8BC1], [0x5BC6, 0x94A5], [0x4EE4, 0x724C],
      [0x5B89, 0x5168]]"
| "keywordGroups Migration =
     map ascii [''migration'', ''migrate'', ''schema''] @
     [[0x8FC1, 0x79FB], [0x6570, 0x636E, 0x5E93], [0x6A21, 0x5F0F]]"
| "keywordGroups Production =
     map ascii [''production'', ''deployment'', ''rollout''] @
     [[0x751F, 0x4EA7], [0x53D1, 0x5E03], [0x4E0A, 0x7EBF]]"
| "keywordGroups Destructive =
     map ascii [''data loss'', ''deletion'', ''delete'', ''drop table'', ''destructive''] @
     [[0x6570, 0x636E, 0x4E22, 0x5931], [0x5220, 0x9664], [0x5220, 0x5E93],
      [0x7834, 0x574F, 0x6027]]"

record classification_policy =
  policyKey :: string
  policy_revision :: nat
  policy_schemaVersion :: string
  policy_digest :: string
  sizeBands :: "(delivery_size \<times> nat \<times> nat option) list"
  riskBands :: "(risk_level \<times> nat \<times> nat option) list"
  criteriaPoints :: "(nat option \<times> nat) list"
  constraintPoints :: "(nat option \<times> nat) list"

definition classificationPolicyV1 :: classification_policy where
  "classificationPolicyV1 = \<lparr>
     policyKey = ''goal-delivery-classification'',
     policy_revision = 1,
     policy_schemaVersion = ''classification-policy.v1'',
     policy_digest = ''3f5ce998f78d7a24f4b579e98ab5cdf114ba82e7d95786bc5755d70b0e6f8b1b'',
     sizeBands = [(S, 0, Some 1), (M, 2, Some 3), (L, 4, Some 7), (XL, 8, None)],
     riskBands = [(Risk_low, 0, Some 1), (Risk_medium, 2, Some 4), (Risk_high, 5, None)],
     criteriaPoints = [(Some 2, 1), (Some 5, 2), (Some 10, 4), (None, 7)],
     constraintPoints = [(Some 0, 0), (Some 2, 1), (Some 5, 2), (None, 3)]\<rparr>"

section \<open>The classification\<close>

datatype size_kind = Criteria | Constraints

fun size_kind_name :: "size_kind \<Rightarrow> string" where
  "size_kind_name Criteria = ''criteria''"
| "size_kind_name Constraints = ''constraints''"

definition size_points :: "nat \<Rightarrow> size_kind \<Rightarrow> nat" where
  "size_points n kind =
     (case kind of
        Criteria \<Rightarrow> if n \<le> 2 then 1 else if n \<le> 5 then 2 else if n \<le> 10 then 4 else 7
      | Constraints \<Rightarrow> if n = 0 then 0 else if n \<le> 2 then 1 else if n \<le> 5 then 2 else 3)"

definition sizeFactor :: "nat \<Rightarrow> size_kind \<Rightarrow> classification_factor" where
  "sizeFactor n kind =
     (let p = size_points n kind in \<lparr>
        factor_code = ''size.'' @ size_kind_name kind @ ''.'' @ show_nat p,
        category = Size_factor,
        points = p,
        explanation = show_nat n @ '' '' @ size_kind_name kind @ '' contribute '' @
          show_nat p @ '' size point(s)''\<rparr>)"

definition includesAny :: "units \<Rightarrow> units list \<Rightarrow> bool" where
  "includesAny text words \<longleftrightarrow> list_ex (str_includes text) words"

definition unresolved :: "classification_input \<Rightarrow> clarification_state list" where
  "unresolved input =
     filter (\<lambda>c. clarification_status c = Clarification_open) (clarifications input)"

definition size_factors :: "classification_input \<Rightarrow> classification_factor list" where
  "size_factors input =
     [sizeFactor (length (acceptanceCriteria (input_goal input))) Criteria,
      sizeFactor (length (constraints (input_goal input))) Constraints] @
     (if length (unresolved input) > 0 then
        [\<lparr>factor_code = ''size.unresolved_clarifications'', category = Size_factor, points = 1,
          explanation = show_nat (length (unresolved input)) @
            '' unresolved clarification(s) add coordination scope''\<rparr>]
      else [])"

definition goal_text :: "(units \<Rightarrow> units) \<Rightarrow> units goal_contract \<Rightarrow> units" where
  "goal_text lowercase g =
     lowercase (join [10]
       ([goal_title g, problemStatement g, desiredOutcome g] @
        map criterion_statement (acceptanceCriteria g) @ goal_nonGoals g @ constraints g))"

definition riskGroup ::
  "units \<Rightarrow> keyword_group \<Rightarrow> nat \<Rightarrow> string \<Rightarrow> classification_factor list" where
  "riskGroup text grp p expl =
     (if includesAny text (keywordGroups grp) then
        [\<lparr>factor_code = ''risk.'' @ group_name grp, category = Risk_factor, points = p,
          explanation = expl\<rparr>]
      else [])"

definition highestOpen :: "classification_input \<Rightarrow> string option" where
  "highestOpen input =
     (if list_ex (\<lambda>c. blockingLevel c = Blocker) (unresolved input) then Some ''blocker''
      else if list_ex (\<lambda>c. blockingLevel c = High_blocking) (unresolved input) then Some ''high''
      else None)"

definition risk_factors ::
  "(units \<Rightarrow> units) \<Rightarrow> classification_input \<Rightarrow> classification_factor list" where
  "risk_factors lowercase input =
     (let text = goal_text lowercase (input_goal input) in
      riskGroup text Security 2 ''Security, identity, or credential boundary is in scope'' @
      riskGroup text Migration 2 ''Schema or data migration is in scope'' @
      riskGroup text Production 2 ''Production deployment or rollout is in scope'' @
      riskGroup text Destructive 4 ''Destructive change or data-loss language is in scope'' @
      (case highestOpen input of
         None \<Rightarrow> []
       | Some level \<Rightarrow>
           [\<lparr>factor_code = ''risk.unresolved_'' @ level, category = Risk_factor,
             points = (if level = ''blocker'' then 4 else 2),
             explanation = ''An unresolved '' @ level @ '' clarification remains''\<rparr>]))"

definition size_of_score :: "nat \<Rightarrow> delivery_size" where
  "size_of_score s = (if s \<le> 1 then S else if s \<le> 3 then M else if s \<le> 7 then L else XL)"

definition risk_of_score :: "nat \<Rightarrow> risk_level" where
  "risk_of_score s = (if s \<le> 1 then Risk_low else if s \<le> 4 then Risk_medium else Risk_high)"

definition artifacts_for :: "delivery_size \<Rightarrow> bool \<Rightarrow> risk_level \<Rightarrow> required_artifact list" where
  "artifacts_for sz migration risk =
     [Proposal, Prd, Test_plan] @
     (if sz = L \<or> sz = XL then [Architecture_decision_record] else []) @
     (if migration then [Migration_plan, Rollback_plan] else []) @
     (if risk \<noteq> Risk_low then [Risk_assessment] else []) @
     (if risk = Risk_high then [Recovery_plan] else [])"

definition approvers_for :: "delivery_size \<Rightarrow> risk_level \<Rightarrow> required_approver_role list" where
  "approvers_for sz risk =
     [Project_approver] @
     (if sz = L \<or> sz = XL \<or> risk \<noteq> Risk_low then [Technical_approver] else []) @
     (if risk = Risk_high then [Organization_approver] else [])"

definition classifyGoal ::
  "(units \<Rightarrow> units) \<Rightarrow> classification_input \<Rightarrow> classification_output" where
  "classifyGoal lowercase input =
     (let sizeFactors = size_factors input;
          riskFactors = risk_factors lowercase input;
          sscore = sum_list (map points sizeFactors);
          rscore = sum_list (map points riskFactors);
          sz = size_of_score sscore;
          risk = risk_of_score rscore in \<lparr>
        class_size = sz,
        class_risk = risk,
        sizeScore = sscore,
        riskScore = rscore,
        matchedFactors = sizeFactors @ riskFactors,
        requiredArtifacts =
          artifacts_for sz (list_ex (\<lambda>f. factor_code f = ''risk.migration'') riskFactors) risk,
        requiredApproverRoles = approvers_for sz risk\<rparr>)"

section \<open>The code follows the published tables\<close>

text \<open>Reading a table: the first row whose bound is not below the count; the band of a score.\<close>

definition points_from :: "(nat option \<times> nat) list \<Rightarrow> nat \<Rightarrow> nat option" where
  "points_from table n =
     map_option snd (find (\<lambda>(bound, _). case bound of None \<Rightarrow> True | Some b \<Rightarrow> n \<le> b) table)"

definition in_band :: "nat \<Rightarrow> nat \<times> nat option \<Rightarrow> bool" where
  "in_band n b \<longleftrightarrow> fst b \<le> n \<and> (case snd b of None \<Rightarrow> True | Some hi \<Rightarrow> n \<le> hi)"

definition bands_of :: "('a \<times> nat \<times> nat option) list \<Rightarrow> nat \<Rightarrow> 'a list" where
  "bands_of table n = map fst (filter (\<lambda>(_, b). in_band n b) table)"

lemma size_points_table:
  "points_from (criteriaPoints classificationPolicyV1) n = Some (size_points n Criteria)"
  "points_from (constraintPoints classificationPolicyV1) n = Some (size_points n Constraints)"
  by (auto simp: points_from_def classificationPolicyV1_def size_points_def)

lemma bands_table:
  "bands_of (sizeBands classificationPolicyV1) n = [size_of_score n]"
  "bands_of (riskBands classificationPolicyV1) n = [risk_of_score n]"
  by (auto simp: bands_of_def in_band_def classificationPolicyV1_def size_of_score_def
      risk_of_score_def)

lemma size_factors_category: "f \<in> set (size_factors input) \<Longrightarrow> category f = Size_factor"
  by (auto simp: size_factors_def sizeFactor_def Let_def split: if_splits)

lemma risk_factors_category: "f \<in> set (risk_factors lc input) \<Longrightarrow> category f = Risk_factor"
  by (auto simp: risk_factors_def riskGroup_def Let_def split: if_splits option.splits)

lemma matched_by_category:
  "filter (\<lambda>f. category f = Size_factor) (matchedFactors (classifyGoal lc input)) = size_factors input"
  "filter (\<lambda>f. category f = Risk_factor) (matchedFactors (classifyGoal lc input)) = risk_factors lc input"
proof -
  have "filter (\<lambda>f. category f = Size_factor) (size_factors input) = size_factors input"
    "filter (\<lambda>f. category f = Risk_factor) (size_factors input) = []"
    "filter (\<lambda>f. category f = Risk_factor) (risk_factors lc input) = risk_factors lc input"
    "filter (\<lambda>f. category f = Size_factor) (risk_factors lc input) = []"
    using size_factors_category risk_factors_category
    by (auto simp: filter_id_conv filter_empty_conv)
  then show "filter (\<lambda>f. category f = Size_factor) (matchedFactors (classifyGoal lc input)) = size_factors input"
    "filter (\<lambda>f. category f = Risk_factor) (matchedFactors (classifyGoal lc input)) = risk_factors lc input"
    by (simp_all add: classifyGoal_def Let_def)
qed

lemma migration_matched:
  "list_ex (\<lambda>f. factor_code f = ''risk.migration'') (risk_factors lc input) \<longleftrightarrow>
     includesAny (goal_text lc (input_goal input)) (keywordGroups Migration)"
  by (auto simp: risk_factors_def riskGroup_def Let_def list_ex_iff highestOpen_def
      split: option.splits if_splits simp del: keywordGroups.simps)


section \<open>Larger and riskier Goals need no less\<close>

definition size_rank :: "delivery_size \<Rightarrow> nat" where
  "size_rank s = (case s of S \<Rightarrow> 0 | M \<Rightarrow> 1 | L \<Rightarrow> 2 | XL \<Rightarrow> 3)"

definition level_rank :: "risk_level \<Rightarrow> nat" where
  "level_rank r = (case r of Risk_low \<Rightarrow> 0 | Risk_medium \<Rightarrow> 1 | Risk_high \<Rightarrow> 2)"

instantiation delivery_size :: linorder
begin

definition less_eq_delivery_size :: "delivery_size \<Rightarrow> delivery_size \<Rightarrow> bool" where
  "less_eq_delivery_size a b \<longleftrightarrow> size_rank a \<le> size_rank b"

definition less_delivery_size :: "delivery_size \<Rightarrow> delivery_size \<Rightarrow> bool" where
  "less_delivery_size a b \<longleftrightarrow> size_rank a < size_rank b"

instance
  by standard (auto simp: less_eq_delivery_size_def less_delivery_size_def size_rank_def
      split: delivery_size.splits)

end

instantiation risk_level :: linorder
begin

definition less_eq_risk_level :: "risk_level \<Rightarrow> risk_level \<Rightarrow> bool" where
  "less_eq_risk_level a b \<longleftrightarrow> level_rank a \<le> level_rank b"

definition less_risk_level :: "risk_level \<Rightarrow> risk_level \<Rightarrow> bool" where
  "less_risk_level a b \<longleftrightarrow> level_rank a < level_rank b"

instance
  by standard (auto simp: less_eq_risk_level_def less_risk_level_def level_rank_def
      split: risk_level.splits)

end

text \<open>\<open>input_within lc i j\<close>: \<open>j\<close> has at least the criteria, constraints, text and questions of \<open>i\<close>.\<close>

definition input_within ::
  "(units \<Rightarrow> units) \<Rightarrow> classification_input \<Rightarrow> classification_input \<Rightarrow> bool" where
  "input_within lc i j \<longleftrightarrow>
     length (acceptanceCriteria (input_goal i)) \<le> length (acceptanceCriteria (input_goal j)) \<and>
     length (constraints (input_goal i)) \<le> length (constraints (input_goal j)) \<and>
     sublist (goal_text lc (input_goal i)) (goal_text lc (input_goal j)) \<and>
     set (unresolved i) \<subseteq> set (unresolved j)"

lemma size_points_mono: "m \<le> n \<Longrightarrow> size_points m k \<le> size_points n k"
  by (cases k) (auto simp: size_points_def)

lemma size_score_mono:
  assumes "input_within lc i j"
  shows "sum_list (map points (size_factors i)) \<le> sum_list (map points (size_factors j))"
proof -
  have "unresolved i \<noteq> [] \<Longrightarrow> unresolved j \<noteq> []"
    using assms by (auto simp: input_within_def)
  moreover have "size_points (length (acceptanceCriteria (input_goal i))) Criteria \<le>
      size_points (length (acceptanceCriteria (input_goal j))) Criteria"
    "size_points (length (constraints (input_goal i))) Constraints \<le>
      size_points (length (constraints (input_goal j))) Constraints"
    using assms by (auto simp: input_within_def intro: size_points_mono)
  ultimately show ?thesis by (auto simp: size_factors_def sizeFactor_def Let_def)
qed

lemma includesAny_mono: "sublist t u \<Longrightarrow> includesAny t ws \<Longrightarrow> includesAny u ws"
  unfolding includesAny_def list_ex_iff str_includes_iff_sublist
  by (meson sublist_order.order_trans)

lemma riskGroup_mono:
  "sublist t u \<Longrightarrow> sum_list (map points (riskGroup t g p e)) \<le> sum_list (map points (riskGroup u g p e))"
  using includesAny_mono by (auto simp: riskGroup_def)

lemma risk_score_mono:
  assumes "input_within lc i j"
  shows "sum_list (map points (risk_factors lc i)) \<le> sum_list (map points (risk_factors lc j))"
proof -
  let ?open = "\<lambda>x. sum_list (map points (case highestOpen x of None \<Rightarrow> []
    | Some level \<Rightarrow> [\<lparr>factor_code = ''risk.unresolved_'' @ level, category = Risk_factor,
        points = (if level = ''blocker'' then 4 else 2),
        explanation = ''An unresolved '' @ level @ '' clarification remains''\<rparr>]))"
  have opn: "?open i \<le> ?open j"
    using assms by (auto simp: input_within_def highestOpen_def list_ex_iff)
  have "sublist (goal_text lc (input_goal i)) (goal_text lc (input_goal j))"
    using assms by (simp add: input_within_def)
  note grp = riskGroup_mono[OF this]
  show ?thesis
    unfolding risk_factors_def Let_def map_append sum_list_append
    by (intro add_mono grp opn)
qed

lemma size_of_score_mono: "m \<le> n \<Longrightarrow> size_of_score m \<le> size_of_score n"
  by (auto simp: size_of_score_def less_eq_delivery_size_def size_rank_def)

lemma risk_of_score_mono: "m \<le> n \<Longrightarrow> risk_of_score m \<le> risk_of_score n"
  by (auto simp: risk_of_score_def less_eq_risk_level_def level_rank_def)

lemma artifacts_for_mono:
  "s \<le> s' \<Longrightarrow> (m \<Longrightarrow> m') \<Longrightarrow> r \<le> r' \<Longrightarrow> set (artifacts_for s m r) \<subseteq> set (artifacts_for s' m' r')"
  by (cases s; cases s'; cases r; cases r')
    (auto simp: artifacts_for_def less_eq_delivery_size_def less_eq_risk_level_def size_rank_def
      level_rank_def)

lemma approvers_for_mono:
  "s \<le> s' \<Longrightarrow> r \<le> r' \<Longrightarrow> set (approvers_for s r) \<subseteq> set (approvers_for s' r')"
  by (cases s; cases s'; cases r; cases r')
    (auto simp: approvers_for_def less_eq_delivery_size_def less_eq_risk_level_def size_rank_def
      level_rank_def)

text \<open>
  Adding criteria, constraints, text or open clarifications to a Goal never makes
  its size or its risk smaller and never removes a required artifact or an approver role.
\<close>

theorem classification_is_monotone:
  assumes "input_within lc i j"
  shows "class_size (classifyGoal lc i) \<le> class_size (classifyGoal lc j) \<and>
    class_risk (classifyGoal lc i) \<le> class_risk (classifyGoal lc j) \<and>
    set (requiredArtifacts (classifyGoal lc i)) \<subseteq> set (requiredArtifacts (classifyGoal lc j)) \<and>
    set (requiredApproverRoles (classifyGoal lc i)) \<subseteq>
      set (requiredApproverRoles (classifyGoal lc j))"
proof -
  note s = size_of_score_mono[OF size_score_mono[OF assms]]
  note r = risk_of_score_mono[OF risk_score_mono[OF assms]]
  have mig: "includesAny (goal_text lc (input_goal i)) (keywordGroups Migration) \<Longrightarrow>
      includesAny (goal_text lc (input_goal j)) (keywordGroups Migration)"
    by (rule includesAny_mono) (use assms in \<open>simp_all add: input_within_def\<close>)
  show ?thesis
    using s r artifacts_for_mono[OF s mig r] approvers_for_mono[OF s r]
    by (simp add: classifyGoal_def Let_def migration_matched del: keywordGroups.simps)
qed

definition sample_classification :: "units list \<Rightarrow> classification_input" where
  "sample_classification cs = \<lparr>input_goal = \<lparr>goal_id = ''g'', goal_organizationId = ''o'',
     goal_projectId = ''p'', goal_title = [84], problemStatement = [80], desiredOutcome = [79],
     acceptanceCriteria = [], goal_nonGoals = [], constraints = cs, goal_state = Goal_draft,
     goal_version = 1, createdAt = '''', updatedAt = ''''\<rparr>, clarifications = []\<rparr>"

theorem classification_is_monotone_witness:
  "class_risk (classifyGoal id (sample_classification [])) \<le>
   class_risk (classifyGoal id (sample_classification [[0x5220, 0x9664]]))"
proof -
  have "input_within id (sample_classification []) (sample_classification [[0x5220, 0x9664]])"
    by (simp add: input_within_def sample_classification_def goal_text_def unresolved_def
        flip: str_includes_iff_sublist)
  from classification_is_monotone[OF this] show ?thesis by blast
qed

end
