(* ===== verification/Json_Text.thy ===== *)
theory Json_Text
  imports Json_Values
begin

text \<open>
  The texts of JSON values: \<open>JSON.stringify\<close> and the \<open>canonicalJson\<close> of
  \<^verbatim>\<open>domain/spec-artifact.ts\<close>, from which content digests and request fingerprints are made.
  The lemmas show that the texts determine the values, so that two values have the same
  canonical text exactly when they differ in the order of keys only.
\<close>

section \<open>\<open>JSON.stringify\<close>\<close>

definition hex_digit :: "nat \<Rightarrow> char" where
  "hex_digit n = ''0123456789abcdef'' ! n"

definition escape_char :: "char \<Rightarrow> string" where
  "escape_char c =
     (let n = of_char c :: nat in
      if n = 34 then [CHR 0x5C, CHR 0x22]
      else if n = 92 then [CHR 0x5C, CHR 0x5C]
      else if n = 8 then [CHR 0x5C, CHR ''b'']
      else if n = 12 then [CHR 0x5C, CHR ''f'']
      else if n = 10 then [CHR 0x5C, CHR ''n'']
      else if n = 13 then [CHR 0x5C, CHR ''r'']
      else if n = 9 then [CHR 0x5C, CHR ''t'']
      else if n < 32 then [CHR 0x5C] @ ''u00'' @ [hex_digit (n div 16), hex_digit (n mod 16)]
      else [c])"

definition json_quote :: "string \<Rightarrow> string" where
  "json_quote s = [CHR 0x22] @ concat (map escape_char s) @ [CHR 0x22]"

text \<open>
  An undefined element of an array is rendered as null, an undefined property is left out. The
  rendering of numbers is exact below \<open>10 ^ 21\<close>.
\<close>

fun json_stringify :: "json \<Rightarrow> string" where
  "json_stringify JUndefined = ''null''"
| "json_stringify JNull = ''null''"
| "json_stringify (JBool b) = (if b then ''true'' else ''false'')"
| "json_stringify (JInt i) = show_int i"
| "json_stringify (JFrac s) = s"
| "json_stringify (JStr s) = json_quote s"
| "json_stringify (JArr vs) = ''['' @ join '','' (map json_stringify vs) @ '']''"
| "json_stringify (JObj fs) =
     ''{'' @ join '',''
       (map (\<lambda>(k, v). json_quote k @ '':'' @ json_stringify v)
          (filter (\<lambda>f. snd f \<noteq> JUndefined) fs)) @ ''}''"

text \<open>
  \<open>canonicalJson\<close>, for a \<open>localeCompare\<close> given as "not after". \<open>JSON.stringify(undefined)\<close>
  is undefined, which an array joins as a blank and a template literal renders by name.
\<close>

fun canonicalJson :: "(string \<Rightarrow> string \<Rightarrow> bool) \<Rightarrow> json \<Rightarrow> string" where
  "canonicalJson lc (JArr vs) =
     ''['' @ join '','' (map (\<lambda>v. if v = JUndefined then '''' else canonicalJson lc v) vs) @ '']''"
| "canonicalJson lc (JObj fs) =
     ''{'' @ join '',''
       (map (\<lambda>(k, v). json_quote k @ '':'' @ canonicalJson lc v)
          (sort_by (\<lambda>f g. lc (fst f) (fst g)) fs)) @ ''}''"
| "canonicalJson lc JUndefined = ''undefined''"
| "canonicalJson lc v = json_stringify v"

section \<open>Texts determine values\<close>

subsection \<open>Characters\<close>

definition hex_value :: "char \<Rightarrow> nat" where
  "hex_value c = (let n = of_char c :: nat in if n < 58 then n - 48 else n - 87)"

text \<open>One step of reading the body of a quoted string.\<close>

fun read_char :: "string \<Rightarrow> (char \<times> string) option" where
  "read_char [] = None"
| "read_char (c # cs) =
     (if c \<noteq> CHR 0x5C then Some (c, cs)
      else case cs of
        [] \<Rightarrow> None
      | e # r \<Rightarrow>
          if e = CHR ''u'' then
            (case r of _ # _ # h # l # r' \<Rightarrow> Some (char_of (16 * hex_value h + hex_value l), r')
             | _ \<Rightarrow> None)
          else if e = CHR ''b'' then Some (CHR 0x08, r)
          else if e = CHR ''f'' then Some (CHR 0x0C, r)
          else if e = CHR ''n'' then Some (CHR 0x0A, r)
          else if e = CHR ''r'' then Some (CHR 0x0D, r)
          else if e = CHR ''t'' then Some (CHR 0x09, r)
          else Some (e, r))"

lemma of_char_eq_nat: "(of_char c :: nat) = n \<Longrightarrow> c = char_of n"
  by (metis char_of_char)

lemma char_code_34: "char_of (34 :: nat) = CHR 0x22" and char_code_92: "char_of (92 :: nat) = CHR 0x5C"
  by code_simp+

lemma control_chars:
  "list_all (\<lambda>n. read_char (escape_char (char_of n) @ u) = Some (char_of n, u)) [0::nat ..< 32]"
  by (simp add: upt_rec escape_char_def hex_digit_def hex_value_def Let_def, code_simp)

lemma read_escape: "read_char (escape_char c @ u) = Some (c, u)"
proof (cases "(of_char c :: nat) < 32")
  case True
  then have "(of_char c :: nat) \<in> set [0..<32]" by simp
  with control_chars[of u] have
    "read_char (escape_char (char_of (of_char c :: nat)) @ u) = Some (char_of (of_char c :: nat), u)"
    unfolding list_all_iff by blast
  then show ?thesis by simp
next
  case False
  consider "c = CHR 0x22" | "c = CHR 0x5C"
    | "(of_char c :: nat) \<noteq> 34" "(of_char c :: nat) \<noteq> 92"
    using of_char_eq_nat[of c 34] of_char_eq_nat[of c 92]
    by (simp only: char_code_34 char_code_92) blast
  then show ?thesis
  proof cases
    case 3
    then have "c \<noteq> CHR 0x5C" by auto
    with False 3 show ?thesis by (simp add: escape_char_def Let_def)
  qed (simp_all add: escape_char_def)
qed

lemma escape_nonquote: "escape_char c \<noteq> [] \<and> hd (escape_char c) \<noteq> CHR 0x22"
  using of_char_eq_nat[of c 34] by (auto simp: escape_char_def Let_def)

lemma quoted_body_inject:
  "concat (map escape_char s) @ [CHR 0x22] @ x = concat (map escape_char t) @ [CHR 0x22] @ y \<longleftrightarrow>
     s = t \<and> x = y"
proof
  assume "concat (map escape_char s) @ [CHR 0x22] @ x = concat (map escape_char t) @ [CHR 0x22] @ y"
  then show "s = t \<and> x = y"
  proof (induction s arbitrary: t)
    case Nil
    then show ?case
    proof (cases t)
      case (Cons d ds)
      with Nil escape_nonquote[of d] show ?thesis by (cases "escape_char d") auto
    qed simp
  next
    case (Cons c cs)
    then show ?case
    proof (cases t)
      case Nil
      with Cons.prems escape_nonquote[of c] show ?thesis by (cases "escape_char c") auto
    next
      case t: (Cons d ds)
      from Cons.prems t have e:
        "escape_char c @ concat (map escape_char cs) @ [CHR 0x22] @ x =
         escape_char d @ concat (map escape_char ds) @ [CHR 0x22] @ y" by simp
      from arg_cong[OF e, of read_char]
      have "c = d" "concat (map escape_char cs) @ [CHR 0x22] @ x =
          concat (map escape_char ds) @ [CHR 0x22] @ y"
        unfolding read_escape by simp_all
      with Cons.IH t show ?thesis by blast
    qed
  qed
qed simp

lemma json_quote_inject [simp]: "json_quote s @ x = json_quote t @ y \<longleftrightarrow> s = t \<and> x = y"
  using quoted_body_inject[of s x t y] by (simp add: json_quote_def)

subsection \<open>Numbers\<close>

lemma minus_not_digit: "CHR ''-'' \<notin> decimal_digits"
  by (simp add: decimal_digits_def)

lemma show_int_inject [simp]: "show_int i = show_int j \<longleftrightarrow> i = j"
proof -
  have "''-'' @ show_nat m \<noteq> show_nat n" for m n
    using show_nat_digits[of n] minus_not_digit by (cases "show_nat n") auto
  moreover from this have "show_nat n \<noteq> ''-'' @ show_nat m" for m n by metis
  ultimately show ?thesis by (auto simp: show_int_def)
qed

definition number_chars :: "char set" where
  "number_chars = insert (CHR ''-'') decimal_digits"

lemma show_int_chars: "set (show_int i) \<subseteq> number_chars \<and> show_int i \<noteq> []"
  using show_nat_digits by (auto simp: show_int_def number_chars_def)

text \<open>What may follow a value inside an array or an object.\<close>

definition ends :: "string \<Rightarrow> bool" where
  "ends x \<longleftrightarrow> x = [] \<or> hd x \<in> {CHR '','', CHR '']'', CHR ''}''}"

lemma ends_not_number: "ends x \<Longrightarrow> x = [] \<or> hd x \<notin> number_chars"
  by (auto simp: ends_def number_chars_def decimal_digits_def)

lemma show_int_append_inject:
  assumes "ends x" "ends y" "show_int i @ x = show_int j @ y"
  shows "i = j \<and> x = y"
proof -
  have "takeWhile (\<lambda>c. c \<in> number_chars) (show_int i @ x) = show_int i"
    "takeWhile (\<lambda>c. c \<in> number_chars) (show_int j @ y) = show_int j"
    using show_int_chars ends_not_number[OF assms(1)] ends_not_number[OF assms(2)]
    by (simp_all add: takeWhile_until)
  with assms(3) have "show_int i = show_int j" by simp
  with assms(3) show ?thesis by simp
qed
subsection \<open>Values\<close>

text \<open>
  The values whose texts are compared: no undefined, numbers that are integers, and objects with
  distinct keys, as objects have.
\<close>

fun plain_json :: "json \<Rightarrow> bool" where
  "plain_json JUndefined \<longleftrightarrow> False"
| "plain_json (JFrac s) \<longleftrightarrow> False"
| "plain_json (JArr vs) \<longleftrightarrow> list_all plain_json vs"
| "plain_json (JObj fs) \<longleftrightarrow> distinct (map fst fs) \<and> list_all (\<lambda>(k, v). plain_json v) fs"
| "plain_json v \<longleftrightarrow> True"

lemma plain_json_defined [simp]: "plain_json v \<Longrightarrow> v \<noteq> JUndefined"
  by auto

text \<open>The rest of an array or object after its first item.\<close>

definition rest_items :: "('a \<Rightarrow> string) \<Rightarrow> 'a list \<Rightarrow> string" where
  "rest_items f vs = concat (map (\<lambda>v. '','' @ f v) vs)"

lemma join_map_Cons: "join '','' (map f (v # vs)) = f v @ rest_items f vs"
  by (induction vs arbitrary: v) (auto simp: rest_items_def)

lemma ends_rest: "ends ([c] @ x) \<Longrightarrow> ends (rest_items f vs @ [c] @ x)"
  by (cases vs) (auto simp: rest_items_def ends_def)

lemma rest_items_inject:
  assumes "\<And>v w x y. v \<in> set vs \<Longrightarrow> w \<in> set ws \<Longrightarrow> ends x \<Longrightarrow> ends y \<Longrightarrow>
      f v @ x = f w @ y \<Longrightarrow> v = w \<and> x = y"
    and "ends ([c] @ x)" and "c \<noteq> CHR '',''"
    and "rest_items f vs @ [c] @ x = rest_items f ws @ [c] @ y"
  shows "vs = ws \<and> x = y"
  using assms(1,4)
proof (induction vs arbitrary: ws)
  case Nil
  with assms(3) show ?case by (cases ws) (auto simp: rest_items_def)
next
  case (Cons v vs)
  then show ?case
  proof (cases ws)
    case Nil
    with Cons.prems(2) assms(3) show ?thesis by (auto simp: rest_items_def)
  next
    case ws: (Cons w ws')
    from assms(2) have ey: "ends ([c] @ y)" by (simp add: ends_def)
    from Cons.prems(2) ws have
      "f v @ rest_items f vs @ [c] @ x = f w @ rest_items f ws' @ [c] @ y"
      by (simp add: rest_items_def)
    with Cons.prems(1)[of v w] ws ends_rest[OF assms(2)] ends_rest[OF ey]
    have "v = w" and "rest_items f vs @ [c] @ x = rest_items f ws' @ [c] @ y"
      by (metis list.set_intros(1))+
    moreover have "vs = ws' \<and> x = y"
      by (rule Cons.IH) (use Cons.prems(1) ws calculation(2) in auto)
    ultimately show ?thesis using ws by simp
  qed
qed

text \<open>A bracketed list of items determines the items, if no item starts like the bracket.\<close>

lemma items_inject:
  assumes inj: "\<And>v w x y. v \<in> set vs \<Longrightarrow> w \<in> set ws \<Longrightarrow> ends x \<Longrightarrow> ends y \<Longrightarrow>
      f v @ x = f w @ y \<Longrightarrow> v = w \<and> x = y"
    and hd: "\<And>v. v \<in> set vs \<union> set ws \<Longrightarrow> f v \<noteq> [] \<and> hd (f v) \<noteq> c"
    and c: "ends ([c] @ x)" "c \<noteq> CHR '',''"
    and eq: "join '','' (map f vs) @ [c] @ x = join '','' (map f ws) @ [c] @ y"
  shows "vs = ws \<and> x = y"
proof (cases vs)
  case Nil
  then show ?thesis
  proof (cases ws)
    case (Cons w ws')
    with eq Nil hd[of w] show ?thesis
      unfolding Cons join_map_Cons by (cases "f w") auto
  qed (use eq Nil in simp)
next
  case v: (Cons v vs')
  then show ?thesis
  proof (cases ws)
    case Nil
    with eq v hd[of v] show ?thesis
      unfolding v join_map_Cons by (cases "f v") auto
  next
    case w: (Cons w ws')
    from c have ey: "ends ([c] @ y)" by (simp add: ends_def)
    from eq have "f v @ rest_items f vs' @ [c] @ x = f w @ rest_items f ws' @ [c] @ y"
      unfolding v w join_map_Cons by simp
    with inj[of v w] v w ends_rest[OF c(1)] ends_rest[OF ey]
    have "v = w" and r: "rest_items f vs' @ [c] @ x = rest_items f ws' @ [c] @ y"
      by (metis list.set_intros(1))+
    moreover have "vs' = ws' \<and> x = y"
      by (rule rest_items_inject[OF _ c r]) (use inj v w in auto)
    ultimately show ?thesis using v w by simp
  qed
qed

text \<open>The characters a value's text can start with tell the kinds of values apart.\<close>

fun json_heads :: "json \<Rightarrow> char set" where
  "json_heads JUndefined = {CHR ''n''}"
| "json_heads JNull = {CHR ''n''}"
| "json_heads (JBool b) = {if b then CHR ''t'' else CHR ''f''}"
| "json_heads (JInt i) = number_chars"
| "json_heads (JFrac s) = UNIV"
| "json_heads (JStr s) = {CHR 0x22}"
| "json_heads (JArr vs) = {CHR ''[''}"
| "json_heads (JObj fs) = {CHR ''{''}"

lemma json_stringify_head: "plain_json v \<Longrightarrow> json_stringify v \<noteq> [] \<and> hd (json_stringify v) \<in> json_heads v"
proof (cases v)
  case (JInt i)
  then show ?thesis using show_int_chars[of i] by (cases "show_int i") auto
qed (auto simp: json_quote_def)

lemma head_not_bracket: "plain_json v \<Longrightarrow> json_stringify v \<noteq> [] \<and> hd (json_stringify v) \<noteq> CHR '']''"
  using json_stringify_head[of v]
  by (cases v) (auto simp: number_chars_def decimal_digits_def)

lemma plain_object_fields:
  "plain_json (JObj fs) \<Longrightarrow> filter (\<lambda>f. snd f \<noteq> JUndefined) fs = fs"
  by (auto simp: filter_id_conv list_all_iff)

lemma json_stringify_append_inject:
  "plain_json v \<Longrightarrow> plain_json w \<Longrightarrow> ends x \<Longrightarrow> ends y \<Longrightarrow>
   json_stringify v @ x = json_stringify w @ y \<Longrightarrow> v = w \<and> x = y"
proof (induction v arbitrary: w x y)
  case JUndefined
  then show ?case by simp
next
  case (JFrac s)
  then show ?case by simp
next
  case JNull
  have "hd (json_stringify w) = CHR ''n''"
    using JNull.prems json_stringify_head[of w] by (cases "json_stringify w") auto
  with json_stringify_head[OF JNull.prems(2)] JNull.prems(2) have "w = JNull"
    by (cases w) (auto simp: number_chars_def decimal_digits_def split: if_splits)
  with JNull.prems show ?case by simp
next
  case (JBool b)
  have "hd (json_stringify w) = (if b then CHR ''t'' else CHR ''f'')"
    using JBool.prems json_stringify_head[of w]
    by (cases "json_stringify w") (auto split: if_splits)
  with json_stringify_head[OF JBool.prems(2)] JBool.prems(2) have "w = JBool b"
    by (cases w) (auto simp: number_chars_def decimal_digits_def split: if_splits)
  with JBool.prems show ?case by simp
next
  case (JInt i)
  have "hd (json_stringify w) \<in> number_chars"
    using JInt.prems show_int_chars[of i] json_stringify_head[of w]
    by (cases "show_int i"; cases "json_stringify w") auto
  with json_stringify_head[OF JInt.prems(2)] JInt.prems(2) obtain j where "w = JInt j"
    by (cases w) (auto simp: number_chars_def decimal_digits_def split: if_splits)
  with JInt.prems show_int_append_inject[of x y i j] show ?case by simp
next
  case (JStr s)
  have "hd (json_stringify w) = CHR 0x22"
    using JStr.prems json_stringify_head[of w] by (cases "json_stringify w") (auto simp: json_quote_def)
  with json_stringify_head[OF JStr.prems(2)] JStr.prems(2) obtain t where "w = JStr t"
    by (cases w) (auto simp: number_chars_def decimal_digits_def split: if_splits)
  with JStr.prems show ?case by simp
next
  case (JArr vs)
  have "hd (json_stringify w) = CHR ''[''"
    using JArr.prems json_stringify_head[of w] by (cases "json_stringify w") auto
  with json_stringify_head[OF JArr.prems(2)] JArr.prems(2) obtain ws where w: "w = JArr ws"
    by (cases w) (auto simp: number_chars_def decimal_digits_def split: if_splits)
  have "vs = ws \<and> x = y"
  proof (rule items_inject[of vs ws json_stringify "CHR '']''"])
    show "\<And>v u x y. v \<in> set vs \<Longrightarrow> u \<in> set ws \<Longrightarrow> ends x \<Longrightarrow> ends y \<Longrightarrow>
        json_stringify v @ x = json_stringify u @ y \<Longrightarrow> v = u \<and> x = y"
      using JArr.IH JArr.prems(1,2) w by (auto simp: list_all_iff)
    show "\<And>v. v \<in> set vs \<union> set ws \<Longrightarrow> json_stringify v \<noteq> [] \<and> hd (json_stringify v) \<noteq> CHR '']''"
      using head_not_bracket JArr.prems(1,2) w by (auto simp: list_all_iff)
  qed (use JArr.prems w in \<open>auto simp: ends_def\<close>)
  with w show ?case by simp
next
  case (JObj fs)
  let ?f = "\<lambda>(k, v). json_quote k @ '':'' @ json_stringify v"
  have "hd (json_stringify w) = CHR ''{''"
    using JObj.prems json_stringify_head[of w] by (cases "json_stringify w") auto
  with json_stringify_head[OF JObj.prems(2)] JObj.prems(2) obtain gs where w: "w = JObj gs"
    by (cases w) (auto simp: number_chars_def decimal_digits_def split: if_splits)
  have "fs = gs \<and> x = y"
  proof (rule items_inject[of fs gs ?f "CHR ''}''"])
    fix f g x y
    assume f: "f \<in> set fs" and g: "g \<in> set gs" and e: "ends x" "ends y" and eq: "?f f @ x = ?f g @ y"
    obtain k v k' v' where kv: "f = (k, v)" "g = (k', v')" by (cases f; cases g)
    from eq kv have "k = k'" and "json_stringify v @ x = json_stringify v' @ y" by simp_all
    moreover have "plain_json v" "plain_json v'"
      using JObj.prems(1,2) w f g kv by (auto simp: list_all_iff)
    ultimately show "f = g \<and> x = y"
      using JObj.IH[of f v v' x y] f e kv by (simp add: snds.simps)
  next
    show "\<And>f. f \<in> set fs \<union> set gs \<Longrightarrow> ?f f \<noteq> [] \<and> hd (?f f) \<noteq> CHR ''}''"
      by (auto simp: json_quote_def)
    show "join '','' (map ?f fs) @ [CHR ''}''] @ x = join '','' (map ?f gs) @ [CHR ''}''] @ y"
      using JObj.prems(5) plain_object_fields[OF JObj.prems(1)]
        plain_object_fields[of gs] JObj.prems(2) unfolding w by simp
  qed (auto simp: ends_def)
  with w show ?case by simp
qed

lemma json_stringify_inject:
  "plain_json v \<Longrightarrow> plain_json w \<Longrightarrow> json_stringify v = json_stringify w \<longleftrightarrow> v = w"
  using json_stringify_append_inject[of v w "[]" "[]"] by (auto simp: ends_def)

section \<open>Canonical texts\<close>

text \<open>The value whose plain text the canonical text is: keys sorted at every level.\<close>

fun canonical :: "(string \<Rightarrow> string \<Rightarrow> bool) \<Rightarrow> json \<Rightarrow> json" where
  "canonical lc (JArr vs) = JArr (map (canonical lc) vs)"
| "canonical lc (JObj fs) =
     JObj (map (\<lambda>(k, v). (k, canonical lc v)) (sort_by (\<lambda>f g. lc (fst f) (fst g)) fs))"
| "canonical lc v = v"

lemma canonical_defined: "plain_json v \<Longrightarrow> canonical lc v \<noteq> JUndefined"
  by (cases v) auto

lemma map_fst_canonical [simp]:
  "map fst (map (\<lambda>(k, v). (k, canonical lc v)) fs) = map fst fs"
  by (induction fs) auto

lemma canonical_plain: "plain_json v \<Longrightarrow> plain_json (canonical lc v)"
proof (induction lc v rule: canonical.induct)
  case (2 lc fs)
  then show ?case
    by (auto simp: list_all_iff split: prod.splits simp del: map_map)
qed (auto simp: list_all_iff)

lemma canonicalJson_stringify: "plain_json v \<Longrightarrow> canonicalJson lc v = json_stringify (canonical lc v)"
proof (induction lc v rule: canonicalJson.induct)
  case (1 lc vs)
  then show ?case by (auto simp: list_all_iff intro!: arg_cong[of _ _ "join '','' "])
next
  case (2 lc fs)
  let ?s = "sort_by (\<lambda>f g. lc (fst f) (fst g)) fs"
  have eq: "canonicalJson lc (snd f) = json_stringify (canonical lc (snd f))"
    and def: "canonical lc (snd f) \<noteq> JUndefined" if "f \<in> set fs" for f
    using 2 that canonical_defined by (auto simp: list_all_iff)
  have "filter (\<lambda>f. snd f \<noteq> JUndefined) (map (\<lambda>(k, v). (k, canonical lc v)) ?s) =
      map (\<lambda>(k, v). (k, canonical lc v)) ?s"
    using def by (auto simp: filter_id_conv)
  then show ?case
    using eq by (auto simp: o_def intro!: arg_cong[of _ _ "join '','' "])
qed auto

lemma canonicalJson_inject:
  "plain_json v \<Longrightarrow> plain_json w \<Longrightarrow>
     canonicalJson lc v = canonicalJson lc w \<longleftrightarrow> canonical lc v = canonical lc w"
  by (simp add: canonicalJson_stringify json_stringify_inject canonical_plain)

text \<open>Equality of values up to the order of keys: the same properties with the same values.\<close>

inductive same_json :: "json \<Rightarrow> json \<Rightarrow> bool" where
  same_JNull: "same_json JNull JNull"
| same_JBool: "same_json (JBool b) (JBool b)"
| same_JInt: "same_json (JInt i) (JInt i)"
| same_JStr: "same_json (JStr s) (JStr s)"
| same_JArr: "list_all2 same_json vs ws \<Longrightarrow> same_json (JArr vs) (JArr ws)"
| same_JObj: "(\<And>k. rel_option same_json (map_of fs k) (map_of gs k)) \<Longrightarrow> same_json (JObj fs) (JObj gs)"

inductive_simps same_json_simps:
  "same_json JNull w" "same_json (JBool b) w" "same_json (JInt i) w" "same_json (JStr s) w"
  "same_json (JArr vs) w" "same_json (JObj fs) w"

definition linear_on_all :: "(string \<Rightarrow> string \<Rightarrow> bool) \<Rightarrow> bool" where
  "linear_on_all lc \<longleftrightarrow> total_preorder lc \<and> (\<forall>s t. lc s t \<longrightarrow> lc t s \<longrightarrow> s = t)"

lemma map_of_canonical:
  assumes "distinct (map fst fs)"
  shows "map_of (map (\<lambda>(k, v). (k, canonical lc v)) (sort_by le fs)) k =
    map_option (canonical lc) (map_of fs k)"
proof -
  have "map_of (sort_by le fs) = map_of fs"
    by (rule map_of_inject_set[THEN iffD2]) (use assms in simp_all)
  then show ?thesis by (simp add: map_of_map)
qed

lemma sorted_unique:
  assumes "sorted_wrt R xs" "sorted_wrt R ys" "distinct xs" "distinct ys" "set xs = set ys"
    and "\<And>x y. x \<in> set xs \<Longrightarrow> y \<in> set xs \<Longrightarrow> R x y \<Longrightarrow> R y x \<Longrightarrow> x = y"
  shows "xs = ys"
  using assms
proof (induction xs arbitrary: ys)
  case (Cons x xs)
  then obtain y ys' where ys: "ys = y # ys'" by (cases ys) auto
  have "x = y"
  proof (rule ccontr)
    assume "x \<noteq> y"
    with Cons.prems(5) ys have "x \<in> set ys'" "y \<in> set xs" by auto
    with Cons.prems(1,2) ys have "R x y" "R y x" by auto
    with Cons.prems(6)[of x y] \<open>y \<in> set xs\<close> \<open>x \<noteq> y\<close> show False by simp
  qed
  moreover have "xs = ys'"
  proof (rule Cons.IH)
    show "set xs = set ys'" using Cons.prems(3,4,5) ys \<open>x = y\<close> by auto
    show "\<And>u v. u \<in> set xs \<Longrightarrow> v \<in> set xs \<Longrightarrow> R u v \<Longrightarrow> R v u \<Longrightarrow> u = v"
      using Cons.prems(6) by (meson list.set_intros(2))
  qed (use Cons.prems ys in auto)
  ultimately show ?case using ys by simp
qed simp

lemma canonical_object_eq:
  assumes "linear_on_all lc" and "distinct (map fst fs)" and "distinct (map fst gs)"
  shows "canonical lc (JObj fs) = canonical lc (JObj gs) \<longleftrightarrow>
    (\<forall>k. map_option (canonical lc) (map_of fs k) = map_option (canonical lc) (map_of gs k))"
proof -
  let ?le = "\<lambda>f g. lc (fst f) (fst g)"
  let ?F = "map (\<lambda>(k, v). (k, canonical lc v)) (sort_by ?le fs)"
  let ?G = "map (\<lambda>(k, v). (k, canonical lc v)) (sort_by ?le gs)"
  note F = map_of_canonical[OF assms(2), of lc ?le]
  note G = map_of_canonical[OF assms(3), of lc ?le]
  show ?thesis
proof
  assume "canonical lc (JObj fs) = canonical lc (JObj gs)"
  then have "?F = ?G" by (simp only: canonical.simps json.inject)
  then have "map_of ?F k = map_of ?G k" for k by (rule arg_cong)
  then show "\<forall>k. map_option (canonical lc) (map_of fs k) = map_option (canonical lc) (map_of gs k)"
    by (simp only: F G) simp
next
  assume eq: "\<forall>k. map_option (canonical lc) (map_of fs k) = map_option (canonical lc) (map_of gs k)"
  have df: "distinct (map fst ?F)" "distinct (map fst ?G)"
    unfolding map_fst_canonical using assms(2,3) by simp_all
  have tp: "total_preorder ?le" using assms(1) by (auto simp: linear_on_all_def total_preorder_def)
  have "sorted_wrt ?le ?F" "sorted_wrt ?le ?G"
    using sorted_sort_by[OF tp] by (simp_all add: sorted_wrt_map case_prod_beta)
  moreover have "set ?F = set ?G"
    by (intro map_of_inject_set[THEN iffD1, OF df] ext) (simp only: F G eq)
  moreover have "f = g" if "f \<in> set ?F" "g \<in> set ?F" "?le f g" "?le g f" for f g
  proof -
    from that assms(1) have "fst f = fst g" by (simp add: linear_on_all_def)
    with that(1,2) df(1) show ?thesis by (metis eq_key_imp_eq_value prod.collapse)
  qed
  ultimately have "?F = ?G"
    using df by (intro sorted_unique[of ?le ?F ?G]) (simp_all only: distinct_map)
  then show "canonical lc (JObj fs) = canonical lc (JObj gs)" by simp
qed
qed

lemma same_json_canonical:
  assumes lin: "linear_on_all lc"
  shows "plain_json v \<Longrightarrow> plain_json w \<Longrightarrow> same_json v w \<longleftrightarrow> canonical lc v = canonical lc w"
proof (induction v arbitrary: w)
  case (JArr vs)
  show ?case
  proof (cases w)
    case w: (JArr ws)
    have "same_json v u \<longleftrightarrow> canonical lc v = canonical lc u" if "v \<in> set vs" "u \<in> set ws" for v u
      using JArr that w by (auto simp: list_all_iff)
    then have "list_all2 same_json vs ws \<longleftrightarrow> map (canonical lc) vs = map (canonical lc) ws"
      by (auto simp: list_eq_iff_nth_eq list_all2_conv_all_nth)
    with w show ?thesis by (simp add: same_json_simps)
  qed (simp_all add: same_json_simps)
next
  case (JObj fs)
  show ?case
  proof (cases w)
    case w: (JObj gs)
    have dist: "distinct (map fst fs)" "distinct (map fst gs)" using JObj.prems w by simp_all
    have one: "same_json v u \<longleftrightarrow> canonical lc v = canonical lc u"
      if "map_of fs k = Some v" "map_of gs k = Some u" for k v u
    proof -
      from that have "(k, v) \<in> set fs" "(k, u) \<in> set gs" by (auto dest: map_of_SomeD)
      then show ?thesis using JObj w by (fastforce simp: list_all_iff snds.simps)
    qed
    have "rel_option same_json (map_of fs k) (map_of gs k) \<longleftrightarrow>
        map_option (canonical lc) (map_of fs k) = map_option (canonical lc) (map_of gs k)" for k
      using one[of k] by (cases "map_of fs k"; cases "map_of gs k") auto
    with canonical_object_eq[OF lin dist] w show ?thesis
      by (simp only: same_json_simps json.inject) simp
  qed (simp_all add: same_json_simps)
next
  case JNull
  then show ?case by (cases w) (auto simp: same_json_simps)
next
  case (JBool b)
  then show ?case by (cases w) (auto simp: same_json_simps)
next
  case (JInt i)
  then show ?case by (cases w) (auto simp: same_json_simps)
next
  case (JStr s)
  then show ?case by (cases w) (auto simp: same_json_simps)
qed simp_all



end
