(* ===== verification/Spec_Artifact.thy ===== *)
theory Spec_Artifact
  imports State_Machines Json_Text
begin

text \<open>
  \<^verbatim>\<open>domain/spec-artifact.ts\<close>: the data of a specification bundle and its validator, which turns
  a planner's output into a bundle or throws. The lemmas characterise the accepted values.

  The validator compares the text of \<open>kind\<close> and \<open>estimatedCost\<close> with the known names but keeps
  the value itself, so these two fields stay values of unknown type here.
\<close>

section \<open>Data\<close>

record spec_requirement =
  req_id :: string
  req_statement :: string
  acceptanceCriterionRefs :: "string list"

record spec_solution_element =
  element_id :: string
  element_title :: string
  element_kind :: json
  element_description :: string
  element_criterionRefs :: "string list"
  constraintRefs :: "string list"
  estimatedCost :: json
  removalImpact :: string
  element_evidence :: "string list"

record spec_proposal =
  proposal_summary :: string
  proposal_value :: string
  inScope :: "string list"
  outOfScope :: "string list"
  deliverySlices :: "string list"

record spec_prd =
  problem :: string
  users :: "string list"
  requirements :: "spec_requirement list"
  prd_nonGoals :: "string list"
  prd_constraints :: "string list"

record spec_component =
  component_id :: string
  component_name :: string
  responsibility :: string
  component_requirementRefs :: "string list"

record spec_architecture =
  architecture_summary :: string
  components :: "spec_component list"
  decisions :: "string list"

record spec_migration =
  migration_required :: bool
  migration_steps :: "string list"
  migration_verification :: "string list"

record spec_rollback =
  triggers :: "string list"
  rollback_steps :: "string list"
  dataRecovery :: string

text \<open>The bundle's only other field, \<open>schemaVersion\<close>, is a constant of the validated type.\<close>

record spec_bundle =
  proposal :: spec_proposal
  prd :: spec_prd
  architecture :: spec_architecture
  migration :: spec_migration
  rollback :: spec_rollback
  solutionElements :: "spec_solution_element list"

definition specBundleSchemaVersion :: string where
  "specBundleSchemaVersion = ''spec-bundle.v1''"

section \<open>The validator\<close>

definition spec_record :: "json \<Rightarrow> string \<Rightarrow> js_error + (string \<times> json) list" where
  "spec_record v path =
     (case v of
        JObj fs \<Rightarrow> Inr fs
      | _ \<Rightarrow> Inl (SpecBundleValidationError (path @ '' must be an object'')))"

definition exactKeys :: "(string \<times> json) list \<Rightarrow> string list \<Rightarrow> string \<Rightarrow> js_error + unit" where
  "exactKeys fs ks path =
     (if sort (map fst fs) \<noteq> sort ks
      then Inl (SpecBundleValidationError (path @ '' contains missing or unknown fields''))
      else Inr ())"

definition boundedText :: "json \<Rightarrow> string \<Rightarrow> nat \<Rightarrow> js_error + string" where
  "boundedText v path maximum =
     (case v of
        JStr s \<Rightarrow>
          if trim s = [] \<or> length (trim s) > maximum
          then Inl (SpecBundleValidationError (path @ '' must be non-blank and bounded''))
          else Inr (trim s)
      | _ \<Rightarrow> Inl (SpecBundleValidationError (path @ '' must be text'')))"

text \<open>No caller passes the option \<open>maximum\<close>, whose default is 100.\<close>

definition textList :: "json \<Rightarrow> string \<Rightarrow> nat \<Rightarrow> js_error + string list" where
  "textList v path minimum =
     (case v of
        JArr vs \<Rightarrow>
          if length vs < minimum \<or> length vs > 100
          then Inl (SpecBundleValidationError (path @ '' has an invalid item count''))
          else and_then (map_try (\<lambda>i item. boundedText item (index_path path i) 4000) 0 vs)
            (\<lambda>normalized. if has_duplicates normalized
               then Inl (SpecBundleValidationError (path @ '' contains duplicates''))
               else Inr normalized)
      | _ \<Rightarrow> Inl (SpecBundleValidationError (path @ '' must be a list'')))"

definition ensureIds :: "string list \<Rightarrow> string \<Rightarrow> js_error + unit" where
  "ensureIds ids path =
     (if has_duplicates ids
      then Inl (SpecBundleValidationError (path @ '' contains duplicate ids''))
      else Inr ())"

definition spec_list :: "json \<Rightarrow> string \<Rightarrow> js_error + json list" where
  "spec_list v path =
     (case v of
        JArr vs \<Rightarrow> Inr vs
      | _ \<Rightarrow> Inl (SpecBundleValidationError (path @ '' must be a list'')))"

definition requirement_keys :: "string list" where
  "requirement_keys = [''id'', ''statement'', ''acceptanceCriterionRefs'']"

definition parse_requirement :: "nat \<Rightarrow> json \<Rightarrow> js_error + spec_requirement" where
  "parse_requirement index item =
     (let path = index_path ''spec.prd.requirements'' index in
      and_then (spec_record item path) (\<lambda>r.
      and_then (exactKeys r requirement_keys path) (\<lambda>_.
      and_then (boundedText (js_get r ''id'') (path @ ''.id'') 64) (\<lambda>i.
      and_then (boundedText (js_get r ''statement'') (path @ ''.statement'') 4000) (\<lambda>st.
      and_then (textList (js_get r ''acceptanceCriterionRefs'')
                 (path @ ''.acceptanceCriterionRefs'') 1) (\<lambda>refs.
      Inr \<lparr>req_id = i, req_statement = st, acceptanceCriterionRefs = refs\<rparr>))))))"

definition component_keys :: "string list" where
  "component_keys = [''id'', ''name'', ''responsibility'', ''requirementRefs'']"

definition parse_component :: "nat \<Rightarrow> json \<Rightarrow> js_error + spec_component" where
  "parse_component index item =
     (let path = index_path ''spec.architecture.components'' index in
      and_then (spec_record item path) (\<lambda>c.
      and_then (exactKeys c component_keys path) (\<lambda>_.
      and_then (boundedText (js_get c ''id'') (path @ ''.id'') 64) (\<lambda>i.
      and_then (boundedText (js_get c ''name'') (path @ ''.name'') 200) (\<lambda>n.
      and_then (boundedText (js_get c ''responsibility'') (path @ ''.responsibility'') 4000) (\<lambda>r.
      and_then (textList (js_get c ''requirementRefs'') (path @ ''.requirementRefs'') 1) (\<lambda>refs.
      Inr \<lparr>component_id = i, component_name = n, responsibility = r,
           component_requirementRefs = refs\<rparr>)))))))"

definition solutionElementKinds :: "string list" where
  "solutionElementKinds = [''architecture'', ''migration'', ''product'', ''rollback'']"

definition estimatedCosts :: "string list" where
  "estimatedCosts = [''low'', ''medium'', ''high'']"

definition element_keys :: "string list" where
  "element_keys = [''id'', ''title'', ''kind'', ''description'', ''acceptanceCriterionRefs'',
     ''constraintRefs'', ''estimatedCost'', ''removalImpact'', ''evidence'']"

definition parse_element :: "nat \<Rightarrow> json \<Rightarrow> js_error + spec_solution_element" where
  "parse_element index item =
     (let path = index_path ''spec.solutionElements'' index in
      and_then (spec_record item path) (\<lambda>e.
      and_then (exactKeys e element_keys path) (\<lambda>_.
      if js_String (js_get e ''kind'') \<notin> set solutionElementKinds then
        Inl (SpecBundleValidationError (path @ ''.kind is invalid''))
      else if js_String (js_get e ''estimatedCost'') \<notin> set estimatedCosts then
        Inl (SpecBundleValidationError (path @ ''.estimatedCost is invalid''))
      else
      and_then (boundedText (js_get e ''id'') (path @ ''.id'') 64) (\<lambda>i.
      and_then (boundedText (js_get e ''title'') (path @ ''.title'') 300) (\<lambda>t.
      and_then (boundedText (js_get e ''description'') (path @ ''.description'') 4000) (\<lambda>d.
      and_then (textList (js_get e ''acceptanceCriterionRefs'')
                 (path @ ''.acceptanceCriterionRefs'') 0) (\<lambda>crefs.
      and_then (textList (js_get e ''constraintRefs'') (path @ ''.constraintRefs'') 0) (\<lambda>nrefs.
      and_then (boundedText (js_get e ''removalImpact'') (path @ ''.removalImpact'') 4000) (\<lambda>ri.
      and_then (textList (js_get e ''evidence'') (path @ ''.evidence'') 0) (\<lambda>ev.
      Inr \<lparr>element_id = i, element_title = t, element_kind = js_get e ''kind'',
           element_description = d, element_criterionRefs = crefs, constraintRefs = nrefs,
           estimatedCost = js_get e ''estimatedCost'', removalImpact = ri,
           element_evidence = ev\<rparr>))))))))))"

text \<open>\<open>for (const component of components)\<close>: the first one with an unknown requirement.\<close>

fun check_components :: "string list \<Rightarrow> spec_component list \<Rightarrow> js_error + unit" where
  "check_components requirementIds [] = Inr ()"
| "check_components requirementIds (c # cs) =
     (if list_ex (\<lambda>i. i \<notin> set requirementIds) (component_requirementRefs c)
      then Inl (SpecBundleValidationError
        (''component '' @ component_id c @ '' references an unknown requirement''))
      else check_components requirementIds cs)"

definition root_keys :: "string list" where
  "root_keys = [''schemaVersion'', ''proposal'', ''prd'', ''architecture'', ''migration'',
     ''rollback'', ''solutionElements'']"

definition proposal_keys :: "string list" where
  "proposal_keys = [''summary'', ''value'', ''inScope'', ''outOfScope'', ''deliverySlices'']"

definition prd_keys :: "string list" where
  "prd_keys = [''problem'', ''users'', ''requirements'', ''nonGoals'', ''constraints'']"

definition architecture_keys :: "string list" where
  "architecture_keys = [''summary'', ''components'', ''decisions'']"

definition migration_keys :: "string list" where
  "migration_keys = [''required'', ''steps'', ''verification'']"

definition rollback_keys :: "string list" where
  "rollback_keys = [''triggers'', ''steps'', ''dataRecovery'']"

definition parse_proposal :: "(string \<times> json) list \<Rightarrow> js_error + spec_proposal" where
  "parse_proposal p =
     and_then (boundedText (js_get p ''summary'') ''spec.proposal.summary'' 20000) (\<lambda>s.
     and_then (boundedText (js_get p ''value'') ''spec.proposal.value'' 20000) (\<lambda>v.
     and_then (textList (js_get p ''inScope'') ''spec.proposal.inScope'' 1) (\<lambda>ins.
     and_then (textList (js_get p ''outOfScope'') ''spec.proposal.outOfScope'' 0) (\<lambda>outs.
     and_then (textList (js_get p ''deliverySlices'') ''spec.proposal.deliverySlices'' 1) (\<lambda>ds.
     Inr \<lparr>proposal_summary = s, proposal_value = v, inScope = ins, outOfScope = outs,
          deliverySlices = ds\<rparr>)))))"

definition parse_prd ::
  "(string \<times> json) list \<Rightarrow> spec_requirement list \<Rightarrow> js_error + spec_prd" where
  "parse_prd p reqs =
     and_then (boundedText (js_get p ''problem'') ''spec.prd.problem'' 20000) (\<lambda>pr.
     and_then (textList (js_get p ''users'') ''spec.prd.users'' 1) (\<lambda>us.
     and_then (textList (js_get p ''nonGoals'') ''spec.prd.nonGoals'' 0) (\<lambda>ngs.
     and_then (textList (js_get p ''constraints'') ''spec.prd.constraints'' 0) (\<lambda>cs.
     Inr \<lparr>problem = pr, users = us, requirements = reqs, prd_nonGoals = ngs,
          prd_constraints = cs\<rparr>))))"

definition parse_architecture ::
  "(string \<times> json) list \<Rightarrow> spec_component list \<Rightarrow> js_error + spec_architecture" where
  "parse_architecture a comps =
     and_then (boundedText (js_get a ''summary'') ''spec.architecture.summary'' 20000) (\<lambda>s.
     and_then (textList (js_get a ''decisions'') ''spec.architecture.decisions'' 1) (\<lambda>ds.
     Inr \<lparr>architecture_summary = s, components = comps, decisions = ds\<rparr>))"

definition parse_migration :: "(string \<times> json) list \<Rightarrow> bool \<Rightarrow> js_error + spec_migration" where
  "parse_migration m required =
     and_then (textList (js_get m ''steps'') ''spec.migration.steps'' (if required then 1 else 0)) (\<lambda>ss.
     and_then (textList (js_get m ''verification'') ''spec.migration.verification''
                (if required then 1 else 0)) (\<lambda>vs.
     Inr \<lparr>migration_required = required, migration_steps = ss, migration_verification = vs\<rparr>))"

definition parse_rollback :: "(string \<times> json) list \<Rightarrow> js_error + spec_rollback" where
  "parse_rollback r =
     and_then (textList (js_get r ''triggers'') ''spec.rollback.triggers'' 1) (\<lambda>ts.
     and_then (textList (js_get r ''steps'') ''spec.rollback.steps'' 1) (\<lambda>ss.
     and_then (boundedText (js_get r ''dataRecovery'') ''spec.rollback.dataRecovery'' 20000) (\<lambda>d.
     Inr \<lparr>triggers = ts, rollback_steps = ss, dataRecovery = d\<rparr>)))"

definition parse_required :: "json \<Rightarrow> js_error + bool" where
  "parse_required v =
     (case v of
        JBool b \<Rightarrow> Inr b
      | _ \<Rightarrow> Inl (SpecBundleValidationError ''spec.migration.required must be boolean''))"

text \<open>The sections are checked first, in the order of the source, and their texts at the end.\<close>

definition validateSpecBundle :: "json \<Rightarrow> js_error + spec_bundle" where
  "validateSpecBundle v =
     and_then (spec_record v ''spec'') (\<lambda>root.
     and_then (exactKeys root root_keys ''spec'') (\<lambda>_.
     if js_get root ''schemaVersion'' \<noteq> JStr specBundleSchemaVersion then
       Inl (SpecBundleValidationError ''spec.schemaVersion is unsupported'')
     else
     and_then (spec_record (js_get root ''proposal'') ''spec.proposal'') (\<lambda>p.
     and_then (exactKeys p proposal_keys ''spec.proposal'') (\<lambda>_.
     and_then (spec_record (js_get root ''prd'') ''spec.prd'') (\<lambda>d.
     and_then (exactKeys d prd_keys ''spec.prd'') (\<lambda>_.
     and_then (spec_list (js_get d ''requirements'') ''spec.prd.requirements'') (\<lambda>ritems.
     and_then (map_try parse_requirement 0 ritems) (\<lambda>reqs.
     and_then (ensureIds (map req_id reqs) ''spec.prd.requirements'') (\<lambda>_.
     and_then (spec_record (js_get root ''architecture'') ''spec.architecture'') (\<lambda>a.
     and_then (exactKeys a architecture_keys ''spec.architecture'') (\<lambda>_.
     and_then (spec_list (js_get a ''components'') ''spec.architecture.components'') (\<lambda>citems.
     and_then (map_try parse_component 0 citems) (\<lambda>comps.
     and_then (ensureIds (map component_id comps) ''spec.architecture.components'') (\<lambda>_.
     and_then (spec_record (js_get root ''migration'') ''spec.migration'') (\<lambda>m.
     and_then (exactKeys m migration_keys ''spec.migration'') (\<lambda>_.
     and_then (parse_required (js_get m ''required'')) (\<lambda>required.
     and_then (spec_record (js_get root ''rollback'') ''spec.rollback'') (\<lambda>r.
     and_then (exactKeys r rollback_keys ''spec.rollback'') (\<lambda>_.
     and_then (spec_list (js_get root ''solutionElements'') ''spec.solutionElements'') (\<lambda>eitems.
     and_then (map_try parse_element 0 eitems) (\<lambda>elems.
     and_then (ensureIds (map element_id elems) ''spec.solutionElements'') (\<lambda>_.
     and_then (check_components (map req_id reqs) comps) (\<lambda>_.
     and_then (parse_proposal p) (\<lambda>pp.
     and_then (parse_prd d reqs) (\<lambda>dd.
     and_then (parse_architecture a comps) (\<lambda>aa.
     and_then (parse_migration m required) (\<lambda>mm.
     and_then (parse_rollback r) (\<lambda>rr.
     Inr \<lparr>proposal = pp, prd = dd, architecture = aa, migration = mm, rollback = rr,
          solutionElements = elems\<rparr>))))))))))))))))))))))))))))"

section \<open>Normal forms\<close>

definition clean_list :: "nat \<Rightarrow> string list \<Rightarrow> bool" where
  "clean_list minimum ss \<longleftrightarrow> minimum \<le> length ss \<and> clean_texts 100 4000 ss"

definition clean_requirement :: "spec_requirement \<Rightarrow> bool" where
  "clean_requirement r \<longleftrightarrow>
     clean_text 64 (req_id r) \<and> clean_text 4000 (req_statement r) \<and>
     clean_list 1 (acceptanceCriterionRefs r)"

definition clean_component :: "spec_component \<Rightarrow> bool" where
  "clean_component c \<longleftrightarrow>
     clean_text 64 (component_id c) \<and> clean_text 200 (component_name c) \<and>
     clean_text 4000 (responsibility c) \<and> clean_list 1 (component_requirementRefs c)"

definition clean_element :: "spec_solution_element \<Rightarrow> bool" where
  "clean_element e \<longleftrightarrow>
     js_String (element_kind e) \<in> set solutionElementKinds \<and>
     js_String (estimatedCost e) \<in> set estimatedCosts \<and>
     clean_text 64 (element_id e) \<and> clean_text 300 (element_title e) \<and>
     clean_text 4000 (element_description e) \<and> clean_list 0 (element_criterionRefs e) \<and>
     clean_list 0 (constraintRefs e) \<and> clean_text 4000 (removalImpact e) \<and>
     clean_list 0 (element_evidence e)"

definition clean_bundle :: "spec_bundle \<Rightarrow> bool" where
  "clean_bundle b \<longleftrightarrow>
     clean_text 20000 (proposal_summary (proposal b)) \<and> clean_text 20000 (proposal_value (proposal b)) \<and>
     clean_list 1 (inScope (proposal b)) \<and> clean_list 0 (outOfScope (proposal b)) \<and>
     clean_list 1 (deliverySlices (proposal b)) \<and>
     clean_text 20000 (problem (prd b)) \<and> clean_list 1 (users (prd b)) \<and>
     list_all clean_requirement (requirements (prd b)) \<and>
     distinct (map req_id (requirements (prd b))) \<and>
     clean_list 0 (prd_nonGoals (prd b)) \<and> clean_list 0 (prd_constraints (prd b)) \<and>
     clean_text 20000 (architecture_summary (architecture b)) \<and>
     list_all clean_component (components (architecture b)) \<and>
     distinct (map component_id (components (architecture b))) \<and>
     clean_list 1 (decisions (architecture b)) \<and>
     (\<forall>c\<in>set (components (architecture b)). set (component_requirementRefs c) \<subseteq>
        req_id ` set (requirements (prd b))) \<and>
     clean_list (if migration_required (migration b) then 1 else 0) (migration_steps (migration b)) \<and>
     clean_list (if migration_required (migration b) then 1 else 0)
       (migration_verification (migration b)) \<and>
     clean_list 1 (triggers (rollback b)) \<and> clean_list 1 (rollback_steps (rollback b)) \<and>
     clean_text 20000 (dataRecovery (rollback b)) \<and>
     list_all clean_element (solutionElements b) \<and>
     distinct (map element_id (solutionElements b))"

text \<open>The value a bundle is, its fields in the order of the interface.\<close>

definition requirement_json :: "spec_requirement \<Rightarrow> json" where
  "requirement_json r = JObj [(''id'', JStr (req_id r)), (''statement'', JStr (req_statement r)),
     (''acceptanceCriterionRefs'', texts_json (acceptanceCriterionRefs r))]"

definition component_json :: "spec_component \<Rightarrow> json" where
  "component_json c = JObj [(''id'', JStr (component_id c)), (''name'', JStr (component_name c)),
     (''responsibility'', JStr (responsibility c)),
     (''requirementRefs'', texts_json (component_requirementRefs c))]"

definition element_json :: "spec_solution_element \<Rightarrow> json" where
  "element_json e = JObj [(''id'', JStr (element_id e)), (''title'', JStr (element_title e)),
     (''kind'', element_kind e), (''description'', JStr (element_description e)),
     (''acceptanceCriterionRefs'', texts_json (element_criterionRefs e)),
     (''constraintRefs'', texts_json (constraintRefs e)), (''estimatedCost'', estimatedCost e),
     (''removalImpact'', JStr (removalImpact e)), (''evidence'', texts_json (element_evidence e))]"

definition proposal_json :: "spec_proposal \<Rightarrow> json" where
  "proposal_json p = JObj [(''summary'', JStr (proposal_summary p)),
     (''value'', JStr (proposal_value p)), (''inScope'', texts_json (inScope p)),
     (''outOfScope'', texts_json (outOfScope p)), (''deliverySlices'', texts_json (deliverySlices p))]"

definition prd_json :: "spec_prd \<Rightarrow> json" where
  "prd_json p = JObj [(''problem'', JStr (problem p)), (''users'', texts_json (users p)),
     (''requirements'', JArr (map requirement_json (requirements p))),
     (''nonGoals'', texts_json (prd_nonGoals p)), (''constraints'', texts_json (prd_constraints p))]"

definition architecture_json :: "spec_architecture \<Rightarrow> json" where
  "architecture_json a = JObj [(''summary'', JStr (architecture_summary a)),
     (''components'', JArr (map component_json (components a))),
     (''decisions'', texts_json (decisions a))]"

definition migration_json :: "spec_migration \<Rightarrow> json" where
  "migration_json m = JObj [(''required'', JBool (migration_required m)),
     (''steps'', texts_json (migration_steps m)),
     (''verification'', texts_json (migration_verification m))]"

definition rollback_json :: "spec_rollback \<Rightarrow> json" where
  "rollback_json r = JObj [(''triggers'', texts_json (triggers r)),
     (''steps'', texts_json (rollback_steps r)), (''dataRecovery'', JStr (dataRecovery r))]"

definition bundle_json :: "spec_bundle \<Rightarrow> json" where
  "bundle_json b = JObj [(''schemaVersion'', JStr specBundleSchemaVersion),
     (''proposal'', proposal_json (proposal b)), (''prd'', prd_json (prd b)),
     (''architecture'', architecture_json (architecture b)),
     (''migration'', migration_json (migration b)), (''rollback'', rollback_json (rollback b)),
     (''solutionElements'', JArr (map element_json (solutionElements b)))]"

section \<open>The accepted values\<close>

named_theorems spec_parse \<comment> \<open>successful steps of the validator\<close>

lemma spec_record_Inr [spec_parse]: "spec_record v path = Inr fs \<longleftrightarrow> v = JObj fs"
  by (cases v) (auto simp: spec_record_def)

lemma spec_list_Inr [spec_parse]: "spec_list v path = Inr vs \<longleftrightarrow> v = JArr vs"
  by (cases v) (auto simp: spec_list_def)

lemma exactKeys_Inr [spec_parse]: "exactKeys fs ks path = Inr u \<longleftrightarrow> mset (map fst fs) = mset ks"
  by (simp add: exactKeys_def sort_eq_iff_mset)

lemma boundedText_Inr:
  "boundedText v path maximum = Inr t \<longleftrightarrow> (\<exists>s. v = JStr s \<and> t = trim s \<and> clean_text maximum t)"
  by (auto simp: boundedText_def clean_text_def split: json.splits if_splits)

lemma boundedText_clean: "boundedText v path maximum = Inr t \<Longrightarrow> clean_text maximum t"
  by (auto simp: boundedText_Inr)

lemma boundedText_encode [simp]: "clean_text maximum s \<Longrightarrow> boundedText (JStr s) path maximum = Inr s"
  by (auto simp: boundedText_Inr clean_text_def)

lemma textList_clean:
  assumes "textList v path minimum = Inr ss"
  shows "clean_list minimum ss"
proof -
  from assms obtain vs where len: "minimum \<le> length vs" "length vs \<le> 100"
    and m: "map_try (\<lambda>i item. boundedText item (index_path path i) 4000) 0 vs = Inr ss"
    and d: "distinct ss"
    by (auto simp: textList_def result_simps not_less)
  have "\<forall>s\<in>set ss. clean_text 4000 s"
    by (rule map_try_all[OF m]) (rule boundedText_clean)
  with len d map_try_length[OF m] show ?thesis
    by (auto simp: clean_list_def clean_texts_def list_all_iff)
qed

lemma textList_encode [simp]:
  assumes "clean_list minimum ss"
  shows "textList (texts_json ss) path minimum = Inr ss"
proof -
  have "map_try (\<lambda>i item. boundedText item (index_path path i) 4000) 0 (map JStr ss) = Inr ss"
    using assms by (intro map_try_encode) (auto simp: clean_list_def clean_texts_def list_all_iff)
  with assms show ?thesis
    by (simp add: textList_def texts_json_def clean_list_def clean_texts_def)
qed

lemma ensureIds_Inr [spec_parse]: "ensureIds ids path = Inr u \<longleftrightarrow> distinct ids"
  by (simp add: ensureIds_def)

lemma check_components_Inr [spec_parse]:
  "check_components ids cs = Inr u \<longleftrightarrow> (\<forall>c\<in>set cs. set (component_requirementRefs c) \<subseteq> set ids)"
  by (induction cs) (auto simp: list_ex_iff)

lemma parse_required_Inr [spec_parse]: "parse_required v = Inr b \<longleftrightarrow> v = JBool b"
  by (cases v) (auto simp: parse_required_def)

text \<open>Each section's parser returns clean data.\<close>

lemma parse_requirement_clean: "parse_requirement i v = Inr r \<Longrightarrow> clean_requirement r"
  by (auto simp: parse_requirement_def Let_def result_simps clean_requirement_def
      dest: boundedText_clean textList_clean)

lemma parse_component_clean: "parse_component i v = Inr c \<Longrightarrow> clean_component c"
  by (auto simp: parse_component_def Let_def result_simps clean_component_def
      dest: boundedText_clean textList_clean)

lemma parse_element_clean: "parse_element i v = Inr e \<Longrightarrow> clean_element e"
  by (auto simp: parse_element_def Let_def result_simps clean_element_def
      dest: boundedText_clean textList_clean)

lemma parse_sections_clean:
  "parse_proposal p = Inr pp \<Longrightarrow>
     clean_text 20000 (proposal_summary pp) \<and> clean_text 20000 (proposal_value pp) \<and>
     clean_list 1 (inScope pp) \<and> clean_list 0 (outOfScope pp) \<and> clean_list 1 (deliverySlices pp)"
  "parse_prd d reqs = Inr dd \<Longrightarrow>
     clean_text 20000 (problem dd) \<and> clean_list 1 (users dd) \<and> requirements dd = reqs \<and>
     clean_list 0 (prd_nonGoals dd) \<and> clean_list 0 (prd_constraints dd)"
  "parse_architecture a comps = Inr aa \<Longrightarrow>
     clean_text 20000 (architecture_summary aa) \<and> components aa = comps \<and> clean_list 1 (decisions aa)"
  "parse_migration m req = Inr mm \<Longrightarrow>
     migration_required mm = req \<and> clean_list (if req then 1 else 0) (migration_steps mm) \<and>
     clean_list (if req then 1 else 0) (migration_verification mm)"
  "parse_rollback r = Inr rr \<Longrightarrow>
     clean_list 1 (triggers rr) \<and> clean_list 1 (rollback_steps rr) \<and> clean_text 20000 (dataRecovery rr)"
  by (auto simp: parse_proposal_def parse_prd_def parse_architecture_def parse_migration_def
      parse_rollback_def result_simps simp del: One_nat_def dest: boundedText_clean textList_clean)

lemma validated_bundle_clean:
  assumes "validateSpecBundle v = Inr b"
  shows "clean_bundle b"
proof -
  from assms obtain p d a m r required reqs comps elems ritems citems eitems pp dd aa mm rr where
    lists: "map_try parse_requirement 0 ritems = Inr reqs" "map_try parse_component 0 citems = Inr comps"
      "map_try parse_element 0 eitems = Inr elems"
    and ids: "distinct (map req_id reqs)" "distinct (map component_id comps)" "distinct (map element_id elems)"
    and refs: "\<forall>c\<in>set comps. set (component_requirementRefs c) \<subseteq> set (map req_id reqs)"
    and sections: "parse_proposal p = Inr pp" "parse_prd d reqs = Inr dd"
      "parse_architecture a comps = Inr aa" "parse_migration m required = Inr mm" "parse_rollback r = Inr rr"
    and b: "b = \<lparr>proposal = pp, prd = dd, architecture = aa, migration = mm, rollback = rr,
      solutionElements = elems\<rparr>"
    unfolding validateSpecBundle_def and_then_eq_Inr if_Inl_eq_Inr spec_parse by blast
  have "\<forall>x\<in>set reqs. clean_requirement x"
    by (rule map_try_all[OF lists(1)]) (rule parse_requirement_clean)
  moreover have "\<forall>x\<in>set comps. clean_component x"
    by (rule map_try_all[OF lists(2)]) (rule parse_component_clean)
  moreover have "\<forall>x\<in>set elems. clean_element x"
    by (rule map_try_all[OF lists(3)]) (rule parse_element_clean)
  ultimately show ?thesis
    using ids refs sections(1)[THEN parse_sections_clean(1)] sections(2)[THEN parse_sections_clean(2)]
    sections(3)[THEN parse_sections_clean(3)] sections(4)[THEN parse_sections_clean(4)]
    sections(5)[THEN parse_sections_clean(5)]
    by (simp add: clean_bundle_def b list_all_iff)
qed

text \<open>A clean bundle, written as a value, is accepted unchanged.\<close>

lemma parse_requirement_encode: "clean_requirement r \<Longrightarrow> parse_requirement i (requirement_json r) = Inr r"
  by (simp add: clean_requirement_def requirement_json_def parse_requirement_def Let_def
      spec_record_def exactKeys_def requirement_keys_def)

lemma parse_component_encode: "clean_component c \<Longrightarrow> parse_component i (component_json c) = Inr c"
  by (simp add: clean_component_def component_json_def parse_component_def Let_def
      spec_record_def exactKeys_def component_keys_def)

lemma parse_element_encode: "clean_element e \<Longrightarrow> parse_element i (element_json e) = Inr e"
  by (simp add: clean_element_def element_json_def parse_element_def Let_def
      spec_record_def exactKeys_def element_keys_def)

lemma clean_bundle_accepted:
  assumes "clean_bundle b"
  shows "validateSpecBundle (bundle_json b) = Inr b"
proof -
  have r: "map_try parse_requirement 0 (map requirement_json (requirements (prd b))) =
      Inr (requirements (prd b))"
    using assms by (intro map_try_encode parse_requirement_encode) (simp add: clean_bundle_def list_all_iff)
  have c: "map_try parse_component 0 (map component_json (components (architecture b))) =
      Inr (components (architecture b))"
    using assms by (intro map_try_encode parse_component_encode) (simp add: clean_bundle_def list_all_iff)
  have e: "map_try parse_element 0 (map element_json (solutionElements b)) = Inr (solutionElements b)"
    using assms by (intro map_try_encode parse_element_encode) (simp add: clean_bundle_def list_all_iff)
  have refs: "check_components (map req_id (requirements (prd b))) (components (architecture b)) = Inr ()"
    using assms by (auto simp: check_components_Inr clean_bundle_def)
  from assms r c e refs show ?thesis
    by (simp add: validateSpecBundle_def clean_bundle_def bundle_json_def spec_record_def exactKeys_def
        root_keys_def proposal_json_def proposal_keys_def prd_json_def prd_keys_def
        architecture_json_def architecture_keys_def migration_json_def migration_keys_def
        rollback_json_def rollback_keys_def parse_proposal_def parse_prd_def parse_architecture_def
        parse_migration_def parse_rollback_def spec_list_def parse_required_def ensureIds_def)
qed

text \<open>
  Property C40. The validator returns exactly the bundles in normal form: texts trimmed, non-blank
  and bounded, lists of distinct texts of the required sizes, distinct ids, components that
  refer to requirements of the bundle only, and migration steps and checks where a migration is
  required. It accepts every such bundle, written as a value, and returns it unchanged.
\<close>

theorem validated_bundles_are_normal_forms:
  "((\<exists>v. validateSpecBundle v = Inr b) \<longleftrightarrow> clean_bundle b) \<and>
   (clean_bundle b \<longleftrightarrow> validateSpecBundle (bundle_json b) = Inr b)"
  using validated_bundle_clean clean_bundle_accepted by blast

section \<open>Kinds that are not texts\<close>

text \<open>\<open>String([x])\<close> is \<open>String(x)\<close>, so the check on kinds and costs does not see an array.\<close>

definition boxed :: "spec_solution_element \<Rightarrow> spec_solution_element" where
  "boxed e = e\<lparr>element_kind := JArr [element_kind e], estimatedCost := JArr [estimatedCost e]\<rparr>"

lemma boxed_clean: "clean_element e \<Longrightarrow> clean_element (boxed e)"
  by (auto simp: clean_element_def boxed_def solutionElementKinds_def estimatedCosts_def
      split: json.splits)

lemma boxed_bundle_clean:
  assumes "clean_bundle b"
  shows "clean_bundle (b\<lparr>solutionElements := map boxed (solutionElements b)\<rparr>)"
proof -
  have "map element_id (map boxed (solutionElements b)) = map element_id (solutionElements b)"
    by (simp add: boxed_def)
  with assms boxed_clean show ?thesis
    by (auto simp: clean_bundle_def list_all_iff o_def boxed_def simp del: One_nat_def)
qed

text \<open>
  Kinds and costs need not be texts: take any accepted bundle and put every kind
  and cost into an array of one element. The validator accepts it too and returns the arrays in
  place of the texts, and so do arrays of arrays.
\<close>

theorem array_kinds_are_accepted:
  assumes "validateSpecBundle v = Inr b"
  shows "validateSpecBundle
      (bundle_json (b\<lparr>solutionElements := map (boxed ^^ n) (solutionElements b)\<rparr>)) =
    Inr (b\<lparr>solutionElements := map (boxed ^^ n) (solutionElements b)\<rparr>)"
proof -
  have "clean_bundle (b\<lparr>solutionElements := map (boxed ^^ n) (solutionElements b)\<rparr>)"
  proof (induction n)
    case 0
    show ?case using validated_bundle_clean[OF assms] by (simp add: funpow_0[abs_def] id_def[symmetric])
  next
    case (Suc n)
    from boxed_bundle_clean[OF this] show ?case by (simp add: o_def)
  qed
  then show ?thesis by (rule clean_bundle_accepted)
qed

definition sample_element :: spec_solution_element where
  "sample_element = \<lparr>element_id = ''E1'', element_title = ''Store'', element_kind = JStr ''migration'',
     element_description = ''Move the table'', element_criterionRefs = [''A1''], constraintRefs = [],
     estimatedCost = JStr ''low'', removalImpact = ''No store'', element_evidence = []\<rparr>"

definition sample_bundle :: spec_bundle where
  "sample_bundle = \<lparr>
     proposal = \<lparr>proposal_summary = ''Sum'', proposal_value = ''Val'', inScope = [''i''],
       outOfScope = [], deliverySlices = [''s'']\<rparr>,
     prd = \<lparr>problem = ''P'', users = [''u''], requirements = [\<lparr>req_id = ''R1'',
       req_statement = ''Must'', acceptanceCriterionRefs = [''A1'']\<rparr>], prd_nonGoals = [],
       prd_constraints = []\<rparr>,
     architecture = \<lparr>architecture_summary = ''A'', components = [\<lparr>component_id = ''C1'',
       component_name = ''Core'', responsibility = ''All'', component_requirementRefs = [''R1'']\<rparr>],
       decisions = [''d'']\<rparr>,
     migration = \<lparr>migration_required = False, migration_steps = [], migration_verification = []\<rparr>,
     rollback = \<lparr>triggers = [''t''], rollback_steps = [''r''], dataRecovery = ''none''\<rparr>,
     solutionElements = [sample_element]\<rparr>"

lemma sample_bundle_clean: "clean_bundle sample_bundle"
  by (simp add: clean_bundle_def sample_bundle_def sample_element_def clean_list_def
      clean_texts_def clean_text_def clean_requirement_def clean_component_def clean_element_def
      solutionElementKinds_def estimatedCosts_def trim_def is_space_def)

theorem array_kinds_are_accepted_witness:
  "validateSpecBundle (bundle_json (sample_bundle\<lparr>solutionElements := [boxed sample_element]\<rparr>)) =
     Inr (sample_bundle\<lparr>solutionElements := [boxed sample_element]\<rparr>)"
  using array_kinds_are_accepted[OF clean_bundle_accepted[OF sample_bundle_clean], of 1]
  by (simp add: sample_bundle_def)

end
