(* ===== verification/Spec_Diff.thy ===== *)
theory Spec_Diff
  imports Spec_Artifact
begin

text \<open>
  \<^verbatim>\<open>domain/spec-revision-diff.ts\<close>: the field-level difference of two specification bundles. The
  lemmas show what the difference sees: everything but the order of lists of texts and of the
  requirements.
\<close>

section \<open>Data\<close>

datatype spec_diff_section =
  Proposal_section | Prd_section | Architecture_section | Migration_section | Rollback_section
  | Elements_section

datatype spec_diff_kind = Added | Removed | Changed

record spec_field_change =
  change_section :: spec_diff_section
  change_path :: string
  change_kind :: spec_diff_kind
  change_before :: "string option"
  change_after :: "string option"

record spec_revision_diff =
  changes :: "spec_field_change list"
  added_count :: nat
  removed_count :: nat
  changed_count :: nat

section \<open>The difference\<close>

definition printable :: "json \<Rightarrow> string" where
  "printable v = (case v of JStr s \<Rightarrow> s | _ \<Rightarrow> json_stringify v)"

definition compareValue ::
  "spec_diff_section \<Rightarrow> string \<Rightarrow> json \<Rightarrow> json \<Rightarrow> spec_field_change list" where
  "compareValue sec path before after =
     (let left = printable before; right = printable after in
      if left = right then []
      else [\<lparr>change_section = sec, change_path = path, change_kind = Changed,
             change_before = Some left, change_after = Some right\<rparr>])"

definition removed_change :: "spec_diff_section \<Rightarrow> string \<Rightarrow> string \<Rightarrow> spec_field_change" where
  "removed_change sec path v = \<lparr>change_section = sec, change_path = path, change_kind = Removed,
     change_before = Some v, change_after = None\<rparr>"

definition added_change :: "spec_diff_section \<Rightarrow> string \<Rightarrow> string \<Rightarrow> spec_field_change" where
  "added_change sec path v = \<lparr>change_section = sec, change_path = path, change_kind = Added,
     change_before = None, change_after = Some v\<rparr>"

definition compareList ::
  "spec_diff_section \<Rightarrow> string \<Rightarrow> string list \<Rightarrow> string list \<Rightarrow> spec_field_change list" where
  "compareList sec path before after =
     map (removed_change sec path) (filter (\<lambda>v. v \<notin> set after) before) @
     map (added_change sec path) (filter (\<lambda>v. v \<notin> set before) after)"

definition by_id :: "spec_requirement list \<Rightarrow> (string \<times> spec_requirement) list" where
  "by_id rs = js_map (map (\<lambda>r. (req_id r, r)) rs)"

definition requirement_path :: "spec_requirement \<Rightarrow> string" where
  "requirement_path r = ''prd.requirements.'' @ req_id r"

definition compare_requirement ::
  "(string \<times> spec_requirement) list \<Rightarrow> spec_requirement \<Rightarrow> spec_field_change list" where
  "compare_requirement afterRequirements r =
     (case map_of afterRequirements (req_id r) of
        None \<Rightarrow> [removed_change Prd_section (requirement_path r) (printable (requirement_json r))]
      | Some current \<Rightarrow>
          compareValue Prd_section (requirement_path r @ ''.statement'')
            (JStr (req_statement r)) (JStr (req_statement current)) @
          compareList Prd_section (requirement_path r @ ''.acceptanceCriterionRefs'')
            (acceptanceCriterionRefs r) (acceptanceCriterionRefs current))"

definition added_requirements ::
  "(string \<times> spec_requirement) list \<Rightarrow> spec_requirement list \<Rightarrow> spec_field_change list" where
  "added_requirements beforeRequirements after =
     map (\<lambda>r. added_change Prd_section (requirement_path r) (printable (requirement_json r)))
       (filter (\<lambda>r. map_of beforeRequirements (req_id r) = None) after)"

definition spec_changes :: "spec_bundle \<Rightarrow> spec_bundle \<Rightarrow> spec_field_change list" where
  "spec_changes before after =
     (let p = proposal before; q = proposal after; d = prd before; e = prd after in
      compareValue Proposal_section ''proposal.summary''
        (JStr (proposal_summary p)) (JStr (proposal_summary q)) @
      compareValue Proposal_section ''proposal.value''
        (JStr (proposal_value p)) (JStr (proposal_value q)) @
      compareList Proposal_section ''proposal.inScope'' (inScope p) (inScope q) @
      compareList Proposal_section ''proposal.outOfScope'' (outOfScope p) (outOfScope q) @
      compareList Proposal_section ''proposal.deliverySlices'' (deliverySlices p) (deliverySlices q) @
      compareValue Prd_section ''prd.problem'' (JStr (problem d)) (JStr (problem e)) @
      compareList Prd_section ''prd.users'' (users d) (users e) @
      compareList Prd_section ''prd.nonGoals'' (prd_nonGoals d) (prd_nonGoals e) @
      compareList Prd_section ''prd.constraints'' (prd_constraints d) (prd_constraints e) @
      concat (map (compare_requirement (by_id (requirements e))) (requirements d)) @
      added_requirements (by_id (requirements d)) (requirements e) @
      compareValue Architecture_section ''architecture.summary''
        (JStr (architecture_summary (architecture before)))
        (JStr (architecture_summary (architecture after))) @
      compareValue Architecture_section ''architecture.components''
        (JArr (map component_json (components (architecture before))))
        (JArr (map component_json (components (architecture after)))) @
      compareList Architecture_section ''architecture.decisions''
        (decisions (architecture before)) (decisions (architecture after)) @
      compareValue Migration_section ''migration''
        (migration_json (migration before)) (migration_json (migration after)) @
      compareValue Rollback_section ''rollback''
        (rollback_json (rollback before)) (rollback_json (rollback after)) @
      compareValue Elements_section ''solutionElements''
        (JArr (map element_json (solutionElements before)))
        (JArr (map element_json (solutionElements after))))"

definition diffSpecBundles :: "spec_bundle \<Rightarrow> spec_bundle \<Rightarrow> spec_revision_diff" where
  "diffSpecBundles before after =
     (let cs = spec_changes before after in \<lparr>
        changes = cs,
        added_count = length (filter (\<lambda>c. change_kind c = Added) cs),
        removed_count = length (filter (\<lambda>c. change_kind c = Removed) cs),
        changed_count = length (filter (\<lambda>c. change_kind c = Changed) cs)\<rparr>)"

section \<open>What the difference sees\<close>

text \<open>Elements whose kind and cost are plain values, texts in particular.\<close>

definition plain_elements :: "spec_bundle \<Rightarrow> bool" where
  "plain_elements b \<longleftrightarrow>
     (\<forall>e\<in>set (solutionElements b). plain_json (element_kind e) \<and> plain_json (estimatedCost e))"

lemma texts_json_inject [simp]: "texts_json a = texts_json b \<longleftrightarrow> a = b"
  by (auto simp: texts_json_def inj_map_eq_map inj_def)

lemma plain_texts_json [simp]: "plain_json (texts_json ss)"
  by (simp add: texts_json_def list_all_iff)

lemma component_json_inject: "component_json a = component_json b \<longleftrightarrow> a = b"
  by (cases a; cases b) (auto simp: component_json_def)

lemma element_json_inject: "element_json a = element_json b \<longleftrightarrow> a = b"
  by (cases a; cases b) (auto simp: element_json_def)

lemma migration_json_inject: "migration_json a = migration_json b \<longleftrightarrow> a = b"
  by (cases a; cases b) (auto simp: migration_json_def)

lemma rollback_json_inject: "rollback_json a = rollback_json b \<longleftrightarrow> a = b"
  by (cases a; cases b) (auto simp: rollback_json_def)

lemma compareValue_Nil_str [simp]: "compareValue sec path (JStr a) (JStr b) = [] \<longleftrightarrow> a = b"
  by (simp add: compareValue_def printable_def)

lemma compareValue_Nil_arr:
  "plain_json (JArr a) \<Longrightarrow> plain_json (JArr b) \<Longrightarrow>
     compareValue sec path (JArr a) (JArr b) = [] \<longleftrightarrow> a = b"
  using json_stringify_inject[of "JArr a" "JArr b"]
  by (simp add: compareValue_def printable_def del: json_stringify.simps)

lemma compareValue_Nil_obj:
  "plain_json (JObj a) \<Longrightarrow> plain_json (JObj b) \<Longrightarrow>
     compareValue sec path (JObj a) (JObj b) = [] \<longleftrightarrow> a = b"
  using json_stringify_inject[of "JObj a" "JObj b"]
  by (simp add: compareValue_def printable_def del: json_stringify.simps)

lemma compareList_Nil [simp]: "compareList sec path a b = [] \<longleftrightarrow> set a = set b"
  by (auto simp: compareList_def filter_empty_conv)

lemma components_Nil:
  "compareValue sec path (JArr (map component_json a)) (JArr (map component_json b)) = [] \<longleftrightarrow> a = b"
proof -
  have "plain_json (JArr (map component_json a))" for a
    by (simp add: list_all_iff component_json_def)
  then show ?thesis
    by (simp add: compareValue_Nil_arr inj_map_eq_map inj_def component_json_inject)
qed

lemma elements_Nil:
  assumes "plain_elements x" "plain_elements y"
  shows "compareValue sec path (JArr (map element_json (solutionElements x)))
      (JArr (map element_json (solutionElements y))) = [] \<longleftrightarrow> solutionElements x = solutionElements y"
proof -
  have "plain_json (JArr (map element_json (solutionElements b)))" if "plain_elements b" for b
    using that by (simp add: list_all_iff element_json_def plain_elements_def)
  with assms show ?thesis
    by (simp add: compareValue_Nil_arr inj_map_eq_map inj_def element_json_inject)
qed

lemma migration_Nil: "compareValue sec path (migration_json a) (migration_json b) = [] \<longleftrightarrow> a = b"
  using migration_json_inject[of a b]
  by (simp add: migration_json_def compareValue_Nil_obj)

lemma rollback_Nil: "compareValue sec path (rollback_json a) (rollback_json b) = [] \<longleftrightarrow> a = b"
  using rollback_json_inject[of a b]
  by (simp add: rollback_json_def compareValue_Nil_obj)

definition same_requirement :: "spec_requirement \<Rightarrow> spec_requirement \<Rightarrow> bool" where
  "same_requirement r s \<longleftrightarrow> req_statement r = req_statement s \<and>
     set (acceptanceCriterionRefs r) = set (acceptanceCriterionRefs s)"

definition with_id :: "spec_requirement list \<Rightarrow> string \<Rightarrow> spec_requirement option" where
  "with_id rs i = find (\<lambda>r. req_id r = i) rs"

lemma map_of_by_id:
  "distinct (map req_id rs) \<Longrightarrow> map_of (by_id rs) i = with_id rs i"
proof -
  assume "distinct (map req_id rs)"
  then have "by_id rs = map (\<lambda>r. (req_id r, r)) rs" by (simp add: by_id_def o_def)
  moreover have "map_of (map (\<lambda>r. (req_id r, r)) rs) i = with_id rs i"
    by (induction rs) (auto simp: with_id_def)
  ultimately show ?thesis by simp
qed

lemma with_id_member: "distinct (map req_id rs) \<Longrightarrow> with_id rs i = Some r \<longleftrightarrow> r \<in> set rs \<and> req_id r = i"
  by (induction rs) (auto simp: with_id_def)

lemma with_id_None: "with_id rs i = None \<longleftrightarrow> i \<notin> req_id ` set rs"
  by (auto simp: with_id_def find_None_iff)

lemma compare_requirement_Nil:
  "compare_requirement m r = [] \<longleftrightarrow> (\<exists>s. map_of m (req_id r) = Some s \<and> same_requirement r s)"
  by (auto simp: compare_requirement_def same_requirement_def split: option.splits)

lemma requirements_Nil:
  assumes a: "distinct (map req_id a)" and b: "distinct (map req_id b)"
  shows "concat (map (compare_requirement (by_id b)) a) = [] \<and> added_requirements (by_id a) b = [] \<longleftrightarrow>
    (\<forall>i. rel_option same_requirement (with_id a i) (with_id b i))"
proof -
  have "concat (map (compare_requirement (by_id b)) a) = [] \<longleftrightarrow>
      (\<forall>r\<in>set a. \<exists>s. with_id b (req_id r) = Some s \<and> same_requirement r s)"
    by (simp add: compare_requirement_Nil map_of_by_id[OF b])
  moreover have "added_requirements (by_id a) b = [] \<longleftrightarrow> (\<forall>s\<in>set b. with_id a (req_id s) \<noteq> None)"
    by (simp add: added_requirements_def filter_empty_conv map_of_by_id[OF a])
  moreover have "(\<forall>r\<in>set a. \<exists>s. with_id b (req_id r) = Some s \<and> same_requirement r s) \<and>
      (\<forall>s\<in>set b. with_id a (req_id s) \<noteq> None) \<longleftrightarrow>
      (\<forall>i. rel_option same_requirement (with_id a i) (with_id b i))"
    (is "?L \<longleftrightarrow> ?R")
  proof
    assume L: ?L
    show ?R
    proof
      fix i
      show "rel_option same_requirement (with_id a i) (with_id b i)"
      proof (cases "with_id a i")
        case None
        with L have "with_id b i = None"
          by (cases "with_id b i") (auto simp: with_id_member[OF b])
        with None show ?thesis by simp
      next
        case (Some r)
        then have "r \<in> set a" "req_id r = i" by (auto simp: with_id_member[OF a])
        with L Some show ?thesis by auto
      qed
    qed
  next
    assume R: ?R
    have "\<exists>s. with_id b (req_id r) = Some s \<and> same_requirement r s" if "r \<in> set a" for r
    proof -
      from that a have "with_id a (req_id r) = Some r" by (simp add: with_id_member)
      with R[rule_format, of "req_id r"] show ?thesis by (simp add: option_rel_Some1)
    qed
    moreover have "with_id a (req_id s) \<noteq> None" if "s \<in> set b" for s
    proof -
      from that b have "with_id b (req_id s) = Some s" by (simp add: with_id_member)
      with R[rule_format, of "req_id s"] show ?thesis by (auto simp: option_rel_Some2)
    qed
    ultimately show ?L by blast
  qed
  ultimately show ?thesis by blast
qed

text \<open>
  Equality of two bundles up to what the difference ignores: the order of lists of texts, and
  the order of the requirements, which are matched by id.
\<close>

definition same_content :: "spec_bundle \<Rightarrow> spec_bundle \<Rightarrow> bool" where
  "same_content a b \<longleftrightarrow>
     proposal_summary (proposal a) = proposal_summary (proposal b) \<and>
     proposal_value (proposal a) = proposal_value (proposal b) \<and>
     set (inScope (proposal a)) = set (inScope (proposal b)) \<and>
     set (outOfScope (proposal a)) = set (outOfScope (proposal b)) \<and>
     set (deliverySlices (proposal a)) = set (deliverySlices (proposal b)) \<and>
     problem (prd a) = problem (prd b) \<and>
     set (users (prd a)) = set (users (prd b)) \<and>
     set (prd_nonGoals (prd a)) = set (prd_nonGoals (prd b)) \<and>
     set (prd_constraints (prd a)) = set (prd_constraints (prd b)) \<and>
     (\<forall>i. rel_option same_requirement (with_id (requirements (prd a)) i) (with_id (requirements (prd b)) i)) \<and>
     architecture_summary (architecture a) = architecture_summary (architecture b) \<and>
     components (architecture a) = components (architecture b) \<and>
     set (decisions (architecture a)) = set (decisions (architecture b)) \<and>
     migration a = migration b \<and> rollback a = rollback b \<and>
     solutionElements a = solutionElements b"

text \<open>
  For accepted bundles the difference is empty exactly when the bundles agree in
  every field up to the order of lists of texts and of the requirements: no change of a text, an
  entry, a requirement, a component, the migration, the rollback or a solution element goes
  unreported. The three counts add up to the number of changes.
\<close>

theorem diff_is_complete:
  assumes "clean_bundle a" "clean_bundle b" "plain_elements a" "plain_elements b"
  shows "(changes (diffSpecBundles a b) = [] \<longleftrightarrow> same_content a b) \<and>
    length (changes (diffSpecBundles a b)) =
      added_count (diffSpecBundles a b) + removed_count (diffSpecBundles a b) +
      changed_count (diffSpecBundles a b)"
proof
  have ids: "distinct (map req_id (requirements (prd a)))" "distinct (map req_id (requirements (prd b)))"
    using assms(1,2) by (simp_all add: clean_bundle_def)
  show "changes (diffSpecBundles a b) = [] \<longleftrightarrow> same_content a b"
    using requirements_Nil[OF ids]
    by (simp add: diffSpecBundles_def spec_changes_def Let_def same_content_def components_Nil
        migration_Nil rollback_Nil elements_Nil[OF assms(3,4)] del: concat_eq_Nil_conv)
       argo
  have "length cs = length (filter (\<lambda>c. change_kind c = Added) cs) +
      length (filter (\<lambda>c. change_kind c = Removed) cs) + length (filter (\<lambda>c. change_kind c = Changed) cs)"
    for cs
  proof (induction cs)
    case (Cons c cs)
    then show ?case by (cases "change_kind c") auto
  qed simp
  then show "length (changes (diffSpecBundles a b)) =
      added_count (diffSpecBundles a b) + removed_count (diffSpecBundles a b) +
      changed_count (diffSpecBundles a b)"
    by (simp add: diffSpecBundles_def Let_def)
qed

theorem diff_is_complete_witness:
  "changes (diffSpecBundles sample_bundle sample_bundle) = [] \<longleftrightarrow> same_content sample_bundle sample_bundle"
proof -
  have "plain_elements sample_bundle"
    by (simp add: plain_elements_def sample_bundle_def sample_element_def)
  with diff_is_complete[OF sample_bundle_clean sample_bundle_clean] show ?thesis by blast
qed

end
