(* ===== verification/Overdesign.thy ===== *)
theory Overdesign
  imports Spec_Artifact
begin

text \<open>
  \<^verbatim>\<open>domain/overdesign-review.ts\<close>: the classification of solution elements as required, helpful or
  speculative by their references into the Goal. The lemmas characterise the categories and show
  that more criteria or constraints never demote an element.
\<close>

datatype overdesign_category = Required | Helpful | Speculative

record overdesign_review_item =
  item_elementId :: string
  item_title :: string
  item_category :: overdesign_category
  item_requirementRefs :: "string list"
  item_constraintRefs :: "string list"
  item_estimatedCost :: json
  item_removalImpact :: string
  item_evidence :: "string list"
  item_rationale :: string

record overdesign_review =
  review_schemaVersion :: string
  review_policyRevision :: string
  counts :: "overdesign_category \<Rightarrow> nat"
  items :: "overdesign_review_item list"

record overdesign_goal_facts =
  acceptanceCriterionIds :: "string list"
  goal_constraints :: "string list"

definition overdesignReviewSchemaVersion :: string where
  "overdesignReviewSchemaVersion = ''overdesign-review.v1''"

definition overdesignPolicyRevision :: string where
  "overdesignPolicyRevision = ''overdesign-policy.v1''"

definition intersection :: "string list \<Rightarrow> string list \<Rightarrow> string list" where
  "intersection references known = js_set (filter (\<lambda>r. r \<in> set known) references)"

definition plural :: "nat \<Rightarrow> string" where
  "plural n = (if n = 1 then '''' else ''s'')"

definition category_of :: "string list \<Rightarrow> string list \<Rightarrow> string list \<Rightarrow> overdesign_category" where
  "category_of rrefs crefs ev =
     (if length rrefs > 0 then Required
      else if length crefs > 0 \<and> length ev > 0 then Helpful
      else Speculative)"

definition rationale_of :: "string list \<Rightarrow> string list \<Rightarrow> overdesign_category \<Rightarrow> string" where
  "rationale_of rrefs crefs c =
     (case c of
        Required \<Rightarrow> ''Directly traces to '' @ show_nat (length rrefs) @
          '' approved acceptance criterion'' @ plural (length rrefs) @ ''.''
      | Helpful \<Rightarrow> ''Supports '' @ show_nat (length crefs) @ '' declared constraint'' @
          plural (length crefs) @
          '' with explicit evidence, but is not required by an acceptance criterion.''
      | Speculative \<Rightarrow> ''Has no valid acceptance-criterion trace and no evidenced constraint '' @
          ''justification; remove by default.'')"

definition review_item :: "overdesign_goal_facts \<Rightarrow> spec_solution_element \<Rightarrow> overdesign_review_item" where
  "review_item g e =
     (let rrefs = intersection (element_criterionRefs e) (acceptanceCriterionIds g);
          crefs = intersection (constraintRefs e) (goal_constraints g);
          c = category_of rrefs crefs (element_evidence e) in \<lparr>
        item_elementId = element_id e, item_title = element_title e, item_category = c,
        item_requirementRefs = rrefs, item_constraintRefs = crefs,
        item_estimatedCost = estimatedCost e, item_removalImpact = removalImpact e,
        item_evidence = element_evidence e, item_rationale = rationale_of rrefs crefs c\<rparr>)"

definition classifySolutionElements ::
  "overdesign_goal_facts \<Rightarrow> spec_solution_element list \<Rightarrow> overdesign_review" where
  "classifySolutionElements g elements =
     (let is = map (review_item g) elements in \<lparr>
        review_schemaVersion = overdesignReviewSchemaVersion,
        review_policyRevision = overdesignPolicyRevision,
        counts = (\<lambda>c. length (filter (\<lambda>i. item_category i = c) is)),
        items = is\<rparr>)"

section \<open>Categories\<close>

lemma set_intersection [simp]: "set (intersection refs known) = set refs \<inter> set known"
  by (auto simp: intersection_def)

lemma intersection_Nil: "intersection refs known = [] \<longleftrightarrow> set refs \<inter> set known = {}"
  by (metis set_empty set_intersection)

lemma item_category_iff:
  "item_category (review_item g e) = Required \<longleftrightarrow>
     set (element_criterionRefs e) \<inter> set (acceptanceCriterionIds g) \<noteq> {}"
  "item_category (review_item g e) = Speculative \<longleftrightarrow>
     set (element_criterionRefs e) \<inter> set (acceptanceCriterionIds g) = {} \<and>
     (set (constraintRefs e) \<inter> set (goal_constraints g) = {} \<or> element_evidence e = [])"
  by (auto simp: review_item_def Let_def category_of_def intersection_Nil)

lemma counts_sum:
  "length is = length (filter (\<lambda>i. item_category i = Required) is) +
     length (filter (\<lambda>i. item_category i = Helpful) is) +
     length (filter (\<lambda>i. item_category i = Speculative) is)"
proof (induction "is")
  case (Cons i "is")
  then show ?case by (cases "item_category i") auto
qed simp

definition category_rank :: "overdesign_category \<Rightarrow> nat" where
  "category_rank c = (case c of Speculative \<Rightarrow> 0 | Helpful \<Rightarrow> 1 | Required \<Rightarrow> 2)"

lemma category_rank_mono:
  assumes "set (acceptanceCriterionIds g) \<subseteq> set (acceptanceCriterionIds h)"
    and "set (goal_constraints g) \<subseteq> set (goal_constraints h)"
  shows "category_rank (item_category (review_item g e)) \<le> category_rank (item_category (review_item h e))"
  using assms
  by (auto simp: review_item_def Let_def category_of_def category_rank_def intersection_Nil)

text \<open>
  Every element is reviewed once and in order; it is required exactly when it refers
  to a criterion of the Goal, and speculative exactly when it has no such reference and no
  evidenced reference to a constraint of the Goal. The references kept are references into the
  Goal, without repetition; the counts add up to the number of elements; and a Goal with more
  criteria or constraints never demotes an element.
\<close>

theorem overdesign_categories:
  "map item_elementId (items (classifySolutionElements g es)) = map element_id es \<and>
   list_all2 (\<lambda>e i.
     (item_category i = Required \<longleftrightarrow>
        (\<exists>r\<in>set (element_criterionRefs e). r \<in> set (acceptanceCriterionIds g))) \<and>
     (item_category i = Speculative \<longleftrightarrow>
        \<not> (\<exists>r\<in>set (element_criterionRefs e). r \<in> set (acceptanceCriterionIds g)) \<and>
        \<not> (element_evidence e \<noteq> [] \<and> (\<exists>c\<in>set (constraintRefs e). c \<in> set (goal_constraints g)))) \<and>
     distinct (item_requirementRefs i) \<and>
     set (item_requirementRefs i) = set (element_criterionRefs e) \<inter> set (acceptanceCriterionIds g))
     es (items (classifySolutionElements g es)) \<and>
   length es = counts (classifySolutionElements g es) Required +
     counts (classifySolutionElements g es) Helpful + counts (classifySolutionElements g es) Speculative \<and>
   (set (acceptanceCriterionIds g) \<subseteq> set (acceptanceCriterionIds h) \<longrightarrow>
    set (goal_constraints g) \<subseteq> set (goal_constraints h) \<longrightarrow>
    list_all2 (\<lambda>i j. category_rank (item_category i) \<le> category_rank (item_category j))
      (items (classifySolutionElements g es)) (items (classifySolutionElements h es)))"
proof (intro conjI impI)
  show "map item_elementId (items (classifySolutionElements g es)) = map element_id es"
    by (simp add: classifySolutionElements_def Let_def review_item_def)
  show "length es = counts (classifySolutionElements g es) Required +
     counts (classifySolutionElements g es) Helpful + counts (classifySolutionElements g es) Speculative"
    using counts_sum[of "map (review_item g) es"]
    by (simp add: classifySolutionElements_def Let_def)
  show "list_all2 (\<lambda>e i.
     (item_category i = Required \<longleftrightarrow>
        (\<exists>r\<in>set (element_criterionRefs e). r \<in> set (acceptanceCriterionIds g))) \<and>
     (item_category i = Speculative \<longleftrightarrow>
        \<not> (\<exists>r\<in>set (element_criterionRefs e). r \<in> set (acceptanceCriterionIds g)) \<and>
        \<not> (element_evidence e \<noteq> [] \<and> (\<exists>c\<in>set (constraintRefs e). c \<in> set (goal_constraints g)))) \<and>
     distinct (item_requirementRefs i) \<and>
     set (item_requirementRefs i) = set (element_criterionRefs e) \<inter> set (acceptanceCriterionIds g))
     es (items (classifySolutionElements g es))"
    by (auto simp: classifySolutionElements_def Let_def list_all2_conv_all_nth item_category_iff)
      (auto simp: review_item_def Let_def intersection_def)
  assume "set (acceptanceCriterionIds g) \<subseteq> set (acceptanceCriterionIds h)"
    "set (goal_constraints g) \<subseteq> set (goal_constraints h)"
  then show "list_all2 (\<lambda>i j. category_rank (item_category i) \<le> category_rank (item_category j))
      (items (classifySolutionElements g es)) (items (classifySolutionElements h es))"
    by (simp add: classifySolutionElements_def Let_def list_all2_conv_all_nth category_rank_mono)
qed

theorem overdesign_categories_witness:
  "list_all2 (\<lambda>i j. category_rank (item_category i) \<le> category_rank (item_category j))
     (items (classifySolutionElements \<lparr>acceptanceCriterionIds = [], goal_constraints = []\<rparr> [sample_element]))
     (items (classifySolutionElements \<lparr>acceptanceCriterionIds = [''A1''], goal_constraints = []\<rparr>
        [sample_element]))"
  using overdesign_categories[of "\<lparr>acceptanceCriterionIds = [], goal_constraints = []\<rparr>"
      "[sample_element]" "\<lparr>acceptanceCriterionIds = [''A1''], goal_constraints = []\<rparr>"]
  by simp

end
