(* ===== verification/Json_Schema.thy ===== *)
theory Json_Schema
  imports Json_Values
begin

text \<open>
  The part of JSON Schema in which the modules of \<^verbatim>\<open>domain/\<close> publish the shape of a planner's
  or verifier's output. A schema is a value of \<open>json_schema\<close>, one constructor per combination of
  keywords the sources write; \<open>conforms\<close> is the documented meaning of those keywords.
\<close>

datatype json_schema =
    Text_schema "nat option" "(string \<Rightarrow> bool) option" \<comment> \<open>type string, minLength, pattern\<close>
  | Const_schema string
  | Enum_schema "string list"
  | Boolean_schema
  | Integer_schema int int \<comment> \<open>type integer, minimum, maximum\<close>
  | Array_schema json_schema "nat option" "nat option" \<comment> \<open>items, minItems, maxItems\<close>
  | Closed_schema "string list" "(string \<times> json_schema) list"
      \<comment> \<open>required, properties; no additional properties\<close>
  | One_of_schema "json_schema list"

fun conforms :: "json_schema \<Rightarrow> json \<Rightarrow> bool" where
  "conforms (Text_schema minimum pattern) v =
     (case v of
        JStr s \<Rightarrow> (case minimum of None \<Rightarrow> True | Some n \<Rightarrow> n \<le> length s) \<and>
          (case pattern of None \<Rightarrow> True | Some p \<Rightarrow> p s)
      | _ \<Rightarrow> False)"
| "conforms (Const_schema c) v = (v = JStr c)"
| "conforms (Enum_schema cs) v = (\<exists>c\<in>set cs. v = JStr c)"
| "conforms Boolean_schema v = (case v of JBool b \<Rightarrow> True | _ \<Rightarrow> False)"
| "conforms (Integer_schema lo hi) v = (case v of JInt i \<Rightarrow> lo \<le> i \<and> i \<le> hi | _ \<Rightarrow> False)"
| "conforms (Array_schema item minimum maximum) v =
     (case v of
        JArr vs \<Rightarrow> list_all (conforms item) vs \<and>
          (case minimum of None \<Rightarrow> True | Some n \<Rightarrow> n \<le> length vs) \<and>
          (case maximum of None \<Rightarrow> True | Some n \<Rightarrow> length vs \<le> n)
      | _ \<Rightarrow> False)"
| "conforms (Closed_schema required props) v =
     (case v of
        JObj fs \<Rightarrow> list_all (\<lambda>k. k \<in> fst ` set fs) required \<and>
          list_all (\<lambda>f. fst f \<in> fst ` set props) fs \<and>
          list_all (\<lambda>(k, sch). case map_of fs k of None \<Rightarrow> True | Some w \<Rightarrow> conforms sch w) props
      | _ \<Rightarrow> False)"
| "conforms (One_of_schema schemas) v = (length (filter (\<lambda>sch. conforms sch v) schemas) = 1)"

text \<open>The abbreviations \<open>text\<close>, \<open>texts\<close> and \<open>closed\<close> that the modules share.\<close>

definition text_schema :: json_schema where
  "text_schema = Text_schema (Some 1) None"

definition texts_schema :: json_schema where
  "texts_schema = Array_schema text_schema None None"

definition closed_schema :: "(string \<times> json_schema) list \<Rightarrow> json_schema" where
  "closed_schema props = Closed_schema (map fst props) props"

lemma conforms_closed:
  assumes "map fst fs = map fst props" and "distinct (map fst props)"
  shows "conforms (closed_schema props) (JObj fs) \<longleftrightarrow>
    list_all2 (\<lambda>f p. conforms (snd p) (snd f)) fs props"
proof -
  have len: "length fs = length props" using assms(1) by (metis length_map)
  have key: "fst (fs ! i) = fst (props ! i)" if "i < length props" for i
    using assms(1) that len by (metis nth_map)
  have "map_of fs (fst (props ! i)) = Some (snd (fs ! i))" if "i < length props" for i
    using assms that len key[OF that] by (metis map_of_eq_Some_iff nth_mem prod.collapse)
  moreover have "fst ` set fs = fst ` set props" using assms(1) by (metis set_map)
  ultimately show ?thesis
    using len by (auto simp: closed_schema_def list_all_iff list_all2_conv_all_nth all_set_conv_all_nth
        case_prod_beta)
qed

lemma clean_text_conforms: "clean_text n s \<Longrightarrow> conforms text_schema (JStr s)"
  by (cases s) (auto simp: text_schema_def clean_text_def)

lemma clean_texts_conforms: "clean_texts n m ss \<Longrightarrow> conforms texts_schema (texts_json ss)"
  using clean_text_conforms
  by (fastforce simp: texts_schema_def texts_json_def clean_texts_def list_all_iff)

lemma conforms_items:
  "(\<And>x. x \<in> set xs \<Longrightarrow> conforms item (f x)) \<Longrightarrow>
     (case minimum of None \<Rightarrow> True | Some n \<Rightarrow> n \<le> length xs) \<Longrightarrow>
     (case maximum of None \<Rightarrow> True | Some n \<Rightarrow> length xs \<le> n) \<Longrightarrow>
     conforms (Array_schema item minimum maximum) (JArr (map f xs))"
  by (cases minimum; cases maximum) (simp_all add: list_all_iff)

end
