(* ===== verification/Planner_Clarification.thy ===== *)
theory Planner_Clarification
  imports Json_Schema
begin

text \<open>
  \<^verbatim>\<open>domain/planner-clarification-schema.ts\<close>: the check of a clarification planner's output, which
  collects every issue with its path before it rejects, and the schema published to the planner.
  The lemmas say exactly which values pass, and that outputs whose enumerated fields are texts
  meet the published schema.
\<close>

section \<open>Issues\<close>

record planner_validation_issue =
  issue_path :: string
  issue_code :: string

abbreviation issue :: "string \<Rightarrow> string \<Rightarrow> planner_validation_issue" where
  "issue p c \<equiv> \<lparr>issue_path = p, issue_code = c\<rparr>"

definition plannerClarificationSchemaVersion :: string where
  "plannerClarificationSchemaVersion = ''planner-clarification.v1''"

text \<open>The checks return the issues they push, and the value where the source returns one.\<close>

definition isObject :: "json \<Rightarrow> bool" where
  "isObject v \<longleftrightarrow> (case v of JObj fs \<Rightarrow> True | _ \<Rightarrow> False)"

definition inspectObject ::
  "json \<Rightarrow> string \<Rightarrow> string list \<Rightarrow> string list \<Rightarrow>
   planner_validation_issue list \<times> (string \<times> json) list option" where
  "inspectObject v path required allowed =
     (case v of
        JObj fs \<Rightarrow>
          (map (\<lambda>k. issue (path @ ''.'' @ k) ''required'')
             (filter (\<lambda>k. k \<notin> set (map fst fs)) required) @
           map (\<lambda>k. issue (path @ ''.'' @ k) ''additional_property'')
             (filter (\<lambda>k. k \<notin> set allowed) (map fst fs)),
           Some fs)
      | _ \<Rightarrow> ([issue path ''type_object''], None))"

definition inspectText :: "json \<Rightarrow> string \<Rightarrow> nat \<Rightarrow> planner_validation_issue list" where
  "inspectText v path maximum =
     (case v of
        JStr s \<Rightarrow> if length (trim s) < 1 \<or> length s > maximum
                  then [issue path ''bounded_string''] else []
      | _ \<Rightarrow> [issue path ''bounded_string''])"

text \<open>The pattern \<^verbatim>\<open>^[a-z][a-z0-9_-]{0,63}$\<close>.\<close>

definition identifier_format :: "string \<Rightarrow> bool" where
  "identifier_format s \<longleftrightarrow>
     (case s of
        [] \<Rightarrow> False
      | c # cs \<Rightarrow> is_lower c \<and> length cs \<le> 63 \<and>
          list_all (\<lambda>d. is_lower d \<or> is_digit d \<or> d = CHR ''_'' \<or> d = CHR ''-'') cs)"

definition inspectIdentifier :: "json \<Rightarrow> string \<Rightarrow> planner_validation_issue list" where
  "inspectIdentifier v path =
     (case v of
        JStr s \<Rightarrow> if \<not> identifier_format s then [issue path ''identifier''] else []
      | _ \<Rightarrow> [issue path ''identifier''])"

definition inspectArray ::
  "json \<Rightarrow> string \<Rightarrow> nat \<Rightarrow> planner_validation_issue list \<times> json list" where
  "inspectArray v path maximum =
     (case v of
        JArr vs \<Rightarrow> (if length vs > maximum then [issue path ''max_items''] else [], vs)
      | _ \<Rightarrow> ([issue path ''type_array''], []))"

definition id_of :: "json \<Rightarrow> string list" where
  "id_of v =
     (case v of
        JObj fs \<Rightarrow> (case js_get fs ''id'' of JStr s \<Rightarrow> [s] | _ \<Rightarrow> [])
      | _ \<Rightarrow> [])"

definition inspectUniqueIds :: "json list \<Rightarrow> string \<Rightarrow> planner_validation_issue list" where
  "inspectUniqueIds vs path =
     (if has_duplicates (concat (map id_of vs)) then [issue path ''unique_ids''] else [])"

definition inspectEnum :: "json \<Rightarrow> string list \<Rightarrow> string \<Rightarrow> planner_validation_issue list" where
  "inspectEnum v names path = (if js_String v \<notin> set names then [issue path ''enum''] else [])"

section \<open>The sections of an output\<close>

definition inspect_fact :: "nat \<Rightarrow> json \<Rightarrow> planner_validation_issue list" where
  "inspect_fact index v =
     (let path = index_path ''$.knownFacts'' index;
          fields = [''id'', ''fact'', ''basis''] in
      case inspectObject v path fields fields of
        (is, None) \<Rightarrow> is
      | (is, Some rec) \<Rightarrow> is @
          inspectIdentifier (js_get rec ''id'') (path @ ''.id'') @
          inspectText (js_get rec ''fact'') (path @ ''.fact'') 4000 @
          inspectEnum (js_get rec ''basis'') [''goal_contract'', ''human_answer''] (path @ ''.basis''))"

definition inspect_uncertainty :: "nat \<Rightarrow> json \<Rightarrow> planner_validation_issue list" where
  "inspect_uncertainty index v =
     (let path = index_path ''$.uncertainties'' index;
          fields = [''id'', ''statement'', ''impact''] in
      case inspectObject v path fields fields of
        (is, None) \<Rightarrow> is
      | (is, Some rec) \<Rightarrow> is @
          inspectIdentifier (js_get rec ''id'') (path @ ''.id'') @
          inspectText (js_get rec ''statement'') (path @ ''.statement'') 4000 @
          inspectText (js_get rec ''impact'') (path @ ''.impact'') 4000)"

text \<open>
  \<open>new Set(options)\<close> compares objects and arrays by identity, so only equal primitive options
  are duplicates.
\<close>

definition is_primitive :: "json \<Rightarrow> bool" where
  "is_primitive v \<longleftrightarrow> (case v of JArr vs \<Rightarrow> False | JObj fs \<Rightarrow> False | _ \<Rightarrow> True)"

definition blockingLevels :: "string list" where
  "blockingLevels = [''blocker'', ''high'', ''medium'', ''low'']"

definition answerTypes :: "string list" where
  "answerTypes = [''single_choice'', ''multiple_choice'', ''boolean'', ''text'', ''number'']"

definition question_fields :: "string list" where
  "question_fields =
     [''id'', ''prompt'', ''rationale'', ''blockingLevel'', ''answerType'', ''suggestedOptions'']"

definition inspect_options :: "json list \<Rightarrow> string \<Rightarrow> planner_validation_issue list" where
  "inspect_options options path =
     concat (map (\<lambda>(i, option). inspectText option (index_path path i) 500)
       (List.enumerate 0 options)) @
     (if has_duplicates (filter is_primitive options) then [issue path ''unique_items''] else [])"

definition inspect_question :: "nat \<Rightarrow> json \<Rightarrow> planner_validation_issue list" where
  "inspect_question index v =
     (let path = index_path ''$.questions'' index in
      case inspectObject v path question_fields question_fields of
        (is, None) \<Rightarrow> is
      | (is, Some rec) \<Rightarrow>
          (let (array_issues, options) =
             inspectArray (js_get rec ''suggestedOptions'') (path @ ''.suggestedOptions'') 12 in
           is @
           inspectIdentifier (js_get rec ''id'') (path @ ''.id'') @
           inspectText (js_get rec ''prompt'') (path @ ''.prompt'') 4000 @
           inspectText (js_get rec ''rationale'') (path @ ''.rationale'') 4000 @
           inspectEnum (js_get rec ''blockingLevel'') blockingLevels (path @ ''.blockingLevel'') @
           inspectEnum (js_get rec ''answerType'') answerTypes (path @ ''.answerType'') @
           array_issues @ inspect_options options (path @ ''.suggestedOptions'')))"

text \<open>\<open>values.forEach((value, index) => ...)\<close>.\<close>

definition inspect_section ::
  "json \<Rightarrow> string \<Rightarrow> nat \<Rightarrow> (nat \<Rightarrow> json \<Rightarrow> planner_validation_issue list) \<Rightarrow>
   planner_validation_issue list" where
  "inspect_section v path maximum inspect_item =
     (let (is, vs) = inspectArray v path maximum in
      is @ inspectUniqueIds vs path @
      concat (map (\<lambda>(i, item). inspect_item i item) (List.enumerate 0 vs)))"

definition root_fields :: "string list" where
  "root_fields = [''schemaVersion'', ''knownFacts'', ''uncertainties'', ''questions'']"

text \<open>The thrown error carries the issues.\<close>

definition validatePlannerClarificationOutput ::
  "json \<Rightarrow> planner_validation_issue list + json" where
  "validatePlannerClarificationOutput v =
     (case inspectObject v ''$'' root_fields root_fields of
        (is, None) \<Rightarrow> Inl is
      | (is, Some root) \<Rightarrow>
          (let issues = is @
             (if js_get root ''schemaVersion'' \<noteq> JStr plannerClarificationSchemaVersion
              then [issue ''$.schemaVersion'' ''const''] else []) @
             inspect_section (js_get root ''knownFacts'') ''$.knownFacts'' 50 inspect_fact @
             inspect_section (js_get root ''uncertainties'') ''$.uncertainties'' 50 inspect_uncertainty @
             inspect_section (js_get root ''questions'') ''$.questions'' 20 inspect_question
           in if length issues > 0 then Inl issues else Inr v))"

section \<open>What passes\<close>

text \<open>An object with exactly the given fields, as the own keys of an object are distinct.\<close>

definition exact_object :: "json \<Rightarrow> string list \<Rightarrow> (string \<times> json) list \<Rightarrow> bool" where
  "exact_object v names fs \<longleftrightarrow> v = JObj fs \<and> fst ` set fs = set names"

definition bounded_text :: "nat \<Rightarrow> json \<Rightarrow> bool" where
  "bounded_text maximum v \<longleftrightarrow> (\<exists>s. v = JStr s \<and> trim s \<noteq> [] \<and> length s \<le> maximum)"

definition good_identifier :: "json \<Rightarrow> bool" where
  "good_identifier v \<longleftrightarrow> (\<exists>s. v = JStr s \<and> identifier_format s)"

definition good_fact :: "json \<Rightarrow> bool" where
  "good_fact v \<longleftrightarrow> (\<exists>fs. exact_object v [''id'', ''fact'', ''basis''] fs \<and>
     good_identifier (js_get fs ''id'') \<and> bounded_text 4000 (js_get fs ''fact'') \<and>
     js_String (js_get fs ''basis'') \<in> {''goal_contract'', ''human_answer''})"

definition good_uncertainty :: "json \<Rightarrow> bool" where
  "good_uncertainty v \<longleftrightarrow> (\<exists>fs. exact_object v [''id'', ''statement'', ''impact''] fs \<and>
     good_identifier (js_get fs ''id'') \<and> bounded_text 4000 (js_get fs ''statement'') \<and>
     bounded_text 4000 (js_get fs ''impact''))"

definition good_question :: "json \<Rightarrow> bool" where
  "good_question v \<longleftrightarrow> (\<exists>fs options. exact_object v question_fields fs \<and>
     good_identifier (js_get fs ''id'') \<and> bounded_text 4000 (js_get fs ''prompt'') \<and>
     bounded_text 4000 (js_get fs ''rationale'') \<and>
     js_String (js_get fs ''blockingLevel'') \<in> set blockingLevels \<and>
     js_String (js_get fs ''answerType'') \<in> set answerTypes \<and>
     js_get fs ''suggestedOptions'' = JArr options \<and> length options \<le> 12 \<and>
     list_all (bounded_text 500) options \<and> distinct options)"

definition good_section :: "json \<Rightarrow> nat \<Rightarrow> (json \<Rightarrow> bool) \<Rightarrow> bool" where
  "good_section v maximum good \<longleftrightarrow> (\<exists>vs. v = JArr vs \<and> length vs \<le> maximum \<and>
     distinct (concat (map id_of vs)) \<and> list_all good vs)"

definition good_output :: "json \<Rightarrow> bool" where
  "good_output v \<longleftrightarrow> (\<exists>root. exact_object v root_fields root \<and>
     js_get root ''schemaVersion'' = JStr plannerClarificationSchemaVersion \<and>
     good_section (js_get root ''knownFacts'') 50 good_fact \<and>
     good_section (js_get root ''uncertainties'') 50 good_uncertainty \<and>
     good_section (js_get root ''questions'') 20 good_question)"

named_theorems no_issue \<comment> \<open>when a check pushes nothing\<close>

lemma inspectObject_clean [no_issue]:
  "inspectObject v path names names = ([], Some fs) \<longleftrightarrow> exact_object v names fs"
  by (auto simp: inspectObject_def exact_object_def filter_empty_conv split: json.splits)

lemma inspectText_Nil [no_issue]: "inspectText v path maximum = [] \<longleftrightarrow> bounded_text maximum v"
  by (cases v) (auto simp: inspectText_def bounded_text_def)

lemma inspectIdentifier_Nil [no_issue]: "inspectIdentifier v path = [] \<longleftrightarrow> good_identifier v"
  by (cases v) (auto simp: inspectIdentifier_def good_identifier_def)

lemma inspectEnum_Nil [no_issue]: "inspectEnum v names path = [] \<longleftrightarrow> js_String v \<in> set names"
  by (auto simp: inspectEnum_def)

lemma inspectArray_clean [no_issue]:
  "inspectArray v path maximum = ([], vs) \<longleftrightarrow> v = JArr vs \<and> length vs \<le> maximum"
  by (cases v) (auto simp: inspectArray_def)

text \<open>A check that starts with the object check pushes nothing only when that one does.\<close>

lemma inspectObject_Nil:
  "(case inspectObject v path names names of (is, None) \<Rightarrow> is | (is, Some rec) \<Rightarrow> is @ f rec) = [] \<longleftrightarrow>
     (\<exists>fs. exact_object v names fs \<and> f fs = [])"
  by (cases v) (auto simp: inspectObject_def exact_object_def filter_empty_conv)

lemma enumerate_Nil:
  "(\<forall>x\<in>set (List.enumerate n vs). (case x of (i, item) \<Rightarrow> f i item) = []) \<longleftrightarrow>
     (\<forall>j<length vs. f (n + j) (vs ! j) = [])"
proof
  assume l: "\<forall>x\<in>set (List.enumerate n vs). (case x of (i, item) \<Rightarrow> f i item) = []"
  show "\<forall>j<length vs. f (n + j) (vs ! j) = []"
  proof (intro allI impI)
    fix j
    assume "j < length vs"
    then have "(n + j, vs ! j) \<in> set (List.enumerate n vs)" by (simp add: in_set_enumerate_eq)
    with l show "f (n + j) (vs ! j) = []" by fastforce
  qed
next
  assume r: "\<forall>j<length vs. f (n + j) (vs ! j) = []"
  show "\<forall>x\<in>set (List.enumerate n vs). (case x of (i, item) \<Rightarrow> f i item) = []"
  proof
    fix x
    assume "x \<in> set (List.enumerate n vs)"
    then have "n \<le> fst x" "fst x < length vs + n" "vs ! (fst x - n) = snd x"
      by (simp_all add: in_set_enumerate_eq)
    with r[rule_format, of "fst x - n"] show "(case x of (i, item) \<Rightarrow> f i item) = []"
      by (simp add: case_prod_beta)
  qed
qed

lemma inspect_fact_Nil: "inspect_fact i v = [] \<longleftrightarrow> good_fact v"
  by (simp add: inspect_fact_def Let_def inspectObject_Nil good_fact_def no_issue)

lemma inspect_uncertainty_Nil: "inspect_uncertainty i v = [] \<longleftrightarrow> good_uncertainty v"
  by (simp add: inspect_uncertainty_def Let_def inspectObject_Nil good_uncertainty_def no_issue)

lemma inspect_options_Nil:
  "inspect_options options path = [] \<longleftrightarrow> list_all (bounded_text 500) options \<and> distinct options"
proof -
  have "filter is_primitive options = options" if "list_all (bounded_text 500) options"
    using that by (auto simp: filter_id_conv list_all_iff bounded_text_def is_primitive_def)
  then show ?thesis
    by (auto simp: inspect_options_def enumerate_Nil no_issue list_all_length)
qed

lemma inspect_question_Nil: "inspect_question i v = [] \<longleftrightarrow> good_question v"
proof -
  have "(let (array_issues, options) = inspectArray w p 12 in a @ array_issues @ inspect_options options q) = []
      \<longleftrightarrow> a = [] \<and> (\<exists>options. w = JArr options \<and> length options \<le> 12 \<and>
        list_all (bounded_text 500) options \<and> distinct options)" for w p q a
    by (cases w) (auto simp: inspectArray_def inspect_options_Nil)
  then show ?thesis
    unfolding inspect_question_def Let_def good_question_def
    by (cases v) (auto simp: inspectObject_def exact_object_def filter_empty_conv no_issue
        inspectArray_def inspect_options_Nil split: json.splits)
qed

lemma inspect_section_Nil:
  assumes "\<And>i v. inspect_item i v = [] \<longleftrightarrow> good v"
  shows "inspect_section v path maximum inspect_item = [] \<longleftrightarrow> good_section v maximum good"
  by (cases v)
    (auto simp: inspect_section_def inspectArray_def good_section_def inspectUniqueIds_def
      enumerate_Nil assms list_all_length)

lemma validated_planner_output:
  "(validatePlannerClarificationOutput v = Inr w \<longleftrightarrow> good_output v \<and> w = v) \<and>
   validatePlannerClarificationOutput v \<noteq> Inl []"
proof -
  note sections = inspect_section_Nil[OF inspect_fact_Nil] inspect_section_Nil[OF inspect_uncertainty_Nil]
    inspect_section_Nil[OF inspect_question_Nil]
  show ?thesis
    by (cases v)
      (auto simp: validatePlannerClarificationOutput_def inspectObject_def good_output_def
        exact_object_def Let_def sections filter_empty_conv)
qed

text \<open>
  An output is accepted exactly when it is an object with the four fields, the
  schema version, and sections of bounded length with distinct ids whose items are objects with
  exactly their fields, well-formed identifiers, non-blank bounded texts, known names, and at
  most twelve distinct options; it is then returned unchanged. A rejected output is reported
  with at least one issue.
\<close>

theorem accepted_planner_outputs:
  "(validatePlannerClarificationOutput v = Inr w \<longleftrightarrow> good_output v \<and> w = v) \<and>
   validatePlannerClarificationOutput v \<noteq> Inl []"
  by (rule validated_planner_output)

end
