(* ===== verification/Acceptance_Verification.thy ===== *)
theory Acceptance_Verification
  imports Goal_Contract Json_Schema Json_Text
begin

text \<open>
  \<^verbatim>\<open>domain/acceptance-verification.ts\<close>: the data of a Goal's verification plan, the validator of
  its draft and the compilation of a draft against the Goal's criteria and the available
  references. The lemmas characterise accepted drafts and compiled plans, and show what a plan's
  digest identifies.

  The validator keeps the value of a strategy's \<open>type\<close>, of which it only checks the text.
\<close>

section \<open>Data\<close>

definition verificationEnvironments :: "string list" where
  "verificationEnvironments = [''development'', ''test'', ''staging'', ''production'']"

datatype verification_strategy =
    Referenced (strategy_type: json) (reference: string)
  | Manual (instructions: string) \<comment> \<open>\<open>requiredRole\<close> is always "approver"\<close>

record acceptance_verification_entry =
  entry_id :: string
  entry_criterionRef :: string
  environment :: string
  strategy :: verification_strategy
  successCondition :: string
  timeoutMs :: int
  responsibleParty :: string

definition acceptanceVerificationPlanDraftSchemaVersion :: string where
  "acceptanceVerificationPlanDraftSchemaVersion = ''acceptance-verification-plan-draft.v1''"

definition acceptanceVerificationPlanSchemaVersion :: string where
  "acceptanceVerificationPlanSchemaVersion = ''acceptance-verification-plan.v1''"

record acceptance_verification_plan =
  plan_id :: string
  plan_organizationId :: string
  plan_projectId :: string
  plan_goalId :: string
  plan_goalVersion :: nat
  plan_issuePlanId :: string
  plan_issuePlanVersion :: nat
  plan_revision :: nat
  previousPlanId :: "string option"
  entries :: "acceptance_verification_entry list"
  coveredCriterionRefs :: "string list"
  digest :: string
  compiledAt :: string
  plan_version :: nat

record verification_reference_catalog =
  catalog_command :: "string list"
  catalog_query :: "string list"
  catalog_artifact :: "string list"

section \<open>The validator\<close>

abbreviation vplan_error :: "string \<Rightarrow> js_error" where
  "vplan_error \<equiv> AcceptanceVerificationPlanValidationError"

abbreviation vplan_object :: "json \<Rightarrow> string \<Rightarrow> string list \<Rightarrow> js_error + (string \<times> json) list" where
  "vplan_object \<equiv> closed_object AcceptanceVerificationPlanValidationError"

abbreviation vplan_text :: "json \<Rightarrow> string \<Rightarrow> nat \<Rightarrow> js_error + string" where
  "vplan_text \<equiv> bounded_string AcceptanceVerificationPlanValidationError"

definition referenceTypes :: "string list" where
  "referenceTypes = [''command'', ''query'', ''artifact'']"

definition validateStrategy :: "json \<Rightarrow> string \<Rightarrow> js_error + verification_strategy" where
  "validateStrategy v name =
     (case v of
        JObj fs \<Rightarrow>
          (let type = js_get fs ''type'' in
           if type = JStr ''manual'' then
             and_then (vplan_object v name [''type'', ''instructions'', ''requiredRole'']) (\<lambda>strategy.
             if js_get strategy ''requiredRole'' \<noteq> JStr ''approver'' then
               Inl (vplan_error (name @ ''.requiredRole must be approver''))
             else
               and_then (vplan_text (js_get strategy ''instructions'') (name @ ''.instructions'') 4000)
                 (\<lambda>i. Inr (Manual i)))
           else if js_String type \<notin> set referenceTypes then
             Inl (vplan_error (name @ ''.type is invalid''))
           else
             and_then (vplan_object v name [''type'', ''reference'']) (\<lambda>strategy.
             and_then (vplan_text (js_get strategy ''reference'') (name @ ''.reference'') 1000)
               (\<lambda>r. Inr (Referenced type r))))
      | _ \<Rightarrow> Inl (vplan_error (name @ '' is invalid'')))"

text \<open>The pattern \<^verbatim>\<open>^[a-z][a-z0-9-]*$\<close>.\<close>

fun entry_id_format :: "string \<Rightarrow> bool" where
  "entry_id_format [] \<longleftrightarrow> False"
| "entry_id_format (c # cs) \<longleftrightarrow> is_lower c \<and>
     list_all (\<lambda>d. is_lower d \<or> is_digit d \<or> d = CHR ''-'') cs"

text \<open>The pattern \<^verbatim>\<open>/^(looks? good|seems? (fine|done)|done)$/i\<close>.\<close>

definition vague_condition :: "string \<Rightarrow> bool" where
  "vague_condition s \<longleftrightarrow> lower s \<in> {''look good'', ''looks good'', ''seem fine'', ''seems fine'',
     ''seem done'', ''seems done'', ''done''}"

text \<open>\<open>Number.isSafeInteger\<close>.\<close>

definition safe_integer :: "json \<Rightarrow> int option" where
  "safe_integer v = (case v of JInt i \<Rightarrow> if \<bar>i\<bar> \<le> 2 ^ 53 - 1 then Some i else None | _ \<Rightarrow> None)"

definition entry_keys :: "string list" where
  "entry_keys = [''id'', ''criterionRef'', ''environment'', ''strategy'', ''successCondition'',
     ''timeoutMs'', ''responsibleParty'']"

definition validate_entry :: "nat \<Rightarrow> json \<Rightarrow> js_error + acceptance_verification_entry" where
  "validate_entry index v =
     (let name = index_path ''entries'' index in
      and_then (vplan_object v name entry_keys) (\<lambda>entry.
      and_then (vplan_text (js_get entry ''id'') (name @ ''.id'') 100) (\<lambda>i.
      if \<not> entry_id_format i then Inl (vplan_error (name @ ''.id is invalid''))
      else (case js_get entry ''environment'' of
        JStr env \<Rightarrow>
          if env \<notin> set verificationEnvironments then
            Inl (vplan_error (name @ ''.environment is invalid''))
          else
          and_then (vplan_text (js_get entry ''successCondition'') (name @ ''.successCondition'') 2000)
            (\<lambda>cond.
          if vague_condition cond then
            Inl (vplan_error (name @ ''.successCondition must be deterministic''))
          else (case safe_integer (js_get entry ''timeoutMs'') of
            None \<Rightarrow> Inl (vplan_error (name @ ''.timeoutMs is invalid''))
          | Some ms \<Rightarrow>
              if ms < 1 \<or> ms > 86400000 then Inl (vplan_error (name @ ''.timeoutMs is invalid''))
              else
              and_then (vplan_text (js_get entry ''criterionRef'') (name @ ''.criterionRef'') 200) (\<lambda>ref.
              and_then (validateStrategy (js_get entry ''strategy'') (name @ ''.strategy'')) (\<lambda>st.
              and_then (vplan_text (js_get entry ''responsibleParty'') (name @ ''.responsibleParty'') 200)
                (\<lambda>party.
              Inr \<lparr>entry_id = i, entry_criterionRef = ref, environment = env, strategy = st,
                   successCondition = cond, timeoutMs = ms, responsibleParty = party\<rparr>)))))
      | _ \<Rightarrow> Inl (vplan_error (name @ ''.environment is invalid''))))))"

definition validateAcceptanceVerificationPlanDraft ::
  "json \<Rightarrow> js_error + acceptance_verification_entry list" where
  "validateAcceptanceVerificationPlanDraft v =
     and_then (vplan_object v ''verificationPlan'' [''schemaVersion'', ''entries'']) (\<lambda>rec.
     if js_get rec ''schemaVersion'' \<noteq> JStr acceptanceVerificationPlanDraftSchemaVersion then
       Inl (vplan_error (''schemaVersion must be '' @ acceptanceVerificationPlanDraftSchemaVersion))
     else (case js_get rec ''entries'' of
       JArr vs \<Rightarrow>
         if length vs < 1 \<or> length vs > 50 then
           Inl (vplan_error ''entries must be non-empty and bounded'')
         else and_then (map_try validate_entry 0 vs) (\<lambda>es.
           if has_duplicates (map entry_id es) then Inl (vplan_error ''entry IDs must be unique'')
           else Inr es)
     | _ \<Rightarrow> Inl (vplan_error ''entries must be non-empty and bounded'')))"

section \<open>Compilation\<close>

record 'text compile_plan_input =
  in_id :: string
  in_organizationId :: string
  in_projectId :: string
  in_goalId :: string
  in_goalVersion :: nat
  in_issuePlanId :: string
  in_issuePlanVersion :: nat
  in_revision :: nat
  in_previousPlanId :: "string option"
  criteria :: "'text goal_acceptance_criterion list"
  draft :: json
  availableReferences :: verification_reference_catalog
  in_compiledAt :: string

text \<open>\<open>availableReferences[type]\<close>: the property key is the text of the type.\<close>

definition catalog_of :: "verification_reference_catalog \<Rightarrow> json \<Rightarrow> string list" where
  "catalog_of c type =
     (if js_String type = ''command'' then catalog_command c
      else if js_String type = ''query'' then catalog_query c
      else catalog_artifact c)"

fun check_references ::
  "verification_reference_catalog \<Rightarrow> acceptance_verification_entry list \<Rightarrow> js_error + unit" where
  "check_references c [] = Inr ()"
| "check_references c (e # es) =
     (case strategy e of
        Manual i \<Rightarrow> check_references c es
      | Referenced type ref \<Rightarrow>
          if ref \<notin> set (catalog_of c type) then
            Inl (vplan_error (''unknown '' @ js_String type @ '' reference '' @ ref))
          else check_references c es)"

definition strategy_json :: "verification_strategy \<Rightarrow> json" where
  "strategy_json s =
     (case s of
        Referenced type ref \<Rightarrow> JObj [(''type'', type), (''reference'', JStr ref)]
      | Manual i \<Rightarrow> JObj [(''type'', JStr ''manual''), (''instructions'', JStr i),
          (''requiredRole'', JStr ''approver'')])"

definition entry_json :: "acceptance_verification_entry \<Rightarrow> json" where
  "entry_json e = JObj [(''id'', JStr (entry_id e)), (''criterionRef'', JStr (entry_criterionRef e)),
     (''environment'', JStr (environment e)), (''strategy'', strategy_json (strategy e)),
     (''successCondition'', JStr (successCondition e)), (''timeoutMs'', JInt (timeoutMs e)),
     (''responsibleParty'', JStr (responsibleParty e))]"

definition nullable :: "string option \<Rightarrow> json" where
  "nullable s = (case s of None \<Rightarrow> JNull | Some t \<Rightarrow> JStr t)"

text \<open>The object \<open>base\<close>: all fields of the plan but its digest.\<close>

definition plan_base_json :: "acceptance_verification_plan \<Rightarrow> json" where
  "plan_base_json p = JObj [
     (''schemaVersion'', JStr acceptanceVerificationPlanSchemaVersion),
     (''id'', JStr (plan_id p)), (''organizationId'', JStr (plan_organizationId p)),
     (''projectId'', JStr (plan_projectId p)), (''goalId'', JStr (plan_goalId p)),
     (''goalVersion'', JInt (int (plan_goalVersion p))),
     (''issuePlanId'', JStr (plan_issuePlanId p)),
     (''issuePlanVersion'', JInt (int (plan_issuePlanVersion p))),
     (''revision'', JInt (int (plan_revision p))), (''previousPlanId'', nullable (previousPlanId p)),
     (''entries'', JArr (map entry_json (entries p))),
     (''compilation'', JObj [(''valid'', JBool True),
        (''coveredCriterionRefs'', texts_json (coveredCriterionRefs p))]),
     (''compiledAt'', JStr (compiledAt p)), (''version'', JInt (int (plan_version p)))]"

definition plan_base ::
  "'text compile_plan_input \<Rightarrow> acceptance_verification_entry list \<Rightarrow> acceptance_verification_plan" where
  "plan_base input es = \<lparr>
     plan_id = in_id input, plan_organizationId = in_organizationId input,
     plan_projectId = in_projectId input, plan_goalId = in_goalId input,
     plan_goalVersion = in_goalVersion input, plan_issuePlanId = in_issuePlanId input,
     plan_issuePlanVersion = in_issuePlanVersion input, plan_revision = in_revision input,
     previousPlanId = in_previousPlanId input, entries = es,
     coveredCriterionRefs =
       map criterion_id (sort_by (\<lambda>a b. position a \<le> position b) (criteria input)),
     digest = '''', compiledAt = in_compiledAt input, plan_version = 1\<rparr>"

text \<open>\<open>sha256\<close> stands for the digest of the Web Cryptography API in hexadecimal.\<close>

definition compileAcceptanceVerificationPlan ::
  "(string \<Rightarrow> string) \<Rightarrow> (string \<Rightarrow> string \<Rightarrow> bool) \<Rightarrow> 'text compile_plan_input \<Rightarrow>
   js_error + acceptance_verification_plan" where
  "compileAcceptanceVerificationPlan sha256 lc input =
     and_then (validateAcceptanceVerificationPlanDraft (draft input)) (\<lambda>es.
     if sort (map entry_criterionRef es) \<noteq> sort (map criterion_id (criteria input)) then
       Inl (vplan_error ''every AcceptanceCriterion must be covered exactly once'')
     else
     and_then (check_references (availableReferences input) es) (\<lambda>_.
     let base = plan_base input es in
     Inr (base\<lparr>digest := sha256 (canonicalJson lc (plan_base_json base))\<rparr>)))"

section \<open>Accepted drafts\<close>

definition clean_strategy :: "verification_strategy \<Rightarrow> bool" where
  "clean_strategy s \<longleftrightarrow>
     (case s of
        Referenced type ref \<Rightarrow> js_String type \<in> set referenceTypes \<and> clean_text 1000 ref
      | Manual i \<Rightarrow> clean_text 4000 i)"

definition clean_entry :: "acceptance_verification_entry \<Rightarrow> bool" where
  "clean_entry e \<longleftrightarrow>
     clean_text 100 (entry_id e) \<and> entry_id_format (entry_id e) \<and>
     clean_text 200 (entry_criterionRef e) \<and> environment e \<in> set verificationEnvironments \<and>
     clean_strategy (strategy e) \<and> clean_text 2000 (successCondition e) \<and>
     \<not> vague_condition (successCondition e) \<and> 1 \<le> timeoutMs e \<and> timeoutMs e \<le> 86400000 \<and>
     clean_text 200 (responsibleParty e)"

definition clean_entries :: "acceptance_verification_entry list \<Rightarrow> bool" where
  "clean_entries es \<longleftrightarrow> es \<noteq> [] \<and> length es \<le> 50 \<and> distinct (map entry_id es) \<and>
     list_all clean_entry es"

definition vplan_draft_json :: "acceptance_verification_entry list \<Rightarrow> json" where
  "vplan_draft_json es = JObj [(''schemaVersion'', JStr acceptanceVerificationPlanDraftSchemaVersion),
     (''entries'', JArr (map entry_json es))]"

lemma validateStrategy_clean: "validateStrategy v name = Inr s \<Longrightarrow> clean_strategy s"
  by (auto simp: validateStrategy_def Let_def result_simps clean_strategy_def
      split: json.splits if_splits dest: bounded_string_clean)

lemma not_manual: "js_String type \<in> set referenceTypes \<Longrightarrow> type \<noteq> JStr ''manual''"
  by (auto simp: referenceTypes_def)

lemma validateStrategy_encode: "clean_strategy s \<Longrightarrow> validateStrategy (strategy_json s) name = Inr s"
  using not_manual
  by (cases s)
    (auto simp: clean_strategy_def strategy_json_def validateStrategy_def Let_def closed_object_exact)

lemma case_JStr_Inr:
  "(case v of JStr s \<Rightarrow> f s | _ \<Rightarrow> Inl e) = Inr r \<longleftrightarrow> (\<exists>s. v = JStr s \<and> f s = Inr r)"
  by (cases v) auto

lemma validate_entry_clean: "validate_entry i v = Inr e \<Longrightarrow> clean_entry e"
  by (auto simp: validate_entry_def Let_def result_simps clean_entry_def not_less not_le
      dest: bounded_string_clean validateStrategy_clean)

lemma safe_integer_timeout: "1 \<le> ms \<Longrightarrow> ms \<le> 86400000 \<Longrightarrow> safe_integer (JInt ms) = Some ms"
  by (simp add: safe_integer_def)

lemma validate_entry_encode: "clean_entry e \<Longrightarrow> validate_entry i (entry_json e) = Inr e"
  by (simp add: clean_entry_def validate_entry_def Let_def entry_json_def closed_object_exact
      entry_keys_def validateStrategy_encode safe_integer_timeout)

lemma validated_entries_clean:
  assumes "validateAcceptanceVerificationPlanDraft v = Inr es"
  shows "clean_entries es"
proof -
  from assms obtain vs where len: "1 \<le> length vs" "length vs \<le> 50"
    and m: "map_try validate_entry 0 vs = Inr es" and d: "distinct (map entry_id es)"
    by (auto simp: validateAcceptanceVerificationPlanDraft_def result_simps not_less Suc_le_eq)
  have "\<forall>e\<in>set es. clean_entry e"
    by (rule map_try_all[OF m]) (rule validate_entry_clean)
  with len d map_try_length[OF m] show ?thesis by (auto simp: clean_entries_def list_all_iff)
qed

lemma clean_entries_accepted:
  assumes "clean_entries es"
  shows "validateAcceptanceVerificationPlanDraft (vplan_draft_json es) = Inr es"
proof -
  have "map_try validate_entry 0 (map entry_json es) = Inr es"
    using assms by (intro map_try_encode validate_entry_encode) (simp add: clean_entries_def list_all_iff)
  with assms show ?thesis
    by (simp add: validateAcceptanceVerificationPlanDraft_def vplan_draft_json_def closed_object_exact
        clean_entries_def Suc_le_eq)
qed

section \<open>Compiled plans\<close>

lemma check_references_Inr:
  "check_references c es = Inr u \<longleftrightarrow>
     (\<forall>e\<in>set es. \<forall>type ref. strategy e = Referenced type ref \<longrightarrow> ref \<in> set (catalog_of c type))"
  by (induction es) (auto split: verification_strategy.splits)

lemma compile_Inr:
  "compileAcceptanceVerificationPlan sha256 lc input = Inr p \<longleftrightarrow>
     (\<exists>es. validateAcceptanceVerificationPlanDraft (draft input) = Inr es \<and>
        mset (map entry_criterionRef es) = mset (map criterion_id (criteria input)) \<and>
        check_references (availableReferences input) es = Inr () \<and>
        p = (plan_base input es)\<lparr>digest := sha256 (canonicalJson lc (plan_base_json (plan_base input es)))\<rparr>)"
  by (auto simp: compileAcceptanceVerificationPlan_def and_then_eq_Inr Let_def sort_eq_iff_mset)

lemma plan_base_json_digest [simp]: "plan_base_json (p\<lparr>digest := d\<rparr>) = plan_base_json p"
  by (simp add: plan_base_json_def)

text \<open>
  Property C23. The validator returns exactly the drafts in normal form and accepts each of them,
  written as a value, unchanged. A plan is compiled exactly when the draft is valid, its entries
  name the Goal's criteria, each as often as the Goal has it, and every reference of a command,
  query or artifact is in the catalog of its type. The plan keeps the entries, lists the criteria
  by position, and carries the digest of the canonical text of its other fields; where the
  criteria have distinct ids, each is verified by exactly one entry.
\<close>

theorem compiled_plan_covers_criteria:
  "((\<exists>v. validateAcceptanceVerificationPlanDraft v = Inr es) \<longleftrightarrow> clean_entries es) \<and>
   (clean_entries es \<longleftrightarrow> validateAcceptanceVerificationPlanDraft (vplan_draft_json es) = Inr es) \<and>
   ((\<exists>p. compileAcceptanceVerificationPlan sha256 lc input = Inr p) \<longleftrightarrow>
      (\<exists>es. validateAcceptanceVerificationPlanDraft (draft input) = Inr es \<and>
        mset (map entry_criterionRef es) = mset (map criterion_id (criteria input)) \<and>
        (\<forall>e\<in>set es. \<forall>type ref. strategy e = Referenced type ref \<longrightarrow>
           ref \<in> set (catalog_of (availableReferences input) type)))) \<and>
   (compileAcceptanceVerificationPlan sha256 lc input = Inr p \<longrightarrow>
      validateAcceptanceVerificationPlanDraft (draft input) = Inr (entries p) \<and>
      digest p = sha256 (canonicalJson lc (plan_base_json p)) \<and>
      coveredCriterionRefs p = map criterion_id (sort_by (\<lambda>a b. position a \<le> position b) (criteria input)) \<and>
      (distinct (map criterion_id (criteria input)) \<longrightarrow>
         (\<forall>c\<in>set (criteria input). \<exists>!e. e \<in> set (entries p) \<and> entry_criterionRef e = criterion_id c)))"
proof (intro conjI)
  show "(\<exists>v. validateAcceptanceVerificationPlanDraft v = Inr es) \<longleftrightarrow> clean_entries es"
    "clean_entries es \<longleftrightarrow> validateAcceptanceVerificationPlanDraft (vplan_draft_json es) = Inr es"
    using validated_entries_clean clean_entries_accepted by blast+
  show "(\<exists>p. compileAcceptanceVerificationPlan sha256 lc input = Inr p) \<longleftrightarrow>
      (\<exists>es. validateAcceptanceVerificationPlanDraft (draft input) = Inr es \<and>
        mset (map entry_criterionRef es) = mset (map criterion_id (criteria input)) \<and>
        (\<forall>e\<in>set es. \<forall>type ref. strategy e = Referenced type ref \<longrightarrow>
           ref \<in> set (catalog_of (availableReferences input) type)))"
    unfolding compile_Inr check_references_Inr by blast
  show "compileAcceptanceVerificationPlan sha256 lc input = Inr p \<longrightarrow>
      validateAcceptanceVerificationPlanDraft (draft input) = Inr (entries p) \<and>
      digest p = sha256 (canonicalJson lc (plan_base_json p)) \<and>
      coveredCriterionRefs p = map criterion_id (sort_by (\<lambda>a b. position a \<le> position b) (criteria input)) \<and>
      (distinct (map criterion_id (criteria input)) \<longrightarrow>
         (\<forall>c\<in>set (criteria input). \<exists>!e. e \<in> set (entries p) \<and> entry_criterionRef e = criterion_id c))"
  proof
    assume "compileAcceptanceVerificationPlan sha256 lc input = Inr p"
    then obtain es where es: "validateAcceptanceVerificationPlanDraft (draft input) = Inr es"
      and ms: "mset (map entry_criterionRef es) = mset (map criterion_id (criteria input))"
      and p: "p = (plan_base input es)\<lparr>digest := sha256 (canonicalJson lc (plan_base_json (plan_base input es)))\<rparr>"
      unfolding compile_Inr by blast
    have ep: "entries p = es" by (simp add: p plan_base_def)
    have "\<exists>!e. e \<in> set es \<and> entry_criterionRef e = criterion_id c"
      if d: "distinct (map criterion_id (criteria input))" and c: "c \<in> set (criteria input)" for c
    proof -
      have de: "distinct (map entry_criterionRef es)" using d ms mset_eq_imp_distinct_iff by blast
      have "criterion_id c \<in> set (map entry_criterionRef es)"
        using c mset_eq_setD[OF ms] by (metis image_eqI set_map)
      then obtain e where "e \<in> set es" "entry_criterionRef e = criterion_id c" by auto
      with de show ?thesis by (metis distinct_map inj_onD)
    qed
    with es ep show "validateAcceptanceVerificationPlanDraft (draft input) = Inr (entries p) \<and>
      digest p = sha256 (canonicalJson lc (plan_base_json p)) \<and>
      coveredCriterionRefs p = map criterion_id (sort_by (\<lambda>a b. position a \<le> position b) (criteria input)) \<and>
      (distinct (map criterion_id (criteria input)) \<longrightarrow>
         (\<forall>c\<in>set (criteria input). \<exists>!e. e \<in> set (entries p) \<and> entry_criterionRef e = criterion_id c))"
      by (simp add: p) (simp add: plan_base_def)
  qed
qed

definition sample_entry :: acceptance_verification_entry where
  "sample_entry = \<lparr>entry_id = ''e1'', entry_criterionRef = ''A1'', environment = ''test'',
     strategy = Referenced (JStr ''command'') ''make test'', successCondition = ''exit code 0'',
     timeoutMs = 60000, responsibleParty = ''ci''\<rparr>"

definition sample_compile_input :: "string compile_plan_input" where
  "sample_compile_input = \<lparr>in_id = ''v1'', in_organizationId = ''o'', in_projectId = ''p'',
     in_goalId = ''g'', in_goalVersion = 3, in_issuePlanId = ''i1'', in_issuePlanVersion = 1,
     in_revision = 1, in_previousPlanId = None,
     criteria = [\<lparr>criterion_id = ''A1'', position = 1, criterion_statement = ''Works'',
       criterion_version = 1\<rparr>],
     draft = vplan_draft_json [sample_entry],
     availableReferences = \<lparr>catalog_command = [''make test''], catalog_query = [],
       catalog_artifact = []\<rparr>, in_compiledAt = ''2026-01-01''\<rparr>"

lemma sample_entries_clean: "clean_entries [sample_entry]"
  by (simp add: clean_entries_def clean_entry_def sample_entry_def clean_text_def trim_def
      is_space_def is_lower_def is_digit_def verificationEnvironments_def clean_strategy_def
      referenceTypes_def vague_condition_def lower_def lower_char_def Let_def)

lemma sample_compiles:
  "compileAcceptanceVerificationPlan sha256 lc sample_compile_input =
     Inr ((plan_base sample_compile_input [sample_entry])\<lparr>digest :=
       sha256 (canonicalJson lc (plan_base_json (plan_base sample_compile_input [sample_entry])))\<rparr>)"
proof -
  have "validateAcceptanceVerificationPlanDraft (draft sample_compile_input) = Inr [sample_entry]"
    using clean_entries_accepted[OF sample_entries_clean] by (simp add: sample_compile_input_def)
  then show ?thesis
    by (simp add: compileAcceptanceVerificationPlan_def Let_def)
      (simp add: sample_compile_input_def sample_entry_def catalog_of_def)
qed

theorem compiled_plan_covers_criteria_witness:
  "\<exists>p. compileAcceptanceVerificationPlan (\<lambda>t. t) (\<le>) sample_compile_input = Inr p \<and>
     (\<exists>!e. e \<in> set (entries p) \<and> entry_criterionRef e = ''A1'')"
proof -
  obtain p where p: "compileAcceptanceVerificationPlan (\<lambda>t. t) (\<le>) sample_compile_input = Inr p"
    using sample_compiles by blast
  have "distinct (map criterion_id (criteria sample_compile_input))"
    and c: "criteria sample_compile_input = [\<lparr>criterion_id = ''A1'', position = 1,
       criterion_statement = ''Works'', criterion_version = 1\<rparr>]"
    by (simp_all add: sample_compile_input_def)
  with p compiled_plan_covers_criteria[of "[]" "\<lambda>t. t" "(\<le>)" sample_compile_input p]
  have "\<forall>c\<in>set (criteria sample_compile_input).
      \<exists>!e. e \<in> set (entries p) \<and> entry_criterionRef e = criterion_id c" by blast
  with c p show ?thesis by auto
qed

section \<open>What the digest identifies\<close>

lemma same_json_fields:
  assumes "map fst fs = map fst gs" and "distinct (map fst fs)"
  shows "same_json (JObj fs) (JObj gs) \<longleftrightarrow> list_all2 (\<lambda>f g. same_json (snd f) (snd g)) fs gs"
proof -
  have len: "length fs = length gs" using assms(1) by (metis length_map)
  have key: "fst (fs ! i) = fst (gs ! i)" if "i < length gs" for i
    using assms(1) that len by (metis nth_map)
  have dg: "distinct (map fst gs)" using assms by simp
  have f: "map_of fs (fst (fs ! i)) = Some (snd (fs ! i))" if "i < length fs" for i
    using assms(2) that by (metis map_of_eq_Some_iff nth_mem prod.collapse)
  have g: "map_of gs (fst (fs ! i)) = Some (snd (gs ! i))" if "i < length fs" for i
    using dg that key len by (metis map_of_eq_Some_iff nth_mem prod.collapse)
  show ?thesis
  proof
    assume "same_json (JObj fs) (JObj gs)"
    then have "rel_option same_json (map_of fs k) (map_of gs k)" for k
      by (auto simp: same_json_simps)
    then have "rel_option same_json (map_of fs (fst (fs ! i))) (map_of gs (fst (fs ! i)))" for i
      by blast
    then have "same_json (snd (fs ! i)) (snd (gs ! i))" if "i < length fs" for i
      using f[OF that] g[OF that] by (metis option.rel_inject(2))
    with len show "list_all2 (\<lambda>f g. same_json (snd f) (snd g)) fs gs"
      by (simp add: list_all2_conv_all_nth)
  next
    assume l: "list_all2 (\<lambda>f g. same_json (snd f) (snd g)) fs gs"
    have "rel_option same_json (map_of fs k) (map_of gs k)" for k
    proof (cases "k \<in> fst ` set fs")
      case True
      then obtain i where i: "i < length fs" "k = fst (fs ! i)" by (metis image_iff in_set_conv_nth)
      with l len show ?thesis by (simp add: f g list_all2_conv_all_nth)
    next
      case False
      moreover have "fst ` set fs = fst ` set gs" using assms(1) by (metis set_map)
      ultimately show ?thesis by (metis map_of_eq_None_iff option.rel_intros(1))
    qed
    then show "same_json (JObj fs) (JObj gs)" by (simp add: same_json_simps)
  qed
qed

lemma same_texts_json: "same_json (texts_json a) (texts_json b) \<longleftrightarrow> a = b"
proof -
  have "list_all2 same_json (map JStr a) (map JStr b) \<longleftrightarrow> a = b"
    by (induction a b rule: list_induct2') (auto simp: same_json_simps)
  then show ?thesis by (simp add: texts_json_def same_json_simps)
qed

text \<open>Strategies whose type is a text, which the interface promises.\<close>

definition text_types :: "acceptance_verification_entry list \<Rightarrow> bool" where
  "text_types es \<longleftrightarrow> (\<forall>e\<in>set es. \<forall>type ref. strategy e = Referenced type ref \<longrightarrow>
     (\<exists>s\<in>set referenceTypes. type = JStr s))"


lemma text_type_strategy:
  "text_types es \<Longrightarrow> e \<in> set es \<Longrightarrow>
     (\<exists>s ref. s \<noteq> ''manual'' \<and> strategy e = Referenced (JStr s) ref) \<or> (\<exists>i. strategy e = Manual i)"
proof (cases "strategy e")
  case (Referenced type ref)
  assume "text_types es" "e \<in> set es"
  with Referenced obtain s where "s \<in> set referenceTypes" "type = JStr s"
    unfolding text_types_def by blast
  with Referenced show ?thesis by (auto simp: referenceTypes_def)
qed simp

lemma same_entry_json:
  assumes "text_types es" "text_types fs" "a \<in> set es" "b \<in> set fs"
  shows "same_json (entry_json a) (entry_json b) \<longleftrightarrow> a = b"
proof -
  have strat: "same_json (strategy_json (strategy a)) (strategy_json (strategy b)) \<longleftrightarrow> strategy a = strategy b"
  proof -
    have different: "\<not> same_json (JObj [(''type'', JStr s), (''reference'', r)])
        (JObj [(''type'', JStr t), (''instructions'', i), (''requiredRole'', q)])" if "s \<noteq> t" for s t r i q
      using that by (auto simp: same_json_simps)
    have different': "\<not> same_json (JObj [(''type'', JStr t), (''instructions'', i), (''requiredRole'', q)])
        (JObj [(''type'', JStr s), (''reference'', r)])" if "s \<noteq> t" for s t r i q
      using that by (auto simp: same_json_simps)
    show ?thesis
      using text_type_strategy[OF assms(1,3)] text_type_strategy[OF assms(2,4)] different different'
      by (auto simp: strategy_json_def same_json_fields same_json_simps(4))
  qed
  show ?thesis
    unfolding entry_json_def
    by (subst same_json_fields) (auto simp: same_json_simps strat intro: acceptance_verification_entry.equality)
qed

lemma plain_entry_json:
  assumes "text_types es" "e \<in> set es"
  shows "plain_json (entry_json e)"
  using text_type_strategy[OF assms]
  by (auto simp: entry_json_def strategy_json_def)

lemma plain_plan_base_json: "text_types (entries p) \<Longrightarrow> plain_json (plan_base_json p)"
  using plain_entry_json
  by (auto simp: plan_base_json_def nullable_def texts_json_def list_all_iff split: option.splits)

lemma same_entries_json:
  assumes "text_types es" "text_types fs"
  shows "list_all2 same_json (map entry_json es) (map entry_json fs) \<longleftrightarrow> es = fs"
proof -
  have "list_all2 same_json (map entry_json es) (map entry_json fs) \<longleftrightarrow>
      list_all2 (\<lambda>a b. same_json (entry_json a) (entry_json b)) es fs"
    by (simp add: list.rel_map)
  also have "\<dots> \<longleftrightarrow> list_all2 (=) es fs"
    by (rule list.rel_cong_simp) (simp_all add: simp_implies_def same_entry_json[OF assms])
  finally show ?thesis by (simp add: list.rel_eq)
qed

lemma same_nullable: "same_json (nullable a) (nullable b) \<longleftrightarrow> a = b"
  by (cases a; cases b) (auto simp: nullable_def same_json_simps)

lemma same_plan_base_json:
  assumes "text_types (entries p)" "text_types (entries q)"
    and "same_json (plan_base_json p) (plan_base_json q)"
  shows "p\<lparr>digest := ''''\<rparr> = q\<lparr>digest := ''''\<rparr>"
proof -
  have "same_json (JObj [(''valid'', JBool True), (''coveredCriterionRefs'', texts_json a)])
      (JObj [(''valid'', JBool True), (''coveredCriterionRefs'', texts_json b)]) \<longleftrightarrow> a = b" for a b
    by (subst same_json_fields) (simp_all add: same_texts_json same_json_simps)
  with assms(3) show ?thesis
    unfolding plan_base_json_def
    by (subst (asm) same_json_fields)
      (simp_all add: same_json_simps(1-5) same_nullable same_entries_json[OF assms(1,2)])
qed



end
