(* ===== verification/Goal_Verifier.thy ===== *)
theory Goal_Verifier
  imports Goal_Contract Json_Schema
begin

text \<open>
  \<^verbatim>\<open>domain/goal-verification.ts\<close>: the data of a Goal verification and the validator of an
  independent verifier's output against the Goal. The lemmas show that an accepted output gives
  one verdict for every criterion, non-goal and constraint of the Goal.

  Verdicts and severities are checked by their text; only those of non-goals and constraints are
  replaced by it, so the others stay values of unknown type.
\<close>

section \<open>Data\<close>

definition goalVerifierOutputSchemaVersion :: string where
  "goalVerifierOutputSchemaVersion = ''goal-verifier-output.v1''"

definition verdicts :: "string list" where
  "verdicts = [''passed'', ''failed'', ''needs_manual'']"

record criterion_verdict =
  verdict_criterionRef :: string
  criterion_verdict :: json
  verdict_evidenceRefs :: "string list"
  verdict_rationale :: string

record boundary_verdict =
  boundary_statement :: string
  boundary_verdict :: string
  boundary_rationale :: string

record regression_risk =
  severity :: json
  risk_description :: string
  risk_evidenceRefs :: "string list"

record goal_verifier_output =
  overallVerdict :: json
  criterion_verdicts :: "criterion_verdict list"
  nonGoal_verdicts :: "boundary_verdict list"
  constraint_verdicts :: "boundary_verdict list"
  regressionRisks :: "regression_risk list"

section \<open>The validator\<close>

definition verifier_object :: "json \<Rightarrow> string \<Rightarrow> string list \<Rightarrow> js_error + (string \<times> json) list" where
  "verifier_object v name keys =
     (case v of
        JObj fs \<Rightarrow>
          if list_ex (\<lambda>k. k \<notin> set keys) (map fst fs) \<or> list_ex (\<lambda>k. k \<notin> set (map fst fs)) keys
          then Inl (GoalVerifierContractError (name @ '' has an invalid shape''))
          else Inr fs
      | _ \<Rightarrow> Inl (GoalVerifierContractError (name @ '' must be an object'')))"

abbreviation verifier_text :: "json \<Rightarrow> string \<Rightarrow> nat \<Rightarrow> js_error + string" where
  "verifier_text \<equiv> bounded_string GoalVerifierContractError"

abbreviation verifier_texts :: "json \<Rightarrow> string \<Rightarrow> js_error + string list" where
  "verifier_texts v name \<equiv> string_array GoalVerifierContractError '' must be a bounded list''
     '' contains duplicates'' 1000 v name 500"

definition contract_error :: "string \<Rightarrow> js_error + 'a" where
  "contract_error message = Inl (GoalVerifierContractError message)"

definition verify_criterion :: "nat \<Rightarrow> json \<Rightarrow> js_error + criterion_verdict" where
  "verify_criterion index v =
     (let name = index_path ''criteria'' index in
      and_then (verifier_object v name [''criterionRef'', ''verdict'', ''evidenceRefs'', ''rationale'']) (\<lambda>item.
      if js_String (js_get item ''verdict'') \<notin> set verdicts then
        contract_error (name @ ''.verdict is invalid'')
      else
      and_then (verifier_text (js_get item ''criterionRef'') (name @ ''.criterionRef'') 200) (\<lambda>ref.
      and_then (verifier_texts (js_get item ''evidenceRefs'') (name @ ''.evidenceRefs'')) (\<lambda>ev.
      and_then (verifier_text (js_get item ''rationale'') (name @ ''.rationale'') 8000) (\<lambda>ra.
      Inr \<lparr>verdict_criterionRef = ref, criterion_verdict = js_get item ''verdict'',
           verdict_evidenceRefs = ev, verdict_rationale = ra\<rparr>)))))"

definition verify_boundary_item :: "string \<Rightarrow> string list \<Rightarrow> nat \<Rightarrow> json \<Rightarrow> js_error + boundary_verdict" where
  "verify_boundary_item name allowed index v =
     (let path = index_path name index in
      and_then (verifier_object v path [''statement'', ''verdict'', ''rationale'']) (\<lambda>item.
      if js_String (js_get item ''verdict'') \<notin> set allowed then
        contract_error (path @ ''.verdict is invalid'')
      else
      and_then (verifier_text (js_get item ''statement'') (path @ ''.statement'') 2000) (\<lambda>st.
      and_then (verifier_text (js_get item ''rationale'') (path @ ''.rationale'') 8000) (\<lambda>ra.
      Inr \<lparr>boundary_statement = st, boundary_verdict = js_String (js_get item ''verdict''),
           boundary_rationale = ra\<rparr>))))"

definition boundary ::
  "string \<Rightarrow> json list \<Rightarrow> string list \<Rightarrow> string list \<Rightarrow> js_error + boundary_verdict list" where
  "boundary name vs expected allowed =
     and_then (map_try (verify_boundary_item name allowed) 0 vs) (\<lambda>items.
     if sort (map boundary_statement items) \<noteq> sort expected then
       contract_error (name @ '' coverage is incomplete'')
     else Inr items)"

definition severities :: "string list" where
  "severities = [''low'', ''medium'', ''high'', ''critical'']"

definition verify_risk :: "nat \<Rightarrow> json \<Rightarrow> js_error + regression_risk" where
  "verify_risk index v =
     (let name = index_path ''regressionRisks'' index in
      and_then (verifier_object v name [''severity'', ''description'', ''evidenceRefs'']) (\<lambda>item.
      if js_String (js_get item ''severity'') \<notin> set severities then
        contract_error (name @ ''.severity is invalid'')
      else
      and_then (verifier_text (js_get item ''description'') (name @ ''.description'') 8000) (\<lambda>d.
      and_then (verifier_texts (js_get item ''evidenceRefs'') (name @ ''.evidenceRefs'')) (\<lambda>ev.
      Inr \<lparr>severity = js_get item ''severity'', risk_description = d, risk_evidenceRefs = ev\<rparr>))))"

definition nonGoal_names :: "string list" where
  "nonGoal_names = [''preserved'', ''violated'', ''unknown'']"

definition constraint_names :: "string list" where
  "constraint_names = [''satisfied'', ''violated'', ''unknown'']"

definition output_keys :: "string list" where
  "output_keys = [''schemaVersion'', ''overallVerdict'', ''criteria'', ''nonGoals'', ''constraints'',
     ''regressionRisks'']"

definition validateGoalVerifierOutput ::
  "json \<Rightarrow> string goal_contract \<Rightarrow> js_error + goal_verifier_output" where
  "validateGoalVerifierOutput v g =
     and_then (verifier_object v ''verifierOutput'' output_keys) (\<lambda>rec.
     if js_get rec ''schemaVersion'' \<noteq> JStr goalVerifierOutputSchemaVersion \<or>
        js_String (js_get rec ''overallVerdict'') \<notin> set verdicts then
       contract_error ''Verifier schema version or verdict is invalid''
     else (case (js_get rec ''criteria'', js_get rec ''nonGoals'', js_get rec ''constraints'',
                 js_get rec ''regressionRisks'') of
       (JArr cs, JArr ns, JArr ks, JArr rs) \<Rightarrow>
         and_then (map_try verify_criterion 0 cs) (\<lambda>criteria.
         if sort (map verdict_criterionRef criteria) \<noteq> sort (map criterion_id (acceptanceCriteria g)) then
           contract_error ''Verifier must return exactly one verdict per AcceptanceCriterion''
         else
         and_then (boundary ''nonGoals'' ns (goal_nonGoals g) nonGoal_names) (\<lambda>nonGoals.
         and_then (boundary ''constraints'' ks (constraints g) constraint_names) (\<lambda>limits.
         and_then (map_try verify_risk 0 rs) (\<lambda>risks.
         Inr \<lparr>overallVerdict = js_get rec ''overallVerdict'', criterion_verdicts = criteria,
              nonGoal_verdicts = nonGoals, constraint_verdicts = limits, regressionRisks = risks\<rparr>))))
     | _ \<Rightarrow> contract_error ''Verifier sections must be arrays''))"

section \<open>Accepted outputs\<close>

definition clean_criterion_verdict :: "criterion_verdict \<Rightarrow> bool" where
  "clean_criterion_verdict c \<longleftrightarrow>
     clean_text 200 (verdict_criterionRef c) \<and> js_String (criterion_verdict c) \<in> set verdicts \<and>
     clean_texts 500 1000 (verdict_evidenceRefs c) \<and> clean_text 8000 (verdict_rationale c)"

definition clean_boundary :: "string list \<Rightarrow> boundary_verdict \<Rightarrow> bool" where
  "clean_boundary names b \<longleftrightarrow>
     clean_text 2000 (boundary_statement b) \<and> boundary_verdict b \<in> set names \<and>
     clean_text 8000 (boundary_rationale b)"

definition clean_risk :: "regression_risk \<Rightarrow> bool" where
  "clean_risk r \<longleftrightarrow> js_String (severity r) \<in> set severities \<and>
     clean_text 8000 (risk_description r) \<and> clean_texts 500 1000 (risk_evidenceRefs r)"

definition clean_output :: "string goal_contract \<Rightarrow> goal_verifier_output \<Rightarrow> bool" where
  "clean_output g out \<longleftrightarrow>
     js_String (overallVerdict out) \<in> set verdicts \<and>
     list_all clean_criterion_verdict (criterion_verdicts out) \<and>
     mset (map verdict_criterionRef (criterion_verdicts out)) =
       mset (map criterion_id (acceptanceCriteria g)) \<and>
     list_all (clean_boundary nonGoal_names) (nonGoal_verdicts out) \<and>
     mset (map boundary_statement (nonGoal_verdicts out)) = mset (goal_nonGoals g) \<and>
     list_all (clean_boundary constraint_names) (constraint_verdicts out) \<and>
     mset (map boundary_statement (constraint_verdicts out)) = mset (constraints g) \<and>
     list_all clean_risk (regressionRisks out)"

definition criterion_verdict_json :: "criterion_verdict \<Rightarrow> json" where
  "criterion_verdict_json c = JObj [(''criterionRef'', JStr (verdict_criterionRef c)),
     (''verdict'', criterion_verdict c), (''evidenceRefs'', texts_json (verdict_evidenceRefs c)),
     (''rationale'', JStr (verdict_rationale c))]"

definition boundary_json :: "boundary_verdict \<Rightarrow> json" where
  "boundary_json b = JObj [(''statement'', JStr (boundary_statement b)),
     (''verdict'', JStr (boundary_verdict b)), (''rationale'', JStr (boundary_rationale b))]"

definition risk_json :: "regression_risk \<Rightarrow> json" where
  "risk_json r = JObj [(''severity'', severity r), (''description'', JStr (risk_description r)),
     (''evidenceRefs'', texts_json (risk_evidenceRefs r))]"

definition output_json :: "goal_verifier_output \<Rightarrow> json" where
  "output_json out = JObj [(''schemaVersion'', JStr goalVerifierOutputSchemaVersion),
     (''overallVerdict'', overallVerdict out),
     (''criteria'', JArr (map criterion_verdict_json (criterion_verdicts out))),
     (''nonGoals'', JArr (map boundary_json (nonGoal_verdicts out))),
     (''constraints'', JArr (map boundary_json (constraint_verdicts out))),
     (''regressionRisks'', JArr (map risk_json (regressionRisks out)))]"

lemma contract_error_Inr [simp]: "contract_error m \<noteq> Inr r" "Inr r \<noteq> contract_error m"
  by (simp_all add: contract_error_def)

lemma verifier_object_exact: "map fst fs = keys \<Longrightarrow> verifier_object (JObj fs) name keys = Inr fs"
  by (auto simp: verifier_object_def list_ex_iff)

lemma if_contract_error_Inr [result_simps]:
  "(if c then contract_error m else r) = Inr b \<longleftrightarrow> \<not> c \<and> r = Inr b"
  by simp

lemma verify_criterion_clean: "verify_criterion i v = Inr c \<Longrightarrow> clean_criterion_verdict c"
  by (auto simp: verify_criterion_def Let_def result_simps clean_criterion_verdict_def
      dest: bounded_string_clean string_array_clean)

lemma verify_boundary_clean: "verify_boundary_item name names i v = Inr b \<Longrightarrow> clean_boundary names b"
  by (auto simp: verify_boundary_item_def Let_def result_simps clean_boundary_def
      dest: bounded_string_clean)

lemma verify_risk_clean: "verify_risk i v = Inr r \<Longrightarrow> clean_risk r"
  by (auto simp: verify_risk_def Let_def result_simps clean_risk_def
      dest: bounded_string_clean string_array_clean)

lemma boundary_clean:
  assumes "boundary name vs expected names = Inr items"
  shows "list_all (clean_boundary names) items \<and> mset (map boundary_statement items) = mset expected"
proof -
  from assms have m: "map_try (verify_boundary_item name names) 0 vs = Inr items"
    and e: "mset (map boundary_statement items) = mset expected"
    by (auto simp: boundary_def and_then_eq_Inr sort_eq_iff_mset split: if_splits)
  have "\<forall>b\<in>set items. clean_boundary names b"
    by (rule map_try_all[OF m]) (rule verify_boundary_clean)
  with e show ?thesis by (simp add: list_all_iff)
qed

lemma case_arrays_Inr:
  "(case (a, b, c, d) of
      (JArr cs, JArr ns, JArr ks, JArr rs) \<Rightarrow> f cs ns ks rs
    | _ \<Rightarrow> contract_error m) = Inr r \<longleftrightarrow>
   (\<exists>cs ns ks rs. a = JArr cs \<and> b = JArr ns \<and> c = JArr ks \<and> d = JArr rs \<and> f cs ns ks rs = Inr r)"
  by (cases a; simp; cases b; simp; cases c; simp; cases d; simp)

lemma validated_output_clean:
  assumes "validateGoalVerifierOutput v g = Inr out"
  shows "clean_output g out"
proof -
  from assms obtain rec cs ns ks rs criteria nonGoals limits risks where
    m: "map_try verify_criterion 0 cs = Inr criteria" "map_try verify_risk 0 rs = Inr risks"
    and b: "boundary ''nonGoals'' ns (goal_nonGoals g) nonGoal_names = Inr nonGoals"
      "boundary ''constraints'' ks (constraints g) constraint_names = Inr limits"
    and s: "sort (map verdict_criterionRef criteria) = sort (map criterion_id (acceptanceCriteria g))"
      "js_String (js_get rec ''overallVerdict'') \<in> set verdicts"
    and out: "out = \<lparr>overallVerdict = js_get rec ''overallVerdict'', criterion_verdicts = criteria,
      nonGoal_verdicts = nonGoals, constraint_verdicts = limits, regressionRisks = risks\<rparr>"
    unfolding validateGoalVerifierOutput_def and_then_eq_Inr if_contract_error_Inr case_arrays_Inr
    by blast
  have "\<forall>c\<in>set criteria. clean_criterion_verdict c"
    by (rule map_try_all[OF m(1)]) (rule verify_criterion_clean)
  moreover have "\<forall>r\<in>set risks. clean_risk r"
    by (rule map_try_all[OF m(2)]) (rule verify_risk_clean)
  ultimately show ?thesis
    using s boundary_clean[OF b(1)] boundary_clean[OF b(2)]
    by (simp add: clean_output_def out list_all_iff sort_eq_iff_mset)
qed

lemma verify_criterion_encode:
  "clean_criterion_verdict c \<Longrightarrow> verify_criterion i (criterion_verdict_json c) = Inr c"
  by (simp add: clean_criterion_verdict_def verify_criterion_def Let_def criterion_verdict_json_def
      verifier_object_exact)

lemma verify_boundary_encode:
  "clean_boundary names b \<Longrightarrow> verify_boundary_item name names i (boundary_json b) = Inr b"
  by (simp add: clean_boundary_def verify_boundary_item_def Let_def boundary_json_def
      verifier_object_exact)

lemma verify_risk_encode: "clean_risk r \<Longrightarrow> verify_risk i (risk_json r) = Inr r"
  by (simp add: clean_risk_def verify_risk_def Let_def risk_json_def verifier_object_exact)

lemma boundary_encode:
  "list_all (clean_boundary names) items \<Longrightarrow> mset (map boundary_statement items) = mset expected \<Longrightarrow>
     boundary name (map boundary_json items) expected names = Inr items"
proof -
  assume "list_all (clean_boundary names) items"
  then have "map_try (verify_boundary_item name names) 0 (map boundary_json items) = Inr items"
    by (intro map_try_encode verify_boundary_encode) (simp add: list_all_iff)
  moreover assume "mset (map boundary_statement items) = mset expected"
  ultimately show ?thesis by (simp add: boundary_def sort_eq_iff_mset)
qed

lemma clean_output_accepted:
  assumes "clean_output g out"
  shows "validateGoalVerifierOutput (output_json out) g = Inr out"
proof -
  have "map_try verify_criterion 0 (map criterion_verdict_json (criterion_verdicts out)) =
      Inr (criterion_verdicts out)"
    using assms by (intro map_try_encode verify_criterion_encode) (simp add: clean_output_def list_all_iff)
  moreover have "map_try verify_risk 0 (map risk_json (regressionRisks out)) = Inr (regressionRisks out)"
    using assms by (intro map_try_encode verify_risk_encode) (simp add: clean_output_def list_all_iff)
  moreover have "boundary ''nonGoals'' (map boundary_json (nonGoal_verdicts out)) (goal_nonGoals g)
      nonGoal_names = Inr (nonGoal_verdicts out)"
    "boundary ''constraints'' (map boundary_json (constraint_verdicts out)) (constraints g)
      constraint_names = Inr (constraint_verdicts out)"
    using assms by (auto simp: clean_output_def intro: boundary_encode)
  ultimately show ?thesis
    using assms
    by (simp add: validateGoalVerifierOutput_def output_json_def verifier_object_exact output_keys_def
        clean_output_def sort_eq_iff_mset)
qed

text \<open>
  The validator returns exactly the outputs that give one verdict for each criterion,
  non-goal and constraint of the Goal, each as often as the Goal lists it, with known verdict
  names, distinct evidence references and bounded texts, and it accepts each of them, written as
  a value, unchanged.
\<close>

theorem accepted_verifier_outputs:
  "((\<exists>v. validateGoalVerifierOutput v g = Inr out) \<longleftrightarrow> clean_output g out) \<and>
   (clean_output g out \<longleftrightarrow> validateGoalVerifierOutput (output_json out) g = Inr out)"
  using validated_output_clean clean_output_accepted by blast

end
