(* ===== verification/Published_Schemas.thy ===== *)
theory Published_Schemas
  imports Issue_Plan Spec_Artifact Planner_Clarification Acceptance_Verification Goal_Verifier
begin

text \<open>
  The JSON schemas that the modules of \<^verbatim>\<open>domain/\<close> publish to planners and verifiers, next to the
  validators that check the same outputs. The lemmas show where the validators keep what the
  schemas promise, and where they accept more.
\<close>

section \<open>The schemas\<close>

definition issue_schema :: json_schema where
  "issue_schema = closed_schema [
     (''key'', Text_schema None (Some (\<lambda>s. issue_key_format s \<and> length s \<le> 64))),
     (''title'', text_schema), (''goal'', text_schema), (''requirementRefs'', texts_schema),
     (''acceptance'', Array_schema
        (closed_schema [(''criterionRef'', text_schema), (''statement'', text_schema)]) None None),
     (''nonGoals'', texts_schema), (''dependencyCandidates'', texts_schema),
     (''expectedFiles'', texts_schema),
     (''conflictResources'', closed_schema [(''directories'', texts_schema),
        (''publicInterfaces'', texts_schema), (''databaseObjects'', texts_schema),
        (''sharedConfigurations'', texts_schema), (''landingOrder'', texts_schema)]),
     (''developmentPrompt'', Text_schema (Some 80) None),
     (''verify'', Array_schema text_schema (Some 1) None),
     (''completionEvidence'', Array_schema
        (closed_schema [(''kind'', Enum_schema (map evidence_kind_name completionEvidenceKinds)),
           (''description'', text_schema), (''required'', Boolean_schema)]) (Some 1) None)]"

definition issuePlanDraftOutputSchema :: json_schema where
  "issuePlanDraftOutputSchema = closed_schema [
     (''schemaVersion'', Const_schema issuePlanDraftSchemaVersion),
     (''issues'', Array_schema issue_schema (Some 1) (Some 100))]"

definition requirement_schema :: json_schema where
  "requirement_schema = closed_schema [(''id'', text_schema), (''statement'', text_schema),
     (''acceptanceCriterionRefs'', texts_schema)]"

definition component_schema :: json_schema where
  "component_schema = closed_schema [(''id'', text_schema), (''name'', text_schema),
     (''responsibility'', text_schema), (''requirementRefs'', texts_schema)]"

definition element_schema :: json_schema where
  "element_schema = closed_schema [(''id'', text_schema), (''title'', text_schema),
     (''kind'', Enum_schema [''architecture'', ''migration'', ''product'', ''rollback'']),
     (''description'', text_schema), (''acceptanceCriterionRefs'', texts_schema),
     (''constraintRefs'', texts_schema), (''estimatedCost'', Enum_schema [''low'', ''medium'', ''high'']),
     (''removalImpact'', text_schema), (''evidence'', texts_schema)]"

definition specBundleOutputSchema :: json_schema where
  "specBundleOutputSchema = closed_schema [
     (''schemaVersion'', Const_schema specBundleSchemaVersion),
     (''proposal'', closed_schema [(''summary'', text_schema), (''value'', text_schema),
        (''inScope'', texts_schema), (''outOfScope'', texts_schema), (''deliverySlices'', texts_schema)]),
     (''prd'', closed_schema [(''problem'', text_schema), (''users'', texts_schema),
        (''requirements'', Array_schema requirement_schema None None), (''nonGoals'', texts_schema),
        (''constraints'', texts_schema)]),
     (''architecture'', closed_schema [(''summary'', text_schema),
        (''components'', Array_schema component_schema None None), (''decisions'', texts_schema)]),
     (''migration'', closed_schema [(''required'', Boolean_schema), (''steps'', texts_schema),
        (''verification'', texts_schema)]),
     (''rollback'', closed_schema [(''triggers'', texts_schema), (''steps'', texts_schema),
        (''dataRecovery'', text_schema)]),
     (''solutionElements'', Array_schema element_schema None None)]"

definition bare_text :: json_schema where
  "bare_text = Text_schema None None"

definition fact_schema :: json_schema where
  "fact_schema = closed_schema [(''id'', bare_text), (''fact'', bare_text),
     (''basis'', Enum_schema [''goal_contract'', ''human_answer''])]"

definition uncertainty_schema :: json_schema where
  "uncertainty_schema = closed_schema [(''id'', bare_text), (''statement'', bare_text),
     (''impact'', bare_text)]"

definition question_schema :: json_schema where
  "question_schema = closed_schema [(''id'', bare_text), (''prompt'', bare_text),
     (''rationale'', bare_text), (''blockingLevel'', Enum_schema blockingLevels),
     (''answerType'', Enum_schema answerTypes),
     (''suggestedOptions'', Array_schema bare_text None None)]"

definition plannerClarificationOutputSchema :: json_schema where
  "plannerClarificationOutputSchema = closed_schema [
     (''schemaVersion'', Enum_schema [plannerClarificationSchemaVersion]),
     (''knownFacts'', Array_schema fact_schema None None),
     (''uncertainties'', Array_schema uncertainty_schema None None),
     (''questions'', Array_schema question_schema None None)]"

definition referencedStrategySchema :: json_schema where
  "referencedStrategySchema = closed_schema [
     (''type'', Enum_schema [''command'', ''query'', ''artifact'']), (''reference'', text_schema)]"

definition manualStrategySchema :: json_schema where
  "manualStrategySchema = closed_schema [(''type'', Const_schema ''manual''),
     (''instructions'', text_schema), (''requiredRole'', Const_schema ''approver'')]"

definition entry_schema :: json_schema where
  "entry_schema = closed_schema [
     (''id'', Text_schema None (Some (\<lambda>s. entry_id_format s \<and> length s \<le> 100))),
     (''criterionRef'', text_schema), (''environment'', Enum_schema verificationEnvironments),
     (''strategy'', One_of_schema [referencedStrategySchema, manualStrategySchema]),
     (''successCondition'', text_schema), (''timeoutMs'', Integer_schema 1 86400000),
     (''responsibleParty'', text_schema)]"

definition acceptanceVerificationPlanDraftOutputSchema :: json_schema where
  "acceptanceVerificationPlanDraftOutputSchema = closed_schema [
     (''schemaVersion'', Const_schema acceptanceVerificationPlanDraftSchemaVersion),
     (''entries'', Array_schema entry_schema (Some 1) (Some 50))]"

definition evidenceRefsSchema :: json_schema where
  "evidenceRefsSchema = Array_schema text_schema None (Some 500)"

definition boundary_schema :: "string list \<Rightarrow> json_schema" where
  "boundary_schema names = closed_schema [(''statement'', text_schema),
     (''verdict'', Enum_schema names), (''rationale'', text_schema)]"

definition criterion_schema :: json_schema where
  "criterion_schema = closed_schema [(''criterionRef'', text_schema),
     (''verdict'', Enum_schema verdicts), (''evidenceRefs'', evidenceRefsSchema),
     (''rationale'', text_schema)]"

definition risk_schema :: json_schema where
  "risk_schema = closed_schema [(''severity'', Enum_schema severities),
     (''description'', text_schema), (''evidenceRefs'', evidenceRefsSchema)]"

definition goalVerifierOutputSchema :: json_schema where
  "goalVerifierOutputSchema = closed_schema [
     (''schemaVersion'', Const_schema goalVerifierOutputSchemaVersion),
     (''overallVerdict'', Enum_schema verdicts),
     (''criteria'', Array_schema criterion_schema None (Some 50)),
     (''nonGoals'', Array_schema (boundary_schema nonGoal_names) None (Some 50)),
     (''constraints'', Array_schema (boundary_schema constraint_names) None (Some 50)),
     (''regressionRisks'', Array_schema risk_schema None (Some 100))]"

section \<open>Normal forms meet the schemas\<close>

named_theorems meets \<comment> \<open>normal forms that conform to a schema\<close>

declare clean_text_conforms [meets] clean_texts_conforms [meets]

lemma conforms_Enum [simp]: "conforms (Enum_schema cs) (JStr s) \<longleftrightarrow> s \<in> set cs"
  by auto

lemma clean_list_conforms [meets]: "clean_list n ss \<Longrightarrow> conforms texts_schema (texts_json ss)"
  by (auto simp: clean_list_def intro: meets)

lemma acceptance_conforms:
  "clean_acceptance a \<Longrightarrow>
     conforms (closed_schema [(''criterionRef'', text_schema), (''statement'', text_schema)]) (acceptance_json a)"
  unfolding acceptance_json_def
  by (subst conforms_closed) (auto simp: clean_acceptance_def intro: meets)

lemma evidence_conforms:
  "clean_text 2000 (description e) \<Longrightarrow>
     conforms (closed_schema [(''kind'', Enum_schema (map evidence_kind_name completionEvidenceKinds)),
       (''description'', text_schema), (''required'', Boolean_schema)]) (evidence_json e)"
  unfolding evidence_json_def
  by (subst conforms_closed; cases "evidence_kind e")
    (auto simp: completionEvidenceKinds_def intro: meets)

lemma conflicts_conforms:
  "clean_conflicts c \<Longrightarrow>
     conforms (closed_schema [(''directories'', texts_schema),
        (''publicInterfaces'', texts_schema), (''databaseObjects'', texts_schema),
        (''sharedConfigurations'', texts_schema), (''landingOrder'', texts_schema)]) (conflicts_json c)"
  unfolding conflicts_json_def
  by (subst conforms_closed) (auto simp: clean_conflicts_def intro: meets)

lemma verify_conforms:
  "clean_texts 50 2000 ss \<Longrightarrow> ss \<noteq> [] \<Longrightarrow> conforms (Array_schema text_schema (Some 1) None) (texts_json ss)"
  unfolding texts_json_def
  by (rule conforms_items) (auto simp: clean_texts_def list_all_iff Suc_le_eq intro: meets)

lemma issue_conforms:
  assumes "clean_issue d"
  shows "conforms issue_schema (issue_json d)"
proof -
  have "conforms (Array_schema (closed_schema [(''criterionRef'', text_schema), (''statement'', text_schema)])
      None None) (JArr (map acceptance_json (acceptance d)))"
    by (rule conforms_items) (use assms in \<open>auto simp: clean_issue_def list_all_iff intro: acceptance_conforms\<close>)
  moreover have "conforms (Array_schema
        (closed_schema [(''kind'', Enum_schema (map evidence_kind_name completionEvidenceKinds)),
           (''description'', text_schema), (''required'', Boolean_schema)]) (Some 1) None)
      (JArr (map evidence_json (completionEvidence d)))"
    by (rule conforms_items)
      (use assms in \<open>auto simp: clean_issue_def list_all_iff Suc_le_eq intro: evidence_conforms\<close>)
  moreover have "conforms (Text_schema None (Some (\<lambda>s. issue_key_format s \<and> length s \<le> 64))) (JStr (key d))"
    "conforms (Text_schema (Some 80) None) (JStr (developmentPrompt d))"
    using assms by (auto simp: clean_issue_def clean_text_def)
  ultimately show ?thesis
    using assms unfolding issue_schema_def issue_json_def
    by (subst conforms_closed)
      (auto simp: clean_issue_def simp del: conforms.simps One_nat_def
        intro: meets conflicts_conforms verify_conforms)
qed

lemma draft_conforms:
  assumes "clean_draft ds"
  shows "conforms issuePlanDraftOutputSchema (draft_json ds)"
proof -
  have "conforms (Array_schema issue_schema (Some 1) (Some 100)) (JArr (map issue_json ds))"
    by (rule conforms_items) (use assms in \<open>auto simp: clean_draft_def list_all_iff Suc_le_eq intro: issue_conforms\<close>)
  then show ?thesis
    unfolding issuePlanDraftOutputSchema_def draft_json_def
    by (subst conforms_closed) (simp_all del: conforms.simps, simp)
qed

text \<open>The parts of a bundle.\<close>

lemma requirement_conforms: "clean_requirement r \<Longrightarrow> conforms requirement_schema (requirement_json r)"
  unfolding requirement_schema_def requirement_json_def
  by (subst conforms_closed) (auto simp: clean_requirement_def intro: meets)

lemma component_conforms: "clean_component c \<Longrightarrow> conforms component_schema (component_json c)"
  unfolding component_schema_def component_json_def
  by (subst conforms_closed) (auto simp: clean_component_def intro: meets)

definition text_kinds :: "spec_solution_element \<Rightarrow> bool" where
  "text_kinds e \<longleftrightarrow> (\<exists>s. element_kind e = JStr s) \<and> (\<exists>s. estimatedCost e = JStr s)"

lemma element_conforms:
  "clean_element e \<Longrightarrow> text_kinds e \<Longrightarrow> conforms element_schema (element_json e)"
  unfolding element_schema_def element_json_def
  by (subst conforms_closed)
    (auto simp: clean_element_def text_kinds_def solutionElementKinds_def estimatedCosts_def
      intro: meets)

lemma element_conforms_text_kinds: "conforms element_schema (element_json e) \<Longrightarrow> text_kinds e"
  unfolding element_schema_def element_json_def
  by (subst (asm) conforms_closed) (auto simp: text_kinds_def)

lemma proposal_conforms:
  "clean_bundle b \<Longrightarrow> conforms (closed_schema [(''summary'', text_schema), (''value'', text_schema),
        (''inScope'', texts_schema), (''outOfScope'', texts_schema), (''deliverySlices'', texts_schema)])
     (proposal_json (proposal b))"
  unfolding proposal_json_def
  by (subst conforms_closed) (auto simp: clean_bundle_def intro: meets)

lemma prd_conforms:
  assumes "clean_bundle b"
  shows "conforms (closed_schema [(''problem'', text_schema), (''users'', texts_schema),
        (''requirements'', Array_schema requirement_schema None None), (''nonGoals'', texts_schema),
        (''constraints'', texts_schema)]) (prd_json (prd b))"
proof -
  have "conforms (Array_schema requirement_schema None None) (JArr (map requirement_json (requirements (prd b))))"
    by (rule conforms_items)
      (use assms in \<open>auto simp: clean_bundle_def list_all_iff intro: requirement_conforms\<close>)
  with assms show ?thesis
    unfolding prd_json_def
    by (subst conforms_closed) (auto simp: clean_bundle_def simp del: conforms.simps intro: meets)
qed

lemma architecture_conforms:
  assumes "clean_bundle b"
  shows "conforms (closed_schema [(''summary'', text_schema),
        (''components'', Array_schema component_schema None None), (''decisions'', texts_schema)])
     (architecture_json (architecture b))"
proof -
  have "conforms (Array_schema component_schema None None)
      (JArr (map component_json (components (architecture b))))"
    by (rule conforms_items)
      (use assms in \<open>auto simp: clean_bundle_def list_all_iff intro: component_conforms\<close>)
  with assms show ?thesis
    unfolding architecture_json_def
    by (subst conforms_closed) (auto simp: clean_bundle_def simp del: conforms.simps intro: meets)
qed

lemma migration_conforms:
  "clean_bundle b \<Longrightarrow> conforms (closed_schema [(''required'', Boolean_schema), (''steps'', texts_schema),
        (''verification'', texts_schema)]) (migration_json (migration b))"
  unfolding migration_json_def
  by (subst conforms_closed) (auto simp: clean_bundle_def intro: meets)

lemma rollback_conforms:
  "clean_bundle b \<Longrightarrow> conforms (closed_schema [(''triggers'', texts_schema), (''steps'', texts_schema),
        (''dataRecovery'', text_schema)]) (rollback_json (rollback b))"
  unfolding rollback_json_def
  by (subst conforms_closed) (auto simp: clean_bundle_def intro: meets)

lemma bundle_conforms_iff:
  assumes "clean_bundle b"
  shows "conforms specBundleOutputSchema (bundle_json b) \<longleftrightarrow> list_all text_kinds (solutionElements b)"
proof -
  have "conforms (Array_schema element_schema None None) (JArr (map element_json (solutionElements b))) \<longleftrightarrow>
      list_all text_kinds (solutionElements b)"
    using assms element_conforms element_conforms_text_kinds
    by (auto simp: clean_bundle_def list_all_iff)
  then show ?thesis
    unfolding specBundleOutputSchema_def bundle_json_def
    by (subst conforms_closed)
      (simp_all add: proposal_conforms prd_conforms architecture_conforms migration_conforms
        rollback_conforms assms del: conforms.simps(6,7))
qed

text \<open>The parts of a verification plan's draft.\<close>

lemma strategy_conforms:
  assumes "clean_strategy s"
  shows "conforms (One_of_schema [referencedStrategySchema, manualStrategySchema]) (strategy_json s) \<longleftrightarrow>
    (\<forall>type ref. s = Referenced type ref \<longrightarrow> (\<exists>t. type = JStr t))"
proof (cases s)
  case (Referenced type ref)
  have m: "\<not> conforms manualStrategySchema (strategy_json s)"
    by (auto simp: manualStrategySchema_def closed_schema_def strategy_json_def Referenced)
  have "conforms referencedStrategySchema (strategy_json s) \<longleftrightarrow> (\<exists>t. type = JStr t)"
    using assms unfolding referencedStrategySchema_def strategy_json_def Referenced
    by (simp, subst conforms_closed) (auto simp: clean_strategy_def referenceTypes_def intro: meets)
  with m Referenced show ?thesis by simp
next
  case (Manual i)
  have m: "\<not> conforms referencedStrategySchema (strategy_json s)"
    by (auto simp: referencedStrategySchema_def closed_schema_def strategy_json_def Manual)
  have "conforms manualStrategySchema (strategy_json s)"
    using assms unfolding manualStrategySchema_def strategy_json_def Manual
    by (simp, subst conforms_closed) (auto simp: clean_strategy_def intro: meets)
  with m Manual show ?thesis by simp
qed

lemma entry_conforms_iff:
  assumes "clean_entry e"
  shows "conforms entry_schema (entry_json e) \<longleftrightarrow>
    (\<forall>type ref. strategy e = Referenced type ref \<longrightarrow> (\<exists>t. type = JStr t))"
  using assms strategy_conforms[of "strategy e"]
  unfolding entry_schema_def entry_json_def
  by (subst conforms_closed)
    (auto simp: clean_entry_def clean_text_def simp del: conforms.simps(8) intro: meets)

lemma entries_conform_iff:
  assumes "clean_entries es"
  shows "conforms acceptanceVerificationPlanDraftOutputSchema (vplan_draft_json es) \<longleftrightarrow>
    (\<forall>e\<in>set es. \<forall>type ref. strategy e = Referenced type ref \<longrightarrow> (\<exists>t. type = JStr t))"
  using assms entry_conforms_iff
  unfolding acceptanceVerificationPlanDraftOutputSchema_def vplan_draft_json_def
  by (subst conforms_closed)
    (auto simp: clean_entries_def list_all_iff Suc_le_eq)

text \<open>The parts of a verifier's output.\<close>

lemma evidenceRefs_conforms: "clean_texts 500 1000 ss \<Longrightarrow> conforms evidenceRefsSchema (texts_json ss)"
  unfolding texts_json_def evidenceRefsSchema_def
  by (rule conforms_items) (auto simp: clean_texts_def list_all_iff intro: meets)

lemma criterion_conforms_iff:
  "clean_criterion_verdict c \<Longrightarrow>
     conforms criterion_schema (criterion_verdict_json c) \<longleftrightarrow> (\<exists>s. criterion_verdict c = JStr s)"
  unfolding criterion_schema_def criterion_verdict_json_def
  by (subst conforms_closed)
    (auto simp: clean_criterion_verdict_def intro: meets evidenceRefs_conforms)

lemma boundary_conforms: "clean_boundary names b \<Longrightarrow> conforms (boundary_schema names) (boundary_json b)"
  unfolding boundary_schema_def boundary_json_def
  by (subst conforms_closed) (auto simp: clean_boundary_def intro: meets)

lemma risk_conforms_iff:
  "clean_risk r \<Longrightarrow> conforms risk_schema (risk_json r) \<longleftrightarrow> (\<exists>s. severity r = JStr s)"
  unfolding risk_schema_def risk_json_def
  by (subst conforms_closed) (auto simp: clean_risk_def intro: meets evidenceRefs_conforms)

lemma output_conforms_iff:
  assumes "clean_output g out"
  shows "conforms goalVerifierOutputSchema (output_json out) \<longleftrightarrow>
    (\<exists>s. overallVerdict out = JStr s) \<and>
    (\<forall>c\<in>set (criterion_verdicts out). \<exists>s. criterion_verdict c = JStr s) \<and>
    (\<forall>r\<in>set (regressionRisks out). \<exists>s. severity r = JStr s) \<and>
    length (acceptanceCriteria g) \<le> 50 \<and> length (goal_nonGoals g) \<le> 50 \<and>
    length (constraints g) \<le> 50 \<and> length (regressionRisks out) \<le> 100"
proof -
  have len: "length (criterion_verdicts out) = length (acceptanceCriteria g)"
    "length (nonGoal_verdicts out) = length (goal_nonGoals g)"
    "length (constraint_verdicts out) = length (constraints g)"
    using assms unfolding clean_output_def by (metis length_map mset_eq_length)+
  have parts: "conforms (Array_schema criterion_schema None (Some 50))
      (JArr (map criterion_verdict_json (criterion_verdicts out))) \<longleftrightarrow>
        (\<forall>c\<in>set (criterion_verdicts out). \<exists>s. criterion_verdict c = JStr s) \<and> length (acceptanceCriteria g) \<le> 50"
    "conforms (Array_schema risk_schema None (Some 100)) (JArr (map risk_json (regressionRisks out))) \<longleftrightarrow>
        (\<forall>r\<in>set (regressionRisks out). \<exists>s. severity r = JStr s) \<and> length (regressionRisks out) \<le> 100"
    "conforms (Array_schema (boundary_schema nonGoal_names) None (Some 50))
      (JArr (map boundary_json (nonGoal_verdicts out))) \<longleftrightarrow> length (goal_nonGoals g) \<le> 50"
    "conforms (Array_schema (boundary_schema constraint_names) None (Some 50))
      (JArr (map boundary_json (constraint_verdicts out))) \<longleftrightarrow> length (constraints g) \<le> 50"
    using assms len criterion_conforms_iff risk_conforms_iff boundary_conforms
    by (auto simp: clean_output_def list_all_iff)
  show ?thesis
    unfolding goalVerifierOutputSchema_def output_json_def
    by (subst conforms_closed)
      (use assms in \<open>auto simp: parts clean_output_def simp del: conforms.simps(6)\<close>)
qed

text \<open>
  Everything the issue plan validator returns meets the schema published to the
  planner. What the other three validators return meets theirs exactly when the enumerated
  fields are texts, and, for a verifier's output, when the Goal has at most fifty criteria,
  non-goals and constraints and the output names at most a hundred risks: the schema bounds the
  four lists, the validator does not.
\<close>

theorem validated_outputs_and_schemas:
  "(validateIssuePlanDraft v = Inr ds \<longrightarrow> conforms issuePlanDraftOutputSchema (draft_json ds)) \<and>
   (validateSpecBundle v = Inr b \<longrightarrow>
      (conforms specBundleOutputSchema (bundle_json b) \<longleftrightarrow> list_all text_kinds (solutionElements b))) \<and>
   (validateAcceptanceVerificationPlanDraft v = Inr es \<longrightarrow>
      (conforms acceptanceVerificationPlanDraftOutputSchema (vplan_draft_json es) \<longleftrightarrow>
       (\<forall>e\<in>set es. \<forall>type ref. strategy e = Referenced type ref \<longrightarrow> (\<exists>t. type = JStr t)))) \<and>
   (validateGoalVerifierOutput v g = Inr out \<longrightarrow>
      (conforms goalVerifierOutputSchema (output_json out) \<longleftrightarrow>
       (\<exists>s. overallVerdict out = JStr s) \<and>
       (\<forall>c\<in>set (criterion_verdicts out). \<exists>s. criterion_verdict c = JStr s) \<and>
       (\<forall>r\<in>set (regressionRisks out). \<exists>s. severity r = JStr s) \<and>
       length (acceptanceCriteria g) \<le> 50 \<and> length (goal_nonGoals g) \<le> 50 \<and>
       length (constraints g) \<le> 50 \<and> length (regressionRisks out) \<le> 100))"
  using draft_conforms[OF validateIssuePlanDraft_clean, of v ds]
    bundle_conforms_iff[OF validated_bundle_clean, of v b]
    entries_conform_iff[OF validated_entries_clean, of v es]
    output_conforms_iff[OF validated_output_clean, of v g out]
  by (intro conjI impI) (simp_all only:)

theorem validated_outputs_and_schemas_witness:
  "conforms specBundleOutputSchema (bundle_json sample_bundle)"
proof -
  have "list_all text_kinds (solutionElements sample_bundle)"
    by (simp add: sample_bundle_def sample_element_def text_kinds_def)
  with validated_outputs_and_schemas clean_bundle_accepted[OF sample_bundle_clean]
  show ?thesis by blast
qed

section \<open>The clarification planner\<close>

text \<open>The enumerated fields of an output hold texts.\<close>

definition text_field :: "string \<Rightarrow> json \<Rightarrow> bool" where
  "text_field k v \<longleftrightarrow> (\<forall>fs. v = JObj fs \<longrightarrow> (\<exists>s. js_get fs k = JStr s))"

definition items_of :: "string \<Rightarrow> json \<Rightarrow> json list" where
  "items_of k v = (case v of JObj fs \<Rightarrow> (case js_get fs k of JArr vs \<Rightarrow> vs | _ \<Rightarrow> []) | _ \<Rightarrow> [])"

definition text_enums :: "json \<Rightarrow> bool" where
  "text_enums v \<longleftrightarrow>
     list_all (text_field ''basis'') (items_of ''knownFacts'' v) \<and>
     list_all (text_field ''blockingLevel'') (items_of ''questions'' v) \<and>
     list_all (text_field ''answerType'') (items_of ''questions'' v)"

lemma conforms_object:
  assumes "exact_object v (map fst props) fs"
  shows "conforms (closed_schema props) v \<longleftrightarrow>
    list_all (\<lambda>(k, sch). conforms sch (js_get fs k)) props"
proof -
  have keys: "fst ` set fs = fst ` set props" and v: "v = JObj fs"
    using assms by (auto simp: exact_object_def)
  have some: "\<exists>w. map_of fs k = Some w" if "(k, sch) \<in> set props" for k sch
    using that keys by (metis fst_conv image_eqI map_of_eq_None_iff not_None_eq)
  have "(case map_of fs k of None \<Rightarrow> True | Some w \<Rightarrow> conforms sch w) \<longleftrightarrow> conforms sch (js_get fs k)"
    if "(k, sch) \<in> set props" for k sch
    using some[OF that] by (auto simp: js_get_def)
  then have "list_all (\<lambda>(k, sch). case map_of fs k of None \<Rightarrow> True | Some w \<Rightarrow> conforms sch w) props \<longleftrightarrow>
      list_all (\<lambda>(k, sch). conforms sch (js_get fs k)) props"
    by (auto simp: list_all_iff)
  with keys show ?thesis by (auto simp: closed_schema_def v list_all_iff)
qed

lemma bounded_text_conforms: "bounded_text n v \<Longrightarrow> conforms bare_text v"
  by (auto simp: bounded_text_def bare_text_def)

lemma identifier_conforms: "good_identifier v \<Longrightarrow> conforms bare_text v"
  by (auto simp: good_identifier_def bare_text_def)

lemma fact_conforms:
  assumes "good_fact v" "text_field ''basis'' v"
  shows "conforms fact_schema v"
proof -
  from assms(1) obtain fs where e: "exact_object v [''id'', ''fact'', ''basis''] fs"
    and t: "good_identifier (js_get fs ''id'')" "bounded_text 4000 (js_get fs ''fact'')"
      "js_String (js_get fs ''basis'') \<in> {''goal_contract'', ''human_answer''}"
    unfolding good_fact_def by blast
  obtain s where "js_get fs ''basis'' = JStr s"
    using assms(2) e by (auto simp: text_field_def exact_object_def)
  with t e show ?thesis
    unfolding fact_schema_def
    by (subst conforms_object[of _ _ fs])
      (simp_all add: bounded_text_conforms identifier_conforms del: conforms.simps(1))
qed

lemma uncertainty_conforms:
  assumes "good_uncertainty v"
  shows "conforms uncertainty_schema v"
proof -
  from assms obtain fs where e: "exact_object v [''id'', ''statement'', ''impact''] fs"
    and t: "good_identifier (js_get fs ''id'')" "bounded_text 4000 (js_get fs ''statement'')"
      "bounded_text 4000 (js_get fs ''impact'')"
    unfolding good_uncertainty_def by blast
  then show ?thesis
    unfolding uncertainty_schema_def
    by (subst conforms_object[of _ _ fs])
      (simp_all add: bounded_text_conforms identifier_conforms del: conforms.simps(1))
qed

lemma question_conforms:
  assumes "good_question v" "text_field ''blockingLevel'' v" "text_field ''answerType'' v"
  shows "conforms question_schema v"
proof -
  from assms(1) obtain fs options where e: "exact_object v question_fields fs"
    and t: "good_identifier (js_get fs ''id'')" "bounded_text 4000 (js_get fs ''prompt'')"
      "bounded_text 4000 (js_get fs ''rationale'')"
    and en: "js_String (js_get fs ''blockingLevel'') \<in> set blockingLevels"
      "js_String (js_get fs ''answerType'') \<in> set answerTypes"
    and o: "js_get fs ''suggestedOptions'' = JArr options" "list_all (bounded_text 500) options"
    unfolding good_question_def by blast
  have "conforms (Array_schema bare_text None None) (JArr options)"
    using o(2) bounded_text_conforms by (auto simp: list_all_iff)
  moreover obtain b a where "js_get fs ''blockingLevel'' = JStr b" "js_get fs ''answerType'' = JStr a"
    using assms(2,3) e by (auto simp: text_field_def exact_object_def)
  ultimately show ?thesis
    using e t en o(1) unfolding question_schema_def
    by (subst conforms_object[of _ _ fs])
      (simp_all add: question_fields_def bounded_text_conforms identifier_conforms
        del: conforms.simps(1,6))
qed

definition array_basis_output :: json where
  "array_basis_output = JObj [
     (''schemaVersion'', JStr plannerClarificationSchemaVersion),
     (''knownFacts'', JArr [JObj [(''id'', JStr ''f1''), (''fact'', JStr ''Known''),
        (''basis'', JArr [JStr ''goal_contract''])]]),
     (''uncertainties'', JArr []), (''questions'', JArr [])]"

text \<open>
  An accepted output of the clarification planner whose enumerated fields are texts
  meets the schema published to the planner. Without that it need not: an output whose fact has
  the array with the one element "goal_contract" as its basis is accepted and does not meet it.
\<close>

theorem accepted_planner_outputs_and_schema:
  "(validatePlannerClarificationOutput v = Inr w \<longrightarrow> text_enums v \<longrightarrow>
      conforms plannerClarificationOutputSchema v) \<and>
   validatePlannerClarificationOutput array_basis_output = Inr array_basis_output \<and>
   \<not> conforms plannerClarificationOutputSchema array_basis_output"
proof (intro conjI impI)
  show "validatePlannerClarificationOutput array_basis_output = Inr array_basis_output" by code_simp
  show "\<not> conforms plannerClarificationOutputSchema array_basis_output" by code_simp
  assume acc: "validatePlannerClarificationOutput v = Inr w" and te: "text_enums v"
  from acc have "good_output v" using validated_planner_output by blast
  then obtain root fs us qs where e: "exact_object v root_fields root"
    and vs: "js_get root ''schemaVersion'' = JStr plannerClarificationSchemaVersion"
      "js_get root ''knownFacts'' = JArr fs" "js_get root ''uncertainties'' = JArr us"
      "js_get root ''questions'' = JArr qs"
    and good: "list_all good_fact fs" "list_all good_uncertainty us" "list_all good_question qs"
    unfolding good_output_def good_section_def by blast
  have en: "list_all (text_field ''basis'') fs" "list_all (text_field ''blockingLevel'') qs"
    "list_all (text_field ''answerType'') qs"
    using te e vs by (simp_all add: text_enums_def items_of_def exact_object_def)
  have "list_all (conforms fact_schema) fs" "list_all (conforms uncertainty_schema) us"
    "list_all (conforms question_schema) qs"
    using good en fact_conforms uncertainty_conforms question_conforms by (simp_all add: list_all_iff)
  then show "conforms plannerClarificationOutputSchema v"
    using e vs unfolding plannerClarificationOutputSchema_def
    by (subst conforms_object[of _ _ root]) (simp_all add: root_fields_def)
qed

theorem accepted_planner_outputs_and_schema_witness:
  "conforms plannerClarificationOutputSchema (JObj [
     (''schemaVersion'', JStr plannerClarificationSchemaVersion), (''knownFacts'', JArr []),
     (''uncertainties'', JArr []), (''questions'', JArr [])])" (is "conforms _ ?v")
proof -
  have "validatePlannerClarificationOutput ?v = Inr ?v" by code_simp
  moreover have "text_enums ?v" by (simp add: text_enums_def items_of_def)
  ultimately show ?thesis using accepted_planner_outputs_and_schema by blast
qed

end
