(* ===== verification/Scheduler_Repository.thy ===== *)
theory Scheduler_Repository
  imports Model_Router
begin

text \<open>
  \<^verbatim>\<open>ports/scheduler-repository.ts\<close> and \<^verbatim>\<open>adapters/memory-scheduler-repository.ts\<close>: the jobs, nodes
  and leases of the run scheduler and every operation of its in-memory repository. The lemmas
  show that the operations keep nodes within their capacity and give a run one lease at a time.

  Instants are milliseconds; every stored date is taken to be in the format of \<open>toISOString\<close>, in
  which the comparison of texts agrees with that of instants. The identifiers that
  \<open>crypto.randomUUID\<close> generates are arguments.
\<close>

section \<open>Data\<close>

datatype job_state =
    J_pending | J_claimed | J_starting | J_running | J_retry_wait | J_reconciling
  | J_succeeded | J_failed | J_cancelled | J_blocked

record scheduler_job =
  job_id :: string
  job_organizationId :: string
  job_projectId :: string
  job_goalId :: string
  job_runId :: string
  job_issueId :: "string option"
  externalTaskId :: string
  requiredCapability :: capability_tier
  job_state :: job_state
  job_phase :: string
  priority :: int
  attempt :: nat
  maxAttempts :: nat
  maxRuntimeSeconds :: json \<comment> \<open>\<open>budget.maxRuntimeSeconds\<close>, the only part of the budget that is read\<close>
  deadlineAt :: int
  nextAttemptAt :: int
  externalRunId :: "string option"
  job_nodeId :: "string option"
  leaseToken :: "string option"
  leaseExpiresAt :: "int option"
  job_heartbeatAt :: "int option"
  reconciliationRequired :: bool
  stopRequested :: bool
  failureCode :: "string option"
  failureReason :: "string option"
  job_version :: nat

datatype node_status = Online | Draining | Offline

record execution_node =
  node_id :: string
  capabilities :: "string list"
  maxConcurrentRuns :: nat
  node_status :: node_status
  offlineAfter :: int
  node_version :: nat

datatype lease_status = Active | Released | Expired

record execution_lease =
  lease_id :: string
  lease_runId :: string
  lease_nodeId :: string
  lease_ownerId :: string
  lease_token :: string
  lease_status :: lease_status
  acquiredAt :: int
  lease_heartbeatAt :: int
  lease_expiresAt :: int
  releasedAt :: "int option"
  lease_version :: nat

datatype scheduler_event = Lease_expired string string | Job_started string

record scheduler_state =
  jobs :: "scheduler_job list"
  nodes :: "execution_node list"
  leases :: "execution_lease list"
  operations :: "string list"
  outbox :: "scheduler_event list"

datatype external_state =
  Ext_starting | Ext_running | Ext_succeeded | Ext_failed | Ext_cancelled | Ext_unknown

record external_status =
  ext_state :: external_state
  ext_phase :: string
  ext_message :: "string option"

section \<open>Operations\<close>

definition terminal :: "job_state \<Rightarrow> bool" where
  "terminal s \<longleftrightarrow> s \<in> {J_succeeded, J_failed, J_cancelled, J_blocked}"

definition activeLeases :: "scheduler_state \<Rightarrow> execution_lease list" where
  "activeLeases st = filter (\<lambda>l. lease_status l = Active) (leases st)"

text \<open>\<open>const x = xs.find(p)\<close> followed by assignments to the fields of \<open>x\<close>.\<close>

fun update_first :: "('a \<Rightarrow> bool) \<Rightarrow> ('a \<Rightarrow> 'a) \<Rightarrow> 'a list \<Rightarrow> 'a list" where
  "update_first p f [] = []"
| "update_first p f (x # xs) = (if p x then f x # xs else x # update_first p f xs)"

definition push_operation :: "string \<Rightarrow> scheduler_state \<Rightarrow> scheduler_state" where
  "push_operation op st = st\<lparr>operations := operations st @ [op]\<rparr>"

definition age_node :: "int \<Rightarrow> execution_node \<Rightarrow> execution_node" where
  "age_node now n =
     (if node_status n \<noteq> Offline \<and> offlineAfter n \<le> now
      then n\<lparr>node_status := Offline, node_version := node_version n + 1\<rparr> else n)"

definition offline_ids :: "execution_node list \<Rightarrow> string list" where
  "offline_ids ns = map node_id (filter (\<lambda>n. node_status n = Offline) ns)"

definition lease_lapsed :: "int \<Rightarrow> string list \<Rightarrow> execution_lease \<Rightarrow> bool" where
  "lease_lapsed now offline l \<longleftrightarrow>
     lease_status l = Active \<and> (lease_expiresAt l \<le> now \<or> lease_nodeId l \<in> set offline)"

definition end_lease :: "lease_status \<Rightarrow> int \<Rightarrow> execution_lease \<Rightarrow> execution_lease" where
  "end_lease s now l =
     l\<lparr>lease_status := s, releasedAt := Some now, lease_version := lease_version l + 1\<rparr>"

text \<open>One round of the loop over the leases in \<open>listForReconciliation\<close>.\<close>

definition expire_lease ::
  "int \<Rightarrow> string list \<Rightarrow> execution_lease \<Rightarrow> scheduler_state \<Rightarrow> scheduler_state" where
  "expire_lease now offline l st =
     (if lease_lapsed now offline l then
        (let st' = st\<lparr>leases := leases st @ [end_lease Expired now l]\<rparr> in
         case find (\<lambda>j. job_runId j = lease_runId l) (jobs st) of
           None \<Rightarrow> st'
         | Some j \<Rightarrow>
             if terminal (job_state j) then st'
             else st'\<lparr>jobs := update_first (\<lambda>j. job_runId j = lease_runId l)
                        (\<lambda>j. j\<lparr>reconciliationRequired := True\<rparr>) (jobs st),
                     outbox := outbox st @ [Lease_expired (job_id j) (job_runId j)]\<rparr>)
      else st\<lparr>leases := leases st @ [l]\<rparr>)"

definition needs_reconciliation :: "int \<Rightarrow> scheduler_job \<Rightarrow> bool" where
  "needs_reconciliation now j \<longleftrightarrow>
     \<not> terminal (job_state j) \<and>
     (stopRequested j \<or> reconciliationRequired j \<or>
      (job_state j \<in> {J_starting, J_running, J_reconciling} \<and> deadlineAt j \<le> now))"

definition listForReconciliation ::
  "int \<Rightarrow> scheduler_state \<Rightarrow> scheduler_job list \<times> scheduler_state" where
  "listForReconciliation now st =
     (let st1 = push_operation ''reconcile:list'' st;
          st2 = st1\<lparr>nodes := map (age_node now) (nodes st1)\<rparr>;
          st3 = fold (expire_lease now (offline_ids (nodes st2))) (leases st2) (st2\<lparr>leases := []\<rparr>)
      in (filter (needs_reconciliation now) (jobs st3), st3))"

text \<open>One round of the loop over the active leases in \<open>heartbeatOwned\<close>.\<close>

definition renewable :: "string \<Rightarrow> int \<Rightarrow> execution_lease \<Rightarrow> bool" where
  "renewable owner now l \<longleftrightarrow>
     lease_status l = Active \<and> lease_ownerId l = owner \<and> \<not> lease_expiresAt l \<le> now"

definition renew_job :: "int \<Rightarrow> int \<Rightarrow> string \<Rightarrow> scheduler_job list \<Rightarrow> scheduler_job list" where
  "renew_job now expires run =
     update_first (\<lambda>j. job_runId j = run)
       (\<lambda>j. if terminal (job_state j) then j
            else j\<lparr>job_heartbeatAt := Some now, leaseExpiresAt := Some expires\<rparr>)"

definition heartbeatOwned ::
  "string \<Rightarrow> int \<Rightarrow> int \<Rightarrow> scheduler_state \<Rightarrow> nat \<times> scheduler_state" where
  "heartbeatOwned owner now expires st =
     (let st1 = push_operation ''lease:heartbeat'' st;
          renewed = filter (renewable owner now) (leases st1)
      in (length renewed,
          st1\<lparr>leases := map (\<lambda>l. if renewable owner now l
                 then l\<lparr>lease_heartbeatAt := now, lease_expiresAt := expires,
                        lease_version := lease_version l + 1\<rparr> else l) (leases st1),
              jobs := fold (\<lambda>l. renew_job now expires (lease_runId l)) renewed (jobs st1)\<rparr>))"

text \<open>The comparator of \<open>claimNext\<close>, with \<open>localeCompare\<close> given as "not after".\<close>

definition claim_before ::
  "(string \<Rightarrow> string \<Rightarrow> bool) \<Rightarrow> scheduler_job \<Rightarrow> scheduler_job \<Rightarrow> bool" where
  "claim_before lc a b \<longleftrightarrow>
     priority a < priority b \<or> (priority a = priority b \<and> lc (job_id a) (job_id b))"

definition claimable :: "int \<Rightarrow> scheduler_job \<Rightarrow> bool" where
  "claimable now j \<longleftrightarrow>
     job_state j \<in> {J_pending, J_retry_wait} \<and> \<not> reconciliationRequired j \<and>
     nextAttemptAt j \<le> now \<and> deadlineAt j > now"

definition claim_job :: "int \<Rightarrow> scheduler_job \<Rightarrow> scheduler_job" where
  "claim_job now j =
     j\<lparr>job_state := J_claimed, job_version := job_version j + 1, job_heartbeatAt := Some now\<rparr>"

text \<open>The candidate is a reference into \<open>jobs\<close>; as a model of that, the first equal job changes.\<close>

definition claimNext ::
  "(string \<Rightarrow> string \<Rightarrow> bool) \<Rightarrow> int \<Rightarrow> string \<Rightarrow> scheduler_state \<Rightarrow>
   scheduler_job option \<times> scheduler_state" where
  "claimNext lc now supervisorId st =
     (let st1 = push_operation (''claim:'' @ supervisorId) st in
      case sort_by (claim_before lc) (filter (claimable now) (jobs st1)) of
        [] \<Rightarrow> (None, st1)
      | c # _ \<Rightarrow> (Some (claim_job now c),
          st1\<lparr>jobs := update_first (\<lambda>j. j = c) (claim_job now) (jobs st1)\<rparr>))"

definition node_load :: "scheduler_state \<Rightarrow> string \<Rightarrow> nat" where
  "node_load st n = length (filter (\<lambda>l. lease_nodeId l = n) (activeLeases st))"

definition selectNode ::
  "scheduler_job \<Rightarrow> int \<Rightarrow> scheduler_state \<Rightarrow> execution_node option \<times> scheduler_state" where
  "selectNode j now st =
     (let st1 = push_operation ''node:select'' st in
      (find (\<lambda>n. \<not> (node_status n \<noteq> Online \<or> offlineAfter n \<le> now) \<and>
                 tier_name (requiredCapability j) \<in> set (capabilities n) \<and>
                 node_load st1 (node_id n) < maxConcurrentRuns n) (nodes st1), st1))"

definition acquireLease ::
  "string \<Rightarrow> string \<Rightarrow> string \<Rightarrow> string \<Rightarrow> string \<Rightarrow> int \<Rightarrow> int \<Rightarrow> scheduler_state \<Rightarrow>
   execution_lease option \<times> scheduler_state" where
  "acquireLease new_id new_token run node owner now expires st =
     (let st1 = push_operation ''lease:acquire'' st in
      case find (\<lambda>l. lease_runId l = run) (activeLeases st1) of
        Some l \<Rightarrow> (if lease_nodeId l = node \<and> lease_ownerId l = owner then Some l else None, st1)
      | None \<Rightarrow>
          (case find (\<lambda>n. node_id n = node) (nodes st1) of
             None \<Rightarrow> (None, st1)
           | Some n \<Rightarrow>
               if node_status n \<noteq> Online \<or> offlineAfter n \<le> now then (None, st1)
               else (case find (\<lambda>j. job_runId j = run) (jobs st1) of
                 None \<Rightarrow> (None, st1)
               | Some j \<Rightarrow>
                   if tier_name (requiredCapability j) \<notin> set (capabilities n) then (None, st1)
                   else if node_load st1 (node_id n) \<ge> maxConcurrentRuns n then (None, st1)
                   else
                     (let l = \<lparr>lease_id = new_id, lease_runId = run, lease_nodeId = node,
                        lease_ownerId = owner, lease_token = new_token, lease_status = Active,
                        acquiredAt = now, lease_heartbeatAt = now, lease_expiresAt = expires,
                        releasedAt = None, lease_version = 1\<rparr>
                      in (Some l, st1\<lparr>leases := leases st1 @ [l]\<rparr>)))))"

definition requiredJob :: "string \<Rightarrow> scheduler_state \<Rightarrow> js_error + scheduler_job" where
  "requiredJob i st =
     (case find (\<lambda>j. job_id j = i) (jobs st) of
        None \<Rightarrow> Inl (PlainError ''scheduler job was not found'')
      | Some j \<Rightarrow> Inr j)"

text \<open>
  The operations on one job: the required job is changed by \<open>f\<close>, and where the run's leases end,
  so does every active lease of its run. An error leaves the state with the operation recorded.
\<close>

definition set_job :: "string \<Rightarrow> (scheduler_job \<Rightarrow> scheduler_job) \<Rightarrow> scheduler_state \<Rightarrow> scheduler_state" where
  "set_job i f st = st\<lparr>jobs := update_first (\<lambda>j. job_id j = i) f (jobs st)\<rparr>"

definition release_run :: "string \<Rightarrow> int \<Rightarrow> scheduler_state \<Rightarrow> scheduler_state" where
  "release_run run now st =
     st\<lparr>leases := map (\<lambda>l. if lease_status l = Active \<and> lease_runId l = run
                            then end_lease Released now l else l) (leases st)\<rparr>"

definition issue_start :: "string \<Rightarrow> execution_lease \<Rightarrow> int \<Rightarrow> scheduler_job \<Rightarrow> scheduler_job" where
  "issue_start external l now j = j\<lparr>
     job_state := J_starting, externalRunId := Some external, job_nodeId := Some (lease_nodeId l),
     leaseToken := Some (lease_token l), leaseExpiresAt := Some (lease_expiresAt l),
     job_heartbeatAt := Some now, reconciliationRequired := True, job_version := job_version j + 1\<rparr>"

definition markExternalStartIssued ::
  "string \<Rightarrow> nat \<Rightarrow> string \<Rightarrow> execution_lease \<Rightarrow> int \<Rightarrow> scheduler_state \<Rightarrow>
   (js_error + scheduler_job) \<times> scheduler_state" where
  "markExternalStartIssued i expectedVersion external l now st =
     (let st1 = push_operation ''job:starting'' st in
      case requiredJob i st1 of
        Inl e \<Rightarrow> (Inl e, st1)
      | Inr j \<Rightarrow>
          if job_version j \<noteq> expectedVersion \<or> job_state j \<noteq> J_claimed then
            (Inl (PlainError ''scheduler job version conflict''), st1)
          else (Inr (issue_start external l now j), set_job i (issue_start external l now) st1))"

definition start_job :: "external_status \<Rightarrow> int \<Rightarrow> scheduler_job \<Rightarrow> scheduler_job" where
  "start_job external now j = j\<lparr>
     job_state := (if ext_state external = Ext_succeeded then J_succeeded else J_running),
     job_phase := ext_phase external, job_heartbeatAt := Some now, reconciliationRequired := False,
     job_version := job_version j + 1\<rparr>"

definition markStarted ::
  "string \<Rightarrow> external_status \<Rightarrow> int \<Rightarrow> scheduler_state \<Rightarrow>
   (js_error + scheduler_job) \<times> scheduler_state" where
  "markStarted i external now st =
     (let st1 = push_operation ''job:started'' st in
      case requiredJob i st1 of
        Inl e \<Rightarrow> (Inl e, st1)
      | Inr j \<Rightarrow> (Inr (start_job external now j),
          (set_job i (start_job external now) st1)\<lparr>outbox := outbox st1 @ [Job_started i]\<rparr>))"

definition reconcile_job :: "external_status option \<Rightarrow> int \<Rightarrow> scheduler_job \<Rightarrow> scheduler_job" where
  "reconcile_job external now j =
     (let j1 = j\<lparr>job_phase := (case external of None \<Rightarrow> ''unknown'' | Some x \<Rightarrow> ext_phase x)\<rparr>;
          unknown = j1\<lparr>job_state := J_blocked, failureCode := Some ''external_state_unknown'',
            failureReason := Some ''External execution could not be reconciled''\<rparr>;
          j2 = (case external of
             None \<Rightarrow> unknown
           | Some x \<Rightarrow>
               (case ext_state x of
                  Ext_unknown \<Rightarrow> unknown
                | Ext_succeeded \<Rightarrow> j1\<lparr>job_state := J_succeeded\<rparr>
                | Ext_failed \<Rightarrow> j1\<lparr>job_state := J_failed, failureCode := Some ''external_failed'',
                    failureReason := Some (case ext_message x of
                        None \<Rightarrow> ''External execution failed'' | Some m \<Rightarrow> m)\<rparr>
                | Ext_cancelled \<Rightarrow> j1\<lparr>job_state := J_cancelled\<rparr>
                | _ \<Rightarrow> j1\<lparr>job_state := J_running\<rparr>))
      in j2\<lparr>job_heartbeatAt := Some now, reconciliationRequired := False,
            job_version := job_version j + 1\<rparr>)"

definition reconcileExternal ::
  "string \<Rightarrow> external_status option \<Rightarrow> int \<Rightarrow> scheduler_state \<Rightarrow>
   (js_error + scheduler_job) \<times> scheduler_state" where
  "reconcileExternal i external now st =
     (let st1 = push_operation ''job:reconcile'' st in
      case requiredJob i st1 of
        Inl e \<Rightarrow> (Inl e, st1)
      | Inr j \<Rightarrow> (Inr (reconcile_job external now j), set_job i (reconcile_job external now) st1))"

definition time_out_job :: "int \<Rightarrow> scheduler_job \<Rightarrow> scheduler_job" where
  "time_out_job now j = j\<lparr>
     job_state := J_failed, job_phase := ''timeout'', failureCode := Some ''deadline_exceeded'',
     failureReason := Some ''Execution deadline exceeded'', job_heartbeatAt := Some now,
     reconciliationRequired := False, job_version := job_version j + 1\<rparr>"

definition markTimedOut ::
  "string \<Rightarrow> int \<Rightarrow> scheduler_state \<Rightarrow> (js_error + scheduler_job) \<times> scheduler_state" where
  "markTimedOut i now st =
     (let st1 = push_operation ''job:timeout'' st in
      case requiredJob i st1 of
        Inl e \<Rightarrow> (Inl e, st1)
      | Inr j \<Rightarrow> (Inr (time_out_job now j),
          release_run (job_runId j) now (set_job i (time_out_job now) st1)))"

definition stop_job :: "int \<Rightarrow> scheduler_job \<Rightarrow> scheduler_job" where
  "stop_job now j = j\<lparr>
     job_state := J_cancelled, job_phase := ''stopped'', failureCode := Some ''operator_stop'',
     failureReason := Some ''Execution stopped by operator control'', job_heartbeatAt := Some now,
     reconciliationRequired := False, stopRequested := False, job_version := job_version j + 1\<rparr>"

definition markStopped ::
  "string \<Rightarrow> int \<Rightarrow> scheduler_state \<Rightarrow> (js_error + scheduler_job) \<times> scheduler_state" where
  "markStopped i now st =
     (let st1 = push_operation ''job:stopped'' st in
      case requiredJob i st1 of
        Inl e \<Rightarrow> (Inl e, st1)
      | Inr j \<Rightarrow> (Inr (stop_job now j),
          release_run (job_runId j) now (set_job i (stop_job now) st1)))"

text \<open>The exponent is the attempt after its increment, less one; for attempt 0 it is negative.\<close>

definition retry_delay :: "nat \<Rightarrow> int" where
  "retry_delay n = (if n = 0 then 500 else min 60000 (1000 * 2 ^ (n - 1)))"

definition fail_start :: "string \<Rightarrow> string \<Rightarrow> int \<Rightarrow> scheduler_job \<Rightarrow> scheduler_job" where
  "fail_start code reason now j =
     (let retry = attempt j < maxAttempts j;
          n = (if retry then attempt j + 1 else attempt j) in
      j\<lparr>job_state := (if retry then J_retry_wait else J_failed), attempt := n,
        nextAttemptAt := now + retry_delay n,
        externalRunId := None, job_nodeId := None, leaseToken := None, leaseExpiresAt := None,
        reconciliationRequired := False, failureCode := Some code, failureReason := Some reason,
        job_version := job_version j + 1\<rparr>)"

definition handleStartFailure ::
  "string \<Rightarrow> string \<Rightarrow> string \<Rightarrow> int \<Rightarrow> scheduler_state \<Rightarrow>
   (js_error + scheduler_job) \<times> scheduler_state" where
  "handleStartFailure i code reason now st =
     (let st1 = push_operation ''job:start-failed'' st in
      case requiredJob i st1 of
        Inl e \<Rightarrow> (Inl e, st1)
      | Inr j \<Rightarrow> (Inr (fail_start code reason now j),
          release_run (job_runId j) now (set_job i (fail_start code reason now) st1)))"

definition unclaim_job :: "string \<Rightarrow> int \<Rightarrow> scheduler_job \<Rightarrow> scheduler_job" where
  "unclaim_job reason now j = j\<lparr>job_state := J_pending, failureReason := Some reason,
     nextAttemptAt := now, job_version := job_version j + 1\<rparr>"

definition releaseClaim ::
  "string \<Rightarrow> string \<Rightarrow> int \<Rightarrow> scheduler_state \<Rightarrow> (js_error + unit) \<times> scheduler_state" where
  "releaseClaim i reason now st =
     (let st1 = push_operation ''claim:release'' st in
      case requiredJob i st1 of
        Inl e \<Rightarrow> (Inl e, st1)
      | Inr j \<Rightarrow> (Inr (), set_job i (unclaim_job reason now) st1))"

section \<open>Capacity and exclusive leases\<close>

text \<open>The steps of the repository: any of its operations, with any arguments.\<close>

inductive repository_step :: "scheduler_state \<Rightarrow> scheduler_state \<Rightarrow> bool" where
  step_list: "repository_step st (snd (listForReconciliation now st))"
| step_heartbeat: "repository_step st (snd (heartbeatOwned owner now expires st))"
| step_claim: "repository_step st (snd (claimNext lc now supervisor st))"
| step_select: "repository_step st (snd (selectNode j now st))"
| step_acquire: "repository_step st (snd (acquireLease i t run node owner now expires st))"
| step_issue: "repository_step st (snd (markExternalStartIssued i v external l now st))"
| step_started: "repository_step st (snd (markStarted i status now st))"
| step_reconcile: "repository_step st (snd (reconcileExternal i answer now st))"
| step_timeout: "repository_step st (snd (markTimedOut i now st))"
| step_stopped: "repository_step st (snd (markStopped i now st))"
| step_failure: "repository_step st (snd (handleStartFailure i code reason now st))"
| step_release: "repository_step st (snd (releaseClaim i reason now st))"

text \<open>What capacity and exclusivity depend on: the run and node of every active lease.\<close>

definition active_pairs :: "scheduler_state \<Rightarrow> (string \<times> string) list" where
  "active_pairs st = map (\<lambda>l. (lease_runId l, lease_nodeId l)) (activeLeases st)"

definition node_limits :: "scheduler_state \<Rightarrow> (string \<times> nat) list" where
  "node_limits st = map (\<lambda>n. (node_id n, maxConcurrentRuns n)) (nodes st)"

lemma node_load_pairs: "node_load st n = length (filter (\<lambda>p. snd p = n) (active_pairs st))"
  by (simp add: node_load_def active_pairs_def filter_map o_def)

definition leases_ok :: "scheduler_state \<Rightarrow> bool" where
  "leases_ok st \<longleftrightarrow>
     distinct (map fst (node_limits st)) \<and>
     distinct (map fst (active_pairs st)) \<and>
     (\<forall>(n, limit)\<in>set (node_limits st). length (filter (\<lambda>p. snd p = n) (active_pairs st)) \<le> limit)"

lemma subseq_distinct: "subseq xs ys \<Longrightarrow> distinct ys \<Longrightarrow> distinct xs"
  by (induction rule: list_emb.induct) (auto dest: list_emb_set)

lemma leases_ok_subseq:
  assumes "leases_ok st" and "node_limits st' = node_limits st"
    and "subseq (active_pairs st') (active_pairs st)"
  shows "leases_ok st'"
proof -
  have "subseq (map fst (active_pairs st')) (map fst (active_pairs st))"
    using assms(3) by (rule subseq_map)
  with assms(1) have "distinct (map fst (active_pairs st'))"
    by (auto simp: leases_ok_def dest: subseq_distinct)
  moreover have "length (filter P (active_pairs st')) \<le> length (filter P (active_pairs st))" for P
    using subseq_filter[OF assms(3), of P] by (rule list_emb_length)
  ultimately show ?thesis
    using assms(1,2) unfolding leases_ok_def by (fastforce intro: le_trans)
qed

lemma leases_ok_same:
  "leases_ok st \<Longrightarrow> nodes st' = nodes st \<Longrightarrow> leases st' = leases st \<Longrightarrow> leases_ok st'"
  by (simp add: leases_ok_def node_limits_def active_pairs_def activeLeases_def)

lemma push_operation_simps [simp]:
  "jobs (push_operation op st) = jobs st" "nodes (push_operation op st) = nodes st"
  "leases (push_operation op st) = leases st" "outbox (push_operation op st) = outbox st"
  by (simp_all add: push_operation_def)

lemma set_job_simps [simp]:
  "nodes (set_job i f st) = nodes st" "leases (set_job i f st) = leases st"
  "outbox (set_job i f st) = outbox st"
  "jobs (set_job i f st) = update_first (\<lambda>j. job_id j = i) f (jobs st)"
  by (simp_all add: set_job_def)

text \<open>Ending leases and changing the fields of a lease that do not matter here.\<close>

lemma active_map_subseq:
  assumes "\<And>l. lease_status (f l) = Active \<Longrightarrow> lease_status l = Active"
    and "\<And>l. lease_runId (f l) = lease_runId l" and "\<And>l. lease_nodeId (f l) = lease_nodeId l"
  shows "subseq (map (\<lambda>l. (lease_runId l, lease_nodeId l)) (filter (\<lambda>l. lease_status l = Active) (map f ls)))
    (map (\<lambda>l. (lease_runId l, lease_nodeId l)) (filter (\<lambda>l. lease_status l = Active) ls))"
proof (induction ls)
  case (Cons l ls)
  then show ?case using assms(1)[of l] assms(2,3) by (cases "lease_status (f l) = Active") auto
qed simp

lemma leases_ok_map:
  assumes "leases_ok st" and "node_limits st' = node_limits st" and "leases st' = map f (leases st)"
    and "\<And>l. lease_status (f l) = Active \<Longrightarrow> lease_status l = Active"
    and "\<And>l. lease_runId (f l) = lease_runId l" and "\<And>l. lease_nodeId (f l) = lease_nodeId l"
  shows "leases_ok st'"
  by (rule leases_ok_subseq[OF assms(1,2)])
    (use active_map_subseq[of f, OF assms(4-6)] in \<open>simp add: active_pairs_def activeLeases_def assms(3)\<close>)

lemma end_lease_simps [simp]:
  "lease_status (end_lease s now l) = s" "lease_runId (end_lease s now l) = lease_runId l"
  "lease_nodeId (end_lease s now l) = lease_nodeId l"
  by (simp_all add: end_lease_def)

lemma release_run_ok: "leases_ok st \<Longrightarrow> leases_ok (release_run run now st)"
  by (rule leases_ok_map[where f = "\<lambda>l. if lease_status l = Active \<and> lease_runId l = run
        then end_lease Released now l else l"])
    (auto simp: release_run_def node_limits_def split: if_splits)

lemma fold_expire_lease:
  "leases (fold (expire_lease now offline) ls st) =
     leases st @ map (\<lambda>l. if lease_lapsed now offline l then end_lease Expired now l else l) ls \<and>
   nodes (fold (expire_lease now offline) ls st) = nodes st"
proof (induction ls arbitrary: st)
  case (Cons l ls)
  have "leases (expire_lease now offline l st) =
      leases st @ [if lease_lapsed now offline l then end_lease Expired now l else l] \<and>
      nodes (expire_lease now offline l st) = nodes st"
    by (simp add: expire_lease_def Let_def split: option.splits)
  with Cons show ?case by simp
qed simp

lemma age_node_limits: "map (\<lambda>n. (node_id n, maxConcurrentRuns n)) (map (age_node now) ns) =
    map (\<lambda>n. (node_id n, maxConcurrentRuns n)) ns"
  by (simp add: age_node_def)

lemma list_ok: "leases_ok st \<Longrightarrow> leases_ok (snd (listForReconciliation now st))"
  by (rule leases_ok_map[where f = "\<lambda>l. if lease_lapsed now (offline_ids (map (age_node now) (nodes st))) l
        then end_lease Expired now l else l"])
    (auto simp: listForReconciliation_def Let_def fold_expire_lease node_limits_def age_node_def
      split: if_splits)

lemma heartbeat_ok: "leases_ok st \<Longrightarrow> leases_ok (snd (heartbeatOwned owner now expires st))"
  by (rule leases_ok_map[where f = "\<lambda>l. if renewable owner now l
        then l\<lparr>lease_heartbeatAt := now, lease_expiresAt := expires,
               lease_version := lease_version l + 1\<rparr> else l"])
    (auto simp: heartbeatOwned_def Let_def node_limits_def renewable_def split: if_splits)

text \<open>An acquisition leaves the leases alone or adds one where there is room.\<close>

lemma acquireLease_cases:
  "leases (snd (acquireLease i t run node owner now expires st)) = leases st \<and>
   nodes (snd (acquireLease i t run node owner now expires st)) = nodes st \<or>
   find (\<lambda>l. lease_runId l = run) (activeLeases (push_operation ''lease:acquire'' st)) = None \<and>
   (\<exists>n. find (\<lambda>n. node_id n = node) (nodes st) = Some n \<and>
      node_load (push_operation ''lease:acquire'' st) (node_id n) < maxConcurrentRuns n \<and>
      snd (acquireLease i t run node owner now expires st) =
        (push_operation ''lease:acquire'' st)\<lparr>leases := leases st @ [
          \<lparr>lease_id = i, lease_runId = run, lease_nodeId = node, lease_ownerId = owner,
           lease_token = t, lease_status = Active, acquiredAt = now, lease_heartbeatAt = now,
           lease_expiresAt = expires, releasedAt = None, lease_version = 1\<rparr>]\<rparr>)"
  by (simp add: acquireLease_def Let_def split: option.splits)

lemma acquire_ok:
  assumes ok: "leases_ok st"
  shows "leases_ok (snd (acquireLease i t run node owner now expires st))"
  using acquireLease_cases[of i t run node owner now expires st]
proof (elim disjE conjE exE)
  assume "leases (snd (acquireLease i t run node owner now expires st)) = leases st"
    "nodes (snd (acquireLease i t run node owner now expires st)) = nodes st"
  with leases_ok_same[OF ok] show ?thesis by blast
next
  fix n
  let ?st' = "snd (acquireLease i t run node owner now expires st)"
  assume none: "find (\<lambda>l. lease_runId l = run) (activeLeases (push_operation ''lease:acquire'' st)) = None"
    and n: "find (\<lambda>n. node_id n = node) (nodes st) = Some n"
    and room: "node_load (push_operation ''lease:acquire'' st) (node_id n) < maxConcurrentRuns n"
    and st': "?st' = (push_operation ''lease:acquire'' st)\<lparr>leases := leases st @ [
          \<lparr>lease_id = i, lease_runId = run, lease_nodeId = node, lease_ownerId = owner,
           lease_token = t, lease_status = Active, acquiredAt = now, lease_heartbeatAt = now,
           lease_expiresAt = expires, releasedAt = None, lease_version = 1\<rparr>]\<rparr>"
  have act: "activeLeases (push_operation op st) = activeLeases st" for op
    by (simp add: activeLeases_def)
  have nodes: "nodes ?st' = nodes st" by (simp add: st')
  have pairs: "active_pairs ?st' = active_pairs st @ [(run, node)]"
    by (simp add: active_pairs_def activeLeases_def st')
  have fresh: "run \<notin> set (map fst (active_pairs st))"
    using none by (auto simp: act active_pairs_def find_None_iff)
  from n have nn: "node_id n = node" "n \<in> set (nodes st)" by (auto dest: find_SomeD)
  from room have room': "length (filter (\<lambda>p. snd p = node) (active_pairs st)) < maxConcurrentRuns n"
    by (simp add: node_load_def act nn flip: node_load_pairs)
  have "length (filter (\<lambda>p. snd p = m) (active_pairs st @ [(run, node)])) \<le> limit"
    if "(m, limit) \<in> set (node_limits st)" for m limit
  proof (cases "m = node")
    case True
    have "(node, maxConcurrentRuns n) \<in> set (node_limits st)"
      using nn by (auto simp: node_limits_def)
    with that True ok have "limit = maxConcurrentRuns n"
      by (auto simp: leases_ok_def dest: eq_key_imp_eq_value)
    with room' True show ?thesis by simp
  next
    case False
    with that ok show ?thesis by (auto simp: leases_ok_def)
  qed
  with ok fresh show ?thesis
    by (auto simp: leases_ok_def pairs node_limits_def nodes)
qed

lemma repository_step_ok: "repository_step st st' \<Longrightarrow> leases_ok st \<Longrightarrow> leases_ok st'"
proof (induction rule: repository_step.induct)
  case (step_claim st lc now supervisor)
  then show ?case
    by (elim leases_ok_same) (simp_all add: claimNext_def Let_def split: list.splits)
next
  case (step_issue st i v external l now)
  then show ?case
    by (elim leases_ok_same) (simp_all add: markExternalStartIssued_def Let_def split: sum.splits)
next
  case (step_timeout st i now)
  have "leases_ok (push_operation op st)" "leases_ok (set_job i f (push_operation op st))" for op f
    using step_timeout by (auto elim: leases_ok_same)
  then show ?case by (auto simp: markTimedOut_def Let_def intro: release_run_ok split: sum.splits)
next
  case (step_stopped st i now)
  have "leases_ok (push_operation op st)" "leases_ok (set_job i f (push_operation op st))" for op f
    using step_stopped by (auto elim: leases_ok_same)
  then show ?case by (auto simp: markStopped_def Let_def intro: release_run_ok split: sum.splits)
next
  case (step_failure st i code reason now)
  have "leases_ok (push_operation op st)" "leases_ok (set_job i f (push_operation op st))" for op f
    using step_failure by (auto elim: leases_ok_same)
  then show ?case by (auto simp: handleStartFailure_def Let_def intro: release_run_ok split: sum.splits)
qed (auto elim: leases_ok_same list_ok heartbeat_ok acquire_ok
    simp: list_ok heartbeat_ok acquire_ok selectNode_def markStarted_def reconcileExternal_def
      releaseClaim_def Let_def split: sum.splits)

lemma reachable_leases_ok: "repository_step\<^sup>*\<^sup>* st st' \<Longrightarrow> leases_ok st \<Longrightarrow> leases_ok st'"
  by (induction rule: rtranclp_induct) (auto intro: repository_step_ok)

text \<open>
  Property C7. However the operations of any number of supervisors are interleaved, from a
  repository whose nodes have distinct ids and which has no leases yet, no node ever has more
  active leases than it may run, and no run ever has two active leases.
\<close>

theorem leases_respect_capacity:
  assumes "repository_step\<^sup>*\<^sup>* st st'" and "leases st = []" and "distinct (map node_id (nodes st))"
  shows "(\<forall>n\<in>set (nodes st'). length (filter (\<lambda>l. lease_nodeId l = node_id n) (activeLeases st'))
      \<le> maxConcurrentRuns n) \<and>
    distinct (map lease_runId (activeLeases st'))"
proof -
  have "leases_ok st"
    using assms(2,3)
    by (simp add: leases_ok_def node_limits_def active_pairs_def activeLeases_def o_def case_prod_beta)
  from reachable_leases_ok[OF assms(1) this] have ok: "leases_ok st'" .
  have "node_load st' (node_id n) \<le> maxConcurrentRuns n" if "n \<in> set (nodes st')" for n
    using ok that by (auto simp: leases_ok_def node_load_pairs node_limits_def)
  with ok show ?thesis
    by (simp add: leases_ok_def node_load_def active_pairs_def o_def)
qed

text \<open>One job waiting for the only place of one node.\<close>

definition sample_job :: scheduler_job where
  "sample_job = \<lparr>job_id = ''job-1'', job_organizationId = ''org'', job_projectId = ''project'',
     job_goalId = ''goal-1'', job_runId = ''run-1'', job_issueId = Some ''issue-1'',
     externalTaskId = ''task-1'', requiredCapability = General_coding, job_state = J_pending,
     job_phase = ''queued'', priority = 1, attempt = 1, maxAttempts = 3,
     maxRuntimeSeconds = JInt 60, deadlineAt = 100000, nextAttemptAt = 0, externalRunId = None,
     job_nodeId = None, leaseToken = None, leaseExpiresAt = None, job_heartbeatAt = None,
     reconciliationRequired = False, stopRequested = False, failureCode = None,
     failureReason = None, job_version = 1\<rparr>"

definition sample_node :: execution_node where
  "sample_node = \<lparr>node_id = ''node-1'', capabilities = [''general_coding''],
     maxConcurrentRuns = 1, node_status = Online, offlineAfter = 100000, node_version = 1\<rparr>"

definition sample_state :: scheduler_state where
  "sample_state = \<lparr>jobs = [sample_job], nodes = [sample_node], leases = [], operations = [], outbox = []\<rparr>"

theorem leases_respect_capacity_witness:
  "let st = snd (acquireLease ''lease-1'' ''token-1'' ''run-1'' ''node-1'' ''supervisor'' 10 1000 sample_state) in
   map lease_runId (activeLeases st) = [''run-1''] \<and>
   (\<forall>n\<in>set (nodes st). length (filter (\<lambda>l. lease_nodeId l = node_id n) (activeLeases st)) \<le> maxConcurrentRuns n) \<and>
   distinct (map lease_runId (activeLeases st))"
proof -
  let ?st = "snd (acquireLease ''lease-1'' ''token-1'' ''run-1'' ''node-1'' ''supervisor'' 10 1000 sample_state)"
  have "repository_step\<^sup>*\<^sup>* sample_state ?st"
    by (rule r_into_rtranclp, rule step_acquire)
  from leases_respect_capacity[OF this]
  have "(\<forall>n\<in>set (nodes ?st). length (filter (\<lambda>l. lease_nodeId l = node_id n) (activeLeases ?st)) \<le> maxConcurrentRuns n) \<and>
      distinct (map lease_runId (activeLeases ?st))"
    by (simp add: sample_state_def)
  moreover have "map lease_runId (activeLeases ?st) = [''run-1'']" by code_simp
  ultimately show ?thesis by (simp add: Let_def)
qed

end
