(* ===== verification/Scheduler_Supervisor.thy ===== *)
theory Scheduler_Supervisor
  imports Scheduler_Repository
begin

text \<open>
  \<^verbatim>\<open>application/scheduler-supervisor.ts\<close>: one tick of the scheduler, composed of the repository's
  operations and the calls of the execution gateway. The gateway is a parameter; the calls a tick
  makes are returned with its result and the new state. Telemetry is left out.
\<close>

section \<open>The gateway\<close>

record artifact_context =
  context_organizationId :: string
  context_projectId :: string
  context_goalId :: string
  context_issueId :: string
  context_runId :: string

record start_request =
  request_taskId :: string
  request_runId :: string
  request_timeoutMs :: int
  request_artifacts :: "artifact_context option"

text \<open>Each operation answers or rejects; a rejection of \<open>start\<close> carries its message.\<close>

record gateway =
  gateway_start :: "start_request \<Rightarrow> string + external_status"
  gateway_inspect :: "string \<Rightarrow> js_error + external_status option"
  gateway_cancel :: "string \<Rightarrow> js_error + unit"

datatype gateway_call = Start_call start_request | Inspect_call string | Cancel_call string

section \<open>A tick\<close>

datatype tick_result =
    Idle
  | Started string
  | Reconciled string
  | Capacity_wait string
  | Retry_scheduled string

definition positive_seconds :: "json \<Rightarrow> int option" where
  "positive_seconds v =
     (case v of JInt s \<Rightarrow> if 0 < s \<and> s \<le> 2 ^ 53 - 1 then Some s else None | _ \<Rightarrow> None)"

definition gatewayTimeoutMs :: "scheduler_job \<Rightarrow> int \<Rightarrow> int" where
  "gatewayTimeoutMs job now =
     (let deadlineMs = deadlineAt job - now;
          runtimeMs = (case positive_seconds (maxRuntimeSeconds job) of
            Some s \<Rightarrow> s * 1000 | None \<Rightarrow> deadlineMs)
      in max 1 (min deadlineMs runtimeMs))"

definition external_run_id :: "scheduler_job \<Rightarrow> string" where
  "external_run_id j = ''cp-'' @ job_runId j @ ''-a'' @ show_nat (attempt j)"

definition artifact_context_of :: "scheduler_job \<Rightarrow> artifact_context option" where
  "artifact_context_of j =
     (case job_issueId j of
        None \<Rightarrow> None
      | Some issue \<Rightarrow>
          if issue = [] then None
          else Some \<lparr>context_organizationId = job_organizationId j,
            context_projectId = job_projectId j, context_goalId = job_goalId j,
            context_issueId = issue, context_runId = job_runId j\<rparr>)"

definition start_request_of :: "scheduler_job \<Rightarrow> int \<Rightarrow> start_request" where
  "start_request_of j now = \<lparr>request_taskId = externalTaskId j, request_runId = external_run_id j,
     request_timeoutMs = gatewayTimeoutMs j now, request_artifacts = artifact_context_of j\<rparr>"

text \<open>\<open>if (job.externalRunId) await this.gateway.cancel(job.externalRunId)\<close>.\<close>

definition cancel_external :: "gateway \<Rightarrow> scheduler_job \<Rightarrow> (js_error + unit) \<times> gateway_call list" where
  "cancel_external gw j =
     (case externalRunId j of
        None \<Rightarrow> (Inr (), [])
      | Some r \<Rightarrow> if r = '''' then (Inr (), []) else (gateway_cancel gw r, [Cancel_call r]))"

definition inspect_external ::
  "gateway \<Rightarrow> scheduler_job \<Rightarrow> (js_error + external_status option) \<times> gateway_call list" where
  "inspect_external gw j =
     (case externalRunId j of
        None \<Rightarrow> (Inr None, [])
      | Some r \<Rightarrow> if r = '''' then (Inr None, []) else (gateway_inspect gw r, [Inspect_call r]))"

text \<open>A result whose value is dropped.\<close>

definition void :: "(js_error + 'a) \<times> scheduler_state \<Rightarrow> (js_error + unit) \<times> scheduler_state" where
  "void p = (map_sum id (\<lambda>_. ()) (fst p), snd p)"

definition reconcile ::
  "gateway \<Rightarrow> scheduler_job \<Rightarrow> int \<Rightarrow> scheduler_state \<Rightarrow>
   (js_error + unit) \<times> scheduler_state \<times> gateway_call list" where
  "reconcile gw j now st =
     (if stopRequested j then
        (case cancel_external gw j of
           (Inl e, calls) \<Rightarrow> (Inl e, st, calls)
         | (Inr _, calls) \<Rightarrow> (case void (markStopped (job_id j) now st) of (r, st') \<Rightarrow> (r, st', calls)))
      else if deadlineAt j \<le> now then
        (case cancel_external gw j of
           (Inl e, calls) \<Rightarrow> (Inl e, st, calls)
         | (Inr _, calls) \<Rightarrow> (case void (markTimedOut (job_id j) now st) of (r, st') \<Rightarrow> (r, st', calls)))
      else
        (case inspect_external gw j of
           (Inl e, calls) \<Rightarrow> (Inl e, st, calls)
         | (Inr external, calls) \<Rightarrow>
             (case void (reconcileExternal (job_id j) external now st) of (r, st') \<Rightarrow> (r, st', calls))))"

fun reconcile_all ::
  "gateway \<Rightarrow> scheduler_job list \<Rightarrow> int \<Rightarrow> scheduler_state \<Rightarrow>
   (js_error + unit) \<times> scheduler_state \<times> gateway_call list" where
  "reconcile_all gw [] now st = (Inr (), st, [])"
| "reconcile_all gw (j # js) now st =
     (case reconcile gw j now st of
        (Inl e, st', calls) \<Rightarrow> (Inl e, st', calls)
      | (Inr _, st', calls) \<Rightarrow>
          (case reconcile_all gw js now st' of (r, st'', calls') \<Rightarrow> (r, st'', calls @ calls')))"

text \<open>
  What a tick depends on: the supervisor's settings, the gateway, the hook \<open>afterExternalStart\<close>,
  the instants the clock gives at its first and its second reading, and the generated identifiers.
\<close>

record tick_context =
  supervisorId :: string
  leaseDurationMs :: int
  tick_gateway :: gateway
  afterExternalStart :: "scheduler_job \<Rightarrow> js_error + unit"
  first_now :: int
  second_now :: int
  new_lease_id :: string
  new_lease_token :: string

text \<open>The part of a tick after a job was claimed and a lease was acquired.\<close>

definition start_claimed ::
  "tick_context \<Rightarrow> scheduler_job \<Rightarrow> execution_lease \<Rightarrow> scheduler_state \<Rightarrow>
   (js_error + tick_result) \<times> scheduler_state \<times> gateway_call list" where
  "start_claimed c claimed lease st =
     (case markExternalStartIssued (job_id claimed) (job_version claimed) (external_run_id claimed)
             lease (first_now c) st of
        (Inl e, st1) \<Rightarrow> (Inl e, st1, [])
      | (Inr starting, st1) \<Rightarrow>
          (let request = start_request_of claimed (first_now c); calls = [Start_call request] in
           case gateway_start (tick_gateway c) request of
             Inl message \<Rightarrow>
               (case handleStartFailure (job_id claimed) ''gateway_start_failed'' message
                       (second_now c) st1 of
                  (Inl e, st2) \<Rightarrow> (Inl e, st2, calls)
                | (Inr _, st2) \<Rightarrow> (Inr (Retry_scheduled (job_id claimed)), st2, calls))
           | Inr external \<Rightarrow>
               (case afterExternalStart c starting of
                  Inl e \<Rightarrow> (Inl e, st1, calls)
                | Inr _ \<Rightarrow>
                    (case markStarted (job_id claimed) external (second_now c) st1 of
                       (Inl e, st2) \<Rightarrow> (Inl e, st2, calls)
                     | (Inr _, st2) \<Rightarrow> (Inr (Started (job_id claimed)), st2, calls)))))"

definition capacity_wait ::
  "tick_context \<Rightarrow> scheduler_job \<Rightarrow> string \<Rightarrow> scheduler_state \<Rightarrow>
   (js_error + tick_result) \<times> scheduler_state \<times> gateway_call list" where
  "capacity_wait c claimed reason st =
     (case releaseClaim (job_id claimed) reason (first_now c) st of
        (Inl e, st') \<Rightarrow> (Inl e, st', [])
      | (Inr _, st') \<Rightarrow> (Inr (Capacity_wait (job_id claimed)), st', []))"

definition place_claimed ::
  "tick_context \<Rightarrow> scheduler_job \<Rightarrow> scheduler_state \<Rightarrow>
   (js_error + tick_result) \<times> scheduler_state \<times> gateway_call list" where
  "place_claimed c claimed st =
     (case selectNode claimed (first_now c) st of
        (None, st1) \<Rightarrow> capacity_wait c claimed ''No compatible capacity'' st1
      | (Some node, st1) \<Rightarrow>
          (case acquireLease (new_lease_id c) (new_lease_token c) (job_runId claimed) (node_id node)
                  (supervisorId c) (first_now c) (first_now c + leaseDurationMs c) st1 of
             (None, st2) \<Rightarrow> capacity_wait c claimed ''Capacity lease unavailable'' st2
           | (Some lease, st2) \<Rightarrow> start_claimed c claimed lease st2))"

definition tick ::
  "(string \<Rightarrow> string \<Rightarrow> bool) \<Rightarrow> tick_context \<Rightarrow> scheduler_state \<Rightarrow>
   (js_error + tick_result) \<times> scheduler_state \<times> gateway_call list" where
  "tick lc c st =
     (case listForReconciliation (first_now c) st of
        (j # js, st1) \<Rightarrow>
          (case reconcile_all (tick_gateway c) (j # js) (first_now c) st1 of
             (Inl e, st2, calls) \<Rightarrow> (Inl e, st2, calls)
           | (Inr _, st2, calls) \<Rightarrow> (Inr (Reconciled (job_id j)), st2, calls))
      | ([], st1) \<Rightarrow>
          (case heartbeatOwned (supervisorId c) (first_now c) (first_now c + leaseDurationMs c) st1 of
             (_, st2) \<Rightarrow>
               (case claimNext lc (first_now c) (supervisorId c) st2 of
                  (None, st3) \<Rightarrow> (Inr Idle, st3, [])
                | (Some claimed, st3) \<Rightarrow> place_claimed c claimed st3)))"

section \<open>How a tick changes the jobs\<close>

definition waiting :: "job_state \<Rightarrow> bool" where
  "waiting s \<longleftrightarrow> s \<in> {J_pending, J_retry_wait, J_claimed}"

text \<open>
  What a tick may do to a job: attempts grow within their limit, a job waits again only for a
  later attempt, and a terminal job stays as it is.
\<close>

definition job_progress :: "scheduler_job \<Rightarrow> scheduler_job \<Rightarrow> bool" where
  "job_progress a b \<longleftrightarrow>
     job_id b = job_id a \<and> job_runId b = job_runId a \<and> maxAttempts b = maxAttempts a \<and>
     attempt a \<le> attempt b \<and> attempt b \<le> max (attempt a) (maxAttempts a) \<and>
     (waiting (job_state b) \<longrightarrow> waiting (job_state a) \<or> attempt a < attempt b) \<and>
     (terminal (job_state a) \<longrightarrow> b = a)"

definition jobs_progress :: "scheduler_state \<Rightarrow> scheduler_state \<Rightarrow> bool" where
  "jobs_progress st st' \<longleftrightarrow> list_all2 job_progress (jobs st) (jobs st')"

lemma job_progress_refl [simp]: "job_progress j j"
  by (simp add: job_progress_def)

lemma job_progress_trans: "job_progress a b \<Longrightarrow> job_progress b c \<Longrightarrow> job_progress a c"
  unfolding job_progress_def by (auto simp: max_def split: if_splits)

lemma jobs_progress_refl [simp]: "jobs st' = jobs st \<Longrightarrow> jobs_progress st st'"
  by (simp add: jobs_progress_def list_all2_refl)

lemma jobs_progress_trans [trans]:
  "jobs_progress a b \<Longrightarrow> jobs_progress b c \<Longrightarrow> jobs_progress a c"
  unfolding jobs_progress_def by (rule list_all2_trans[OF job_progress_trans])

lemma list_all2_update_first:
  "(\<And>x. R x x) \<Longrightarrow> (\<And>x. x \<in> set xs \<Longrightarrow> p x \<Longrightarrow> R x (f x)) \<Longrightarrow> list_all2 R xs (update_first p f xs)"
  by (induction xs) (auto simp: list_all2_refl)

lemma jobs_progress_update:
  assumes "jobs st' = update_first p f (jobs st)"
    and "\<And>j. j \<in> set (jobs st) \<Longrightarrow> p j \<Longrightarrow> job_progress j (f j)"
  shows "jobs_progress st st'"
  unfolding jobs_progress_def assms(1)
  by (rule list_all2_update_first) (use assms(2) in auto)

lemma jobs_progress_ids:
  "jobs_progress st st' \<Longrightarrow> map job_id (jobs st') = map job_id (jobs st) \<and>
     map job_runId (jobs st') = map job_runId (jobs st)"
  unfolding jobs_progress_def
  by (induction rule: list_all2_induct) (auto simp: job_progress_def)

text \<open>The job with an id, among jobs with distinct ids.\<close>

lemma find_job:
  "distinct (map job_id js) \<Longrightarrow> j \<in> set js \<Longrightarrow> find (\<lambda>k. job_id k = job_id j) js = Some j"
  by (induction js) auto

lemma update_first_map:
  "distinct (map job_id js) \<Longrightarrow>
     update_first (\<lambda>k. job_id k = i) f js = map (\<lambda>k. if job_id k = i then f k else k) js"
proof (induction js)
  case (Cons j js)
  have "map (\<lambda>k. if job_id k = i then f k else k) js = js" if "i \<notin> job_id ` set js"
    using that by (induction js) auto
  with Cons show ?case by auto
qed simp

lemma update_first_member:
  "distinct (map job_id js) \<Longrightarrow> j \<in> set js \<Longrightarrow>
     update_first (\<lambda>k. k = j) f js = update_first (\<lambda>k. job_id k = job_id j) f js"
proof (induction js)
  case (Cons x js)
  show ?case
  proof (cases "x = j")
    case False
    with Cons.prems have "j \<in> set js" by simp
    then have "job_id j \<in> job_id ` set js" by (rule imageI)
    with Cons.prems(1) have "job_id x \<noteq> job_id j" by auto
    with False Cons.IH Cons.prems(1) \<open>j \<in> set js\<close> show ?thesis by simp
  qed simp
qed simp

lemma requiredJob_member:
  "distinct (map job_id (jobs st)) \<Longrightarrow> j \<in> set (jobs st) \<Longrightarrow> requiredJob (job_id j) st = Inr j"
  by (simp add: requiredJob_def find_job)

lemma requiredJob_Inr: "requiredJob i st = Inr j \<Longrightarrow> j \<in> set (jobs st) \<and> job_id j = i"
  by (auto simp: requiredJob_def split: option.splits dest: find_SomeD)

lemma release_run_jobs [simp]: "jobs (release_run run now st) = jobs st"
  by (simp add: release_run_def)

subsection \<open>Reading and renewing\<close>

lemma mark_progress:
  "find (\<lambda>j. job_runId j = r) js = Some k \<Longrightarrow> \<not> terminal (job_state k) \<Longrightarrow>
     list_all2 job_progress js
       (update_first (\<lambda>j. job_runId j = r) (\<lambda>j. j\<lparr>reconciliationRequired := True\<rparr>) js)"
proof (induction js)
  case (Cons j js)
  have "job_progress k (k\<lparr>reconciliationRequired := True\<rparr>)"
    using Cons.prems(2) by (simp add: job_progress_def)
  with Cons show ?case by (cases "job_runId j = r") (simp_all add: list_all2_refl)
qed simp

lemma expire_lease_progress: "jobs_progress st (expire_lease now offline l st)"
  by (auto simp: jobs_progress_def expire_lease_def Let_def list_all2_refl mark_progress
      split: option.splits)

lemma fold_progress:
  "(\<And>x st. jobs_progress st (f x st)) \<Longrightarrow> jobs_progress st (fold f xs st)"
  by (induction xs arbitrary: st) (auto intro: jobs_progress_trans)

lemma list_progress: "jobs_progress st (snd (listForReconciliation now st))"
proof -
  have "jobs_progress st0 (fold (expire_lease now offline) ls st0)" for st0 offline ls
    by (rule fold_progress) (rule expire_lease_progress)
  from jobs_progress_trans[OF jobs_progress_refl this] show ?thesis
    by (simp add: listForReconciliation_def Let_def)
qed

lemma renew_job_progress: "list_all2 job_progress js (renew_job now expires run js)"
  unfolding renew_job_def by (rule list_all2_update_first) (auto simp: job_progress_def)

lemma fold_renew_progress: "list_all2 job_progress js (fold (\<lambda>l. renew_job now expires (g l)) ls js)"
proof (induction ls arbitrary: js)
  case (Cons l ls)
  from list_all2_trans[OF job_progress_trans renew_job_progress Cons.IH] show ?case by simp
qed (simp add: list_all2_refl)

lemma heartbeat_progress: "jobs_progress st (snd (heartbeatOwned owner now expires st))"
  by (simp add: heartbeatOwned_def Let_def jobs_progress_def fold_renew_progress)

subsection \<open>Reconciling\<close>

text \<open>An operation that changes the job with an id, which is not terminal.\<close>

lemma set_job_progress:
  assumes "\<And>j. job_id (f j) = job_id j \<and> job_runId (f j) = job_runId j \<and>
      maxAttempts (f j) = maxAttempts j \<and> attempt (f j) = attempt j \<and> \<not> waiting (job_state (f j))"
    and "\<And>j. j \<in> set (jobs st) \<Longrightarrow> job_id j = i \<Longrightarrow> \<not> terminal (job_state j)"
    and "jobs st' = update_first (\<lambda>j. job_id j = i) f (jobs st)"
  shows "jobs_progress st st'"
  by (rule jobs_progress_update[OF assms(3)]) (use assms(1,2) in \<open>auto simp: job_progress_def\<close>)

definition live :: "scheduler_state \<Rightarrow> string \<Rightarrow> bool" where
  "live st i \<longleftrightarrow> (\<forall>j\<in>set (jobs st). job_id j = i \<longrightarrow> \<not> terminal (job_state j))"

lemma not_waiting_reconcile: "\<not> waiting (job_state (reconcile_job external now j))"
  by (auto simp: waiting_def reconcile_job_def Let_def split: option.splits external_state.splits)

lemma reconcile_job_keeps:
  "job_id (reconcile_job external now j) = job_id j" "job_runId (reconcile_job external now j) = job_runId j"
  "maxAttempts (reconcile_job external now j) = maxAttempts j"
  "attempt (reconcile_job external now j) = attempt j"
  by (auto simp: reconcile_job_def Let_def split: option.splits external_state.splits)

text \<open>Reconciling a job changes that job only.\<close>

definition only_job :: "string \<Rightarrow> scheduler_state \<Rightarrow> scheduler_state \<Rightarrow> bool" where
  "only_job i st st' \<longleftrightarrow> jobs st' = jobs st \<or> (\<exists>f. (\<forall>j. job_id (f j) = job_id j \<and>
      job_runId (f j) = job_runId j \<and> maxAttempts (f j) = maxAttempts j \<and> attempt (f j) = attempt j \<and>
      \<not> waiting (job_state (f j))) \<and>
      jobs st' = update_first (\<lambda>j. job_id j = i) f (jobs st))"

lemma only_job_progress: "only_job i st st' \<Longrightarrow> live st i \<Longrightarrow> jobs_progress st st'"
  unfolding only_job_def live_def by (auto intro: set_job_progress)

lemma set_update_first: "x \<in> set (update_first p f xs) \<Longrightarrow> x \<in> set xs \<or> (\<exists>y\<in>set xs. p y \<and> x = f y)"
  by (induction xs) (auto split: if_splits)

lemma only_job_live:
  assumes "only_job i st st'" "live st k" "k \<noteq> i"
  shows "live st' k"
  unfolding live_def
proof (intro ballI impI)
  fix j
  assume j: "j \<in> set (jobs st')" and k: "job_id j = k"
  have "j \<in> set (jobs st) \<or> job_id j = i"
    using assms(1) unfolding only_job_def
  proof
    assume "jobs st' = jobs st"
    with j show ?thesis by simp
  next
    assume "\<exists>f. (\<forall>j. job_id (f j) = job_id j \<and> job_runId (f j) = job_runId j \<and>
        maxAttempts (f j) = maxAttempts j \<and> attempt (f j) = attempt j \<and> \<not> waiting (job_state (f j))) \<and>
      jobs st' = update_first (\<lambda>j. job_id j = i) f (jobs st)"
    then obtain f where "\<And>j. job_id (f j) = job_id j"
      "jobs st' = update_first (\<lambda>j. job_id j = i) f (jobs st)" by blast
    with set_update_first[of j "\<lambda>j. job_id j = i" f "jobs st"] j show ?thesis by auto
  qed
  with k assms(2,3) show "\<not> terminal (job_state j)" by (auto simp: live_def)
qed

lemma marks_only_job:
  "only_job i st (snd (markStopped i now st))" "only_job i st (snd (markTimedOut i now st))"
  "only_job i st (snd (reconcileExternal i external now st))"
proof -
  show "only_job i st (snd (markStopped i now st))"
    unfolding only_job_def markStopped_def Let_def
    by (cases "requiredJob i (push_operation ''job:stopped'' st)")
      (auto intro!: disjI2 exI[of _ "stop_job now"] simp: stop_job_def waiting_def)
  show "only_job i st (snd (markTimedOut i now st))"
    unfolding only_job_def markTimedOut_def Let_def
    by (cases "requiredJob i (push_operation ''job:timeout'' st)")
      (auto intro!: disjI2 exI[of _ "time_out_job now"] simp: time_out_job_def waiting_def)
  show "only_job i st (snd (reconcileExternal i external now st))"
    unfolding only_job_def reconcileExternal_def Let_def
    by (cases "requiredJob i (push_operation ''job:reconcile'' st)")
      (auto intro!: disjI2 exI[of _ "reconcile_job external now"]
        simp: not_waiting_reconcile reconcile_job_keeps)
qed

lemma reconcile_only_job: "only_job (job_id j) st (fst (snd (reconcile gw j now st)))"
  using marks_only_job[of "job_id j"]
  by (auto simp: reconcile_def void_def only_job_def split: sum.splits prod.splits)

fun starts :: "gateway_call list \<Rightarrow> start_request list" where
  "starts [] = []"
| "starts (Start_call r # cs) = r # starts cs"
| "starts (c # cs) = starts cs"

lemma starts_append [simp]: "starts (a @ b) = starts a @ starts b"
  by (induction a rule: starts.induct) auto

lemma reconcile_no_start: "starts (snd (snd (reconcile gw j now st))) = []"
  by (auto simp: reconcile_def cancel_external_def inspect_external_def void_def
      split: sum.splits prod.splits option.splits if_splits)

lemma reconcile_all_progress:
  assumes "distinct (map job_id js)" and "\<forall>j\<in>set js. live st (job_id j)"
  shows "jobs_progress st (fst (snd (reconcile_all gw js now st))) \<and>
    starts (snd (snd (reconcile_all gw js now st))) = []"
  using assms
proof (induction js arbitrary: st)
  case (Cons j js)
  obtain r st' calls where rec: "reconcile gw j now st = (r, st', calls)" by (metis prod.exhaust)
  have oj: "only_job (job_id j) st st'" using reconcile_only_job[of j st gw now] rec by simp
  then have p: "jobs_progress st st'" using Cons.prems(2) by (auto intro: only_job_progress)
  have ns: "starts calls = []" using reconcile_no_start[of gw j now st] rec by simp
  show ?case
  proof (cases r)
    case (Inl e)
    then show ?thesis using rec p ns by simp
  next
    case (Inr u)
    have "live st' (job_id k)" if "k \<in> set js" for k
      using only_job_live[OF oj] Cons.prems that by (metis (no_types, lifting) distinct.simps(2)
          image_eqI list.set_intros(2) list.simps(9) set_map)
    with Cons.IH[of st'] Cons.prems(1)
    have "jobs_progress st' (fst (snd (reconcile_all gw js now st'))) \<and>
        starts (snd (snd (reconcile_all gw js now st'))) = []" by simp
    with jobs_progress_trans[OF p] ns rec Inr show ?thesis
      by (auto split: prod.splits)
  qed
qed simp

subsection \<open>Claiming and starting\<close>

text \<open>Jobs with distinct ids and distinct runs.\<close>

definition distinct_jobs :: "scheduler_state \<Rightarrow> bool" where
  "distinct_jobs st \<longleftrightarrow> distinct (map job_id (jobs st)) \<and> distinct (map job_runId (jobs st))"

lemma distinct_jobs_progress: "jobs_progress st st' \<Longrightarrow> distinct_jobs st \<Longrightarrow> distinct_jobs st'"
  using jobs_progress_ids by (metis distinct_jobs_def)

lemma set_job_member:
  assumes "distinct_jobs st" "j \<in> set (jobs st)" "jobs st' = update_first (\<lambda>k. job_id k = job_id j) f (jobs st)"
    and "job_progress j (f j)"
  shows "f j \<in> set (jobs st')" and "jobs_progress st st'"
proof -
  have d: "distinct (map job_id (jobs st))" using assms(1) by (simp add: distinct_jobs_def)
  show "f j \<in> set (jobs st')"
    using assms(2,3) by (auto simp: update_first_map[OF d] image_iff intro: bexI[of _ j])
  show "jobs_progress st st'"
  proof (rule jobs_progress_update[OF assms(3)])
    fix k
    assume "k \<in> set (jobs st)" "job_id k = job_id j"
    with d assms(2) have "k = j" by (metis distinct_map inj_onD)
    with assms(4) show "job_progress k (f k)" by simp
  qed
qed

lemma claimNext_Some:
  assumes "distinct_jobs st" and "claimNext lc now owner st = (Some claimed, st')"
  shows "\<exists>c\<in>set (jobs st). claimable now c \<and> claimed = claim_job now c \<and>
    jobs st' = update_first (\<lambda>k. job_id k = job_id c) (claim_job now) (jobs st)"
proof -
  from assms(2) obtain c cs where s: "sort_by (claim_before lc) (filter (claimable now) (jobs st)) = c # cs"
    and c: "claimed = claim_job now c" "jobs st' = update_first (\<lambda>k. k = c) (claim_job now) (jobs st)"
    by (auto simp: claimNext_def Let_def split: list.splits)
  have "c \<in> set (sort_by (claim_before lc) (filter (claimable now) (jobs st)))" by (simp add: s)
  then have "c \<in> set (jobs st)" "claimable now c" by simp_all
  with c update_first_member[of "jobs st" c] assms(1) show ?thesis
    by (auto simp: distinct_jobs_def)
qed

lemma claim_progress: "claimable now c \<Longrightarrow> job_progress c (claim_job now c)"
  by (auto simp: claimable_def job_progress_def claim_job_def waiting_def terminal_def)

text \<open>What a tick does with a claimed job: nothing is started, or it is, and does not wait again.\<close>

definition placed ::
  "int \<Rightarrow> scheduler_job \<Rightarrow> scheduler_state \<Rightarrow> scheduler_state \<Rightarrow> gateway_call list \<Rightarrow> bool" where
  "placed now claimed st st' calls \<longleftrightarrow>
     jobs_progress st st' \<and>
     (starts calls = [] \<or>
      starts calls = [start_request_of claimed now] \<and>
      (\<exists>j\<in>set (jobs st'). job_runId j = job_runId claimed \<and> attempt claimed \<le> attempt j \<and>
         (waiting (job_state j) \<longrightarrow> attempt claimed < attempt j)))"

lemma capacity_wait_placed:
  assumes "distinct_jobs st" "claimed \<in> set (jobs st)" "job_state claimed = J_claimed"
  shows "placed now claimed st (fst (snd (capacity_wait c claimed reason st)))
    (snd (snd (capacity_wait c claimed reason st)))"
proof -
  have r: "requiredJob (job_id claimed) (push_operation ''claim:release'' st) = Inr claimed"
    using assms by (intro requiredJob_member) (simp_all add: distinct_jobs_def)
  have p: "job_progress claimed (unclaim_job reason now' claimed)" for now'
    using assms(3) by (simp add: job_progress_def unclaim_job_def waiting_def terminal_def)
  have e: "jobs (set_job (job_id claimed) (unclaim_job reason (first_now c)) (push_operation ''claim:release'' st)) =
      update_first (\<lambda>k. job_id k = job_id claimed) (unclaim_job reason (first_now c)) (jobs st)" by simp
  show ?thesis
    using set_job_member(2)[OF assms(1,2) e p]
    by (simp add: placed_def capacity_wait_def releaseClaim_def Let_def r)
qed

lemma fail_start_progress:
  "job_state j = J_starting \<Longrightarrow> job_progress j (fail_start code reason now j) \<and>
     attempt j \<le> attempt (fail_start code reason now j) \<and>
     (waiting (job_state (fail_start code reason now j)) \<longrightarrow> attempt j < attempt (fail_start code reason now j))"
  by (auto simp: job_progress_def fail_start_def Let_def waiting_def terminal_def)

lemma start_claimed_placed:
  assumes dj: "distinct_jobs st" and c: "claimed \<in> set (jobs st)" "job_state claimed = J_claimed"
  shows "placed (first_now ctx) claimed st (fst (snd (start_claimed ctx claimed lease st)))
    (snd (snd (start_claimed ctx claimed lease st)))"
proof -
  let ?issue = "issue_start (external_run_id claimed) lease (first_now ctx)"
  let ?st1 = "set_job (job_id claimed) ?issue (push_operation ''job:starting'' st)"
  have r: "requiredJob (job_id claimed) (push_operation ''job:starting'' st) = Inr claimed"
    using dj c by (intro requiredJob_member) (simp_all add: distinct_jobs_def)
  have mark: "markExternalStartIssued (job_id claimed) (job_version claimed) (external_run_id claimed)
      lease (first_now ctx) st = (Inr (?issue claimed), ?st1)"
    using c(2) by (simp add: markExternalStartIssued_def Let_def r)
  have "job_progress claimed (?issue claimed)"
    using c(2) by (simp add: job_progress_def issue_start_def waiting_def terminal_def)
  have e1: "jobs ?st1 = update_first (\<lambda>k. job_id k = job_id claimed) ?issue (jobs st)" by simp
  note m1 = set_job_member[where f = ?issue, OF dj c(1) e1 \<open>job_progress claimed _\<close>]
  have dj1: "distinct_jobs ?st1" by (rule distinct_jobs_progress[OF m1(2) dj])
  let ?j1 = "?issue claimed"
  have j1: "?j1 \<in> set (jobs ?st1)" "job_id ?j1 = job_id claimed" "job_runId ?j1 = job_runId claimed"
    "attempt ?j1 = attempt claimed" "job_state ?j1 = J_starting"
    using m1(1) by (simp_all add: issue_start_def)
  have started: "\<exists>j\<in>set (jobs st2). job_runId j = job_runId claimed \<and> attempt claimed \<le> attempt j \<and>
      (waiting (job_state j) \<longrightarrow> attempt claimed < attempt j)"
    if "k \<in> set (jobs st2)" "job_progress ?j1 k"
      "waiting (job_state k) \<Longrightarrow> attempt ?j1 < attempt k" for k st2
    using that j1 by (intro bexI[of _ k]) (auto simp: job_progress_def)
  have req: "requiredJob (job_id claimed) (push_operation op ?st1) = Inr ?j1" for op
    using requiredJob_member[of "push_operation op ?st1" ?j1] dj1 j1(1,2)
    by (simp add: distinct_jobs_def)
  show ?thesis
  proof (cases "gateway_start (tick_gateway ctx) (start_request_of claimed (first_now ctx))")
    case (Inl message)
    let ?fail = "fail_start ''gateway_start_failed'' message (second_now ctx)"
    let ?st2 = "release_run (job_runId ?j1) (second_now ctx)
      (set_job (job_id claimed) ?fail (push_operation ''job:start-failed'' ?st1))"
    have fp: "job_progress ?j1 (?fail ?j1)"
      "waiting (job_state (?fail ?j1)) \<Longrightarrow> attempt ?j1 < attempt (?fail ?j1)"
      using fail_start_progress[OF j1(5)] by blast+
    have "jobs ?st2 = update_first (\<lambda>k. job_id k = job_id ?j1) ?fail (jobs ?st1)"
      by (simp add: j1(2))
    note m2 = set_job_member[where f = ?fail, OF dj1 j1(1) this fp(1)]
    show ?thesis
      using Inl mark jobs_progress_trans[OF m1(2) m2(2)] started[OF m2(1) fp]
      by (simp add: placed_def start_claimed_def handleStartFailure_def Let_def req)
  next
    case (Inr external)
    show ?thesis
    proof (cases "afterExternalStart ctx ?j1")
      case (Inl e)
      with Inr mark m1 j1 show ?thesis
        by (auto simp: placed_def start_claimed_def Let_def waiting_def intro!: bexI[of _ ?j1])
    next
      case (Inr u)
      let ?start = "start_job external (second_now ctx)"
      let ?st2 = "(set_job (job_id claimed) ?start (push_operation ''job:started'' ?st1))
        \<lparr>outbox := outbox (push_operation ''job:started'' ?st1) @ [Job_started (job_id claimed)]\<rparr>"
      have sp: "job_progress ?j1 (?start ?j1)" "\<not> waiting (job_state (?start ?j1))"
        using j1(5) by (simp_all add: job_progress_def start_job_def waiting_def terminal_def)
      have "jobs ?st2 = update_first (\<lambda>k. job_id k = job_id ?j1) ?start (jobs ?st1)"
        by (simp add: j1(2))
      note m2 = set_job_member[where f = ?start, OF dj1 j1(1) this sp(1)]
      show ?thesis
        using Inr \<open>gateway_start _ _ = Inr external\<close> mark jobs_progress_trans[OF m1(2) m2(2)]
          started[OF m2(1) sp(1)] sp(2)
        by (simp add: placed_def start_claimed_def markStarted_def Let_def req)
    qed
  qed
qed

lemma select_acquire_jobs:
  "jobs (snd (selectNode j now st)) = jobs st"
  "jobs (snd (acquireLease i t run node owner now expires st)) = jobs st"
  by (simp_all add: selectNode_def acquireLease_def Let_def split: option.splits)

lemma placed_cong: "jobs st0 = jobs st \<Longrightarrow> placed now c st st' calls \<Longrightarrow> placed now c st0 st' calls"
  by (simp add: placed_def jobs_progress_def)

lemma place_claimed_placed:
  assumes "distinct_jobs st" "claimed \<in> set (jobs st)" "job_state claimed = J_claimed"
  shows "placed (first_now ctx) claimed st (fst (snd (place_claimed ctx claimed st)))
    (snd (snd (place_claimed ctx claimed st)))"
proof -
  obtain sel st1 where s: "selectNode claimed (first_now ctx) st = (sel, st1)" by fastforce
  have j1: "jobs st1 = jobs st" using select_acquire_jobs(1)[of claimed "first_now ctx" st] s by simp
  have d1: "distinct_jobs st1" using assms(1) j1 by (simp add: distinct_jobs_def)
  show ?thesis
  proof (cases sel)
    case None
    have "placed (first_now ctx) claimed st1 (fst (snd (capacity_wait ctx claimed r st1)))
        (snd (snd (capacity_wait ctx claimed r st1)))" for r
      by (rule capacity_wait_placed) (use d1 assms(2,3) j1 in auto)
    from placed_cong[OF j1[symmetric] this] s None show ?thesis by (simp add: place_claimed_def)
  next
    case (Some node)
    obtain lease st2 where a: "acquireLease (new_lease_id ctx) (new_lease_token ctx) (job_runId claimed)
        (node_id node) (supervisorId ctx) (first_now ctx) (first_now ctx + leaseDurationMs ctx) st1 = (lease, st2)"
      by fastforce
    have j2: "jobs st2 = jobs st"
      using select_acquire_jobs(2)[of "new_lease_id ctx" "new_lease_token ctx" "job_runId claimed"
          "node_id node" "supervisorId ctx" "first_now ctx" "first_now ctx + leaseDurationMs ctx" st1] a j1
      by simp
    have d2: "distinct_jobs st2" using assms(1) j2 by (simp add: distinct_jobs_def)
    have "placed (first_now ctx) claimed st2 (fst (snd (capacity_wait ctx claimed r st2)))
        (snd (snd (capacity_wait ctx claimed r st2)))" for r
      by (rule capacity_wait_placed) (use d2 assms(2,3) j2 in auto)
    moreover have "placed (first_now ctx) claimed st2 (fst (snd (start_claimed ctx claimed l st2)))
        (snd (snd (start_claimed ctx claimed l st2)))" for l
      by (rule start_claimed_placed) (use d2 assms(2,3) j2 in auto)
    ultimately show ?thesis
      using s Some a placed_cong[OF j2[symmetric]] by (auto simp: place_claimed_def split: option.splits)
  qed
qed

text \<open>The jobs a tick finds when it claims, after reading and renewing.\<close>

definition before_claim :: "tick_context \<Rightarrow> scheduler_state \<Rightarrow> scheduler_state" where
  "before_claim ctx st = snd (heartbeatOwned (supervisorId ctx) (first_now ctx)
     (first_now ctx + leaseDurationMs ctx) (snd (listForReconciliation (first_now ctx) st)))"

lemma before_claim_progress: "jobs_progress st (before_claim ctx st)"
  unfolding before_claim_def by (rule jobs_progress_trans[OF list_progress heartbeat_progress])

lemma listed_jobs:
  assumes "distinct_jobs st" and "listForReconciliation now st = (js, st')"
  shows "distinct (map job_id js)" and "\<forall>j\<in>set js. live st' (job_id j)"
proof -
  have js: "js = filter (needs_reconciliation now) (jobs st')"
    using assms(2) by (auto simp: listForReconciliation_def Let_def)
  have d: "distinct (map job_id (jobs st'))"
    using distinct_jobs_progress[OF list_progress assms(1), of now] assms(2) by (simp add: distinct_jobs_def)
  then show "distinct (map job_id js)" by (simp add: js distinct_map_filter)
  show "\<forall>j\<in>set js. live st' (job_id j)"
    unfolding live_def js using d
    by (auto simp: needs_reconciliation_def distinct_map dest: inj_onD)
qed

lemma tick_cases:
  assumes dj: "distinct_jobs st" and t: "tick lc ctx st = (r, st', calls)"
  shows "jobs_progress st st' \<and>
    (starts calls = [] \<or>
     (\<exists>c\<in>set (jobs (before_claim ctx st)). claimable (first_now ctx) c \<and>
        placed (first_now ctx) (claim_job (first_now ctx) c) (before_claim ctx st) st' calls))"
proof -
  obtain js st1 where l: "listForReconciliation (first_now ctx) st = (js, st1)" by fastforce
  have p1: "jobs_progress st st1" using list_progress[of st "first_now ctx"] l by simp
  show ?thesis
  proof (cases js)
    case (Cons j ks)
    have "jobs_progress st1 (fst (snd (reconcile_all (tick_gateway ctx) js (first_now ctx) st1))) \<and>
        starts (snd (snd (reconcile_all (tick_gateway ctx) js (first_now ctx) st1))) = []"
      by (rule reconcile_all_progress) (use listed_jobs[OF dj l] in auto)
    moreover have "st' = fst (snd (reconcile_all (tick_gateway ctx) js (first_now ctx) st1))"
      "calls = snd (snd (reconcile_all (tick_gateway ctx) js (first_now ctx) st1))"
      using t unfolding tick_def l Cons by (auto split: prod.splits sum.splits simp del: reconcile_all.simps)
    ultimately show ?thesis using jobs_progress_trans[OF p1] by blast
  next
    case Nil
    let ?st2 = "before_claim ctx st"
    have dj2: "distinct_jobs ?st2" by (rule distinct_jobs_progress[OF before_claim_progress dj])
    have st2: "snd (heartbeatOwned (supervisorId ctx) (first_now ctx)
        (first_now ctx + leaseDurationMs ctx) st1) = ?st2"
      by (simp add: before_claim_def l)
    obtain claimed st3 where c: "claimNext lc (first_now ctx) (supervisorId ctx) ?st2 = (claimed, st3)"
      by fastforce
    show ?thesis
    proof (cases claimed)
      case None
      with t l Nil st2 c have "st' = st3" "calls = []"
        by (auto simp: tick_def split: prod.splits)
      moreover have "jobs st3 = jobs ?st2"
        using c None by (auto simp: claimNext_def Let_def split: list.splits)
      ultimately show ?thesis
        using before_claim_progress[of st ctx] by (simp add: jobs_progress_def)
    next
      case (Some k)
      from claimNext_Some[OF dj2 c[unfolded Some]] obtain j where j: "j \<in> set (jobs ?st2)"
        "claimable (first_now ctx) j" "k = claim_job (first_now ctx) j"
        and e: "jobs st3 = update_first (\<lambda>i. job_id i = job_id j) (claim_job (first_now ctx)) (jobs ?st2)"
        by blast
      note m = set_job_member[OF dj2 j(1) e claim_progress[OF j(2)]]
      have "placed (first_now ctx) k st3 (fst (snd (place_claimed ctx k st3))) (snd (snd (place_claimed ctx k st3)))"
        by (rule place_claimed_placed)
          (use m(1) distinct_jobs_progress[OF m(2) dj2] j(3) in \<open>simp_all add: claim_job_def\<close>)
      moreover have "place_claimed ctx k st3 = (r, st', calls)"
        using t l Nil st2 c Some by (auto simp: tick_def split: prod.splits)
      ultimately have "placed (first_now ctx) k st3 st' calls" by simp
      then have "placed (first_now ctx) k ?st2 st' calls"
        using jobs_progress_trans[OF m(2)] by (auto simp: placed_def)
      then show ?thesis
        using j jobs_progress_trans[OF before_claim_progress[of st ctx]] by (auto simp: placed_def)
    qed
  qed
qed

section \<open>Runs of ticks\<close>

text \<open>
  Any number of ticks, each with its own supervisor, instants, gateway answers and hook, and the
  start requests they issued.
\<close>

inductive tick_run ::
  "(string \<Rightarrow> string \<Rightarrow> bool) \<Rightarrow> scheduler_state \<Rightarrow> start_request list \<Rightarrow> scheduler_state \<Rightarrow> bool"
  for lc where
  run_none: "tick_run lc st [] st"
| run_tick: "tick_run lc st rs st' \<Longrightarrow> tick lc ctx st' = (r, st'', calls) \<Longrightarrow>
    tick_run lc st (rs @ starts calls) st''"

definition run_name :: "string \<times> nat \<Rightarrow> string" where
  "run_name p = ''cp-'' @ fst p @ ''-a'' @ show_nat (snd p)"

lemma rev_run_name:
  "takeWhile (\<lambda>c. c \<in> decimal_digits) (rev (run_name p)) = rev (show_nat (snd p))"
proof -
  have "rev (run_name p) = rev (show_nat (snd p)) @ (''a-'' @ rev (fst p) @ ''-pc'')"
    by (simp add: run_name_def)
  then show ?thesis
    using takeWhile_until[of "rev (show_nat (snd p))" decimal_digits "''a-'' @ rev (fst p) @ ''-pc''"]
      show_nat_digits[of "snd p"]
    by (simp add: decimal_digits_def)
qed

lemma run_name_inject: "run_name p = run_name q \<longleftrightarrow> p = q"
proof
  assume e: "run_name p = run_name q"
  then have "rev (show_nat (snd p)) = rev (show_nat (snd q))" by (metis rev_run_name)
  then have "snd p = snd q" by simp
  with e show "p = q" by (simp add: run_name_def prod_eq_iff)
qed simp

text \<open>What the jobs say of the runs and attempts started so far.\<close>

definition issued_ok :: "(string \<times> nat) set \<Rightarrow> scheduler_state \<Rightarrow> bool" where
  "issued_ok issued st \<longleftrightarrow>
     (\<forall>(run, a)\<in>issued. \<exists>j\<in>set (jobs st). job_runId j = run \<and>
        (if waiting (job_state j) then a < attempt j else a \<le> attempt j))"

lemma progress_member:
  assumes "jobs_progress st st'" "j \<in> set (jobs st)"
  shows "\<exists>k\<in>set (jobs st'). job_progress j k"
  using assms unfolding jobs_progress_def
  by (metis in_set_conv_nth list_all2_conv_all_nth)

lemma progress_origin:
  assumes "jobs_progress st st'" "k \<in> set (jobs st')"
  shows "\<exists>j\<in>set (jobs st). job_progress j k"
  using assms unfolding jobs_progress_def
  by (metis in_set_conv_nth list_all2_conv_all_nth)

lemma issued_ok_progress:
  assumes "issued_ok I st" "jobs_progress st st'"
  shows "issued_ok I st'"
  unfolding issued_ok_def
proof clarify
  fix run a
  assume "(run, a) \<in> I"
  with assms(1) obtain j where j: "j \<in> set (jobs st)" "job_runId j = run"
    "if waiting (job_state j) then a < attempt j else a \<le> attempt j"
    by (auto simp: issued_ok_def)
  from progress_member[OF assms(2) j(1)] obtain k where "k \<in> set (jobs st')" "job_progress j k" by blast
  with j(2,3) show "\<exists>j\<in>set (jobs st'). job_runId j = run \<and>
      (if waiting (job_state j) then a < attempt j else a \<le> attempt j)"
    by (intro bexI[of _ k]) (auto simp: job_progress_def split: if_splits)
qed

text \<open>A job that can be claimed has not been started for its attempt yet.\<close>

lemma claimable_fresh:
  assumes "issued_ok I st" "distinct_jobs st" "c \<in> set (jobs st)" "claimable now c"
  shows "(job_runId c, attempt c) \<notin> I"
proof
  assume "(job_runId c, attempt c) \<in> I"
  with assms(1) obtain j where j: "j \<in> set (jobs st)" "job_runId j = job_runId c"
    "if waiting (job_state j) then attempt c < attempt j else attempt c \<le> attempt j"
    by (auto simp: issued_ok_def)
  from j(1,2) assms(2,3) have "j = c" by (auto simp: distinct_jobs_def distinct_map dest: inj_onD)
  with j(3) assms(4) show False by (auto simp: claimable_def waiting_def)
qed

definition request_in_time :: "start_request \<Rightarrow> bool" where
  "request_in_time r \<longleftrightarrow> 1 \<le> request_timeoutMs r"

lemma claimable_timeout:
  "claimable now c \<Longrightarrow> 1 \<le> gatewayTimeoutMs (claim_job now c) now \<and>
     now + gatewayTimeoutMs (claim_job now c) now \<le> deadlineAt c"
  by (auto simp: claimable_def gatewayTimeoutMs_def claim_job_def Let_def positive_seconds_def
      split: option.splits json.splits if_splits)

lemma tick_run_issued:
  assumes "tick_run lc st rs st'" and "distinct_jobs st"
  shows "jobs_progress st st' \<and>
    (\<exists>ps. map request_runId rs = map run_name ps \<and> distinct ps \<and> issued_ok (set ps) st' \<and>
      (\<forall>(run, a)\<in>set ps. \<exists>j\<in>set (jobs st). job_runId j = run \<and> attempt j \<le> a \<and>
         a \<le> max (attempt j) (maxAttempts j))) \<and>
    (\<forall>r\<in>set rs. 1 \<le> request_timeoutMs r)"
  using assms
proof (induction rule: tick_run.induct)
  case (run_none st)
  then show ?case by (auto simp: issued_ok_def intro!: exI[of _ "[]"])
next
  case (run_tick st rs st' ctx r st'' calls)
  from run_tick.IH[OF run_tick.prems] obtain ps where p: "jobs_progress st st'"
    and ps: "map request_runId rs = map run_name ps" "distinct ps" "issued_ok (set ps) st'"
    and bound: "\<forall>(run, a)\<in>set ps. \<exists>j\<in>set (jobs st). job_runId j = run \<and> attempt j \<le> a \<and>
         a \<le> max (attempt j) (maxAttempts j)"
    and tm: "\<forall>r\<in>set rs. 1 \<le> request_timeoutMs r" by blast
  have dj: "distinct_jobs st'" by (rule distinct_jobs_progress[OF p run_tick.prems])
  have p': "jobs_progress st' st''" using tick_cases[OF dj run_tick.hyps(2)] by blast
  have ok: "issued_ok (set ps) st''" by (rule issued_ok_progress[OF ps(3) p'])
  note pp = jobs_progress_trans[OF p p']
  show ?case
  proof (cases "starts calls = []")
    case True
    with pp ps(1,2) ok bound tm show ?thesis by auto
  next
    case False
    let ?now = "first_now ctx" and ?st2 = "before_claim ctx st'"
    from False tick_cases[OF dj run_tick.hyps(2)] obtain c where c: "c \<in> set (jobs ?st2)"
      "claimable ?now c" "placed ?now (claim_job ?now c) ?st2 st'' calls" by blast
    let ?p = "(job_runId c, attempt c)"
    from c(3) False obtain k where k: "starts calls = [start_request_of (claim_job ?now c) ?now]"
      "k \<in> set (jobs st'')" "job_runId k = job_runId c" "attempt c \<le> attempt k"
      "waiting (job_state k) \<longrightarrow> attempt c < attempt k"
      by (auto simp: placed_def claim_job_def)
    have dj2: "distinct_jobs ?st2" by (rule distinct_jobs_progress[OF before_claim_progress dj])
    have "?p \<notin> set ps"
      by (rule claimable_fresh[OF issued_ok_progress[OF ps(3) before_claim_progress] dj2 c(1,2)])
    moreover have "map request_runId (starts calls) = map run_name [?p]"
      by (simp add: k(1) start_request_of_def external_run_id_def run_name_def claim_job_def)
    moreover have "issued_ok (set (ps @ [?p])) st''"
      using ok k(2-5) by (auto simp: issued_ok_def)
    moreover from progress_origin[OF jobs_progress_trans[OF p before_claim_progress] c(1)]
    have "\<exists>j\<in>set (jobs st). job_runId j = job_runId c \<and> attempt j \<le> attempt c \<and>
        attempt c \<le> max (attempt j) (maxAttempts j)"
      by (auto simp: job_progress_def)
    moreover have "\<forall>r\<in>set (starts calls). 1 \<le> request_timeoutMs r"
      using claimable_timeout[OF c(2)] by (simp add: k(1) start_request_of_def)
    ultimately show ?thesis
      using pp ps(1,2) bound tm by (intro conjI exI[of _ "ps @ [?p]"]) auto
  qed
qed

text \<open>
  Property C5. Whatever the gateway answers, wherever the hook fails and however many supervisors
  tick, no external run is started twice: from jobs with distinct ids and distinct runs, the
  requests of any run of ticks have distinct external ids, each names a job's run and an attempt
  of it within the limit of attempts, and each asks for a positive time.
\<close>

theorem no_external_run_starts_twice:
  assumes "tick_run lc st rs st'"
    and "distinct (map job_id (jobs st))" and "distinct (map job_runId (jobs st))"
  shows "distinct (map request_runId rs) \<and>
    (\<forall>r\<in>set rs. 1 \<le> request_timeoutMs r \<and>
       (\<exists>j\<in>set (jobs st). \<exists>a. request_runId r = ''cp-'' @ job_runId j @ ''-a'' @ show_nat a \<and>
          attempt j \<le> a \<and> a \<le> max (attempt j) (maxAttempts j)))"
proof -
  have "distinct_jobs st" using assms(2,3) by (simp add: distinct_jobs_def)
  from tick_run_issued[OF assms(1) this] obtain ps where ps: "map request_runId rs = map run_name ps"
    "distinct ps" and b: "\<forall>(run, a)\<in>set ps. \<exists>j\<in>set (jobs st). job_runId j = run \<and> attempt j \<le> a \<and>
         a \<le> max (attempt j) (maxAttempts j)"
    and tm: "\<forall>r\<in>set rs. 1 \<le> request_timeoutMs r" by blast
  have "distinct (map run_name ps)"
    using ps(2) by (simp add: distinct_map inj_on_def run_name_inject)
  moreover have "\<exists>j\<in>set (jobs st). \<exists>a. request_runId r = ''cp-'' @ job_runId j @ ''-a'' @ show_nat a \<and>
      attempt j \<le> a \<and> a \<le> max (attempt j) (maxAttempts j)" if "r \<in> set rs" for r
  proof -
    have "request_runId r \<in> run_name ` set ps" using that ps(1) by (metis image_eqI set_map)
    then obtain run a where "(run, a) \<in> set ps" "request_runId r = run_name (run, a)" by auto
    with b show ?thesis by (fastforce simp: run_name_def)
  qed
  ultimately show ?thesis using ps(1) tm by simp
qed


text \<open>A supervisor with a gateway that starts every run, and one whose gateway refuses the start.\<close>

definition any_order :: "string \<Rightarrow> string \<Rightarrow> bool" where
  "any_order a b \<longleftrightarrow> True"

definition sample_gateway :: gateway where
  "sample_gateway = \<lparr>
     gateway_start = (\<lambda>r. Inr \<lparr>ext_state = Ext_running, ext_phase = ''build'', ext_message = None\<rparr>),
     gateway_inspect = (\<lambda>r. Inr (Some \<lparr>ext_state = Ext_succeeded, ext_phase = ''finished'', ext_message = None\<rparr>)),
     gateway_cancel = (\<lambda>r. Inr ())\<rparr>"

definition sample_tick :: "int \<Rightarrow> tick_context" where
  "sample_tick now = \<lparr>supervisorId = ''supervisor'', leaseDurationMs = 1000, tick_gateway = sample_gateway,
     afterExternalStart = (\<lambda>j. Inr ()), first_now = now, second_now = now,
     new_lease_id = ''lease-1'', new_lease_token = ''token-1''\<rparr>"

definition refusing_tick :: "int \<Rightarrow> tick_context" where
  "refusing_tick now = (sample_tick now)\<lparr>tick_gateway := sample_gateway\<lparr>gateway_start := (\<lambda>r. Inl ''busy'')\<rparr>\<rparr>"

definition after_tick :: "tick_context \<Rightarrow> scheduler_state \<Rightarrow> scheduler_state" where
  "after_tick ctx st = fst (snd (tick any_order ctx st))"

definition started_by :: "tick_context \<Rightarrow> scheduler_state \<Rightarrow> start_request list" where
  "started_by ctx st = starts (snd (snd (tick any_order ctx st)))"

lemma two_ticks:
  "tick_run any_order st (started_by a st @ started_by b (after_tick a st)) (after_tick b (after_tick a st))"
proof -
  have one: "tick_run any_order st ([] @ started_by a st) (after_tick a st)"
    by (rule run_tick[OF run_none, where ctx = a and r = "fst (tick any_order a st)"
          and calls = "snd (snd (tick any_order a st))", folded started_by_def])
      (simp add: after_tick_def)
  then show ?thesis
    using run_tick[OF one, of b "fst (tick any_order b (after_tick a st))" "after_tick b (after_tick a st)"
        "snd (snd (tick any_order b (after_tick a st)))"]
    by (simp add: after_tick_def started_by_def)
qed

theorem no_external_run_starts_twice_witness:
  "let rs = started_by (refusing_tick 10) sample_state @
            started_by (sample_tick 3000) (after_tick (refusing_tick 10) sample_state) in
   map request_runId rs = [''cp-run-1-a1'', ''cp-run-1-a2''] \<and>
   distinct (map request_runId rs) \<and>
   (\<forall>r\<in>set rs. 1 \<le> request_timeoutMs r \<and>
       (\<exists>j\<in>set (jobs sample_state). \<exists>a. request_runId r = ''cp-'' @ job_runId j @ ''-a'' @ show_nat a \<and>
          attempt j \<le> a \<and> a \<le> max (attempt j) (maxAttempts j)))"
proof -
  let ?rs = "started_by (refusing_tick 10) sample_state @
            started_by (sample_tick 3000) (after_tick (refusing_tick 10) sample_state)"
  have ids: "distinct (map job_id (jobs sample_state))" "distinct (map job_runId (jobs sample_state))"
    by (simp_all add: sample_state_def)
  have "map request_runId ?rs = [''cp-run-1-a1'', ''cp-run-1-a2'']" by code_simp
  with no_external_run_starts_twice[OF two_ticks ids, of "refusing_tick 10" "sample_tick 3000"]
  show ?thesis unfolding Let_def by (elim conjE, intro conjI)
qed


end
