(* ===== verification/Scheduler_Leases.thy ===== *)
theory Scheduler_Leases
  imports Scheduler_Supervisor
begin

text \<open>
  What happens in \<^verbatim>\<open>application/scheduler-supervisor.ts\<close> over
  \<^verbatim>\<open>adapters/memory-scheduler-repository.ts\<close> to the lease of a run whose job has finished: no
  operation gives it back.
\<close>

section \<open>Leases of finished jobs\<close>

text \<open>The run of a lease belongs to no job that can still change.\<close>

definition run_finished :: "scheduler_state \<Rightarrow> string \<Rightarrow> bool" where
  "run_finished st run \<longleftrightarrow> (\<forall>j\<in>set (jobs st). job_runId j = run \<longrightarrow> terminal (job_state j))"

lemma run_finished_progress: "jobs_progress st st' \<Longrightarrow> run_finished st run \<Longrightarrow> run_finished st' run"
  unfolding run_finished_def by (metis progress_origin job_progress_def)

lemma release_run_keeps: "l \<in> set (leases st) \<Longrightarrow> lease_runId l \<noteq> run \<Longrightarrow> l \<in> set (leases (release_run run now st))"
  by (auto simp: release_run_def image_iff intro: bexI[of _ l])

lemma live_not_finished:
  "requiredJob i st = Inr j \<Longrightarrow> live st i \<Longrightarrow> run_finished st run \<Longrightarrow> job_runId j \<noteq> run"
  by (auto simp: live_def run_finished_def dest: requiredJob_Inr)

lemma live_push [simp]: "live (push_operation op st) i = live st i"
  by (simp add: live_def)

lemma run_finished_push [simp]: "run_finished (push_operation op st) run = run_finished st run"
  by (simp add: run_finished_def)

lemma void_snd [simp]: "snd (void p) = snd p"
  by (simp add: void_def)

lemma marks_keep_lease:
  assumes l: "l \<in> set (leases st)" and f: "run_finished st (lease_runId l)" and v: "live st i"
  shows "l \<in> set (leases (snd (markStopped i now st)))" and "l \<in> set (leases (snd (markTimedOut i now st)))"
    and "l \<in> set (leases (snd (reconcileExternal i external now st)))"
proof -
  have other: "lease_runId l \<noteq> job_runId k" if "requiredJob i (push_operation op st) = Inr k" for k op
    using live_not_finished[OF that, of "lease_runId l"] f v by fastforce
  have rel: "l \<in> set (leases (release_run run now (set_job i g (push_operation op st))))"
    if "lease_runId l \<noteq> run" for run g op
    using that l by (intro release_run_keeps) simp_all
  show "l \<in> set (leases (snd (markStopped i now st)))"
    by (cases "requiredJob i (push_operation ''job:stopped'' st)")
      (simp_all add: markStopped_def Let_def l rel other)
  show "l \<in> set (leases (snd (markTimedOut i now st)))"
    by (cases "requiredJob i (push_operation ''job:timeout'' st)")
      (simp_all add: markTimedOut_def Let_def l rel other)
  show "l \<in> set (leases (snd (reconcileExternal i external now st)))"
    by (cases "requiredJob i (push_operation ''job:reconcile'' st)")
      (simp_all add: reconcileExternal_def Let_def l)
qed

lemma reconcile_keeps_lease:
  assumes "l \<in> set (leases st)" "run_finished st (lease_runId l)" "live st (job_id j)"
  shows "l \<in> set (leases (fst (snd (reconcile gw j now st))))"
  using marks_keep_lease[OF assms] assms(1)
  by (simp add: reconcile_def split_beta split: sum.splits prod.splits)

lemma reconcile_all_keeps_lease:
  assumes "distinct (map job_id js)" and "\<forall>j\<in>set js. live st (job_id j)"
    and "l \<in> set (leases st)" and "run_finished st (lease_runId l)"
  shows "l \<in> set (leases (fst (snd (reconcile_all gw js now st))))"
  using assms
proof (induction js arbitrary: st)
  case (Cons j js)
  obtain r st' calls where rec: "reconcile gw j now st = (r, st', calls)" by (metis prod.exhaust)
  have oj: "only_job (job_id j) st st'" using reconcile_only_job[of j st gw now] rec by simp
  have l': "l \<in> set (leases st')"
    using reconcile_keeps_lease[of l st j gw now] Cons.prems rec by simp
  have f': "run_finished st' (lease_runId l)"
    using run_finished_progress[OF only_job_progress[OF oj]] Cons.prems by simp
  have "live st' (job_id k)" if "k \<in> set js" for k
    using only_job_live[OF oj] Cons.prems that by (metis (no_types, lifting) distinct.simps(2)
        image_eqI list.set_intros(2) list.simps(9) set_map)
  with Cons.IH[of st'] Cons.prems(1) l' f' rec show ?case
    by (auto split: sum.splits prod.splits)
qed simp

lemma place_keeps_lease:
  assumes "l \<in> set (leases st)" "lease_runId l \<noteq> job_runId claimed"
    and "distinct_jobs st" "claimed \<in> set (jobs st)" "job_state claimed = J_claimed"
  shows "l \<in> set (leases (fst (snd (place_claimed ctx claimed st))))"
proof -
  have acq: "l \<in> set (leases (snd (acquireLease i t run node owner now expires s)))"
    if "l \<in> set (leases s)" for i t run node owner now expires s
    using acquireLease_cases[of i t run node owner now expires s] that by auto
  have sel: "leases (snd (selectNode j now s)) = leases s" for j now s
    by (simp add: selectNode_def Let_def)
  have wait: "leases (fst (snd (capacity_wait ctx claimed r s))) = leases s" for r s
    by (simp add: capacity_wait_def releaseClaim_def Let_def split: sum.splits prod.splits)
  have start: "l \<in> set (leases (fst (snd (start_claimed ctx claimed lease s))))"
    if s: "l \<in> set (leases s)" "jobs s = jobs st" for lease s
  proof -
    let ?issue = "issue_start (external_run_id claimed) lease (first_now ctx)"
    let ?s1 = "set_job (job_id claimed) ?issue (push_operation ''job:starting'' s)"
    have d: "distinct_jobs s" using assms(3) s(2) by (simp add: distinct_jobs_def)
    have r: "requiredJob (job_id claimed) (push_operation op s) = Inr claimed" for op
      using d assms(4) s(2) by (intro requiredJob_member) (simp_all add: distinct_jobs_def)
    have "requiredJob (job_id claimed) (push_operation op ?s1) = Inr k \<Longrightarrow> job_runId k = job_runId claimed"
      for op k
    proof -
      assume "requiredJob (job_id claimed) (push_operation op ?s1) = Inr k"
      then have "k \<in> set (update_first (\<lambda>j. job_id j = job_id claimed) ?issue (jobs s))"
        and kid: "job_id k = job_id claimed" by (auto dest: requiredJob_Inr)
      then obtain j where "j \<in> set (jobs s)" "job_id j = job_id claimed" "job_runId k = job_runId j"
        by (auto dest!: set_update_first simp: issue_start_def)
      moreover have "claimed \<in> set (jobs s)" using assms(4) s(2) by simp
      ultimately show ?thesis using d by (auto simp: distinct_jobs_def distinct_map dest: inj_onD)
    qed
    then show ?thesis
      using s(1) assms(2) release_run_keeps[of l]
      by (auto simp: start_claimed_def markExternalStartIssued_def handleStartFailure_def
          markStarted_def Let_def r split: sum.splits prod.splits)
  qed
  obtain n1 s1 where s1: "selectNode claimed (first_now ctx) st = (n1, s1)" by fastforce
  have l1: "l \<in> set (leases s1)" "jobs s1 = jobs st"
    using sel[of claimed "first_now ctx" st] select_acquire_jobs(1)[of claimed "first_now ctx" st]
      assms(1) s1 by auto
  show ?thesis
  proof (cases n1)
    case None
    with s1 wait l1 show ?thesis by (simp add: place_claimed_def)
  next
    case (Some node)
    obtain l2 s2 where s2: "acquireLease (new_lease_id ctx) (new_lease_token ctx) (job_runId claimed)
        (node_id node) (supervisorId ctx) (first_now ctx) (first_now ctx + leaseDurationMs ctx) s1 = (l2, s2)"
      by fastforce
    have "l \<in> set (leases s2)" "jobs s2 = jobs st"
      using acq[OF l1(1), of "new_lease_id ctx" "new_lease_token ctx" "job_runId claimed"
          "node_id node" "supervisorId ctx" "first_now ctx" "first_now ctx + leaseDurationMs ctx"]
        select_acquire_jobs(2)[of "new_lease_id ctx" "new_lease_token ctx" "job_runId claimed"
          "node_id node" "supervisorId ctx" "first_now ctx" "first_now ctx + leaseDurationMs ctx" s1]
        s2 l1(2) by auto
    with s1 s2 Some wait start show ?thesis
      by (cases l2) (simp_all add: place_claimed_def)
  qed
qed

text \<open>The sample job, started and then found to have succeeded; its lease is still active.\<close>

definition finished_job :: scheduler_job where
  "finished_job = sample_job\<lparr>job_state := J_succeeded\<rparr>"

definition kept_lease :: execution_lease where
  "kept_lease = \<lparr>lease_id = ''lease-1'', lease_runId = ''run-1'', lease_nodeId = ''node-1'',
     lease_ownerId = ''supervisor'', lease_token = ''token-1'', lease_status = Active, acquiredAt = 10,
     lease_heartbeatAt = 10, lease_expiresAt = 1010, releasedAt = None, lease_version = 1\<rparr>"

definition finished_state :: scheduler_state where
  "finished_state = sample_state\<lparr>jobs := [finished_job], leases := [kept_lease]\<rparr>"


end
