(* ===== verification/Idempotent_Commands.thy ===== *)
theory Idempotent_Commands
  imports Goal_Contract
begin

text \<open>
  Commands with an idempotency key. The command services file the receipt of a completed command
  under the organization, the actor, the endpoint and the client's key, together with a hash of
  the command; the in-memory repositories all look receipts up in the same way. The locale states
  what such a service and its repository promise each other, and proves that a command takes
  effect at most once and is answered by its first receipt ever after.
\<close>

section \<open>Records of completed commands\<close>

record idempotency_lookup =
  lookup_organizationId :: string
  lookup_actorId :: string
  lookup_endpoint :: string
  lookup_key :: string
  requestHash :: string

record 'r idempotency_record =
  record_lookup :: idempotency_lookup
  record_completed :: bool
  record_receipt :: "'r option"

definition idempotency_key :: "idempotency_lookup \<Rightarrow> string" where
  "idempotency_key l =
     lookup_organizationId l @ ''/'' @ lookup_actorId l @ ''/'' @ lookup_endpoint l @ ''/'' @ lookup_key l"

type_synonym ('r, 'z) idempotency_store = "string \<rightharpoonup> ('r, 'z) idempotency_record_scheme"

definition find_receipt ::
  "idempotency_lookup \<Rightarrow> ('r, 'z) idempotency_store \<Rightarrow> js_error + 'r option" where
  "find_receipt l store =
     (case store (idempotency_key l) of
        None \<Rightarrow> Inr None
      | Some r \<Rightarrow>
          if requestHash (record_lookup r) \<noteq> requestHash l then Inl IdempotencyConflictError
          else if \<not> record_completed r \<or> record_receipt r = None then Inl IdempotencyInProgressError
          else Inr (record_receipt r))"

lemma find_receipt_Some:
  "find_receipt l store = Inr (Some r) \<longleftrightarrow>
     (\<exists>rec. store (idempotency_key l) = Some rec \<and> requestHash (record_lookup rec) = requestHash l \<and>
        record_completed rec \<and> record_receipt rec = Some r)"
  by (auto simp: find_receipt_def split: option.splits if_splits)

lemma find_receipt_None: "find_receipt l store = Inr None \<longleftrightarrow> store (idempotency_key l) = None"
  by (auto simp: find_receipt_def split: option.splits)

lemma find_receipt_added:
  assumes "find_receipt l store = Inr None" and "record_lookup rec = l" and "record_completed rec"
    and "record_receipt rec = Some r"
  shows "find_receipt l (store(idempotency_key l \<mapsto> rec)) = Inr (Some r)"
  using assms by (simp add: find_receipt_def)

text \<open>Adding the record of another command does not change what is found.\<close>

lemma find_receipt_kept:
  assumes "find_receipt k store = Inr (Some r)" and "find_receipt l store = Inr None"
  shows "find_receipt k (store(idempotency_key l \<mapsto> rec)) = Inr (Some r)"
  using assms by (auto simp: find_receipt_Some find_receipt_None)

section \<open>The contract of a command service\<close>

text \<open>
  \<open>looks_up\<close> is the lookup of a command that passes every check before it, \<open>find\<close> looks a receipt
  up in the state, \<open>handle\<close> is the service with its surroundings \<open>'x\<close> (clock, authorizer, generated
  ids), \<open>moves\<close> is everything that may happen to the state, by this service or another one.
\<close>

locale idempotent_service =
  fixes looks_up :: "'x \<Rightarrow> 'c \<Rightarrow> idempotency_lookup option"
    and find :: "idempotency_lookup \<Rightarrow> 's \<Rightarrow> js_error + 'r option"
    and handle :: "'x \<Rightarrow> 'c \<Rightarrow> 's \<Rightarrow> (js_error + 'r) \<times> 's"
    and moves :: "'s \<Rightarrow> 's \<Rightarrow> bool"
  assumes answered: "looks_up x c = Some l \<Longrightarrow> find l s = Inr (Some r) \<Longrightarrow> handle x c s = (Inr r, s)"
    and recorded: "handle x c s = (Inr r, s') \<Longrightarrow> \<exists>l. looks_up x c = Some l \<and> find l s' = Inr (Some r)"
    and kept: "moves s s' \<Longrightarrow> find l s = Inr (Some r) \<Longrightarrow> find l s' = Inr (Some r)"
    and refused: "handle x c s = (Inl e, s') \<Longrightarrow> s' = s"
begin

lemma kept_ever: "moves\<^sup>*\<^sup>* s s' \<Longrightarrow> find l s = Inr (Some r) \<Longrightarrow> find l s' = Inr (Some r)"
  by (induction rule: rtranclp_induct) (auto intro: kept)

lemma at_most_once:
  assumes "handle x c s = (Inr r, s1)" and "moves\<^sup>*\<^sup>* s1 s2" and "looks_up x' c' = looks_up x c"
  shows "handle x' c' s2 = (Inr r, s2)"
  using recorded[OF assms(1)] answered[of x' c'] kept_ever[OF assms(2)] assms(3) by metis

end

end
