(* ===== verification/Instants.thy ===== *)
theory Instants
  imports Prelude
begin

text \<open>
  Instants as the services store them. A \<open>Date\<close> is its number of milliseconds since the epoch;
  \<open>Date.prototype.toISOString\<close> turns it into text: the date of the proleptic Gregorian calendar
  and the time of day in UTC.
\<close>

text \<open>A number in at least \<open>w\<close> digits, filled up with zeros.\<close>

definition padded :: "nat \<Rightarrow> int \<Rightarrow> string" where
  "padded w i = (let s = show_nat (nat i) in replicate (w - length s) CHR ''0'' @ s)"

text \<open>Year, month and day of a number of days since the epoch, by eras of 400 years.\<close>

definition civil_from_days :: "int \<Rightarrow> int \<times> int \<times> int" where
  "civil_from_days days =
     (let z = days + 719468;
          era = z div 146097;
          doe = z mod 146097;
          yoe = (doe - doe div 1460 + doe div 36524 - doe div 146096) div 365;
          doy = doe - (365 * yoe + yoe div 4 - yoe div 100);
          mp = (5 * doy + 2) div 153;
          d = doy - (153 * mp + 2) div 5 + 1;
          m = (if mp < 10 then mp + 3 else mp - 9)
      in (yoe + era * 400 + (if m \<le> 2 then 1 else 0), m, d))"

definition iso_year :: "int \<Rightarrow> string" where
  "iso_year y =
     (if 0 \<le> y \<and> y \<le> 9999 then padded 4 y
      else if y < 0 then ''-'' @ padded 6 (- y) else ''+'' @ padded 6 y)"

definition toISOString :: "int \<Rightarrow> string" where
  "toISOString t =
     (let days = t div 86400000; r = t mod 86400000 in
      case civil_from_days days of (y, m, d) \<Rightarrow>
        iso_year y @ ''-'' @ padded 2 m @ ''-'' @ padded 2 d @ ''T'' @
        padded 2 (r div 3600000) @ '':'' @ padded 2 (r div 60000 mod 60) @ '':'' @
        padded 2 (r div 1000 mod 60) @ ''.'' @ padded 3 (r mod 1000) @ ''Z'')"

lemma toISOString_examples:
  "toISOString 0 = ''1970-01-01T00:00:00.000Z''"
  "toISOString 951826554321 = ''2000-02-29T12:15:54.321Z''"
  "toISOString 1767225599999 = ''2025-12-31T23:59:59.999Z''"
  "toISOString (-1) = ''1969-12-31T23:59:59.999Z''"
  by code_simp+

end
