(* ===== verification/Goal_Transitions.thy ===== *)
theory Goal_Transitions
  imports Idempotent_Commands Instants Json_Text
begin

text \<open>
  \<^verbatim>\<open>application/goal-application-service.ts\<close> over \<^verbatim>\<open>adapters/memory-goal-repository.ts\<close>: the
  command that moves a Goal along its life cycle. The lemmas show that a command takes effect at
  most once, and that the log of events of a Goal is its history, also when commands that were
  prepared against an older state are committed late.

  SHA-256 and \<open>localeCompare\<close> (as "not after") are parameters, the authorizer, the clock and the
  generated ids are the surroundings of one call.
\<close>

section \<open>Data\<close>

text \<open>A map key of \<open>memory-goal-repository.ts\<close> is the scope's key of \<open>Goal_Contract\<close>.\<close>

record goal_aggregate =
  goal_ref :: goal_scope
  aggregate_title :: string
  aggregate_status :: goal_status
  aggregate_version :: int

record goal_state_changed_event =
  event_id :: string
  event_organizationId :: string
  event_aggregateId :: string
  event_aggregateVersion :: int
  event_occurredAt :: int
  event_actorId :: string
  event_requestId :: string
  event_reason :: string
  event_previousState :: goal_status
  event_state :: goal_status

record goal_audit_event =
  audit_id :: string
  audit_organizationId :: string
  audit_projectId :: string
  audit_goalId :: string
  audit_actorId :: string
  audit_entityVersion :: int
  audit_reason :: string
  audit_requestId :: string
  audit_createdAt :: int

record goal_transition_receipt =
  receipt_goalId :: string
  receipt_previousState :: goal_status
  receipt_state :: goal_status
  receipt_previousVersion :: int
  receipt_version :: int
  receipt_eventId :: string
  receipt_occurredAt :: int

record goal_idempotency_record = "goal_transition_receipt idempotency_record" +
  responseDigest :: string
  record_expiresAt :: int

record commit_goal_transition =
  commit_current :: goal_aggregate
  commit_expectedVersion :: int
  commit_nextState :: goal_status
  commit_occurredAt :: int
  commit_event :: goal_state_changed_event
  commit_audit :: goal_audit_event
  commit_lookup :: idempotency_lookup
  commit_responseDigest :: string
  commit_expiresAt :: int
  commit_receipt :: goal_transition_receipt

record goal_repository =
  goals :: "string \<rightharpoonup> goal_aggregate"
  goal_events :: "goal_state_changed_event list"
  goal_audits :: "goal_audit_event list"
  goal_idempotency :: "string \<rightharpoonup> goal_idempotency_record"

record goal_transition_command =
  command_organizationId :: string
  command_projectId :: string
  command_goalId :: string
  command_actorId :: string
  command_requestId :: string
  command_idempotencyKey :: string
  command_expectedVersion :: int
  command_nextState :: goal_status
  command_reason :: string
  command_guards :: "(transition_guard \<times> bool) list"

section \<open>The repository in memory\<close>

definition new_goal_repository :: "goal_aggregate list \<Rightarrow> goal_repository" where
  "new_goal_repository gs =
     \<lparr>goals = fold (\<lambda>g m. m(scope_key (goal_ref g) \<mapsto> g)) gs Map.empty,
      goal_events = [], goal_audits = [], goal_idempotency = Map.empty\<rparr>"

definition get_goal :: "goal_scope \<Rightarrow> goal_repository \<Rightarrow> goal_aggregate option" where
  "get_goal scope repo = goals repo (scope_key scope)"

definition findIdempotentReceipt ::
  "idempotency_lookup \<Rightarrow> goal_repository \<Rightarrow> js_error + goal_transition_receipt option" where
  "findIdempotentReceipt l repo = find_receipt l (goal_idempotency repo)"

text \<open>The write of a commit that passed every check.\<close>

definition write_transition ::
  "commit_goal_transition \<Rightarrow> goal_aggregate \<Rightarrow> goal_repository \<Rightarrow> goal_repository" where
  "write_transition c next repo =
     repo\<lparr>goals := (goals repo)(scope_key (goal_ref next) \<mapsto> next),
          goal_events := goal_events repo @ [commit_event c],
          goal_audits := goal_audits repo @ [commit_audit c],
          goal_idempotency := (goal_idempotency repo)(idempotency_key (commit_lookup c) \<mapsto>
            \<lparr>record_lookup = commit_lookup c, record_completed = True,
             record_receipt = Some (commit_receipt c),
             responseDigest = commit_responseDigest c, record_expiresAt = commit_expiresAt c\<rparr>)\<rparr>"

definition same_event :: "goal_state_changed_event \<Rightarrow> goal_state_changed_event \<Rightarrow> bool" where
  "same_event e f \<longleftrightarrow> event_id e = event_id f \<or>
     (event_aggregateId e = event_aggregateId f \<and> event_aggregateVersion e = event_aggregateVersion f)"

definition commitTransition ::
  "commit_goal_transition \<Rightarrow> goal_repository \<Rightarrow>
   (js_error + goal_aggregate \<times> goal_transition_receipt) \<times> goal_repository" where
  "commitTransition c repo =
     (case findIdempotentReceipt (commit_lookup c) repo of
        Inl e \<Rightarrow> (Inl e, repo)
      | Inr (Some receipt) \<Rightarrow>
          (case goals repo (scope_key (goal_ref (commit_current c))) of
             None \<Rightarrow> (Inl VersionConflictError, repo)
           | Some goal \<Rightarrow> (Inr (goal, receipt), repo))
      | Inr None \<Rightarrow>
          (case goals repo (scope_key (goal_ref (commit_current c))) of
             None \<Rightarrow> (Inl VersionConflictError, repo)
           | Some current \<Rightarrow>
               if aggregate_version current \<noteq> commit_expectedVersion c \<or>
                  event_aggregateVersion (commit_event c) \<noteq> commit_expectedVersion c + 1
               then (Inl VersionConflictError, repo)
               else if list_ex (\<lambda>e. same_event e (commit_event c)) (goal_events repo)
               then (Inl VersionConflictError, repo)
               else if list_ex (\<lambda>a. audit_id a = audit_id (commit_audit c)) (goal_audits repo) \<or>
                  audit_entityVersion (commit_audit c) \<noteq> commit_expectedVersion c + 1 \<or>
                  receipt_version (commit_receipt c) \<noteq> commit_expectedVersion c + 1
               then (Inl VersionConflictError, repo)
               else
                 (let next = current\<lparr>aggregate_status := commit_nextState c,
                               aggregate_version := commit_expectedVersion c + 1\<rparr>
                  in (Inr (next, commit_receipt c), write_transition c next repo))))"

section \<open>The service\<close>

text \<open>The interface \<^verbatim>\<open>GoalRepository\<close>, as the service uses it, over any state of a repository.\<close>

record 's goal_repository_ops =
  repo_get :: "goal_scope \<Rightarrow> 's \<Rightarrow> goal_aggregate option"
  repo_find :: "idempotency_lookup \<Rightarrow> 's \<Rightarrow> js_error + goal_transition_receipt option"
  repo_commit :: "commit_goal_transition \<Rightarrow> 's \<Rightarrow>
    (js_error + goal_aggregate \<times> goal_transition_receipt) \<times> 's"

definition memory_ops :: "goal_repository goal_repository_ops" where
  "memory_ops = \<lparr>repo_get = get_goal, repo_find = findIdempotentReceipt, repo_commit = commitTransition\<rparr>"

lemma memory_ops_simps [simp]:
  "repo_get memory_ops = get_goal" "repo_find memory_ops = findIdempotentReceipt"
  "repo_commit memory_ops = commitTransition"
  by (simp_all add: memory_ops_def)

fun goal_status_name :: "goal_status \<Rightarrow> string" where
  "goal_status_name Goal_draft = ''draft''"
| "goal_status_name Clarifying = ''clarifying''"
| "goal_status_name Planning = ''planning''"
| "goal_status_name Goal_approved = ''approved''"
| "goal_status_name Executing = ''executing''"
| "goal_status_name Verifying = ''verifying''"
| "goal_status_name Goal_completed = ''completed''"
| "goal_status_name Goal_cancelled = ''cancelled''"

definition canonicalCommand ::
  "(string \<Rightarrow> string \<Rightarrow> bool) \<Rightarrow> goal_transition_command \<Rightarrow> string" where
  "canonicalCommand lc c = json_stringify (JObj [
     (''organizationId'', JStr (command_organizationId c)),
     (''projectId'', JStr (command_projectId c)),
     (''goalId'', JStr (command_goalId c)),
     (''actorId'', JStr (command_actorId c)),
     (''expectedVersion'', JInt (command_expectedVersion c)),
     (''nextState'', JStr (goal_status_name (command_nextState c))),
     (''reason'', JStr (command_reason c)),
     (''guards'', JObj (sort_by (\<lambda>l r. lc (fst l) (fst r))
        (map (\<lambda>(g, b). (guard_name g, JBool b)) (command_guards c))))])"

definition transition_lookup ::
  "(string \<Rightarrow> string) \<Rightarrow> (string \<Rightarrow> string \<Rightarrow> bool) \<Rightarrow> goal_transition_command \<Rightarrow> idempotency_lookup" where
  "transition_lookup sha256 lc c =
     \<lparr>lookup_organizationId = command_organizationId c, lookup_actorId = command_actorId c,
      lookup_endpoint = ''goal.transition'', lookup_key = command_idempotencyKey c,
      requestHash = sha256 (canonicalCommand lc c)\<rparr>"

text \<open>The surroundings of a call: the authorizer, one reading of the clock, two generated ids.\<close>

record goal_call =
  authorize :: "goal_scope \<Rightarrow> string \<Rightarrow> goal_status \<Rightarrow> js_error + unit"
  call_time :: int
  new_event_id :: string
  new_audit_id :: string

definition command_scope :: "goal_transition_command \<Rightarrow> goal_scope" where
  "command_scope c = \<lparr>organizationId = command_organizationId c, projectId = command_projectId c,
     goalId = command_goalId c\<rparr>"

definition receipt_json :: "goal_transition_receipt \<Rightarrow> json" where
  "receipt_json r = JObj [
     (''goalId'', JStr (receipt_goalId r)),
     (''previousState'', JStr (goal_status_name (receipt_previousState r))),
     (''state'', JStr (goal_status_name (receipt_state r))),
     (''previousVersion'', JInt (receipt_previousVersion r)),
     (''version'', JInt (receipt_version r)),
     (''eventId'', JStr (receipt_eventId r)),
     (''occurredAt'', JStr (toISOString (receipt_occurredAt r)))]"

definition build_transition ::
  "(string \<Rightarrow> string) \<Rightarrow> idempotency_lookup \<Rightarrow> goal_call \<Rightarrow> goal_transition_command \<Rightarrow>
   goal_aggregate \<Rightarrow> js_error + commit_goal_transition" where
  "build_transition sha256 l x c goal =
     and_then (transitionState \<lparr>in_machine = goalStateMachine,
         currentState = aggregate_status goal, currentVersion = aggregate_version goal,
         expectedVersion = command_expectedVersion c, nextState = command_nextState c,
         in_guards = (map_of (command_guards c))(ReasonProvided \<mapsto> 0 < length (trim (command_reason c)))\<rparr>)
       (\<lambda>t. let receipt = \<lparr>receipt_goalId = goalId (goal_ref goal),
              receipt_previousState = previousState t, receipt_state = new_state t,
              receipt_previousVersion = previousVersion t, receipt_version = new_version t,
              receipt_eventId = new_event_id x, receipt_occurredAt = call_time x\<rparr>
        in Inr \<lparr>commit_current = goal, commit_expectedVersion = previousVersion t,
             commit_nextState = new_state t, commit_occurredAt = call_time x,
             commit_event = \<lparr>event_id = new_event_id x,
               event_organizationId = organizationId (goal_ref goal),
               event_aggregateId = goalId (goal_ref goal), event_aggregateVersion = new_version t,
               event_occurredAt = call_time x, event_actorId = command_actorId c,
               event_requestId = command_requestId c, event_reason = command_reason c,
               event_previousState = previousState t, event_state = new_state t\<rparr>,
             commit_audit = \<lparr>audit_id = new_audit_id x,
               audit_organizationId = organizationId (goal_ref goal),
               audit_projectId = projectId (goal_ref goal), audit_goalId = goalId (goal_ref goal),
               audit_actorId = command_actorId c, audit_entityVersion = new_version t,
               audit_reason = command_reason c, audit_requestId = command_requestId c,
               audit_createdAt = call_time x\<rparr>,
             commit_lookup = l, commit_responseDigest = sha256 (json_stringify (receipt_json receipt)),
             commit_expiresAt = call_time x + 24 * 60 * 60 * 1000,
             commit_receipt = receipt\<rparr>)"

text \<open>What the service checks before it asks the authorizer.\<close>

definition validate_command :: "goal_transition_command \<Rightarrow> js_error + unit" where
  "validate_command c =
     (if length (trim (command_idempotencyKey c)) < 1 \<or> length (command_idempotencyKey c) > 200
      then Inl (CommandValidationError ''Idempotency-Key is required'')
      else if length (trim (command_reason c)) < 1 \<or> length (command_reason c) > 4000
      then Inl (CommandValidationError ''A bounded transition reason is required'')
      else Inr ())"

text \<open>Everything before the commit: an error, the receipt of an earlier call, or a commit.\<close>

definition prepare_transition ::
  "'s goal_repository_ops \<Rightarrow> (string \<Rightarrow> string) \<Rightarrow> (string \<Rightarrow> string \<Rightarrow> bool) \<Rightarrow> goal_call \<Rightarrow>
   goal_transition_command \<Rightarrow> 's \<Rightarrow> js_error + (goal_transition_receipt + commit_goal_transition)" where
  "prepare_transition ops sha256 lc x c repo =
     and_then (validate_command c) (\<lambda>_.
     and_then (authorize x (command_scope c) (command_actorId c) (command_nextState c)) (\<lambda>_.
       let l = transition_lookup sha256 lc c in
       and_then (repo_find ops l repo) (\<lambda>replay.
         case replay of
           Some receipt \<Rightarrow> Inr (Inl receipt)
         | None \<Rightarrow>
             (case repo_get ops (command_scope c) repo of
                None \<Rightarrow> Inl GoalNotFoundError
              | Some goal \<Rightarrow>
                  if aggregate_version goal \<noteq> command_expectedVersion c then
                    and_then (repo_find ops l repo) (\<lambda>concurrent.
                      case concurrent of
                        Some receipt \<Rightarrow> Inr (Inl receipt)
                      | None \<Rightarrow> and_then (build_transition sha256 l x c goal) (\<lambda>k. Inr (Inr k)))
                  else and_then (build_transition sha256 l x c goal) (\<lambda>k. Inr (Inr k))))))"

text \<open>The command as a whole.\<close>

definition transition ::
  "'s goal_repository_ops \<Rightarrow> (string \<Rightarrow> string) \<Rightarrow> (string \<Rightarrow> string \<Rightarrow> bool) \<Rightarrow> goal_call \<Rightarrow>
   goal_transition_command \<Rightarrow> 's \<Rightarrow> (js_error + goal_transition_receipt) \<times> 's" where
  "transition ops sha256 lc x c repo =
     (case prepare_transition ops sha256 lc x c repo of
        Inl e \<Rightarrow> (Inl e, repo)
      | Inr (Inl receipt) \<Rightarrow> (Inr receipt, repo)
      | Inr (Inr k) \<Rightarrow>
          (case repo_commit ops k repo of
             (Inl e, repo') \<Rightarrow> (Inl e, repo')
           | (Inr (_, receipt), repo') \<Rightarrow> (Inr receipt, repo')))"

section \<open>A command takes effect at most once\<close>

lemma build_transition_lookup:
  "build_transition sha256 l x c goal = Inr k \<Longrightarrow> commit_lookup k = l"
  by (auto simp: build_transition_def Let_def result_simps)

lemma prepare_lookup:
  "prepare_transition ops sha256 lc x c repo = Inr (Inr k) \<Longrightarrow> commit_lookup k = transition_lookup sha256 lc c"
  by (auto simp: prepare_transition_def Let_def result_simps dest!: build_transition_lookup
      split: option.splits if_splits)

lemma prepare_replay:
  "prepare_transition ops sha256 lc x c repo = Inr (Inl r) \<Longrightarrow>
     repo_find ops (transition_lookup sha256 lc c) repo = Inr (Some r)"
  by (auto simp: prepare_transition_def Let_def result_simps split: option.splits if_splits)

text \<open>The command passes the checks that come before the lookup.\<close>

definition transition_looks_up ::
  "(string \<Rightarrow> string) \<Rightarrow> (string \<Rightarrow> string \<Rightarrow> bool) \<Rightarrow> goal_call \<Rightarrow> goal_transition_command \<Rightarrow>
   idempotency_lookup option" where
  "transition_looks_up sha256 lc x c =
     (if validate_command c = Inr () \<and>
         authorize x (command_scope c) (command_actorId c) (command_nextState c) = Inr ()
      then Some (transition_lookup sha256 lc c) else None)"

lemma prepare_looks_up:
  "prepare_transition ops sha256 lc x c repo = Inr p \<Longrightarrow>
     transition_looks_up sha256 lc x c = Some (transition_lookup sha256 lc c)"
  by (auto simp: prepare_transition_def transition_looks_up_def result_simps)

text \<open>A commit, or what else happens to the state.\<close>

definition store_moves :: "'s goal_repository_ops \<Rightarrow> ('s \<Rightarrow> 's \<Rightarrow> bool) \<Rightarrow> 's \<Rightarrow> 's \<Rightarrow> bool" where
  "store_moves ops elsewhere s s' \<longleftrightarrow> elsewhere s s' \<or> (\<exists>k. s' = snd (repo_commit ops k s))"

text \<open>
  What the service relies on in a repository: a refused or replayed commit changes nothing, a
  commit that is performed makes its receipt findable, and no commit loses a receipt.
\<close>

locale goal_store =
  fixes ops :: "'s goal_repository_ops"
    and sha256 :: "string \<Rightarrow> string"
    and lc :: "string \<Rightarrow> string \<Rightarrow> bool"
    and elsewhere :: "'s \<Rightarrow> 's \<Rightarrow> bool"
  assumes commit_refused: "repo_commit ops k s = (Inl e, s') \<Longrightarrow> s' = s"
    and commit_found: "repo_commit ops k s = (Inr (g, r), s') \<Longrightarrow> repo_find ops (commit_lookup k) s' = Inr (Some r)"
    and commit_keeps: "repo_find ops l s = Inr (Some r) \<Longrightarrow>
      repo_find ops l (snd (repo_commit ops k s)) = Inr (Some r)"
    and elsewhere_keeps: "elsewhere s s' \<Longrightarrow> repo_find ops l s = Inr (Some r) \<Longrightarrow> repo_find ops l s' = Inr (Some r)"
begin

lemma transition_recorded:
  assumes t: "transition ops sha256 lc x c s = (Inr r, s')"
  shows "\<exists>l. transition_looks_up sha256 lc x c = Some l \<and> repo_find ops l s' = Inr (Some r)"
proof (cases "prepare_transition ops sha256 lc x c s")
  case (Inr p)
  note pr = this
  note l = prepare_looks_up[OF this]
  show ?thesis
  proof (cases p)
    case (Inl r0)
    with t pr l prepare_replay[of ops sha256 lc x c s r0] show ?thesis by (simp add: transition_def)
  next
    case (Inr k)
    with t pr obtain g where "repo_commit ops k s = (Inr (g, r), s')"
      by (auto simp: transition_def split: prod.splits sum.splits)
    from commit_found[OF this] prepare_lookup[of ops sha256 lc x c s k] l pr Inr show ?thesis by simp
  qed
qed (use t in \<open>simp add: transition_def\<close>)

lemma transition_refused: "transition ops sha256 lc x c s = (Inl e, s') \<Longrightarrow> s' = s"
  by (auto simp: transition_def dest: commit_refused split: sum.splits prod.splits)

lemma transition_answered:
  "transition_looks_up sha256 lc x c = Some l \<Longrightarrow> repo_find ops l s = Inr (Some r) \<Longrightarrow>
     transition ops sha256 lc x c s = (Inr r, s)"
  by (auto simp: transition_def prepare_transition_def transition_looks_up_def Let_def split: if_splits)

end

sublocale goal_store \<subseteq> idempotent_service "transition_looks_up sha256 lc" "repo_find ops" "transition ops sha256 lc" "store_moves ops elsewhere"
  by unfold_locales
    (auto intro: transition_answered transition_recorded dest: transition_refused
      intro: elsewhere_keeps simp: store_moves_def commit_keeps)

section \<open>Commands over the repository in memory\<close>

lemma commitTransition_cases:
  "commitTransition k repo = (r, repo') \<Longrightarrow>
     (repo' = repo \<and> ((\<exists>e. r = Inl e) \<or>
        (\<exists>g receipt. r = Inr (g, receipt) \<and> findIdempotentReceipt (commit_lookup k) repo = Inr (Some receipt)))) \<or>
     (\<exists>current. findIdempotentReceipt (commit_lookup k) repo = Inr None \<and>
        goals repo (scope_key (goal_ref (commit_current k))) = Some current \<and>
        aggregate_version current = commit_expectedVersion k \<and>
        event_aggregateVersion (commit_event k) = commit_expectedVersion k + 1 \<and>
        (\<forall>e\<in>set (goal_events repo). \<not> same_event e (commit_event k)) \<and>
        (let next = current\<lparr>aggregate_status := commit_nextState k,
                      aggregate_version := commit_expectedVersion k + 1\<rparr>
         in r = Inr (next, commit_receipt k) \<and> repo' = write_transition k next repo))"
  by (auto simp: commitTransition_def Let_def list_ex_iff split: sum.splits option.splits if_splits)

lemma write_transition_finds:
  "findIdempotentReceipt (commit_lookup k) repo = Inr None \<Longrightarrow>
     findIdempotentReceipt (commit_lookup k) (write_transition k next repo) = Inr (Some (commit_receipt k))"
  by (simp add: findIdempotentReceipt_def write_transition_def find_receipt_added)

lemma commit_keeps_receipts:
  assumes "findIdempotentReceipt l repo = Inr (Some r)"
  shows "findIdempotentReceipt l (snd (commitTransition k repo)) = Inr (Some r)"
proof (cases "commitTransition k repo")
  case (Pair res repo')
  from commitTransition_cases[OF this] show ?thesis
  proof (elim disjE exE conjE)
    fix current
    assume "findIdempotentReceipt (commit_lookup k) repo = Inr None"
      "let next = current\<lparr>aggregate_status := commit_nextState k,
             aggregate_version := commit_expectedVersion k + 1\<rparr>
       in res = Inr (next, commit_receipt k) \<and> repo' = write_transition k next repo"
    with assms Pair show ?thesis
      by (simp add: findIdempotentReceipt_def write_transition_def Let_def find_receipt_kept)
  qed (use assms Pair in auto)
qed

text \<open>
  The commands of a repository may be in flight together: a step either prepares a commit
  against the repository as it is then, or performs a commit that was prepared earlier.
\<close>

inductive goal_step ::
  "(string \<Rightarrow> string) \<Rightarrow> (string \<Rightarrow> string \<Rightarrow> bool) \<Rightarrow>
   goal_repository \<times> commit_goal_transition list \<Rightarrow> goal_repository \<times> commit_goal_transition list \<Rightarrow> bool"
  for sha256 lc where
  prepare_step: "prepare_transition memory_ops sha256 lc x c repo = Inr (Inr k) \<Longrightarrow>
    goal_step sha256 lc (repo, ks) (repo, k # ks)"
| commit_step: "k \<in> set ks \<Longrightarrow> commitTransition k repo = (r, repo') \<Longrightarrow>
    goal_step sha256 lc (repo, ks) (repo', remove1 k ks)"

interpretation memory_goals: goal_store memory_ops sha256 lc "(=)" for sha256 lc
proof
  fix k e s s'
  assume "repo_commit memory_ops k s = (Inl e, s')"
  then show "s' = s" by (auto dest!: commitTransition_cases simp: Let_def)
next
  fix k g r s s'
  assume c: "repo_commit memory_ops k s = (Inr (g, r), s')"
  then have "commitTransition k s = (Inr (g, r), s')" by simp
  from commitTransition_cases[OF this] write_transition_finds[of k s]
  show "repo_find memory_ops (commit_lookup k) s' = Inr (Some r)" by (auto simp: Let_def)
next
  fix l s r k
  assume "repo_find memory_ops l s = Inr (Some r)"
  then show "repo_find memory_ops l (snd (repo_commit memory_ops k s)) = Inr (Some r)"
    by (simp add: commit_keeps_receipts)
qed simp

lemma goal_step_moves: "goal_step sha256 lc (repo, ks) (repo', ks') \<Longrightarrow> store_moves memory_ops (=) repo repo'"
  by (erule goal_step.cases) (auto simp: store_moves_def, metis snd_conv)

lemma goal_run_moves:
  "(goal_step sha256 lc)\<^sup>*\<^sup>* c c' \<Longrightarrow> (store_moves memory_ops (=))\<^sup>*\<^sup>* (fst c) (fst c')"
proof (induction rule: rtranclp_induct)
  case (step c' c'')
  then have "store_moves memory_ops (=) (fst c') (fst c'')"
    using goal_step_moves by (metis prod.collapse)
  with step.IH show ?case by (rule rtranclp.rtrancl_into_rtrancl)
qed simp

text \<open>
  A transition command takes effect at most once: after it was answered, whatever
  other commands were prepared or committed in between, sending it again (the same key, actor and
  content, with other ids, at another time) gives the first receipt and changes nothing.
\<close>

theorem transition_takes_effect_once:
  assumes "transition memory_ops sha256 lc x c repo = (Inr receipt, repo1)"
    and "(goal_step sha256 lc)\<^sup>*\<^sup>* (repo1, ks) (repo2, ks')"
    and "transition_looks_up sha256 lc x' c' = transition_looks_up sha256 lc x c"
  shows "transition memory_ops sha256 lc x' c' repo2 = (Inr receipt, repo2)"
proof -
  have "(store_moves memory_ops (=))\<^sup>*\<^sup>* repo1 repo2" using goal_run_moves[OF assms(2)] by simp
  from memory_goals.at_most_once[OF assms(1) this assms(3)] show ?thesis .
qed

section \<open>The log is the history\<close>

text \<open>Reading a log from a status and a version on: every event must be the next allowed step.\<close>

definition allowed_step :: "goal_status \<Rightarrow> goal_status \<Rightarrow> bool" where
  "allowed_step s s' \<longleftrightarrow> s \<notin> set (terminalStates goalStateMachine) \<and>
     list_ex (\<lambda>t. tr_from t = s \<and> tr_to t = s') (transitions goalStateMachine)"

fun history ::
  "goal_status \<times> int \<Rightarrow> goal_state_changed_event list \<Rightarrow> (goal_status \<times> int) option" where
  "history (s, v) [] = Some (s, v)"
| "history (s, v) (e # es) =
     (if event_previousState e = s \<and> event_aggregateVersion e = v + 1 \<and> allowed_step s (event_state e)
      then history (event_state e, v + 1) es else None)"

lemma history_snoc:
  "history p es = Some (s, v) \<Longrightarrow>
     history p (es @ [e]) =
       (if event_previousState e = s \<and> event_aggregateVersion e = v + 1 \<and> allowed_step s (event_state e)
        then Some (event_state e, v + 1) else None)"
  by (induction p es rule: history.induct) (auto split: if_splits)

definition standing :: "goal_aggregate \<Rightarrow> goal_status \<times> int" where
  "standing g = (aggregate_status g, aggregate_version g)"

definition events_of :: "goal_repository \<Rightarrow> goal_aggregate \<Rightarrow> goal_state_changed_event list" where
  "events_of repo g = filter (\<lambda>e. event_aggregateId e = goalId (goal_ref g)) (goal_events repo)"

text \<open>What a prepared commit says, and how it may be late.\<close>

definition well_formed_commit :: "commit_goal_transition \<Rightarrow> bool" where
  "well_formed_commit k \<longleftrightarrow>
     event_aggregateId (commit_event k) = goalId (goal_ref (commit_current k)) \<and>
     event_aggregateVersion (commit_event k) = commit_expectedVersion k + 1 \<and>
     event_state (commit_event k) = commit_nextState k \<and>
     allowed_step (event_previousState (commit_event k)) (event_state (commit_event k))"

definition not_ahead :: "goal_repository \<Rightarrow> commit_goal_transition \<Rightarrow> bool" where
  "not_ahead repo k \<longleftrightarrow>
     (\<exists>g. goals repo (scope_key (goal_ref (commit_current k))) = Some g \<and>
        goal_ref g = goal_ref (commit_current k) \<and>
        (commit_expectedVersion k < aggregate_version g \<or>
         standing g = (event_previousState (commit_event k), commit_expectedVersion k)))"

definition recorded_history :: "goal_repository \<Rightarrow> goal_repository \<Rightarrow> bool" where
  "recorded_history repo0 repo \<longleftrightarrow>
     dom (goals repo) = dom (goals repo0) \<and>
     (\<forall>key g0 g. goals repo0 key = Some g0 \<longrightarrow> goals repo key = Some g \<longrightarrow>
        goal_ref g = goal_ref g0 \<and> history (standing g0) (events_of repo g0) = Some (standing g))"

definition one_key_per_id :: "goal_repository \<Rightarrow> bool" where
  "one_key_per_id repo \<longleftrightarrow>
     (\<forall>key key' g g'. goals repo key = Some g \<longrightarrow> goals repo key' = Some g' \<longrightarrow>
        goalId (goal_ref g) = goalId (goal_ref g') \<longrightarrow> key = key')"

lemma recorded_historyD:
  "recorded_history repo0 repo \<Longrightarrow> goals repo0 key = Some g0 \<Longrightarrow> goals repo key = Some g \<Longrightarrow>
     goal_ref g = goal_ref g0 \<and> history (standing g0) (events_of repo g0) = Some (standing g)"
  unfolding recorded_history_def by blast

lemma recorded_history_first:
  "recorded_history repo0 repo \<Longrightarrow> goals repo key = Some g \<Longrightarrow> \<exists>g0. goals repo0 key = Some g0"
  unfolding recorded_history_def by (metis domD domI)

lemma recorded_history_dom: "recorded_history repo0 repo \<Longrightarrow> dom (goals repo) = dom (goals repo0)"
  unfolding recorded_history_def by blast

lemma transitionState_allowed:
  assumes "transitionState i = Inr t" and "in_machine i = goalStateMachine"
  shows "previousState t = currentState i \<and> new_state t = nextState i \<and>
    previousVersion t = currentVersion i \<and> new_version t = currentVersion i + 1 \<and>
    allowed_step (currentState i) (nextState i)"
  using assms
  by (auto simp: transitionState_def Let_def allowed_step_def list_ex_iff
      split: option.splits if_splits dest!: find_SomeD)

lemma build_transition_well_formed:
  assumes "build_transition sha256 l x c goal = Inr k"
  shows "commit_current k = goal \<and> well_formed_commit k \<and>
    standing goal = (event_previousState (commit_event k), commit_expectedVersion k)"
proof -
  from assms obtain t where
    t: "transitionState \<lparr>in_machine = goalStateMachine,
         currentState = aggregate_status goal, currentVersion = aggregate_version goal,
         expectedVersion = command_expectedVersion c, nextState = command_nextState c,
         in_guards = (map_of (command_guards c))(ReasonProvided \<mapsto> 0 < length (trim (command_reason c)))\<rparr> = Inr t"
    by (auto simp: build_transition_def result_simps)
  from transitionState_allowed[OF t] assms t show ?thesis
    by (auto simp: build_transition_def Let_def well_formed_commit_def standing_def)
qed

lemma prepare_well_formed:
  assumes "prepare_transition memory_ops sha256 lc x c repo = Inr (Inr k)"
  shows "\<exists>goal. get_goal (command_scope c) repo = Some goal \<and> commit_current k = goal \<and>
    well_formed_commit k \<and>
    standing goal = (event_previousState (commit_event k), commit_expectedVersion k)"
  using assms build_transition_well_formed
  by (fastforce simp: prepare_transition_def Let_def result_simps split: option.splits if_splits)

text \<open>A commit that is performed is the next event of its Goal's history.\<close>

lemma commit_records:
  assumes c: "commitTransition k repo = (r, repo')" and h: "recorded_history repo0 repo"
    and k: "well_formed_commit k" "not_ahead repo k"
    and ids: "one_key_per_id repo0"
  shows "recorded_history repo0 repo'"
  using commitTransition_cases[OF c]
proof (elim disjE exE conjE)
  fix current :: goal_aggregate
  let ?key = "scope_key (goal_ref (commit_current k))"
  let ?next = "current\<lparr>aggregate_status := commit_nextState k,
                       aggregate_version := commit_expectedVersion k + 1\<rparr>"
  assume cur: "goals repo ?key = Some current"
    and ver: "aggregate_version current = commit_expectedVersion k"
    and "let next = ?next in r = Inr (next, commit_receipt k) \<and> repo' = write_transition k next repo"
  then have repo': "repo' = write_transition k ?next repo" by (simp add: Let_def)
  from k(2) cur ver have ref: "goal_ref current = goal_ref (commit_current k)"
    and st: "standing current = (event_previousState (commit_event k), commit_expectedVersion k)"
    by (auto simp: not_ahead_def)
  have goals': "goals repo' = (goals repo)(?key \<mapsto> ?next)"
    by (simp add: repo' write_transition_def ref)
  have "?key \<in> dom (goals repo)" using cur by blast
  then have dom: "dom (goals repo') = dom (goals repo0)"
    using recorded_history_dom[OF h] by (simp add: goals' insert_absorb)
  have "goal_ref g = goal_ref g0 \<and> history (standing g0) (events_of repo' g0) = Some (standing g)"
    if g0: "goals repo0 key = Some g0" and g: "goals repo' key = Some g" for key g0 g
  proof (cases "key = ?key")
    case True
    have old: "goal_ref current = goal_ref g0"
      "history (standing g0) (events_of repo g0) = Some (standing current)"
      using recorded_historyD[OF h g0[unfolded True] cur] by simp_all
    have "events_of repo' g0 = events_of repo g0 @ [commit_event k]"
      using k(1) old(1) ref by (simp add: events_of_def repo' write_transition_def well_formed_commit_def)
    moreover have "g = ?next" using g True by (simp add: goals')
    ultimately show ?thesis
      using history_snoc[OF old(2)[unfolded st], of "commit_event k"] k(1) old(1)
      unfolding well_formed_commit_def standing_def by auto
  next
    case False
    from recorded_history_first[OF h cur] obtain c0 where c0: "goals repo0 ?key = Some c0" by blast
    from recorded_historyD[OF h c0 cur] have "goal_ref c0 = goal_ref current" by simp
    note c0 = c0 this
    have "goalId (goal_ref c0) \<noteq> goalId (goal_ref g0)"
      using ids c0(1) g0 False unfolding one_key_per_id_def by metis
    then have "events_of repo' g0 = events_of repo g0"
      using k(1) c0(2) ref by (simp add: events_of_def repo' write_transition_def well_formed_commit_def)
    with recorded_historyD[OF h g0, of g] g False show ?thesis by (simp add: goals')
  qed
  with dom show ?thesis unfolding recorded_history_def by blast
qed (use h in auto)

text \<open>A performed commit does not put the other prepared ones ahead.\<close>

lemma commit_not_ahead:
  assumes c: "commitTransition k repo = (r, repo')" and n: "not_ahead repo k" "not_ahead repo m"
  shows "not_ahead repo' m"
  using commitTransition_cases[OF c]
proof (elim disjE exE conjE)
  fix current :: goal_aggregate
  let ?key = "scope_key (goal_ref (commit_current k))"
  let ?next = "current\<lparr>aggregate_status := commit_nextState k,
                       aggregate_version := commit_expectedVersion k + 1\<rparr>"
  assume cur: "goals repo ?key = Some current"
    and ver: "aggregate_version current = commit_expectedVersion k"
    and "let next = ?next in r = Inr (next, commit_receipt k) \<and> repo' = write_transition k next repo"
  then have repo': "repo' = write_transition k ?next repo" by (simp add: Let_def)
  from n(1) cur have ref: "goal_ref current = goal_ref (commit_current k)" by (auto simp: not_ahead_def)
  then have goals': "goals repo' = (goals repo)(?key \<mapsto> ?next)"
    by (simp add: repo' write_transition_def)
  show ?thesis
  proof (cases "scope_key (goal_ref (commit_current m)) = ?key")
    case True
    from n(2) True cur have "commit_expectedVersion m \<le> aggregate_version current"
      "goal_ref current = goal_ref (commit_current m)"
      by (auto simp: not_ahead_def standing_def)
    with True ver show ?thesis unfolding not_ahead_def goals' by simp
  next
    case False
    with n(2) show ?thesis by (auto simp: not_ahead_def goals')
  qed
qed (use n in auto)

definition goal_log_ok ::
  "goal_repository \<Rightarrow> goal_repository \<times> commit_goal_transition list \<Rightarrow> bool" where
  "goal_log_ok repo0 c \<longleftrightarrow> recorded_history repo0 (fst c) \<and>
     (\<forall>k\<in>set (snd c). well_formed_commit k \<and> not_ahead (fst c) k)"

lemma goal_step_log:
  assumes s: "goal_step sha256 lc c c'" and ok: "goal_log_ok repo0 c"
    and keyed: "\<And>key g. goals repo0 key = Some g \<Longrightarrow> scope_key (goal_ref g) = key"
    and ids: "one_key_per_id repo0"
  shows "goal_log_ok repo0 c'"
  using s
proof cases
  case (prepare_step x cmd repo k ks)
  from prepare_well_formed[OF prepare_step(3)] obtain goal
    where g: "get_goal (command_scope cmd) repo = Some goal" "commit_current k = goal"
      "well_formed_commit k" "standing goal = (event_previousState (commit_event k), commit_expectedVersion k)"
    by blast
  from ok prepare_step have h: "recorded_history repo0 repo" by (simp add: goal_log_ok_def)
  from g(1) have e: "goals repo (scope_key (command_scope cmd)) = Some goal" by (simp add: get_goal_def)
  from recorded_history_first[OF h e] obtain g0
    where g0: "goals repo0 (scope_key (command_scope cmd)) = Some g0" by blast
  from recorded_historyD[OF h g0 e] keyed[OF g0]
  have "scope_key (goal_ref goal) = scope_key (command_scope cmd)" by simp
  with e g(2,4) have "not_ahead repo k" by (simp add: not_ahead_def)
  with ok prepare_step g(3) show ?thesis by (simp add: goal_log_ok_def)
next
  case (commit_step k ks repo r repo')
  from ok commit_step have "recorded_history repo0 repo" "well_formed_commit k" "not_ahead repo k"
    by (auto simp: goal_log_ok_def)
  from commit_records[OF commit_step(4) this ids] have "recorded_history repo0 repo'" by blast
  moreover have "well_formed_commit m \<and> not_ahead repo' m" if "m \<in> set (remove1 k ks)" for m
  proof -
    from that have "m \<in> set ks" using notin_set_remove1 by metis
    with ok commit_step have m: "well_formed_commit m" "not_ahead repo m" by (auto simp: goal_log_ok_def)
    with commit_not_ahead[OF commit_step(4) \<open>not_ahead repo k\<close>] show ?thesis by blast
  qed
  ultimately show ?thesis using commit_step by (simp add: goal_log_ok_def)
qed

lemma goals_new_repository:
  assumes "distinct (map (goalId \<circ> goal_ref) gs)"
  shows "goals (new_goal_repository gs) key = Some g \<Longrightarrow> g \<in> set gs \<and> scope_key (goal_ref g) = key"
proof -
  have "fold (\<lambda>g m. m(scope_key (goal_ref g) \<mapsto> g)) gs m key = Some g \<Longrightarrow>
      (g \<in> set gs \<and> scope_key (goal_ref g) = key) \<or> m key = Some g" for m gs
  proof (induction gs arbitrary: m)
    case (Cons a gs)
    from Cons.IH[of "m(scope_key (goal_ref a) \<mapsto> a)"] Cons.prems show ?case by (auto split: if_splits)
  qed simp
  from this[of gs Map.empty]
  show "goals (new_goal_repository gs) key = Some g \<Longrightarrow> g \<in> set gs \<and> scope_key (goal_ref g) = key"
    by (simp add: new_goal_repository_def)
qed

text \<open>
  Property C12. From a repository filled with Goals of distinct ids, however the commands are
  prepared and committed, late commits included: every Goal keeps its identity, and the events
  logged for it are exactly the allowed steps, in version order without a gap, that lead from its
  first status and version to its current ones.
\<close>

theorem goal_log_is_its_history:
  assumes "(goal_step sha256 lc)\<^sup>*\<^sup>* (new_goal_repository gs, []) (repo, ks)"
    and "distinct (map (goalId \<circ> goal_ref) gs)"
  shows "dom (goals repo) = dom (goals (new_goal_repository gs)) \<and>
    (\<forall>key g. goals repo key = Some g \<longrightarrow>
      (\<exists>g0\<in>set gs. scope_key (goal_ref g0) = key \<and> goal_ref g = goal_ref g0 \<and>
        history (aggregate_status g0, aggregate_version g0)
          (filter (\<lambda>e. event_aggregateId e = goalId (goal_ref g)) (goal_events repo))
        = Some (aggregate_status g, aggregate_version g)))"
proof -
  let ?repo0 = "new_goal_repository gs"
  note new = goals_new_repository[OF assms(2)]
  have same: "key = key'" if "goals ?repo0 key = Some g" "goals ?repo0 key' = Some g'"
    "goalId (goal_ref g) = goalId (goal_ref g')" for key key' g g'
  proof -
    have "inj_on (goalId \<circ> goal_ref) (set gs)" using assms(2) by (simp add: distinct_map)
    from inj_onD[OF this, of g g'] new[OF that(1)] new[OF that(2)] that(3) have "g = g'" by simp
    with new[OF that(1)] new[OF that(2)] show ?thesis by auto
  qed
  have ids: "one_key_per_id ?repo0" unfolding one_key_per_id_def using same by blast
  have keyed: "scope_key (goal_ref g) = key" if "goals ?repo0 key = Some g" for key g
    using new[OF that] by simp
  have "goal_log_ok ?repo0 (?repo0, [])"
    by (auto simp: goal_log_ok_def recorded_history_def events_of_def standing_def new_goal_repository_def)
  with assms(1) have "goal_log_ok ?repo0 (repo, ks)"
  proof (induction rule: rtranclp_induct)
    case (step c c')
    from goal_step_log[OF step(2) _ keyed ids] step(3,4) show ?case by blast
  qed simp
  then have h: "recorded_history ?repo0 repo" by (simp add: goal_log_ok_def)
  have "\<exists>g0\<in>set gs. scope_key (goal_ref g0) = key \<and> goal_ref g = goal_ref g0 \<and>
        history (aggregate_status g0, aggregate_version g0)
          (filter (\<lambda>e. event_aggregateId e = goalId (goal_ref g)) (goal_events repo))
        = Some (aggregate_status g, aggregate_version g)" if g: "goals repo key = Some g" for key g
  proof -
    from recorded_history_first[OF h g] obtain g0 where g0: "goals ?repo0 key = Some g0" by blast
    from recorded_historyD[OF h g0 g] new[OF g0] show ?thesis
      by (intro bexI[of _ g0]) (simp_all add: standing_def events_of_def)
  qed
  with recorded_history_dom[OF h] show ?thesis by blast
qed

section \<open>Sample runs\<close>

definition sample_goal :: goal_aggregate where
  "sample_goal = \<lparr>goal_ref = \<lparr>organizationId = ''org'', projectId = ''project'', goalId = ''goal-1''\<rparr>,
     aggregate_title = ''Ship it'', aggregate_status = Clarifying, aggregate_version = 4\<rparr>"

definition sample_command :: goal_transition_command where
  "sample_command = \<lparr>command_organizationId = ''org'', command_projectId = ''project'',
     command_goalId = ''goal-1'', command_actorId = ''actor'', command_requestId = ''request-1'',
     command_idempotencyKey = ''key-1'', command_expectedVersion = 4, command_nextState = Planning,
     command_reason = ''All questions are answered'', command_guards = [(ClarificationsResolved, True)]\<rparr>"

definition sample_call :: goal_call where
  "sample_call = \<lparr>authorize = (\<lambda>scope actor next. Inr ()), call_time = 1000,
     new_event_id = ''event-1'', new_audit_id = ''audit-1''\<rparr>"

definition later_call :: goal_call where
  "later_call = sample_call\<lparr>call_time := 2000, new_event_id := ''event-2'', new_audit_id := ''audit-2''\<rparr>"

definition sample_repository :: goal_repository where
  "sample_repository = new_goal_repository [sample_goal]"

abbreviation run_sample :: "goal_call \<Rightarrow> goal_repository \<Rightarrow> (js_error + goal_transition_receipt) \<times> goal_repository" where
  "run_sample x \<equiv> transition memory_ops (\<lambda>s. s) (\<le>) x sample_command"

definition sample_receipt :: goal_transition_receipt where
  "sample_receipt = \<lparr>receipt_goalId = ''goal-1'', receipt_previousState = Clarifying, receipt_state = Planning,
     receipt_previousVersion = 4, receipt_version = 5, receipt_eventId = ''event-1'', receipt_occurredAt = 1000\<rparr>"

theorem transition_takes_effect_once_witness:
  "fst (run_sample sample_call sample_repository) = Inr sample_receipt \<and>
   (let repo = snd (run_sample sample_call sample_repository) in
    run_sample later_call repo = (Inr sample_receipt, repo))"
proof -
  let ?repo = "snd (run_sample sample_call sample_repository)"
  have f: "fst (run_sample sample_call sample_repository) = Inr sample_receipt" by code_simp
  then have t: "run_sample sample_call sample_repository = (Inr sample_receipt, ?repo)"
    by (metis prod.collapse)
  have "run_sample later_call ?repo = (Inr sample_receipt, ?repo)"
    by (rule transition_takes_effect_once[OF t, of "[]" _ "[]"]) (rule rtranclp.rtrancl_refl | code_simp)+
  with f show ?thesis by (simp add: Let_def)
qed

definition sample_commit :: commit_goal_transition where
  "sample_commit =
     (case prepare_transition memory_ops (\<lambda>s. s) (\<le>) sample_call sample_command sample_repository of
        Inr (Inr k) \<Rightarrow> k)"

theorem goal_log_is_its_history_witness:
  "let repo = snd (commitTransition sample_commit sample_repository) in
   map event_state (goal_events repo) = [Planning] \<and>
   (\<forall>key g. goals repo key = Some g \<longrightarrow>
      (\<exists>g0\<in>set [sample_goal]. scope_key (goal_ref g0) = key \<and> goal_ref g = goal_ref g0 \<and>
        history (aggregate_status g0, aggregate_version g0)
          (filter (\<lambda>e. event_aggregateId e = goalId (goal_ref g)) (goal_events repo))
        = Some (aggregate_status g, aggregate_version g)))"
proof -
  let ?repo = "snd (commitTransition sample_commit sample_repository)"
  have "case prepare_transition memory_ops (\<lambda>s. s) (\<le>) sample_call sample_command sample_repository of
      Inr (Inr k) \<Rightarrow> True | _ \<Rightarrow> False" by code_simp
  then have p: "prepare_transition memory_ops (\<lambda>s. s) (\<le>) sample_call sample_command sample_repository = Inr (Inr sample_commit)"
    by (auto simp: sample_commit_def split: sum.splits)
  have "goal_step (\<lambda>s. s) (\<le>) (sample_repository, []) (sample_repository, [sample_commit])"
    by (rule prepare_step[OF p])
  moreover have "goal_step (\<lambda>s. s) (\<le>) (sample_repository, [sample_commit]) (?repo, remove1 sample_commit [sample_commit])"
    by (rule commit_step[of _ _ _ "fst (commitTransition sample_commit sample_repository)"]) simp_all
  ultimately have run: "(goal_step (\<lambda>s. s) (\<le>))\<^sup>*\<^sup>* (new_goal_repository [sample_goal], []) (?repo, [])"
    by (simp add: sample_repository_def)
  have "map event_state (goal_events ?repo) = [Planning]" by code_simp
  moreover have "distinct (map (goalId \<circ> goal_ref) [sample_goal])" by simp
  note conjunct2[OF goal_log_is_its_history[OF run this]]
  ultimately show ?thesis unfolding Let_def by (rule conjI)
qed

end
