(* ===== verification/Goal_Workspace.thy ===== *)
theory Goal_Workspace
  imports Goal_Transitions
begin

text \<open>
  \<^verbatim>\<open>application/goal-workspace-service.ts\<close>, \<^verbatim>\<open>adapters/memory-goal-workspace-repository.ts\<close> and
  \<^verbatim>\<open>adapters/memory-goal-workspace-transition-repository.ts\<close>: the commands that create and update
  Goal contracts, and the transition repository that shares the contracts with them, so that the
  service of \<open>Goal_Transitions\<close> moves the same Goals along their life cycle.
\<close>

section \<open>Drafts\<close>

definition workspace_text :: "json \<Rightarrow> string \<Rightarrow> nat \<Rightarrow> js_error + string" where
  "workspace_text v name maximum =
     (case v of
        JStr s \<Rightarrow>
          if length (trim s) < 1 \<or> length (trim s) > maximum
          then Inl (GoalWorkspaceValidationError (name @ '' is required and bounded''))
          else Inr (trim s)
      | _ \<Rightarrow> Inl (GoalWorkspaceValidationError (name @ '' must be text'')))"

definition workspace_list ::
  "json \<Rightarrow> string \<Rightarrow> nat \<Rightarrow> nat \<Rightarrow> nat \<Rightarrow> js_error + string list" where
  "workspace_list v name minimum maximumItems maximumLength =
     (case v of
        JArr vs \<Rightarrow>
          if length vs < minimum \<or> length vs > maximumItems
          then Inl (GoalWorkspaceValidationError (name @ '' has an invalid item count''))
          else and_then
                 (map_try (\<lambda>i item. workspace_text item (index_path name i) maximumLength) 0 vs)
                 (\<lambda>normalized. if has_duplicates normalized
                    then Inl (GoalWorkspaceValidationError (name @ '' contains duplicates''))
                    else Inr normalized)
      | _ \<Rightarrow> Inl (GoalWorkspaceValidationError (name @ '' must be a list'')))"

definition normalizeGoalContractDraft :: "json \<Rightarrow> js_error + string goal_contract_draft" where
  "normalizeGoalContractDraft draft =
     (case draft of
        JObj fs \<Rightarrow>
          and_then (workspace_text (js_get fs ''title'') ''title'' 200) (\<lambda>title.
          and_then (workspace_text (js_get fs ''problemStatement'') ''problemStatement'' 10000) (\<lambda>problem.
          and_then (workspace_text (js_get fs ''desiredOutcome'') ''desiredOutcome'' 10000) (\<lambda>outcome.
          and_then (workspace_list (js_get fs ''acceptanceCriteria'') ''acceptanceCriteria'' 1 50 2000) (\<lambda>criteria.
          and_then (workspace_list (js_get fs ''nonGoals'') ''nonGoals'' 0 50 2000) (\<lambda>nonGoals.
          and_then (workspace_list (js_get fs ''constraints'') ''constraints'' 0 50 2000) (\<lambda>cs.
            Inr \<lparr>draft_title = title, draft_problemStatement = problem, draft_desiredOutcome = outcome,
                 draft_acceptanceCriteria = criteria, draft_nonGoals = nonGoals,
                 draft_constraints = cs\<rparr>))))))
      | _ \<Rightarrow> Inl (GoalWorkspaceValidationError ''draft is required''))"

definition goal_draft_json :: "string goal_contract_draft \<Rightarrow> json" where
  "goal_draft_json d = JObj [
     (''title'', JStr (draft_title d)),
     (''problemStatement'', JStr (draft_problemStatement d)),
     (''desiredOutcome'', JStr (draft_desiredOutcome d)),
     (''acceptanceCriteria'', texts_json (draft_acceptanceCriteria d)),
     (''nonGoals'', texts_json (draft_nonGoals d)),
     (''constraints'', texts_json (draft_constraints d))]"

section \<open>Commands and records\<close>

record command_identity =
  identity_organizationId :: string
  identity_projectId :: string
  identity_actorId :: string
  identity_requestId :: string
  identity_idempotencyKey :: string
  identity_reason :: string

text \<open>A creation has the draft, an update also the Goal and the version it was written against.\<close>

datatype workspace_command =
    Create_goal command_identity json
  | Update_goal command_identity string int json

datatype workspace_operation = Goal_created | Goal_updated

record workspace_receipt =
  wr_operation :: workspace_operation
  wr_goal :: "string goal_contract"
  wr_eventId :: string
  wr_occurredAt :: string

record workspace_event =
  we_id :: string
  we_organizationId :: string
  we_aggregateId :: string
  we_aggregateVersion :: nat
  we_type :: workspace_operation
  we_occurredAt :: string
  we_actorId :: string
  we_requestId :: string
  we_reason :: string

record workspace_audit =
  wa_id :: string
  wa_scope :: goal_scope
  wa_actorId :: string
  wa_action :: workspace_operation
  wa_entityVersion :: nat
  wa_reason :: string
  wa_requestId :: string
  wa_createdAt :: string

text \<open>What \<open>commitCreate\<close> and \<open>commitUpdate\<close> have in common.\<close>

record workspace_commit =
  wc_event :: workspace_event
  wc_audit :: workspace_audit
  wc_lookup :: idempotency_lookup
  wc_responseDigest :: string
  wc_expiresAt :: int
  wc_receipt :: workspace_receipt

section \<open>The repositories in memory\<close>

record workspace_repository =
  ws_goals :: "string \<rightharpoonup> string goal_contract"
  ws_events :: "workspace_event list"
  ws_audits :: "workspace_audit list"
  ws_idempotency :: "string \<rightharpoonup> workspace_receipt idempotency_record"

definition scope_of :: "string goal_contract \<Rightarrow> goal_scope" where
  "scope_of g = \<lparr>organizationId = goal_organizationId g, projectId = goal_projectId g, goalId = goal_id g\<rparr>"

definition goal_key :: "string goal_contract \<Rightarrow> string" where
  "goal_key g = scope_key (scope_of g)"

definition workspace_get :: "goal_scope \<Rightarrow> workspace_repository \<Rightarrow> string goal_contract option" where
  "workspace_get scope ws = ws_goals ws (scope_key scope)"

definition workspace_find ::
  "idempotency_lookup \<Rightarrow> workspace_repository \<Rightarrow> js_error + workspace_receipt option" where
  "workspace_find l ws = find_receipt l (ws_idempotency ws)"

definition complete :: "workspace_commit \<Rightarrow> workspace_repository \<Rightarrow> workspace_receipt \<times> workspace_repository" where
  "complete c ws = (wc_receipt c,
     ws\<lparr>ws_events := ws_events ws @ [wc_event c], ws_audits := ws_audits ws @ [wc_audit c],
        ws_idempotency := (ws_idempotency ws)(idempotency_key (wc_lookup c) \<mapsto>
          \<lparr>record_lookup = wc_lookup c, record_completed = True, record_receipt = Some (wc_receipt c)\<rparr>)\<rparr>)"

definition put_goal :: "string goal_contract \<Rightarrow> workspace_repository \<Rightarrow> workspace_repository" where
  "put_goal g ws = ws\<lparr>ws_goals := (ws_goals ws)(goal_key g \<mapsto> g)\<rparr>"

definition commitCreate ::
  "string goal_contract \<Rightarrow> workspace_commit \<Rightarrow> workspace_repository \<Rightarrow>
   (js_error + workspace_receipt) \<times> workspace_repository" where
  "commitCreate goal c ws =
     (case workspace_find (wc_lookup c) ws of
        Inl e \<Rightarrow> (Inl e, ws)
      | Inr (Some replay) \<Rightarrow> (Inr replay, ws)
      | Inr None \<Rightarrow>
          if ws_goals ws (goal_key goal) \<noteq> None then (Inl VersionConflictError, ws)
          else (case complete c (put_goal goal ws) of (r, ws') \<Rightarrow> (Inr r, ws')))"

definition commitUpdate ::
  "string goal_contract \<Rightarrow> string goal_contract \<Rightarrow> int \<Rightarrow> workspace_commit \<Rightarrow> workspace_repository \<Rightarrow>
   (js_error + workspace_receipt) \<times> workspace_repository" where
  "commitUpdate current next expected c ws =
     (case workspace_find (wc_lookup c) ws of
        Inl e \<Rightarrow> (Inl e, ws)
      | Inr (Some replay) \<Rightarrow> (Inr replay, ws)
      | Inr None \<Rightarrow>
          (case ws_goals ws (goal_key current) of
             None \<Rightarrow> (Inl VersionConflictError, ws)
           | Some stored \<Rightarrow>
               if int (goal_version stored) \<noteq> expected \<or> int (goal_version next) \<noteq> expected + 1
               then (Inl VersionConflictError, ws)
               else (case complete c (put_goal next ws) of (r, ws') \<Rightarrow> (Inr r, ws'))))"

definition applyStateTransition ::
  "goal_scope \<Rightarrow> int \<Rightarrow> goal_status \<Rightarrow> int \<Rightarrow> workspace_repository \<Rightarrow>
   (js_error + string goal_contract) \<times> workspace_repository" where
  "applyStateTransition scope expected next occurredAt ws =
     (case ws_goals ws (scope_key scope) of
        None \<Rightarrow> (Inl VersionConflictError, ws)
      | Some current \<Rightarrow>
          if int (goal_version current) \<noteq> expected then (Inl VersionConflictError, ws)
          else
            (let g = current\<lparr>goal_state := next, goal_version := goal_version current + 1,
                       updatedAt := toISOString occurredAt\<rparr>
             in (Inr g, put_goal g ws)))"

text \<open>
  The transition repository adds its own receipts, events and audits to a workspace. A stored
  transition always has its receipt.
\<close>

record workspace_store =
  workspace :: workspace_repository
  stored_transitions :: "string \<rightharpoonup> idempotency_lookup \<times> goal_transition_receipt"
  transition_events :: "goal_state_changed_event list"
  transition_audits :: "goal_audit_event list"

definition aggregate_of :: "string goal_contract \<Rightarrow> goal_aggregate" where
  "aggregate_of g = \<lparr>goal_ref = scope_of g, aggregate_title = goal_title g,
     aggregate_status = goal_state g, aggregate_version = int (goal_version g)\<rparr>"

definition shared_get :: "goal_scope \<Rightarrow> workspace_store \<Rightarrow> goal_aggregate option" where
  "shared_get scope s = map_option aggregate_of (workspace_get scope (workspace s))"

definition shared_find ::
  "idempotency_lookup \<Rightarrow> workspace_store \<Rightarrow> js_error + goal_transition_receipt option" where
  "shared_find l s =
     (case stored_transitions s (idempotency_key l) of
        None \<Rightarrow> Inr None
      | Some (m, receipt) \<Rightarrow>
          if requestHash m \<noteq> requestHash l then Inl IdempotencyConflictError else Inr (Some receipt))"

definition shared_commit ::
  "commit_goal_transition \<Rightarrow> workspace_store \<Rightarrow>
   (js_error + goal_aggregate \<times> goal_transition_receipt) \<times> workspace_store" where
  "shared_commit k s =
     (case shared_find (commit_lookup k) s of
        Inl e \<Rightarrow> (Inl e, s)
      | Inr (Some replay) \<Rightarrow>
          (case shared_get (goal_ref (commit_current k)) s of
             None \<Rightarrow> (Inl VersionConflictError, s)
           | Some goal \<Rightarrow> (Inr (goal, replay), s))
      | Inr None \<Rightarrow>
          (case applyStateTransition (goal_ref (commit_current k)) (commit_expectedVersion k)
                  (commit_nextState k) (commit_occurredAt k) (workspace s) of
             (Inl e, ws) \<Rightarrow> (Inl e, s\<lparr>workspace := ws\<rparr>)
           | (Inr goal, ws) \<Rightarrow> (Inr (aggregate_of goal, commit_receipt k),
               \<lparr>workspace = ws,
                stored_transitions = (stored_transitions s)
                  (idempotency_key (commit_lookup k) \<mapsto> (commit_lookup k, commit_receipt k)),
                transition_events = transition_events s @ [commit_event k],
                transition_audits = transition_audits s @ [commit_audit k]\<rparr>)))"

definition shared_ops :: "workspace_store goal_repository_ops" where
  "shared_ops = \<lparr>repo_get = shared_get, repo_find = shared_find, repo_commit = shared_commit\<rparr>"

section \<open>The service\<close>

text \<open>The surroundings of a call: the authorizer, one reading of the clock, the generated ids in order.\<close>

record workspace_call =
  may_use :: "string \<Rightarrow> string \<Rightarrow> string \<Rightarrow> string \<Rightarrow> js_error + unit"
  workspace_time :: int
  generated_id :: "nat \<Rightarrow> string"

fun operation_name :: "workspace_operation \<Rightarrow> string" where
  "operation_name Goal_created = ''created''"
| "operation_name Goal_updated = ''updated''"

fun endpoint_name :: "workspace_operation \<Rightarrow> string" where
  "endpoint_name Goal_created = ''goal.create''"
| "endpoint_name Goal_updated = ''goal.update''"

definition idempotency_key_format :: "string \<Rightarrow> bool" where
  "idempotency_key_format s \<longleftrightarrow>
     (case s of
        [] \<Rightarrow> False
      | c # cs \<Rightarrow> (is_upper c \<or> is_lower c \<or> is_digit c) \<and> length cs \<le> 199 \<and>
          list_all (\<lambda>d. is_upper d \<or> is_lower d \<or> is_digit d \<or> d \<in> set ''._:-'') cs)"

text \<open>The Goal and the version of an update; undefined for a creation, so left out of the text.\<close>

definition workspace_command_text ::
  "workspace_operation \<Rightarrow> command_identity \<Rightarrow> json \<Rightarrow> json \<Rightarrow> string goal_contract_draft \<Rightarrow> string" where
  "workspace_command_text operation i goal version d = json_stringify (JObj [
     (''endpoint'', JStr (endpoint_name operation)),
     (''organizationId'', JStr (identity_organizationId i)),
     (''projectId'', JStr (identity_projectId i)),
     (''actorId'', JStr (identity_actorId i)),
     (''goalId'', goal),
     (''expectedVersion'', version),
     (''reason'', JStr (trim (identity_reason i))),
     (''draft'', goal_draft_json d)])"

definition workspace_lookup ::
  "command_identity \<Rightarrow> workspace_operation \<Rightarrow> string \<Rightarrow> js_error + idempotency_lookup" where
  "workspace_lookup i operation hash =
     (if \<not> idempotency_key_format (identity_idempotencyKey i)
      then Inl (GoalWorkspaceValidationError ''Idempotency-Key is required'')
      else Inr \<lparr>lookup_organizationId = identity_organizationId i, lookup_actorId = identity_actorId i,
        lookup_endpoint = endpoint_name operation, lookup_key = identity_idempotencyKey i,
        requestHash = hash\<rparr>)"

text \<open>Everything of \<open>create\<close> and \<open>update\<close> before the repository is read.\<close>

definition check_command ::
  "(string \<Rightarrow> string) \<Rightarrow> workspace_call \<Rightarrow> workspace_command \<Rightarrow>
   js_error + (string goal_contract_draft \<times> string \<times> idempotency_lookup)" where
  "check_command sha256 x c =
     (case c of
        Create_goal i v \<Rightarrow>
          and_then (may_use x (identity_actorId i) (identity_organizationId i) (identity_projectId i) ''goal.write'') (\<lambda>_.
          and_then (normalizeGoalContractDraft v) (\<lambda>d.
          and_then (workspace_text (JStr (identity_reason i)) ''reason'' 4000) (\<lambda>reason.
          and_then (workspace_lookup i Goal_created
              (sha256 (workspace_command_text Goal_created i JUndefined JUndefined d))) (\<lambda>l.
            Inr (d, reason, l)))))
      | Update_goal i goal expected v \<Rightarrow>
          and_then (may_use x (identity_actorId i) (identity_organizationId i) (identity_projectId i) ''goal.write'') (\<lambda>_.
            if expected < 1 then Inl (GoalWorkspaceValidationError ''expectedVersion must be positive'')
            else
          and_then (normalizeGoalContractDraft v) (\<lambda>d.
          and_then (workspace_text (JStr (identity_reason i)) ''reason'' 4000) (\<lambda>reason.
          and_then (workspace_lookup i Goal_updated
              (sha256 (workspace_command_text Goal_updated i (JStr goal) (JInt expected) d))) (\<lambda>l.
            Inr (d, reason, l))))))"

definition criteria_of :: "(nat \<Rightarrow> string) \<Rightarrow> string list \<Rightarrow> string goal_acceptance_criterion list" where
  "criteria_of ids statements =
     map (\<lambda>(index, s). \<lparr>criterion_id = ids index, position = index + 1, criterion_statement = s,
            criterion_version = 1\<rparr>) (enumerate 0 statements)"

definition workspace_event_of ::
  "string \<Rightarrow> workspace_operation \<Rightarrow> string goal_contract \<Rightarrow> command_identity \<Rightarrow> string \<Rightarrow> workspace_event" where
  "workspace_event_of i type g ident at = \<lparr>we_id = i, we_organizationId = goal_organizationId g,
     we_aggregateId = goal_id g, we_aggregateVersion = goal_version g, we_type = type,
     we_occurredAt = at, we_actorId = identity_actorId ident,
     we_requestId = identity_requestId ident, we_reason = trim (identity_reason ident)\<rparr>"

definition workspace_audit_of ::
  "string \<Rightarrow> workspace_operation \<Rightarrow> string goal_contract \<Rightarrow> command_identity \<Rightarrow> string \<Rightarrow> string \<Rightarrow> workspace_audit" where
  "workspace_audit_of i action g ident reason at = \<lparr>wa_id = i, wa_scope = scope_of g,
     wa_actorId = identity_actorId ident, wa_action = action, wa_entityVersion = goal_version g,
     wa_reason = reason, wa_requestId = identity_requestId ident, wa_createdAt = at\<rparr>"

definition criterion_json :: "string goal_acceptance_criterion \<Rightarrow> json" where
  "criterion_json c = JObj [(''id'', JStr (criterion_id c)), (''position'', JInt (int (position c))),
     (''statement'', JStr (criterion_statement c)), (''version'', JInt (int (criterion_version c)))]"

definition contract_json :: "string goal_contract \<Rightarrow> json" where
  "contract_json g = JObj [
     (''id'', JStr (goal_id g)), (''organizationId'', JStr (goal_organizationId g)),
     (''projectId'', JStr (goal_projectId g)), (''title'', JStr (goal_title g)),
     (''problemStatement'', JStr (problemStatement g)), (''desiredOutcome'', JStr (desiredOutcome g)),
     (''acceptanceCriteria'', JArr (map criterion_json (acceptanceCriteria g))),
     (''nonGoals'', texts_json (goal_nonGoals g)), (''constraints'', texts_json (constraints g)),
     (''status'', JStr (goal_status_name (goal_state g))), (''version'', JInt (int (goal_version g))),
     (''createdAt'', JStr (createdAt g)), (''updatedAt'', JStr (updatedAt g))]"

definition workspace_receipt_json :: "workspace_receipt \<Rightarrow> json" where
  "workspace_receipt_json r = JObj [(''operation'', JStr (operation_name (wr_operation r))),
     (''goal'', contract_json (wr_goal r)), (''eventId'', JStr (wr_eventId r)),
     (''occurredAt'', JStr (wr_occurredAt r))]"

text \<open>The commit for a Goal as it will be; \<open>n\<close> ids were generated before those of event and audit.\<close>

definition commit_for ::
  "(string \<Rightarrow> string) \<Rightarrow> workspace_call \<Rightarrow> nat \<Rightarrow> workspace_operation \<Rightarrow> string goal_contract \<Rightarrow>
   command_identity \<Rightarrow> string \<Rightarrow> idempotency_lookup \<Rightarrow> workspace_commit" where
  "commit_for sha256 x n operation g i reason l =
     (let at = toISOString (workspace_time x);
          receipt = \<lparr>wr_operation = operation, wr_goal = g, wr_eventId = generated_id x n, wr_occurredAt = at\<rparr>
      in \<lparr>wc_event = workspace_event_of (generated_id x n) operation g i at,
          wc_audit = workspace_audit_of (generated_id x (n + 1)) operation g i reason at,
          wc_lookup = l, wc_responseDigest = sha256 (json_stringify (workspace_receipt_json receipt)),
          wc_expiresAt = workspace_time x + 24 * 60 * 60 * 1000, wc_receipt = receipt\<rparr>)"

definition created_goal ::
  "workspace_call \<Rightarrow> command_identity \<Rightarrow> string goal_contract_draft \<Rightarrow> string goal_contract" where
  "created_goal x i d =
     \<lparr>goal_id = generated_id x 0, goal_organizationId = identity_organizationId i,
      goal_projectId = identity_projectId i, goal_title = draft_title d,
      problemStatement = draft_problemStatement d, desiredOutcome = draft_desiredOutcome d,
      acceptanceCriteria = criteria_of (\<lambda>k. generated_id x (k + 1)) (draft_acceptanceCriteria d),
      goal_nonGoals = draft_nonGoals d, constraints = draft_constraints d, goal_state = Goal_draft,
      goal_version = 1, createdAt = toISOString (workspace_time x),
      updatedAt = toISOString (workspace_time x)\<rparr>"

definition updated_goal ::
  "workspace_call \<Rightarrow> string goal_contract \<Rightarrow> string goal_contract_draft \<Rightarrow> string goal_contract" where
  "updated_goal x current d = current\<lparr>
      goal_title := draft_title d, problemStatement := draft_problemStatement d,
      desiredOutcome := draft_desiredOutcome d,
      acceptanceCriteria := criteria_of (generated_id x) (draft_acceptanceCriteria d),
      goal_nonGoals := draft_nonGoals d, constraints := draft_constraints d,
      goal_version := goal_version current + 1, updatedAt := toISOString (workspace_time x)\<rparr>"

text \<open>A commit that a command has prepared.\<close>

datatype workspace_pending =
    Pending_create "string goal_contract" workspace_commit
  | Pending_update "string goal_contract" "string goal_contract" int workspace_commit

definition prepare_workspace ::
  "(string \<Rightarrow> string) \<Rightarrow> workspace_call \<Rightarrow> workspace_command \<Rightarrow> workspace_repository \<Rightarrow>
   js_error + (workspace_receipt + workspace_pending)" where
  "prepare_workspace sha256 x c ws =
     and_then (check_command sha256 x c) (\<lambda>(d, reason, l).
     and_then (workspace_find l ws) (\<lambda>replay.
       case replay of
         Some receipt \<Rightarrow> Inr (Inl receipt)
       | None \<Rightarrow>
           (case c of
              Create_goal i _ \<Rightarrow>
                (let g = created_goal x i d in
                 Inr (Inr (Pending_create g
                   (commit_for sha256 x (length (draft_acceptanceCriteria d) + 1) Goal_created g i reason l))))
            | Update_goal i goal expected _ \<Rightarrow>
                (case workspace_get \<lparr>organizationId = identity_organizationId i,
                        projectId = identity_projectId i, goalId = goal\<rparr> ws of
                   None \<Rightarrow> Inl GoalWorkspaceNotFoundError
                 | Some current \<Rightarrow>
                     if int (goal_version current) \<noteq> expected then Inl VersionConflictError
                     else
                       (let next = updated_goal x current d in
                        Inr (Inr (Pending_update current next expected
                          (commit_for sha256 x (length (draft_acceptanceCriteria d)) Goal_updated next i reason l))))))))"

fun commit_pending ::
  "workspace_pending \<Rightarrow> workspace_repository \<Rightarrow> (js_error + workspace_receipt) \<times> workspace_repository" where
  "commit_pending (Pending_create g k) ws = commitCreate g k ws"
| "commit_pending (Pending_update current next expected k) ws = commitUpdate current next expected k ws"

text \<open>\<open>create\<close> and \<open>update\<close> as a whole.\<close>

definition workspace_handle ::
  "(string \<Rightarrow> string) \<Rightarrow> workspace_call \<Rightarrow> workspace_command \<Rightarrow> workspace_repository \<Rightarrow>
   (js_error + workspace_receipt) \<times> workspace_repository" where
  "workspace_handle sha256 x c ws =
     (case prepare_workspace sha256 x c ws of
        Inl e \<Rightarrow> (Inl e, ws)
      | Inr (Inl receipt) \<Rightarrow> (Inr receipt, ws)
      | Inr (Inr p) \<Rightarrow> commit_pending p ws)"

text \<open>\<open>get\<close>.\<close>

definition read_goal ::
  "workspace_call \<Rightarrow> goal_scope \<Rightarrow> string \<Rightarrow> workspace_repository \<Rightarrow> js_error + string goal_contract" where
  "read_goal x scope actor ws =
     and_then (may_use x actor (organizationId scope) (projectId scope) ''goal.read'') (\<lambda>_.
       case workspace_get scope ws of None \<Rightarrow> Inl GoalWorkspaceNotFoundError | Some g \<Rightarrow> Inr g)"

section \<open>Accepted drafts\<close>

definition clean_goal_draft :: "string goal_contract_draft \<Rightarrow> bool" where
  "clean_goal_draft d \<longleftrightarrow> clean_text 200 (draft_title d) \<and> clean_text 10000 (draft_problemStatement d) \<and>
     clean_text 10000 (draft_desiredOutcome d) \<and>
     draft_acceptanceCriteria d \<noteq> [] \<and> clean_texts 50 2000 (draft_acceptanceCriteria d) \<and>
     clean_texts 50 2000 (draft_nonGoals d) \<and> clean_texts 50 2000 (draft_constraints d)"

lemma workspace_text_Inr:
  "workspace_text v name maximum = Inr t \<longleftrightarrow> (\<exists>s. v = JStr s \<and> t = trim s \<and> clean_text maximum t)"
  by (auto simp: workspace_text_def clean_text_def split: json.splits if_splits)

lemma workspace_list_clean:
  assumes "workspace_list v name minimum maximum item_max = Inr ss"
  shows "clean_texts maximum item_max ss \<and> minimum \<le> length ss"
proof -
  from assms obtain vs where len: "minimum \<le> length vs" "length vs \<le> maximum"
    and m: "map_try (\<lambda>i item. workspace_text item (index_path name i) item_max) 0 vs = Inr ss"
    and d: "distinct ss"
    by (auto simp: workspace_list_def result_simps not_less split: json.splits if_splits)
  have "\<forall>s\<in>set ss. clean_text item_max s"
    by (rule map_try_all[OF m]) (auto simp: workspace_text_Inr)
  with len d map_try_length[OF m] show ?thesis by (auto simp: clean_texts_def list_all_iff)
qed

lemma workspace_list_encode:
  assumes "clean_texts maximum item_max ss" and "minimum \<le> length ss"
  shows "workspace_list (texts_json ss) name minimum maximum item_max = Inr ss"
proof -
  have "map_try (\<lambda>i item. workspace_text item (index_path name i) item_max) 0 (map JStr ss) = Inr ss"
    using assms(1) by (intro map_try_encode)
      (auto simp: clean_texts_def list_all_iff workspace_text_Inr clean_text_def)
  with assms show ?thesis by (simp add: workspace_list_def texts_json_def clean_texts_def)
qed

lemma workspace_text_encode: "clean_text m s \<Longrightarrow> workspace_text (JStr s) name m = Inr s"
  by (auto simp: workspace_text_Inr clean_text_def)

lemma normalized_clean: "normalizeGoalContractDraft v = Inr d \<Longrightarrow> clean_goal_draft d"
  by (auto simp: normalizeGoalContractDraft_def result_simps clean_goal_draft_def workspace_text_Inr
      dest!: workspace_list_clean split: json.splits)

lemma clean_normalized: "clean_goal_draft d \<Longrightarrow> normalizeGoalContractDraft (goal_draft_json d) = Inr d"
  by (simp add: normalizeGoalContractDraft_def goal_draft_json_def clean_goal_draft_def workspace_text_encode
      workspace_list_encode Suc_le_eq)

text \<open>
  The drafts a Goal is created or updated from are exactly the normal forms: trimmed,
  non-blank and bounded texts, at least one criterion, at most fifty entries without repetition in
  every list; and each of them, written back as a value, is accepted unchanged.
\<close>

theorem goal_drafts_are_normal_forms:
  "((\<exists>v. normalizeGoalContractDraft v = Inr d) \<longleftrightarrow> normalizeGoalContractDraft (goal_draft_json d) = Inr d) \<and>
   ((\<exists>v. normalizeGoalContractDraft v = Inr d) \<longleftrightarrow>
     clean_text 200 (draft_title d) \<and> clean_text 10000 (draft_problemStatement d) \<and>
     clean_text 10000 (draft_desiredOutcome d) \<and>
     draft_acceptanceCriteria d \<noteq> [] \<and> clean_texts 50 2000 (draft_acceptanceCriteria d) \<and>
     clean_texts 50 2000 (draft_nonGoals d) \<and> clean_texts 50 2000 (draft_constraints d))"
  using normalized_clean[of _ d] clean_normalized[of d] unfolding clean_goal_draft_def by blast

end
