(* ===== verification/Goal_Workspace_Safety.thy ===== *)
theory Goal_Workspace_Safety
  imports Goal_Workspace
begin

text \<open>
  What the commands on Goal contracts guarantee together: every command takes effect at most
  once, no update or transition that was prepared against an older version overwrites a newer
  one, and every version of a Goal is accounted for by exactly one audit record.
\<close>

section \<open>Commands take effect at most once\<close>

lemma complete_simps [simp]:
  "fst (complete c ws) = wc_receipt c" "ws_goals (snd (complete c ws)) = ws_goals ws"
  "ws_audits (snd (complete c ws)) = ws_audits ws @ [wc_audit c]"
  by (simp_all add: complete_def)

lemma put_goal_simps [simp]:
  "ws_goals (put_goal g ws) = (ws_goals ws)(goal_key g \<mapsto> g)" "ws_audits (put_goal g ws) = ws_audits ws"
  "ws_idempotency (put_goal g ws) = ws_idempotency ws"
  by (simp_all add: put_goal_def)

lemma workspace_find_put [simp]: "workspace_find l (put_goal g ws) = workspace_find l ws"
  by (simp add: workspace_find_def)

lemma complete_finds:
  "workspace_find (wc_lookup c) ws = Inr None \<Longrightarrow>
     workspace_find (wc_lookup c) (snd (complete c ws)) = Inr (Some (wc_receipt c))"
  by (simp add: workspace_find_def complete_def find_receipt_added)

lemma complete_keeps:
  "workspace_find l ws = Inr (Some r) \<Longrightarrow> workspace_find (wc_lookup c) ws = Inr None \<Longrightarrow>
     workspace_find l (snd (complete c ws)) = Inr (Some r)"
  by (simp add: workspace_find_def complete_def find_receipt_kept)

text \<open>The Goal a pending commit writes and the rest of the commit.\<close>

fun pending_goal :: "workspace_pending \<Rightarrow> string goal_contract" where
  "pending_goal (Pending_create g k) = g"
| "pending_goal (Pending_update current next expected k) = next"

fun pending_commit :: "workspace_pending \<Rightarrow> workspace_commit" where
  "pending_commit (Pending_create g k) = k"
| "pending_commit (Pending_update current next expected k) = k"

text \<open>The Goal a pending commit finds must be absent, or of the version it was prepared for.\<close>

fun pending_fits :: "workspace_pending \<Rightarrow> workspace_repository \<Rightarrow> bool" where
  "pending_fits (Pending_create g k) ws = (ws_goals ws (goal_key g) = None)"
| "pending_fits (Pending_update current next expected k) ws =
     (\<exists>stored. ws_goals ws (goal_key current) = Some stored \<and> int (goal_version stored) = expected \<and>
        int (goal_version next) = expected + 1)"

text \<open>A commit is refused, is a replay, or is performed as a whole.\<close>

lemma commit_pending_cases:
  assumes "commit_pending p ws = (r, ws')"
  shows "(ws' = ws \<and> ((\<exists>e. r = Inl e) \<or>
        (\<exists>receipt. r = Inr receipt \<and> workspace_find (wc_lookup (pending_commit p)) ws = Inr (Some receipt)))) \<or>
     (workspace_find (wc_lookup (pending_commit p)) ws = Inr None \<and> pending_fits p ws \<and>
        r = Inr (wc_receipt (pending_commit p)) \<and>
        ws' = snd (complete (pending_commit p) (put_goal (pending_goal p) ws)))"
proof (cases p)
  case (Pending_create g k)
  have "complete k (put_goal g ws) = (wc_receipt k, snd (complete k (put_goal g ws)))"
    by (simp add: complete_def)
  with assms Pending_create show ?thesis
    by (auto simp: commitCreate_def split: sum.splits option.splits if_splits prod.splits)
next
  case (Pending_update current new expected k)
  have "complete k (put_goal new ws) = (wc_receipt k, snd (complete k (put_goal new ws)))"
    by (simp add: complete_def)
  with assms Pending_update show ?thesis
    by (auto simp: commitUpdate_def split: sum.splits option.splits if_splits prod.splits)
qed

lemma commit_pending_found:
  assumes "commit_pending p ws = (Inr r, ws')"
  shows "workspace_find (wc_lookup (pending_commit p)) ws' = Inr (Some r)"
  using commit_pending_cases[OF assms] complete_finds[of "pending_commit p" "put_goal (pending_goal p) ws"]
  by auto

lemma commit_pending_keeps:
  assumes "workspace_find l ws = Inr (Some r)"
  shows "workspace_find l (snd (commit_pending p ws)) = Inr (Some r)"
proof (cases "commit_pending p ws")
  case (Pair res ws')
  from commit_pending_cases[OF this] Pair assms
    complete_keeps[of l "put_goal (pending_goal p) ws" r "pending_commit p"]
  show ?thesis by auto
qed

definition workspace_looks_up ::
  "(string \<Rightarrow> string) \<Rightarrow> workspace_call \<Rightarrow> workspace_command \<Rightarrow> idempotency_lookup option" where
  "workspace_looks_up sha256 x c =
     (case check_command sha256 x c of Inl e \<Rightarrow> None | Inr (d, reason, l) \<Rightarrow> Some l)"

text \<open>A pending commit, or a move of the life cycle, which leaves the receipts alone.\<close>

definition workspace_moves :: "workspace_repository \<Rightarrow> workspace_repository \<Rightarrow> bool" where
  "workspace_moves ws ws' \<longleftrightarrow>
     ws_idempotency ws' = ws_idempotency ws \<or> (\<exists>p. ws' = snd (commit_pending p ws))"

lemma prepare_workspace_cases:
  assumes "prepare_workspace sha256 x c ws = Inr p"
  shows "\<exists>d reason l. check_command sha256 x c = Inr (d, reason, l) \<and>
    (\<forall>r. p = Inl r \<longrightarrow> workspace_find l ws = Inr (Some r)) \<and>
    (\<forall>k. p = Inr k \<longrightarrow> wc_lookup (pending_commit k) = l)"
  using assms
  by (auto simp: prepare_workspace_def result_simps Let_def commit_for_def
      split: option.splits workspace_command.splits if_splits)

interpretation workspace_commands: idempotent_service "workspace_looks_up sha256" workspace_find
  "workspace_handle sha256" workspace_moves for sha256
proof
  fix x c l s r
  assume "workspace_looks_up sha256 x c = Some l" "workspace_find l s = Inr (Some r)"
  then show "workspace_handle sha256 x c s = (Inr r, s)"
    by (auto simp: workspace_looks_up_def workspace_handle_def prepare_workspace_def split: sum.splits prod.splits)
next
  fix x c s r s'
  assume h: "workspace_handle sha256 x c s = (Inr r, s')"
  show "\<exists>l. workspace_looks_up sha256 x c = Some l \<and> workspace_find l s' = Inr (Some r)"
  proof (cases "prepare_workspace sha256 x c s")
    case (Inr p)
    from prepare_workspace_cases[OF this] obtain d reason l
      where l: "check_command sha256 x c = Inr (d, reason, l)"
        "\<forall>r. p = Inl r \<longrightarrow> workspace_find l s = Inr (Some r)"
        "\<forall>k. p = Inr k \<longrightarrow> wc_lookup (pending_commit k) = l" by blast
    from h Inr l commit_pending_found show ?thesis
      by (cases p) (fastforce simp: workspace_handle_def workspace_looks_up_def)+
  qed (use h in \<open>simp add: workspace_handle_def\<close>)
next
  fix s s' l r
  assume "workspace_moves s s'" "workspace_find l s = Inr (Some r)"
  then show "workspace_find l s' = Inr (Some r)"
    by (auto simp: workspace_moves_def commit_pending_keeps) (simp add: workspace_find_def)
next
  fix x c s e s'
  assume "workspace_handle sha256 x c s = (Inl e, s')"
  then show "s' = s"
    by (auto simp: workspace_handle_def dest!: commit_pending_cases split: sum.splits)
qed

section \<open>The transition repository over a workspace\<close>

lemma shared_ops_simps [simp]:
  "repo_get shared_ops = shared_get" "repo_find shared_ops = shared_find" "repo_commit shared_ops = shared_commit"
  by (simp_all add: shared_ops_def)

text \<open>What a performed transition does to the store.\<close>

definition moved_goal :: "commit_goal_transition \<Rightarrow> string goal_contract \<Rightarrow> string goal_contract" where
  "moved_goal k g = g\<lparr>goal_state := commit_nextState k, goal_version := goal_version g + 1,
     updatedAt := toISOString (commit_occurredAt k)\<rparr>"

definition write_shared ::
  "commit_goal_transition \<Rightarrow> string goal_contract \<Rightarrow> workspace_store \<Rightarrow> workspace_store" where
  "write_shared k g s =
     \<lparr>workspace = put_goal (moved_goal k g) (workspace s),
      stored_transitions = (stored_transitions s)
        (idempotency_key (commit_lookup k) \<mapsto> (commit_lookup k, commit_receipt k)),
      transition_events = transition_events s @ [commit_event k],
      transition_audits = transition_audits s @ [commit_audit k]\<rparr>"

lemma shared_commit_cases:
  assumes "shared_commit k s = (r, s')"
  shows "(s' = s \<and> ((\<exists>e. r = Inl e) \<or>
        (\<exists>g receipt. r = Inr (g, receipt) \<and> shared_find (commit_lookup k) s = Inr (Some receipt)))) \<or>
     (\<exists>g. shared_find (commit_lookup k) s = Inr None \<and>
        ws_goals (workspace s) (scope_key (goal_ref (commit_current k))) = Some g \<and>
        int (goal_version g) = commit_expectedVersion k \<and>
        r = Inr (aggregate_of (moved_goal k g), commit_receipt k) \<and> s' = write_shared k g s)"
  using assms
  by (auto simp: shared_commit_def applyStateTransition_def write_shared_def moved_goal_def Let_def
      split: sum.splits option.splits if_splits prod.splits)

lemma write_shared_find:
  "shared_find (commit_lookup k) s = Inr None \<Longrightarrow>
     shared_find (commit_lookup k) (write_shared k g s) = Inr (Some (commit_receipt k)) \<and>
     (shared_find l s = Inr (Some r) \<longrightarrow> shared_find l (write_shared k g s) = Inr (Some r))"
  by (auto simp: shared_find_def write_shared_def split: option.splits if_splits)

interpretation shared_goals: goal_store shared_ops sha256 lc
  "\<lambda>s s' :: workspace_store. stored_transitions s' = stored_transitions s" for sha256 lc
proof
  fix k e s s'
  assume "repo_commit shared_ops k s = (Inl e, s')"
  then show "s' = s" by (auto dest!: shared_commit_cases)
next
  fix k g r s s'
  assume "repo_commit shared_ops k s = (Inr (g, r), s')"
  then have "shared_commit k s = (Inr (g, r), s')" by simp
  from shared_commit_cases[OF this] write_shared_find[of k s]
  show "repo_find shared_ops (commit_lookup k) s' = Inr (Some r)" by auto
next
  fix l s r k
  assume f: "repo_find shared_ops l s = Inr (Some r)"
  obtain res s' where c: "shared_commit k s = (res, s')" by fastforce
  from shared_commit_cases[OF c] write_shared_find[of k s _ l r] f c
  show "repo_find shared_ops l (snd (repo_commit shared_ops k s)) = Inr (Some r)" by auto
next
  fix s s' :: workspace_store and l r
  assume "stored_transitions s' = stored_transitions s" "repo_find shared_ops l s = Inr (Some r)"
  then show "repo_find shared_ops l s' = Inr (Some r)" by (simp add: shared_find_def)
qed

section \<open>Commands in flight together\<close>

text \<open>
  The store with the commits that are prepared and not yet performed. A step prepares a commit
  of either service against the store as it is then, or performs one that was prepared earlier.
\<close>

record goals_in_flight =
  store :: workspace_store
  pending_edits :: "workspace_pending list"
  pending_moves :: "commit_goal_transition list"

definition lift_workspace :: "workspace_repository \<Rightarrow> workspace_store \<Rightarrow> workspace_store" where
  "lift_workspace ws s = s\<lparr>workspace := ws\<rparr>"

inductive goals_step ::
  "(string \<Rightarrow> string) \<Rightarrow> (string \<Rightarrow> string \<Rightarrow> bool) \<Rightarrow> goals_in_flight \<Rightarrow> goals_in_flight \<Rightarrow> bool"
  for sha256 lc where
  prepare_edit: "prepare_workspace sha256 x c (workspace (store f)) = Inr (Inr p) \<Longrightarrow>
    goals_step sha256 lc f (f\<lparr>pending_edits := p # pending_edits f\<rparr>)"
| perform_edit: "p \<in> set (pending_edits f) \<Longrightarrow> commit_pending p (workspace (store f)) = (r, ws) \<Longrightarrow>
    goals_step sha256 lc f (f\<lparr>store := lift_workspace ws (store f), pending_edits := remove1 p (pending_edits f)\<rparr>)"
| prepare_move: "prepare_transition shared_ops sha256 lc x c (store f) = Inr (Inr k) \<Longrightarrow>
    goals_step sha256 lc f (f\<lparr>pending_moves := k # pending_moves f\<rparr>)"
| perform_move: "k \<in> set (pending_moves f) \<Longrightarrow> shared_commit k (store f) = (r, s) \<Longrightarrow>
    goals_step sha256 lc f (f\<lparr>store := s, pending_moves := remove1 k (pending_moves f)\<rparr>)"

definition empty_workspace :: workspace_repository where
  "empty_workspace = \<lparr>ws_goals = Map.empty, ws_events = [], ws_audits = [], ws_idempotency = Map.empty\<rparr>"

definition nothing_yet :: goals_in_flight where
  "nothing_yet = \<lparr>store = \<lparr>workspace = empty_workspace, stored_transitions = Map.empty,
     transition_events = [], transition_audits = []\<rparr>, pending_edits = [], pending_moves = []\<rparr>"

definition goals_now :: "goals_in_flight \<Rightarrow> string \<Rightarrow> string goal_contract option" where
  "goals_now f = ws_goals (workspace (store f))"

text \<open>A prepared commit is for a version that is past, or for the Goal exactly as it is.\<close>

definition audited_edit :: "workspace_pending \<Rightarrow> bool" where
  "audited_edit p \<longleftrightarrow> wa_scope (wc_audit (pending_commit p)) = scope_of (pending_goal p) \<and>
     wa_entityVersion (wc_audit (pending_commit p)) = goal_version (pending_goal p)"

fun edit_ok :: "(string \<Rightarrow> string goal_contract option) \<Rightarrow> workspace_pending \<Rightarrow> bool" where
  "edit_ok gs (Pending_create g k) \<longleftrightarrow> goal_version g = 1 \<and> goal_state g = Goal_draft"
| "edit_ok gs (Pending_update current new expected k) \<longleftrightarrow>
     expected = int (goal_version current) \<and> scope_of new = scope_of current \<and>
     goal_state new = goal_state current \<and> createdAt new = createdAt current \<and>
     goal_version new = Suc (goal_version current) \<and>
     (\<exists>g. gs (goal_key current) = Some g \<and> scope_of g = scope_of current \<and>
        (goal_version current < goal_version g \<or> g = current))"

definition audit_scope :: "goal_audit_event \<Rightarrow> goal_scope" where
  "audit_scope a = \<lparr>organizationId = audit_organizationId a, projectId = audit_projectId a, goalId = audit_goalId a\<rparr>"

definition move_ok :: "(string \<Rightarrow> string goal_contract option) \<Rightarrow> commit_goal_transition \<Rightarrow> bool" where
  "move_ok gs k \<longleftrightarrow>
     commit_expectedVersion k = aggregate_version (commit_current k) \<and>
     allowed_step (aggregate_status (commit_current k)) (commit_nextState k) \<and>
     audit_scope (commit_audit k) = goal_ref (commit_current k) \<and>
     audit_entityVersion (commit_audit k) = commit_expectedVersion k + 1 \<and>
     (\<exists>g. gs (scope_key (goal_ref (commit_current k))) = Some g \<and> scope_of g = goal_ref (commit_current k) \<and>
        (commit_expectedVersion k < int (goal_version g) \<or> aggregate_of g = commit_current k))"

text \<open>The versions of the Goal under a key that the two audit logs account for.\<close>

definition audited_versions :: "goals_in_flight \<Rightarrow> string \<Rightarrow> int list" where
  "audited_versions f key =
     map (int \<circ> wa_entityVersion) (filter (\<lambda>a. scope_key (wa_scope a) = key) (ws_audits (workspace (store f)))) @
     map audit_entityVersion (filter (\<lambda>a. scope_key (audit_scope a) = key) (transition_audits (store f)))"

definition versions_to :: "nat \<Rightarrow> int list" where
  "versions_to n = map int [1..<Suc n]"

definition version_of :: "string goal_contract option \<Rightarrow> nat" where
  "version_of g = (case g of None \<Rightarrow> 0 | Some g \<Rightarrow> goal_version g)"

definition goals_ok :: "goals_in_flight \<Rightarrow> bool" where
  "goals_ok f \<longleftrightarrow>
     (\<forall>key g. goals_now f key = Some g \<longrightarrow> goal_key g = key) \<and>
     (\<forall>p\<in>set (pending_edits f). audited_edit p \<and> edit_ok (goals_now f) p) \<and>
     (\<forall>k\<in>set (pending_moves f). move_ok (goals_now f) k) \<and>
     (\<forall>key. mset (audited_versions f key) = mset (versions_to (version_of (goals_now f key))))"

text \<open>What may happen to the Goals: one Goal appears as a draft, or one Goal gets its next version.\<close>

definition contract_text :: "string goal_contract \<Rightarrow> string goal_contract" where
  "contract_text g = g\<lparr>goal_state := Goal_draft, goal_version := 0, updatedAt := ''''\<rparr>"

definition next_version :: "string goal_contract \<Rightarrow> string goal_contract \<Rightarrow> bool" where
  "next_version g g' \<longleftrightarrow> scope_of g' = scope_of g \<and> createdAt g' = createdAt g \<and>
     goal_version g' = Suc (goal_version g) \<and>
     (goal_state g' = goal_state g \<or>
      (allowed_step (goal_state g) (goal_state g') \<and> contract_text g' = contract_text g))"

definition goal_written ::
  "(string \<Rightarrow> string goal_contract option) \<Rightarrow> string \<Rightarrow> string goal_contract \<Rightarrow> bool" where
  "goal_written gs key g' \<longleftrightarrow>
     (case gs key of
        None \<Rightarrow> goal_version g' = 1 \<and> goal_state g' = Goal_draft
      | Some g \<Rightarrow> next_version g g')"

text \<open>Writing a next version leaves prepared commits fit or past.\<close>

lemma edit_ok_written:
  assumes "goal_written gs key g'" and "edit_ok gs p"
  shows "edit_ok (gs(key \<mapsto> g')) p"
  using assms
  by (cases p; cases "gs key") (auto simp: goal_written_def next_version_def)

lemma move_ok_written:
  assumes "goal_written gs key g'" and "move_ok gs k"
  shows "move_ok (gs(key \<mapsto> g')) k"
proof -
  let ?key = "scope_key (goal_ref (commit_current k))"
  from assms(2) obtain g where g: "gs ?key = Some g" "scope_of g = goal_ref (commit_current k)"
    and v: "commit_expectedVersion k < int (goal_version g) \<or> aggregate_of g = commit_current k"
    by (auto simp: move_ok_def)
  have le: "commit_expectedVersion k \<le> int (goal_version g)"
    using v
  proof
    assume "aggregate_of g = commit_current k"
    then have "aggregate_version (commit_current k) = int (goal_version g)"
      by (simp add: aggregate_of_def flip: \<open>aggregate_of g = commit_current k\<close>)
    with assms(2) show ?thesis by (simp add: move_ok_def)
  qed simp
  show ?thesis
  proof (cases "key = ?key")
    case True
    with assms(1) g(1) have "scope_of g' = scope_of g" "goal_version g' = Suc (goal_version g)"
      by (auto simp: goal_written_def next_version_def)
    with True assms(2) g(2) le show ?thesis by (simp add: move_ok_def)
  next
    case False
    with assms(2) show ?thesis by (auto simp: move_ok_def)
  qed
qed

lemma goal_written_version: "goal_written gs key g' \<Longrightarrow> goal_version g' = Suc (version_of (gs key))"
  by (auto simp: goal_written_def next_version_def version_of_def split: option.splits)

lemma versions_to_Suc: "versions_to (Suc n) = versions_to n @ [int (Suc n)]"
  by (simp add: versions_to_def)

text \<open>
  A performed commit in the abstract: the Goal under its key is written as its next version, and
  one audit record for that version is added.
\<close>

lemma goals_ok_written:
  assumes ok: "goals_ok f" and w: "goal_written (goals_now f) (goal_key g') g'"
    and now: "goals_now f' = (goals_now f)(goal_key g' \<mapsto> g')"
    and sub: "set (pending_edits f') \<subseteq> set (pending_edits f)" "set (pending_moves f') \<subseteq> set (pending_moves f)"
    and aud: "\<And>key. mset (audited_versions f' key) = mset (audited_versions f key) +
      (if key = goal_key g' then {#int (goal_version g')#} else {#})"
  shows "goals_ok f'"
  unfolding goals_ok_def
proof (intro conjI allI ballI impI)
  show "goal_key g = key" if "goals_now f' key = Some g" for key g
    using that ok by (auto simp: now goals_ok_def split: if_splits)
  show "audited_edit p" "edit_ok (goals_now f') p" if "p \<in> set (pending_edits f')" for p
    using that sub(1) ok edit_ok_written[OF w] by (auto simp: now goals_ok_def)
  show "move_ok (goals_now f') k" if "k \<in> set (pending_moves f')" for k
    using that sub(2) ok move_ok_written[OF w] by (auto simp: now goals_ok_def)
  show "mset (audited_versions f' key) = mset (versions_to (version_of (goals_now f' key)))" for key
  proof -
    have "mset (audited_versions f key) = mset (versions_to (version_of (goals_now f key)))"
      using ok by (simp add: goals_ok_def)
    then show ?thesis
      using goal_written_version[OF w]
      by (auto simp: aud now version_of_def versions_to_Suc split: option.splits)
  qed
qed

text \<open>Nothing but the lists of prepared commits changes.\<close>

lemma goals_ok_prepared:
  assumes "goals_ok f" and "goals_now f' = goals_now f" and "\<And>key. audited_versions f' key = audited_versions f key"
    and "\<And>p. p \<in> set (pending_edits f') \<Longrightarrow> p \<in> set (pending_edits f) \<or> (audited_edit p \<and> edit_ok (goals_now f) p)"
    and "\<And>k. k \<in> set (pending_moves f') \<Longrightarrow> k \<in> set (pending_moves f) \<or> move_ok (goals_now f) k"
  shows "goals_ok f'"
  using assms unfolding goals_ok_def by metis

subsection \<open>The steps\<close>

lemma edit_prepared:
  assumes "goals_ok f" and "prepare_workspace sha256 x c (workspace (store f)) = Inr (Inr p)"
  shows "audited_edit p \<and> edit_ok (goals_now f) p"
proof -
  have keyed: "goal_key g = key" if "goals_now f key = Some g" for key g
    using assms(1) that by (simp add: goals_ok_def)
  show ?thesis
  proof (cases c)
    case (Create_goal i v)
    with assms(2) show ?thesis
      by (auto simp: prepare_workspace_def result_simps Let_def audited_edit_def commit_for_def
          workspace_audit_of_def created_goal_def split: option.splits)
  next
    case (Update_goal i goal expected v)
    with assms(2) obtain d current k where
      g: "goals_now f (scope_key \<lparr>organizationId = identity_organizationId i,
           projectId = identity_projectId i, goalId = goal\<rparr>) = Some current"
      and p: "p = Pending_update current (updated_goal x current d) expected k"
      and v: "int (goal_version current) = expected"
      and k: "wa_scope (wc_audit k) = scope_of (updated_goal x current d)"
        "wa_entityVersion (wc_audit k) = goal_version (updated_goal x current d)"
      by (fastforce simp: prepare_workspace_def result_simps Let_def commit_for_def
          workspace_audit_of_def workspace_get_def goals_now_def split: option.splits if_splits)
    from keyed[OF g] g have "goals_now f (goal_key current) = Some current" by simp
    with p v k show ?thesis by (simp add: audited_edit_def updated_goal_def scope_of_def)
  qed
qed

lemma move_prepared:
  assumes "goals_ok f" and "prepare_transition shared_ops sha256 lc x c (store f) = Inr (Inr k)"
  shows "move_ok (goals_now f) k"
proof -
  from assms(2) obtain goal where g: "shared_get (command_scope c) (store f) = Some goal"
    and b: "build_transition sha256 (transition_lookup sha256 lc c) x c goal = Inr k"
    by (auto simp: prepare_transition_def result_simps Let_def split: option.splits if_splits)
  from g obtain g0 where g0: "goals_now f (scope_key (command_scope c)) = Some g0" "goal = aggregate_of g0"
    by (auto simp: shared_get_def workspace_get_def goals_now_def)
  with assms(1) have "goal_key g0 = scope_key (command_scope c)" by (auto simp: goals_ok_def)
  moreover from b obtain t where
    t: "transitionState \<lparr>in_machine = goalStateMachine,
         currentState = aggregate_status goal, currentVersion = aggregate_version goal,
         expectedVersion = command_expectedVersion c, nextState = command_nextState c,
         in_guards = (map_of (command_guards c))(ReasonProvided \<mapsto> 0 < length (trim (command_reason c)))\<rparr> = Inr t"
    by (auto simp: build_transition_def result_simps)
  from transitionState_allowed[OF t] t b have "commit_current k = goal"
    "commit_expectedVersion k = aggregate_version goal" "commit_nextState k = command_nextState c"
    "allowed_step (aggregate_status goal) (command_nextState c)"
    "audit_scope (commit_audit k) = goal_ref goal" "audit_entityVersion (commit_audit k) = aggregate_version goal + 1"
    by (auto simp: build_transition_def Let_def audit_scope_def)
  ultimately show ?thesis
    using g0 by (simp add: move_ok_def goal_key_def) (simp add: aggregate_of_def)
qed

lemma performed_edit_written:
  assumes ok: "goals_ok f" and p: "p \<in> set (pending_edits f)"
    and fits: "pending_fits p (workspace (store f))"
  shows "goal_written (goals_now f) (goal_key (pending_goal p)) (pending_goal p)"
proof (cases p)
  case (Pending_create g k)
  with ok p fits show ?thesis by (auto simp: goals_ok_def goal_written_def goals_now_def)
next
  case (Pending_update current new expected k)
  with ok p have e: "edit_ok (goals_now f) (Pending_update current new expected k)"
    by (auto simp: goals_ok_def)
  with fits Pending_update have "goals_now f (goal_key current) = Some current"
    by (auto simp: goals_now_def)
  moreover have "goal_key new = goal_key current" using e by (simp add: goal_key_def)
  ultimately show ?thesis
    using e Pending_update by (simp add: goal_written_def next_version_def)
qed

lemma performed_move_written:
  assumes ok: "goals_ok f" and k: "k \<in> set (pending_moves f)"
    and g: "goals_now f (scope_key (goal_ref (commit_current k))) = Some g"
    and v: "int (goal_version g) = commit_expectedVersion k"
  shows "goal_key (moved_goal k g) = scope_key (goal_ref (commit_current k)) \<and>
    goal_written (goals_now f) (goal_key (moved_goal k g)) (moved_goal k g)"
proof -
  from ok k have m: "move_ok (goals_now f) k" by (simp add: goals_ok_def)
  with g v have a: "aggregate_of g = commit_current k" "scope_of g = goal_ref (commit_current k)"
    by (auto simp: move_ok_def)
  have "goal_state g = aggregate_status (commit_current k)"
    by (simp add: aggregate_of_def flip: a(1))
  with m a(2) g show ?thesis
    by (simp add: moved_goal_def goal_key_def scope_of_def goal_written_def next_version_def
        contract_text_def move_ok_def)
qed

lemma goals_step_ok:
  assumes s: "goals_step sha256 lc f f'" and ok: "goals_ok f"
  shows "goals_ok f' \<and>
    (goals_now f' = goals_now f \<or>
     (\<exists>g. goal_written (goals_now f) (goal_key g) g \<and> goals_now f' = (goals_now f)(goal_key g \<mapsto> g)))"
  using s
proof cases
  case (prepare_edit x c p)
  have "goals_ok f'"
    by (rule goals_ok_prepared[OF ok])
      (use edit_prepared[OF ok prepare_edit(2)] prepare_edit(1) in
        \<open>auto simp: goals_now_def audited_versions_def\<close>)
  then show ?thesis by (simp add: prepare_edit(1) goals_now_def)
next
  case (prepare_move x c k)
  have "goals_ok f'"
    by (rule goals_ok_prepared[OF ok])
      (use move_prepared[OF ok prepare_move(2)] prepare_move(1) in
        \<open>auto simp: goals_now_def audited_versions_def\<close>)
  then show ?thesis by (simp add: prepare_move(1) goals_now_def)
next
  case (perform_edit p r ws)
  have sub: "set (remove1 p (pending_edits f)) \<subseteq> set (pending_edits f)" by (rule set_remove1_subset)
  let ?g = "pending_goal p"
  from commit_pending_cases[OF perform_edit(3)] consider "ws = workspace (store f)"
    | "pending_fits p (workspace (store f))"
      "ws = snd (complete (pending_commit p) (put_goal ?g (workspace (store f))))" by blast
  then show ?thesis
  proof cases
    case same: 1
    have "goals_ok f'"
      by (rule goals_ok_prepared[OF ok])
        (use same sub in \<open>auto simp: perform_edit(1) goals_now_def audited_versions_def lift_workspace_def\<close>)
    with same show ?thesis by (simp add: perform_edit(1) goals_now_def lift_workspace_def)
  next
    case 2
    note ws = 2(2)
    note w = performed_edit_written[OF ok perform_edit(2) 2(1)]
    have now: "goals_now f' = (goals_now f)(goal_key ?g \<mapsto> ?g)"
      by (simp add: perform_edit(1) goals_now_def lift_workspace_def ws)
    have "audited_edit p" using ok perform_edit(2) by (simp add: goals_ok_def)
    then have "goals_ok f'"
      by (intro goals_ok_written[OF ok w now])
        (use sub in \<open>auto simp: perform_edit(1) audited_versions_def lift_workspace_def ws
          audited_edit_def goal_key_def\<close>)
    with w now show ?thesis by blast
  qed
next
  case (perform_move k r s)
  have sub: "set (remove1 k (pending_moves f)) \<subseteq> set (pending_moves f)" by (rule set_remove1_subset)
  from shared_commit_cases[OF perform_move(3)] consider "s = store f"
    | g where "ws_goals (workspace (store f)) (scope_key (goal_ref (commit_current k))) = Some g"
      "int (goal_version g) = commit_expectedVersion k" "s = write_shared k g (store f)" by blast
  then show ?thesis
  proof cases
    case same: 1
    have "goals_ok f'"
      by (rule goals_ok_prepared[OF ok])
        (use same sub in \<open>auto simp: perform_move(1) goals_now_def audited_versions_def\<close>)
    with same show ?thesis by (simp add: perform_move(1) goals_now_def)
  next
    case (2 g)
    note g = 2(1) and v = 2(2) and s = 2(3)
    note w = performed_move_written[OF ok perform_move(2) g[folded goals_now_def] v]
    have now: "goals_now f' = (goals_now f)(goal_key (moved_goal k g) \<mapsto> moved_goal k g)"
      by (simp add: perform_move(1) goals_now_def s write_shared_def)
    have "move_ok (goals_now f) k" using ok perform_move(2) by (simp add: goals_ok_def)
    then have "goals_ok f'"
      using w v by (intro goals_ok_written[OF ok conjunct2[OF w] now])
        (use sub in \<open>auto simp: perform_move(1) audited_versions_def s write_shared_def
          move_ok_def moved_goal_def\<close>)
    with w now show ?thesis by blast
  qed
qed

lemma reachable_goals_ok: "(goals_step sha256 lc)\<^sup>*\<^sup>* nothing_yet f \<Longrightarrow> goals_ok f"
proof (induction rule: rtranclp_induct)
  case base
  show ?case
    by (simp add: goals_ok_def nothing_yet_def goals_now_def empty_workspace_def audited_versions_def
        versions_to_def version_of_def)
qed (use goals_step_ok in blast)

text \<open>
  Property C6. Whatever creations, updates and life-cycle transitions are prepared and performed,
  late ones included, a step changes at most one Goal, and only in one of three ways: a Goal
  appears as a draft of version 1; an update gives the next version the same life-cycle state and
  creation date; or a transition that the life cycle allows gives the next version the same
  contract. So no commit that was prepared against an older version overwrites a newer one.
\<close>

theorem no_lost_updates:
  assumes "(goals_step sha256 lc)\<^sup>*\<^sup>* nothing_yet f" and "goals_step sha256 lc f f'"
  shows "goals_now f' = goals_now f \<or>
    (\<exists>g'. goals_now f' = (goals_now f)(goal_key g' \<mapsto> g') \<and>
       (case goals_now f (goal_key g') of
          None \<Rightarrow> goal_version g' = 1 \<and> goal_state g' = Goal_draft
        | Some g \<Rightarrow> scope_of g' = scope_of g \<and> goal_version g' = goal_version g + 1 \<and> createdAt g' = createdAt g \<and>
            (goal_state g' = goal_state g \<or>
             (allowed_step (goal_state g) (goal_state g') \<and>
              g'\<lparr>goal_state := goal_state g, goal_version := goal_version g, updatedAt := updatedAt g\<rparr> = g))))"
proof -
  have same: "g'\<lparr>goal_state := goal_state g, goal_version := goal_version g, updatedAt := updatedAt g\<rparr> = g"
    if "contract_text g' = contract_text g" for g g' :: "string goal_contract"
    using that by (cases g; cases g') (simp add: contract_text_def)
  from goals_step_ok[OF assms(2) reachable_goals_ok[OF assms(1)]] show ?thesis
  proof (elim conjE disjE exE)
    fix g
    assume w: "goal_written (goals_now f) (goal_key g) g" and n: "goals_now f' = (goals_now f)(goal_key g \<mapsto> g)"
    show ?thesis
      by (rule disjI2, rule exI[of _ g], rule conjI[OF n])
        (use w same in \<open>auto simp: goal_written_def next_version_def split: option.splits\<close>)
  qed simp
qed

text \<open>
  Property C15. In the same runs every version of every Goal is accounted for by exactly one audit
  record, of the workspace's log or of the transition log: their versions are 1 up to the Goal's
  current version, each once, and a key without a Goal has no audit record.
\<close>

theorem every_version_is_audited_once:
  assumes "(goals_step sha256 lc)\<^sup>*\<^sup>* nothing_yet f"
  shows "sort (map (int \<circ> wa_entityVersion)
        (filter (\<lambda>a. scope_key (wa_scope a) = key) (ws_audits (workspace (store f)))) @
      map audit_entityVersion
        (filter (\<lambda>a. scope_key (audit_scope a) = key) (transition_audits (store f)))) =
    (case goals_now f key of None \<Rightarrow> [] | Some g \<Rightarrow> map int [1..<Suc (goal_version g)])"
proof -
  have "mset (audited_versions f key) = mset (versions_to (version_of (goals_now f key)))"
    using reachable_goals_ok[OF assms] by (simp add: goals_ok_def)
  then have "sort (audited_versions f key) = sort (versions_to (version_of (goals_now f key)))"
    by (simp add: sort_eq_iff_mset)
  also have "\<dots> = versions_to (version_of (goals_now f key))"
    by (rule sorted_sort_id) (simp add: versions_to_def sorted_map del: upt_Suc)
  finally show ?thesis
    by (cases "goals_now f key") (simp_all add: audited_versions_def versions_to_def version_of_def)
qed

text \<open>
  A creation or an update of a Goal takes effect at most once: after it was answered,
  whatever commits of this or of the transition service follow, sending it again gives the first
  receipt and changes nothing.
\<close>

theorem workspace_command_takes_effect_once:
  assumes "workspace_handle sha256 x c ws = (Inr receipt, ws1)" and "workspace_moves\<^sup>*\<^sup>* ws1 ws2"
    and "workspace_looks_up sha256 x' c' = workspace_looks_up sha256 x c"
  shows "workspace_handle sha256 x' c' ws2 = (Inr receipt, ws2)"
  by (rule workspace_commands.at_most_once[OF assms])


section \<open>Sample runs\<close>

text \<open>Commands that are prepared and performed at once.\<close>

definition edit_now ::
  "(string \<Rightarrow> string) \<Rightarrow> workspace_call \<Rightarrow> workspace_command \<Rightarrow> goals_in_flight \<Rightarrow> goals_in_flight" where
  "edit_now sha256 x c f =
     (case prepare_workspace sha256 x c (workspace (store f)) of
        Inr (Inr p) \<Rightarrow> f\<lparr>store := lift_workspace (snd (commit_pending p (workspace (store f)))) (store f)\<rparr>
      | _ \<Rightarrow> f)"

definition move_now ::
  "(string \<Rightarrow> string) \<Rightarrow> (string \<Rightarrow> string \<Rightarrow> bool) \<Rightarrow> goal_call \<Rightarrow> goal_transition_command \<Rightarrow>
   goals_in_flight \<Rightarrow> goals_in_flight" where
  "move_now sha256 lc x c f =
     (case prepare_transition shared_ops sha256 lc x c (store f) of
        Inr (Inr k) \<Rightarrow> f\<lparr>store := snd (shared_commit k (store f))\<rparr>
      | _ \<Rightarrow> f)"

lemma edit_now_steps: "(goals_step sha256 lc)\<^sup>*\<^sup>* f (edit_now sha256 x c f)"
proof (cases "\<exists>p. prepare_workspace sha256 x c (workspace (store f)) = Inr (Inr p)")
  case True
  then obtain p where p: "prepare_workspace sha256 x c (workspace (store f)) = Inr (Inr p)" by blast
  let ?f = "f\<lparr>pending_edits := p # pending_edits f\<rparr>"
  have "goals_step sha256 lc f ?f" by (rule prepare_edit[OF p])
  moreover have "goals_step sha256 lc ?f (edit_now sha256 x c f)"
    using perform_edit[of p ?f "fst (commit_pending p (workspace (store f)))"
        "snd (commit_pending p (workspace (store f)))" sha256 lc]
    by (simp add: edit_now_def p)
  ultimately show ?thesis by (rule converse_rtranclp_into_rtranclp[OF _ r_into_rtranclp])
qed (auto simp: edit_now_def split: sum.splits)

lemma move_now_steps: "(goals_step sha256 lc)\<^sup>*\<^sup>* f (move_now sha256 lc x c f)"
proof (cases "\<exists>k. prepare_transition shared_ops sha256 lc x c (store f) = Inr (Inr k)")
  case True
  then obtain k where k: "prepare_transition shared_ops sha256 lc x c (store f) = Inr (Inr k)" by blast
  let ?f = "f\<lparr>pending_moves := k # pending_moves f\<rparr>"
  have "goals_step sha256 lc f ?f" by (rule prepare_move[OF k])
  moreover have "goals_step sha256 lc ?f (move_now sha256 lc x c f)"
    using perform_move[of k ?f "fst (shared_commit k (store f))" "snd (shared_commit k (store f))" sha256 lc]
    by (simp add: move_now_def k)
  ultimately show ?thesis by (rule converse_rtranclp_into_rtranclp[OF _ r_into_rtranclp])
qed (auto simp: move_now_def split: sum.splits)

definition sample_identity :: "string \<Rightarrow> command_identity" where
  "sample_identity key = \<lparr>identity_organizationId = ''org'', identity_projectId = ''project'',
     identity_actorId = ''actor'', identity_requestId = ''request-1'', identity_idempotencyKey = key,
     identity_reason = ''As agreed''\<rparr>"

definition sample_draft :: "string \<Rightarrow> json" where
  "sample_draft title = JObj [(''title'', JStr title), (''problemStatement'', JStr ''Slow''),
     (''desiredOutcome'', JStr ''Fast''), (''acceptanceCriteria'', JArr [JStr '' It is fast. '']),
     (''nonGoals'', JArr []), (''constraints'', JArr [])]"

definition workspace_sample_call :: workspace_call where
  "workspace_sample_call = \<lparr>may_use = (\<lambda>actor organization project permission. Inr ()),
     workspace_time = 1000, generated_id = (\<lambda>n. if n = 0 then ''goal-1'' else ''id-'' @ show_nat n)\<rparr>"

definition sample_creation :: workspace_command where
  "sample_creation = Create_goal (sample_identity ''key-1'') (sample_draft ''Ship it'')"

definition sample_move :: goal_transition_command where
  "sample_move = sample_command\<lparr>command_expectedVersion := 1, command_nextState := Clarifying\<rparr>"

text \<open>
  A Goal that is created, and one that is also moved on; the digests are all blank.
\<close>

definition sample_created :: goals_in_flight where
  "sample_created = edit_now (\<lambda>s. '''') workspace_sample_call sample_creation nothing_yet"

definition sample_flight :: goals_in_flight where
  "sample_flight = move_now (\<lambda>s. '''') (\<le>) sample_call sample_move sample_created"

definition sample_edit :: workspace_pending where
  "sample_edit =
     (case prepare_workspace (\<lambda>s. '''') workspace_sample_call sample_creation (workspace (store nothing_yet)) of
        Inr (Inr p) \<Rightarrow> p)"

lemma sample_created_run: "(goals_step (\<lambda>s. '''') (\<le>))\<^sup>*\<^sup>* nothing_yet sample_created"
  unfolding sample_created_def by (rule edit_now_steps)

lemma sample_flight_run: "(goals_step (\<lambda>s. '''') (\<le>))\<^sup>*\<^sup>* nothing_yet sample_flight"
  unfolding sample_flight_def by (rule rtranclp_trans[OF sample_created_run move_now_steps])

abbreviation sample_key :: string where
  "sample_key \<equiv> ''org/project/goal-1''"

theorem every_version_is_audited_once_witness:
  "map_option goal_version (goals_now sample_flight sample_key) = Some 2 \<and>
   sort (map (int \<circ> wa_entityVersion)
        (filter (\<lambda>a. scope_key (wa_scope a) = sample_key) (ws_audits (workspace (store sample_flight)))) @
      map audit_entityVersion
        (filter (\<lambda>a. scope_key (audit_scope a) = sample_key) (transition_audits (store sample_flight)))) = [1, 2]"
proof -
  have v: "map_option goal_version (goals_now sample_flight sample_key) = Some 2" by code_simp
  then obtain g where "goals_now sample_flight sample_key = Some g" "goal_version g = 2" by auto
  moreover have "map int [1..<Suc 2] = [1, 2]" by code_simp
  ultimately show ?thesis
    using every_version_is_audited_once[OF sample_flight_run, of sample_key] v by simp
qed

text \<open>The creation of the sample Goal, prepared and then performed.\<close>

theorem no_lost_updates_witness:
  "let f = nothing_yet\<lparr>pending_edits := [sample_edit]\<rparr>;
       f' = f\<lparr>store := lift_workspace (snd (commit_pending sample_edit (workspace (store f)))) (store f),
              pending_edits := []\<rparr> in
   map_option goal_title (goals_now f' sample_key) = Some ''Ship it'' \<and>
   (\<exists>g'. goals_now f' = (goals_now f)(goal_key g' \<mapsto> g') \<and>
       (case goals_now f (goal_key g') of
          None \<Rightarrow> goal_version g' = 1 \<and> goal_state g' = Goal_draft
        | Some g \<Rightarrow> scope_of g' = scope_of g \<and> goal_version g' = goal_version g + 1 \<and> createdAt g' = createdAt g \<and>
            (goal_state g' = goal_state g \<or>
             (allowed_step (goal_state g) (goal_state g') \<and>
              g'\<lparr>goal_state := goal_state g, goal_version := goal_version g, updatedAt := updatedAt g\<rparr> = g))))"
proof -
  let ?f = "nothing_yet\<lparr>pending_edits := [sample_edit]\<rparr>"
  let ?ws = "snd (commit_pending sample_edit (workspace (store ?f)))"
  let ?f' = "?f\<lparr>store := lift_workspace ?ws (store ?f), pending_edits := []\<rparr>"
  have e: "pending_edits nothing_yet = []" by code_simp
  have "case prepare_workspace (\<lambda>s. '''') workspace_sample_call sample_creation (workspace (store nothing_yet)) of
      Inr (Inr p) \<Rightarrow> True | _ \<Rightarrow> False" by code_simp
  then have p: "prepare_workspace (\<lambda>s. '''') workspace_sample_call sample_creation (workspace (store nothing_yet))
      = Inr (Inr sample_edit)" by (auto simp: sample_edit_def split: sum.splits)
  have "goals_step (\<lambda>s. '''') (\<le>) nothing_yet (nothing_yet\<lparr>pending_edits := sample_edit # pending_edits nothing_yet\<rparr>)"
    by (rule prepare_edit[OF p])
  then have run: "(goals_step (\<lambda>s. '''') (\<le>))\<^sup>*\<^sup>* nothing_yet ?f"
    using r_into_rtranclp[where r = "goals_step (\<lambda>s. '''') (\<le>)"] by (simp add: e)
  have stp: "goals_step (\<lambda>s. '''') (\<le>) ?f ?f'"
    using perform_edit[of sample_edit ?f "fst (commit_pending sample_edit (workspace (store ?f)))" ?ws]
    by simp
  have "case sample_edit of Pending_create g k \<Rightarrow> goal_key g = sample_key \<and> goal_title g = ''Ship it''
      | _ \<Rightarrow> False" by code_simp
  then have "\<exists>g k. sample_edit = Pending_create g k \<and> goal_key g = sample_key \<and> goal_title g = ''Ship it''"
    by (auto split: workspace_pending.splits)
  then obtain g k where g: "sample_edit = Pending_create g k" "goal_key g = sample_key" "goal_title g = ''Ship it''"
    by blast
  have "workspace_find (wc_lookup k) empty_workspace = Inr None"
    by (simp add: workspace_find_def empty_workspace_def find_receipt_def)
  then have t: "map_option goal_title (goals_now ?f' sample_key) = Some ''Ship it''"
    by (simp add: g goals_now_def nothing_yet_def lift_workspace_def commitCreate_def complete_def
        empty_workspace_def put_goal_def)
  moreover have "goals_now ?f sample_key = None"
    by (simp add: goals_now_def nothing_yet_def empty_workspace_def)
  ultimately have "goals_now ?f' \<noteq> goals_now ?f" by force
  with no_lost_updates[OF run stp] t show ?thesis unfolding Let_def by blast
qed

theorem workspace_command_takes_effect_once_witness:
  "let ws = snd (workspace_handle (\<lambda>s. '''') workspace_sample_call sample_creation empty_workspace) in
   \<exists>receipt. goal_version (wr_goal receipt) = 1 \<and>
     workspace_handle (\<lambda>s. '''') (workspace_sample_call\<lparr>workspace_time := 5000\<rparr>) sample_creation ws = (Inr receipt, ws)"
proof -
  let ?h = "workspace_handle (\<lambda>s. '''') workspace_sample_call sample_creation empty_workspace"
  have "case fst ?h of Inr r \<Rightarrow> goal_version (wr_goal r) = 1 | _ \<Rightarrow> False" by code_simp
  then obtain receipt where r: "fst ?h = Inr receipt" "goal_version (wr_goal receipt) = 1"
    by (auto split: sum.splits)
  then have h: "?h = (Inr receipt, snd ?h)" by (metis prod.collapse)
  have l: "workspace_looks_up (\<lambda>s. '''') (workspace_sample_call\<lparr>workspace_time := 5000\<rparr>) sample_creation =
      workspace_looks_up (\<lambda>s. '''') workspace_sample_call sample_creation"
    by (simp add: workspace_looks_up_def check_command_def sample_creation_def workspace_sample_call_def)
  from workspace_command_takes_effect_once[OF h rtranclp.rtrancl_refl l] r(2) show ?thesis
    by (auto simp: Let_def)
qed

end
