(* ===== verification/Issue_Plan_Service.thy ===== *)
theory Issue_Plan_Service
  imports Idempotent_Commands Instants Json_Text Execution_Waves Model_Router
begin

text \<open>
  \<^verbatim>\<open>application/issue-plan-service.ts\<close>, \<^verbatim>\<open>domain/issue-plan-approval.ts\<close> and
  \<^verbatim>\<open>adapters/memory-issue-plan-repository.ts\<close>: issue plans are built from a planner's draft by the
  compiler, the wave schedule and the model router, revised, and approved or rejected.

  SHA-256, \<open>localeCompare\<close> (as "not after") and the validity of dates are parameters; the authorizer,
  the readings of the clock and the generated ids are the surroundings of one call.
\<close>

section \<open>Data\<close>

record issue_plan_source =
  specRevisionId :: string
  specRevisionVersion :: nat
  specArtifactDigest :: string
  source_requirements :: "source_requirement list"
  source_criteria :: "string list"

record issue_planner_configuration =
  adapter :: string
  modelProfile :: string
  config_schemaVersion :: string

datatype plan_status = Plan_draft | Plan_approved | Plan_rejected | Plan_superseded

record issue_plan =
  plan_schemaVersion :: string
  plan_id :: string
  plan_scope :: goal_scope
  revision :: nat
  previousPlanId :: "string option"
  plan_status :: plan_status
  plan_source :: issue_plan_source
  plan_issues :: "issue_draft list"
  compilation :: issue_compilation_result
  plan_conflicts :: "issue_conflict list"
  plan_waves :: "execution_wave list"
  modelRecommendations :: "model_recommendation list"
  plannerRunId :: string
  plannerConfiguration :: issue_planner_configuration
  plan_compilerPolicy :: string
  plan_conflictPolicy :: string
  plan_routerPolicy :: string
  plan_digest :: string
  generatedAt :: string
  plan_version :: nat
  plan_createdAt :: string
  plan_updatedAt :: string

definition issuePlanSchemaVersion :: string where
  "issuePlanSchemaVersion = ''issue-plan.v1''"

definition issueCompilerPolicyRevision :: string where
  "issueCompilerPolicyRevision = ''issue-compiler.v1''"

definition issuePlanApprovalPolicyRevision :: string where
  "issuePlanApprovalPolicyRevision = ''issue-plan-approval.v1''"

datatype approval_decision = Approve | Reject | Request_changes

fun decision_name :: "approval_decision \<Rightarrow> string" where
  "decision_name Approve = ''approve''"
| "decision_name Reject = ''reject''"
| "decision_name Request_changes = ''request_changes''"

definition issuePlanApprovalDecisions :: "approval_decision list" where
  "issuePlanApprovalDecisions = [Approve, Reject, Request_changes]"

definition parse_decision :: "string \<Rightarrow> approval_decision option" where
  "parse_decision s = find (\<lambda>d. decision_name d = s) issuePlanApprovalDecisions"

record issue_plan_approval_command =
  ac_scope :: goal_scope
  ac_targetType :: string
  ac_targetId :: string
  ac_expectedVersion :: int
  ac_actorId :: string
  ac_reason :: string
  ac_requestId :: string
  ac_idempotencyKey :: string
  ac_policyRevision :: string
  ac_decision :: string
  ac_affectedItemIds :: "string list"
  ac_payload :: json

record issue_plan_decision_record =
  dr_id :: string
  dr_scope :: goal_scope
  dr_issuePlanId :: string
  dr_subjectVersion :: nat
  dr_planDigest :: string
  dr_decision :: approval_decision
  dr_actorId :: string
  dr_reason :: string
  dr_requestId :: string
  dr_policyRevision :: string
  dr_affectedIssueKeys :: "string list"
  dr_createdAt :: string

record issue_plan_receipt =
  pr_receiptId :: string
  pr_targetId :: string
  pr_previousVersion :: nat
  pr_currentVersion :: nat
  pr_decision :: approval_decision
  pr_actorId :: string
  pr_reason :: string
  pr_requestId :: string
  pr_policyRevision :: string
  pr_recordedAt :: string
  pr_plan :: issue_plan
  pr_planDigest :: string
  pr_decisionRecord :: issue_plan_decision_record

record issue_plan_audit =
  pa_id :: string
  pa_scope :: goal_scope
  pa_actorId :: string
  pa_action :: string
  pa_entityId :: string
  pa_entityVersion :: nat
  pa_reason :: string
  pa_requestId :: string
  pa_policyRevision :: string
  pa_createdAt :: string

record issue_plan_event =
  pe_id :: string
  pe_organizationId :: string
  pe_aggregateId :: string
  pe_aggregateVersion :: nat
  pe_occurredAt :: string
  pe_decision :: approval_decision
  pe_planDigest :: string
  pe_requestId :: string
  pe_receipt :: issue_plan_receipt

section \<open>The repository in memory\<close>

record plan_repository =
  plans :: "string \<rightharpoonup> issue_plan list"
  plan_idempotency :: "string \<rightharpoonup> issue_plan_receipt idempotency_record"
  plan_audits :: "issue_plan_audit list"
  plan_events :: "issue_plan_event list"

definition plans_at :: "plan_repository \<Rightarrow> goal_scope \<Rightarrow> issue_plan list" where
  "plans_at repo scope = (case plans repo (scope_key scope) of None \<Rightarrow> [] | Some ps \<Rightarrow> ps)"

text \<open>\<open>list\<close>.\<close>

definition list_plans :: "goal_scope \<Rightarrow> plan_repository \<Rightarrow> issue_plan list" where
  "list_plans scope repo = plans_at repo scope"

definition get_plan :: "goal_scope \<Rightarrow> string \<Rightarrow> plan_repository \<Rightarrow> issue_plan option" where
  "get_plan scope i repo = find (\<lambda>p. plan_id p = i) (plans_at repo scope)"

definition at_last :: "'a list \<Rightarrow> 'a option" where
  "at_last xs = (if xs = [] then None else Some (last xs))"

definition getLatest :: "goal_scope \<Rightarrow> plan_repository \<Rightarrow> issue_plan option" where
  "getLatest scope repo = at_last (plans_at repo scope)"

definition append_plan ::
  "issue_plan \<Rightarrow> string option \<Rightarrow> plan_repository \<Rightarrow> (js_error + issue_plan) \<times> plan_repository" where
  "append_plan p expectedPrevious repo =
     (let ps = plans_at repo (plan_scope p); previous = at_last ps in
      if map_option plan_id previous \<noteq> expectedPrevious \<or>
         revision p \<noteq> (case previous of None \<Rightarrow> 0 | Some q \<Rightarrow> revision q) + 1
      then (Inl VersionConflictError, repo)
      else (Inr p, repo\<lparr>plans := (plans repo)(scope_key (plan_scope p) \<mapsto> ps @ [p])\<rparr>))"

definition findApprovalReceipt ::
  "idempotency_lookup \<Rightarrow> plan_repository \<Rightarrow> js_error + issue_plan_receipt option" where
  "findApprovalReceipt l repo = find_receipt l (plan_idempotency repo)"

record plan_commit =
  pc_current :: issue_plan
  pc_next :: issue_plan
  pc_expectedVersion :: int
  pc_decision :: issue_plan_decision_record
  pc_audit :: issue_plan_audit
  pc_event :: issue_plan_event
  pc_lookup :: idempotency_lookup
  pc_responseDigest :: string
  pc_expiresAt :: int
  pc_receipt :: issue_plan_receipt

fun find_index :: "('a \<Rightarrow> bool) \<Rightarrow> 'a list \<Rightarrow> nat option" where
  "find_index p [] = None"
| "find_index p (x # xs) = (if p x then Some 0 else map_option Suc (find_index p xs))"

lemma find_index_nth: "find_index P xs = Some i \<Longrightarrow> i < length xs \<and> P (xs ! i)"
  by (induction P xs arbitrary: i rule: find_index.induct) (auto split: if_splits)

lemma find_index_append: "find_index P xs = Some i \<Longrightarrow> find_index P (xs @ ys) = Some i"
  by (induction P xs arbitrary: i rule: find_index.induct) (auto split: if_splits)

lemma find_index_update:
  "P y \<longleftrightarrow> P (xs ! i) \<Longrightarrow> i < length xs \<Longrightarrow> find_index P (xs[i := y]) = find_index P xs"
  by (induction P xs arbitrary: i rule: find_index.induct) (auto split: nat.splits)

lemma find_index_found: "List.find P xs = Some x \<Longrightarrow> \<exists>i. find_index P xs = Some i \<and> xs ! i = x"
  by (induction P xs rule: find_index.induct) (auto split: if_splits)

lemma find_index_NoneD: "find_index P xs = None \<Longrightarrow> j < length xs \<Longrightarrow> \<not> P (xs ! j)"
  by (induction P xs arbitrary: j rule: find_index.induct) (auto simp: nth_Cons split: if_splits nat.splits)

definition commitApproval ::
  "plan_commit \<Rightarrow> plan_repository \<Rightarrow> (js_error + issue_plan_receipt) \<times> plan_repository" where
  "commitApproval c repo =
     (case findApprovalReceipt (pc_lookup c) repo of
        Inl e \<Rightarrow> (Inl e, repo)
      | Inr (Some replay) \<Rightarrow> (Inr replay, repo)
      | Inr None \<Rightarrow>
          (let ps = plans_at repo (plan_scope (pc_current c)) in
           case find_index (\<lambda>p. plan_id p = plan_id (pc_current c)) ps of
             None \<Rightarrow> (Inl VersionConflictError, repo)
           | Some index \<Rightarrow>
               if index \<noteq> length ps - 1 \<or> int (plan_version (ps ! index)) \<noteq> pc_expectedVersion c \<or>
                  int (plan_version (pc_next c)) \<noteq> pc_expectedVersion c + 1
               then (Inl VersionConflictError, repo)
               else (Inr (pc_receipt c),
                 repo\<lparr>plans := (plans repo)(scope_key (plan_scope (pc_current c)) \<mapsto> ps[index := pc_next c]),
                      plan_audits := plan_audits repo @ [pc_audit c],
                      plan_events := plan_events repo @ [pc_event c],
                      plan_idempotency := (plan_idempotency repo)(idempotency_key (pc_lookup c) \<mapsto>
                        \<lparr>record_lookup = pc_lookup c, record_completed = True,
                         record_receipt = Some (pc_receipt c)\<rparr>)\<rparr>)))"

section \<open>Values of the parts of a plan\<close>

definition source_requirement_json :: "source_requirement \<Rightarrow> json" where
  "source_requirement_json r = JObj [(''id'', JStr (requirement_id r)),
     (''acceptanceCriterionRefs'', texts_json (acceptanceCriterionRefs r))]"

definition source_json :: "issue_plan_source \<Rightarrow> json" where
  "source_json s = JObj [(''specRevisionId'', JStr (specRevisionId s)),
     (''specRevisionVersion'', JInt (int (specRevisionVersion s))),
     (''specArtifactDigest'', JStr (specArtifactDigest s)),
     (''requirements'', JArr (map source_requirement_json (source_requirements s))),
     (''acceptanceCriterionIds'', texts_json (source_criteria s))]"

fun diagnostic_code_name :: "issue_compilation_diagnostic_code \<Rightarrow> string" where
  "diagnostic_code_name Duplicate_issue_key = ''duplicate_issue_key''"
| "diagnostic_code_name Unknown_requirement_ref = ''unknown_requirement_ref''"
| "diagnostic_code_name Unknown_acceptance_ref = ''unknown_acceptance_ref''"
| "diagnostic_code_name Acceptance_without_requirement = ''acceptance_without_requirement''"
| "diagnostic_code_name Orphan_issue = ''orphan_issue''"
| "diagnostic_code_name Uncovered_requirement = ''uncovered_requirement''"
| "diagnostic_code_name Uncovered_acceptance = ''uncovered_acceptance''"
| "diagnostic_code_name Missing_dependency = ''missing_dependency''"
| "diagnostic_code_name Self_dependency = ''self_dependency''"
| "diagnostic_code_name Duplicate_dependency = ''duplicate_dependency''"
| "diagnostic_code_name Dependency_cycle = ''dependency_cycle''"

definition diagnostic_json :: "issue_compilation_diagnostic \<Rightarrow> json" where
  "diagnostic_json d = JObj [(''code'', JStr (diagnostic_code_name (diag_code d))),
     (''path'', JStr (diag_path d)), (''message'', JStr (diag_message d)),
     (''impact'', JStr (diag_impact d)), (''relatedIssueKeys'', texts_json (relatedIssueKeys d))]"

definition coverage_json :: "coverage \<Rightarrow> json" where
  "coverage_json c = JObj [(''covered'', texts_json (covered c)), (''uncovered'', texts_json (uncovered c))]"

definition compilation_json :: "issue_compilation_result \<Rightarrow> json" where
  "compilation_json c = JObj [(''policyRevision'', JStr issueCompilerPolicyRevision),
     (''valid'', JBool (compiled_valid c)),
     (''diagnostics'', JArr (map diagnostic_json (diagnostics c))),
     (''coverage'', JObj [(''requirements'', coverage_json (requirement_coverage c)),
        (''acceptanceCriteria'', coverage_json (acceptance_coverage c))]),
     (''topologicalOrder'', texts_json (topological_order c))]"

definition conflict_json :: "issue_conflict \<Rightarrow> json" where
  "conflict_json c = JObj [
     (''issueKeys'', texts_json [fst (issueKeys_pair c), snd (issueKeys_pair c)]),
     (''resourceKinds'', texts_json (map kind_name (resourceKinds c))),
     (''resourceKeys'', texts_json (resourceKeys c)), (''reasons'', texts_json (conflict_reasons c))]"

definition wave_json :: "execution_wave \<Rightarrow> json" where
  "wave_json w = JObj [(''number'', JInt (int (number w))), (''issueKeys'', texts_json (wave_issueKeys w)),
     (''reasons'', texts_json (wave_reasons w))]"

definition factors_json :: "model_routing_factors \<Rightarrow> json" where
  "factors_json f = JObj [(''risk'', JStr (risk_name (route_risk f))),
     (''codeScope'', JStr (scope_name (codeScope f))),
     (''domainComplexity'', JStr (difficulty_name (domainComplexity f))),
     (''verificationDifficulty'', JStr (difficulty_name (verificationDifficulty f)))]"

definition override_json :: "model_route_override option \<Rightarrow> json" where
  "override_json ov = (case ov of None \<Rightarrow> JNull | Some v \<Rightarrow> JObj [
     (''capabilityTier'', JStr (override_tier v)), (''reasoningEffort'', JStr (override_effort v)),
     (''actorId'', JStr (override_actorId v)), (''reason'', JStr (override_reason v)),
     (''overriddenAt'', JStr (overriddenAt v))])"

definition recommendation_json :: "model_recommendation \<Rightarrow> json" where
  "recommendation_json r = JObj [(''issueKey'', JStr (issueKey r)),
     (''capabilityTier'', JStr (tier_name (capabilityTier r))),
     (''reasoningEffort'', JStr (effort_name (reasoningEffort r))),
     (''policyRevision'', JStr (model_recommendation.policyRevision r)),
     (''factors'', factors_json (route_factors r)), (''reasons'', texts_json (route_reasons r)),
     (''override'', override_json (override r))]"

definition plan_digest_json ::
  "issue_plan_source \<Rightarrow> issue_draft list \<Rightarrow> issue_compilation_result \<Rightarrow> issue_conflict list \<Rightarrow>
   execution_wave list \<Rightarrow> model_recommendation list \<Rightarrow> json" where
  "plan_digest_json source ds c cs ws rs = JObj [
     (''schemaVersion'', JStr issuePlanSchemaVersion), (''source'', source_json source),
     (''issues'', JArr (map issue_json ds)), (''compilation'', compilation_json c),
     (''conflicts'', JArr (map conflict_json cs)), (''waves'', JArr (map wave_json ws)),
     (''modelRecommendations'', JArr (map recommendation_json rs)),
     (''compilerPolicyRevision'', JStr issueCompilerPolicyRevision),
     (''conflictPolicyRevision'', JStr conflictPolicyRevision),
     (''modelRouterPolicyRevision'', JStr modelRouterPolicyRevision)]"

section \<open>The service\<close>

record plan_call =
  plan_authorize :: "string \<Rightarrow> string \<Rightarrow> string \<Rightarrow> string \<Rightarrow> js_error + unit"
  plan_clock :: "nat \<Rightarrow> int"
  generated :: "nat \<Rightarrow> string"

text \<open>What the service depends on outside the repository of code.\<close>

record plan_environment =
  sha256Hex :: "string \<Rightarrow> string"
  localeCompare :: "string \<Rightarrow> string \<Rightarrow> bool"
  valid_date :: "string \<Rightarrow> bool"

definition plan_text :: "string \<Rightarrow> string \<Rightarrow> nat \<Rightarrow> js_error + string" where
  "plan_text v name maximum =
     (if trim v = [] \<or> length (trim v) > maximum
      then Inl (IssuePlanApprovalError (name @ '' must be non-blank and bounded''))
      else Inr (trim v))"

definition exactIssueKeys :: "string list \<Rightarrow> string list \<Rightarrow> bool" where
  "exactIssueKeys actual expected \<longleftrightarrow>
     length actual = length expected \<and>
     list_all (\<lambda>(index, v). v = sort expected ! index) (enumerate 0 (sort actual))"

definition planDigest ::
  "plan_environment \<Rightarrow> issue_plan_source \<Rightarrow> issue_draft list \<Rightarrow> issue_compilation_result \<Rightarrow>
   issue_conflict list \<Rightarrow> execution_wave list \<Rightarrow> model_recommendation list \<Rightarrow> string" where
  "planDigest env source ds c cs ws rs =
     sha256Hex env (canonicalJson (localeCompare env) (plan_digest_json source ds c cs ws rs))"

text \<open>The route of an issue, with the override for its key when there is one.\<close>

definition routed_issue ::
  "plan_environment \<Rightarrow> (string \<times> model_route_override) list \<Rightarrow> issue_draft \<Rightarrow> js_error + model_recommendation" where
  "routed_issue env overrides d =
     (case find (\<lambda>ov. fst ov = key d) overrides of
        Some ov \<Rightarrow> withModelRouteOverride (valid_date env) (recommendModelRoute d) (snd ov)
      | None \<Rightarrow> Inr (recommendModelRoute d))"

definition build ::
  "plan_environment \<Rightarrow> int \<Rightarrow> string \<Rightarrow> goal_scope \<Rightarrow> issue_plan_source \<Rightarrow> issue_draft list \<Rightarrow>
   issue_plan option \<Rightarrow> string \<Rightarrow> issue_planner_configuration \<Rightarrow> (string \<times> model_route_override) list \<Rightarrow>
   js_error + issue_plan" where
  "build env now i scope source ds previous runId config overrides =
     (let c = compileIssuePlan \<lparr>requirements = source_requirements source,
            acceptanceCriterionIds = source_criteria source, issues = ds\<rparr>;
          execution = scheduleExecutionWaves (localeCompare env) ds
      in and_then (map_try (\<lambda>_ d. routed_issue env overrides d) 0 ds) (\<lambda>routes.
           let rs = sort_by (\<lambda>l r. localeCompare env (issueKey l) (issueKey r)) routes;
               at = toISOString now
           in Inr \<lparr>plan_schemaVersion = issuePlanSchemaVersion, plan_id = i, plan_scope = scope,
                revision = (case previous of None \<Rightarrow> 0 | Some q \<Rightarrow> revision q) + 1,
                previousPlanId = map_option plan_id previous, plan_status = Plan_draft,
                plan_source = source, plan_issues = ds, compilation = c,
                plan_conflicts = conflicts execution, plan_waves = waves execution,
                modelRecommendations = rs, plannerRunId = runId, plannerConfiguration = config,
                plan_compilerPolicy = issueCompilerPolicyRevision,
                plan_conflictPolicy = conflictPolicyRevision,
                plan_routerPolicy = modelRouterPolicyRevision,
                plan_digest = planDigest env source ds c (conflicts execution) (waves execution) rs,
                generatedAt = at, plan_version = 1, plan_createdAt = at, plan_updatedAt = at\<rparr>))"

record create_draft_command =
  cd_scope :: goal_scope
  cd_source :: issue_plan_source
  cd_draft :: json
  cd_plannerRunId :: string
  cd_plannerConfiguration :: issue_planner_configuration
  cd_actorId :: string

record submitted_override =
  so_issueKey :: string
  so_tier :: string
  so_effort :: string
  so_reason :: string

record revise_command =
  rv_scope :: goal_scope
  rv_planId :: string
  rv_expectedVersion :: int
  rv_actorId :: string
  rv_reason :: string
  rv_requestId :: string
  rv_issues :: json
  rv_modelOverrides :: "submitted_override list"

text \<open>\<open>createDraft\<close> and \<open>revise\<close> up to the append: the plan and the plan it must follow.\<close>

definition prepare_draft ::
  "plan_environment \<Rightarrow> plan_call \<Rightarrow> create_draft_command \<Rightarrow> plan_repository \<Rightarrow>
   js_error + issue_plan \<times> string option" where
  "prepare_draft env x c repo =
     and_then (plan_authorize x (cd_actorId c) (organizationId (cd_scope c)) (projectId (cd_scope c)) ''issue.generate'') (\<lambda>_.
     and_then (validateIssuePlanDraft (cd_draft c)) (\<lambda>ds.
       let previous = getLatest (cd_scope c) repo in
     and_then (plan_text (cd_plannerRunId c) ''plannerRunId'' 200) (\<lambda>runId.
     and_then (build env (plan_clock x 0) (generated x 0) (cd_scope c) (cd_source c) ds previous runId
         (cd_plannerConfiguration c) []) (\<lambda>p.
       Inr (p, map_option plan_id previous)))))"

text \<open>The overrides of a revision by key; each has its own reading of the clock.\<close>

definition submitted_overrides ::
  "plan_call \<Rightarrow> revise_command \<Rightarrow> js_error + (string \<times> model_route_override) list" where
  "submitted_overrides x c =
     map_try (\<lambda>i so.
       and_then (plan_text (so_reason so) (''modelOverrides.'' @ so_issueKey so @ ''.reason'') 4000) (\<lambda>reason.
         Inr (so_issueKey so, \<lparr>override_tier = so_tier so, override_effort = so_effort so,
           override_actorId = rv_actorId c, override_reason = reason,
           overriddenAt = toISOString (plan_clock x i)\<rparr>)))
       0 (rv_modelOverrides c)"

definition effective_overrides ::
  "(string \<times> model_route_override) list \<Rightarrow> model_recommendation list \<Rightarrow> issue_draft list \<Rightarrow>
   (string \<times> model_route_override) list" where
  "effective_overrides submitted routes ds =
     concat (map (\<lambda>d.
       case map_of submitted (key d) of
         Some ov \<Rightarrow> [(key d, ov)]
       | None \<Rightarrow>
           (case map_of (js_map (map (\<lambda>r. (issueKey r, r)) routes)) (key d) of
              None \<Rightarrow> []
            | Some r \<Rightarrow> (case override r of None \<Rightarrow> [] | Some prior \<Rightarrow> [(key d, prior)]))) ds)"

definition prepare_revision ::
  "plan_environment \<Rightarrow> plan_call \<Rightarrow> revise_command \<Rightarrow> plan_repository \<Rightarrow>
   js_error + issue_plan \<times> string option" where
  "prepare_revision env x c repo =
     and_then (plan_authorize x (rv_actorId c) (organizationId (rv_scope c)) (projectId (rv_scope c)) ''issue.edit'') (\<lambda>_.
     and_then (plan_text (rv_reason c) ''reason'' 4000) (\<lambda>_.
     and_then (plan_text (rv_requestId c) ''requestId'' 200) (\<lambda>_.
       if rv_expectedVersion c < 1 then Inl (IssuePlanApprovalError ''expectedVersion must be positive'')
       else
         (case get_plan (rv_scope c) (rv_planId c) repo of
            None \<Rightarrow> Inl VersionConflictError
          | Some current \<Rightarrow>
              if Some (plan_id current) \<noteq> map_option plan_id (getLatest (rv_scope c) repo) \<or>
                 int (plan_version current) \<noteq> rv_expectedVersion c \<or> plan_status current \<noteq> Plan_draft
              then Inl VersionConflictError
              else
                and_then (validateIssuePlanDraft (JObj [(''schemaVersion'', JStr ''issue-plan-draft.v1''),
                    (''issues'', rv_issues c)])) (\<lambda>ds.
                  let submittedKeys = map so_issueKey (rv_modelOverrides c) in
                  if has_duplicates submittedKeys \<or> list_ex (\<lambda>k. k \<notin> key ` set ds) submittedKeys
                  then Inl (IssuePlanApprovalError ''modelOverrides must identify unique Issues in the revised plan'')
                  else
                    and_then (submitted_overrides x c) (\<lambda>submitted.
                    and_then (build env (plan_clock x (length submitted)) (generated x 0) (rv_scope c)
                        (plan_source current) ds (Some current) (plannerRunId current)
                        (plannerConfiguration current)
                        (effective_overrides submitted (modelRecommendations current) ds)) (\<lambda>p.
                      Inr (p, Some (plan_id current)))))))))"

definition createDraft ::
  "plan_environment \<Rightarrow> plan_call \<Rightarrow> create_draft_command \<Rightarrow> plan_repository \<Rightarrow>
   (js_error + issue_plan) \<times> plan_repository" where
  "createDraft env x c repo =
     (case prepare_draft env x c repo of
        Inl e \<Rightarrow> (Inl e, repo) | Inr (p, previous) \<Rightarrow> append_plan p previous repo)"

definition revise ::
  "plan_environment \<Rightarrow> plan_call \<Rightarrow> revise_command \<Rightarrow> plan_repository \<Rightarrow>
   (js_error + issue_plan) \<times> plan_repository" where
  "revise env x c repo =
     (case prepare_revision env x c repo of
        Inl e \<Rightarrow> (Inl e, repo) | Inr (p, previous) \<Rightarrow> append_plan p previous repo)"

text \<open>\<open>timeline\<close> and \<open>get\<close>.\<close>

definition timeline ::
  "plan_call \<Rightarrow> goal_scope \<Rightarrow> string \<Rightarrow> plan_repository \<Rightarrow> js_error + issue_plan list" where
  "timeline x scope actor repo =
     and_then (plan_authorize x actor (organizationId scope) (projectId scope) ''issue.read'') (\<lambda>_.
       Inr (list_plans scope repo))"

definition read_plan ::
  "plan_call \<Rightarrow> goal_scope \<Rightarrow> string \<Rightarrow> string \<Rightarrow> plan_repository \<Rightarrow> js_error + issue_plan option" where
  "read_plan x scope i actor repo =
     and_then (plan_authorize x actor (organizationId scope) (projectId scope) ''issue.read'') (\<lambda>_.
       Inr (get_plan scope i repo))"

section \<open>Approval\<close>

definition approval_command_json :: "issue_plan_approval_command \<Rightarrow> json" where
  "approval_command_json c = JObj [
     (''scope'', JObj [(''organizationId'', JStr (organizationId (ac_scope c))),
        (''projectId'', JStr (projectId (ac_scope c))), (''goalId'', JStr (goalId (ac_scope c)))]),
     (''target'', JObj [(''type'', JStr (ac_targetType c)), (''id'', JStr (ac_targetId c))]),
     (''expectedVersion'', JInt (ac_expectedVersion c)), (''actorId'', JStr (ac_actorId c)),
     (''reason'', JStr (ac_reason c)), (''requestId'', JStr (ac_requestId c)),
     (''idempotencyKey'', JStr (ac_idempotencyKey c)), (''policyRevision'', JStr (ac_policyRevision c)),
     (''decision'', JStr (ac_decision c)), (''affectedItemIds'', texts_json (ac_affectedItemIds c)),
     (''payload'', ac_payload c)]"

text \<open>\<open>!payload || Object.keys(payload).length > 0\<close>.\<close>

fun payload_given :: "json \<Rightarrow> bool" where
  "payload_given (JObj fs) = (fs \<noteq> [])"
| "payload_given (JArr vs) = (vs \<noteq> [])"
| "payload_given (JStr s) = True"
| "payload_given (JInt i) = (i = 0)"
| "payload_given (JFrac s) = False"
| "payload_given (JBool b) = (\<not> b)"
| "payload_given JNull = True"
| "payload_given JUndefined = True"

definition next_status :: "approval_decision \<Rightarrow> plan_status" where
  "next_status d = (case d of Approve \<Rightarrow> Plan_approved | Request_changes \<Rightarrow> Plan_draft | Reject \<Rightarrow> Plan_rejected)"

definition decided_plan :: "approval_decision \<Rightarrow> string \<Rightarrow> issue_plan \<Rightarrow> issue_plan" where
  "decided_plan d at p = p\<lparr>plan_status := next_status d, plan_version := plan_version p + 1, plan_updatedAt := at\<rparr>"

definition decision_action :: "approval_decision \<Rightarrow> string" where
  "decision_action d = (case d of Approve \<Rightarrow> ''issue_plan.approved'' | Reject \<Rightarrow> ''issue_plan.rejected''
     | Request_changes \<Rightarrow> ''issue_plan.changes_requested'')"

text \<open>The checks before the repository is read: the trimmed actor, reason and request, the decision, the lookup.\<close>

definition check_approval ::
  "plan_environment \<Rightarrow> plan_call \<Rightarrow> issue_plan_approval_command \<Rightarrow>
   js_error + (string \<times> string \<times> string \<times> approval_decision \<times> idempotency_lookup)" where
  "check_approval env x c =
     and_then (plan_authorize x (ac_actorId c) (organizationId (ac_scope c)) (projectId (ac_scope c)) ''issue.approve'') (\<lambda>_.
       if ac_targetType c \<noteq> ''issue_plan'' \<or> ac_targetId c = '''' \<or> ac_expectedVersion c < 1 \<or>
          ac_policyRevision c \<noteq> issuePlanApprovalPolicyRevision
       then Inl (IssuePlanApprovalError ''approval target, version, or policy is invalid'')
       else
     and_then (plan_text (ac_actorId c) ''actorId'' 200) (\<lambda>actor.
     and_then (plan_text (ac_reason c) ''reason'' 4000) (\<lambda>reason.
     and_then (plan_text (ac_requestId c) ''requestId'' 200) (\<lambda>request.
     and_then (plan_text (ac_idempotencyKey c) ''idempotencyKey'' 200) (\<lambda>_.
       case parse_decision (ac_decision c) of
         None \<Rightarrow> Inl (IssuePlanApprovalError ''approval command is incomplete'')
       | Some d \<Rightarrow>
           if payload_given (ac_payload c) \<or> ac_affectedItemIds c = []
           then Inl (IssuePlanApprovalError ''approval command is incomplete'')
           else Inr (actor, reason, request, d,
             \<lparr>lookup_organizationId = organizationId (ac_scope c), lookup_actorId = actor,
              lookup_endpoint = ''issue_plan.approval'', lookup_key = ac_idempotencyKey c,
              requestHash = sha256Hex env (canonicalJson (localeCompare env) (approval_command_json c))\<rparr>))))))"

definition scope_fields :: "goal_scope \<Rightarrow> (string \<times> json) list" where
  "scope_fields s = [(''organizationId'', JStr (organizationId s)), (''projectId'', JStr (projectId s)),
     (''goalId'', JStr (goalId s))]"

definition plan_status_name :: "plan_status \<Rightarrow> string" where
  "plan_status_name s = (case s of Plan_draft \<Rightarrow> ''draft'' | Plan_approved \<Rightarrow> ''approved''
     | Plan_rejected \<Rightarrow> ''rejected'' | Plan_superseded \<Rightarrow> ''superseded'')"

definition configuration_json :: "issue_planner_configuration \<Rightarrow> json" where
  "configuration_json c = JObj [(''adapter'', JStr (adapter c)), (''modelProfile'', JStr (modelProfile c)),
     (''schemaVersion'', JStr (config_schemaVersion c))]"

definition plan_json :: "issue_plan \<Rightarrow> json" where
  "plan_json p = JObj ([(''schemaVersion'', JStr (plan_schemaVersion p)), (''id'', JStr (plan_id p))] @
     scope_fields (plan_scope p) @
     [(''revision'', JInt (int (revision p))),
      (''previousPlanId'', case previousPlanId p of None \<Rightarrow> JNull | Some i \<Rightarrow> JStr i),
      (''status'', JStr (plan_status_name (plan_status p))), (''source'', source_json (plan_source p)),
      (''issues'', JArr (map issue_json (plan_issues p))),
      (''compilation'', compilation_json (compilation p)),
      (''conflicts'', JArr (map conflict_json (plan_conflicts p))),
      (''waves'', JArr (map wave_json (plan_waves p))),
      (''modelRecommendations'', JArr (map recommendation_json (modelRecommendations p))),
      (''plannerRunId'', JStr (plannerRunId p)),
      (''plannerConfiguration'', configuration_json (plannerConfiguration p)),
      (''compilerPolicyRevision'', JStr (plan_compilerPolicy p)),
      (''conflictPolicyRevision'', JStr (plan_conflictPolicy p)),
      (''modelRouterPolicyRevision'', JStr (plan_routerPolicy p)),
      (''digest'', JStr (plan_digest p)), (''generatedAt'', JStr (generatedAt p)),
      (''version'', JInt (int (plan_version p))), (''createdAt'', JStr (plan_createdAt p)),
      (''updatedAt'', JStr (plan_updatedAt p))])"

definition decision_record_json :: "issue_plan_decision_record \<Rightarrow> json" where
  "decision_record_json d = JObj ([(''id'', JStr (dr_id d))] @ scope_fields (dr_scope d) @
     [(''issuePlanId'', JStr (dr_issuePlanId d)), (''subjectVersion'', JInt (int (dr_subjectVersion d))),
      (''planDigest'', JStr (dr_planDigest d)), (''decision'', JStr (decision_name (dr_decision d))),
      (''actorId'', JStr (dr_actorId d)), (''reason'', JStr (dr_reason d)),
      (''requestId'', JStr (dr_requestId d)), (''policyRevision'', JStr (dr_policyRevision d)),
      (''affectedIssueKeys'', texts_json (dr_affectedIssueKeys d)), (''createdAt'', JStr (dr_createdAt d))])"

definition plan_receipt_json :: "issue_plan_receipt \<Rightarrow> json" where
  "plan_receipt_json r = JObj [(''receiptId'', JStr (pr_receiptId r)),
     (''target'', JObj [(''type'', JStr ''issue_plan''), (''id'', JStr (pr_targetId r))]),
     (''previousVersion'', JInt (int (pr_previousVersion r))),
     (''currentVersion'', JInt (int (pr_currentVersion r))),
     (''decision'', JStr (decision_name (pr_decision r))), (''actorId'', JStr (pr_actorId r)),
     (''reason'', JStr (pr_reason r)), (''requestId'', JStr (pr_requestId r)),
     (''policyRevision'', JStr (pr_policyRevision r)), (''recordedAt'', JStr (pr_recordedAt r)),
     (''result'', JObj [(''plan'', plan_json (pr_plan r)), (''planDigest'', JStr (pr_planDigest r)),
        (''decisionRecord'', decision_record_json (pr_decisionRecord r))])]"

text \<open>The commit for a plan that may be decided; the ids in order: decision, receipt, event, audit.\<close>

definition approval_commit ::
  "plan_environment \<Rightarrow> plan_call \<Rightarrow> issue_plan_approval_command \<Rightarrow> string \<Rightarrow> string \<Rightarrow> string \<Rightarrow>
   approval_decision \<Rightarrow> idempotency_lookup \<Rightarrow> issue_plan \<Rightarrow> plan_commit" where
  "approval_commit env x c actor reason request d l current =
     (let at = toISOString (plan_clock x 0);
          new = decided_plan d at current;
          decision = \<lparr>dr_id = generated x 0, dr_scope = ac_scope c, dr_issuePlanId = plan_id current,
            dr_subjectVersion = plan_version current, dr_planDigest = plan_digest current,
            dr_decision = d, dr_actorId = actor, dr_reason = reason, dr_requestId = request,
            dr_policyRevision = ac_policyRevision c,
            dr_affectedIssueKeys = sort (ac_affectedItemIds c), dr_createdAt = at\<rparr>;
          receipt = \<lparr>pr_receiptId = generated x 1, pr_targetId = ac_targetId c,
            pr_previousVersion = plan_version current, pr_currentVersion = plan_version new,
            pr_decision = d, pr_actorId = actor, pr_reason = reason, pr_requestId = request,
            pr_policyRevision = ac_policyRevision c, pr_recordedAt = at, pr_plan = new,
            pr_planDigest = plan_digest current, pr_decisionRecord = decision\<rparr>
      in \<lparr>pc_current = current, pc_next = new, pc_expectedVersion = ac_expectedVersion c,
          pc_decision = decision,
          pc_audit = \<lparr>pa_id = generated x 3, pa_scope = ac_scope c, pa_actorId = actor,
            pa_action = decision_action d, pa_entityId = plan_id current,
            pa_entityVersion = plan_version new, pa_reason = reason, pa_requestId = request,
            pa_policyRevision = ac_policyRevision c, pa_createdAt = at\<rparr>,
          pc_event = \<lparr>pe_id = generated x 2, pe_organizationId = organizationId (ac_scope c),
            pe_aggregateId = plan_id current, pe_aggregateVersion = plan_version new,
            pe_occurredAt = at, pe_decision = d, pe_planDigest = plan_digest current,
            pe_requestId = request, pe_receipt = receipt\<rparr>,
          pc_lookup = l,
          pc_responseDigest = sha256Hex env (canonicalJson (localeCompare env) (plan_receipt_json receipt)),
          pc_expiresAt = plan_clock x 0 + 24 * 60 * 60 * 1000, pc_receipt = receipt\<rparr>)"

text \<open>Only a complete plan can be approved.\<close>

definition complete_plan :: "issue_plan \<Rightarrow> bool" where
  "complete_plan p \<longleftrightarrow> compiled_valid (compilation p) \<and>
     length (concat (map wave_issueKeys (plan_waves p))) = length (plan_issues p) \<and>
     length (modelRecommendations p) = length (plan_issues p)"

definition prepare_approval ::
  "plan_environment \<Rightarrow> plan_call \<Rightarrow> issue_plan_approval_command \<Rightarrow> plan_repository \<Rightarrow>
   js_error + (issue_plan_receipt + plan_commit)" where
  "prepare_approval env x c repo =
     and_then (check_approval env x c) (\<lambda>(actor, reason, request, d, l).
     and_then (findApprovalReceipt l repo) (\<lambda>replay.
       case replay of
         Some receipt \<Rightarrow> Inr (Inl receipt)
       | None \<Rightarrow>
           (case get_plan (ac_scope c) (ac_targetId c) repo of
              None \<Rightarrow> Inl VersionConflictError
            | Some current \<Rightarrow>
                if Some (plan_id current) \<noteq> map_option plan_id (getLatest (ac_scope c) repo) \<or>
                   int (plan_version current) \<noteq> ac_expectedVersion c \<or> plan_status current \<noteq> Plan_draft
                then Inl VersionConflictError
                else if \<not> exactIssueKeys (ac_affectedItemIds c) (map key (plan_issues current))
                then Inl (IssuePlanApprovalError ''affectedItemIds must bind every Issue in this plan revision'')
                else if d = Approve \<and> \<not> complete_plan current
                then Inl (IssuePlanApprovalError ''invalid or incomplete plans cannot be approved'')
                else Inr (Inr (approval_commit env x c actor reason request d l current)))))"

definition approve ::
  "plan_environment \<Rightarrow> plan_call \<Rightarrow> issue_plan_approval_command \<Rightarrow> plan_repository \<Rightarrow>
   (js_error + issue_plan_receipt) \<times> plan_repository" where
  "approve env x c repo =
     (case prepare_approval env x c repo of
        Inl e \<Rightarrow> (Inl e, repo)
      | Inr (Inl receipt) \<Rightarrow> (Inr receipt, repo)
      | Inr (Inr k) \<Rightarrow> commitApproval k repo)"

end
