(* ===== verification/Issue_Plan_Safety.thy ===== *)
theory Issue_Plan_Safety
  imports Issue_Plan_Service
begin

text \<open>
  What the issue plan service guarantees over its repository in memory, for commands that are in
  flight together: approvals take effect at most once, the plans of a Goal are a chain of
  revisions of which only the last can still change, and an approved plan is complete.
\<close>

section \<open>Approvals take effect at most once\<close>

text \<open>A commit is refused, is a replay, or decides the last plan of its scope.\<close>

lemma commitApproval_cases:
  assumes "commitApproval k repo = (r, repo')"
  shows "(repo' = repo \<and> ((\<exists>e. r = Inl e) \<or>
        (\<exists>receipt. r = Inr receipt \<and> findApprovalReceipt (pc_lookup k) repo = Inr (Some receipt)))) \<or>
     (\<exists>index. findApprovalReceipt (pc_lookup k) repo = Inr None \<and>
        find_index (\<lambda>p. plan_id p = plan_id (pc_current k)) (plans_at repo (plan_scope (pc_current k))) = Some index \<and>
        index = length (plans_at repo (plan_scope (pc_current k))) - 1 \<and>
        int (plan_version (plans_at repo (plan_scope (pc_current k)) ! index)) = pc_expectedVersion k \<and>
        int (plan_version (pc_next k)) = pc_expectedVersion k + 1 \<and>
        r = Inr (pc_receipt k) \<and>
        plans repo' = (plans repo)(scope_key (plan_scope (pc_current k)) \<mapsto>
          (plans_at repo (plan_scope (pc_current k)))[index := pc_next k]) \<and>
        plan_idempotency repo' = (plan_idempotency repo)(idempotency_key (pc_lookup k) \<mapsto>
          \<lparr>record_lookup = pc_lookup k, record_completed = True, record_receipt = Some (pc_receipt k)\<rparr>))"
  using assms
  by (auto simp: commitApproval_def Let_def split: sum.splits option.splits if_splits)

lemma commitApproval_found:
  assumes "commitApproval k repo = (Inr r, repo')"
  shows "findApprovalReceipt (pc_lookup k) repo' = Inr (Some r)"
  using commitApproval_cases[OF assms]
  by (auto simp: findApprovalReceipt_def find_receipt_added)

lemma commitApproval_keeps:
  assumes "findApprovalReceipt l repo = Inr (Some r)"
  shows "findApprovalReceipt l (snd (commitApproval k repo)) = Inr (Some r)"
proof (cases "commitApproval k repo")
  case (Pair res repo')
  from commitApproval_cases[OF this] Pair assms show ?thesis
    by (auto simp: findApprovalReceipt_def find_receipt_kept)
qed

definition approval_looks_up ::
  "plan_environment \<Rightarrow> plan_call \<Rightarrow> issue_plan_approval_command \<Rightarrow> idempotency_lookup option" where
  "approval_looks_up env x c =
     (case check_approval env x c of Inl e \<Rightarrow> None | Inr (a, b, r, d, l) \<Rightarrow> Some l)"

text \<open>A commit of an approval, or an append of a plan, which leaves the receipts alone.\<close>

definition plan_moves :: "plan_repository \<Rightarrow> plan_repository \<Rightarrow> bool" where
  "plan_moves repo repo' \<longleftrightarrow>
     plan_idempotency repo' = plan_idempotency repo \<or> (\<exists>k. repo' = snd (commitApproval k repo))"

lemma prepare_approval_cases:
  assumes "prepare_approval env x c repo = Inr p"
  shows "\<exists>a b r d l. check_approval env x c = Inr (a, b, r, d, l) \<and>
    (\<forall>receipt. p = Inl receipt \<longrightarrow> findApprovalReceipt l repo = Inr (Some receipt)) \<and>
    (\<forall>k. p = Inr k \<longrightarrow> pc_lookup k = l)"
  using assms
  by (auto simp: prepare_approval_def result_simps approval_commit_def Let_def
      split: option.splits if_splits)

interpretation approvals: idempotent_service "approval_looks_up env" findApprovalReceipt
  "approve env" plan_moves for env
proof
  fix x c l s r
  assume "approval_looks_up env x c = Some l" "findApprovalReceipt l s = Inr (Some r)"
  then show "approve env x c s = (Inr r, s)"
    by (auto simp: approval_looks_up_def approve_def prepare_approval_def split: sum.splits prod.splits)
next
  fix x c s r s'
  assume h: "approve env x c s = (Inr r, s')"
  show "\<exists>l. approval_looks_up env x c = Some l \<and> findApprovalReceipt l s' = Inr (Some r)"
  proof (cases "prepare_approval env x c s")
    case (Inr p)
    from prepare_approval_cases[OF this] obtain a b q d l
      where l: "check_approval env x c = Inr (a, b, q, d, l)"
        "\<forall>receipt. p = Inl receipt \<longrightarrow> findApprovalReceipt l s = Inr (Some receipt)"
        "\<forall>k. p = Inr k \<longrightarrow> pc_lookup k = l" by blast
    from h Inr l commitApproval_found show ?thesis
      by (cases p) (fastforce simp: approve_def approval_looks_up_def)+
  qed (use h in \<open>simp add: approve_def\<close>)
next
  fix s s' l r
  assume "plan_moves s s'" "findApprovalReceipt l s = Inr (Some r)"
  then show "findApprovalReceipt l s' = Inr (Some r)"
    by (auto simp: plan_moves_def commitApproval_keeps) (simp add: findApprovalReceipt_def)
next
  fix x c s e s'
  assume "approve env x c s = (Inl e, s')"
  then show "s' = s"
    by (auto simp: approve_def dest!: commitApproval_cases split: sum.splits)
qed

section \<open>Commands in flight together\<close>

record plans_in_flight =
  plan_store :: plan_repository
  due_appends :: "(issue_plan \<times> string option) list"
  due_decisions :: "plan_commit list"

inductive plan_step :: "plan_environment \<Rightarrow> plans_in_flight \<Rightarrow> plans_in_flight \<Rightarrow> bool" for env where
  due_draft: "prepare_draft env x c (plan_store f) = Inr a \<Longrightarrow>
    plan_step env f (f\<lparr>due_appends := a # due_appends f\<rparr>)"
| due_revision: "prepare_revision env x rv (plan_store f) = Inr a \<Longrightarrow>
    plan_step env f (f\<lparr>due_appends := a # due_appends f\<rparr>)"
| append: "(p, previous) \<in> set (due_appends f) \<Longrightarrow> append_plan p previous (plan_store f) = (r, repo) \<Longrightarrow>
    plan_step env f (f\<lparr>plan_store := repo, due_appends := remove1 (p, previous) (due_appends f)\<rparr>)"
| due_decision: "prepare_approval env x ac (plan_store f) = Inr (Inr k) \<Longrightarrow>
    plan_step env f (f\<lparr>due_decisions := k # due_decisions f\<rparr>)"
| decide: "k \<in> set (due_decisions f) \<Longrightarrow> commitApproval k (plan_store f) = (r', repo) \<Longrightarrow>
    plan_step env f (f\<lparr>plan_store := repo, due_decisions := remove1 k (due_decisions f)\<rparr>)"

definition no_plans :: plans_in_flight where
  "no_plans = \<lparr>plan_store = \<lparr>plans = Map.empty, plan_idempotency = Map.empty, plan_audits = [],
     plan_events = []\<rparr>, due_appends = [], due_decisions = []\<rparr>"

definition plans_under :: "plans_in_flight \<Rightarrow> string \<Rightarrow> issue_plan list" where
  "plans_under f k = (case plans (plan_store f) k of None \<Rightarrow> [] | Some ps \<Rightarrow> ps)"

lemma plans_at_under: "plans_at (plan_store f) scope = plans_under f (scope_key scope)"
  by (simp add: plans_at_def plans_under_def)

text \<open>What \<open>build\<close> makes, whatever was decided about it since.\<close>

definition built_plan :: "plan_environment \<Rightarrow> issue_plan \<Rightarrow> bool" where
  "built_plan env p \<longleftrightarrow>
     compilation p = compileIssuePlan \<lparr>requirements = source_requirements (plan_source p),
       acceptanceCriterionIds = source_criteria (plan_source p), issues = plan_issues p\<rparr> \<and>
     plan_conflicts p = conflicts (scheduleExecutionWaves (localeCompare env) (plan_issues p)) \<and>
     plan_waves p = waves (scheduleExecutionWaves (localeCompare env) (plan_issues p)) \<and>
     (\<exists>overrides routes. map_try (\<lambda>_ d. routed_issue env overrides d) 0 (plan_issues p) = Inr routes \<and>
        modelRecommendations p = sort_by (\<lambda>l r. localeCompare env (issueKey l) (issueKey r)) routes) \<and>
     plan_digest p = planDigest env (plan_source p) (plan_issues p) (compilation p)
       (plan_conflicts p) (plan_waves p) (modelRecommendations p)"

lemma build_built:
  assumes "build env now i scope source ds previous runId config overrides = Inr p"
  shows "built_plan env p \<and> plan_status p = Plan_draft \<and> plan_version p = 1 \<and>
    previousPlanId p = map_option plan_id previous \<and> plan_scope p = scope"
proof -
  from assms obtain routes where routes: "map_try (\<lambda>_ d. routed_issue env overrides d) 0 ds = Inr routes"
    by (auto simp: build_def Let_def result_simps)
  with assms have p: "plan_issues p = ds" "plan_source p = source" "compilation p =
      compileIssuePlan \<lparr>requirements = source_requirements source,
        acceptanceCriterionIds = source_criteria source, issues = ds\<rparr>"
    "plan_conflicts p = conflicts (scheduleExecutionWaves (localeCompare env) ds)"
    "plan_waves p = waves (scheduleExecutionWaves (localeCompare env) ds)"
    "modelRecommendations p = sort_by (\<lambda>l r. localeCompare env (issueKey l) (issueKey r)) routes"
    "plan_digest p = planDigest env source ds (compilation p) (plan_conflicts p) (plan_waves p) (modelRecommendations p)"
    "plan_status p = Plan_draft" "plan_version p = 1" "previousPlanId p = map_option plan_id previous"
    "plan_scope p = scope"
    by (auto simp: build_def Let_def result_simps)
  then have "\<exists>overrides routes. map_try (\<lambda>_ d. routed_issue env overrides d) 0 (plan_issues p) = Inr routes \<and>
      modelRecommendations p = sort_by (\<lambda>l r. localeCompare env (issueKey l) (issueKey r)) routes"
    using routes by blast
  with p show ?thesis unfolding built_plan_def by simp
qed

text \<open>The plans of a scope: revisions 1, 2, 3, ..., each naming its predecessor.\<close>

definition revision_chain :: "issue_plan list \<Rightarrow> bool" where
  "revision_chain ps \<longleftrightarrow> (\<forall>i < length ps. revision (ps ! i) = i + 1 \<and>
     previousPlanId (ps ! i) = (if i = 0 then None else Some (plan_id (ps ! (i - 1)))))"

definition plan_fine :: "plan_environment \<Rightarrow> string \<Rightarrow> issue_plan \<Rightarrow> bool" where
  "plan_fine env k p \<longleftrightarrow> built_plan env p \<and> scope_key (plan_scope p) = k \<and>
     (plan_status p = Plan_approved \<longrightarrow> complete_plan p)"

text \<open>A due decision is about the draft as it still is, or about a version that is past.\<close>

definition decision_due :: "(string \<Rightarrow> issue_plan list) \<Rightarrow> plan_commit \<Rightarrow> bool" where
  "decision_due ps k \<longleftrightarrow>
     (\<exists>d at j. let c = pc_current k; qs = ps (scope_key (plan_scope c)) in
        pc_next k = decided_plan d at c \<and> plan_status c = Plan_draft \<and>
        pc_expectedVersion k = int (plan_version c) \<and> (d = Approve \<longrightarrow> complete_plan c) \<and>
        find_index (\<lambda>p. plan_id p = plan_id c) qs = Some j \<and>
        (plan_version c < plan_version (qs ! j) \<or> qs ! j = c))"

definition plans_ok :: "plan_environment \<Rightarrow> plans_in_flight \<Rightarrow> bool" where
  "plans_ok env f \<longleftrightarrow>
     (\<forall>k. revision_chain (plans_under f k) \<and> (\<forall>p\<in>set (plans_under f k). plan_fine env k p)) \<and>
     (\<forall>(p, previous)\<in>set (due_appends f). built_plan env p \<and> plan_status p = Plan_draft \<and>
        plan_version p = 1 \<and> previousPlanId p = previous) \<and>
     (\<forall>k\<in>set (due_decisions f). decision_due (plans_under f) k)"

lemma last_update: "xs \<noteq> [] \<Longrightarrow> xs[length xs - 1 := y] = butlast xs @ [y]"
  by (induction xs) (auto split: nat.splits)

text \<open>The position of an id never changes: lists of plans grow at their end and keep their ids.\<close>

lemma prepare_draft_built:
  assumes "prepare_draft env x c repo = Inr (p, previous)"
  shows "built_plan env p \<and> plan_status p = Plan_draft \<and> plan_version p = 1 \<and> previousPlanId p = previous"
  using assms by (auto simp: prepare_draft_def Let_def result_simps dest!: build_built)

lemma prepare_revision_built:
  assumes "prepare_revision env x c repo = Inr (p, previous)"
  shows "built_plan env p \<and> plan_status p = Plan_draft \<and> plan_version p = 1 \<and> previousPlanId p = previous"
  using assms
  by (auto simp: prepare_revision_def Let_def result_simps dest!: build_built split: option.splits if_splits)

lemma approval_commit_simps [simp]:
  "pc_current (approval_commit env x c a r q d l p) = p"
  "pc_next (approval_commit env x c a r q d l p) = decided_plan d (toISOString (plan_clock x 0)) p"
  "pc_expectedVersion (approval_commit env x c a r q d l p) = ac_expectedVersion c"
  "pc_lookup (approval_commit env x c a r q d l p) = l"
  by (simp_all add: approval_commit_def Let_def)

lemma prepared_decision:
  assumes "prepare_approval env x c repo = Inr (Inr k)"
  shows "\<exists>d at current. get_plan (ac_scope c) (ac_targetId c) repo = Some current \<and>
    pc_current k = current \<and> pc_next k = decided_plan d at current \<and> plan_status current = Plan_draft \<and>
    pc_expectedVersion k = int (plan_version current) \<and> (d = Approve \<longrightarrow> complete_plan current)"
proof -
  from assms obtain a r q d l current where
    "k = approval_commit env x c a r q d l current" "d = Approve \<longrightarrow> complete_plan current"
    "get_plan (ac_scope c) (ac_targetId c) repo = Some current" "plan_status current = Plan_draft"
    "int (plan_version current) = ac_expectedVersion c"
    by (auto simp: prepare_approval_def result_simps split: option.splits if_splits) blast
  then show ?thesis by auto
qed

lemma decided_plan_simps [simp]:
  "plan_id (decided_plan d at p) = plan_id p" "revision (decided_plan d at p) = revision p"
  "previousPlanId (decided_plan d at p) = previousPlanId p" "plan_scope (decided_plan d at p) = plan_scope p"
  "plan_version (decided_plan d at p) = Suc (plan_version p)"
  "plan_status (decided_plan d at p) = next_status d"
  "complete_plan (decided_plan d at p) = complete_plan p"
  "built_plan env (decided_plan d at p) = built_plan env p"
  by (simp_all add: decided_plan_def complete_plan_def built_plan_def)

text \<open>What a commit or an append does to the plans under each key.\<close>

lemma append_plan_cases:
  assumes "append_plan p previous repo = (r, repo')"
  shows "repo' = repo \<and> (\<exists>e. r = Inl e) \<or>
    r = Inr p \<and> map_option plan_id (at_last (plans_at repo (plan_scope p))) = previous \<and>
    revision p = (case at_last (plans_at repo (plan_scope p)) of None \<Rightarrow> 0 | Some q \<Rightarrow> revision q) + 1 \<and>
    repo' = repo\<lparr>plans := (plans repo)(scope_key (plan_scope p) \<mapsto> plans_at repo (plan_scope p) @ [p])\<rparr>"
  using assms by (auto simp: append_plan_def Let_def split: if_splits)

lemma revision_chain_append:
  assumes "revision_chain ps" "map_option plan_id (at_last ps) = previousPlanId p"
    "revision p = (case at_last ps of None \<Rightarrow> 0 | Some q \<Rightarrow> revision q) + 1"
  shows "revision_chain (ps @ [p])"
proof (cases "ps = []")
  case True
  with assms show ?thesis by (simp add: revision_chain_def at_last_def)
next
  case False
  then have "revision (ps ! (length ps - 1)) = length ps"
    using assms(1) by (simp add: revision_chain_def)
  with False assms show ?thesis
    by (auto simp: revision_chain_def at_last_def last_conv_nth nth_append less_Suc_eq)
qed

lemma revision_chain_decided:
  assumes "revision_chain ps" "i < length ps"
  shows "revision_chain (ps[i := decided_plan d at (ps ! i)])"
  using assms by (auto simp: revision_chain_def nth_list_update)

section \<open>What one step does to the plans\<close>

text \<open>A draft with the next revision number is appended after the plan it names.\<close>

definition appends_draft :: "issue_plan list \<Rightarrow> issue_plan list \<Rightarrow> bool" where
  "appends_draft ps qs \<longleftrightarrow> (\<exists>p. qs = ps @ [p] \<and> plan_status p = Plan_draft \<and> plan_version p = 1 \<and>
     revision p = length ps + 1 \<and> previousPlanId p = map_option plan_id (at_last ps))"

text \<open>The last plan, a draft, is decided, and approved only when it is complete.\<close>

definition decides_last :: "issue_plan list \<Rightarrow> issue_plan list \<Rightarrow> bool" where
  "decides_last ps qs \<longleftrightarrow> (\<exists>d at. ps \<noteq> [] \<and> plan_status (last ps) = Plan_draft \<and>
     (d = Approve \<longrightarrow> complete_plan (last ps)) \<and> qs = butlast ps @ [decided_plan d at (last ps)])"

lemma plans_okD:
  assumes "plans_ok env f"
  shows "revision_chain (plans_under f k)"
    "p \<in> set (plans_under f k) \<Longrightarrow> plan_fine env k p"
    "(q, previous) \<in> set (due_appends f) \<Longrightarrow>
       built_plan env q \<and> plan_status q = Plan_draft \<and> plan_version q = 1 \<and> previousPlanId q = previous"
    "c \<in> set (due_decisions f) \<Longrightarrow> decision_due (plans_under f) c"
  using assms unfolding plans_ok_def by fast+

lemma revision_last:
  assumes "revision_chain ps"
  shows "(case at_last ps of None \<Rightarrow> 0 | Some q \<Rightarrow> revision q) = length ps"
  using assms by (cases "ps = []") (auto simp: revision_chain_def at_last_def last_conv_nth)

lemma append_effect:
  assumes "plans_ok env f" "(p, previous) \<in> set (due_appends f)"
    "append_plan p previous (plan_store f) = (r, repo)"
  shows "plans repo = plans (plan_store f) \<or>
    (plans repo = (plans (plan_store f))(scope_key (plan_scope p) \<mapsto> plans_under f (scope_key (plan_scope p)) @ [p]) \<and>
     appends_draft (plans_under f (scope_key (plan_scope p))) (plans_under f (scope_key (plan_scope p)) @ [p]))"
  using append_plan_cases[OF assms(3)] plans_okD(3)[OF assms(1,2)]
    revision_last[OF plans_okD(1)[OF assms(1), of "scope_key (plan_scope p)"]]
  by (auto simp: plans_at_under appends_draft_def)

lemma decide_effect:
  assumes "plans_ok env f" "k \<in> set (due_decisions f)" "commitApproval k (plan_store f) = (r, repo)"
  shows "plans repo = plans (plan_store f) \<or>
    (\<exists>q qs. plans repo = (plans (plan_store f))(q \<mapsto> qs) \<and> decides_last (plans_under f q) qs)"
  using commitApproval_cases[OF assms(3)]
proof (elim disjE exE)
  fix i
  define q where "q = scope_key (plan_scope (pc_current k))"
  define ps where "ps = plans_under f q"
  assume h: "findApprovalReceipt (pc_lookup k) (plan_store f) = Inr None \<and>
    find_index (\<lambda>p. plan_id p = plan_id (pc_current k)) (plans_at (plan_store f) (plan_scope (pc_current k))) = Some i \<and>
    i = length (plans_at (plan_store f) (plan_scope (pc_current k))) - 1 \<and>
    int (plan_version (plans_at (plan_store f) (plan_scope (pc_current k)) ! i)) = pc_expectedVersion k \<and>
    int (plan_version (pc_next k)) = pc_expectedVersion k + 1 \<and> r = Inr (pc_receipt k) \<and>
    plans repo = (plans (plan_store f))(scope_key (plan_scope (pc_current k)) \<mapsto>
      (plans_at (plan_store f) (plan_scope (pc_current k)))[i := pc_next k]) \<and>
    plan_idempotency repo = (plan_idempotency (plan_store f))(idempotency_key (pc_lookup k) \<mapsto>
      \<lparr>record_lookup = pc_lookup k, record_completed = True, record_receipt = Some (pc_receipt k)\<rparr>)"
  from plans_okD(4)[OF assms(1,2)] obtain d at j where due:
    "pc_next k = decided_plan d at (pc_current k)" "plan_status (pc_current k) = Plan_draft"
    "pc_expectedVersion k = int (plan_version (pc_current k))"
    "d = Approve \<longrightarrow> complete_plan (pc_current k)"
    "find_index (\<lambda>p. plan_id p = plan_id (pc_current k)) ps = Some j"
    "plan_version (pc_current k) < plan_version (ps ! j) \<or> ps ! j = pc_current k"
    by (auto simp: decision_due_def Let_def ps_def q_def)
  from h due(3,5,6) have i: "i = j" "ps ! i = pc_current k" "i = length ps - 1"
    by (auto simp: plans_at_under ps_def q_def)
  from due(5) have "ps \<noteq> []" by auto
  then have l: "last ps = pc_current k" "ps[i := pc_next k] = butlast ps @ [pc_next k]"
    using i last_update[OF \<open>ps \<noteq> []\<close>] by (simp_all add: last_conv_nth)
  have "decides_last ps (ps[i := pc_next k])"
    unfolding decides_last_def using l due \<open>ps \<noteq> []\<close> by auto
  with h show ?thesis by (auto simp: plans_at_under ps_def q_def)
qed simp

section \<open>The invariant\<close>

lemma plans_under_step:
  "plans (plan_store g) = (plans (plan_store f))(q \<mapsto> qs) \<Longrightarrow>
     plans_under g k = (if k = q then qs else plans_under f k)"
  by (simp add: plans_under_def)

lemma decision_due_grows:
  assumes "decision_due ps c" "\<And>k. qs k = ps k \<or> (\<exists>p. qs k = ps k @ [p]) \<or> decides_last (ps k) (qs k)"
  shows "decision_due qs c"
proof -
  define key where "key = scope_key (plan_scope (pc_current c))"
  define is_it where "is_it = (\<lambda>p :: issue_plan. plan_id p = plan_id (pc_current c))"
  from assms(1) obtain d at j where due:
    "pc_next c = decided_plan d at (pc_current c)" "plan_status (pc_current c) = Plan_draft"
    "pc_expectedVersion c = int (plan_version (pc_current c))" "d = Approve \<longrightarrow> complete_plan (pc_current c)"
    "find_index is_it (ps key) = Some j"
    "plan_version (pc_current c) < plan_version (ps key ! j) \<or> ps key ! j = pc_current c"
    by (auto simp: decision_due_def Let_def key_def is_it_def)
  note j = find_index_nth[OF due(5)]
  have "find_index is_it (qs key) = Some j \<and>
    (plan_version (pc_current c) < plan_version (qs key ! j) \<or> qs key ! j = pc_current c)"
    using assms(2)[of key]
  proof (elim disjE exE)
    fix p assume "qs key = ps key @ [p]"
    with due j show ?thesis by (auto simp: find_index_append nth_append)
  next
    assume "decides_last (ps key) (qs key)"
    then obtain e now where l: "ps key \<noteq> []"
      "qs key = (ps key)[length (ps key) - 1 := decided_plan e now (ps key ! (length (ps key) - 1))]"
      by (auto simp: decides_last_def last_conv_nth simp flip: last_update)
    then have "find_index is_it (qs key) = Some j"
      using due(5) by (subst l(2), subst find_index_update) (auto simp: is_it_def)
    with l due(6) j show ?thesis by (auto simp: nth_list_update)
  qed (use due in simp)
  with due show ?thesis unfolding decision_due_def Let_def key_def is_it_def by blast
qed

definition plans_move :: "(string \<Rightarrow> issue_plan list) \<Rightarrow> (string \<Rightarrow> issue_plan list) \<Rightarrow> bool" where
  "plans_move ps qs \<longleftrightarrow> qs = ps \<or>
     (\<exists>key. (appends_draft (ps key) (qs key) \<or> decides_last (ps key) (qs key)) \<and>
        (\<forall>k. k \<noteq> key \<longrightarrow> qs k = ps k))"

lemma plans_move_each:
  "plans_move ps qs \<Longrightarrow> qs k = ps k \<or> (\<exists>p. qs k = ps k @ [p]) \<or> decides_last (ps k) (qs k)"
  unfolding plans_move_def appends_draft_def by metis

lemma decision_due_moves: "decision_due ps c \<Longrightarrow> plans_move ps qs \<Longrightarrow> decision_due qs c"
  by (rule decision_due_grows) (auto dest: plans_move_each)

lemma chain_moves:
  assumes "revision_chain ps" "appends_draft ps qs \<or> decides_last ps qs"
  shows "revision_chain qs"
  using assms(2)
proof
  assume "appends_draft ps qs"
  with assms(1) show ?thesis
    by (auto simp: appends_draft_def revision_last intro!: revision_chain_append)
next
  assume "decides_last ps qs"
  then obtain d at where "ps \<noteq> []" "qs = ps[length ps - 1 := decided_plan d at (ps ! (length ps - 1))]"
    by (auto simp: decides_last_def last_conv_nth simp flip: last_update)
  with assms(1) show ?thesis by (auto intro: revision_chain_decided)
qed

lemma fine_decided:
  assumes "\<forall>p\<in>set ps. plan_fine env k p" "decides_last ps qs"
  shows "\<forall>p\<in>set qs. plan_fine env k p"
proof -
  from assms(2) obtain d at where l: "ps \<noteq> []" "d = Approve \<longrightarrow> complete_plan (last ps)"
    "qs = butlast ps @ [decided_plan d at (last ps)]"
    unfolding decides_last_def by blast
  from assms(1) l(1) have "plan_fine env k (last ps)" "\<forall>p\<in>set (butlast ps). plan_fine env k p"
    by (auto dest: in_set_butlastD)
  with l show ?thesis by (cases d) (auto simp: plan_fine_def next_status_def)
qed

lemma plans_move_same: "plans (plan_store g) = plans (plan_store f) \<Longrightarrow> plans_move (plans_under f) (plans_under g)"
  by (simp add: plans_move_def plans_under_def fun_eq_iff)

lemma plans_moveI:
  assumes "plans (plan_store g) = (plans (plan_store f))(q \<mapsto> qs)"
    "appends_draft (plans_under f q) qs \<or> decides_last (plans_under f q) qs"
  shows "plans_move (plans_under f) (plans_under g)"
  unfolding plans_move_def
  by (intro disjI2 exI[of _ q]) (simp add: plans_under_step[OF assms(1)] assms(2))

lemma step_moves:
  assumes "plans_ok env f" "plan_step env f g"
  shows "plans_move (plans_under f) (plans_under g)"
  using assms(2,1)
proof cases
  case (append p previous r repo)
  from append_effect[OF assms(1) append(2,3)] append(1) show ?thesis
    by (auto intro: plans_move_same plans_moveI)
next
  case (decide k r' repo)
  from decide_effect[OF assms(1) decide(2,3)] decide(1) show ?thesis
    by (auto intro: plans_move_same plans_moveI)
qed (simp_all add: plans_move_same)

lemma step_plans_fine:
  assumes "plans_ok env f" "plan_step env f g"
  shows "\<forall>p\<in>set (plans_under g k). plan_fine env k p"
  using assms(2,1)
proof cases
  case (append p previous r repo)
  have new: "plan_fine env (scope_key (plan_scope p)) p"
    using plans_okD(3)[OF assms(1) append(2)] by (simp add: plan_fine_def)
  from append_effect[OF assms(1) append(2,3)] show ?thesis
  proof (elim disjE conjE)
    assume "plans repo = (plans (plan_store f))(scope_key (plan_scope p) \<mapsto>
      plans_under f (scope_key (plan_scope p)) @ [p])"
    then have "plans (plan_store g) = (plans (plan_store f))(scope_key (plan_scope p) \<mapsto>
      plans_under f (scope_key (plan_scope p)) @ [p])" using append(1) by simp
    from plans_under_step[OF this] new plans_okD(2)[OF assms(1)] show ?thesis by simp
  qed (use append(1) plans_okD(2)[OF assms(1)] in \<open>simp add: plans_under_def\<close>)
next
  case (decide c r' repo)
  from decide_effect[OF assms(1) decide(2,3)] consider "plans repo = plans (plan_store f)"
    | q qs where "plans repo = (plans (plan_store f))(q \<mapsto> qs)" "decides_last (plans_under f q) qs" by blast
  then show ?thesis
  proof cases
    case 1
    with decide(1) plans_okD(2)[OF assms(1)] show ?thesis by (simp add: plans_under_def)
  next
    case 2
    then have "plans (plan_store g) = (plans (plan_store f))(q \<mapsto> qs)" using decide(1) by simp
    from plans_under_step[OF this] fine_decided[OF _ 2(2), of env q] plans_okD(2)[OF assms(1)]
    show ?thesis by simp
  qed
qed (use plans_okD(2)[OF assms(1)] in \<open>simp_all add: plans_under_def\<close>)

lemma get_plan_due:
  assumes "plans_ok env f" "prepare_approval env x c (plan_store f) = Inr (Inr k)"
  shows "decision_due (plans_under f) k"
proof -
  from prepared_decision[OF assms(2)] obtain d at where p:
    "get_plan (ac_scope c) (ac_targetId c) (plan_store f) = Some (pc_current k)"
    "pc_next k = decided_plan d at (pc_current k)" "plan_status (pc_current k) = Plan_draft"
    "pc_expectedVersion k = int (plan_version (pc_current k))"
    "d = Approve \<longrightarrow> complete_plan (pc_current k)" by blast
  from p(1) have found: "List.find (\<lambda>p. plan_id p = ac_targetId c) (plans_under f (scope_key (ac_scope c))) = Some (pc_current k)"
    by (simp add: get_plan_def plans_at_under)
  from find_index_found[OF found] obtain j where
    j: "find_index (\<lambda>p. plan_id p = ac_targetId c) (plans_under f (scope_key (ac_scope c))) = Some j"
    "plans_under f (scope_key (ac_scope c)) ! j = pc_current k" by blast
  from found have "pc_current k \<in> set (plans_under f (scope_key (ac_scope c)))" "plan_id (pc_current k) = ac_targetId c"
    by (auto simp: find_Some_iff)
  then have "scope_key (plan_scope (pc_current k)) = scope_key (ac_scope c)" "plan_id (pc_current k) = ac_targetId c"
    using plans_okD(2)[OF assms(1)] by (auto simp: plan_fine_def)
  with p j show ?thesis unfolding decision_due_def Let_def by fastforce
qed

lemma step_dues:
  assumes "plans_ok env f" "plan_step env f g"
  shows "\<forall>(p, previous)\<in>set (due_appends g). built_plan env p \<and> plan_status p = Plan_draft \<and>
      plan_version p = 1 \<and> previousPlanId p = previous"
    and "\<forall>c\<in>set (due_decisions g). decision_due (plans_under f) c"
proof -
  from assms(2) show "\<forall>(p, previous)\<in>set (due_appends g). built_plan env p \<and> plan_status p = Plan_draft \<and>
      plan_version p = 1 \<and> previousPlanId p = previous"
  proof cases
    case (due_draft x c a)
    then show ?thesis using plans_okD(3)[OF assms(1)]
      by (cases a) (auto dest: prepare_draft_built)
  next
    case (due_revision x rv a)
    then show ?thesis using plans_okD(3)[OF assms(1)]
      by (cases a) (auto dest: prepare_revision_built)
  qed (use plans_okD(3)[OF assms(1)] in \<open>auto dest!: set_remove1_subset[THEN subsetD]\<close>)
  from assms(2) show "\<forall>c\<in>set (due_decisions g). decision_due (plans_under f) c"
  proof cases
    case (due_decision x ac k)
    then show ?thesis using plans_okD(4)[OF assms(1)] get_plan_due[OF assms(1)] by auto
  qed (use plans_okD(4)[OF assms(1)] in \<open>auto dest!: set_remove1_subset[THEN subsetD]\<close>)
qed

lemma plans_ok_step:
  assumes "plans_ok env f" "plan_step env f g"
  shows "plans_ok env g"
proof -
  note moves = step_moves[OF assms]
  have "revision_chain (plans_under g k)" for k
  proof (cases "plans_under g k = plans_under f k")
    case False
    with moves have "appends_draft (plans_under f k) (plans_under g k) \<or> decides_last (plans_under f k) (plans_under g k)"
      unfolding plans_move_def by metis
    with chain_moves[OF plans_okD(1)[OF assms(1)]] show ?thesis .
  qed (simp add: plans_okD(1)[OF assms(1)])
  then show ?thesis
    unfolding plans_ok_def
    using step_plans_fine[OF assms] step_dues[OF assms] decision_due_moves[OF _ moves] by blast
qed

lemma plans_ok_reachable: "(plan_step env)\<^sup>*\<^sup>* no_plans f \<Longrightarrow> plans_ok env f"
proof (induction rule: rtranclp_induct)
  case base
  then show ?case by (simp add: plans_ok_def no_plans_def plans_under_def revision_chain_def)
qed (rule plans_ok_step)

section \<open>Plans that can be executed\<close>

definition plan_input :: "issue_plan \<Rightarrow> compile_input" where
  "plan_input p = \<lparr>requirements = source_requirements (plan_source p),
     acceptanceCriterionIds = source_criteria (plan_source p), issues = plan_issues p\<rparr>"

text \<open>Every issue in exactly one wave, after the issues it depends on.\<close>

definition waves_executable :: "issue_plan \<Rightarrow> bool" where
  "waves_executable p \<longleftrightarrow>
     mset (concat (map wave_issueKeys (plan_waves p))) = mset (map key (plan_issues p)) \<and>
     (\<forall>pre w post d dep. plan_waves p = pre @ w # post \<and> d \<in> set (plan_issues p) \<and>
        key d \<in> set (wave_issueKeys w) \<and> dep \<in> set (dependencyCandidates d) \<longrightarrow>
        (\<exists>w' \<in> set pre. dep \<in> set (wave_issueKeys w')))"

text \<open>One route for every issue; where the risk is high it is at least the recommended one.\<close>

definition route_for :: "issue_draft \<Rightarrow> model_recommendation \<Rightarrow> bool" where
  "route_for d r \<longleftrightarrow> issueKey r = key d \<and>
     (resourceRisk d \<and> (securityRisk d \<or> publicRisk d) \<longrightarrow>
        capabilityTier (recommendModelRoute d) \<le> capabilityTier r \<and>
        reasoningEffort (recommendModelRoute d) \<le> reasoningEffort r)"

definition routes_adequate :: "issue_plan \<Rightarrow> bool" where
  "routes_adequate p \<longleftrightarrow>
     mset (map issueKey (modelRecommendations p)) = mset (map key (plan_issues p)) \<and>
     (\<forall>r \<in> set (modelRecommendations p). \<exists>d \<in> set (plan_issues p). route_for d r)"

lemma routed_issue_adequate:
  assumes "routed_issue env overrides d = Inr r"
  shows "route_for d r"
proof -
  have f: "issueKey (recommendModelRoute d) = key d" "route_factors (recommendModelRoute d) = factors d"
    by (simp_all add: recommendModelRoute_def Let_def)
  have h: "resourceRisk d \<and> (securityRisk d \<or> publicRisk d) \<Longrightarrow> route_risk (factors d) = High_risk"
    by (simp add: factors_def)
  show ?thesis
  proof (cases "List.find (\<lambda>ov. fst ov = key d) overrides")
    case None
    with assms have "r = recommendModelRoute d" by (simp add: routed_issue_def)
    with f show ?thesis by (simp add: route_for_def)
  next
    case (Some ov)
    with assms have w: "withModelRouteOverride (valid_date env) (recommendModelRoute d) (snd ov) = Inr r"
      by (simp add: routed_issue_def)
    note k = override_keeps[OF w]
    from k(2) k(5) f h show ?thesis unfolding route_for_def by metis
  qed
qed

lemma list_all2_covers: "list_all2 R xs ys \<Longrightarrow> \<forall>y\<in>set ys. \<exists>x\<in>set xs. R x y"
  by (induction rule: list_all2_induct) auto

lemma built_routes_adequate:
  assumes "built_plan env p"
  shows "routes_adequate p"
proof -
  from assms obtain overrides routes where
    m: "map_try (\<lambda>_ d. routed_issue env overrides d) 0 (plan_issues p) = Inr routes"
    and r: "modelRecommendations p = sort_by (\<lambda>l r. localeCompare env (issueKey l) (issueKey r)) routes"
    unfolding built_plan_def by blast
  have rel: "list_all2 route_for (plan_issues p) routes"
    by (rule map_try_all_rel[OF m]) (rule routed_issue_adequate)
  then have "map issueKey routes = map key (plan_issues p)"
    by (induction rule: list_all2_induct) (simp_all add: route_for_def)
  then have "mset (map issueKey (modelRecommendations p)) = mset (map key (plan_issues p))"
    unfolding r by (metis mset_map mset_sort_by)
  with list_all2_covers[OF rel] show ?thesis unfolding routes_adequate_def r by simp
qed

lemma built_waves_executable:
  assumes "built_plan env p" "compiled_valid (compilation p)"
  shows "waves_executable p"
proof -
  from assms have ok: "plan_ok (plan_input p)" and
    w: "plan_waves p = waves (scheduleExecutionWaves (localeCompare env) (plan_issues p))"
    by (simp_all add: built_plan_def plan_input_def flip: compiled_valid_iff)
  have dist: "distinct (map key (plan_issues p))" using ok by (simp add: plan_ok_def plan_input_def)
  have issues: "issues (plan_input p) = plan_issues p" by (simp add: plan_input_def)
  have "acyclic (edge (dependencies (plan_input p)))" using ok by (simp only: plan_ok_def)
  then have acyc: "acyclic (issue_needs (plan_issues p))"
    using edge_dependencies_needs[of "plan_input p"] dist unfolding issues by simp
  let ?ks = "concat (map wave_issueKeys (plan_waves p))"
  from schedule_covers[OF dist, of "localeCompare env"] acyc
  have "distinct ?ks" "set ?ks = set (map key (plan_issues p))" unfolding w by simp_all
  then have "mset ?ks = mset (map key (plan_issues p))"
    using set_eq_iff_mset_eq_distinct[OF _ dist] by blast
  moreover have "\<exists>w' \<in> set pre. dep \<in> set (wave_issueKeys w')"
    if "plan_waves p = pre @ w # post" "d \<in> set (plan_issues p)" "key d \<in> set (wave_issueKeys w)"
      "dep \<in> set (dependencyCandidates d)" for pre w post d dep
  proof (rule dependencies_scheduled_before[OF dist])
    show "dep \<in> key ` set (plan_issues p)"
      using ok that(2,4) by (auto simp: plan_ok_def plan_input_def issue_traceable_def)
  qed (use that w in simp_all)
  ultimately show ?thesis unfolding waves_executable_def by blast
qed

lemma built_complete:
  assumes "built_plan env p"
  shows "complete_plan p \<longleftrightarrow> compiled_valid (compilation p)"
proof -
  from built_routes_adequate[OF assms] have "length (modelRecommendations p) = length (plan_issues p)"
    unfolding routes_adequate_def by (metis length_map size_mset)
  moreover have "length (concat (map wave_issueKeys (plan_waves p))) = length (plan_issues p)"
    if "compiled_valid (compilation p)"
    using built_waves_executable[OF assms that] unfolding waves_executable_def
    by (metis length_map size_mset)
  ultimately show ?thesis by (auto simp: complete_plan_def)
qed

section \<open>Properties\<close>

text \<open>
  Property C14. Whatever commands are in flight, the plans of a Goal are a chain of revisions 1,
  2, 3, ..., each naming its predecessor, and a step leaves them alone, appends a draft of
  version 1 with the next revision, or decides the last plan, which was a draft (its content
  is kept, its version grows by one, and it is approved only when it is complete). Hence a
  plan that is decided, or that is not the last one, never changes again.
\<close>

theorem plan_history_is_append_only:
  assumes "(plan_step env)\<^sup>*\<^sup>* no_plans f" and "plan_step env f g"
  shows "revision_chain (plans_under f k) \<and>
    (plans_under g k = plans_under f k \<or> appends_draft (plans_under f k) (plans_under g k) \<or>
     decides_last (plans_under f k) (plans_under g k)) \<and>
    (\<forall>i < length (plans_under f k). i + 1 < length (plans_under f k) \<or>
        plan_status (plans_under f k ! i) \<noteq> Plan_draft \<longrightarrow>
       i < length (plans_under g k) \<and> plans_under g k ! i = plans_under f k ! i)"
proof -
  from plans_ok_reachable[OF assms(1)] have ok: "plans_ok env f" .
  from step_moves[OF ok assms(2)]
  have c: "plans_under g k = plans_under f k \<or> appends_draft (plans_under f k) (plans_under g k) \<or>
     decides_last (plans_under f k) (plans_under g k)"
    unfolding plans_move_def by metis
  moreover have "i < length (plans_under g k) \<and> plans_under g k ! i = plans_under f k ! i"
    if i: "i < length (plans_under f k)" "i + 1 < length (plans_under f k) \<or>
      plan_status (plans_under f k ! i) \<noteq> Plan_draft" for i
    using c
  proof (elim disjE)
    assume "decides_last (plans_under f k) (plans_under g k)"
    then obtain d at where l: "plan_status (last (plans_under f k)) = Plan_draft" "plans_under f k \<noteq> []"
      "plans_under g k = butlast (plans_under f k) @ [decided_plan d at (last (plans_under f k))]"
      unfolding decides_last_def by blast
    have "i \<noteq> length (plans_under f k) - 1" using i l(1,2) by (auto simp: last_conv_nth)
    then have "i < length (plans_under f k) - 1" using i by simp
    then show ?thesis unfolding l(3) by (simp add: nth_append nth_butlast)
  qed (use i in \<open>auto simp: appends_draft_def nth_append\<close>)
  ultimately show ?thesis using plans_okD(1)[OF ok] by blast
qed

text \<open>
  Property C1. Every plan that was ever approved can be executed: its compilation is that of its
  issues and accepts them (every requirement and criterion of the specification covered, no
  unknown reference, no cycle), every issue is in exactly one wave, after everything it
  depends on, every issue has one model route, not below the recommended one where the risk
  is high, and the digest is that of the parts. For built plans the completeness check of the
  approval comes down to the validity of the compilation.
\<close>

theorem approved_plans_are_executable:
  assumes "(plan_step env)\<^sup>*\<^sup>* no_plans f" and "p \<in> set (plans_under f k)"
  shows "(complete_plan p \<longleftrightarrow> compiled_valid (compilation p)) \<and>
    (plan_status p = Plan_approved \<longrightarrow>
       compilation p = compileIssuePlan (plan_input p) \<and> plan_ok (plan_input p) \<and>
       waves_executable p \<and> routes_adequate p \<and>
       plan_digest p = planDigest env (plan_source p) (plan_issues p) (compilation p)
         (plan_conflicts p) (plan_waves p) (modelRecommendations p))"
proof -
  from plans_okD(2)[OF plans_ok_reachable[OF assms(1)] assms(2)]
  have b: "built_plan env p" and a: "plan_status p = Plan_approved \<longrightarrow> complete_plan p"
    by (simp_all add: plan_fine_def)
  have comp: "compilation p = compileIssuePlan (plan_input p)"
    using b unfolding built_plan_def plan_input_def by blast
  have digest: "plan_digest p = planDigest env (plan_source p) (plan_issues p) (compilation p)
      (plan_conflicts p) (plan_waves p) (modelRecommendations p)"
    using b unfolding built_plan_def by blast
  have "plan_ok (plan_input p) \<and> waves_executable p" if "plan_status p = Plan_approved"
    using that a built_complete[OF b] built_waves_executable[OF b] comp
    by (simp flip: compiled_valid_iff)
  with built_complete[OF b] built_routes_adequate[OF b] comp digest show ?thesis by blast
qed

text \<open>
  Approving is idempotent: once a command with a given lookup has succeeded, the
  same command, whoever issues it again and whatever was committed or appended in between,
  answers with the receipt of the first success and changes nothing.
\<close>

theorem approval_takes_effect_once:
  assumes "approve env x c repo = (Inr receipt, repo1)"
    and "plan_moves\<^sup>*\<^sup>* repo1 repo2"
    and "approval_looks_up env x' c' = approval_looks_up env x c"
  shows "approve env x' c' repo2 = (Inr receipt, repo2)"
  using assms by (rule approvals.at_most_once)

section \<open>A plan that is drafted and approved\<close>

definition draft_now ::
  "plan_environment \<Rightarrow> plan_call \<Rightarrow> create_draft_command \<Rightarrow> plans_in_flight \<Rightarrow> plans_in_flight" where
  "draft_now env x c f =
     (case prepare_draft env x c (plan_store f) of
        Inr (p, previous) \<Rightarrow> f\<lparr>plan_store := snd (append_plan p previous (plan_store f))\<rparr>
      | _ \<Rightarrow> f)"

definition decide_now ::
  "plan_environment \<Rightarrow> plan_call \<Rightarrow> issue_plan_approval_command \<Rightarrow> plans_in_flight \<Rightarrow> plans_in_flight" where
  "decide_now env x c f =
     (case prepare_approval env x c (plan_store f) of
        Inr (Inr k) \<Rightarrow> f\<lparr>plan_store := snd (commitApproval k (plan_store f))\<rparr>
      | _ \<Rightarrow> f)"

lemma draft_now_steps: "(plan_step env)\<^sup>*\<^sup>* f (draft_now env x c f)"
proof (cases "\<exists>a. prepare_draft env x c (plan_store f) = Inr a")
  case True
  then obtain p previous where p: "prepare_draft env x c (plan_store f) = Inr (p, previous)" by auto
  let ?f = "f\<lparr>due_appends := (p, previous) # due_appends f\<rparr>"
  have "plan_step env f ?f" by (rule due_draft[OF p])
  moreover have "plan_step env ?f (draft_now env x c f)"
    using append[of p previous ?f "fst (append_plan p previous (plan_store f))"
        "snd (append_plan p previous (plan_store f))" env]
    by (simp add: draft_now_def p)
  ultimately show ?thesis by (rule converse_rtranclp_into_rtranclp[OF _ r_into_rtranclp])
qed (auto simp: draft_now_def split: sum.splits)

lemma decide_now_steps: "(plan_step env)\<^sup>*\<^sup>* f (decide_now env x c f)"
proof (cases "\<exists>k. prepare_approval env x c (plan_store f) = Inr (Inr k)")
  case True
  then obtain k where k: "prepare_approval env x c (plan_store f) = Inr (Inr k)" by blast
  let ?f = "f\<lparr>due_decisions := k # due_decisions f\<rparr>"
  have "plan_step env f ?f" by (rule due_decision[OF k])
  moreover have "plan_step env ?f (decide_now env x c f)"
    using decide[of k ?f "fst (commitApproval k (plan_store f))" "snd (commitApproval k (plan_store f))" env]
    by (simp add: decide_now_def k)
  ultimately show ?thesis by (rule converse_rtranclp_into_rtranclp[OF _ r_into_rtranclp])
qed (auto simp: decide_now_def split: sum.splits)

definition sample_environment :: plan_environment where
  "sample_environment = \<lparr>sha256Hex = (\<lambda>s. ''''), localeCompare = (\<le>), valid_date = (\<lambda>s. True)\<rparr>"

definition sample_plan_call :: plan_call where
  "sample_plan_call = \<lparr>plan_authorize = (\<lambda>actor organization project permission. Inr ()),
     plan_clock = (\<lambda>n. 1000), generated = (\<lambda>n. if n = 0 then ''plan-1'' else ''id-'' @ show_nat n)\<rparr>"

definition sample_scope :: goal_scope where
  "sample_scope = \<lparr>organizationId = ''org'', projectId = ''project'', goalId = ''goal-1''\<rparr>"

definition sample_source :: issue_plan_source where
  "sample_source = \<lparr>specRevisionId = ''spec-1'', specRevisionVersion = 1, specArtifactDigest = ''d'',
     source_requirements = requirements sample_input, source_criteria = acceptanceCriterionIds sample_input\<rparr>"

definition sample_drafting :: create_draft_command where
  "sample_drafting = \<lparr>cd_scope = sample_scope, cd_source = sample_source,
     cd_draft = draft_json (issues sample_input), cd_plannerRunId = ''run-1'', cd_plannerConfiguration = \<lparr>adapter = ''codex'',
       modelProfile = ''default'', config_schemaVersion = ''v1''\<rparr>, cd_actorId = ''actor''\<rparr>"

definition sample_approval :: issue_plan_approval_command where
  "sample_approval = \<lparr>ac_scope = sample_scope, ac_targetType = ''issue_plan'', ac_targetId = ''plan-1'',
     ac_expectedVersion = 1, ac_actorId = ''actor'', ac_reason = ''Agreed'', ac_requestId = ''request-1'',
     ac_idempotencyKey = ''key-1'', ac_policyRevision = ''issue-plan-approval.v1'', ac_decision = ''approve'',
     ac_affectedItemIds = [''B'', ''A''], ac_payload = JObj []\<rparr>"

definition sample_drafted :: plans_in_flight where
  "sample_drafted = draft_now sample_environment sample_plan_call sample_drafting no_plans"

definition sample_approved :: plans_in_flight where
  "sample_approved = decide_now sample_environment sample_plan_call sample_approval sample_drafted"

lemma sample_approved_run: "(plan_step sample_environment)\<^sup>*\<^sup>* no_plans sample_approved"
  unfolding sample_approved_def sample_drafted_def
  by (rule rtranclp_trans[OF draft_now_steps decide_now_steps])

lemma sample_draft_accepted: "validateIssuePlanDraft (draft_json (issues sample_input)) = Inr (issues sample_input)"
  by (rule validateIssuePlanDraft_json)
    (simp add: sample_input_def clean_draft_def clean_issue_def sample_issue_def clean_text_def clean_texts_def
      clean_acceptance_def clean_conflicts_def required_context_def trim_def is_space_def
      is_upper_def is_digit_def less_eq_char_def flip: str_includes_iff_sublist)

lemma build_plain: "\<exists>p. build env now i scope source ds previous runId config [] = Inr p"
proof -
  have "map_try (\<lambda>_ d. routed_issue env [] d) 0 ds = Inr (map recommendModelRoute ds)"
    by (rule map_try_Inr_map) (simp add: routed_issue_def)
  then show ?thesis by (simp add: build_def Let_def)
qed

lemma build_parts:
  assumes "build env now i scope source ds previous runId config overrides = Inr p"
  shows "plan_id p = i" "plan_issues p = ds" "plan_source p = source"
    "revision p = (case previous of None \<Rightarrow> 0 | Some q \<Rightarrow> revision q) + 1"
  using assms by (auto simp: build_def Let_def result_simps)

abbreviation sample_plan_key :: string where
  "sample_plan_key \<equiv> scope_key sample_scope"

lemma sample_drafted_plan:
  "\<exists>p. plan_store sample_drafted = (plan_store no_plans)\<lparr>plans := Map.empty(sample_plan_key \<mapsto> [p])\<rparr> \<and>
     plan_id p = ''plan-1'' \<and> plan_scope p = sample_scope \<and> plan_status p = Plan_draft \<and> plan_version p = 1 \<and>
     plan_issues p = issues sample_input \<and> complete_plan p"
proof -
  have run: "plan_text ''run-1'' ''plannerRunId'' 200 = Inr ''run-1''" by code_simp
  obtain p where p: "build sample_environment 1000 ''plan-1'' sample_scope sample_source
      (issues sample_input) None ''run-1'' (cd_plannerConfiguration sample_drafting) [] = Inr p"
    using build_plain by blast
  note parts = build_parts[OF p]
  from build_built[OF p] have b: "built_plan sample_environment p" "plan_status p = Plan_draft"
    "plan_version p = 1" "plan_scope p = sample_scope" by simp_all
  have "compiled_valid (compileIssuePlan sample_input)" by code_simp
  moreover have "compilation p = compileIssuePlan sample_input"
  proof -
    have "sample_input = \<lparr>requirements = source_requirements sample_source,
        acceptanceCriterionIds = source_criteria sample_source, issues = issues sample_input\<rparr>"
      by (simp add: sample_input_def sample_source_def)
    with b(1) parts(2,3) show ?thesis unfolding built_plan_def by metis
  qed
  ultimately have "compiled_valid (compilation p)" by simp
  with built_complete[OF b(1)] have "complete_plan p" by simp
  moreover have "prepare_draft sample_environment sample_plan_call sample_drafting (plan_store no_plans) = Inr (p, None)"
    using p run
    by (simp add: prepare_draft_def sample_plan_call_def sample_drafting_def sample_draft_accepted
        getLatest_def plans_at_def no_plans_def at_last_def)
  ultimately show ?thesis
    using b parts
    by (intro exI[of _ p])
      (simp add: sample_drafted_def draft_now_def append_plan_def plans_at_def no_plans_def at_last_def)
qed

lemma sample_approved_plan:
  "\<exists>p. plans_under sample_drafted sample_plan_key = [p] \<and> plan_status p = Plan_draft \<and>
     plans_under sample_approved sample_plan_key = [decided_plan Approve (toISOString 1000) p]"
proof -
  from sample_drafted_plan obtain p where p:
    "plan_store sample_drafted = (plan_store no_plans)\<lparr>plans := Map.empty(sample_plan_key \<mapsto> [p])\<rparr>"
    "plan_id p = ''plan-1''" "plan_scope p = sample_scope" "plan_status p = Plan_draft" "plan_version p = 1"
    "plan_issues p = issues sample_input" "complete_plan p" by blast
  have texts: "plan_text ''actor'' ''actorId'' 200 = Inr ''actor''"
    "plan_text ''Agreed'' ''reason'' 4000 = Inr ''Agreed''"
    "plan_text ''request-1'' ''requestId'' 200 = Inr ''request-1''"
    "plan_text ''key-1'' ''idempotencyKey'' 200 = Inr ''key-1''"
    "parse_decision ''approve'' = Some Approve"
    "exactIssueKeys [''B'', ''A''] (map key (issues sample_input))" by code_simp+
  obtain l where "check_approval sample_environment sample_plan_call sample_approval =
      Inr (''actor'', ''Agreed'', ''request-1'', Approve, l)"
    by (simp add: check_approval_def sample_approval_def sample_plan_call_def texts
        issuePlanApprovalPolicyRevision_def)
  then have prep: "prepare_approval sample_environment sample_plan_call sample_approval (plan_store sample_drafted) =
      Inr (Inr (approval_commit sample_environment sample_plan_call sample_approval ''actor'' ''Agreed''
        ''request-1'' Approve l p))"
    using p texts(6)
    by (simp add: prepare_approval_def findApprovalReceipt_def find_receipt_def no_plans_def get_plan_def
        getLatest_def plans_at_def at_last_def sample_approval_def)
  have "plan_store sample_approved = snd (commitApproval (approval_commit sample_environment sample_plan_call
      sample_approval ''actor'' ''Agreed'' ''request-1'' Approve l p) (plan_store sample_drafted))"
    by (simp add: sample_approved_def decide_now_def prep)
  with p show ?thesis
    by (simp add: commitApproval_def findApprovalReceipt_def find_receipt_def no_plans_def plans_at_def
        plans_under_def sample_approval_def sample_plan_call_def)
qed

theorem approved_plans_are_executable_witness:
  "\<exists>p. plans_under sample_approved sample_plan_key = [p] \<and> plan_status p = Plan_approved \<and>
     plan_ok (plan_input p) \<and> waves_executable p"
proof -
  from sample_approved_plan obtain p where
    p: "plans_under sample_approved sample_plan_key = [decided_plan Approve (toISOString 1000) p]" by blast
  then have "decided_plan Approve (toISOString 1000) p \<in> set (plans_under sample_approved sample_plan_key)"
    by simp
  from approved_plans_are_executable[OF sample_approved_run this] p show ?thesis
    by (simp add: next_status_def)
qed

text \<open>A revision of the approved plan is refused; the plan that is decided stays as it is.\<close>

theorem plan_history_is_append_only_witness:
  "\<exists>f p. (plan_step sample_environment)\<^sup>*\<^sup>* no_plans f \<and> plans_under f sample_plan_key = [p] \<and>
     plan_status p = Plan_approved \<and>
     (\<forall>g. plan_step sample_environment f g \<longrightarrow> plans_under g sample_plan_key ! 0 = p)"
proof -
  from sample_approved_plan obtain p where
    p: "plans_under sample_approved sample_plan_key = [decided_plan Approve (toISOString 1000) p]" by blast
  have "plans_under g sample_plan_key ! 0 = decided_plan Approve (toISOString 1000) p"
    if "plan_step sample_environment sample_approved g" for g
    using plan_history_is_append_only[OF sample_approved_run that, of sample_plan_key] p
    by (simp add: next_status_def)
  with p sample_approved_run show ?thesis by (auto simp: next_status_def)
qed

theorem approval_takes_effect_once_witness:
  "let s = approve sample_environment sample_plan_call sample_approval (plan_store sample_drafted) in
   \<exists>receipt. approve sample_environment (sample_plan_call\<lparr>plan_clock := (\<lambda>n. 5000)\<rparr>) sample_approval (snd s) =
     (Inr receipt, snd s)"
proof -
  let ?s = "approve sample_environment sample_plan_call sample_approval (plan_store sample_drafted)"
  from sample_approved_plan have "sample_approved \<noteq> sample_drafted"
    by (auto simp: next_status_def dest!: arg_cong[of _ _ plan_status])
  then obtain k where k: "prepare_approval sample_environment sample_plan_call sample_approval (plan_store sample_drafted) = Inr (Inr k)"
    "snd (commitApproval k (plan_store sample_drafted)) \<noteq> plan_store sample_drafted"
    by (auto simp: sample_approved_def decide_now_def split: sum.splits) (metis plans_in_flight.surjective
        plans_in_flight.update_convs(1))
  then obtain receipt where r: "?s = (Inr receipt, snd ?s)"
    by (cases "commitApproval k (plan_store sample_drafted)")
      (auto simp: approve_def dest!: commitApproval_cases)
  have l: "approval_looks_up sample_environment (sample_plan_call\<lparr>plan_clock := (\<lambda>n. 5000)\<rparr>) sample_approval =
      approval_looks_up sample_environment sample_plan_call sample_approval"
    by (simp add: approval_looks_up_def check_approval_def sample_plan_call_def)
  from approval_takes_effect_once[OF r rtranclp.rtrancl_refl l] show ?thesis by (auto simp: Let_def)
qed

end
