(* ===== verification/Access_Control.thy ===== *)
theory Access_Control
  imports Instants Json_Text "HOL-Library.Word"
begin

text \<open>
  \<^verbatim>\<open>auth/rbac-policy.ts\<close>, \<^verbatim>\<open>auth/role-binding-service.ts\<close>, \<^verbatim>\<open>auth/role-binding-repository.ts\<close>,
  \<^verbatim>\<open>auth/memory-role-binding-repository.ts\<close> and \<^verbatim>\<open>auth/visibility-scope.ts\<close>: who may do what where,
  who may hand out which role, and what an actor can see. The clock and the generated ids are the
  surroundings of one call.
\<close>

unbundle bit_operations_syntax

section \<open>Roles, permissions and bindings\<close>

datatype role = Organization_owner | Project_admin | Approver | Operator | Viewer

definition roles :: "role list" where
  "roles = [Organization_owner, Project_admin, Approver, Operator, Viewer]"

datatype permission =
    Organization_manage | Project_manage | Role_binding_manage | Goal_read | Goal_write | Goal_approve
  | Goal_verify | Goal_accept | Spec_read | Spec_generate | Spec_approve | Issue_read | Issue_generate
  | Issue_edit | Issue_approve | Issue_project | Run_operate | Evidence_read | Delivery_report_read
  | Delivery_report_generate

definition permissions :: "permission list" where
  "permissions = [Organization_manage, Project_manage, Role_binding_manage, Goal_read, Goal_write,
     Goal_approve, Goal_verify, Goal_accept, Spec_read, Spec_generate, Spec_approve, Issue_read,
     Issue_generate, Issue_edit, Issue_approve, Issue_project, Run_operate, Evidence_read,
     Delivery_report_read, Delivery_report_generate]"

fun grants :: "role \<Rightarrow> permission list" where
  "grants Organization_owner = permissions"
| "grants Project_admin = [Project_manage, Role_binding_manage, Goal_read, Goal_write, Goal_verify,
     Spec_read, Spec_generate, Issue_read, Issue_generate, Issue_edit, Run_operate, Evidence_read,
     Delivery_report_read, Delivery_report_generate]"
| "grants Approver = [Goal_read, Goal_write, Goal_approve, Goal_verify, Goal_accept, Spec_read,
     Spec_generate, Spec_approve, Issue_read, Issue_generate, Issue_edit, Issue_approve, Issue_project,
     Evidence_read, Delivery_report_read, Delivery_report_generate]"
| "grants Operator = [Goal_read, Goal_verify, Spec_read, Issue_read, Run_operate, Evidence_read,
     Delivery_report_read, Delivery_report_generate]"
| "grants Viewer = [Goal_read, Spec_read, Issue_read, Evidence_read, Delivery_report_read]"

record role_binding =
  binding_id :: string
  binding_organizationId :: string
  binding_projectId :: "string option"
  binding_actorId :: string
  binding_role :: role
  binding_version :: nat
  binding_createdAt :: string
  binding_revokedAt :: "string option"

text \<open>A scope without a project, or with the project null, is \<open>None\<close>.\<close>

record role_scope =
  rs_actorId :: string
  rs_organizationId :: string
  rs_projectId :: "string option"

datatype role_action = Role_assigned | Role_revoked

record role_change_audit =
  ra_id :: string
  ra_organizationId :: string
  ra_projectId :: "string option"
  ra_actorId :: string
  ra_action :: role_action
  ra_entityId :: string
  ra_entityVersion :: nat
  ra_reason :: string
  ra_requestId :: string
  ra_createdAt :: string

section \<open>The repository in memory\<close>

record role_repository =
  bindings :: "role_binding list"
  role_audits :: "role_change_audit list"

definition new_role_repository :: "role_binding list \<Rightarrow> role_repository" where
  "new_role_repository bs = \<lparr>bindings = bs, role_audits = []\<rparr>"

definition active :: "role_binding \<Rightarrow> bool" where
  "active b \<longleftrightarrow> binding_revokedAt b = None"

definition listActive :: "role_scope \<Rightarrow> role_repository \<Rightarrow> role_binding list" where
  "listActive scope repo = filter (\<lambda>b.
     binding_actorId b = rs_actorId scope \<and> binding_organizationId b = rs_organizationId scope \<and>
     active b \<and> (binding_projectId b = None \<or> binding_projectId b = rs_projectId scope)) (bindings repo)"

definition listActorActive :: "string \<Rightarrow> role_repository \<Rightarrow> role_binding list" where
  "listActorActive actor repo = filter (\<lambda>b. binding_actorId b = actor \<and> active b) (bindings repo)"

definition get_binding :: "string \<Rightarrow> string \<Rightarrow> role_repository \<Rightarrow> role_binding option" where
  "get_binding i org repo = find (\<lambda>b. binding_id b = i \<and> binding_organizationId b = org) (bindings repo)"

definition assign_binding ::
  "role_binding \<Rightarrow> role_change_audit \<Rightarrow> role_repository \<Rightarrow> (js_error + role_binding) \<times> role_repository" where
  "assign_binding new audit repo =
     (if list_ex (\<lambda>b. binding_organizationId b = binding_organizationId new \<and>
           binding_projectId b = binding_projectId new \<and> binding_actorId b = binding_actorId new \<and>
           binding_role b = binding_role new \<and> active b) (bindings repo)
      then (Inl RoleBindingConflictError, repo)
      else (Inr new, repo\<lparr>bindings := bindings repo @ [new], role_audits := role_audits repo @ [audit]\<rparr>))"

fun update_where :: "('a \<Rightarrow> bool) \<Rightarrow> ('a \<Rightarrow> 'a) \<Rightarrow> 'a list \<Rightarrow> 'a list" where
  "update_where P f [] = []"
| "update_where P f (x # xs) = (if P x then f x # xs else x # update_where P f xs)"

definition is_binding :: "role_binding \<Rightarrow> role_binding \<Rightarrow> bool" where
  "is_binding b c \<longleftrightarrow> binding_id c = binding_id b \<and> binding_organizationId c = binding_organizationId b \<and>
     binding_version c = binding_version b \<and> active c"

definition revoked_at :: "string \<Rightarrow> role_binding \<Rightarrow> role_binding" where
  "revoked_at t b = b\<lparr>binding_version := binding_version b + 1, binding_revokedAt := Some t\<rparr>"

definition revoke_binding ::
  "role_binding \<Rightarrow> string \<Rightarrow> role_change_audit \<Rightarrow> role_repository \<Rightarrow>
   (js_error + role_binding) \<times> role_repository" where
  "revoke_binding b t audit repo =
     (case find (is_binding b) (bindings repo) of
        None \<Rightarrow> (Inl RoleBindingConflictError, repo)
      | Some c \<Rightarrow> (Inr (revoked_at t c),
          repo\<lparr>bindings := update_where (is_binding b) (revoked_at t) (bindings repo),
               role_audits := role_audits repo @ [audit]\<rparr>))"

section \<open>The policy\<close>

text \<open>The reader of bindings is the repository as it is when it answers.\<close>

record authorization_decision =
  allowed :: bool
  effectiveRoles :: "role list"

definition decide :: "(role_scope \<Rightarrow> role_binding list) \<Rightarrow> role_scope \<Rightarrow> permission \<Rightarrow> authorization_decision" where
  "decide reader scope p =
     (let rs = js_set (map binding_role (reader scope))
      in \<lparr>allowed = list_ex (\<lambda>r. p \<in> set (grants r)) rs, effectiveRoles = rs\<rparr>)"

definition assertAllowed ::
  "(role_scope \<Rightarrow> role_binding list) \<Rightarrow> role_scope \<Rightarrow> permission \<Rightarrow> js_error + unit" where
  "assertAllowed reader scope p =
     (if allowed (decide reader scope p) then Inr () else Inl AuthorizationDeniedError)"

definition assertCanAssignRole ::
  "(role_scope \<Rightarrow> role_binding list) \<Rightarrow> string \<Rightarrow> string \<Rightarrow> role \<Rightarrow> string option \<Rightarrow> js_error + unit" where
  "assertCanAssignRole reader actor org target project =
     (let bs = reader \<lparr>rs_actorId = actor, rs_organizationId = org, rs_projectId = project\<rparr>;
          owner = list_ex (\<lambda>b. binding_role b = Organization_owner \<and> binding_projectId b = None) bs;
          valid_scope = (if target = Organization_owner then project = None
                         else if target = Project_admin then project \<noteq> None else True);
          project_admin = (project \<noteq> None \<and>
            list_ex (\<lambda>b. binding_role b = Project_admin \<and> binding_projectId b = project) bs)
      in if owner \<and> valid_scope then Inr ()
         else if project_admin \<and> target \<in> set [Approver, Operator, Viewer] then Inr ()
         else Inl AuthorizationDeniedError)"

section \<open>The service of role bindings\<close>

record role_call =
  role_clock :: int
  role_ids :: "nat \<Rightarrow> string"

record role_command =
  rc_actorId :: string
  rc_organizationId :: string
  rc_reason :: string
  rc_requestId :: string

datatype role_request =
    Assign_role role_command "string option" string role
  | Revoke_role role_command string

definition validate_role_command :: "role_command \<Rightarrow> js_error + unit" where
  "validate_role_command c =
     (if length (trim (rc_actorId c)) < 1 \<or> length (rc_actorId c) > 200 \<or>
         length (trim (rc_reason c)) < 1 \<or> length (rc_reason c) > 4000 \<or>
         length (trim (rc_requestId c)) < 1 \<or> length (rc_requestId c) > 200
      then Inl RoleBindingValidationError else Inr ())"

text \<open>The write that a request awaits once it passed its checks.\<close>

datatype role_pending =
    Pending_assign role_binding role_change_audit
  | Pending_revoke role_binding string role_change_audit

definition prepare_assign ::
  "role_call \<Rightarrow> role_command \<Rightarrow> string option \<Rightarrow> string \<Rightarrow> role \<Rightarrow> role_repository \<Rightarrow> js_error + role_pending" where
  "prepare_assign x c project target r repo =
     and_then (validate_role_command c) (\<lambda>_.
       if length (trim target) < 1 \<or> length target > 200 then Inl RoleBindingValidationError
       else and_then (assertCanAssignRole (\<lambda>s. listActive s repo) (rc_actorId c) (rc_organizationId c) r project) (\<lambda>_.
         let at = toISOString (role_clock x) in
         Inr (Pending_assign
           \<lparr>binding_id = role_ids x 0, binding_organizationId = rc_organizationId c,
            binding_projectId = project, binding_actorId = target, binding_role = r,
            binding_version = 1, binding_createdAt = at, binding_revokedAt = None\<rparr>
           \<lparr>ra_id = role_ids x 1, ra_organizationId = rc_organizationId c, ra_projectId = project,
            ra_actorId = rc_actorId c, ra_action = Role_assigned, ra_entityId = role_ids x 0,
            ra_entityVersion = 1, ra_reason = rc_reason c, ra_requestId = rc_requestId c,
            ra_createdAt = at\<rparr>)))"

definition prepare_revoke ::
  "role_call \<Rightarrow> role_command \<Rightarrow> string \<Rightarrow> role_repository \<Rightarrow> js_error + role_pending" where
  "prepare_revoke x c i repo =
     and_then (validate_role_command c) (\<lambda>_.
       (case get_binding i (rc_organizationId c) repo of
          None \<Rightarrow> Inl RoleBindingValidationError
        | Some b \<Rightarrow>
            if binding_revokedAt b \<noteq> None \<and> binding_revokedAt b \<noteq> Some '''' then Inl RoleBindingValidationError
            else and_then (assertCanAssignRole (\<lambda>s. listActive s repo) (rc_actorId c) (rc_organizationId c)
                (binding_role b) (binding_projectId b)) (\<lambda>_.
              let at = toISOString (role_clock x) in
              Inr (Pending_revoke b at
                \<lparr>ra_id = role_ids x 0, ra_organizationId = binding_organizationId b,
                 ra_projectId = binding_projectId b, ra_actorId = rc_actorId c, ra_action = Role_revoked,
                 ra_entityId = binding_id b, ra_entityVersion = binding_version b + 1,
                 ra_reason = rc_reason c, ra_requestId = rc_requestId c, ra_createdAt = at\<rparr>))))"

fun prepare_role ::
  "role_call \<Rightarrow> role_request \<Rightarrow> role_repository \<Rightarrow> js_error + role_pending" where
  "prepare_role x (Assign_role c project target r) repo = prepare_assign x c project target r repo"
| "prepare_role x (Revoke_role c i) repo = prepare_revoke x c i repo"

fun perform_role ::
  "role_pending \<Rightarrow> role_repository \<Rightarrow> (js_error + role_binding) \<times> role_repository" where
  "perform_role (Pending_assign b a) repo = assign_binding b a repo"
| "perform_role (Pending_revoke b t a) repo = revoke_binding b t a repo"

definition role_handle ::
  "role_call \<Rightarrow> role_request \<Rightarrow> role_repository \<Rightarrow> (js_error + role_binding) \<times> role_repository" where
  "role_handle x q repo =
     (case prepare_role x q repo of Inl e \<Rightarrow> (Inl e, repo) | Inr p \<Rightarrow> perform_role p repo)"

section \<open>Visibility\<close>

record visibility_scope =
  vs_actorId :: string
  vs_organizationIds :: "string list"
  vs_projectIds :: "string list"

definition uniqueSorted :: "string list \<Rightarrow> string list" where
  "uniqueSorted xs = sort (js_set xs)"

definition visibilityFromRoleBindings ::
  "string \<Rightarrow> role_binding list \<Rightarrow> js_error + visibility_scope" where
  "visibilityFromRoleBindings actor bs =
     (if actor = '''' then Inl (PlainError ''actorId is required to resolve visibility'')
      else
        let own = filter (\<lambda>b. binding_actorId b = actor \<and> active b) bs in
        Inr \<lparr>vs_actorId = actor,
          vs_organizationIds = uniqueSorted (map binding_organizationId
            (filter (\<lambda>b. binding_role b = Organization_owner \<and> binding_projectId b = None) own)),
          vs_projectIds = uniqueSorted (map (\<lambda>b. the (binding_projectId b))
            (filter (\<lambda>b. binding_projectId b \<noteq> None) own))\<rparr>)"

definition resolve_visibility :: "string \<Rightarrow> role_repository \<Rightarrow> js_error + visibility_scope" where
  "resolve_visibility actor repo = visibilityFromRoleBindings actor (listActorActive actor repo)"

definition hasVisibleProjects :: "visibility_scope \<Rightarrow> bool" where
  "hasVisibleProjects v \<longleftrightarrow> length (vs_organizationIds v) > 0 \<or> length (vs_projectIds v) > 0"

text \<open>The 32-bit FNV-1a hash; \<open>Math.imul\<close> is the product of words.\<close>

definition fnv_step :: "char \<Rightarrow> 32 word \<Rightarrow> 32 word" where
  "fnv_step c h = (h XOR of_nat (of_char c)) * 16777619"

definition fnv_hash :: "string \<Rightarrow> 32 word" where
  "fnv_hash s = fold fnv_step s 2166136261"

text \<open>\<open>toString(36)\<close>.\<close>

fun base36 :: "nat \<Rightarrow> string" where
  "base36 n =
     (if n < 36 then [''0123456789abcdefghijklmnopqrstuvwxyz'' ! n]
      else base36 (n div 36) @ [''0123456789abcdefghijklmnopqrstuvwxyz'' ! (n mod 36)])"

declare base36.simps [simp del]

definition visibility_json :: "visibility_scope \<Rightarrow> json" where
  "visibility_json v = JArr [JStr (vs_actorId v), JArr (map JStr (uniqueSorted (vs_organizationIds v))),
     JArr (map JStr (uniqueSorted (vs_projectIds v)))]"

definition visibilityScopeKey :: "visibility_scope \<Rightarrow> string" where
  "visibilityScopeKey v = base36 (unat (fnv_hash (json_stringify (visibility_json v))))"

end
