(* ===== verification/Access_Safety.thy ===== *)
theory Access_Safety
  imports Access_Control
begin

text \<open>
  What the policy and the role binding service guarantee: access needs a binding that covers the
  place, roles cannot be escalated, every change is audited once, no role is active twice, and
  what an actor sees he may read.
\<close>

section \<open>The readers of bindings\<close>

text \<open>
  The policy relies on a reader whose answers are the active bindings that cover the scope.
\<close>

definition covers :: "role_scope \<Rightarrow> role_binding \<Rightarrow> bool" where
  "covers scope b \<longleftrightarrow> binding_actorId b = rs_actorId scope \<and>
     binding_organizationId b = rs_organizationId scope \<and> active b \<and>
     (binding_projectId b = None \<or> binding_projectId b = rs_projectId scope)"

locale role_reader =
  fixes reader :: "'s \<Rightarrow> role_scope \<Rightarrow> role_binding list"
    and known :: "'s \<Rightarrow> role_binding set"
  assumes answers: "set (reader s scope) = {b \<in> known s. covers scope b}"
begin

lemma allowed_iff:
  "allowed (decide (reader s) scope p) \<longleftrightarrow> (\<exists>b\<in>known s. covers scope b \<and> p \<in> set (grants (binding_role b)))"
  by (auto simp: decide_def Let_def list_ex_iff answers)

text \<open>Who may hand out a role: an owner within the role's scope, or an admin of the very project.\<close>

lemma can_assign_iff:
  "assertCanAssignRole (reader s) actor org target project = Inr () \<longleftrightarrow>
     (\<exists>b\<in>known s. binding_actorId b = actor \<and> binding_organizationId b = org \<and> active b \<and>
        (binding_role b = Organization_owner \<and> binding_projectId b = None \<and>
           (target = Organization_owner \<longrightarrow> project = None) \<and> (target = Project_admin \<longrightarrow> project \<noteq> None) \<or>
         binding_role b = Project_admin \<and> binding_projectId b = project \<and> project \<noteq> None \<and>
           target \<in> {Approver, Operator, Viewer}))"
  by (auto simp: assertCanAssignRole_def Let_def list_ex_iff answers covers_def)

end

interpretation memory_roles: role_reader "\<lambda>repo scope. listActive scope repo" "\<lambda>repo. set (bindings repo)"
  by unfold_locales (auto simp: listActive_def covers_def)

section \<open>Requests in flight together\<close>

text \<open>
  A step prepares a request of an actor of \<open>A\<close>, or performs a write that was prepared earlier.
  Ids are generated by \<open>randomUUID\<close>: the id of a new binding is none that is in use.
\<close>

definition requester :: "role_request \<Rightarrow> string" where
  "requester q = rc_actorId (case q of Assign_role c _ _ _ \<Rightarrow> c | Revoke_role c _ \<Rightarrow> c)"

fun pending_ids :: "role_pending list \<Rightarrow> string list" where
  "pending_ids [] = []"
| "pending_ids (Pending_assign b a # ps) = binding_id b # pending_ids ps"
| "pending_ids (Pending_revoke b t a # ps) = pending_ids ps"

definition fresh_for :: "role_pending \<Rightarrow> role_repository \<Rightarrow> role_pending list \<Rightarrow> bool" where
  "fresh_for p repo ps \<longleftrightarrow> set (pending_ids [p]) \<inter> (binding_id ` set (bindings repo) \<union> set (pending_ids ps)) = {}"

inductive role_step ::
  "string set \<Rightarrow> role_repository \<times> role_pending list \<Rightarrow> role_repository \<times> role_pending list \<Rightarrow> bool"
  for A where
  prepare: "prepare_role x q repo = Inr p \<Longrightarrow> requester q \<in> A \<Longrightarrow> fresh_for p repo ps \<Longrightarrow>
    role_step A (repo, ps) (repo, p # ps)"
| perform: "p \<in> set ps \<Longrightarrow> perform_role p repo = (r, repo') \<Longrightarrow>
    role_step A (repo, ps) (repo', remove1 p ps)"

lemma find_update_where:
  "find P xs = Some x \<Longrightarrow> \<exists>us vs. xs = us @ x # vs \<and> update_where P f xs = us @ f x # vs \<and> P x"
proof (induction xs)
  case (Cons y ys)
  show ?case
  proof (cases "P y")
    case True
    with Cons.prems show ?thesis by (intro exI[of _ "[]"] exI[of _ ys]) auto
  next
    case False
    with Cons obtain us vs where "ys = us @ x # vs" "update_where P f ys = us @ f x # vs" "P x" by auto
    with False show ?thesis by (intro exI[of _ "y # us"] exI[of _ vs]) auto
  qed
qed simp

text \<open>A performed write is refused, appends a binding, or revokes one in place.\<close>

lemma perform_role_cases:
  assumes "perform_role p repo = (r, repo')"
  shows "(repo' = repo \<and> (\<exists>e. r = Inl e)) \<or>
    (\<exists>b a. p = Pending_assign b a \<and> bindings repo' = bindings repo @ [b] \<and>
       role_audits repo' = role_audits repo @ [a] \<and>
       (\<forall>c\<in>set (bindings repo). active c \<longrightarrow> (binding_organizationId c, binding_projectId c, binding_actorId c, binding_role c)
          \<noteq> (binding_organizationId b, binding_projectId b, binding_actorId b, binding_role b))) \<or>
    (\<exists>b t a us c vs. p = Pending_revoke b t a \<and> bindings repo = us @ c # vs \<and> is_binding b c \<and>
       bindings repo' = us @ revoked_at t c # vs \<and> role_audits repo' = role_audits repo @ [a])"
proof (cases p)
  case (Pending_assign b a)
  with assms show ?thesis by (auto simp: assign_binding_def list_ex_iff split: if_splits)
next
  case (Pending_revoke b t a)
  show ?thesis
  proof (cases "find (is_binding b) (bindings repo)")
    case (Some c)
    from find_update_where[OF this, of "revoked_at t"] obtain us vs where
      "bindings repo = us @ c # vs" "update_where (is_binding b) (revoked_at t) (bindings repo) = us @ revoked_at t c # vs"
      "is_binding b c" by blast
    with assms Pending_revoke Some have "bindings repo' = us @ revoked_at t c # vs"
      "role_audits repo' = role_audits repo @ [a]" by (auto simp: revoke_binding_def)
    with Pending_revoke \<open>bindings repo = us @ c # vs\<close> \<open>is_binding b c\<close> show ?thesis by blast
  qed (use assms Pending_revoke in \<open>auto simp: revoke_binding_def\<close>)
qed

text \<open>What a prepared write says, and by whose authority.\<close>

lemma prepare_role_cases:
  assumes "prepare_role x q repo = Inr p"
  shows "(\<exists>b a org. p = Pending_assign b a \<and> active b \<and> binding_version b = 1 \<and>
      binding_organizationId b = org \<and>
      ra_entityId a = binding_id b \<and> ra_entityVersion a = 1 \<and> ra_actorId a = requester q \<and>
      assertCanAssignRole (\<lambda>s. listActive s repo) (requester q) org
        (binding_role b) (binding_projectId b) = Inr ()) \<or>
    (\<exists>b t a org. p = Pending_revoke b t a \<and> b \<in> set (bindings repo) \<and>
      binding_organizationId b = org \<and>
      ra_entityId a = binding_id b \<and> ra_entityVersion a = binding_version b + 1 \<and> ra_actorId a = requester q \<and>
      assertCanAssignRole (\<lambda>s. listActive s repo) (requester q) org
        (binding_role b) (binding_projectId b) = Inr ())"
proof (cases q)
  case (Assign_role d project target r)
  with assms show ?thesis
    by (auto simp: prepare_assign_def result_simps Let_def active_def requester_def)
next
  case (Revoke_role d i)
  with assms show ?thesis
    by (auto simp: prepare_revoke_def result_simps Let_def get_binding_def requester_def dest!: find_SomeD)
qed

section \<open>Roles cannot be escalated\<close>

text \<open>The roles an admin of a project of \<open>P\<close> may hand out there; everything else is out of reach.\<close>

definition minor :: "string set \<Rightarrow> role_binding \<Rightarrow> bool" where
  "minor P b \<longleftrightarrow> binding_role b \<in> {Approver, Operator, Viewer} \<and> binding_projectId b \<in> Some ` P"

definition out_of_reach :: "string \<Rightarrow> string set \<Rightarrow> role_binding \<Rightarrow> bool" where
  "out_of_reach org P b \<longleftrightarrow> binding_organizationId b = org \<and> \<not> minor P b"

text \<open>The actors of \<open>A\<close> own nothing in the organization and are admins of projects of \<open>P\<close> at most.\<close>

definition powers_within :: "string set \<Rightarrow> string \<Rightarrow> string set \<Rightarrow> role_binding list \<Rightarrow> bool" where
  "powers_within A org P bs \<longleftrightarrow> (\<forall>b\<in>set bs. binding_actorId b \<in> A \<and> binding_organizationId b = org \<and> active b \<longrightarrow>
     \<not> (binding_role b = Organization_owner \<and> binding_projectId b = None) \<and>
     (\<forall>q. binding_role b = Project_admin \<and> binding_projectId b = Some q \<longrightarrow> q \<in> P))"

lemma powers_within_reach:
  "filter (out_of_reach org P) bs = filter (out_of_reach org P) bs' \<Longrightarrow>
     powers_within A org P bs \<longleftrightarrow> powers_within A org P bs'"
proof -
  assume f: "filter (out_of_reach org P) bs = filter (out_of_reach org P) bs'"
  have "powers_within A org P bs \<longleftrightarrow> powers_within A org P (filter (out_of_reach org P) bs)" for bs
  proof
    assume w: "powers_within A org P (filter (out_of_reach org P) bs)"
    have "\<not> (binding_role b = Organization_owner \<and> binding_projectId b = None) \<and>
        (\<forall>q. binding_role b = Project_admin \<and> binding_projectId b = Some q \<longrightarrow> q \<in> P)"
      if b: "b \<in> set bs" "binding_actorId b \<in> A \<and> binding_organizationId b = org \<and> active b" for b
    proof (cases "minor P b")
      case True
      then show ?thesis by (auto simp: minor_def)
    next
      case False
      with b have "b \<in> set (filter (out_of_reach org P) bs)" by (simp add: out_of_reach_def)
      with w b(2) show ?thesis unfolding powers_within_def by blast
    qed
    then show "powers_within A org P bs" unfolding powers_within_def by blast
  qed (unfold powers_within_def set_filter, blast)
  with f show ?thesis by metis
qed

lemma authority_is_minor:
  assumes "powers_within A org P (bindings repo)" "actor \<in> A"
    "assertCanAssignRole (\<lambda>s. listActive s repo) actor org (binding_role b) (binding_projectId b) = Inr ()"
  shows "minor P b"
proof -
  from assms(3) obtain c where c: "c \<in> set (bindings repo)" "binding_actorId c = actor"
    "binding_organizationId c = org" "active c"
    and cases: "(binding_role c = Organization_owner \<and> binding_projectId c = None) \<or>
      (binding_role c = Project_admin \<and> binding_projectId c = binding_projectId b \<and>
       binding_projectId b \<noteq> None \<and> binding_role b \<in> {Approver, Operator, Viewer})"
    unfolding memory_roles.can_assign_iff by blast
  from assms(1,2) c have p: "\<not> (binding_role c = Organization_owner \<and> binding_projectId c = None)"
    "\<And>q. binding_role c = Project_admin \<Longrightarrow> binding_projectId c = Some q \<Longrightarrow> q \<in> P"
    unfolding powers_within_def by blast+
  from cases p(1) obtain q where "binding_projectId b = Some q" "binding_projectId c = Some q"
    "binding_role c = Project_admin" "binding_role b \<in> {Approver, Operator, Viewer}" by auto
  with p(2) show ?thesis by (auto simp: minor_def)
qed

text \<open>A due write is about a minor role, and a due revocation about a binding that is there.\<close>

definition same_grant :: "role_binding \<Rightarrow> role_binding \<Rightarrow> bool" where
  "same_grant b c \<longleftrightarrow> binding_id c = binding_id b \<and> binding_organizationId c = binding_organizationId b \<and>
     binding_projectId c = binding_projectId b \<and> binding_role c = binding_role b"

fun due_within :: "string \<Rightarrow> string set \<Rightarrow> role_binding list \<Rightarrow> role_pending \<Rightarrow> bool" where
  "due_within org P bs (Pending_assign b a) \<longleftrightarrow> \<not> out_of_reach org P b"
| "due_within org P bs (Pending_revoke b t a) \<longleftrightarrow> \<not> out_of_reach org P b \<and> (\<exists>c\<in>set bs. same_grant b c)"

definition confined ::
  "string set \<Rightarrow> string \<Rightarrow> string set \<Rightarrow> role_binding list \<Rightarrow> role_repository \<times> role_pending list \<Rightarrow> bool" where
  "confined A org P bs0 = (\<lambda>(repo, ps).
     distinct (map binding_id (bindings repo) @ pending_ids ps) \<and> powers_within A org P (bindings repo) \<and>
     filter (out_of_reach org P) (bindings repo) = filter (out_of_reach org P) bs0 \<and>
     (\<forall>p\<in>set ps. due_within org P (bindings repo) p))"

lemma pending_ids_remove1:
  "set (pending_ids (remove1 p ps)) \<subseteq> set (pending_ids ps)"
  "distinct (pending_ids ps) \<Longrightarrow> distinct (pending_ids (remove1 p ps))"
  "p \<in> set ps \<Longrightarrow> p = Pending_assign b a \<Longrightarrow> distinct (pending_ids ps) \<Longrightarrow>
     binding_id b \<in> set (pending_ids ps) \<and> binding_id b \<notin> set (pending_ids (remove1 p ps))"
proof -
  show s: "set (pending_ids (remove1 p ps)) \<subseteq> set (pending_ids ps)" for ps
    by (induction ps rule: pending_ids.induct) auto
  show "distinct (pending_ids ps) \<Longrightarrow> distinct (pending_ids (remove1 p ps))"
    using s by (induction ps rule: pending_ids.induct) auto
  show "p \<in> set ps \<Longrightarrow> p = Pending_assign b a \<Longrightarrow> distinct (pending_ids ps) \<Longrightarrow>
     binding_id b \<in> set (pending_ids ps) \<and> binding_id b \<notin> set (pending_ids (remove1 p ps))"
    by (induction ps rule: pending_ids.induct) auto
qed

lemma due_within_grows:
  assumes "due_within org P bs p" "\<forall>c\<in>set bs. \<exists>d\<in>set bs'. same_grant c d"
  shows "due_within org P bs' p"
  using assms by (cases p) (auto simp: same_grant_def, metis+)

lemma confined_step:
  assumes "role_step A s s'" "confined A org P bs0 s"
  shows "confined A org P bs0 s'"
  using assms(1)
proof cases
  case (prepare x q repo p ps)
  with assms(2) have inv: "powers_within A org P (bindings repo)"
    "filter (out_of_reach org P) (bindings repo) = filter (out_of_reach org P) bs0"
    "distinct (map binding_id (bindings repo) @ pending_ids ps)"
    "\<forall>p\<in>set ps. due_within org P (bindings repo) p" by (auto simp: confined_def)
  from prepare_role_cases[OF prepare(3)] have "due_within org P (bindings repo) p"
    using authority_is_minor[OF inv(1) prepare(4)]
    by (auto simp: out_of_reach_def same_grant_def)
  moreover have "distinct (map binding_id (bindings repo) @ pending_ids (p # ps))"
    using inv(3) prepare(5) by (cases p) (auto simp: fresh_for_def)
  ultimately show ?thesis using prepare inv by (simp add: confined_def)
next
  case (perform p ps repo r repo')
  with assms(2) have inv: "powers_within A org P (bindings repo)"
    "filter (out_of_reach org P) (bindings repo) = filter (out_of_reach org P) bs0"
    "distinct (map binding_id (bindings repo) @ pending_ids ps)"
    "\<forall>p\<in>set ps. due_within org P (bindings repo) p" by (auto simp: confined_def)
  have due: "due_within org P (bindings repo) p" using inv(4) perform(3) by blast
  have rest: "set (remove1 p ps) \<subseteq> set ps" by (rule set_remove1_subset)
  from perform_role_cases[OF perform(4)] have "filter (out_of_reach org P) (bindings repo') = filter (out_of_reach org P) (bindings repo) \<and>
      distinct (map binding_id (bindings repo') @ pending_ids (remove1 p ps)) \<and>
      (\<forall>c\<in>set (bindings repo). \<exists>d\<in>set (bindings repo'). same_grant c d)"
  proof (elim disjE exE conjE)
    fix b a
    assume h: "p = Pending_assign b a" "bindings repo' = bindings repo @ [b]"
    with inv(3) pending_ids_remove1(3)[OF perform(3) h(1)] pending_ids_remove1(1,2)[where p = p and ps = ps] due
    show ?thesis by (auto simp: same_grant_def)
  next
    fix b t a us c vs
    assume h: "p = Pending_revoke b t a" "bindings repo = us @ c # vs" "is_binding b c"
      "bindings repo' = us @ revoked_at t c # vs"
    have same: "binding_id (revoked_at t c) = binding_id c"
      "out_of_reach org P (revoked_at t c) = out_of_reach org P c" "same_grant c (revoked_at t c)"
      by (simp_all add: revoked_at_def out_of_reach_def minor_def same_grant_def)
    from due h obtain d where d: "\<not> out_of_reach org P b" "d \<in> set (bindings repo)" "same_grant b d" by auto
    have "binding_id c = binding_id d" "c \<in> set (bindings repo)"
      using h d by (simp_all add: is_binding_def same_grant_def)
    with d(2) inv(3) have "c = d" by (auto simp: distinct_map dest: inj_onD)
    with d have "\<not> out_of_reach org P c" by (simp add: out_of_reach_def minor_def same_grant_def)
    with h same inv(3) pending_ids_remove1(1,2)[where p = p and ps = ps] show ?thesis
      by (auto simp: same_grant_def)
  qed (use inv(3) pending_ids_remove1(1,2)[where p = p and ps = ps] in \<open>auto simp: same_grant_def\<close>)
  then have f: "filter (out_of_reach org P) (bindings repo') = filter (out_of_reach org P) (bindings repo)"
    "distinct (map binding_id (bindings repo') @ pending_ids (remove1 p ps))"
    "\<forall>c\<in>set (bindings repo). \<exists>d\<in>set (bindings repo'). same_grant c d" by blast+
  have "\<forall>q\<in>set (remove1 p ps). due_within org P (bindings repo') q"
    using inv(4) rest due_within_grows[OF _ f(3)] by blast
  with perform inv(1,2) f(1,2) powers_within_reach[OF f(1)] show ?thesis by (simp add: confined_def)
qed

lemma confined_run:
  assumes "(role_step A)\<^sup>*\<^sup>* (repo0, []) s" "distinct (map binding_id (bindings repo0))"
    "powers_within A org P (bindings repo0)"
  shows "confined A org P (bindings repo0) s"
  using assms(1)
proof (induction rule: rtranclp_induct)
  case base
  with assms(2,3) show ?case by (simp add: confined_def)
qed (rule confined_step)

text \<open>
  Property C9. Roles cannot be escalated. Take actors that own nothing in an organization and are
  project admins at most of the projects \<open>P\<close>. Whatever they request, in whatever order the
  requests interleave, the bindings of the organization other than approvers, operators and
  viewers of projects of \<open>P\<close> stay exactly as they were, active or revoked; and nobody gains or
  loses any permission in a project outside \<open>P\<close>.
\<close>

theorem roles_cannot_be_escalated:
  assumes "distinct (map binding_id (bindings repo0))" and "powers_within A org P (bindings repo0)"
    and "(role_step A)\<^sup>*\<^sup>* (repo0, []) (repo, ps)"
  shows "filter (out_of_reach org P) (bindings repo) = filter (out_of_reach org P) (bindings repo0) \<and>
    (rs_organizationId scope = org \<and> rs_projectId scope \<notin> Some ` P \<longrightarrow>
       allowed (decide (\<lambda>s. listActive s repo) scope p) = allowed (decide (\<lambda>s. listActive s repo0) scope p))"
proof -
  from confined_run[OF assms(3,1,2)]
  have f: "filter (out_of_reach org P) (bindings repo) = filter (out_of_reach org P) (bindings repo0)"
    by (simp add: confined_def)
  moreover have "allowed (decide (\<lambda>s. listActive s repo) scope p) = allowed (decide (\<lambda>s. listActive s repo0) scope p)"
    if outside: "rs_organizationId scope = org" "rs_projectId scope \<notin> Some ` P"
  proof -
    have "covers scope b \<Longrightarrow> out_of_reach org P b" for b
      using outside by (auto simp: covers_def out_of_reach_def minor_def)
    then have "{b \<in> set bs. covers scope b} = {b \<in> set (filter (out_of_reach org P) bs). covers scope b}" for bs
      by auto
    then have "{b \<in> set (bindings repo). covers scope b} = {b \<in> set (bindings repo0). covers scope b}"
      using f by metis
    then show ?thesis unfolding memory_roles.allowed_iff by blast
  qed
  ultimately show ?thesis by blast
qed

definition sample_binding :: "string \<Rightarrow> string option \<Rightarrow> string \<Rightarrow> role \<Rightarrow> role_binding" where
  "sample_binding i project actor r = \<lparr>binding_id = i, binding_organizationId = ''org'',
     binding_projectId = project, binding_actorId = actor, binding_role = r, binding_version = 1,
     binding_createdAt = ''t'', binding_revokedAt = None\<rparr>"

definition sample_roles :: role_repository where
  "sample_roles = new_role_repository
     [sample_binding ''b1'' None ''owner'' Organization_owner, sample_binding ''b2'' (Some ''p'') ''admin'' Project_admin]"

definition sample_role_call :: role_call where
  "sample_role_call = \<lparr>role_clock = 1000, role_ids = (\<lambda>n. if n = 0 then ''b3'' else ''a1'')\<rparr>"

definition sample_role_command :: "string \<Rightarrow> role_command" where
  "sample_role_command actor = \<lparr>rc_actorId = actor, rc_organizationId = ''org'', rc_reason = ''Agreed'',
     rc_requestId = ''request-1''\<rparr>"

lemma role_handle_steps:
  assumes "prepare_role x q repo = Inr p" "requester q \<in> A" "fresh_for p repo []"
  shows "(role_step A)\<^sup>*\<^sup>* (repo, []) (snd (role_handle x q repo), [])"
proof -
  have "role_step A (repo, []) (repo, [p])" by (rule prepare[OF assms])
  moreover have "role_step A (repo, [p]) (snd (perform_role p repo), [])"
    using perform[of p "[p]" repo "fst (perform_role p repo)" "snd (perform_role p repo)" A] by simp
  ultimately show ?thesis using assms(1)
    by (simp add: role_handle_def converse_rtranclp_into_rtranclp r_into_rtranclp)
qed

text \<open>The admin makes himself an approver of his project, and stays without rights elsewhere.\<close>

definition sample_self_approval :: role_request where
  "sample_self_approval = Assign_role (sample_role_command ''admin'') (Some ''p'') ''admin'' Approver"

theorem roles_cannot_be_escalated_witness:
  "let repo = snd (role_handle sample_role_call sample_self_approval sample_roles) in
   length (bindings repo) = 3 \<and>
   allowed (decide (\<lambda>s. listActive s repo) \<lparr>rs_actorId = ''admin'', rs_organizationId = ''org'', rs_projectId = Some ''p''\<rparr>
     Goal_approve) \<and>
   \<not> allowed (decide (\<lambda>s. listActive s repo) \<lparr>rs_actorId = ''admin'', rs_organizationId = ''org'', rs_projectId = Some ''q''\<rparr>
     Goal_approve)"
proof -
  let ?h = "role_handle sample_role_call sample_self_approval sample_roles"
  let ?scope = "\<lambda>q. \<lparr>rs_actorId = ''admin'', rs_organizationId = ''org'', rs_projectId = Some q\<rparr>"
  have ok: "case prepare_role sample_role_call sample_self_approval sample_roles of
      Inr p \<Rightarrow> pending_ids [p] = [''b3''] | Inl e \<Rightarrow> False" by code_simp
  then obtain p where p: "prepare_role sample_role_call sample_self_approval sample_roles = Inr p"
    "pending_ids [p] = [''b3'']" by (auto split: sum.splits)
  have ids: "map binding_id (bindings sample_roles) = [''b1'', ''b2'']" by code_simp
  have fresh: "fresh_for p sample_roles []"
    using arg_cong[OF ids, of set] by (simp add: fresh_for_def p(2))
  have run: "(role_step {''admin''})\<^sup>*\<^sup>* (sample_roles, []) (snd ?h, [])"
    by (rule role_handle_steps[OF p(1) _ fresh])
      (simp add: requester_def sample_self_approval_def sample_role_command_def)
  have d: "distinct (map binding_id (bindings sample_roles))" by (simp add: ids)
  have w: "powers_within {''admin''} ''org'' {''p''} (bindings sample_roles)"
    by (auto simp: powers_within_def sample_roles_def new_role_repository_def sample_binding_def)
  have before: "\<not> allowed (decide (\<lambda>s. listActive s sample_roles) (?scope ''q'') Goal_approve)" by code_simp
  have after: "length (bindings (snd ?h)) = 3"
    "allowed (decide (\<lambda>s. listActive s (snd ?h)) (?scope ''p'') Goal_approve)" by code_simp+
  show ?thesis
    using after before roles_cannot_be_escalated[OF d w run, of "?scope ''q''" Goal_approve]
    by (simp add: Let_def image_iff)
qed

text \<open>
  Property C32. An organization that has lost its last owner never gets one again: when no active
  binding of an organization makes anybody its owner, no sequence of requests by any actors ever
  lets anybody manage it. Nothing keeps the last owner from revoking his own binding.
\<close>

theorem lost_owners_stay_lost:
  assumes "distinct (map binding_id (bindings repo0))"
    and "\<forall>b\<in>set (bindings repo0). binding_organizationId b = org \<and> active b \<longrightarrow>
      binding_role b \<noteq> Organization_owner"
    and "(role_step UNIV)\<^sup>*\<^sup>* (repo0, []) (repo, ps)" and "rs_organizationId scope = org"
  shows "\<not> allowed (decide (\<lambda>s. listActive s repo) scope Organization_manage)"
proof
  assume "allowed (decide (\<lambda>s. listActive s repo) scope Organization_manage)"
  then obtain b where b: "b \<in> set (bindings repo)" "covers scope b"
    "Organization_manage \<in> set (grants (binding_role b))"
    unfolding memory_roles.allowed_iff by blast
  from b(3) have owner: "binding_role b = Organization_owner"
    by (cases "binding_role b") (simp_all add: permissions_def)
  have "powers_within UNIV org UNIV (bindings repo0)"
    using assms(2) unfolding powers_within_def by blast
  from confined_run[OF assms(3,1) this]
  have f: "filter (out_of_reach org UNIV) (bindings repo) = filter (out_of_reach org UNIV) (bindings repo0)"
    by (simp add: confined_def)
  have "b \<in> set (filter (out_of_reach org UNIV) (bindings repo))"
    using b(1,2) owner assms(4) by (simp add: out_of_reach_def minor_def covers_def)
  then have "b \<in> set (bindings repo0)" unfolding f by simp
  with assms(2) b(2) owner assms(4) show False by (auto simp: covers_def)
qed

definition sample_abdication :: role_request where
  "sample_abdication = Revoke_role (sample_role_command ''owner'') ''b1''"

theorem lost_owners_stay_lost_witness:
  "let repo0 = snd (role_handle sample_role_call sample_abdication sample_roles);
       repo = snd (role_handle sample_role_call sample_self_approval repo0) in
   length (bindings repo) = 3 \<and>
   \<not> allowed (decide (\<lambda>s. listActive s repo) \<lparr>rs_actorId = ''owner'', rs_organizationId = ''org'', rs_projectId = None\<rparr>
     Organization_manage)"
proof -
  let ?r0 = "snd (role_handle sample_role_call sample_abdication sample_roles)"
  let ?h = "role_handle sample_role_call sample_self_approval ?r0"
  have ok: "case prepare_role sample_role_call sample_self_approval ?r0 of
      Inr p \<Rightarrow> pending_ids [p] = [''b3''] | Inl e \<Rightarrow> False" by code_simp
  then obtain p where p: "prepare_role sample_role_call sample_self_approval ?r0 = Inr p"
    "pending_ids [p] = [''b3'']" by (auto split: sum.splits)
  have ids: "map binding_id (bindings ?r0) = [''b1'', ''b2'']" by code_simp
  have fresh: "fresh_for p ?r0 []" using arg_cong[OF ids, of set] by (simp add: fresh_for_def p(2))
  have run: "(role_step UNIV)\<^sup>*\<^sup>* (?r0, []) (snd ?h, [])"
    by (rule role_handle_steps[OF p(1) _ fresh]) simp
  have d: "distinct (map binding_id (bindings ?r0))" by (simp add: ids)
  have "list_all (\<lambda>b. binding_organizationId b = ''org'' \<and> active b \<longrightarrow> binding_role b \<noteq> Organization_owner) (bindings ?r0)"
    by code_simp
  then have n: "\<forall>b\<in>set (bindings ?r0). binding_organizationId b = ''org'' \<and> active b \<longrightarrow> binding_role b \<noteq> Organization_owner"
    by (simp add: list_all_iff)
  have "length (bindings (snd ?h)) = 3" by code_simp
  with lost_owners_stay_lost[OF d n run, of "\<lparr>rs_actorId = ''owner'', rs_organizationId = ''org'', rs_projectId = None\<rparr>"]
  show ?thesis by (simp add: Let_def)
qed

section \<open>Every change is audited, and no role is active twice\<close>

text \<open>The versions of the bindings, each with the id of its binding.\<close>

definition versions_of :: "role_binding list \<Rightarrow> (string \<times> nat) multiset" where
  "versions_of bs = sum_list (map (\<lambda>b. mset (map (\<lambda>v. (binding_id b, v)) [1..<Suc (binding_version b)])) bs)"

definition audited :: "role_change_audit list \<Rightarrow> (string \<times> nat) multiset" where
  "audited as = mset (map (\<lambda>a. (ra_entityId a, ra_entityVersion a)) as)"

definition grant_of :: "role_binding \<Rightarrow> string \<times> string option \<times> string \<times> role" where
  "grant_of b = (binding_organizationId b, binding_projectId b, binding_actorId b, binding_role b)"

fun well_audited :: "role_pending \<Rightarrow> bool" where
  "well_audited (Pending_assign b a) \<longleftrightarrow> binding_version b = 1 \<and> ra_entityId a = binding_id b \<and> ra_entityVersion a = 1"
| "well_audited (Pending_revoke b t a) \<longleftrightarrow> ra_entityId a = binding_id b \<and> ra_entityVersion a = binding_version b + 1"

definition changes_recorded :: "role_binding list \<Rightarrow> role_repository \<times> role_pending list \<Rightarrow> bool" where
  "changes_recorded bs0 = (\<lambda>(repo, ps). versions_of (bindings repo) = versions_of bs0 + audited (role_audits repo) \<and>
     distinct (map grant_of (filter active (bindings repo))) \<and> (\<forall>p\<in>set ps. well_audited p))"

lemma changes_recorded_step:
  assumes "role_step A s s'" "changes_recorded bs0 s"
  shows "changes_recorded bs0 s'"
  using assms(1)
proof cases
  case (prepare x q repo p ps)
  from prepare_role_cases[OF prepare(3)] have "well_audited p" by auto
  with assms(2) prepare show ?thesis by (simp add: changes_recorded_def)
next
  case (perform p ps repo r repo')
  with assms(2) have inv: "versions_of (bindings repo) = versions_of bs0 + audited (role_audits repo)"
    "distinct (map grant_of (filter active (bindings repo)))" "\<forall>p\<in>set ps. well_audited p"
    by (simp_all add: changes_recorded_def)
  have p: "well_audited p" using inv(3) perform(3) by blast
  from perform_role_cases[OF perform(4)]
  have "versions_of (bindings repo') = versions_of bs0 + audited (role_audits repo') \<and>
      distinct (map grant_of (filter active (bindings repo')))"
  proof (elim disjE exE conjE)
    fix b a
    assume "p = Pending_assign b a" "bindings repo' = bindings repo @ [b]" "role_audits repo' = role_audits repo @ [a]"
      "\<forall>c\<in>set (bindings repo). active c \<longrightarrow> (binding_organizationId c, binding_projectId c, binding_actorId c, binding_role c)
          \<noteq> (binding_organizationId b, binding_projectId b, binding_actorId b, binding_role b)"
    with inv p show ?thesis by (auto simp: versions_of_def audited_def grant_of_def)
  next
    fix b t a us c vs
    assume "p = Pending_revoke b t a" "bindings repo = us @ c # vs" "is_binding b c"
      "bindings repo' = us @ revoked_at t c # vs" "role_audits repo' = role_audits repo @ [a]"
    with inv p show ?thesis
      by (auto simp: versions_of_def audited_def is_binding_def revoked_at_def active_def split: if_splits)
  qed (use inv in simp)
  with perform inv(3) set_remove1_subset[of p ps] show ?thesis by (auto simp: changes_recorded_def)
qed

text \<open>
  Property C30. Every change of a role is audited exactly once: the versions the bindings have gone
  through since the start are the ids and versions the audit records name, each once; and no
  actor ever holds the same role twice in the same place.
\<close>

theorem every_role_change_is_audited:
  assumes "distinct (map grant_of (filter active bs0))"
    and "(role_step A)\<^sup>*\<^sup>* (new_role_repository bs0, []) (repo, ps)"
  shows "versions_of (bindings repo) = versions_of bs0 + audited (role_audits repo) \<and>
    distinct (map grant_of (filter active (bindings repo)))"
proof -
  have "changes_recorded bs0 (repo, ps)"
    using assms(2)
  proof (induction rule: rtranclp_induct)
    case base
    with assms(1) show ?case by (simp add: changes_recorded_def new_role_repository_def audited_def)
  qed (rule changes_recorded_step)
  then show ?thesis by (simp add: changes_recorded_def)
qed

theorem every_role_change_is_audited_witness:
  "let repo = snd (role_handle sample_role_call sample_self_approval sample_roles) in
   map (\<lambda>a. (ra_entityId a, ra_entityVersion a)) (role_audits repo) = [(''b3'', 1)] \<and>
   versions_of (bindings repo) = {#(''b1'', 1), (''b2'', 1), (''b3'', 1)#}"
proof -
  let ?h = "role_handle sample_role_call sample_self_approval sample_roles"
  let ?bs = "[sample_binding ''b1'' None ''owner'' Organization_owner, sample_binding ''b2'' (Some ''p'') ''admin'' Project_admin]"
  have ok: "case prepare_role sample_role_call sample_self_approval sample_roles of
      Inr p \<Rightarrow> pending_ids [p] = [''b3''] | Inl e \<Rightarrow> False" by code_simp
  then obtain p where p: "prepare_role sample_role_call sample_self_approval sample_roles = Inr p"
    "pending_ids [p] = [''b3'']" by (auto split: sum.splits)
  have fresh: "fresh_for p sample_roles []"
    by (simp add: fresh_for_def p(2) sample_roles_def new_role_repository_def sample_binding_def)
  have run: "(role_step UNIV)\<^sup>*\<^sup>* (new_role_repository ?bs, []) (snd ?h, [])"
    using role_handle_steps[OF p(1) _ fresh, of UNIV] by (simp add: sample_roles_def)
  have d: "distinct (map grant_of (filter active ?bs))" by code_simp
  have a: "map (\<lambda>a. (ra_entityId a, ra_entityVersion a)) (role_audits (snd ?h)) = [(''b3'', 1)]" by code_simp
  then have "audited (role_audits (snd ?h)) = {#(''b3'', 1)#}" by (simp add: audited_def)
  moreover have "versions_of ?bs = {#(''b1'', 1), (''b2'', 1)#}"
    by (simp add: versions_of_def sample_binding_def)
  ultimately show ?thesis using every_role_change_is_audited[OF d run] a by (simp add: Let_def)
qed

section \<open>What an actor sees\<close>

text \<open>
  Property C31. Visibility is safe: in an organization an actor sees, the policy allows him
  everything in every project, and a project he sees he may read, in some organization. It is
  not complete: he sees nothing exactly when each of his active bindings makes him a project
  admin, approver, operator or viewer of a whole organization, although such a binding
  allows him to read every project of it.
\<close>

theorem visible_is_permitted:
  assumes "resolve_visibility actor repo = Inr v"
  shows "(\<forall>org\<in>set (vs_organizationIds v). \<forall>project p.
      allowed (decide (\<lambda>s. listActive s repo) \<lparr>rs_actorId = actor, rs_organizationId = org, rs_projectId = project\<rparr> p)) \<and>
    (\<forall>q\<in>set (vs_projectIds v). \<exists>org.
      allowed (decide (\<lambda>s. listActive s repo) \<lparr>rs_actorId = actor, rs_organizationId = org, rs_projectId = Some q\<rparr> Goal_read)) \<and>
    (\<not> hasVisibleProjects v \<longleftrightarrow> (\<forall>b\<in>set (bindings repo). binding_actorId b = actor \<and> active b \<longrightarrow>
       binding_projectId b = None \<and> binding_role b \<noteq> Organization_owner)) \<and>
    (\<forall>b\<in>set (bindings repo). binding_actorId b = actor \<and> active b \<and> binding_projectId b = None \<longrightarrow>
       allowed (decide (\<lambda>s. listActive s repo)
         \<lparr>rs_actorId = actor, rs_organizationId = binding_organizationId b, rs_projectId = project'\<rparr> Goal_read))"
proof -
  have everyone_reads: "Goal_read \<in> set (grants r)" for r by (cases r) (simp_all add: permissions_def)
  have owner_may: "p \<in> set (grants Organization_owner)" for p by (cases p) (simp_all add: permissions_def)
  from assms have v: "v = \<lparr>vs_actorId = actor,
      vs_organizationIds = uniqueSorted (map binding_organizationId (filter (\<lambda>b. binding_role b = Organization_owner \<and>
         binding_projectId b = None) (filter (\<lambda>b. binding_actorId b = actor \<and> active b) (bindings repo)))),
      vs_projectIds = uniqueSorted (map (\<lambda>b. the (binding_projectId b)) (filter (\<lambda>b. binding_projectId b \<noteq> None)
         (filter (\<lambda>b. binding_actorId b = actor \<and> active b) (bindings repo))))\<rparr>"
    by (auto simp: resolve_visibility_def visibilityFromRoleBindings_def listActorActive_def Let_def split: if_splits)
  have orgs: "set (vs_organizationIds v) = {binding_organizationId b | b. b \<in> set (bindings repo) \<and>
      binding_actorId b = actor \<and> active b \<and> binding_role b = Organization_owner \<and> binding_projectId b = None}"
    by (auto simp: v uniqueSorted_def)
  have projects: "set (vs_projectIds v) = {q. \<exists>b\<in>set (bindings repo).
      binding_actorId b = actor \<and> active b \<and> binding_projectId b = Some q}"
    by (force simp: v uniqueSorted_def)
  have "hasVisibleProjects v \<longleftrightarrow> set (vs_organizationIds v) \<noteq> {} \<or> set (vs_projectIds v) \<noteq> {}"
    by (simp add: hasVisibleProjects_def)
  then have "\<not> hasVisibleProjects v \<longleftrightarrow> (\<forall>b\<in>set (bindings repo). binding_actorId b = actor \<and> active b \<longrightarrow>
      binding_projectId b = None \<and> binding_role b \<noteq> Organization_owner)"
  proof -
    assume h: "hasVisibleProjects v \<longleftrightarrow> set (vs_organizationIds v) \<noteq> {} \<or> set (vs_projectIds v) \<noteq> {}"
    have "set (vs_organizationIds v) = {} \<longleftrightarrow> (\<forall>b\<in>set (bindings repo). binding_actorId b = actor \<and> active b \<longrightarrow>
        binding_projectId b = None \<longrightarrow> binding_role b \<noteq> Organization_owner)"
      unfolding orgs by blast
    moreover have "set (vs_projectIds v) = {} \<longleftrightarrow> (\<forall>b\<in>set (bindings repo). binding_actorId b = actor \<and> active b \<longrightarrow>
        binding_projectId b = None)"
      unfolding projects by simp (metis not_None_eq option.distinct(1))
    ultimately show ?thesis using h by blast
  qed
  moreover have "allowed (decide (\<lambda>s. listActive s repo)
      \<lparr>rs_actorId = actor, rs_organizationId = org, rs_projectId = project\<rparr> p)"
    if "org \<in> set (vs_organizationIds v)" for org project p
  proof -
    from that obtain b where "b \<in> set (bindings repo)" "binding_actorId b = actor" "active b"
      "binding_organizationId b = org" "binding_role b = Organization_owner" "binding_projectId b = None"
      unfolding orgs by blast
    with owner_may show ?thesis unfolding memory_roles.allowed_iff by (intro bexI[of _ b]) (simp_all add: covers_def)
  qed
  moreover have "\<exists>org. allowed (decide (\<lambda>s. listActive s repo)
      \<lparr>rs_actorId = actor, rs_organizationId = org, rs_projectId = Some q\<rparr> Goal_read)"
    if "q \<in> set (vs_projectIds v)" for q
  proof -
    from that obtain b where "b \<in> set (bindings repo)" "binding_actorId b = actor" "active b"
      "binding_projectId b = Some q" unfolding projects by blast
    with everyone_reads show ?thesis unfolding memory_roles.allowed_iff
      by (intro exI[of _ "binding_organizationId b"] bexI[of _ b]) (simp_all add: covers_def)
  qed
  moreover have "allowed (decide (\<lambda>s. listActive s repo)
      \<lparr>rs_actorId = actor, rs_organizationId = binding_organizationId b, rs_projectId = project'\<rparr> Goal_read)"
    if "b \<in> set (bindings repo)" "binding_actorId b = actor \<and> active b \<and> binding_projectId b = None" for b
    using that everyone_reads unfolding memory_roles.allowed_iff
    by (intro bexI[of _ b]) (simp_all add: covers_def)
  ultimately show ?thesis by blast
qed

theorem visible_is_permitted_witness:
  "let repo = new_role_repository [sample_binding ''b1'' None ''viewer'' Viewer] in
   \<exists>v. resolve_visibility ''viewer'' repo = Inr v \<and> \<not> hasVisibleProjects v \<and>
     allowed (decide (\<lambda>s. listActive s repo)
       \<lparr>rs_actorId = ''viewer'', rs_organizationId = ''org'', rs_projectId = Some ''p''\<rparr> Goal_read)"
proof -
  let ?repo = "new_role_repository [sample_binding ''b1'' None ''viewer'' Viewer]"
  obtain v where v: "resolve_visibility ''viewer'' ?repo = Inr v"
    by (auto simp: resolve_visibility_def visibilityFromRoleBindings_def Let_def)
  have "\<forall>b\<in>set (bindings ?repo). binding_actorId b = ''viewer'' \<and> active b \<longrightarrow>
      binding_projectId b = None \<and> binding_role b \<noteq> Organization_owner"
    "sample_binding ''b1'' None ''viewer'' Viewer \<in> set (bindings ?repo)"
    by (simp_all add: new_role_repository_def sample_binding_def)
  with v visible_is_permitted[OF v, of "Some ''p''"] show ?thesis
    by (fastforce simp: Let_def sample_binding_def active_def)
qed

text \<open>The key of a visibility scope.\<close>

lemma uniqueSorted_set: "set xs = set ys \<Longrightarrow> uniqueSorted xs = uniqueSorted ys"
  unfolding uniqueSorted_def sort_eq_iff_mset
  using set_eq_iff_mset_eq_distinct[of "js_set xs" "js_set ys"] by simp

lemma length_base36: "n < 36 ^ Suc k \<Longrightarrow> length (base36 n) \<le> Suc k"
proof (induction k arbitrary: n)
  case 0
  then show ?case by (subst base36.simps) simp
next
  case (Suc k)
  show ?case
  proof (cases "n < 36")
    case False
    have "n div 36 < 36 ^ Suc k" using Suc.prems by (simp add: less_mult_imp_div_less mult.commute)
    with Suc.IH have "length (base36 (n div 36)) \<le> Suc k" .
    with False show ?thesis by (subst base36.simps) simp
  qed (subst base36.simps, simp)
qed

lemma base36_digits: "set (base36 n) \<subseteq> set ''0123456789abcdefghijklmnopqrstuvwxyz''"
proof (induction n rule: base36.induct)
  case (1 n)
  have d: "n < 36 \<Longrightarrow> ''0123456789abcdefghijklmnopqrstuvwxyz'' ! n \<in> set ''0123456789abcdefghijklmnopqrstuvwxyz''" for n :: nat
    by (rule nth_mem) simp
  have "n mod 36 < 36" by simp
  from 1 d[OF this] d[of n] show ?case by (subst base36.simps) auto
qed

lemma scope_keys_collide:
  "visibilityScopeKey \<lparr>vs_actorId = ''actor-6'', vs_organizationIds = [], vs_projectIds = [''p'']\<rparr> =
     visibilityScopeKey \<lparr>vs_actorId = ''actor-82440'', vs_organizationIds = [], vs_projectIds = [''p'']\<rparr>"
proof -
  have texts: "json_stringify (visibility_json \<lparr>vs_actorId = ''actor-6'', vs_organizationIds = [],
      vs_projectIds = [''p'']\<rparr>) = ''[\"actor-6\",[],[\"p\"]]''"
    "json_stringify (visibility_json \<lparr>vs_actorId = ''actor-82440'', vs_organizationIds = [],
      vs_projectIds = [''p'']\<rparr>) = ''[\"actor-82440\",[],[\"p\"]]''" by code_simp+
  show ?thesis unfolding visibilityScopeKey_def texts by (simp add: fnv_hash_def fnv_step_def)
qed



end
