(* ===== verification/Release_Evidence.thy ===== *)
theory Release_Evidence
  imports Json_Text
begin

text \<open>
  \<^verbatim>\<open>reliability/p12-canary-gate.ts\<close>, \<^verbatim>\<open>reliability/p12-production-release-gate.ts\<close> and
  \<^verbatim>\<open>release-center/constants.ts\<close>: the two gates that check the evidence of a release, as
  functions of unknown values. The errors are plain ones.

  \<open>Date.parse\<close> (\<open>None\<close> for NaN), \<open>localeCompare\<close> (as "not after") and SHA-256 are parameters.
\<close>

record release_environment =
  date_parse :: "string \<Rightarrow> int option"
  release_compare :: "string \<Rightarrow> string \<Rightarrow> bool"
  release_sha256 :: "string \<Rightarrow> string"

section \<open>Identifiers and references\<close>

definition is_alnum :: "char \<Rightarrow> bool" where
  "is_alnum c \<longleftrightarrow> is_upper c \<or> is_lower c \<or> is_digit c"

definition is_id_char :: "char \<Rightarrow> bool" where
  "is_id_char c \<longleftrightarrow> is_alnum c \<or> c \<in> set ''._:-''"

definition is_hex :: "char \<Rightarrow> bool" where
  "is_hex c \<longleftrightarrow> is_digit c \<or> (CHR ''a'' \<le> c \<and> c \<le> CHR ''f'')"

text \<open>\<open>SAFE_ID\<close>.\<close>

definition safe_id :: "string \<Rightarrow> bool" where
  "safe_id s \<longleftrightarrow> s \<noteq> [] \<and> is_alnum (hd s) \<and> 3 \<le> length s \<and> length s \<le> 128 \<and> list_all is_id_char (tl s)"

text \<open>\<open>PLACEHOLDER\<close>: one of the words between the ends of the text and the separators.\<close>

fun segments :: "char list \<Rightarrow> string \<Rightarrow> string list" where
  "segments seps [] = [[]]"
| "segments seps (c # cs) =
     (if c \<in> set seps then [] # segments seps cs
      else (case segments seps cs of [] \<Rightarrow> [[c]] | w # ws \<Rightarrow> (c # w) # ws))"

definition ascii_lower :: "char \<Rightarrow> char" where
  "ascii_lower c = (if is_upper c then char_of (of_char c + 32 :: nat) else c)"

definition placeholder :: "string \<Rightarrow> bool" where
  "placeholder s \<longleftrightarrow>
     list_ex (\<lambda>w. w \<in> set [''test'', ''example'', ''placeholder'', ''unknown'', ''tbd'', ''todo''])
       (segments ''-_.'' (map ascii_lower s))"

text \<open>A reference with a scheme, and the form of a digest of an artifact.\<close>

definition scheme_ref :: "string \<Rightarrow> bool" where
  "scheme_ref s \<longleftrightarrow>
     (let scheme = takeWhile (\<lambda>c. c \<noteq> CHR '':'') s; rest = dropWhile (\<lambda>c. c \<noteq> CHR '':'') s in
      scheme \<noteq> [] \<and> is_lower (hd scheme) \<and> list_all (\<lambda>c. is_lower c \<or> is_digit c \<or> c = CHR ''-'') (tl scheme) \<and>
      tl rest \<noteq> [] \<and> list_all is_id_char (tl rest))"

definition artifact_ref :: "string \<Rightarrow> bool" where
  "artifact_ref s \<longleftrightarrow> take 16 s = ''artifact:sha256:'' \<and> length (drop 16 s) = 64 \<and> list_all is_hex (drop 16 s)"

definition evidence_ref :: "string \<Rightarrow> bool" where
  "evidence_ref s \<longleftrightarrow> artifact_ref s \<or> scheme_ref s"

definition commit_sha :: "string \<Rightarrow> bool" where
  "commit_sha s \<longleftrightarrow> length s = 40 \<and> list_all is_hex s"

definition hex_digest :: "string \<Rightarrow> bool" where
  "hex_digest s \<longleftrightarrow> length s = 64 \<and> list_all is_hex s"

section \<open>Unknown values\<close>

definition gate_error :: "string \<Rightarrow> js_error + 'a" where
  "gate_error s = Inl (PlainError s)"

definition gate_object :: "json \<Rightarrow> string \<Rightarrow> js_error + (string \<times> json) list" where
  "gate_object v label =
     (case v of JObj fs \<Rightarrow> Inr fs | _ \<Rightarrow> gate_error (label @ '' must be an object''))"

definition gate_string :: "json \<Rightarrow> string \<Rightarrow> js_error + string" where
  "gate_string v label =
     (case v of JStr s \<Rightarrow> if trim s = '''' then gate_error (label @ '' must be a non-empty string'') else Inr s
      | _ \<Rightarrow> gate_error (label @ '' must be a non-empty string''))"

fun text_values :: "json list \<Rightarrow> string list option" where
  "text_values [] = Some []"
| "text_values (JStr s # vs) = (if trim s = '''' then None else map_option ((#) s) (text_values vs))"
| "text_values (v # vs) = None"

definition gate_strings :: "json \<Rightarrow> string \<Rightarrow> js_error + string list" where
  "gate_strings v label =
     (case v of
        JArr vs \<Rightarrow>
          (case text_values vs of
             Some ss \<Rightarrow> if ss = [] then gate_error (label @ '' must be a non-empty string array'') else Inr ss
           | None \<Rightarrow> gate_error (label @ '' must be a non-empty string array''))
      | _ \<Rightarrow> gate_error (label @ '' must be a non-empty string array''))"

definition gate_array :: "json \<Rightarrow> string \<Rightarrow> js_error + json list" where
  "gate_array v label = (case v of JArr vs \<Rightarrow> Inr vs | _ \<Rightarrow> gate_error (label @ '' must be an array''))"

definition gate_integer :: "json \<Rightarrow> string \<Rightarrow> js_error + int" where
  "gate_integer v label = (case v of JInt i \<Rightarrow> Inr i | _ \<Rightarrow> gate_error (label @ '' must be an integer''))"

definition ends_with :: "string \<Rightarrow> string \<Rightarrow> bool" where
  "ends_with suff s \<longleftrightarrow> drop (length s - length suff) s = suff"

definition gate_timestamp :: "release_environment \<Rightarrow> json \<Rightarrow> string \<Rightarrow> js_error + int" where
  "gate_timestamp env v label =
     and_then (gate_string v label) (\<lambda>s.
       case date_parse env s of
         None \<Rightarrow> gate_error (label @ '' must be an ISO UTC timestamp'')
       | Some t \<Rightarrow> if \<not> ends_with ''Z'' s then gate_error (label @ '' must be an ISO UTC timestamp'') else Inr t)"

definition gate_id :: "json \<Rightarrow> string \<Rightarrow> bool \<Rightarrow> js_error + string" where
  "gate_id v label rejectPlaceholder =
     and_then (gate_string v label) (\<lambda>s.
       if \<not> safe_id s \<or> (rejectPlaceholder \<and> placeholder s)
       then gate_error (label @ '' is invalid or a placeholder'') else Inr s)"

definition gate_evidenceRefs :: "json \<Rightarrow> string \<Rightarrow> js_error + string list" where
  "gate_evidenceRefs v label =
     and_then (gate_strings v label) (\<lambda>refs.
       if list_ex (\<lambda>r. \<not> evidence_ref r) refs
       then gate_error (label @ '' contains an invalid evidence reference'') else Inr refs)"

section \<open>The canary gate\<close>

definition hour_ms :: int where
  "hour_ms = 60 * 60 * 1000"

definition P12_CANARY_MINIMUM_HOURS :: int where
  "P12_CANARY_MINIMUM_HOURS = 12"

text \<open>The loop over the windows; it gives the end of the last one.\<close>

fun check_windows ::
  "release_environment \<Rightarrow> nat \<Rightarrow> int \<Rightarrow> json list \<Rightarrow> js_error + int" where
  "check_windows env i previousEnd [] = Inr previousEnd"
| "check_windows env i previousEnd (v # vs) =
     (let label = index_path ''observation.windows'' i in
      and_then (gate_object v label) (\<lambda>w.
      and_then (gate_integer (js_get w ''sequence'') (label @ ''.sequence'')) (\<lambda>sequence.
      if sequence \<noteq> int i + 1 then gate_error ''Canary observation window sequence is not contiguous''
      else
      and_then (gate_timestamp env (js_get w ''startedAt'') (label @ ''.startedAt'')) (\<lambda>windowStart.
      and_then (gate_timestamp env (js_get w ''endedAt'') (label @ ''.endedAt'')) (\<lambda>windowEnd.
      if windowStart \<noteq> previousEnd \<or> windowEnd \<le> windowStart \<or> windowEnd - windowStart > hour_ms
      then gate_error ''Canary observation windows must be contiguous and at most one hour''
      else if js_get w ''status'' \<noteq> JStr ''healthy''
      then gate_error ''Canary observation contains a P0/P1 or unhealthy window''
      else
      and_then (gate_integer (js_get w ''p0Count'') (label @ ''.p0Count'')) (\<lambda>p0.
      if p0 \<noteq> 0 then gate_error ''Canary observation contains a P0/P1 or unhealthy window''
      else
      and_then (gate_integer (js_get w ''p1Count'') (label @ ''.p1Count'')) (\<lambda>p1.
      if p1 \<noteq> 0 then gate_error ''Canary observation contains a P0/P1 or unhealthy window''
      else
      and_then (gate_evidenceRefs (js_get w ''evidenceRefs'') (label @ ''.evidenceRefs'')) (\<lambda>_.
        check_windows env (Suc i) windowEnd vs))))))))"

text \<open>
  The result has the duration in milliseconds; the code divides it by an hour. The comparison
  with the minimum is the same.
\<close>

definition validateObservation ::
  "release_environment \<Rightarrow> (string \<times> json) list \<Rightarrow> int \<Rightarrow> js_error + int \<times> nat" where
  "validateObservation env raw now =
     and_then (gate_integer (js_get raw ''requiredDurationHours'') ''observation.requiredDurationHours'') (\<lambda>required.
     if required \<noteq> P12_CANARY_MINIMUM_HOURS then gate_error ''Canary requires exactly the 12-hour minimum gate''
     else
     and_then (gate_timestamp env (js_get raw ''startedAt'') ''observation.startedAt'') (\<lambda>startedAt.
     and_then (gate_timestamp env (js_get raw ''endedAt'') ''observation.endedAt'') (\<lambda>endedAt.
     if endedAt > now then gate_error ''Canary observation cannot end in the future''
     else if endedAt - startedAt < P12_CANARY_MINIMUM_HOURS * hour_ms
     then gate_error ''Canary must observe at least 12 continuous hours''
     else
     and_then (gate_array (js_get raw ''windows'') ''observation.windows'') (\<lambda>windows.
     if int (length windows) < P12_CANARY_MINIMUM_HOURS
     then gate_error ''Canary requires at least 12 evidence windows''
     else
     and_then (check_windows env 0 startedAt windows) (\<lambda>previousEnd.
     if previousEnd \<noteq> endedAt
     then gate_error ''Canary observation windows do not cover the declared end time''
     else Inr (endedAt - startedAt, length windows))))))"

definition check_defect :: "nat \<Rightarrow> json \<Rightarrow> js_error + bool" where
  "check_defect i v =
     (let label = index_path ''defects'' i in
      and_then (gate_object v label) (\<lambda>d.
      and_then (gate_id (js_get d ''id'') (label @ ''.id'') False) (\<lambda>_.
      and_then (gate_string (js_get d ''severity'') (label @ ''.severity'')) (\<lambda>severity.
      if severity = ''P0'' \<or> severity = ''P1'' then gate_error ''Canary cannot pass with any P0/P1 defect''
      else if severity \<notin> set [''P2'', ''P3''] then gate_error (label @ ''.severity is invalid'')
      else
      and_then
        (if severity = ''P2'' then
           and_then (gate_id (js_get d ''ownerId'') (label @ ''.ownerId'') True) (\<lambda>_.
           and_then (gate_string (js_get d ''workaround'') (label @ ''.workaround'')) (\<lambda>_. Inr True))
         else Inr False) (\<lambda>is_p2.
      and_then (gate_string (js_get d ''status'') (label @ ''.status'')) (\<lambda>_. Inr is_p2))))))"

definition validateDefects :: "json \<Rightarrow> js_error + nat" where
  "validateDefects v =
     and_then (gate_array v ''defects'') (\<lambda>ds.
     and_then (map_try check_defect 0 ds) (\<lambda>p2s. Inr (length (filter id p2s))))"

definition check_operational_event ::
  "release_environment \<Rightarrow> string \<Rightarrow> nat \<Rightarrow> json \<Rightarrow> js_error + unit" where
  "check_operational_event env label i v =
     (let path = index_path label i in
      and_then (gate_object v path) (\<lambda>e.
      and_then (gate_id (js_get e ''id'') (path @ ''.id'') False) (\<lambda>_.
      and_then (gate_timestamp env (js_get e ''observedAt'') (path @ ''.observedAt'')) (\<lambda>_.
      and_then (gate_id (js_get e ''ownerId'') (path @ ''.ownerId'') True) (\<lambda>_.
      and_then (gate_evidenceRefs (js_get e ''evidenceRefs'') (path @ ''.evidenceRefs'')) (\<lambda>_.
      if label = ''alerts'' then
        and_then (gate_string (js_get e ''severity'') (path @ ''.severity'')) (\<lambda>severity.
        if severity = ''P0'' \<or> severity = ''P1'' then gate_error ''Canary cannot pass with any P0/P1 alert''
        else if js_get e ''resolved'' \<noteq> JBool True then gate_error ''Canary alerts must be resolved''
        else Inr ())
      else and_then (gate_string (js_get e ''reason'') (path @ ''.reason'')) (\<lambda>_. Inr ())))))))"

definition validateOperationalEvents ::
  "release_environment \<Rightarrow> json \<Rightarrow> string \<Rightarrow> js_error + unit" where
  "validateOperationalEvents env v label =
     and_then (gate_array v label) (\<lambda>es.
     and_then (map_try (check_operational_event env label) 0 es) (\<lambda>_. Inr ()))"

record canary_gate_result =
  duration_ms :: int
  windowCount :: nat
  p2Count :: nat

definition check_project :: "release_environment \<Rightarrow> (string \<times> json) list \<Rightarrow> js_error + int" where
  "check_project env project =
     and_then (gate_id (js_get project ''projectId'') ''project.projectId'' True) (\<lambda>_.
     and_then (gate_id (js_get project ''ownerId'') ''project.ownerId'' True) (\<lambda>_.
     and_then (gate_timestamp env (js_get project ''approvedAt'') ''project.approvedAt'') (\<lambda>approvedAt.
     if js_get project ''internal'' \<noteq> JBool True \<or> js_get project ''risk'' \<noteq> JStr ''low''
     then gate_error ''Canary project must be approved as low-risk and internal'' else Inr approvedAt)))"

definition check_scope :: "(string \<times> json) list \<Rightarrow> js_error + unit" where
  "check_scope scope =
     and_then (gate_id (js_get scope ''goalId'') ''scope.goalId'' True) (\<lambda>_.
     and_then (gate_integer (js_get scope ''goalContractVersion'') ''scope.goalContractVersion'') (\<lambda>version.
     if version < 1 then gate_error ''scope.goalContractVersion must be positive''
     else
     and_then (gate_strings (js_get scope ''allowedAreas'') ''scope.allowedAreas'') (\<lambda>allowedAreas.
     and_then (gate_strings (js_get scope ''excludedAreas'') ''scope.excludedAreas'') (\<lambda>excludedAreas.
     if list_ex (\<lambda>a. a \<in> set excludedAreas) allowedAreas
     then gate_error ''Canary allowed and excluded scope overlap'' else Inr ()))))"

definition runbook_path :: "string \<Rightarrow> bool" where
  "runbook_path s \<longleftrightarrow> prefix ''docs/runbooks/'' s \<and> ends_with ''.md'' s"

definition check_runbook :: "(string \<times> json) list \<Rightarrow> string \<Rightarrow> js_error + unit" where
  "check_runbook conditions k =
     and_then (gate_string (js_get conditions k) (''conditions.'' @ k)) (\<lambda>path.
     if \<not> runbook_path path then gate_error (''conditions.'' @ k @ '' must reference a repository Runbook'')
     else Inr ())"

definition check_conditions :: "(string \<times> json) list \<Rightarrow> js_error + unit" where
  "check_conditions conditions =
     and_then (gate_strings (js_get conditions ''success'') ''conditions.success'') (\<lambda>_.
     and_then (gate_strings (js_get conditions ''stop'') ''conditions.stop'') (\<lambda>_.
     and_then (check_runbook conditions ''rollbackRunbook'') (\<lambda>_.
     check_runbook conditions ''stopRunbook'')))"

definition check_verification ::
  "release_environment \<Rightarrow> (string \<times> json) list \<Rightarrow> (string \<times> json) list \<Rightarrow> js_error + unit" where
  "check_verification env verification observation =
     (if js_get verification ''status'' \<noteq> JStr ''passed'' then gate_error ''Goal Verification must pass''
      else
      and_then (gate_id (js_get verification ''verificationId'') ''goalVerification.verificationId'' True) (\<lambda>_.
      and_then (gate_timestamp env (js_get verification ''completedAt'') ''goalVerification.completedAt'') (\<lambda>verificationAt.
      and_then (gate_timestamp env (js_get observation ''startedAt'') ''observation.startedAt'') (\<lambda>startedAt.
      and_then (gate_timestamp env (js_get observation ''endedAt'') ''observation.endedAt'') (\<lambda>endedAt.
      if verificationAt < startedAt \<or> verificationAt > endedAt
      then gate_error ''Goal Verification must complete during the Canary window''
      else
      and_then (gate_evidenceRefs (js_get verification ''evidenceRefs'') ''goalVerification.evidenceRefs'') (\<lambda>_.
      Inr ()))))))"

definition validateP12CanaryReport ::
  "release_environment \<Rightarrow> json \<Rightarrow> int \<Rightarrow> js_error + canary_gate_result" where
  "validateP12CanaryReport env v now =
     and_then (gate_object v ''report'') (\<lambda>report.
     if js_get report ''schemaVersion'' \<noteq> JStr ''harness.p12-canary-report.v1''
     then gate_error ''unsupported canary schema''
     else
     and_then (gate_id (js_get report ''canaryId'') ''canaryId'' False) (\<lambda>_.
     if js_get report ''status'' \<noteq> JStr ''passed'' \<or> js_get report ''result'' \<noteq> JStr ''passed''
     then gate_error ''Canary report is not passed''
     else
     and_then (gate_object (js_get report ''project'') ''project'') (\<lambda>project.
     and_then (check_project env project) (\<lambda>approvedAt.
     and_then (gate_object (js_get report ''scope'') ''scope'') (\<lambda>scope.
     and_then (check_scope scope) (\<lambda>_.
     and_then (gate_object (js_get report ''conditions'') ''conditions'') (\<lambda>conditions.
     and_then (check_conditions conditions) (\<lambda>_.
     and_then (gate_object (js_get report ''observation'') ''observation'') (\<lambda>observation.
     and_then (validateObservation env observation now) (\<lambda>(duration, windows).
     and_then (gate_timestamp env (js_get observation ''startedAt'') ''observation.startedAt'') (\<lambda>startedAt.
     if approvedAt > startedAt then gate_error ''Canary owner approval must precede observation''
     else
     and_then (validateDefects (js_get report ''defects'')) (\<lambda>p2.
     and_then (validateOperationalEvents env (js_get report ''alerts'') ''alerts'') (\<lambda>_.
     and_then (validateOperationalEvents env (js_get report ''interventions'') ''interventions'') (\<lambda>_.
     and_then (gate_object (js_get report ''goalVerification'') ''goalVerification'') (\<lambda>verification.
     and_then (check_verification env verification observation) (\<lambda>_.
     and_then (gate_array (js_get report ''gaps'') ''gaps'') (\<lambda>gaps.
     if gaps \<noteq> [] then gate_error ''Canary report has unresolved gaps''
     else Inr \<lparr>duration_ms = duration, windowCount = windows, p2Count = p2\<rparr>)))))))))))))))))"

section \<open>The gate of a production release\<close>

definition P12_PRODUCTION_GATE_IDS :: "string list" where
  "P12_PRODUCTION_GATE_IDS = [''browser-e2e'', ''identity-security'', ''autodev-authorization'',
     ''model-routing-write'', ''supply-chain'', ''git-traceability'', ''recovery-stop'',
     ''observability-oncall'', ''canary-goal-verification'', ''defect-budget'']"

definition P12_RELEASE_SIGNATURE_ROLES :: "string list" where
  "P12_RELEASE_SIGNATURE_ROLES = [''owner'']"

definition release_id :: "json \<Rightarrow> string \<Rightarrow> bool \<Rightarrow> js_error + string" where
  "release_id v label rejectPlaceholder =
     and_then (gate_string v label) (\<lambda>s.
       if \<not> safe_id s \<or> (rejectPlaceholder \<and> placeholder s)
       then gate_error (label @ '' is not a real signer or receipt identity'') else Inr s)"

definition release_integer :: "json \<Rightarrow> string \<Rightarrow> js_error + int" where
  "release_integer v label =
     (case v of JInt i \<Rightarrow> if i < 0 then gate_error (label @ '' must be a non-negative integer'') else Inr i
      | _ \<Rightarrow> gate_error (label @ '' must be a non-negative integer''))"

definition release_evidenceRefs :: "json \<Rightarrow> string \<Rightarrow> js_error + unit" where
  "release_evidenceRefs v label =
     and_then (gate_array v label) (\<lambda>refs.
       if refs = [] \<or> list_ex (\<lambda>r. case r of JStr s \<Rightarrow> \<not> scheme_ref s | _ \<Rightarrow> True) refs
       then gate_error (label @ '' must contain versioned evidence references'') else Inr ())"

fun canonicalize :: "(string \<Rightarrow> string \<Rightarrow> bool) \<Rightarrow> json \<Rightarrow> json" where
  "canonicalize lc (JArr vs) = JArr (map (canonicalize lc) vs)"
| "canonicalize lc (JObj fs) =
     JObj (map (\<lambda>(k, v). (k, canonicalize lc v)) (sort_by (\<lambda>f g. lc (fst f) (fst g)) fs))"
| "canonicalize lc v = v"

definition releaseAttestationDigest :: "release_environment \<Rightarrow> json \<Rightarrow> js_error + string" where
  "releaseAttestationDigest env v =
     and_then (gate_object v ''release'') (\<lambda>release.
       Inr (release_sha256 env (json_stringify
         (canonicalize (release_compare env) (JObj (filter (\<lambda>f. fst f \<noteq> ''signatures'') release))))))"

definition check_gate ::
  "release_environment \<Rightarrow> int \<Rightarrow> int \<Rightarrow> nat \<Rightarrow> string list \<Rightarrow> json \<Rightarrow> js_error + string" where
  "check_gate env canaryEnd evaluatedAt i seen v =
     (let label = index_path ''gates'' i in
      and_then (gate_object v label) (\<lambda>gate.
      and_then (gate_string (js_get gate ''gateId'') (label @ ''.gateId'')) (\<lambda>gateId.
      if gateId \<notin> set P12_PRODUCTION_GATE_IDS \<or> gateId \<in> set seen
      then gate_error ''Production V1 gates contain an unknown or duplicate gate''
      else if js_get gate ''status'' \<noteq> JStr ''passed'' then gate_error (''gate '' @ gateId @ '' is not passed'')
      else
      and_then (gate_string (js_get gate ''ownerRole'') (label @ ''.ownerRole'')) (\<lambda>ownerRole.
      if ownerRole \<notin> set P12_RELEASE_SIGNATURE_ROLES
      then gate_error (''gate '' @ gateId @ '' has an invalid owner role'')
      else
      and_then (gate_timestamp env (js_get gate ''checkedAt'') (label @ ''.checkedAt'')) (\<lambda>checkedAt.
      if checkedAt < canaryEnd \<or> checkedAt > evaluatedAt
      then gate_error (''gate '' @ gateId @ '' was checked outside the final evidence window'')
      else
      and_then (release_evidenceRefs (js_get gate ''evidenceRefs'') (label @ ''.evidenceRefs'')) (\<lambda>_.
      Inr gateId))))))"

fun check_gates ::
  "release_environment \<Rightarrow> int \<Rightarrow> int \<Rightarrow> nat \<Rightarrow> string list \<Rightarrow> json list \<Rightarrow> js_error + string list" where
  "check_gates env canaryEnd evaluatedAt i seen [] = Inr seen"
| "check_gates env canaryEnd evaluatedAt i seen (v # vs) =
     and_then (check_gate env canaryEnd evaluatedAt i seen v) (\<lambda>gateId.
       check_gates env canaryEnd evaluatedAt (Suc i) (gateId # seen) vs)"

definition validateGates :: "release_environment \<Rightarrow> json \<Rightarrow> int \<Rightarrow> int \<Rightarrow> js_error + nat" where
  "validateGates env v canaryEnd evaluatedAt =
     and_then (gate_array v ''gates'') (\<lambda>gates.
     if length gates \<noteq> length P12_PRODUCTION_GATE_IDS then gate_error ''Production V1 gates are incomplete''
     else
     and_then (check_gates env canaryEnd evaluatedAt 0 [] gates) (\<lambda>seen.
     if list_ex (\<lambda>g. g \<notin> set seen) P12_PRODUCTION_GATE_IDS
     then gate_error ''Production V1 gates are incomplete'' else Inr (length gates)))"

definition check_p2 :: "nat \<Rightarrow> json \<Rightarrow> js_error + unit" where
  "check_p2 i v =
     (let label = index_path ''defects.p2'' i in
      and_then (gate_object v label) (\<lambda>d.
      and_then (release_id (js_get d ''id'') (label @ ''.id'') False) (\<lambda>_.
      and_then (release_id (js_get d ''ownerId'') (label @ ''.ownerId'') False) (\<lambda>_.
      and_then (gate_string (js_get d ''workaround'') (label @ ''.workaround'')) (\<lambda>_.
      release_evidenceRefs (js_get d ''evidenceRefs'') (label @ ''.evidenceRefs''))))))"

definition validateReleaseDefects :: "json \<Rightarrow> js_error + unit" where
  "validateReleaseDefects v =
     and_then (gate_object v ''defects'') (\<lambda>defects.
     and_then (release_integer (js_get defects ''p0Count'') ''defects.p0Count'') (\<lambda>p0.
     if p0 \<noteq> 0 then gate_error ''Production V1 cannot release with P0/P1 defects''
     else
     and_then (release_integer (js_get defects ''p1Count'') ''defects.p1Count'') (\<lambda>p1.
     if p1 \<noteq> 0 then gate_error ''Production V1 cannot release with P0/P1 defects''
     else
     and_then (gate_array (js_get defects ''p2'') ''defects.p2'') (\<lambda>p2.
     and_then (map_try check_p2 0 p2) (\<lambda>_. Inr ())))))"

definition check_signature ::
  "release_environment \<Rightarrow> string \<Rightarrow> int \<Rightarrow> int \<Rightarrow> nat \<Rightarrow> string list \<Rightarrow> json \<Rightarrow> js_error + string" where
  "check_signature env attestationDigest evaluatedAt now i seen v =
     (let label = index_path ''signatures'' i in
      and_then (gate_object v label) (\<lambda>s.
      and_then (gate_string (js_get s ''role'') (label @ ''.role'')) (\<lambda>role.
      if role \<notin> set P12_RELEASE_SIGNATURE_ROLES \<or> role \<in> set seen
      then gate_error ''Production V1 signatures have a missing or duplicate role''
      else
      and_then (release_id (js_get s ''signerId'') (label @ ''.signerId'') True) (\<lambda>_.
      and_then (gate_timestamp env (js_get s ''signedAt'') (label @ ''.signedAt'')) (\<lambda>signedAt.
      if signedAt < evaluatedAt then gate_error ''signature predates final gate evaluation''
      else if signedAt > now then gate_error ''signature timestamp is in the future''
      else if js_get s ''decision'' \<noteq> JStr ''approved'' \<or> js_get s ''authenticationMethod'' \<noteq> JStr ''oidc''
      then gate_error ''signature must be an approved OIDC attestation''
      else
      and_then (gate_string (js_get s ''reason'') (label @ ''.reason'')) (\<lambda>reason.
      if length reason < 20 then gate_error ''signature reason is too short''
      else
      and_then (release_id (js_get s ''requestId'') (label @ ''.requestId'') True) (\<lambda>_.
      and_then (release_id (js_get s ''auditReceiptId'') (label @ ''.auditReceiptId'') True) (\<lambda>_.
      and_then (gate_string (js_get s ''attestationDigest'') (label @ ''.attestationDigest'')) (\<lambda>digest.
      if \<not> hex_digest digest \<or> digest \<noteq> attestationDigest
      then gate_error ''signature digest does not bind the final release evidence''
      else Inr role)))))))))"

fun check_signatures ::
  "release_environment \<Rightarrow> string \<Rightarrow> int \<Rightarrow> int \<Rightarrow> nat \<Rightarrow> string list \<Rightarrow> json list \<Rightarrow> js_error + unit" where
  "check_signatures env d evaluatedAt now i seen [] = Inr ()"
| "check_signatures env d evaluatedAt now i seen (v # vs) =
     and_then (check_signature env d evaluatedAt now i seen v) (\<lambda>role.
       check_signatures env d evaluatedAt now (Suc i) (role # seen) vs)"

definition validateSignatures ::
  "release_environment \<Rightarrow> json \<Rightarrow> string \<Rightarrow> int \<Rightarrow> int \<Rightarrow> js_error + nat" where
  "validateSignatures env v attestationDigest evaluatedAt now =
     and_then (gate_array v ''signatures'') (\<lambda>signatures.
     if length signatures \<noteq> length P12_RELEASE_SIGNATURE_ROLES
     then gate_error ''Production V1 requires exactly one owner signature''
     else
     and_then (check_signatures env attestationDigest evaluatedAt now 0 [] signatures) (\<lambda>_.
     Inr (length signatures)))"

record release_gate_result =
  gateCount :: nat
  signatureCount :: nat
  result_attestationDigest :: string

definition validateP12ProductionReleaseGate ::
  "release_environment \<Rightarrow> json \<Rightarrow> int \<Rightarrow> js_error + release_gate_result" where
  "validateP12ProductionReleaseGate env v now =
     and_then (gate_object v ''release'') (\<lambda>release.
     if js_get release ''schemaVersion'' \<noteq> JStr ''harness.p12-production-release-gate.v1'' \<or>
        js_get release ''target'' \<noteq> JStr ''production-v1''
     then gate_error ''release schema or target is invalid''
     else
     and_then (release_id (js_get release ''releaseId'') ''releaseId'' False) (\<lambda>_.
     and_then (gate_string (js_get release ''candidateCommit'') ''candidateCommit'') (\<lambda>candidate.
     if \<not> commit_sha candidate then gate_error ''candidateCommit must be a full Git SHA''
     else
     and_then (gate_timestamp env (js_get release ''evaluatedAt'') ''evaluatedAt'') (\<lambda>evaluatedAt.
     if evaluatedAt > now then gate_error ''release evaluation is in the future''
     else
     and_then (gate_object (js_get release ''canary'') ''canary'') (\<lambda>canary.
     and_then (validateP12CanaryReport env (JObj canary) now) (\<lambda>_.
     and_then (gate_object (js_get canary ''observation'') ''canary.observation'') (\<lambda>observation.
     and_then (gate_timestamp env (js_get observation ''endedAt'') ''canary.observation.endedAt'') (\<lambda>canaryEnd.
     if evaluatedAt < canaryEnd then gate_error ''release was evaluated before Canary ended''
     else
     and_then (validateGates env (js_get release ''gates'') canaryEnd evaluatedAt) (\<lambda>gateCount.
     and_then (validateReleaseDefects (js_get release ''defects'')) (\<lambda>_.
     and_then (gate_array (js_get release ''gaps'') ''gaps'') (\<lambda>gaps.
     if gaps \<noteq> [] \<or> js_get release ''result'' \<noteq> JStr ''approved''
     then gate_error ''release has unresolved gaps or is not approved''
     else
     and_then (releaseAttestationDigest env (JObj release)) (\<lambda>digest.
     and_then (validateSignatures env (js_get release ''signatures'') digest evaluatedAt now) (\<lambda>signatureCount.
     Inr \<lparr>gateCount = gateCount, signatureCount = signatureCount,
       result_attestationDigest = digest\<rparr>)))))))))))))"

end
