(* ===== verification/Release_Center.thy ===== *)
theory Release_Center
  imports Release_Evidence Instants
begin

text \<open>
  \<^verbatim>\<open>release-center/domain.ts\<close>: Canaries, which observe a candidate for twelve hours, and production
  releases, which collect the ten gates and the owner's signature over a passed Canary. Reports
  are the JSON values that the gates check and the digest binds. Fields whose type has one value
  are left out of the records and written into the reports.
\<close>

section \<open>Checks\<close>

definition release_invalid :: "string \<Rightarrow> js_error + 'a" where
  "release_invalid s = Inl (ReleaseCenterValidationError s)"

definition required :: "string \<Rightarrow> string \<Rightarrow> nat \<Rightarrow> js_error + string" where
  "required v label maximum =
     (let s = trim v in
      if s = '''' \<or> length s > maximum then release_invalid (label @ '' is required and bounded'')
      else Inr s)"

definition center_id :: "string \<Rightarrow> string \<Rightarrow> js_error + string" where
  "center_id v label =
     and_then (required v label 128) (\<lambda>s.
       if \<not> safe_id s then release_invalid (label @ '' is invalid'') else Inr s)"

definition center_strings :: "string list \<Rightarrow> string \<Rightarrow> js_error + string list" where
  "center_strings vs label =
     (if vs = [] \<or> length vs > 100 then release_invalid (label @ '' must be a non-empty bounded list'')
      else map_try (\<lambda>i item. required item (index_path label i) 2000) 0 vs)"

definition center_evidenceRefs :: "string list \<Rightarrow> string \<Rightarrow> js_error + string list" where
  "center_evidenceRefs vs label =
     and_then (center_strings vs label) (\<lambda>refs.
       if list_ex (\<lambda>r. \<not> evidence_ref r) refs
       then release_invalid (label @ '' contains an invalid evidence reference'') else Inr refs)"

definition iso_utc :: "release_environment \<Rightarrow> string \<Rightarrow> string \<Rightarrow> js_error + string" where
  "iso_utc env v label =
     (case date_parse env v of
        None \<Rightarrow> release_invalid (label @ '' must be an ISO UTC timestamp'')
      | Some t \<Rightarrow> if \<not> ends_with ''Z'' v then release_invalid (label @ '' must be an ISO UTC timestamp'')
                  else Inr (toISOString t))"

text \<open>Comparisons of numbers that may be NaN (\<open>None\<close>) are false.\<close>

definition number_less :: "int option \<Rightarrow> int option \<Rightarrow> bool" where
  "number_less a b = (case (a, b) of (Some x, Some y) \<Rightarrow> x < y | _ \<Rightarrow> False)"

definition number_le :: "int option \<Rightarrow> int option \<Rightarrow> bool" where
  "number_le a b = (case (a, b) of (Some x, Some y) \<Rightarrow> x \<le> y | _ \<Rightarrow> False)"

definition number_minus :: "int option \<Rightarrow> int option \<Rightarrow> int option" where
  "number_minus a b = (case (a, b) of (Some x, Some y) \<Rightarrow> Some (x - y) | _ \<Rightarrow> None)"

section \<open>Canaries\<close>

datatype canary_status = Canary_draft | Canary_observing | Canary_stopped | Canary_passed

datatype window_status = Healthy | Unhealthy

datatype severity = P0 | P1 | P2 | P3

record canary_window =
  cw_attempt :: nat
  cw_sequence :: int
  cw_startedAt :: string
  cw_endedAt :: string
  cw_status :: window_status
  cw_p0Count :: int
  cw_p1Count :: int
  cw_evidenceRefs :: "string list"
  cw_recordedBy :: string

text \<open>A window as it is submitted; its status is any text.\<close>

record window_input =
  wi_sequence :: int
  wi_startedAt :: string
  wi_endedAt :: string
  wi_status :: string
  wi_p0Count :: int
  wi_p1Count :: int
  wi_evidenceRefs :: "string list"

record event_common =
  ev_id :: string
  ev_attempt :: nat
  ev_observedAt :: string
  ev_ownerId :: string
  ev_evidenceRefs :: "string list"
  ev_recordedBy :: string

text \<open>Severity, workaround and status of a defect; severity and resolution of an alert; the reason
  of an intervention.\<close>

datatype canary_event =
    Defect_event (event_of: event_common) severity "string option" string
  | Alert_event (event_of: event_common) severity bool
  | Intervention_event (event_of: event_common) string

record event_input =
  ei_id :: string
  ei_observedAt :: string
  ei_ownerId :: string
  ei_evidenceRefs :: "string list"

datatype new_canary_event =
    New_defect (input_of: event_input) string "string option" string
  | New_alert (input_of: event_input) string bool
  | New_intervention (input_of: event_input) string

record canary_aggregate =
  canary_id :: string
  canary_organizationId :: string
  canary_projectId :: string
  canary_goalId :: string
  canary_candidateCommit :: string
  canary_status :: canary_status
  canary_attempt :: nat
  canary_goalContractVersion :: int
  canary_allowedAreas :: "string list"
  canary_excludedAreas :: "string list"
  canary_successConditions :: "string list"
  canary_stopConditions :: "string list"
  canary_rollbackRunbook :: string
  canary_stopRunbook :: string
  canary_ownerId :: "string option"
  canary_approvedAt :: "string option"
  canary_startedAt :: "string option"
  canary_endedAt :: "string option"
  canary_report :: "json option"
  canary_windows :: "canary_window list"
  canary_events :: "canary_event list"
  canary_version :: int
  canary_createdBy :: string
  canary_createdAt :: string
  canary_updatedAt :: string

record create_canary_input =
  ci_goalId :: string
  ci_candidateCommit :: string
  ci_goalContractVersion :: int
  ci_allowedAreas :: "string list"
  ci_excludedAreas :: "string list"
  ci_successConditions :: "string list"
  ci_stopConditions :: "string list"
  ci_rollbackRunbook :: string
  ci_stopRunbook :: string

definition center_runbook :: "string \<Rightarrow> string \<Rightarrow> js_error + string" where
  "center_runbook v label =
     and_then (required v label 1000) (\<lambda>path.
       if \<not> runbook_path path then release_invalid (label @ '' must reference a repository Runbook'')
       else Inr path)"

definition createCanary ::
  "string \<Rightarrow> string \<Rightarrow> string \<Rightarrow> string \<Rightarrow> create_canary_input \<Rightarrow> int \<Rightarrow> js_error + canary_aggregate" where
  "createCanary canaryId org project createdBy input t =
     (if \<not> commit_sha (ci_candidateCommit input)
      then release_invalid ''candidateCommit must be a full lowercase Git SHA''
      else if ci_goalContractVersion input < 1 then release_invalid ''goalContractVersion must be positive''
      else
      and_then (center_strings (ci_allowedAreas input) ''allowedAreas'') (\<lambda>allowedAreas.
      and_then (center_strings (ci_excludedAreas input) ''excludedAreas'') (\<lambda>excludedAreas.
      if list_ex (\<lambda>a. a \<in> set excludedAreas) allowedAreas
      then release_invalid ''allowed and excluded scope overlap''
      else
      and_then (center_id canaryId ''canaryId'') (\<lambda>canaryId.
      and_then (center_id org ''organizationId'') (\<lambda>org.
      and_then (center_id project ''projectId'') (\<lambda>project.
      and_then (center_id (ci_goalId input) ''goalId'') (\<lambda>goalId.
      and_then (center_strings (ci_successConditions input) ''successConditions'') (\<lambda>success.
      and_then (center_strings (ci_stopConditions input) ''stopConditions'') (\<lambda>stop.
      and_then (center_runbook (ci_rollbackRunbook input) ''rollbackRunbook'') (\<lambda>rollback.
      and_then (center_runbook (ci_stopRunbook input) ''stopRunbook'') (\<lambda>stopRunbook.
      and_then (center_id createdBy ''createdBy'') (\<lambda>createdBy.
      let now = toISOString t in
      Inr \<lparr>canary_id = canaryId, canary_organizationId = org, canary_projectId = project,
        canary_goalId = goalId, canary_candidateCommit = ci_candidateCommit input,
        canary_status = Canary_draft, canary_attempt = 1,
        canary_goalContractVersion = ci_goalContractVersion input,
        canary_allowedAreas = allowedAreas, canary_excludedAreas = excludedAreas,
        canary_successConditions = success, canary_stopConditions = stop,
        canary_rollbackRunbook = rollback, canary_stopRunbook = stopRunbook,
        canary_ownerId = None, canary_approvedAt = None, canary_startedAt = None,
        canary_endedAt = None, canary_report = None, canary_windows = [], canary_events = [],
        canary_version = 1, canary_createdBy = createdBy, canary_createdAt = now,
        canary_updatedAt = now\<rparr>))))))))))))"

definition approveCanary ::
  "canary_aggregate \<Rightarrow> string \<Rightarrow> string \<Rightarrow> int \<Rightarrow> js_error + canary_aggregate" where
  "approveCanary c actor reason t =
     (if canary_status c \<noteq> Canary_draft then release_invalid ''only a draft Canary can be approved''
      else
      and_then (required reason ''reason'' 4000) (\<lambda>_.
      and_then (center_id actor ''actorId'') (\<lambda>owner.
      let now = toISOString t in
      Inr (c\<lparr>canary_status := Canary_observing, canary_ownerId := Some owner,
        canary_approvedAt := Some now, canary_startedAt := Some now, canary_endedAt := None,
        canary_version := canary_version c + 1, canary_updatedAt := now\<rparr>))))"

definition restartCanary ::
  "canary_aggregate \<Rightarrow> string \<Rightarrow> string \<Rightarrow> int \<Rightarrow> js_error + canary_aggregate" where
  "restartCanary c actor reason t =
     (if canary_status c \<noteq> Canary_stopped then release_invalid ''only a stopped Canary can restart''
      else
      and_then (required reason ''reason'' 4000) (\<lambda>_.
      and_then (center_id actor ''actorId'') (\<lambda>owner.
      let now = toISOString t in
      Inr (c\<lparr>canary_status := Canary_observing, canary_attempt := canary_attempt c + 1,
        canary_ownerId := Some owner, canary_approvedAt := Some now, canary_startedAt := Some now,
        canary_endedAt := None, canary_report := None,
        canary_version := canary_version c + 1, canary_updatedAt := now\<rparr>))))"

definition release_count :: "int \<Rightarrow> string \<Rightarrow> js_error + int" where
  "release_count i label =
     (if i < 0 then release_invalid (label @ '' must be a non-negative integer'') else Inr i)"

definition current_windows :: "canary_aggregate \<Rightarrow> canary_window list" where
  "current_windows c = filter (\<lambda>w. cw_attempt w = canary_attempt c) (canary_windows c)"

definition current_events :: "canary_aggregate \<Rightarrow> canary_event list" where
  "current_events c = filter (\<lambda>e. ev_attempt (event_of e) = canary_attempt c) (canary_events c)"

text \<open>The end of the last window of the attempt.\<close>

definition last_end :: "canary_window list \<Rightarrow> string option" where
  "last_end ws = (if ws = [] then None else Some (cw_endedAt (last ws)))"

definition parse_window_status :: "string \<Rightarrow> window_status option" where
  "parse_window_status s =
     (if s = ''healthy'' then Some Healthy else if s = ''unhealthy'' then Some Unhealthy else None)"

definition recordCanaryWindow ::
  "release_environment \<Rightarrow> canary_aggregate \<Rightarrow> string \<Rightarrow> window_input \<Rightarrow> int \<Rightarrow> js_error + canary_aggregate" where
  "recordCanaryWindow env c actor w t =
     (if canary_status c \<noteq> Canary_observing \<or> \<not> truthy_string (canary_startedAt c)
      then release_invalid ''Canary is not observing''
      else if wi_sequence w \<noteq> int (length (current_windows c)) + 1
      then release_invalid ''Canary window sequence must be contiguous''
      else
      and_then (iso_utc env (wi_startedAt w) ''window.startedAt'') (\<lambda>startedAt.
      and_then (iso_utc env (wi_endedAt w) ''window.endedAt'') (\<lambda>endedAt.
      let expectedStart = (case last_end (current_windows c) of Some s \<Rightarrow> s | None \<Rightarrow> the (canary_startedAt c));
          startMillis = date_parse env startedAt; endMillis = date_parse env endedAt
      in
      if startedAt \<noteq> expectedStart \<or> number_le endMillis startMillis \<or>
         number_less (Some hour_ms) (number_minus endMillis startMillis)
      then release_invalid ''Canary windows must be contiguous and at most one hour''
      else if number_less (Some t) endMillis then release_invalid ''Canary window cannot end in the future''
      else
      (case parse_window_status (wi_status w) of
         None \<Rightarrow> release_invalid ''Canary window status is invalid''
       | Some status \<Rightarrow>
      and_then (release_count (wi_p0Count w) ''window.p0Count'') (\<lambda>p0.
      and_then (release_count (wi_p1Count w) ''window.p1Count'') (\<lambda>p1.
      and_then (center_evidenceRefs (wi_evidenceRefs w) ''window.evidenceRefs'') (\<lambda>refs.
      and_then (center_id actor ''actorId'') (\<lambda>recordedBy.
      let stopped = (status \<noteq> Healthy \<or> p0 > 0 \<or> p1 > 0) in
      Inr (c\<lparr>canary_windows := canary_windows c @
          [\<lparr>cw_attempt = canary_attempt c, cw_sequence = wi_sequence w, cw_startedAt = startedAt,
            cw_endedAt = endedAt, cw_status = status, cw_p0Count = p0, cw_p1Count = p1,
            cw_evidenceRefs = refs, cw_recordedBy = recordedBy\<rparr>],
        canary_status := (if stopped then Canary_stopped else Canary_observing),
        canary_endedAt := (if stopped then Some endedAt else None),
        canary_version := canary_version c + 1, canary_updatedAt := toISOString t\<rparr>)))))))))"

definition parse_severity :: "string \<Rightarrow> severity option" where
  "parse_severity s =
     (if s = ''P0'' then Some P0 else if s = ''P1'' then Some P1
      else if s = ''P2'' then Some P2 else if s = ''P3'' then Some P3 else None)"

definition critical :: "severity \<Rightarrow> bool" where
  "critical s \<longleftrightarrow> s = P0 \<or> s = P1"

text \<open>The event with its fields checked, and whether it stops the observation.\<close>

definition present :: "string option \<Rightarrow> string option" where
  "present s = (if truthy_string s then s else None)"

definition checked_event :: "new_canary_event \<Rightarrow> event_common \<Rightarrow> js_error + canary_event \<times> bool" where
  "checked_event e common =
     (case e of
        New_intervention _ reason \<Rightarrow>
          and_then (required reason ''event.reason'' 4000) (\<lambda>r. Inr (Intervention_event common r, False))
      | New_alert _ severity resolved \<Rightarrow>
          (case parse_severity severity of
             None \<Rightarrow> release_invalid ''event.severity is invalid''
           | Some s \<Rightarrow> Inr (Alert_event common s resolved, critical s))
      | New_defect _ severity workaround status \<Rightarrow>
          (case parse_severity severity of
             None \<Rightarrow> release_invalid ''event.severity is invalid''
           | Some s \<Rightarrow>
               and_then
                 (if s = P2 then
                    and_then (required (case workaround of Some x \<Rightarrow> x | None \<Rightarrow> '''') ''event.workaround'' 4000)
                      (\<lambda>x. Inr (Some x))
                  else Inr (map_option trim workaround)) (\<lambda>w.
               and_then (required status ''event.status'' 200) (\<lambda>st.
               Inr (Defect_event common s (present w) st, critical s)))))"

definition recordCanaryEvent ::
  "release_environment \<Rightarrow> canary_aggregate \<Rightarrow> string \<Rightarrow> new_canary_event \<Rightarrow> int \<Rightarrow> js_error + canary_aggregate" where
  "recordCanaryEvent env c actor e t =
     (let input = input_of e in
      if canary_status c \<noteq> Canary_observing \<or> \<not> truthy_string (canary_startedAt c)
      then release_invalid ''Canary is not observing''
      else if list_ex (\<lambda>x. ev_attempt (event_of x) = canary_attempt c \<and> ev_id (event_of x) = ei_id input) (canary_events c)
      then release_invalid ''Canary event already exists''
      else
      and_then (center_id (ei_id input) ''event.id'') (\<lambda>i.
      and_then (iso_utc env (ei_observedAt input) ''event.observedAt'') (\<lambda>observedAt.
      and_then (center_id (ei_ownerId input) ''event.ownerId'') (\<lambda>ownerId.
      and_then (center_evidenceRefs (ei_evidenceRefs input) ''event.evidenceRefs'') (\<lambda>refs.
      and_then (center_id actor ''actorId'') (\<lambda>recordedBy.
      let observed = date_parse env observedAt in
      if number_less observed (date_parse env (the (canary_startedAt c))) \<or> number_less (Some t) observed
      then release_invalid ''Canary event is outside the active observation''
      else
      and_then (checked_event e \<lparr>ev_id = i, ev_attempt = canary_attempt c, ev_observedAt = observedAt,
          ev_ownerId = ownerId, ev_evidenceRefs = refs, ev_recordedBy = recordedBy\<rparr>) (\<lambda>(event, stopped).
      Inr (c\<lparr>canary_events := canary_events c @ [event],
        canary_status := (if stopped then Canary_stopped else Canary_observing),
        canary_endedAt := (if stopped then Some (toISOString t) else None),
        canary_version := canary_version c + 1, canary_updatedAt := toISOString t\<rparr>))))))))"

definition is_alert_of :: "canary_aggregate \<Rightarrow> string \<Rightarrow> canary_event \<Rightarrow> bool" where
  "is_alert_of c i e \<longleftrightarrow> ev_attempt (event_of e) = canary_attempt c \<and> ev_id (event_of e) = i \<and>
     (case e of Alert_event _ _ _ \<Rightarrow> True | _ \<Rightarrow> False)"

fun resolved_event :: "canary_event \<Rightarrow> canary_event" where
  "resolved_event (Alert_event common s r) = Alert_event common s True"
| "resolved_event e = e"

fun update_first_event :: "(canary_event \<Rightarrow> bool) \<Rightarrow> canary_event list \<Rightarrow> canary_event list option" where
  "update_first_event P [] = None"
| "update_first_event P (e # es) =
     (if P e then Some (resolved_event e # es) else map_option ((#) e) (update_first_event P es))"

definition resolveCanaryAlert ::
  "canary_aggregate \<Rightarrow> string \<Rightarrow> string \<Rightarrow> int \<Rightarrow> js_error + canary_aggregate" where
  "resolveCanaryAlert c eventId reason t =
     (if canary_status c \<noteq> Canary_observing then release_invalid ''Canary is not observing''
      else
      and_then (required reason ''reason'' 4000) (\<lambda>_.
      (case update_first_event (is_alert_of c eventId) (canary_events c) of
         None \<Rightarrow> release_invalid ''Canary alert was not found''
       | Some events \<Rightarrow>
           Inr (c\<lparr>canary_events := events, canary_version := canary_version c + 1,
             canary_updatedAt := toISOString t\<rparr>))))"

section \<open>The report of a Canary\<close>

record passed_verification =
  pv_id :: string
  pv_verifiedAt :: string
  pv_evidenceRefs :: "string list"

definition texts :: "string list \<Rightarrow> json" where
  "texts ss = JArr (map JStr ss)"

definition window_status_name :: "window_status \<Rightarrow> string" where
  "window_status_name s = (case s of Healthy \<Rightarrow> ''healthy'' | Unhealthy \<Rightarrow> ''unhealthy'')"

definition severity_name :: "severity \<Rightarrow> string" where
  "severity_name s = (case s of P0 \<Rightarrow> ''P0'' | P1 \<Rightarrow> ''P1'' | P2 \<Rightarrow> ''P2'' | P3 \<Rightarrow> ''P3'')"

definition window_json :: "canary_window \<Rightarrow> json" where
  "window_json w = JObj [(''sequence'', JInt (cw_sequence w)), (''startedAt'', JStr (cw_startedAt w)),
     (''endedAt'', JStr (cw_endedAt w)), (''status'', JStr (window_status_name (cw_status w))),
     (''p0Count'', JInt (cw_p0Count w)), (''p1Count'', JInt (cw_p1Count w)),
     (''evidenceRefs'', texts (cw_evidenceRefs w))]"

fun defect_json :: "canary_event \<Rightarrow> json list" where
  "defect_json (Defect_event e s workaround status) =
     [JObj ([(''id'', JStr (ev_id e)), (''severity'', JStr (severity_name s)),
        (''ownerId'', JStr (ev_ownerId e)), (''status'', JStr status)] @
        (case present workaround of Some w \<Rightarrow> [(''workaround'', JStr w)] | None \<Rightarrow> []))]"
| "defect_json e = []"

fun alert_json :: "canary_event \<Rightarrow> json list" where
  "alert_json (Alert_event e s resolved) =
     [JObj [(''id'', JStr (ev_id e)), (''severity'', JStr (severity_name s)),
        (''observedAt'', JStr (ev_observedAt e)), (''ownerId'', JStr (ev_ownerId e)),
        (''resolved'', JBool resolved), (''evidenceRefs'', texts (ev_evidenceRefs e))]]"
| "alert_json e = []"

fun intervention_json :: "canary_event \<Rightarrow> json list" where
  "intervention_json (Intervention_event e reason) =
     [JObj [(''id'', JStr (ev_id e)), (''observedAt'', JStr (ev_observedAt e)),
        (''ownerId'', JStr (ev_ownerId e)), (''reason'', JStr reason),
        (''evidenceRefs'', texts (ev_evidenceRefs e))]]"
| "intervention_json e = []"

definition canary_report_json ::
  "canary_aggregate \<Rightarrow> string \<Rightarrow> string \<Rightarrow> string \<Rightarrow> string list \<Rightarrow> json" where
  "canary_report_json c endedAt verificationId completedAt refs =
     (let windows = current_windows c; events = current_events c in
      JObj [(''schemaVersion'', JStr ''harness.p12-canary-report.v1''),
        (''canaryId'', JStr (canary_id c)),
        (''status'', JStr ''passed''),
        (''project'', JObj [(''projectId'', JStr (canary_projectId c)), (''internal'', JBool True),
           (''risk'', JStr ''low''), (''ownerId'', JStr (the (canary_ownerId c))),
           (''approvedAt'', JStr (the (canary_approvedAt c)))]),
        (''scope'', JObj [(''goalId'', JStr (canary_goalId c)),
           (''goalContractVersion'', JInt (canary_goalContractVersion c)),
           (''allowedAreas'', texts (canary_allowedAreas c)),
           (''excludedAreas'', texts (canary_excludedAreas c))]),
        (''conditions'', JObj [(''success'', texts (canary_successConditions c)),
           (''stop'', texts (canary_stopConditions c)),
           (''rollbackRunbook'', JStr (canary_rollbackRunbook c)),
           (''stopRunbook'', JStr (canary_stopRunbook c))]),
        (''observation'', JObj [(''requiredDurationHours'', JInt 12),
           (''startedAt'', JStr (the (canary_startedAt c))), (''endedAt'', JStr endedAt),
           (''windows'', JArr (map window_json windows))]),
        (''defects'', JArr (concat (map defect_json events))),
        (''alerts'', JArr (concat (map alert_json events))),
        (''interventions'', JArr (concat (map intervention_json events))),
        (''goalVerification'', JObj [(''status'', JStr ''passed''),
           (''verificationId'', JStr verificationId), (''completedAt'', JStr completedAt),
           (''evidenceRefs'', texts refs)]),
        (''gaps'', JArr []),
        (''result'', JStr ''passed'')])"

definition finalizeCanary ::
  "release_environment \<Rightarrow> canary_aggregate \<Rightarrow> passed_verification \<Rightarrow> int \<Rightarrow> js_error + canary_aggregate" where
  "finalizeCanary env c verification t =
     (if canary_status c \<noteq> Canary_observing \<or> \<not> truthy_string (canary_startedAt c) \<or>
         \<not> truthy_string (canary_approvedAt c) \<or> \<not> truthy_string (canary_ownerId c)
      then release_invalid ''Canary is not eligible for finalization''
      else
      let windows = current_windows c in
      case present (last_end windows) of
        None \<Rightarrow> release_invalid ''Canary requires 12 continuous hours''
      | Some endedAt \<Rightarrow>
          if length windows < 12 \<or>
             number_less (number_minus (date_parse env endedAt) (date_parse env (the (canary_startedAt c))))
               (Some (12 * hour_ms))
          then release_invalid ''Canary requires 12 continuous hours''
          else
          and_then (center_id (pv_id verification) ''verification.id'') (\<lambda>verificationId.
          and_then (iso_utc env (pv_verifiedAt verification) ''verification.verifiedAt'') (\<lambda>completedAt.
          and_then (center_evidenceRefs (pv_evidenceRefs verification) ''verification.evidenceRefs'') (\<lambda>refs.
          let report = canary_report_json c endedAt verificationId completedAt refs in
          and_then (validateP12CanaryReport env report t) (\<lambda>_.
          Inr (c\<lparr>canary_status := Canary_passed, canary_endedAt := Some endedAt,
            canary_report := Some report, canary_version := canary_version c + 1,
            canary_updatedAt := toISOString t\<rparr>))))))"

text \<open>The progress of an observation. The code gives hours; this gives milliseconds.\<close>

record canary_progress =
  completedMillis :: "int option"
  progress_windowCount :: nat

definition canaryProgress :: "release_environment \<Rightarrow> canary_aggregate \<Rightarrow> canary_progress" where
  "canaryProgress env c =
     \<lparr>completedMillis = fold (\<lambda>w total.
        case (total, number_minus (date_parse env (cw_endedAt w)) (date_parse env (cw_startedAt w))) of
          (Some x, Some y) \<Rightarrow> Some (x + y) | _ \<Rightarrow> None) (current_windows c) (Some 0),
      progress_windowCount = length (current_windows c)\<rparr>"

section \<open>Production releases\<close>

datatype production_release_status = Release_draft | Awaiting_signatures | Release_approved

record production_gate_check =
  pg_gateId :: string
  pg_ownerRole :: string
  pg_checkedAt :: string
  pg_evidenceRefs :: "string list"
  pg_checkedBy :: string

record production_signature =
  ps_role :: string
  ps_signerId :: string
  ps_signedAt :: string
  ps_reason :: string
  ps_requestId :: string
  ps_auditReceiptId :: string
  ps_attestationDigest :: string

record p2_defect =
  p2_id :: string
  p2_ownerId :: string
  p2_workaround :: string
  p2_evidenceRefs :: "string list"

record production_release =
  release_aggregate_id :: string
  release_organizationId :: string
  release_projectId :: string
  release_goalId :: string
  release_canaryId :: string
  release_candidateCommit :: string
  release_status :: production_release_status
  release_canaryReport :: json
  release_gates :: "production_gate_check list"
  release_p2 :: "p2_defect list"
  release_evaluatedAt :: "string option"
  release_attestationDigest :: "string option"
  release_signatures :: "production_signature list"
  release_report :: "json option"
  release_version :: int
  release_createdBy :: string
  release_createdAt :: string
  release_updatedAt :: string

fun p2_of_event :: "canary_event \<Rightarrow> (js_error + p2_defect) list" where
  "p2_of_event (Defect_event e s workaround status) =
     (if s = P2 then
        [and_then (required (case workaround of Some w \<Rightarrow> w | None \<Rightarrow> '''') ''P2 workaround'' 4000) (\<lambda>w.
           Inr \<lparr>p2_id = ev_id e, p2_ownerId = ev_ownerId e, p2_workaround = w,
             p2_evidenceRefs = ev_evidenceRefs e\<rparr>)]
      else [])"
| "p2_of_event e = []"

definition createProductionRelease ::
  "string \<Rightarrow> canary_aggregate \<Rightarrow> string \<Rightarrow> int \<Rightarrow> js_error + production_release" where
  "createProductionRelease i c actor t =
     (if canary_status c \<noteq> Canary_passed then release_invalid ''Production release requires a passed Canary''
      else
      case canary_report c of
        None \<Rightarrow> release_invalid ''Production release requires a passed Canary''
      | Some report \<Rightarrow>
          and_then (map_try (\<lambda>_ x. x) 0 (concat (map p2_of_event (current_events c)))) (\<lambda>p2.
          and_then (center_id i ''releaseId'') (\<lambda>i.
          and_then (center_id actor ''actorId'') (\<lambda>createdBy.
          let now = toISOString t in
          Inr \<lparr>release_aggregate_id = i, release_organizationId = canary_organizationId c,
            release_projectId = canary_projectId c, release_goalId = canary_goalId c,
            release_canaryId = canary_id c, release_candidateCommit = canary_candidateCommit c,
            release_status = Release_draft, release_canaryReport = report, release_gates = [],
            release_p2 = p2, release_evaluatedAt = None, release_attestationDigest = None,
            release_signatures = [], release_report = None, release_version = 1,
            release_createdBy = createdBy, release_createdAt = now, release_updatedAt = now\<rparr>))))"

definition recordProductionGate ::
  "production_release \<Rightarrow> string \<Rightarrow> string \<Rightarrow> string \<Rightarrow> string list \<Rightarrow> int \<Rightarrow> js_error + production_release" where
  "recordProductionGate r actor gateId ownerRole refs t =
     (if release_status r \<noteq> Release_draft
      then release_invalid ''Production release evidence is locked after evaluation''
      else if gateId \<notin> set P12_PRODUCTION_GATE_IDS \<or> ownerRole \<notin> set P12_RELEASE_SIGNATURE_ROLES
      then release_invalid ''Production gate or owner role is invalid''
      else
      and_then (center_evidenceRefs refs ''gate.evidenceRefs'') (\<lambda>refs.
      and_then (center_id actor ''actorId'') (\<lambda>checkedBy.
      Inr (r\<lparr>release_gates := filter (\<lambda>g. pg_gateId g \<noteq> gateId) (release_gates r) @
          [\<lparr>pg_gateId = gateId, pg_ownerRole = ownerRole, pg_checkedAt = toISOString t,
            pg_evidenceRefs = refs, pg_checkedBy = checkedBy\<rparr>],
        release_version := release_version r + 1, release_updatedAt := toISOString t\<rparr>))))"

definition gate_json :: "production_gate_check \<Rightarrow> json" where
  "gate_json g = JObj [(''gateId'', JStr (pg_gateId g)), (''status'', JStr ''passed''),
     (''ownerRole'', JStr (pg_ownerRole g)), (''checkedAt'', JStr (pg_checkedAt g)),
     (''evidenceRefs'', texts (pg_evidenceRefs g))]"

definition p2_json :: "p2_defect \<Rightarrow> json" where
  "p2_json d = JObj [(''id'', JStr (p2_id d)), (''ownerId'', JStr (p2_ownerId d)),
     (''workaround'', JStr (p2_workaround d)), (''evidenceRefs'', texts (p2_evidenceRefs d))]"

definition signature_json :: "production_signature \<Rightarrow> json" where
  "signature_json s = JObj [(''role'', JStr (ps_role s)), (''signerId'', JStr (ps_signerId s)),
     (''signedAt'', JStr (ps_signedAt s)), (''decision'', JStr ''approved''),
     (''reason'', JStr (ps_reason s)), (''authenticationMethod'', JStr ''oidc''),
     (''requestId'', JStr (ps_requestId s)), (''auditReceiptId'', JStr (ps_auditReceiptId s)),
     (''attestationDigest'', JStr (ps_attestationDigest s))]"

definition productionReport ::
  "production_release \<Rightarrow> production_signature list \<Rightarrow> string \<Rightarrow> json" where
  "productionReport r signatures evaluatedAt =
     JObj [(''schemaVersion'', JStr ''harness.p12-production-release-gate.v1''),
       (''releaseId'', JStr (release_aggregate_id r)), (''target'', JStr ''production-v1''),
       (''candidateCommit'', JStr (release_candidateCommit r)), (''evaluatedAt'', JStr evaluatedAt),
       (''canary'', release_canaryReport r), (''gates'', JArr (map gate_json (release_gates r))),
       (''defects'', JObj [(''p0Count'', JInt 0), (''p1Count'', JInt 0),
          (''p2'', JArr (map p2_json (release_p2 r)))]),
       (''signatures'', JArr (map signature_json signatures)), (''gaps'', JArr []),
       (''result'', JStr ''approved'')]"

definition evaluateProductionRelease ::
  "release_environment \<Rightarrow> production_release \<Rightarrow> string \<Rightarrow> int \<Rightarrow> js_error + production_release" where
  "evaluateProductionRelease env r actor t =
     (if release_status r \<noteq> Release_draft then release_invalid ''Production release is already evaluated''
      else if list_ex (\<lambda>g. g \<notin> pg_gateId ` set (release_gates r)) P12_PRODUCTION_GATE_IDS \<or>
         length (release_gates r) \<noteq> length P12_PRODUCTION_GATE_IDS
      then release_invalid ''Production release requires all ten gates''
      else
      and_then (center_id actor ''actorId'') (\<lambda>_.
      let evaluatedAt = toISOString t; unsigned = productionReport r [] evaluatedAt in
      and_then (releaseAttestationDigest env unsigned) (\<lambda>digest.
      Inr (r\<lparr>release_status := Awaiting_signatures, release_evaluatedAt := Some evaluatedAt,
        release_attestationDigest := Some digest, release_report := Some unsigned,
        release_version := release_version r + 1, release_updatedAt := evaluatedAt\<rparr>))))"

record sign_input =
  sign_actorId :: string
  sign_role :: string
  sign_reason :: string
  sign_requestId :: string
  sign_auditReceiptId :: string

definition signProductionRelease ::
  "release_environment \<Rightarrow> production_release \<Rightarrow> sign_input \<Rightarrow> int \<Rightarrow> js_error + production_release" where
  "signProductionRelease env r x t =
     (if release_status r \<noteq> Awaiting_signatures \<or> \<not> truthy_string (release_evaluatedAt r) \<or>
         \<not> truthy_string (release_attestationDigest r)
      then release_invalid ''Production release is not awaiting signatures''
      else if sign_role x \<notin> set P12_RELEASE_SIGNATURE_ROLES then release_invalid ''signature role is invalid''
      else
      and_then (center_id (sign_actorId x) ''actorId'') (\<lambda>signerId.
      if list_ex (\<lambda>s. ps_role s = sign_role x) (release_signatures r)
      then release_invalid ''signature role is already approved''
      else
      and_then (required (sign_reason x) ''reason'' 4000) (\<lambda>reason.
      if length reason < 20 then release_invalid ''signature reason is too short''
      else
      and_then (center_id (sign_requestId x) ''requestId'') (\<lambda>requestId.
      and_then (center_id (sign_auditReceiptId x) ''auditReceiptId'') (\<lambda>auditReceiptId.
      let signatures = release_signatures r @
            [\<lparr>ps_role = sign_role x, ps_signerId = signerId, ps_signedAt = toISOString t,
              ps_reason = reason, ps_requestId = requestId, ps_auditReceiptId = auditReceiptId,
              ps_attestationDigest = the (release_attestationDigest r)\<rparr>];
          report = productionReport r signatures (the (release_evaluatedAt r));
          complete = (length signatures = length P12_RELEASE_SIGNATURE_ROLES)
      in
      and_then (if complete then and_then (validateP12ProductionReleaseGate env report t) (\<lambda>_. Inr ())
                else Inr ()) (\<lambda>_.
      Inr (r\<lparr>release_status := (if complete then Release_approved else Awaiting_signatures),
        release_signatures := signatures, release_report := Some report,
        release_version := release_version r + 1, release_updatedAt := toISOString t\<rparr>)))))))"

end
