(* ===== verification/Release_Gates.thy ===== *)
theory Release_Gates
  imports Release_Center
begin

text \<open>
  What the two release gates of \<^verbatim>\<open>reliability/\<close> establish about the evidence that
  \<^verbatim>\<open>release-center/domain.ts\<close> puts before them, in terms of the Canary and the release
  themselves.
\<close>

section \<open>References\<close>

lemma id_chars: "is_hex c \<Longrightarrow> is_id_char c"
  by (auto simp: is_hex_def is_id_char_def is_alnum_def is_lower_def is_digit_def less_eq_char_def)

text \<open>The pattern of a digest is void: what it matches has a scheme and a name.\<close>

lemma artifact_is_scheme: "artifact_ref s \<Longrightarrow> scheme_ref s"
proof -
  assume a: "artifact_ref s"
  define d where "d = drop 16 s"
  have s: "s = ''artifact'' @ CHR '':'' # ''sha256:'' @ d"
    using a append_take_drop_id[of 16 s] by (simp add: artifact_ref_def d_def)
  have d: "list_all is_id_char d" "d \<noteq> []"
    using a by (auto simp: artifact_ref_def d_def list_all_iff id_chars)
  have t: "takeWhile (\<lambda>c. c \<noteq> CHR '':'') s = ''artifact''"
    "dropWhile (\<lambda>c. c \<noteq> CHR '':'') s = CHR '':'' # ''sha256:'' @ d"
    unfolding s by simp_all
  show ?thesis
    unfolding scheme_ref_def t using d
    by (simp add: is_lower_def is_id_char_def is_alnum_def is_digit_def less_eq_char_def)
qed

lemma evidence_ref_iff: "evidence_ref s \<longleftrightarrow> scheme_ref s"
  using artifact_is_scheme by (auto simp: evidence_ref_def)

section \<open>Checks of known values\<close>

named_theorems gate_simps

lemma gate_object_Inr [gate_simps]: "gate_object v l = Inr fs \<longleftrightarrow> v = JObj fs"
  by (cases v) (auto simp: gate_object_def gate_error_def)

lemma gate_string_Inr [gate_simps]: "gate_string v l = Inr s \<longleftrightarrow> v = JStr s \<and> trim s \<noteq> ''''"
  by (cases v) (auto simp: gate_string_def gate_error_def)

lemma gate_array_Inr [gate_simps]: "gate_array v l = Inr vs \<longleftrightarrow> v = JArr vs"
  by (cases v) (auto simp: gate_array_def gate_error_def)

lemma gate_integer_Inr [gate_simps]: "gate_integer v l = Inr i \<longleftrightarrow> v = JInt i"
  by (cases v) (auto simp: gate_integer_def gate_error_def)

lemma release_integer_Inr [gate_simps]: "release_integer v l = Inr i \<longleftrightarrow> v = JInt i \<and> 0 \<le> i"
  by (cases v) (auto simp: release_integer_def gate_error_def)

lemma gate_error_Inr [simp]: "gate_error s \<noteq> Inr x" "(if b then gate_error s else r) = Inr x \<longleftrightarrow> \<not> b \<and> r = Inr x"
  by (auto simp: gate_error_def)

lemma gate_timestamp_Inr [gate_simps]:
  "gate_timestamp env v l = Inr t \<longleftrightarrow>
     (\<exists>s. v = JStr s \<and> trim s \<noteq> '''' \<and> date_parse env s = Some t \<and> ends_with ''Z'' s)"
  by (auto simp: gate_timestamp_def gate_simps result_simps split: option.splits)

lemma gate_id_Inr [gate_simps]:
  "gate_id v l b = Inr s \<longleftrightarrow> v = JStr s \<and> trim s \<noteq> '''' \<and> safe_id s \<and> \<not> (b \<and> placeholder s)"
  by (auto simp: gate_id_def gate_simps result_simps)

lemma release_id_Inr [gate_simps]:
  "release_id v l b = Inr s \<longleftrightarrow> v = JStr s \<and> trim s \<noteq> '''' \<and> safe_id s \<and> \<not> (b \<and> placeholder s)"
  by (auto simp: release_id_def gate_simps result_simps)

lemma JStr_list_inject [simp]: "map JStr xs = map JStr ys \<longleftrightarrow> xs = ys"
  by (auto simp: inj_def intro: map_injective)

lemma texts_inject [simp]: "texts xs = texts ys \<longleftrightarrow> xs = ys"
  by (simp add: texts_def)

lemma text_values_map:
  "text_values (map JStr ss) = (if \<forall>s\<in>set ss. trim s \<noteq> '''' then Some ss else None)"
  by (induction ss) auto

lemma text_values_Some: "text_values vs = Some ss \<longleftrightarrow> vs = map JStr ss \<and> (\<forall>s\<in>set ss. trim s \<noteq> '''')"
proof
  show "text_values vs = Some ss \<Longrightarrow> vs = map JStr ss \<and> (\<forall>s\<in>set ss. trim s \<noteq> '''')"
    by (induction vs arbitrary: ss rule: text_values.induct) (auto split: if_splits)
qed (simp add: text_values_map)

lemma gate_strings_Inr [gate_simps]:
  "gate_strings v l = Inr ss \<longleftrightarrow> v = texts ss \<and> ss \<noteq> [] \<and> (\<forall>s\<in>set ss. trim s \<noteq> '''')"
  by (cases v) (auto simp: gate_strings_def texts_def text_values_Some text_values_map split: option.splits)

lemma gate_evidenceRefs_Inr [gate_simps]:
  "gate_evidenceRefs v l = Inr ss \<longleftrightarrow>
     v = texts ss \<and> ss \<noteq> [] \<and> (\<forall>s\<in>set ss. trim s \<noteq> '''' \<and> scheme_ref s)"
  by (auto simp: gate_evidenceRefs_def gate_simps result_simps list_ex_iff evidence_ref_iff)

lemma release_evidenceRefs_Inr [gate_simps]:
  "release_evidenceRefs (texts ss) l = Inr u \<longleftrightarrow> ss \<noteq> [] \<and> (\<forall>s\<in>set ss. scheme_ref s)"
  by (auto simp: release_evidenceRefs_def gate_simps result_simps list_ex_iff texts_def)

lemma map_try_each: "map_try f i xs = Inr ys \<Longrightarrow> x \<in> set xs \<Longrightarrow> \<exists>j y. f j x = Inr y"
  by (induction xs arbitrary: i ys) (auto simp: result_simps)

section \<open>The Canary gate\<close>

text \<open>The windows lead from one instant to another without a hole, and nothing happened in them.\<close>

fun windows_cover :: "release_environment \<Rightarrow> nat \<Rightarrow> int \<Rightarrow> canary_window list \<Rightarrow> int \<Rightarrow> bool" where
  "windows_cover env i from_t [] to_t \<longleftrightarrow> from_t = to_t"
| "windows_cover env i from_t (w # ws) to_t \<longleftrightarrow>
     cw_sequence w = int i + 1 \<and> cw_status w = Healthy \<and> cw_p0Count w = 0 \<and> cw_p1Count w = 0 \<and>
     cw_evidenceRefs w \<noteq> [] \<and> list_all scheme_ref (cw_evidenceRefs w) \<and>
     date_parse env (cw_startedAt w) = Some from_t \<and>
     (\<exists>t. date_parse env (cw_endedAt w) = Some t \<and> from_t < t \<and> t - from_t \<le> hour_ms \<and>
        windows_cover env (Suc i) t ws to_t)"

lemma window_json_get:
  "window_json w = JObj fs \<longleftrightarrow> fs = [(''sequence'', JInt (cw_sequence w)), (''startedAt'', JStr (cw_startedAt w)),
     (''endedAt'', JStr (cw_endedAt w)), (''status'', JStr (window_status_name (cw_status w))),
     (''p0Count'', JInt (cw_p0Count w)), (''p1Count'', JInt (cw_p1Count w)),
     (''evidenceRefs'', texts (cw_evidenceRefs w))]"
  by (auto simp: window_json_def)

lemma healthy_name [simp]: "window_status_name s = ''healthy'' \<longleftrightarrow> s = Healthy"
  by (cases s) (simp_all add: window_status_name_def)

lemma check_windows_cover:
  "check_windows env i prev (map window_json ws) = Inr e \<Longrightarrow> windows_cover env i prev ws e"
proof (induction ws arbitrary: i prev)
  case (Cons w ws)
  then show ?case
    by (auto simp: Let_def result_simps gate_simps window_json_get list_all_iff)
qed simp

fun benign :: "canary_event \<Rightarrow> bool" where
  "benign (Defect_event e s workaround status) \<longleftrightarrow> \<not> critical s \<and> (s = P2 \<longrightarrow> present workaround \<noteq> None)"
| "benign (Alert_event e s resolved) \<longleftrightarrow> \<not> critical s \<and> resolved"
| "benign (Intervention_event e reason) \<longleftrightarrow> True"

lemma severity_name_eq [simp]:
  "severity_name s = ''P0'' \<longleftrightarrow> s = P0" "severity_name s = ''P1'' \<longleftrightarrow> s = P1" "severity_name s = ''P2'' \<longleftrightarrow> s = P2"
  by (cases s; simp add: severity_name_def)+

lemma checked_defect:
  assumes "check_defect i v = Inr b" and "v \<in> set (defect_json e)"
  shows "benign e"
  using assms
  by (cases e) (auto simp: check_defect_def Let_def result_simps gate_simps critical_def split: if_splits option.splits)

lemma checked_alert:
  assumes "check_operational_event env ''alerts'' i v = Inr u" and "v \<in> set (alert_json e)"
  shows "benign e"
  using assms
  by (cases e) (auto simp: check_operational_event_def Let_def result_simps gate_simps critical_def)

lemma events_benign:
  assumes "validateDefects (JArr (concat (map defect_json es))) = Inr n"
    and "validateOperationalEvents env (JArr (concat (map alert_json es))) ''alerts'' = Inr u"
    and "e \<in> set es"
  shows "benign e"
proof (cases e)
  case (Defect_event x s w st)
  then have "\<exists>v. v \<in> set (defect_json e)" by simp
  then obtain v where v: "v \<in> set (defect_json e)" by blast
  with assms(3) have m: "v \<in> set (concat (map defect_json es))" by auto
  from assms(1) obtain ys where y: "map_try check_defect 0 (concat (map defect_json es)) = Inr ys"
    by (auto simp: validateDefects_def gate_simps result_simps)
  from map_try_each[OF y m] obtain j b where "check_defect j v = Inr b" by blast
  then show ?thesis using v by (rule checked_defect)
next
  case (Alert_event x s r)
  then have "\<exists>v. v \<in> set (alert_json e)" by simp
  then obtain v where v: "v \<in> set (alert_json e)" by blast
  with assms(3) have m: "v \<in> set (concat (map alert_json es))" by auto
  from assms(2) obtain ys where
    y: "map_try (check_operational_event env ''alerts'') 0 (concat (map alert_json es)) = Inr ys"
    by (auto simp: validateOperationalEvents_def gate_simps result_simps)
  from map_try_each[OF y m] obtain j b where "check_operational_event env ''alerts'' j v = Inr b" by blast
  then show ?thesis using v by (rule checked_alert)
qed simp

text \<open>What a Canary with a report has shown, at the time \<open>now\<close> of its finalization.\<close>

definition canary_evidence ::
  "release_environment \<Rightarrow> canary_aggregate \<Rightarrow> string \<Rightarrow> string \<Rightarrow> string list \<Rightarrow> int \<Rightarrow> bool" where
  "canary_evidence env c endedAt completedAt refs now \<longleftrightarrow>
     (\<exists>a s v e. date_parse env (the (canary_approvedAt c)) = Some a \<and>
        date_parse env (the (canary_startedAt c)) = Some s \<and> date_parse env completedAt = Some v \<and>
        date_parse env endedAt = Some e \<and> a \<le> s \<and> s \<le> v \<and> v \<le> e \<and> e \<le> now \<and> 12 * hour_ms \<le> e - s \<and>
        windows_cover env 0 s (current_windows c) e) \<and>
     12 \<le> length (current_windows c) \<and> list_all benign (current_events c) \<and>
     refs \<noteq> [] \<and> list_all scheme_ref refs \<and>
     \<not> placeholder (the (canary_ownerId c)) \<and> commit_sha (canary_candidateCommit c)"

lemma canary_report_get:
  "canary_report_json c endedAt vid completedAt refs = JObj fs \<longleftrightarrow>
   fs = [(''schemaVersion'', JStr ''harness.p12-canary-report.v1''),
        (''canaryId'', JStr (canary_id c)),
        (''status'', JStr ''passed''),
        (''project'', JObj [(''projectId'', JStr (canary_projectId c)), (''internal'', JBool True),
           (''risk'', JStr ''low''), (''ownerId'', JStr (the (canary_ownerId c))),
           (''approvedAt'', JStr (the (canary_approvedAt c)))]),
        (''scope'', JObj [(''goalId'', JStr (canary_goalId c)),
           (''goalContractVersion'', JInt (canary_goalContractVersion c)),
           (''allowedAreas'', texts (canary_allowedAreas c)),
           (''excludedAreas'', texts (canary_excludedAreas c))]),
        (''conditions'', JObj [(''success'', texts (canary_successConditions c)),
           (''stop'', texts (canary_stopConditions c)),
           (''rollbackRunbook'', JStr (canary_rollbackRunbook c)),
           (''stopRunbook'', JStr (canary_stopRunbook c))]),
        (''observation'', JObj [(''requiredDurationHours'', JInt 12),
           (''startedAt'', JStr (the (canary_startedAt c))), (''endedAt'', JStr endedAt),
           (''windows'', JArr (map window_json (current_windows c)))]),
        (''defects'', JArr (concat (map defect_json (current_events c)))),
        (''alerts'', JArr (concat (map alert_json (current_events c)))),
        (''interventions'', JArr (concat (map intervention_json (current_events c)))),
        (''goalVerification'', JObj [(''status'', JStr ''passed''),
           (''verificationId'', JStr vid), (''completedAt'', JStr completedAt),
           (''evidenceRefs'', texts refs)]),
        (''gaps'', JArr []),
        (''result'', JStr ''passed'')]"
  by (auto simp: canary_report_json_def Let_def)

lemma canary_report_accepted:
  assumes "validateP12CanaryReport env (canary_report_json c endedAt vid completedAt refs) now = Inr r"
    and "commit_sha (canary_candidateCommit c)"
  shows "canary_evidence env c endedAt completedAt refs now"
proof -
  from assms(1) obtain a s v e n u where
    f: "date_parse env (the (canary_approvedAt c)) = Some a"
      "date_parse env (the (canary_startedAt c)) = Some s" "date_parse env completedAt = Some v"
      "date_parse env endedAt = Some e" "a \<le> s" "s \<le> v" "v \<le> e" "e \<le> now" "12 * hour_ms \<le> e - s"
      "check_windows env 0 s (map window_json (current_windows c)) = Inr e"
      "12 \<le> length (current_windows c)" "refs \<noteq> []" "list_all scheme_ref refs"
      "\<not> placeholder (the (canary_ownerId c))"
    and ev: "validateDefects (JArr (concat (map defect_json (current_events c)))) = Inr n"
      "validateOperationalEvents env (JArr (concat (map alert_json (current_events c)))) ''alerts'' = Inr u"
    by (auto simp: validateP12CanaryReport_def result_simps gate_simps canary_report_get check_project_def
        check_verification_def validateObservation_def P12_CANARY_MINIMUM_HOURS_def list_all_iff)
  have "list_all benign (current_events c)" using events_benign[OF ev] by (simp add: list_all_iff)
  with f check_windows_cover[OF f(10)] assms(2) show ?thesis unfolding canary_evidence_def by blast
qed

section \<open>The gate of a production release\<close>

definition gate_passed :: "release_environment \<Rightarrow> int \<Rightarrow> int \<Rightarrow> production_gate_check \<Rightarrow> bool" where
  "gate_passed env canaryEnd evaluatedAt g \<longleftrightarrow>
     pg_gateId g \<in> set P12_PRODUCTION_GATE_IDS \<and> pg_ownerRole g = ''owner'' \<and>
     pg_evidenceRefs g \<noteq> [] \<and> list_all scheme_ref (pg_evidenceRefs g) \<and>
     (\<exists>t. date_parse env (pg_checkedAt g) = Some t \<and> canaryEnd \<le> t \<and> t \<le> evaluatedAt)"

lemma checked_gate:
  "check_gate env canaryEnd evaluatedAt i seen (gate_json g) = Inr gateId \<Longrightarrow>
     gateId = pg_gateId g \<and> gate_passed env canaryEnd evaluatedAt g \<and> pg_gateId g \<notin> set seen"
  by (auto simp: check_gate_def gate_json_def Let_def result_simps gate_simps gate_passed_def list_all_iff
      P12_RELEASE_SIGNATURE_ROLES_def)

lemma checked_gates:
  "check_gates env canaryEnd evaluatedAt i seen (map gate_json gs) = Inr seen' \<Longrightarrow>
     list_all (gate_passed env canaryEnd evaluatedAt) gs \<and> distinct (map pg_gateId gs) \<and>
     set (map pg_gateId gs) \<inter> set seen = {} \<and> set seen' = set seen \<union> set (map pg_gateId gs)"
proof (induction gs arbitrary: i seen)
  case (Cons g gs)
  then obtain gateId where
    one: "check_gate env canaryEnd evaluatedAt i seen (gate_json g) = Inr gateId"
    and rest: "check_gates env canaryEnd evaluatedAt (Suc i) (gateId # seen) (map gate_json gs) = Inr seen'"
    by (auto simp: result_simps)
  from Cons.IH[OF rest] checked_gate[OF one] show ?case by auto
qed simp

definition ten_gates_passed ::
  "release_environment \<Rightarrow> int \<Rightarrow> int \<Rightarrow> production_gate_check list \<Rightarrow> bool" where
  "ten_gates_passed env canaryEnd evaluatedAt gs \<longleftrightarrow>
     distinct (map pg_gateId gs) \<and> set (map pg_gateId gs) = set P12_PRODUCTION_GATE_IDS \<and>
     list_all (gate_passed env canaryEnd evaluatedAt) gs"

lemma validated_gates:
  assumes "validateGates env (JArr (map gate_json gs)) canaryEnd evaluatedAt = Inr n"
  shows "ten_gates_passed env canaryEnd evaluatedAt gs"
proof -
  from assms obtain seen where
    c: "check_gates env canaryEnd evaluatedAt 0 [] (map gate_json gs) = Inr seen"
    and all: "set P12_PRODUCTION_GATE_IDS \<subseteq> set seen"
    by (auto simp: validateGates_def result_simps gate_simps list_ex_iff)
  from checked_gates[OF c] have g: "list_all (gate_passed env canaryEnd evaluatedAt) gs"
    "distinct (map pg_gateId gs)" "set seen = set (map pg_gateId gs)" by auto
  moreover from g(1) have "set (map pg_gateId gs) \<subseteq> set P12_PRODUCTION_GATE_IDS"
    by (auto simp: list_all_iff gate_passed_def)
  ultimately show ?thesis using all unfolding ten_gates_passed_def by auto
qed

definition owner_signature ::
  "release_environment \<Rightarrow> string \<Rightarrow> int \<Rightarrow> int \<Rightarrow> production_signature \<Rightarrow> bool" where
  "owner_signature env digest evaluatedAt now s \<longleftrightarrow>
     ps_role s = ''owner'' \<and> safe_id (ps_signerId s) \<and> \<not> placeholder (ps_signerId s) \<and>
     20 \<le> length (ps_reason s) \<and> ps_attestationDigest s = digest \<and> hex_digest digest \<and>
     (\<exists>t. date_parse env (ps_signedAt s) = Some t \<and> evaluatedAt \<le> t \<and> t \<le> now)"

lemma checked_signature:
  "check_signature env digest evaluatedAt now i seen (signature_json s) = Inr role \<Longrightarrow>
     owner_signature env digest evaluatedAt now s"
  by (auto simp: check_signature_def signature_json_def Let_def result_simps gate_simps owner_signature_def
      P12_RELEASE_SIGNATURE_ROLES_def)

lemma validated_signatures:
  assumes "validateSignatures env (JArr (map signature_json ss)) digest evaluatedAt now = Inr n"
  shows "\<exists>s. ss = [s] \<and> owner_signature env digest evaluatedAt now s"
proof -
  from assms have "length ss = 1"
    by (auto simp: validateSignatures_def result_simps gate_simps P12_RELEASE_SIGNATURE_ROLES_def)
  then obtain s where s: "ss = [s]" by (auto simp: length_Suc_conv)
  with assms obtain role where "check_signature env digest evaluatedAt now 0 [] (signature_json s) = Inr role"
    by (auto simp: validateSignatures_def result_simps gate_simps)
  with s checked_signature show ?thesis by blast
qed

text \<open>The digest leaves the signatures out.\<close>

definition attested_digest :: "release_environment \<Rightarrow> production_release \<Rightarrow> string \<Rightarrow> string" where
  "attested_digest env r evaluatedAt =
     projr (releaseAttestationDigest env (productionReport r [] evaluatedAt))"

lemma releaseAttestationDigest_report:
  "releaseAttestationDigest env (productionReport r signatures evaluatedAt) =
     Inr (attested_digest env r evaluatedAt)"
  by (simp add: attested_digest_def releaseAttestationDigest_def productionReport_def gate_object_def)

lemma attested_digest_cong:
  assumes "release_aggregate_id r = release_aggregate_id r'" "release_candidateCommit r = release_candidateCommit r'"
    "release_canaryReport r = release_canaryReport r'" "release_gates r = release_gates r'" "release_p2 r = release_p2 r'"
  shows "attested_digest env r evaluatedAt = attested_digest env r' evaluatedAt"
  using assms by (simp add: attested_digest_def productionReport_def)

text \<open>What an approved release has shown, at the time \<open>now\<close> of its signature.\<close>

definition release_evidence ::
  "release_environment \<Rightarrow> production_release \<Rightarrow> string \<Rightarrow> int \<Rightarrow> bool" where
  "release_evidence env r canaryEndedAt now \<longleftrightarrow>
     (\<exists>e ev s. date_parse env canaryEndedAt = Some e \<and>
        date_parse env (the (release_evaluatedAt r)) = Some ev \<and> e \<le> ev \<and> ev \<le> now \<and>
        ten_gates_passed env e ev (release_gates r) \<and> release_signatures r = [s] \<and>
        owner_signature env (attested_digest env r (the (release_evaluatedAt r))) ev now s)"

lemma observation_of_report:
  "canary_report_json c endedAt vid completedAt refs = JObj fs \<Longrightarrow>
   js_get fs ''observation'' = JObj [(''requiredDurationHours'', JInt 12),
     (''startedAt'', JStr (the (canary_startedAt c))), (''endedAt'', JStr endedAt),
     (''windows'', JArr (map window_json (current_windows c)))]"
  by (auto simp: canary_report_get)

lemma productionReport_get:
  "productionReport r signatures evaluatedAt = JObj fs \<longleftrightarrow>
   fs = [(''schemaVersion'', JStr ''harness.p12-production-release-gate.v1''),
       (''releaseId'', JStr (release_aggregate_id r)), (''target'', JStr ''production-v1''),
       (''candidateCommit'', JStr (release_candidateCommit r)), (''evaluatedAt'', JStr evaluatedAt),
       (''canary'', release_canaryReport r), (''gates'', JArr (map gate_json (release_gates r))),
       (''defects'', JObj [(''p0Count'', JInt 0), (''p1Count'', JInt 0),
          (''p2'', JArr (map p2_json (release_p2 r)))]),
       (''signatures'', JArr (map signature_json signatures)), (''gaps'', JArr []),
       (''result'', JStr ''approved'')]"
  by (auto simp: productionReport_def)

lemma production_report_accepted:
  assumes "validateP12ProductionReleaseGate env (productionReport r signatures evaluatedAt) now = Inr res"
    and "release_canaryReport r = canary_report_json c endedAt vid completedAt refs"
  shows "\<exists>e ev s. date_parse env endedAt = Some e \<and> date_parse env evaluatedAt = Some ev \<and> e \<le> ev \<and>
    ev \<le> now \<and> ten_gates_passed env e ev (release_gates r) \<and> signatures = [s] \<and>
    owner_signature env (attested_digest env r evaluatedAt) ev now s"
proof -
  from assms(1) obtain fs cs ev obs e n m d where
    fs: "productionReport r signatures evaluatedAt = JObj fs" and cs: "release_canaryReport r = JObj cs"
    and ev: "date_parse env evaluatedAt = Some ev" "ev \<le> now"
    and obs: "js_get cs ''observation'' = JObj obs"
    and e: "gate_timestamp env (js_get obs ''endedAt'') ''canary.observation.endedAt'' = Inr e" "e \<le> ev"
    and gates: "validateGates env (JArr (map gate_json (release_gates r))) e ev = Inr n"
    and signs: "validateSignatures env (JArr (map signature_json signatures)) d ev now = Inr m"
    and d: "releaseAttestationDigest env (JObj fs) = Inr d"
    by (auto simp: validateP12ProductionReleaseGate_def result_simps gate_simps productionReport_get)
  from obs observation_of_report[of c endedAt vid completedAt refs cs] cs assms(2) e(1)
  have "date_parse env endedAt = Some e" by (auto simp: gate_simps)
  moreover from d fs releaseAttestationDigest_report[of env r signatures evaluatedAt]
  have "d = attested_digest env r evaluatedAt" by simp
  ultimately show ?thesis
    using ev e(2) validated_gates[OF gates] validated_signatures[OF signs] by blast
qed

end
