(* ===== verification/Release_Service.thy ===== *)
theory Release_Service
  imports Release_Center Access_Control
begin

text \<open>
  \<^verbatim>\<open>release-center/service.ts\<close> over \<^verbatim>\<open>release-center/memory-repository.ts\<close>, authorized by
  \<^verbatim>\<open>release-center/authorizer.ts\<close>. A request is two steps: its checks and reads, which end in an
  answer or in a commit, and the commit.
\<close>

section \<open>Authorization\<close>

text \<open>\<open>releaseRoleBindings\<close>: the role that a release role needs.\<close>

definition releaseRoleBindings :: "string \<Rightarrow> role option" where
  "releaseRoleBindings r = (if r = ''owner'' then Some Organization_owner else None)"

definition authorizePermission ::
  "(role_scope \<Rightarrow> role_binding list) \<Rightarrow> role_scope \<Rightarrow> permission \<Rightarrow> js_error + unit" where
  "authorizePermission reader scope p = assertAllowed reader scope p"

definition authorizeRole ::
  "(role_scope \<Rightarrow> role_binding list) \<Rightarrow> role_scope \<Rightarrow> string \<Rightarrow> js_error + unit" where
  "authorizeRole reader scope r =
     (let expected = releaseRoleBindings r in
      if list_ex (\<lambda>b. Some (binding_role b) = expected \<and>
           (if expected = Some Organization_owner then binding_projectId b = None
            else binding_projectId b = rs_projectId scope)) (reader scope)
      then Inr () else Inl AuthorizationDeniedError)"

section \<open>Commands\<close>

record release_command =
  rel_organizationId :: string
  rel_projectId :: string
  rel_actorId :: string
  rel_requestId :: string
  rel_idempotencyKey :: string
  rel_reason :: string

datatype canary_action =
    Approve_canary
  | Restart_canary
  | Record_window window_input
  | Record_event new_canary_event
  | Resolve_alert string
  | Finalize_canary

datatype production_action =
    Record_gate string string "string list"
  | Evaluate_release
  | Sign_release string

datatype release_request =
    Create_canary (command_of: release_command) create_canary_input
  | Canary_request (command_of: release_command) string int canary_action
  | Create_release (command_of: release_command) string
  | Release_request (command_of: release_command) string int production_action

text \<open>The surroundings of one request: two readings of the clock and the generated ids.\<close>

record release_call =
  rx_occurredAt :: int
  rx_now :: int
  rx_ids :: "nat \<Rightarrow> string"

record release_metadata =
  md_organizationId :: string
  md_actorId :: string
  md_idempotencyKey :: string
  md_requestHash :: string
  md_endpoint :: string
  md_auditId :: string
  md_eventId :: string
  md_eventType :: string
  md_occurredAt :: string

definition valid_identity_text :: "string \<Rightarrow> string \<Rightarrow> nat \<Rightarrow> js_error + unit" where
  "valid_identity_text label v minimum =
     (if trim v = '''' \<or> length (trim v) < minimum \<or> length v > 4000
      then release_invalid (label @ '' is required and bounded'') else Inr ())"

definition validIdentity :: "release_command \<Rightarrow> js_error + unit" where
  "validIdentity c =
     and_then (valid_identity_text ''actorId'' (rel_actorId c) 1) (\<lambda>_.
     and_then (valid_identity_text ''requestId'' (rel_requestId c) 1) (\<lambda>_.
     and_then (valid_identity_text ''idempotencyKey'' (rel_idempotencyKey c) 8) (\<lambda>_.
     valid_identity_text ''reason'' (rel_reason c) 20)))"

text \<open>The payload of a request, as the value that is hashed.\<close>

definition command_fields :: "release_command \<Rightarrow> (string \<times> json) list" where
  "command_fields c = [(''organizationId'', JStr (rel_organizationId c)),
     (''projectId'', JStr (rel_projectId c)), (''actorId'', JStr (rel_actorId c)),
     (''requestId'', JStr (rel_requestId c)), (''idempotencyKey'', JStr (rel_idempotencyKey c)),
     (''reason'', JStr (rel_reason c))]"

definition window_input_json :: "window_input \<Rightarrow> json" where
  "window_input_json w = JObj [(''sequence'', JInt (wi_sequence w)), (''startedAt'', JStr (wi_startedAt w)),
     (''endedAt'', JStr (wi_endedAt w)), (''status'', JStr (wi_status w)),
     (''p0Count'', JInt (wi_p0Count w)), (''p1Count'', JInt (wi_p1Count w)),
     (''evidenceRefs'', texts (wi_evidenceRefs w))]"

definition event_input_fields :: "event_input \<Rightarrow> (string \<times> json) list" where
  "event_input_fields e = [(''id'', JStr (ei_id e)), (''observedAt'', JStr (ei_observedAt e)),
     (''ownerId'', JStr (ei_ownerId e)), (''evidenceRefs'', texts (ei_evidenceRefs e))]"

fun new_event_json :: "new_canary_event \<Rightarrow> json" where
  "new_event_json (New_defect e s workaround status) =
     JObj (event_input_fields e @ [(''kind'', JStr ''defect''), (''severity'', JStr s), (''status'', JStr status)] @
       (case workaround of Some w \<Rightarrow> [(''workaround'', JStr w)] | None \<Rightarrow> []))"
| "new_event_json (New_alert e s resolved) =
     JObj (event_input_fields e @ [(''kind'', JStr ''alert''), (''severity'', JStr s), (''resolved'', JBool resolved)])"
| "new_event_json (New_intervention e reason) =
     JObj (event_input_fields e @ [(''kind'', JStr ''intervention''), (''reason'', JStr reason)])"

fun canary_action_fields :: "canary_action \<Rightarrow> (string \<times> json) list" where
  "canary_action_fields (Record_window w) = [(''window'', window_input_json w)]"
| "canary_action_fields (Record_event e) = [(''event'', new_event_json e)]"
| "canary_action_fields (Resolve_alert i) = [(''eventId'', JStr i)]"
| "canary_action_fields _ = []"

fun production_action_fields :: "production_action \<Rightarrow> (string \<times> json) list" where
  "production_action_fields (Record_gate g r refs) =
     [(''gateId'', JStr g), (''ownerRole'', JStr r), (''evidenceRefs'', texts refs)]"
| "production_action_fields Evaluate_release = []"
| "production_action_fields (Sign_release r) = [(''role'', JStr r)]"

fun request_json :: "release_request \<Rightarrow> json" where
  "request_json (Create_canary c i) = JObj (command_fields c @
     [(''goalId'', JStr (ci_goalId i)), (''candidateCommit'', JStr (ci_candidateCommit i)),
      (''goalContractVersion'', JInt (ci_goalContractVersion i)),
      (''allowedAreas'', texts (ci_allowedAreas i)), (''excludedAreas'', texts (ci_excludedAreas i)),
      (''successConditions'', texts (ci_successConditions i)),
      (''stopConditions'', texts (ci_stopConditions i)),
      (''rollbackRunbook'', JStr (ci_rollbackRunbook i)), (''stopRunbook'', JStr (ci_stopRunbook i))])"
| "request_json (Canary_request c i v a) = JObj (command_fields c @
     [(''canaryId'', JStr i), (''expectedVersion'', JInt v)] @ canary_action_fields a)"
| "request_json (Create_release c i) = JObj (command_fields c @ [(''canaryId'', JStr i)])"
| "request_json (Release_request c i v a) = JObj (command_fields c @
     [(''releaseId'', JStr i), (''expectedVersion'', JInt v)] @ production_action_fields a)"

fun canary_endpoint :: "canary_action \<Rightarrow> string \<times> string" where
  "canary_endpoint Approve_canary = (''release.canary.approve'', ''release.canary.approved'')"
| "canary_endpoint Restart_canary = (''release.canary.restart'', ''release.canary.restarted'')"
| "canary_endpoint (Record_window _) = (''release.canary.window'', ''release.canary.window-recorded'')"
| "canary_endpoint (Record_event _) = (''release.canary.event'', ''release.canary.event-recorded'')"
| "canary_endpoint (Resolve_alert _) = (''release.canary.resolve-alert'', ''release.canary.alert-resolved'')"
| "canary_endpoint Finalize_canary = (''release.canary.finalize'', ''release.canary.passed'')"

fun production_endpoint :: "production_action \<Rightarrow> string \<times> string" where
  "production_endpoint (Record_gate _ _ _) = (''release.production.gate'', ''release.production.gate-passed'')"
| "production_endpoint Evaluate_release = (''release.production.evaluate'', ''release.production.evaluated'')"
| "production_endpoint (Sign_release _) = (''release.production.sign'', ''release.production.signed'')"

fun endpoint_of :: "release_request \<Rightarrow> string \<times> string" where
  "endpoint_of (Create_canary _ _) = (''release.canary.create'', ''release.canary.created'')"
| "endpoint_of (Canary_request _ _ _ a) = canary_endpoint a"
| "endpoint_of (Create_release _ _) = (''release.production.create'', ''release.production.created'')"
| "endpoint_of (Release_request _ _ _ a) = production_endpoint a"

definition release_hash :: "release_environment \<Rightarrow> json \<Rightarrow> string" where
  "release_hash env v = release_sha256 env (json_stringify (canonicalize (release_compare env) v))"

definition release_metadata ::
  "release_environment \<Rightarrow> release_call \<Rightarrow> release_request \<Rightarrow> js_error + release_metadata" where
  "release_metadata env x q =
     (let c = command_of q in
      and_then (validIdentity c) (\<lambda>_.
      Inr \<lparr>md_organizationId = rel_organizationId c, md_actorId = rel_actorId c,
        md_idempotencyKey = rel_idempotencyKey c, md_requestHash = release_hash env (request_json q),
        md_endpoint = fst (endpoint_of q), md_auditId = rx_ids x 0, md_eventId = rx_ids x 1,
        md_eventType = snd (endpoint_of q), md_occurredAt = toISOString (rx_occurredAt x)\<rparr>))"

section \<open>The repository in memory\<close>

datatype release_aggregate = Canary_result canary_aggregate | Release_result production_release

record release_store =
  canaries :: "(string \<times> canary_aggregate) list"
  releases :: "(string \<times> production_release) list"
  release_receipts :: "string \<rightharpoonup> string \<times> release_aggregate"
  release_verifications :: "string \<rightharpoonup> passed_verification"

definition new_release_store :: release_store where
  "new_release_store = \<lparr>canaries = [], releases = [], release_receipts = Map.empty,
     release_verifications = Map.empty\<rparr>"

definition release_key :: "string \<Rightarrow> string \<Rightarrow> string \<Rightarrow> string" where
  "release_key org project i = org @ '':'' @ project @ '':'' @ i"

definition command_key :: "release_metadata \<Rightarrow> string" where
  "command_key m = md_organizationId m @ '':'' @ md_actorId m @ '':'' @ md_endpoint m @ '':'' @ md_idempotencyKey m"

text \<open>\<open>replay\<close>, which does not look at the type of the aggregate it finds.\<close>

definition replay_command ::
  "release_metadata \<Rightarrow> release_store \<Rightarrow> js_error + release_aggregate option" where
  "replay_command m st =
     (case release_receipts st (command_key m) of
        None \<Rightarrow> Inr None
      | Some (h, a) \<Rightarrow>
          if h \<noteq> md_requestHash m then Inl ReleaseCenterIdempotencyConflictError else Inr (Some a))"

definition remember_command ::
  "release_metadata \<Rightarrow> release_aggregate \<Rightarrow> release_store \<Rightarrow> release_store" where
  "remember_command m a st =
     st\<lparr>release_receipts := (release_receipts st)(command_key m \<mapsto> (md_requestHash m, a))\<rparr>"

definition listCanaries ::
  "release_environment \<Rightarrow> string \<Rightarrow> string \<Rightarrow> release_store \<Rightarrow> canary_aggregate list" where
  "listCanaries env org project st =
     sort_by (\<lambda>l r. release_compare env (canary_createdAt r) (canary_createdAt l))
       (filter (\<lambda>c. canary_organizationId c = org \<and> canary_projectId c = project) (map snd (canaries st)))"

definition getCanary :: "string \<Rightarrow> string \<Rightarrow> string \<Rightarrow> release_store \<Rightarrow> canary_aggregate option" where
  "getCanary org project i st = map_of (canaries st) (release_key org project i)"

definition version_conflict :: "int \<Rightarrow> int option \<Rightarrow> bool" where
  "version_conflict expected current \<longleftrightarrow>
     (expected = 0 \<and> current \<noteq> None) \<or> (expected > 0 \<and> current \<noteq> Some expected)"

definition canary_key :: "canary_aggregate \<Rightarrow> string" where
  "canary_key c = release_key (canary_organizationId c) (canary_projectId c) (canary_id c)"

definition commitCanary ::
  "canary_aggregate \<Rightarrow> int \<Rightarrow> release_metadata \<Rightarrow> release_store \<Rightarrow>
   (js_error + release_aggregate) \<times> release_store" where
  "commitCanary c expected m st =
     (case replay_command m st of
        Inl e \<Rightarrow> (Inl e, st)
      | Inr (Some a) \<Rightarrow> (Inr a, st)
      | Inr None \<Rightarrow>
          if version_conflict expected (map_option canary_version (map_of (canaries st) (canary_key c)))
          then (Inl ReleaseCenterVersionConflictError, st)
          else (Inr (Canary_result c),
                remember_command m (Canary_result c)
                  (st\<lparr>canaries := AList.update (canary_key c) c (canaries st)\<rparr>)))"

text \<open>The instants of \<open>verifiedAt\<close> are compared as texts.\<close>

definition findPassedGoalVerification ::
  "string \<Rightarrow> string \<Rightarrow> string \<Rightarrow> string \<Rightarrow> string \<Rightarrow> release_store \<Rightarrow> passed_verification option" where
  "findPassedGoalVerification org project goal startedAt endedAt st =
     (case release_verifications st (release_key org project goal) of
        None \<Rightarrow> None
      | Some v \<Rightarrow> if pv_verifiedAt v < startedAt \<or> pv_verifiedAt v > endedAt then None else Some v)"

definition seedVerification ::
  "string \<Rightarrow> string \<Rightarrow> string \<Rightarrow> passed_verification \<Rightarrow> release_store \<Rightarrow> release_store" where
  "seedVerification org project goal v st =
     st\<lparr>release_verifications := (release_verifications st)(release_key org project goal \<mapsto> v)\<rparr>"

definition listProductionReleases ::
  "release_environment \<Rightarrow> string \<Rightarrow> string \<Rightarrow> release_store \<Rightarrow> production_release list" where
  "listProductionReleases env org project st =
     sort_by (\<lambda>l r. release_compare env (release_createdAt r) (release_createdAt l))
       (filter (\<lambda>c. release_organizationId c = org \<and> release_projectId c = project) (map snd (releases st)))"

definition getProductionRelease ::
  "string \<Rightarrow> string \<Rightarrow> string \<Rightarrow> release_store \<Rightarrow> production_release option" where
  "getProductionRelease org project i st = map_of (releases st) (release_key org project i)"

definition production_key :: "production_release \<Rightarrow> string" where
  "production_key r = release_key (release_organizationId r) (release_projectId r) (release_aggregate_id r)"

definition commitProductionRelease ::
  "production_release \<Rightarrow> int \<Rightarrow> release_metadata \<Rightarrow> release_store \<Rightarrow>
   (js_error + release_aggregate) \<times> release_store" where
  "commitProductionRelease r expected m st =
     (case replay_command m st of
        Inl e \<Rightarrow> (Inl e, st)
      | Inr (Some a) \<Rightarrow> (Inr a, st)
      | Inr None \<Rightarrow>
          if version_conflict expected (map_option release_version (map_of (releases st) (production_key r)))
          then (Inl ReleaseCenterVersionConflictError, st)
          else (Inr (Release_result r),
                remember_command m (Release_result r)
                  (st\<lparr>releases := AList.update (production_key r) r (releases st)\<rparr>)))"

section \<open>The service\<close>

type_synonym role_reading = "role_scope \<Rightarrow> role_binding list"

definition release_command_scope :: "release_command \<Rightarrow> role_scope" where
  "release_command_scope c = \<lparr>rs_actorId = rel_actorId c, rs_organizationId = rel_organizationId c,
     rs_projectId = Some (rel_projectId c)\<rparr>"

definition release_snapshot ::
  "release_environment \<Rightarrow> role_reading \<Rightarrow> role_scope \<Rightarrow> string \<Rightarrow> release_store \<Rightarrow>
   js_error + canary_aggregate list \<times> production_release list" where
  "release_snapshot env reader scope project st =
     and_then (authorizePermission reader scope Goal_read) (\<lambda>_.
     Inr (listCanaries env (rs_organizationId scope) project st,
          listProductionReleases env (rs_organizationId scope) project st))"

text \<open>The authorization that a request needs.\<close>

fun authorize_request :: "role_reading \<Rightarrow> release_request \<Rightarrow> js_error + unit" where
  "authorize_request reader (Create_canary c _) = authorizePermission reader (release_command_scope c) Run_operate"
| "authorize_request reader (Canary_request c _ _ _) = authorizeRole reader (release_command_scope c) ''owner''"
| "authorize_request reader (Create_release c _) = authorizeRole reader (release_command_scope c) ''owner''"
| "authorize_request reader (Release_request c _ _ a) = authorizeRole reader (release_command_scope c)
     (case a of Record_gate _ r _ \<Rightarrow> r | Evaluate_release \<Rightarrow> ''owner'' | Sign_release r \<Rightarrow> r)"

definition finalize_current ::
  "release_environment \<Rightarrow> release_command \<Rightarrow> canary_aggregate \<Rightarrow> int \<Rightarrow> release_store \<Rightarrow> js_error + canary_aggregate" where
  "finalize_current env c current t st =
     (case (present (canary_startedAt current), present (last_end (current_windows current))) of
        (Some startedAt, Some endedAt) \<Rightarrow>
          (case findPassedGoalVerification (rel_organizationId c) (rel_projectId c)
              (canary_goalId current) startedAt endedAt st of
             None \<Rightarrow> release_invalid ''No passed Goal Verification exists inside the Canary window''
           | Some v \<Rightarrow> finalizeCanary env current v t)
      | _ \<Rightarrow> release_invalid ''Canary has no observation window'')"

definition act_on_canary ::
  "release_environment \<Rightarrow> release_command \<Rightarrow> canary_action \<Rightarrow> int \<Rightarrow> release_store \<Rightarrow> canary_aggregate \<Rightarrow>
   js_error + canary_aggregate" where
  "act_on_canary env c a t st current =
     (case a of
        Approve_canary \<Rightarrow> approveCanary current (rel_actorId c) (rel_reason c) t
      | Restart_canary \<Rightarrow> restartCanary current (rel_actorId c) (rel_reason c) t
      | Record_window w \<Rightarrow> recordCanaryWindow env current (rel_actorId c) w t
      | Record_event e \<Rightarrow> recordCanaryEvent env current (rel_actorId c) e t
      | Resolve_alert i \<Rightarrow> resolveCanaryAlert current i (rel_reason c) t
      | Finalize_canary \<Rightarrow> finalize_current env c current t st)"

definition act_on_release ::
  "release_environment \<Rightarrow> release_call \<Rightarrow> release_command \<Rightarrow> production_action \<Rightarrow> production_release \<Rightarrow>
   js_error + production_release" where
  "act_on_release env x c a current =
     (case a of
        Record_gate g r refs \<Rightarrow> recordProductionGate current (rel_actorId c) g r refs (rx_now x)
      | Evaluate_release \<Rightarrow> evaluateProductionRelease env current (rel_actorId c) (rx_now x)
      | Sign_release r \<Rightarrow> signProductionRelease env current
          \<lparr>sign_actorId = rel_actorId c, sign_role = r, sign_reason = rel_reason c,
           sign_requestId = rel_requestId c, sign_auditReceiptId = rx_ids x 0\<rparr> (rx_now x))"

datatype release_pending =
    Pending_canary canary_aggregate int release_metadata
  | Pending_release production_release int release_metadata

text \<open>A request up to its commit: an answer that was found, or the commit.\<close>

definition found_or ::
  "release_metadata \<Rightarrow> release_store \<Rightarrow> (js_error + release_pending) \<Rightarrow> js_error + release_aggregate + release_pending" where
  "found_or m st k =
     and_then (replay_command m st) (\<lambda>found.
       case found of Some a \<Rightarrow> Inr (Inl a) | None \<Rightarrow> and_then k (\<lambda>p. Inr (Inr p)))"

definition required_canary :: "release_command \<Rightarrow> string \<Rightarrow> release_store \<Rightarrow> js_error + canary_aggregate" where
  "required_canary c i st =
     (case getCanary (rel_organizationId c) (rel_projectId c) i st of
        None \<Rightarrow> Inl ReleaseCenterNotFoundError | Some current \<Rightarrow> Inr current)"

definition required_release :: "release_command \<Rightarrow> string \<Rightarrow> release_store \<Rightarrow> js_error + production_release" where
  "required_release c i st =
     (case getProductionRelease (rel_organizationId c) (rel_projectId c) i st of
        None \<Rightarrow> Inl ReleaseCenterNotFoundError | Some current \<Rightarrow> Inr current)"

fun prepare_release ::
  "release_environment \<Rightarrow> release_call \<Rightarrow> role_reading \<Rightarrow> release_request \<Rightarrow> release_store \<Rightarrow>
   js_error + release_aggregate + release_pending" where
  "prepare_release env x reader (Create_canary c i) st =
     and_then (authorize_request reader (Create_canary c i)) (\<lambda>_.
     and_then (release_metadata env x (Create_canary c i)) (\<lambda>m.
     found_or m st
       (and_then (createCanary (rx_ids x 2) (rel_organizationId c) (rel_projectId c) (rel_actorId c) i (rx_now x)) (\<lambda>a.
        Inr (Pending_canary a 0 m)))))"
| "prepare_release env x reader (Canary_request c i v a) st =
     and_then (authorize_request reader (Canary_request c i v a)) (\<lambda>_.
     and_then (release_metadata env x (Canary_request c i v a)) (\<lambda>m.
     found_or m st
       (and_then (required_canary c i st) (\<lambda>current.
        and_then (act_on_canary env c a (rx_now x) st current) (\<lambda>new.
        Inr (Pending_canary new v m))))))"
| "prepare_release env x reader (Create_release c i) st =
     and_then (authorize_request reader (Create_release c i)) (\<lambda>_.
     and_then (required_canary c i st) (\<lambda>canary.
     and_then (release_metadata env x (Create_release c i)) (\<lambda>m.
     found_or m st
       (and_then (createProductionRelease (rx_ids x 2) canary (rel_actorId c) (rx_now x)) (\<lambda>r.
        Inr (Pending_release r 0 m))))))"
| "prepare_release env x reader (Release_request c i v a) st =
     and_then (authorize_request reader (Release_request c i v a)) (\<lambda>_.
     and_then (release_metadata env x (Release_request c i v a)) (\<lambda>m.
     found_or m st
       (and_then (required_release c i st) (\<lambda>current.
        and_then (act_on_release env x c a current) (\<lambda>new.
        Inr (Pending_release new v m))))))"

fun perform_release ::
  "release_pending \<Rightarrow> release_store \<Rightarrow> (js_error + release_aggregate) \<times> release_store" where
  "perform_release (Pending_canary c v m) st = commitCanary c v m st"
| "perform_release (Pending_release r v m) st = commitProductionRelease r v m st"

definition release_handle ::
  "release_environment \<Rightarrow> release_call \<times> role_reading \<Rightarrow> release_request \<Rightarrow> release_store \<Rightarrow>
   (js_error + release_aggregate) \<times> release_store" where
  "release_handle env x q st =
     (case prepare_release env (fst x) (snd x) q st of
        Inl e \<Rightarrow> (Inl e, st)
      | Inr (Inl a) \<Rightarrow> (Inr a, st)
      | Inr (Inr p) \<Rightarrow> perform_release p st)"

section \<open>What the HTTP layer lets through\<close>

text \<open>
  \<^verbatim>\<open>release-center/http.ts\<close> checks the scope, the ids and the version of a request before it
  calls the service. \<open>uuid\<close> is its pattern, which ignores case.
\<close>

definition uuid_shape :: "(char \<Rightarrow> bool) list" where
  "uuid_shape =
     (let h = is_hex; d = (=) CHR ''-'' in
      replicate 8 h @ [d] @ replicate 4 h @ [d, (\<lambda>c. c \<in> set ''12345''), h, h, h, d,
        (\<lambda>c. c \<in> set ''89ab''), h, h, h, d] @ replicate 12 h)"

definition uuid :: "string \<Rightarrow> bool" where
  "uuid s \<longleftrightarrow> list_all2 (\<lambda>p c. p (ascii_lower c)) uuid_shape s"

fun http_request :: "release_request \<Rightarrow> bool" where
  "http_request (Create_canary c i) \<longleftrightarrow>
     uuid (rel_organizationId c) \<and> uuid (rel_projectId c) \<and> uuid (ci_goalId i) \<and> ci_goalContractVersion i \<ge> 1"
| "http_request (Canary_request c i v a) \<longleftrightarrow>
     uuid (rel_organizationId c) \<and> uuid (rel_projectId c) \<and> uuid i \<and> v \<ge> 1"
| "http_request (Create_release c i) \<longleftrightarrow>
     uuid (rel_organizationId c) \<and> uuid (rel_projectId c) \<and> uuid i"
| "http_request (Release_request c i v a) \<longleftrightarrow>
     uuid (rel_organizationId c) \<and> uuid (rel_projectId c) \<and> uuid i \<and> v \<ge> 1"

end
