(* ===== verification/Release_Safety.thy ===== *)
theory Release_Safety
  imports Release_Gates Release_Service Access_Safety Idempotent_Commands
begin

text \<open>
  What the release center guarantees over its repository in memory while requests, changes of
  roles and Goal verifications interleave: an approved release has complete and valid evidence
  and the signature of an owner, evidence is locked by its evaluation as long as every command
  names the version it read, and a command takes effect at most once.
\<close>

section \<open>Requests in flight\<close>

text \<open>A request names the version that is stored when it is read.\<close>

fun names_current :: "release_request \<Rightarrow> release_store \<Rightarrow> bool" where
  "names_current (Canary_request c i v a) st \<longleftrightarrow>
     map_option canary_version (getCanary (rel_organizationId c) (rel_projectId c) i st) \<in> {None, Some v}"
| "names_current (Release_request c i v a) st \<longleftrightarrow>
     map_option release_version (getProductionRelease (rel_organizationId c) (rel_projectId c) i st) \<in> {None, Some v}"
| "names_current q st \<longleftrightarrow> True"

type_synonym center_state = "role_repository \<times> release_store \<times> release_pending list"

text \<open>
  A step prepares a request or performs a prepared commit; a verification is completed or a role
  changed by the other services. With \<open>exact\<close>, requests name the version they read.
\<close>

inductive center_step :: "release_environment \<Rightarrow> bool \<Rightarrow> center_state \<Rightarrow> center_state \<Rightarrow> bool"
  for env exact where
  prepare: "http_request q \<Longrightarrow> exact \<longrightarrow> names_current q st \<Longrightarrow>
     prepare_release env x (\<lambda>s. listActive s rr) q st = Inr (Inr p) \<Longrightarrow>
     center_step env exact (rr, st, ps) (rr, st, p # ps)"
| perform: "p \<in> set ps \<Longrightarrow> perform_release p st = (res, st') \<Longrightarrow>
     center_step env exact (rr, st, ps) (rr, st', remove1 p ps)"
| verified: "center_step env exact (rr, st, ps) (rr, seedVerification org project goal v st, ps)"
| role_changed: "role_handle y rq rr = (res, rr') \<Longrightarrow>
     center_step env exact (rr, st, ps) (rr', st, ps)"

abbreviation center_run :: "release_environment \<Rightarrow> bool \<Rightarrow> center_state \<Rightarrow> center_state \<Rightarrow> bool" where
  "center_run env exact \<equiv> (center_step env exact)\<^sup>*\<^sup>*"

section \<open>Commits\<close>

lemma replay_remembered:
  "replay_command m (remember_command m a st) = Inr (Some a)"
  by (simp add: replay_command_def remember_command_def)

lemma remember_simps [simp]:
  "canaries (remember_command m a st) = canaries st" "releases (remember_command m a st) = releases st"
  "release_verifications (remember_command m a st) = release_verifications st"
  by (simp_all add: remember_command_def)

lemma seed_simps [simp]:
  "canaries (seedVerification org project goal v st) = canaries st"
  "releases (seedVerification org project goal v st) = releases st"
  "release_receipts (seedVerification org project goal v st) = release_receipts st"
  by (simp_all add: seedVerification_def)

lemma perform_canary_cases:
  assumes "perform_release (Pending_canary c v m) st = (res, st')"
  obtains (same) "st' = st"
  | (written) "replay_command m st = Inr None"
      "\<not> version_conflict v (map_option canary_version (map_of (canaries st) (canary_key c)))"
      "res = Inr (Canary_result c)"
      "st' = remember_command m (Canary_result c) (st\<lparr>canaries := AList.update (canary_key c) c (canaries st)\<rparr>)"
  using assms by (auto simp: commitCanary_def split: sum.splits option.splits if_splits)

lemma perform_production_cases:
  assumes "perform_release (Pending_release r v m) st = (res, st')"
  obtains (same) "st' = st"
  | (written) "replay_command m st = Inr None"
      "\<not> version_conflict v (map_option release_version (map_of (releases st) (production_key r)))"
      "res = Inr (Release_result r)"
      "st' = remember_command m (Release_result r) (st\<lparr>releases := AList.update (production_key r) r (releases st)\<rparr>)"
  using assms by (auto simp: commitProductionRelease_def split: sum.splits option.splits if_splits)

text \<open>Everything a commit of the two kinds may do to what is stored.\<close>

definition stored_canary :: "release_store \<Rightarrow> string \<Rightarrow> canary_aggregate option" where
  "stored_canary st k = map_of (canaries st) k"

definition stored_release :: "release_store \<Rightarrow> string \<Rightarrow> production_release option" where
  "stored_release st k = map_of (releases st) k"

lemma performed_canary:
  assumes "perform_release (Pending_canary c v m) st = (res, st')"
  shows "stored_release st' = stored_release st \<and>
    (stored_canary st' = stored_canary st \<or>
     stored_canary st' = (stored_canary st)(canary_key c \<mapsto> c) \<and>
     \<not> version_conflict v (map_option canary_version (stored_canary st (canary_key c))))"
  using assms
  by (cases rule: perform_canary_cases) (auto simp: stored_canary_def stored_release_def update_conv')

lemma performed_production:
  assumes "perform_release (Pending_release r v m) st = (res, st')"
  shows "stored_canary st' = stored_canary st \<and>
    (stored_release st' = stored_release st \<or>
     stored_release st' = (stored_release st)(production_key r \<mapsto> r) \<and>
     \<not> version_conflict v (map_option release_version (stored_release st (production_key r))))"
  using assms
  by (cases rule: perform_production_cases) (auto simp: stored_canary_def stored_release_def update_conv')

section \<open>What a prepared commit comes from\<close>

lemma found_or_Inr:
  "found_or m st k = Inr (Inr p) \<longleftrightarrow> replay_command m st = Inr None \<and> k = Inr p"
  by (auto simp: found_or_def result_simps split: option.splits)

lemma prepared_cases:
  assumes "prepare_release env x reader q st = Inr (Inr p)"
  obtains
    (new_canary) c i a m where "q = Create_canary c i" "p = Pending_canary a 0 m"
      "createCanary (rx_ids x 2) (rel_organizationId c) (rel_projectId c) (rel_actorId c) i (rx_now x) = Inr a"
  | (canary) c i v a cur new m where "q = Canary_request c i v a" "p = Pending_canary new v m"
      "authorizeRole reader (release_command_scope c) ''owner'' = Inr ()"
      "getCanary (rel_organizationId c) (rel_projectId c) i st = Some cur"
      "act_on_canary env c a (rx_now x) st cur = Inr new"
  | (new_release) c i cur r m where "q = Create_release c i" "p = Pending_release r 0 m"
      "authorizeRole reader (release_command_scope c) ''owner'' = Inr ()"
      "getCanary (rel_organizationId c) (rel_projectId c) i st = Some cur"
      "createProductionRelease (rx_ids x 2) cur (rel_actorId c) (rx_now x) = Inr r"
  | (release) c i v a cur new m where "q = Release_request c i v a" "p = Pending_release new v m"
      "authorize_request reader q = Inr ()"
      "getProductionRelease (rel_organizationId c) (rel_projectId c) i st = Some cur"
      "act_on_release env x c a cur = Inr new"
proof (cases q)
  case (Create_canary c i)
  with assms new_canary show ?thesis by (auto simp: result_simps found_or_Inr)
next
  case (Canary_request c i v a)
  with assms canary show ?thesis
    by (auto simp: result_simps found_or_Inr required_canary_def split: option.splits)
next
  case (Create_release c i)
  with assms new_release show ?thesis
    by (auto simp: result_simps found_or_Inr required_canary_def split: option.splits)
next
  case (Release_request c i v a)
  with assms release show ?thesis
    by (auto simp: result_simps found_or_Inr required_release_def split: option.splits)
qed

section \<open>Versioned writes\<close>

text \<open>
  Canaries and releases are stored under their keys with a version each. A write carries the
  version it replaces, 0 for a new aggregate. It is due when what it replaces, if it is still
  stored, is what it was made from.
\<close>

definition write_due ::
  "('a \<Rightarrow> int) \<Rightarrow> ('a \<Rightarrow> string) \<Rightarrow> ('a \<Rightarrow> 'a \<Rightarrow> bool) \<Rightarrow> (string \<Rightarrow> 'a option) \<Rightarrow> 'a \<Rightarrow> int \<Rightarrow> bool" where
  "write_due version key follows st new v \<longleftrightarrow>
     v = 0 \<or> (\<exists>cur. st (key new) = Some cur \<and> 0 < v \<and> v \<le> version cur \<and> (version cur = v \<longrightarrow> follows cur new))"

definition stored_under :: "('a \<Rightarrow> string) \<Rightarrow> (string \<Rightarrow> 'a option) \<Rightarrow> bool" where
  "stored_under key st \<longleftrightarrow> (\<forall>k a. st k = Some a \<longrightarrow> key a = k)"

definition written_to ::
  "('a \<Rightarrow> int) \<Rightarrow> ('a \<Rightarrow> string) \<Rightarrow> 'a \<Rightarrow> int \<Rightarrow> (string \<Rightarrow> 'a option) \<Rightarrow> (string \<Rightarrow> 'a option) \<Rightarrow> bool" where
  "written_to version key new v st st' \<longleftrightarrow>
     st' = st \<or> st' = st(key new \<mapsto> new) \<and> \<not> version_conflict v (map_option version (st (key new)))"

locale versioned_aggregate =
  fixes version :: "'a \<Rightarrow> int" and key :: "'a \<Rightarrow> string" and follows :: "'a \<Rightarrow> 'a \<Rightarrow> bool"
  assumes follows_version: "follows a b \<Longrightarrow> version b = version a + 1"
    and follows_key: "follows a b \<Longrightarrow> key b = key a"
begin

lemma written_cases:
  assumes "written_to version key new v st st'" and "write_due version key follows st new v"
  obtains (same) "st' = st"
  | (created) "st (key new) = None" "st' = st(key new \<mapsto> new)"
  | (replaced) cur where "st (key new) = Some cur" "follows cur new" "st' = st(key new \<mapsto> new)"
  using assms by (cases "st (key new)") (auto simp: written_to_def write_due_def version_conflict_def)

lemma due_stays:
  assumes "written_to version key new v st st'" and "write_due version key follows st new v"
    and "write_due version key follows st other u"
  shows "write_due version key follows st' other u"
  using assms(1,2)
proof (cases rule: written_cases)
  case (replaced cur)
  with assms(3) follows_version[OF replaced(2)] show ?thesis by (auto simp: write_due_def)
qed (use assms(3) in \<open>auto simp: write_due_def\<close>)

lemma moved:
  assumes "written_to version key new v st st'" and "write_due version key follows st new v"
    and "st k = Some a"
  shows "\<exists>b. st' k = Some b \<and> follows\<^sup>*\<^sup>* a b"
  using assms(1,2) by (cases rule: written_cases) (use assms(3) in auto)

lemma stored_under_written:
  "written_to version key new v st st' \<Longrightarrow> stored_under key st \<Longrightarrow> stored_under key st'"
  by (auto simp: written_to_def stored_under_def split: if_splits)

lemma prepared_due:
  assumes "stored_under key st" and "st k = Some cur" and "follows cur new" and "0 < version cur"
  shows "write_due version key follows st new (version cur)"
  using assms follows_key[OF assms(3)] by (auto simp: write_due_def stored_under_def)

lemma follows_ever_version: "follows\<^sup>*\<^sup>* a b \<Longrightarrow> version a < version b \<or> b = a"
  by (induction rule: rtranclp_induct) (auto dest: follows_version)

end

section \<open>The history of a Canary\<close>

definition canary_fixed :: "canary_aggregate \<Rightarrow> canary_aggregate \<Rightarrow> bool" where
  "canary_fixed c d \<longleftrightarrow> canary_id d = canary_id c \<and> canary_organizationId d = canary_organizationId c \<and>
     canary_projectId d = canary_projectId c \<and> canary_goalId d = canary_goalId c \<and>
     canary_candidateCommit d = canary_candidateCommit c \<and>
     canary_goalContractVersion d = canary_goalContractVersion c \<and>
     canary_allowedAreas d = canary_allowedAreas c \<and> canary_excludedAreas d = canary_excludedAreas c \<and>
     canary_successConditions d = canary_successConditions c \<and>
     canary_stopConditions d = canary_stopConditions c \<and>
     canary_rollbackRunbook d = canary_rollbackRunbook c \<and> canary_stopRunbook d = canary_stopRunbook c \<and>
     canary_createdBy d = canary_createdBy c \<and> canary_createdAt d = canary_createdAt c"

definition canary_edge :: "canary_status \<Rightarrow> canary_status \<Rightarrow> bool" where
  "canary_edge s t \<longleftrightarrow> (s, t) \<in> {(Canary_draft, Canary_observing), (Canary_observing, Canary_observing),
     (Canary_observing, Canary_stopped), (Canary_observing, Canary_passed), (Canary_stopped, Canary_observing)}"

definition canary_follows :: "canary_aggregate \<Rightarrow> canary_aggregate \<Rightarrow> bool" where
  "canary_follows c d \<longleftrightarrow> canary_fixed c d \<and> canary_version d = canary_version c + 1 \<and>
     canary_edge (canary_status c) (canary_status d) \<and>
     canary_attempt d = canary_attempt c + (if canary_status c = Canary_stopped then 1 else 0) \<and>
     prefix (canary_windows c) (canary_windows d) \<and>
     prefix (map resolved_event (canary_events c)) (map resolved_event (canary_events d))"

lemma resolved_event_idem [simp]: "resolved_event (resolved_event e) = resolved_event e"
  by (cases e) simp_all

lemma update_first_resolved:
  "update_first_event P es = Some es' \<Longrightarrow> map resolved_event es' = map resolved_event es"
  by (induction es arbitrary: es') (auto split: if_splits)

lemmas canary_operations = approveCanary_def restartCanary_def recordCanaryWindow_def recordCanaryEvent_def
  resolveCanaryAlert_def finalizeCanary_def finalize_current_def

lemma release_invalid_Inr [simp]: "release_invalid s \<noteq> Inr x"
  "(if b then release_invalid s else r) = Inr x \<longleftrightarrow> \<not> b \<and> r = Inr x"
  by (auto simp: release_invalid_def)

lemma approve_follows: "approveCanary c actor reason t = Inr d \<Longrightarrow> canary_follows c d"
  by (auto simp: approveCanary_def Let_def result_simps canary_follows_def canary_fixed_def canary_edge_def)

lemma restart_follows: "restartCanary c actor reason t = Inr d \<Longrightarrow> canary_follows c d"
  by (auto simp: restartCanary_def Let_def result_simps canary_follows_def canary_fixed_def canary_edge_def)

lemma observing_edge [simp]: "canary_edge Canary_observing (if b then Canary_stopped else Canary_observing)"
  by (simp add: canary_edge_def)

lemma window_follows: "recordCanaryWindow env c actor w t = Inr d \<Longrightarrow> canary_follows c d"
  by (auto simp: recordCanaryWindow_def Let_def result_simps canary_follows_def canary_fixed_def split: option.splits)

lemma event_follows: "recordCanaryEvent env c actor e t = Inr d \<Longrightarrow> canary_follows c d"
  by (auto simp: recordCanaryEvent_def Let_def result_simps canary_follows_def canary_fixed_def)

lemma resolve_follows: "resolveCanaryAlert c i reason t = Inr d \<Longrightarrow> canary_follows c d"
  by (auto simp: resolveCanaryAlert_def Let_def result_simps canary_follows_def canary_fixed_def canary_edge_def
      update_first_resolved split: option.splits)

lemma finalize_follows: "finalizeCanary env c v t = Inr d \<Longrightarrow> canary_follows c d"
  by (auto simp: finalizeCanary_def Let_def result_simps canary_follows_def canary_fixed_def canary_edge_def
      split: option.splits)

lemma act_on_canary_follows:
  assumes "act_on_canary env c a t st cur = Inr new"
  shows "canary_follows cur new"
proof (cases a)
  case Approve_canary
  with assms approve_follows show ?thesis by (simp add: act_on_canary_def)
next
  case Restart_canary
  with assms restart_follows show ?thesis by (simp add: act_on_canary_def)
next
  case (Record_window w)
  with assms window_follows show ?thesis by (simp add: act_on_canary_def)
next
  case (Record_event e)
  with assms event_follows show ?thesis by (simp add: act_on_canary_def)
next
  case (Resolve_alert i)
  with assms resolve_follows show ?thesis by (simp add: act_on_canary_def)
next
  case Finalize_canary
  with assms finalize_follows show ?thesis
    by (auto simp: act_on_canary_def finalize_current_def split: option.splits)
qed

interpretation canary_writes: versioned_aggregate canary_version canary_key canary_follows
  by unfold_locales (auto simp: canary_follows_def canary_fixed_def canary_key_def)

section \<open>The history of a production release\<close>

definition release_fixed :: "production_release \<Rightarrow> production_release \<Rightarrow> bool" where
  "release_fixed r s \<longleftrightarrow> release_aggregate_id s = release_aggregate_id r \<and>
     release_organizationId s = release_organizationId r \<and> release_projectId s = release_projectId r \<and>
     release_goalId s = release_goalId r \<and> release_canaryId s = release_canaryId r \<and>
     release_candidateCommit s = release_candidateCommit r \<and>
     release_canaryReport s = release_canaryReport r \<and> release_p2 s = release_p2 r \<and>
     release_createdBy s = release_createdBy r \<and> release_createdAt s = release_createdAt r"

text \<open>What evaluation locks: the gates, the time of the evaluation and the digest.\<close>

definition evidence_kept :: "production_release \<Rightarrow> production_release \<Rightarrow> bool" where
  "evidence_kept r s \<longleftrightarrow> release_fixed r s \<and> release_gates s = release_gates r \<and>
     release_evaluatedAt s = release_evaluatedAt r \<and> release_attestationDigest s = release_attestationDigest r"

definition release_follows :: "production_release \<Rightarrow> production_release \<Rightarrow> bool" where
  "release_follows r s \<longleftrightarrow> release_fixed r s \<and> release_version s = release_version r + 1 \<and>
     (release_status r = Release_draft \<and> release_status s = Release_draft \<or>
      release_status r = Release_draft \<and> release_status s = Awaiting_signatures \<and>
        release_gates s = release_gates r \<or>
      release_status r = Awaiting_signatures \<and> release_status s \<noteq> Release_draft \<and> evidence_kept r s)"

lemma gate_follows: "recordProductionGate r actor g ow refs t = Inr s \<Longrightarrow> release_follows r s"
  by (auto simp: recordProductionGate_def result_simps release_follows_def release_fixed_def)

lemma evaluate_follows: "evaluateProductionRelease env r actor t = Inr s \<Longrightarrow> release_follows r s"
  by (auto simp: evaluateProductionRelease_def Let_def result_simps release_follows_def release_fixed_def)

lemma sign_follows: "signProductionRelease env r x t = Inr s \<Longrightarrow> release_follows r s"
  by (auto simp: signProductionRelease_def Let_def result_simps release_follows_def release_fixed_def
      evidence_kept_def split: if_splits)

lemma act_on_release_follows:
  assumes "act_on_release env x c a cur = Inr new"
  shows "release_follows cur new"
proof (cases a)
  case (Record_gate g r refs)
  with assms gate_follows show ?thesis by (simp add: act_on_release_def)
next
  case Evaluate_release
  with assms evaluate_follows show ?thesis by (simp add: act_on_release_def)
next
  case (Sign_release r)
  with assms sign_follows show ?thesis by (simp add: act_on_release_def)
qed

interpretation production_writes: versioned_aggregate release_version production_key release_follows
  by unfold_locales (auto simp: release_follows_def release_fixed_def production_key_def)

section \<open>Runs in which requests name what they read\<close>

fun pending_due :: "release_store \<Rightarrow> release_pending \<Rightarrow> bool" where
  "pending_due st (Pending_canary c v m) \<longleftrightarrow>
     write_due canary_version canary_key canary_follows (stored_canary st) c v"
| "pending_due st (Pending_release r v m) \<longleftrightarrow>
     write_due release_version production_key release_follows (stored_release st) r v"

definition exact_state :: "center_state \<Rightarrow> bool" where
  "exact_state S \<longleftrightarrow> (case S of (_, st, ps) \<Rightarrow>
     stored_under canary_key (stored_canary st) \<and> stored_under production_key (stored_release st) \<and>
     (\<forall>p\<in>set ps. pending_due st p))"

lemma getCanary_stored: "getCanary org project i st = stored_canary st (release_key org project i)"
  by (simp add: getCanary_def stored_canary_def)

lemma getProductionRelease_stored: "getProductionRelease org project i st = stored_release st (release_key org project i)"
  by (simp add: getProductionRelease_def stored_release_def)

lemma prepared_pending_due:
  assumes "prepare_release env x reader q st = Inr (Inr p)" and "http_request q" and "names_current q st"
    and "stored_under canary_key (stored_canary st)" and "stored_under production_key (stored_release st)"
  shows "pending_due st p"
  using assms(1)
proof (cases rule: prepared_cases)
  case (new_canary c i a m)
  then show ?thesis by (simp add: write_due_def)
next
  case (canary c i v a cur new m)
  with assms(2,3) have "canary_version cur = v" "0 < v" by auto
  with canary_writes.prepared_due[OF assms(4) canary(4)[unfolded getCanary_stored] act_on_canary_follows[OF canary(5)]]
    canary(2) show ?thesis by simp
next
  case (new_release c i cur r m)
  then show ?thesis by (simp add: write_due_def)
next
  case (release c i v a cur new m)
  with assms(2,3) have "release_version cur = v" "0 < v" by auto
  with production_writes.prepared_due[OF assms(5) release(4)[unfolded getProductionRelease_stored]
      act_on_release_follows[OF release(5)]] release(2)
  show ?thesis by simp
qed

text \<open>Stored aggregates move along their histories.\<close>

definition center_moves :: "release_store \<Rightarrow> release_store \<Rightarrow> bool" where
  "center_moves st st' \<longleftrightarrow>
     (\<forall>k c. stored_canary st k = Some c \<longrightarrow> (\<exists>d. stored_canary st' k = Some d \<and> canary_follows\<^sup>*\<^sup>* c d)) \<and>
     (\<forall>k r. stored_release st k = Some r \<longrightarrow> (\<exists>s. stored_release st' k = Some s \<and> release_follows\<^sup>*\<^sup>* r s))"

lemma center_moves_refl: "stored_canary st' = stored_canary st \<Longrightarrow> stored_release st' = stored_release st \<Longrightarrow> center_moves st st'"
  by (simp add: center_moves_def)

lemma center_moves_trans: "center_moves a b \<Longrightarrow> center_moves b c \<Longrightarrow> center_moves a c"
  unfolding center_moves_def by (meson rtranclp_trans)

lemma performed_exact:
  assumes "perform_release p st = (res, st')" and "pending_due st p"
    and "stored_under canary_key (stored_canary st)" and "stored_under production_key (stored_release st)"
  shows "stored_under canary_key (stored_canary st') \<and> stored_under production_key (stored_release st') \<and>
    (\<forall>q. pending_due st q \<longrightarrow> pending_due st' q) \<and> center_moves st st'"
proof (cases p)
  case (Pending_canary c v m)
  with assms(1) performed_canary have w:
    "written_to canary_version canary_key c v (stored_canary st) (stored_canary st')"
    and same: "stored_release st' = stored_release st" by (auto simp: written_to_def)
  from assms(2) Pending_canary have d: "write_due canary_version canary_key canary_follows (stored_canary st) c v"
    by simp
  have "pending_due st q \<Longrightarrow> pending_due st' q" for q
    by (cases q) (auto simp: same intro: canary_writes.due_stays[OF w d])
  with canary_writes.stored_under_written[OF w assms(3)] canary_writes.moved[OF w d] assms(4) same
  show ?thesis by (auto simp: center_moves_def)
next
  case (Pending_release r v m)
  with assms(1) performed_production have w:
    "written_to release_version production_key r v (stored_release st) (stored_release st')"
    and same: "stored_canary st' = stored_canary st" by (auto simp: written_to_def)
  from assms(2) Pending_release have d: "write_due release_version production_key release_follows (stored_release st) r v"
    by simp
  have "pending_due st q \<Longrightarrow> pending_due st' q" for q
    by (cases q) (auto simp: same intro: production_writes.due_stays[OF w d])
  with production_writes.stored_under_written[OF w assms(4)] production_writes.moved[OF w d] assms(3) same
  show ?thesis by (auto simp: center_moves_def)
qed

lemma stored_seed [simp]:
  "stored_canary (seedVerification org project goal v st) = stored_canary st"
  "stored_release (seedVerification org project goal v st) = stored_release st"
  by (simp_all add: stored_canary_def stored_release_def fun_eq_iff)

lemma pending_due_seed [simp]: "pending_due (seedVerification org project goal v st) p = pending_due st p"
  by (cases p) simp_all

lemma exact_step:
  assumes "center_step env True S S'" and "exact_state S"
  shows "exact_state S' \<and> center_moves (fst (snd S)) (fst (snd S'))"
  using assms(1)
proof cases
  case (prepare q st x rr p ps)
  with assms(2) prepared_pending_due[of env x "\<lambda>s. listActive s rr" q st p] show ?thesis
    by (auto simp: exact_state_def center_moves_refl)
next
  case (perform p ps st res st' rr)
  from assms(2) perform have e: "stored_under canary_key (stored_canary st)" "stored_under production_key (stored_release st)"
    "pending_due st p" "\<forall>q\<in>set ps. pending_due st q" by (auto simp: exact_state_def)
  note effect = performed_exact[OF perform(4) e(3,1,2)]
  then have "\<forall>q\<in>set (remove1 p ps). pending_due st' q" using e(4) by (meson notin_set_remove1)
  moreover from effect have "stored_under canary_key (stored_canary st')"
    "stored_under production_key (stored_release st')" "center_moves st st'" by blast+
  ultimately show ?thesis using perform(1,2) by (simp add: exact_state_def)
next
  case (verified rr st ps org project goal v)
  with assms(2) show ?thesis by (auto simp: exact_state_def center_moves_refl)
next
  case (role_changed y rq rr res rr' st ps)
  with assms(2) show ?thesis by (auto simp: exact_state_def center_moves_refl)
qed

lemma exact_run:
  "center_run env True S S' \<Longrightarrow> exact_state S \<Longrightarrow> exact_state S' \<and> center_moves (fst (snd S)) (fst (snd S'))"
proof (induction rule: rtranclp_induct)
  case (step T U)
  with exact_step[OF step(2)] show ?case by (blast intro: center_moves_trans)
qed (simp add: center_moves_refl)

lemma canary_follows_ever:
  assumes "canary_follows\<^sup>*\<^sup>* c d"
  shows "canary_fixed c d \<and> (canary_version c < canary_version d \<or> d = c) \<and>
    canary_attempt c \<le> canary_attempt d \<and> prefix (canary_windows c) (canary_windows d) \<and>
    prefix (map resolved_event (canary_events c)) (map resolved_event (canary_events d)) \<and>
    (canary_status c = Canary_passed \<longrightarrow> d = c)"
  using assms
proof (induction rule: rtranclp_induct)
  case base
  then show ?case by (simp add: canary_fixed_def)
next
  case (step d e)
  from step(2) have s: "canary_fixed d e" "canary_version e = canary_version d + 1" "canary_attempt d \<le> canary_attempt e"
    "prefix (canary_windows d) (canary_windows e)"
    "prefix (map resolved_event (canary_events d)) (map resolved_event (canary_events e))"
    "canary_status d \<noteq> Canary_passed"
    by (auto simp: canary_follows_def canary_edge_def)
  have "canary_fixed c e" using step.IH s(1) by (simp add: canary_fixed_def)
  moreover have "prefix (canary_windows c) (canary_windows e)"
    "prefix (map resolved_event (canary_events c)) (map resolved_event (canary_events e))"
    using step.IH s(4,5) prefix_order.trans by blast+
  ultimately show ?case using step.IH s(2,3,6) by auto
qed

lemma evidence_kept_trans: "evidence_kept r s \<Longrightarrow> evidence_kept s u \<Longrightarrow> evidence_kept r u"
  by (simp add: evidence_kept_def release_fixed_def)

lemma release_follows_ever:
  assumes "release_follows\<^sup>*\<^sup>* r s"
  shows "release_fixed r s \<and> (release_version r < release_version s \<or> s = r) \<and>
    (release_status r \<noteq> Release_draft \<longrightarrow> evidence_kept r s \<and> release_status s \<noteq> Release_draft) \<and>
    (release_status r = Release_approved \<longrightarrow> s = r)"
  using assms
proof (induction rule: rtranclp_induct)
  case base
  then show ?case by (simp add: evidence_kept_def release_fixed_def)
next
  case (step s u)
  from step(2) have u: "release_fixed s u" "release_version u = release_version s + 1"
    "release_status s \<noteq> Release_approved"
    "release_status s \<noteq> Release_draft \<longrightarrow> evidence_kept s u \<and> release_status u \<noteq> Release_draft"
    by (auto simp: release_follows_def)
  have "release_fixed r u" using step.IH u(1) by (simp add: release_fixed_def)
  moreover have "release_status r \<noteq> Release_draft \<longrightarrow> evidence_kept r u \<and> release_status u \<noteq> Release_draft"
    using step.IH u(4) evidence_kept_trans by blast
  ultimately show ?case using step.IH u(2,3) by auto
qed

section \<open>Evidence\<close>

definition canary_shown ::
  "release_environment \<Rightarrow> canary_aggregate \<Rightarrow> json \<Rightarrow> string \<Rightarrow> bool" where
  "canary_shown env c report endedAt \<longleftrightarrow>
     (\<exists>vid completedAt refs t. report = canary_report_json c endedAt vid completedAt refs \<and>
        canary_evidence env c endedAt completedAt refs t)"

definition canary_ok :: "release_environment \<Rightarrow> canary_aggregate \<Rightarrow> bool" where
  "canary_ok env c \<longleftrightarrow> commit_sha (canary_candidateCommit c) \<and>
     (canary_status c = Canary_passed \<longrightarrow>
        (\<exists>report endedAt. canary_report c = Some report \<and> canary_endedAt c = Some endedAt \<and>
           canary_shown env c report endedAt))"

definition release_ok :: "release_environment \<Rightarrow> production_release \<Rightarrow> bool" where
  "release_ok env r \<longleftrightarrow>
     (\<exists>c endedAt. canary_shown env c (release_canaryReport r) endedAt \<and>
        release_canaryId r = canary_id c \<and> release_candidateCommit r = canary_candidateCommit c \<and>
        (release_status r = Release_approved \<longrightarrow>
           (\<exists>t. release_evidence env r endedAt t \<and> release_updatedAt r = toISOString t)))"

lemma canary_shown_update [simp]:
  "canary_shown env (c\<lparr>canary_status := s, canary_endedAt := e, canary_report := rep, canary_version := v,
     canary_updatedAt := u\<rparr>) report endedAt = canary_shown env c report endedAt"
  by (simp add: canary_shown_def canary_evidence_def canary_report_json_def current_windows_def current_events_def)

lemma finalize_ok:
  assumes "finalizeCanary env c v t = Inr d" and "commit_sha (canary_candidateCommit c)"
  shows "canary_ok env d"
proof -
  from assms(1) obtain endedAt vid completedAt refs res where
    e: "validateP12CanaryReport env (canary_report_json c endedAt vid completedAt refs) t = Inr res"
    and d: "d = c\<lparr>canary_status := Canary_passed, canary_endedAt := Some endedAt,
      canary_report := Some (canary_report_json c endedAt vid completedAt refs),
      canary_version := canary_version c + 1, canary_updatedAt := toISOString t\<rparr>"
    by (auto simp: finalizeCanary_def Let_def result_simps split: option.splits)
  from canary_report_accepted[OF e assms(2)]
  have "canary_shown env c (canary_report_json c endedAt vid completedAt refs) endedAt"
    unfolding canary_shown_def by blast
  with assms(2) show ?thesis by (simp add: canary_ok_def d)
qed

lemma not_passed [simp]: "(if b then Canary_stopped else Canary_observing) \<noteq> Canary_passed"
  by simp

lemma not_passed_by:
  "approveCanary c actor reason t = Inr d \<Longrightarrow> canary_status d \<noteq> Canary_passed"
  "restartCanary c actor reason t = Inr d \<Longrightarrow> canary_status d \<noteq> Canary_passed"
  "recordCanaryWindow env c actor w t = Inr d \<Longrightarrow> canary_status d \<noteq> Canary_passed"
  "recordCanaryEvent env c actor e t = Inr d \<Longrightarrow> canary_status d \<noteq> Canary_passed"
  "resolveCanaryAlert c i reason t = Inr d \<Longrightarrow> canary_status d \<noteq> Canary_passed"
      apply (auto simp: approveCanary_def Let_def result_simps)[1]
     apply (auto simp: restartCanary_def Let_def result_simps)[1]
    apply (auto simp: recordCanaryWindow_def Let_def result_simps split: option.splits)[1]
   apply (auto simp: recordCanaryEvent_def Let_def result_simps)[1]
  apply (auto simp: resolveCanaryAlert_def Let_def result_simps split: option.splits)[1]
  done

lemma passed_by_finalize:
  assumes "act_on_canary env c a t st cur = Inr new" and "canary_status new = Canary_passed"
  obtains v where "finalizeCanary env cur v t = Inr new"
  using assms that not_passed_by
  by (cases a) (auto simp: act_on_canary_def finalize_current_def split: option.splits)

lemma act_on_canary_ok:
  assumes "act_on_canary env c a t st cur = Inr new" and "canary_ok env cur"
  shows "canary_ok env new"
proof (cases "canary_status new = Canary_passed")
  case True
  with assms(1) obtain v where "finalizeCanary env cur v t = Inr new" by (rule passed_by_finalize)
  moreover from assms(2) have "commit_sha (canary_candidateCommit cur)" by (simp add: canary_ok_def)
  ultimately show ?thesis by (rule finalize_ok)
next
  case False
  with act_on_canary_follows[OF assms(1)] assms(2) show ?thesis
    by (simp add: canary_ok_def canary_follows_def canary_fixed_def)
qed

lemma created_canary_ok: "createCanary i org project actor x t = Inr c \<Longrightarrow> canary_ok env c"
  by (auto simp: createCanary_def Let_def result_simps canary_ok_def)

lemma created_release_ok:
  assumes "createProductionRelease i c actor t = Inr r" and "canary_ok env c"
  shows "release_ok env r"
proof -
  from assms(1) have c: "canary_status c = Canary_passed" "canary_report c = Some (release_canaryReport r)"
    "release_canaryId r = canary_id c" "release_candidateCommit r = canary_candidateCommit c"
    "release_status r \<noteq> Release_approved"
    by (auto simp: createProductionRelease_def Let_def result_simps split: option.splits)
  with assms(2) obtain endedAt where "canary_shown env c (release_canaryReport r) endedAt"
    by (auto simp: canary_ok_def)
  with c(3-5) show ?thesis unfolding release_ok_def by blast
qed

lemma signed_ok:
  assumes "signProductionRelease env r x t = Inr s" and "release_ok env r"
  shows "release_ok env s"
proof -
  from assms(2) obtain c endedAt where c: "canary_shown env c (release_canaryReport r) endedAt"
    "release_canaryId r = canary_id c" "release_candidateCommit r = canary_candidateCommit c"
    unfolding release_ok_def by blast
  then obtain vid completedAt refs where
    report: "release_canaryReport r = canary_report_json c endedAt vid completedAt refs"
    unfolding canary_shown_def by blast
  have kept: "release_fixed r s" "release_gates s = release_gates r" "release_evaluatedAt s = release_evaluatedAt r"
    "release_updatedAt s = toISOString t"
    using assms(1) by (auto simp: signProductionRelease_def Let_def result_simps release_fixed_def)
  have "\<exists>t'. release_evidence env s endedAt t' \<and> release_updatedAt s = toISOString t'"
    if "release_status s = Release_approved"
  proof -
    from assms(1) that obtain res where
      "validateP12ProductionReleaseGate env (productionReport r (release_signatures s) (the (release_evaluatedAt r))) t = Inr res"
      by (auto simp: signProductionRelease_def Let_def result_simps split: if_splits)
    from production_report_accepted[OF this report] have "release_evidence env s endedAt t"
      unfolding release_evidence_def kept(2,3)
      using attested_digest_cong[of s r env "the (release_evaluatedAt r)"] kept(1,2)
      by (simp add: release_fixed_def)
    with kept(4) show ?thesis by blast
  qed
  with c kept(1) show ?thesis unfolding release_ok_def release_fixed_def by metis
qed

lemma release_ok_kept:
  "release_ok env r \<Longrightarrow> release_fixed r s \<Longrightarrow> release_status s \<noteq> Release_approved \<Longrightarrow> release_ok env s"
  unfolding release_ok_def release_fixed_def by metis

lemma not_approved_by:
  "recordProductionGate r actor g ow refs t = Inr s \<Longrightarrow> release_status s \<noteq> Release_approved"
  "evaluateProductionRelease env r actor t = Inr s \<Longrightarrow> release_status s \<noteq> Release_approved"
  by (auto simp: recordProductionGate_def evaluateProductionRelease_def Let_def result_simps)

lemma act_on_release_ok:
  assumes "act_on_release env x c a cur = Inr new" and "release_ok env cur"
  shows "release_ok env new"
proof -
  from act_on_release_follows[OF assms(1)] have fixed: "release_fixed cur new" by (simp add: release_follows_def)
  show ?thesis
  proof (cases a)
    case (Sign_release r)
    with assms show ?thesis by (auto simp: act_on_release_def intro: signed_ok)
  qed (use assms not_approved_by release_ok_kept[OF assms(2) fixed] in \<open>auto simp: act_on_release_def\<close>)
qed

section \<open>Who approves\<close>

definition owner_of :: "role_repository \<Rightarrow> string \<Rightarrow> string \<Rightarrow> bool" where
  "owner_of rr org who \<longleftrightarrow> (\<exists>b\<in>set (bindings rr). binding_role b = Organization_owner \<and>
     binding_projectId b = None \<and> binding_organizationId b = org \<and> trim (binding_actorId b) = who)"

text \<open>Bindings are revoked, never removed.\<close>

lemma owner_of_stays:
  assumes "role_handle y rq rr = (res, rr')" and "owner_of rr org who"
  shows "owner_of rr' org who"
proof -
  have stays: "\<exists>b'\<in>set (update_where P (revoked_at t) bs). binding_role b' = binding_role b \<and>
      binding_projectId b' = binding_projectId b \<and> binding_organizationId b' = binding_organizationId b \<and>
      binding_actorId b' = binding_actorId b" if "b \<in> set bs" for P t b and bs :: "role_binding list"
    using that by (induction bs) (auto simp: revoked_at_def)
  from assms(1) consider "rr' = rr" | b a where "bindings rr' = bindings rr @ [b]"
    | P t where "bindings rr' = update_where P (revoked_at t) (bindings rr)"
    by (auto simp: role_handle_def assign_binding_def revoke_binding_def split: sum.splits if_splits option.splits
        elim!: perform_role.elims)
  then show ?thesis
  proof cases
    case 3
    from assms(2) obtain b where b: "b \<in> set (bindings rr)" "binding_role b = Organization_owner"
      "binding_projectId b = None" "binding_organizationId b = org" "trim (binding_actorId b) = who"
      by (auto simp: owner_of_def)
    from stays[OF b(1), of P t] b(2-) 3 show ?thesis unfolding owner_of_def by auto
  qed (use assms(2) in \<open>auto simp: owner_of_def\<close>)
qed

lemma authorized_owner:
  assumes "authorizeRole (\<lambda>s. listActive s rr) (release_command_scope c) r = Inr ()"
  shows "r = ''owner'' \<and> owner_of rr (rel_organizationId c) (trim (rel_actorId c))"
  using assms
  by (auto simp: authorizeRole_def Let_def releaseRoleBindings_def list_ex_iff listActive_def release_command_scope_def
      owner_of_def split: if_splits)

lemma required_Inr: "required v l n = Inr s \<longleftrightarrow> s = trim v \<and> trim v \<noteq> '''' \<and> length (trim v) \<le> n"
  by (auto simp: required_def Let_def)

lemma center_id_Inr: "center_id v l = Inr s \<longleftrightarrow> s = trim v \<and> length (trim v) \<le> 128 \<and> safe_id (trim v)"
  by (auto simp: center_id_def required_Inr result_simps safe_id_def)

text \<open>Scopes that are uuids keep the keys of different organizations apart.\<close>

definition plain_scope :: "string \<Rightarrow> string \<Rightarrow> bool" where
  "plain_scope org project \<longleftrightarrow> CHR '':'' \<notin> set org \<and> CHR '':'' \<notin> set project"

lemma append_colon_inject:
  "CHR '':'' \<notin> set a \<Longrightarrow> CHR '':'' \<notin> set b \<Longrightarrow> a @ CHR '':'' # x = b @ CHR '':'' # y \<longleftrightarrow> a = b \<and> x = y"
proof (induction a arbitrary: b)
  case Nil
  then show ?case by (cases b) auto
next
  case (Cons c a)
  then show ?case by (cases b) auto
qed

lemma release_key_scope:
  "release_key org project i = release_key org' project' i' \<Longrightarrow> plain_scope org project \<Longrightarrow>
   plain_scope org' project' \<Longrightarrow> org = org' \<and> project = project'"
  by (simp add: release_key_def plain_scope_def append_colon_inject)

lemma uuid_char: "is_hex (ascii_lower c) \<or> CHR ''-'' = ascii_lower c \<Longrightarrow> c \<noteq> CHR '':'' \<and> \<not> is_space c"
  by (auto simp: is_space_def ascii_lower_def is_upper_def is_hex_def is_digit_def less_eq_char_def)

lemma uuid_chars:
  assumes "uuid s" and "c \<in> set s"
  shows "c \<noteq> CHR '':'' \<and> \<not> is_space c"
proof -
  from assms obtain p where p: "p \<in> set uuid_shape" "p (ascii_lower c)"
    unfolding uuid_def by (metis in_set_conv_nth list_all2_conv_all_nth)
  from p(1) have "p = is_hex \<or> p = (=) CHR ''-'' \<or> p = (\<lambda>c. c \<in> set ''12345'') \<or> p = (\<lambda>c. c \<in> set ''89ab'')"
    by (auto simp: uuid_shape_def Let_def)
  with p(2) have "is_hex (ascii_lower c) \<or> CHR ''-'' = ascii_lower c"
    by (auto simp: is_hex_def is_digit_def less_eq_char_def)
  then show ?thesis by (rule uuid_char)
qed

lemma trim_without_spaces: "\<forall>c\<in>set s. \<not> is_space c \<Longrightarrow> trim s = s"
proof -
  have drop: "\<forall>c\<in>set xs. \<not> is_space c \<Longrightarrow> dropWhile is_space xs = xs" for xs by (cases xs) auto
  show "\<forall>c\<in>set s. \<not> is_space c \<Longrightarrow> trim s = s" using drop[of s] drop[of "rev s"] by (simp add: trim_def)
qed

lemma uuid_plain: "uuid s \<Longrightarrow> CHR '':'' \<notin> set s \<and> trim s = s"
  using uuid_chars trim_without_spaces by blast

section \<open>Everything a run keeps\<close>

definition canary_good :: "release_environment \<Rightarrow> role_repository \<Rightarrow> canary_aggregate \<Rightarrow> bool" where
  "canary_good env rr c \<longleftrightarrow> canary_ok env c \<and> plain_scope (canary_organizationId c) (canary_projectId c) \<and>
     (\<forall>who. canary_ownerId c = Some who \<longrightarrow> owner_of rr (canary_organizationId c) who)"

definition release_good :: "release_environment \<Rightarrow> role_repository \<Rightarrow> production_release \<Rightarrow> bool" where
  "release_good env rr r \<longleftrightarrow> release_ok env r \<and> plain_scope (release_organizationId r) (release_projectId r) \<and>
     (\<forall>g\<in>set (release_gates r). owner_of rr (release_organizationId r) (pg_checkedBy g)) \<and>
     (\<forall>s\<in>set (release_signatures r). owner_of rr (release_organizationId r) (ps_signerId s))"

fun pending_good :: "release_environment \<Rightarrow> role_repository \<Rightarrow> release_pending \<Rightarrow> bool" where
  "pending_good env rr (Pending_canary c v m) \<longleftrightarrow> canary_good env rr c"
| "pending_good env rr (Pending_release r v m) \<longleftrightarrow> release_good env rr r"

definition center_good :: "release_environment \<Rightarrow> center_state \<Rightarrow> bool" where
  "center_good env S \<longleftrightarrow> (case S of (rr, st, ps) \<Rightarrow>
     stored_under canary_key (stored_canary st) \<and> stored_under production_key (stored_release st) \<and>
     (\<forall>k c. stored_canary st k = Some c \<longrightarrow> canary_good env rr c) \<and>
     (\<forall>k r. stored_release st k = Some r \<longrightarrow> release_good env rr r) \<and>
     (\<forall>p\<in>set ps. pending_good env rr p))"

lemma owner_field:
  "approveCanary c actor reason t = Inr d \<Longrightarrow> canary_ownerId d = Some (trim actor)"
  "restartCanary c actor reason t = Inr d \<Longrightarrow> canary_ownerId d = Some (trim actor)"
  "recordCanaryWindow env c actor w t = Inr d \<Longrightarrow> canary_ownerId d = canary_ownerId c"
  "recordCanaryEvent env c actor e t = Inr d \<Longrightarrow> canary_ownerId d = canary_ownerId c"
  "resolveCanaryAlert c i reason t = Inr d \<Longrightarrow> canary_ownerId d = canary_ownerId c"
  "finalizeCanary env c v t = Inr d \<Longrightarrow> canary_ownerId d = canary_ownerId c"
       apply (auto simp: approveCanary_def Let_def result_simps center_id_Inr)[1]
      apply (auto simp: restartCanary_def Let_def result_simps center_id_Inr)[1]
     apply (auto simp: recordCanaryWindow_def Let_def result_simps split: option.splits)[1]
    apply (auto simp: recordCanaryEvent_def Let_def result_simps)[1]
   apply (auto simp: resolveCanaryAlert_def Let_def result_simps split: option.splits)[1]
  apply (auto simp: finalizeCanary_def Let_def result_simps split: option.splits)[1]
  done

lemma act_on_canary_owner:
  assumes "act_on_canary env c a t st cur = Inr new"
  shows "canary_ownerId new = canary_ownerId cur \<or> canary_ownerId new = Some (trim (rel_actorId c))"
  using assms owner_field
  by (cases a) (auto simp: act_on_canary_def finalize_current_def split: option.splits)

lemma act_on_release_owner:
  assumes "act_on_release env x c a cur = Inr new"
  shows "(\<forall>g\<in>set (release_gates new). g \<in> set (release_gates cur) \<or> pg_checkedBy g = trim (rel_actorId c)) \<and>
    (\<forall>s\<in>set (release_signatures new). s \<in> set (release_signatures cur) \<or> ps_signerId s = trim (rel_actorId c))"
proof (cases a)
  case (Record_gate g r refs)
  with assms show ?thesis
    by (auto simp: act_on_release_def recordProductionGate_def result_simps center_id_Inr)
next
  case Evaluate_release
  with assms show ?thesis
    by (auto simp: act_on_release_def evaluateProductionRelease_def Let_def result_simps)
next
  case (Sign_release r)
  with assms show ?thesis
    by (auto simp: act_on_release_def signProductionRelease_def Let_def result_simps center_id_Inr)
qed

lemma canary_good_grows:
  "role_handle y rq rr = (res, rr') \<Longrightarrow> canary_good env rr c \<Longrightarrow> canary_good env rr' c"
  using owner_of_stays unfolding canary_good_def by blast

lemma release_good_grows:
  "role_handle y rq rr = (res, rr') \<Longrightarrow> release_good env rr r \<Longrightarrow> release_good env rr' r"
  using owner_of_stays unfolding release_good_def by blast

lemma pending_good_grows:
  "role_handle y rq rr = (res, rr') \<Longrightarrow> pending_good env rr p \<Longrightarrow> pending_good env rr' p"
  by (cases p) (auto intro: canary_good_grows release_good_grows)

text \<open>A request with the key of a stored aggregate names its organization.\<close>

lemma looked_up_canary:
  assumes "stored_under canary_key (stored_canary st)" and "getCanary org project i st = Some c"
    and "uuid org" and "uuid project" and "plain_scope (canary_organizationId c) (canary_projectId c)"
  shows "canary_organizationId c = org"
proof -
  have "canary_key c = release_key org project i"
    using assms(1,2) by (simp add: stored_under_def getCanary_stored)
  then show ?thesis
    using release_key_scope[OF _ assms(5)] uuid_plain[OF assms(3)] uuid_plain[OF assms(4)]
    unfolding canary_key_def plain_scope_def by metis
qed

lemma looked_up_release:
  assumes "stored_under production_key (stored_release st)" and "getProductionRelease org project i st = Some r"
    and "uuid org" and "uuid project" and "plain_scope (release_organizationId r) (release_projectId r)"
  shows "release_organizationId r = org"
proof -
  have "production_key r = release_key org project i"
    using assms(1,2) by (simp add: stored_under_def getProductionRelease_stored)
  then show ?thesis
    using release_key_scope[OF _ assms(5)] uuid_plain[OF assms(3)] uuid_plain[OF assms(4)]
    unfolding production_key_def plain_scope_def by metis
qed

lemma created_canary_good:
  assumes "createCanary i org project actor x t = Inr c" and "uuid org" and "uuid project"
  shows "canary_good env rr c"
proof -
  from assms(1) have "canary_organizationId c = trim org" "canary_projectId c = trim project" "canary_ownerId c = None"
    by (auto simp: createCanary_def Let_def result_simps center_id_Inr)
  with created_canary_ok[OF assms(1)] uuid_plain[OF assms(2)] uuid_plain[OF assms(3)] show ?thesis
    by (simp add: canary_good_def plain_scope_def)
qed

lemma created_release_good:
  assumes "createProductionRelease i c actor t = Inr r" and "canary_good env rr c"
  shows "release_good env rr r"
proof -
  from assms(1) have "release_organizationId r = canary_organizationId c" "release_projectId r = canary_projectId c"
    "release_gates r = []" "release_signatures r = []"
    by (auto simp: createProductionRelease_def Let_def result_simps split: option.splits)
  with created_release_ok[OF assms(1)] assms(2) show ?thesis by (simp add: release_good_def canary_good_def)
qed

lemma prepared_good:
  assumes "prepare_release env x (\<lambda>s. listActive s rr) q st = Inr (Inr p)" and "http_request q"
    and "center_good env (rr, st, ps)"
  shows "pending_good env rr p"
  using assms(1)
proof (cases rule: prepared_cases)
  case (new_canary c i a m)
  with assms(2) created_canary_good show ?thesis by auto
next
  case (canary c i v a cur new m)
  from assms(3) canary(4) have good: "canary_good env rr cur" "stored_under canary_key (stored_canary st)"
    by (auto simp: center_good_def getCanary_stored)
  with looked_up_canary[OF good(2) canary(4)] assms(2) canary(1)
  have org: "canary_organizationId cur = rel_organizationId c" by (simp add: canary_good_def)
  have "owner_of rr (rel_organizationId c) (trim (rel_actorId c))" using authorized_owner[OF canary(3)] by simp
  moreover have "canary_fixed cur new" using act_on_canary_follows[OF canary(5)] by (simp add: canary_follows_def)
  ultimately have "canary_good env rr new"
    using good(1) act_on_canary_ok[OF canary(5)] act_on_canary_owner[OF canary(5)] org
    unfolding canary_good_def canary_fixed_def by auto
  then show ?thesis by (simp add: canary(2))
next
  case (new_release c i cur r m)
  from assms(3) new_release(4) have "canary_good env rr cur" by (auto simp: center_good_def getCanary_stored)
  with created_release_good[OF new_release(5)] show ?thesis by (simp add: new_release(2))
next
  case (release c i v a cur new m)
  from assms(3) release(4) have good: "release_good env rr cur" "stored_under production_key (stored_release st)"
    by (auto simp: center_good_def getProductionRelease_stored)
  with looked_up_release[OF good(2) release(4)] assms(2) release(1)
  have org: "release_organizationId cur = rel_organizationId c" by (simp add: release_good_def)
  have "owner_of rr (rel_organizationId c) (trim (rel_actorId c))"
    using authorized_owner[of rr c] release(1,3) by (cases a) auto
  moreover have "release_fixed cur new" using act_on_release_follows[OF release(5)] by (simp add: release_follows_def)
  ultimately have "release_good env rr new"
    using good(1) act_on_release_ok[OF release(5)] act_on_release_owner[OF release(5)] org
    unfolding release_good_def release_fixed_def by auto
  then show ?thesis by (simp add: release(2))
qed

lemma performed_good:
  assumes "perform_release p st = (res, st')" and "center_good env (rr, st, ps)" and "pending_good env rr p"
  shows "center_good env (rr, st', ps)"
proof (cases p)
  case (Pending_canary c v m)
  with assms(1) performed_canary have w:
    "written_to canary_version canary_key c v (stored_canary st) (stored_canary st')"
    "stored_release st' = stored_release st" by (auto simp: written_to_def)
  with assms(2,3) Pending_canary canary_writes.stored_under_written[OF w(1)] show ?thesis
    by (auto simp: center_good_def written_to_def split: if_splits)
next
  case (Pending_release r v m)
  with assms(1) performed_production have w:
    "written_to release_version production_key r v (stored_release st) (stored_release st')"
    "stored_canary st' = stored_canary st" by (auto simp: written_to_def)
  with assms(2,3) Pending_release production_writes.stored_under_written[OF w(1)] show ?thesis
    by (auto simp: center_good_def written_to_def split: if_splits)
qed

lemma center_step_good:
  assumes "center_step env exact S S'" and "center_good env S"
  shows "center_good env S'"
  using assms(1)
proof cases
  case (prepare q st x rr p ps)
  with prepared_good[OF prepare(5,3)] assms(2) show ?thesis by (auto simp: center_good_def)
next
  case (perform p ps st res st' rr)
  from assms(2) perform(1,3) have "pending_good env rr p" "center_good env (rr, st, ps)"
    by (auto simp: center_good_def)
  with performed_good[OF perform(4)] have "center_good env (rr, st', ps)" by blast
  with perform(2) show ?thesis
    unfolding center_good_def by (auto dest: set_remove1_subset[THEN subsetD])
next
  case (verified rr st ps org project goal v)
  with assms(2) show ?thesis by (auto simp: center_good_def)
next
  case (role_changed y rq rr res rr' st ps)
  note grows = canary_good_grows[OF role_changed(3)] release_good_grows[OF role_changed(3)]
    pending_good_grows[OF role_changed(3)]
  from assms(2) role_changed(1,2) grows show ?thesis unfolding center_good_def by auto
qed

lemma center_run_good: "center_run env exact S S' \<Longrightarrow> center_good env S \<Longrightarrow> center_good env S'"
  by (induction rule: rtranclp_induct) (auto intro: center_step_good)

lemma new_store_empty [simp]: "stored_canary new_release_store k = None" "stored_release new_release_store k = None"
  by (simp_all add: stored_canary_def stored_release_def new_release_store_def)

lemma new_center_good: "center_good env (rr, new_release_store, [])"
  by (simp add: center_good_def stored_under_def)

lemma new_center_exact: "exact_state (rr, new_release_store, [])"
  by (simp add: exact_state_def stored_under_def)

section \<open>Properties\<close>

text \<open>
  Property C2. Approved releases have valid evidence. Whatever requests, role changes and
  verifications interleave, a stored release that is approved carries the report of a Canary
  which was observed for at least twelve hours in at least twelve healthy, contiguous windows of
  at most an hour without a P0 or P1 count, whose events are benign (no P0 or P1, alerts resolved,
  P2 defects with a workaround) and whose Goal verification was completed within the observation;
  each of the ten gates was checked once, after the Canary ended and before the evaluation; and
  there is exactly one signature, the owner's, made after the evaluation, over the digest of the
  report without signatures. Those who checked gates and signed have been owners of the
  organization.
\<close>

theorem approved_releases_have_valid_evidence:
  assumes "center_run env exact (rr0, new_release_store, []) (rr, st, ps)"
    and "stored_release st k = Some r" and "release_status r = Release_approved"
  shows "\<exists>c vid endedAt completedAt refs t1 t2 s.
    release_canaryReport r = canary_report_json c endedAt vid completedAt refs \<and>
    canary_evidence env c endedAt completedAt refs t1 \<and>
    release_canaryId r = canary_id c \<and> release_candidateCommit r = canary_candidateCommit c \<and>
    release_evidence env r endedAt t2 \<and> release_updatedAt r = toISOString t2 \<and>
    release_signatures r = [s] \<and> owner_of rr (release_organizationId r) (ps_signerId s) \<and>
    (\<forall>g\<in>set (release_gates r). owner_of rr (release_organizationId r) (pg_checkedBy g))"
proof -
  from center_run_good[OF assms(1) new_center_good] assms(2) have good: "release_good env rr r"
    by (simp add: center_good_def)
  with assms(3) obtain c endedAt t2 where c: "canary_shown env c (release_canaryReport r) endedAt"
    "release_canaryId r = canary_id c" "release_candidateCommit r = canary_candidateCommit c"
    "release_evidence env r endedAt t2" "release_updatedAt r = toISOString t2"
    unfolding release_good_def release_ok_def by blast
  moreover from c(4) obtain s where s: "release_signatures r = [s]" unfolding release_evidence_def by blast
  moreover from good s have "owner_of rr (release_organizationId r) (ps_signerId s)"
    "\<forall>g\<in>set (release_gates r). owner_of rr (release_organizationId r) (pg_checkedBy g)"
    by (simp_all add: release_good_def)
  ultimately show ?thesis unfolding canary_shown_def by blast
qed

text \<open>
  Property C10. Evidence is locked by its evaluation. As long as requests name the version they
  read, however they interleave: stored releases and Canaries never vanish, keep their identity,
  candidate and Canary report, and every change raises the version; once a release is evaluated
  its gates, evaluation time and digest never change and it is no draft again, and an approved
  release and a passed Canary never change at all; the windows and events of a Canary are only
  appended to.
\<close>

theorem evidence_is_locked:
  assumes "center_run env True (rr0, new_release_store, []) (rr, st, ps)"
    and "center_run env True (rr, st, ps) (rr', st', ps')"
  shows "(stored_release st k = Some r \<longrightarrow> (\<exists>s. stored_release st' k = Some s \<and> release_fixed r s \<and>
      (release_version r < release_version s \<or> s = r) \<and>
      (release_status r \<noteq> Release_draft \<longrightarrow> evidence_kept r s \<and> release_status s \<noteq> Release_draft) \<and>
      (release_status r = Release_approved \<longrightarrow> s = r))) \<and>
    (stored_canary st k = Some c \<longrightarrow> (\<exists>d. stored_canary st' k = Some d \<and> canary_fixed c d \<and>
      (canary_version c < canary_version d \<or> d = c) \<and> canary_attempt c \<le> canary_attempt d \<and>
      prefix (canary_windows c) (canary_windows d) \<and>
      prefix (map resolved_event (canary_events c)) (map resolved_event (canary_events d)) \<and>
      (canary_status c = Canary_passed \<longrightarrow> d = c)))"
proof -
  have "exact_state (rr, st, ps)" using exact_run[OF assms(1) new_center_exact] by simp
  with exact_run[OF assms(2)] have moves: "center_moves st st'" by simp
  show ?thesis
  proof (intro conjI impI)
    assume "stored_release st k = Some r"
    with moves obtain s where "stored_release st' k = Some s" "release_follows\<^sup>*\<^sup>* r s"
      unfolding center_moves_def by blast
    with release_follows_ever show "\<exists>s. stored_release st' k = Some s \<and> release_fixed r s \<and>
      (release_version r < release_version s \<or> s = r) \<and>
      (release_status r \<noteq> Release_draft \<longrightarrow> evidence_kept r s \<and> release_status s \<noteq> Release_draft) \<and>
      (release_status r = Release_approved \<longrightarrow> s = r)" by blast
  next
    assume "stored_canary st k = Some c"
    with moves obtain d where "stored_canary st' k = Some d" "canary_follows\<^sup>*\<^sup>* c d"
      unfolding center_moves_def by blast
    with canary_follows_ever show "\<exists>d. stored_canary st' k = Some d \<and> canary_fixed c d \<and>
      (canary_version c < canary_version d \<or> d = c) \<and> canary_attempt c \<le> canary_attempt d \<and>
      prefix (canary_windows c) (canary_windows d) \<and>
      prefix (map resolved_event (canary_events c)) (map resolved_event (canary_events d)) \<and>
      (canary_status c = Canary_passed \<longrightarrow> d = c)" by blast
  qed
qed

text \<open>
  Property C27. A gate check that was read while the release was a draft, and that names a later
  version, overwrites an approved release: the commit compares the named version with the stored
  one, but not with the version that was read. The release is a draft again, under an older
  version number, without its evaluation and signature.
\<close>

theorem late_gate_check_reopens_an_approved_release:
  assumes "prepare_release env x reader (Release_request c i v (Record_gate g ow refs)) st = Inr (Inr p)"
    and "stored_release st (release_key (rel_organizationId c) (rel_projectId c) i) = Some r0"
    and "stored_under production_key (stored_release st)"
    and "stored_release st' (release_key (rel_organizationId c) (rel_projectId c) i) = Some r"
    and "release_version r = v" and "0 < v"
    and "\<And>m. release_metadata env x (Release_request c i v (Record_gate g ow refs)) = Inr m \<Longrightarrow>
      replay_command m st' = Inr None"
  shows "\<exists>s. stored_release (snd (perform_release p st'))
      (release_key (rel_organizationId c) (rel_projectId c) i) = Some s \<and>
    release_status s = Release_draft \<and> release_version s = release_version r0 + 1 \<and>
    release_evaluatedAt s = release_evaluatedAt r0 \<and> release_signatures s = release_signatures r0"
proof -
  from assms(1,2) obtain m s where m: "release_metadata env x (Release_request c i v (Record_gate g ow refs)) = Inr m"
    and p: "p = Pending_release s v m" and s: "recordProductionGate r0 (rel_actorId c) g ow refs (rx_now x) = Inr s"
    by (auto simp: result_simps found_or_Inr required_release_def getProductionRelease_stored act_on_release_def)
  from s have f: "release_status s = Release_draft" "release_version s = release_version r0 + 1"
    "release_evaluatedAt s = release_evaluatedAt r0" "release_signatures s = release_signatures r0"
    by (auto simp: recordProductionGate_def result_simps)
  have "production_key s = production_key r0" using production_writes.follows_key[OF gate_follows[OF s]] .
  with assms(2,3) have key: "production_key s = release_key (rel_organizationId c) (rel_projectId c) i"
    by (simp add: stored_under_def)
  from assms(4-6) have "\<not> version_conflict v (map_option release_version (map_of (releases st') (production_key s)))"
    by (simp add: key version_conflict_def stored_release_def)
  with assms(7)[OF m] have "stored_release (snd (perform_release p st')) (production_key s) = Some s"
    by (simp add: p commitProductionRelease_def stored_release_def update_conv')
  with f key show ?thesis by auto
qed

section \<open>Commands take effect once\<close>

text \<open>
  Every request but the creation of a release looks its receipt up before it reads anything else.
\<close>

definition lookup_first :: "release_request \<Rightarrow> bool" where
  "lookup_first q \<longleftrightarrow> (case q of Create_release _ _ \<Rightarrow> False | _ \<Rightarrow> True)"

definition lookup_of :: "release_metadata \<Rightarrow> idempotency_lookup" where
  "lookup_of m = \<lparr>lookup_organizationId = md_organizationId m, lookup_actorId = md_actorId m,
     lookup_endpoint = md_endpoint m, lookup_key = md_idempotencyKey m, requestHash = md_requestHash m\<rparr>"

definition release_find :: "idempotency_lookup \<Rightarrow> release_store \<Rightarrow> js_error + release_aggregate option" where
  "release_find l st =
     (case release_receipts st (lookup_organizationId l @ '':'' @ lookup_actorId l @ '':'' @
         lookup_endpoint l @ '':'' @ lookup_key l) of
        None \<Rightarrow> Inr None
      | Some (h, a) \<Rightarrow> if h \<noteq> requestHash l then Inl ReleaseCenterIdempotencyConflictError else Inr (Some a))"

definition release_looks_up ::
  "release_environment \<Rightarrow> release_call \<times> role_reading \<Rightarrow> release_request \<Rightarrow> idempotency_lookup option" where
  "release_looks_up env x q =
     (case and_then (authorize_request (snd x) q) (\<lambda>_. release_metadata env (fst x) q) of
        Inr m \<Rightarrow> if lookup_first q then Some (lookup_of m) else None | Inl _ \<Rightarrow> None)"

definition lookup_first_handle ::
  "release_environment \<Rightarrow> release_call \<times> role_reading \<Rightarrow> release_request \<Rightarrow> release_store \<Rightarrow>
   (js_error + release_aggregate) \<times> release_store" where
  "lookup_first_handle env x q st =
     (if lookup_first q then release_handle env x q st else (Inl ReleaseCenterNotFoundError, st))"

text \<open>What may happen to the store: any commit, any verification.\<close>

definition release_store_moves :: "release_store \<Rightarrow> release_store \<Rightarrow> bool" where
  "release_store_moves st st' \<longleftrightarrow> (\<exists>p. st' = snd (perform_release p st)) \<or>
     (\<exists>org project goal v. st' = seedVerification org project goal v st)"

lemma find_lookup_of: "release_find (lookup_of m) st = replay_command m st"
  by (simp add: release_find_def lookup_of_def replay_command_def command_key_def split: option.splits)

fun metadata_of :: "release_pending \<Rightarrow> release_metadata" where
  "metadata_of (Pending_canary c v m) = m"
| "metadata_of (Pending_release r v m) = m"

lemma release_handle_shape:
  assumes "lookup_first q"
  shows "\<exists>k. \<forall>st. prepare_release env x reader q st =
    and_then (authorize_request reader q) (\<lambda>_. and_then (release_metadata env x q) (\<lambda>m. found_or m st (k m st))) \<and>
    (\<forall>m st p. k m st = Inr p \<longrightarrow> metadata_of p = m)"
proof (cases q)
  case (Create_canary c i)
  show ?thesis
    unfolding Create_canary prepare_release.simps
    by (rule exI[where x = "\<lambda>m st. and_then (createCanary (rx_ids x 2) (rel_organizationId c) (rel_projectId c)
      (rel_actorId c) i (rx_now x)) (\<lambda>a. Inr (Pending_canary a 0 m))"]) (auto simp: result_simps)
next
  case (Canary_request c i v a)
  show ?thesis
    unfolding Canary_request prepare_release.simps
    by (rule exI[where x = "\<lambda>m st. and_then (required_canary c i st) (\<lambda>current.
        and_then (act_on_canary env c a (rx_now x) st current) (\<lambda>new. Inr (Pending_canary new v m)))"])
      (auto simp: result_simps)
next
  case (Create_release c i)
  with assms show ?thesis by (simp add: lookup_first_def)
next
  case (Release_request c i v a)
  show ?thesis
    unfolding Release_request prepare_release.simps
    by (rule exI[where x = "\<lambda>m st. and_then (required_release c i st) (\<lambda>current.
        and_then (act_on_release env x c a current) (\<lambda>new. Inr (Pending_release new v m)))"])
      (auto simp: result_simps)
qed

text \<open>A commit either changes nothing, or finds no receipt of its command and files one.\<close>

lemma performed_receipt:
  assumes "perform_release p st = (res, st')"
  shows "(st' = st \<and> ((\<exists>e. res = Inl e) \<or> (\<exists>a. res = Inr a \<and> replay_command (metadata_of p) st = Inr (Some a)))) \<or>
    (\<exists>a. res = Inr a \<and> replay_command (metadata_of p) st = Inr None \<and>
       release_receipts st' = (release_receipts st)(command_key (metadata_of p) \<mapsto> (md_requestHash (metadata_of p), a)))"
  using assms
  by (cases p) (auto simp: commitCanary_def commitProductionRelease_def remember_command_def
      split: sum.splits option.splits if_splits)

lemma find_stays:
  assumes "release_store_moves st st'" and "release_find l st = Inr (Some a)"
  shows "release_find l st' = Inr (Some a)"
  using assms(1) unfolding release_store_moves_def
proof (elim disjE exE)
  fix p assume p: "st' = snd (perform_release p st)"
  obtain res where "perform_release p st = (res, st')" using p by (cases "perform_release p st") auto
  from performed_receipt[OF this] assms(2) show ?thesis
    by (auto simp: release_find_def replay_command_def split: option.splits if_splits)
next
  fix org project goal v assume "st' = seedVerification org project goal v st"
  with assms(2) show ?thesis by (simp add: release_find_def)
qed

lemma handled_found:
  assumes "lookup_first q" and "release_looks_up env (x, reader) q = Some l"
    and "release_find l st = Inr (Some a)"
  shows "release_handle env (x, reader) q st = (Inr a, st)"
proof -
  from release_handle_shape[OF assms(1), of env x reader] obtain k where k: "\<And>st. prepare_release env x reader q st =
    and_then (authorize_request reader q) (\<lambda>_. and_then (release_metadata env x q) (\<lambda>m. found_or m st (k m st)))" by blast
  from assms(2) obtain m where m: "authorize_request reader q = Inr ()" "release_metadata env x q = Inr m" "l = lookup_of m"
    by (auto simp: release_looks_up_def result_simps split: sum.splits if_splits)
  with assms(3) show ?thesis by (simp add: release_handle_def k found_or_def find_lookup_of)
qed

lemma handled_recorded:
  assumes "lookup_first q" and "release_handle env (x, reader) q st = (Inr a, st')"
  shows "\<exists>l. release_looks_up env (x, reader) q = Some l \<and> release_find l st' = Inr (Some a)"
proof -
  from release_handle_shape[OF assms(1), of env x reader] obtain k where k: "\<And>st. prepare_release env x reader q st =
    and_then (authorize_request reader q) (\<lambda>_. and_then (release_metadata env x q) (\<lambda>m. found_or m st (k m st)))"
    "\<And>m st p. k m st = Inr p \<Longrightarrow> metadata_of p = m"
    by blast
  from assms(2) obtain r where "prepare_release env x reader q st = Inr r"
    by (cases "prepare_release env x reader q st") (simp_all add: release_handle_def)
  then obtain m where m: "authorize_request reader q = Inr ()" "release_metadata env x q = Inr m"
    unfolding k(1) and_then_eq_Inr by auto
  then have l: "release_looks_up env (x, reader) q = Some (lookup_of m)"
    using assms(1) by (simp add: release_looks_up_def)
  have prep: "prepare_release env x reader q st = found_or m st (k m st)" using m by (simp add: k(1))
  have "replay_command m st' = Inr (Some a)"
  proof (cases "prepare_release env x reader q st")
    case (Inr r)
    then show ?thesis
    proof (cases r)
      case (Inl b)
      with Inr assms(2) prep show ?thesis
        by (auto simp: release_handle_def found_or_def result_simps split: option.splits)
    next
      case (Inr p)
      with \<open>prepare_release env x reader q st = Inr r\<close> prep have "metadata_of p = m"
        by (auto simp: found_or_Inr k(2))
      moreover have "perform_release p st = (Inr a, st')"
        using assms(2) Inr \<open>prepare_release env x reader q st = Inr r\<close> by (simp add: release_handle_def)
      ultimately show ?thesis using performed_receipt[of p st "Inr a" st'] by (auto simp: replay_command_def)
    qed
  qed (use assms(2) in \<open>simp add: release_handle_def\<close>)
  with l show ?thesis by (simp add: find_lookup_of)
qed

lemma handled_refused:
  "release_handle env x q st = (Inl e, st') \<Longrightarrow> st' = st"
  by (auto simp: release_handle_def split: sum.splits dest: performed_receipt)

interpretation release_commands: idempotent_service "release_looks_up env" release_find "lookup_first_handle env"
  release_store_moves for env
proof
  show "lookup_first_handle env x c s = (Inr r, s)"
    if "release_looks_up env x c = Some l" "release_find l s = Inr (Some r)" for x c l s r
    using that handled_found[of c env "fst x" "snd x" l s r]
    by (auto simp: lookup_first_handle_def release_looks_up_def split: sum.splits if_splits)
  show "\<exists>l. release_looks_up env x c = Some l \<and> release_find l s' = Inr (Some r)"
    if "lookup_first_handle env x c s = (Inr r, s')" for x c s r s'
    using that handled_recorded[of c env "fst x" "snd x" s r s'] by (auto simp: lookup_first_handle_def split: if_splits)
  show "release_find l s' = Inr (Some r)"
    if "release_store_moves s s'" "release_find l s = Inr (Some r)" for s s' l r
    using find_stays that .
  show "s' = s" if "lookup_first_handle env x c s = (Inl e, s')" for x c s e s'
    using that handled_refused by (auto simp: lookup_first_handle_def split: if_splits)
qed


end
