(* ===== verification/Release_Sample.thy ===== *)
theory Release_Sample
  imports Release_Safety
begin

text \<open>
  A release from beginning to end: a Canary that is created, approved, observed for twelve hours
  and finalized, and the production release over it with its ten gates, its evaluation and its
  signature, as one run of the release center. It shows that the properties of the release center
  speak about runs that exist.
\<close>

section \<open>Surroundings\<close>

text \<open>Dates are read on the hour, for the first fourteen hours.\<close>

definition hour :: "nat \<Rightarrow> int" where
  "hour h = int h * hour_ms"

definition clock_text :: "nat \<Rightarrow> string" where
  "clock_text h = toISOString (hour h)"

definition sample_release_env :: release_environment where
  "sample_release_env = \<lparr>
     date_parse = (\<lambda>s. map_of (map (\<lambda>h. (clock_text h, hour h)) [0..<14]) s),
     release_compare = (\<lambda>a b. a \<le> b), release_sha256 = (\<lambda>s. replicate 64 CHR ''0'')\<rparr>"

lemma clock_text_hours:
  assumes "h < 24"
  shows "clock_text h = ''1970-01-01T'' @ padded 2 (int h) @ '':00:00.000Z''"
proof -
  have d: "hour h div 86400000 = 0" "hour h mod 86400000 = hour h"
    using assms by (simp_all add: hour_def hour_ms_def)
  have r: "hour h div 3600000 = int h" "hour h div 60000 mod 60 = 0" "hour h div 1000 mod 60 = 0" "hour h mod 1000 = 0"
    by (simp_all add: hour_def hour_ms_def; presburger)+
  have c: "civil_from_days 0 = (1970, 1, 1)" "iso_year 1970 = ''1970''" "padded 2 1 = ''01''" "padded 2 0 = ''00''"
    "padded 3 0 = ''000''" by code_simp+
  show ?thesis unfolding clock_text_def toISOString_def Let_def d r c prod.case by simp
qed

lemma distinct_clock_texts: "distinct (map clock_text [0..<14])"
proof -
  have "distinct (map (\<lambda>h. padded 2 (int h)) [0..<14])" by code_simp
  then have "inj_on (\<lambda>h. padded 2 (int h)) (set [0..<14])" unfolding distinct_map by blast
  then have "inj_on clock_text (set [0..<14])" by (auto simp: inj_on_def clock_text_hours)
  then show ?thesis unfolding distinct_map by simp
qed

lemma date_parse_sample [simp]:
  assumes "h < 14"
  shows "date_parse sample_release_env (clock_text h) = Some (hour h)"
proof -
  have "map fst (map (\<lambda>h. (clock_text h, hour h)) [0..<14]) = map clock_text [0..<14]" by (simp only: map_map comp_def fst_conv)
  with distinct_clock_texts have "distinct (map fst (map (\<lambda>h. (clock_text h, hour h)) [0..<14]))" by (simp only:)
  moreover have "(clock_text h, hour h) \<in> set (map (\<lambda>h. (clock_text h, hour h)) [0..<14])"
    using assms by (simp only: set_map set_upt) force
  ultimately show ?thesis unfolding sample_release_env_def by (simp only: release_environment.simps map_of_is_SomeI)
qed

lemma sha_sample [simp]: "release_sha256 sample_release_env s = replicate 64 CHR ''0''"
  by (simp add: sample_release_env_def)

lemma hash_sample [simp]: "release_hash sample_release_env v = replicate 64 CHR ''0''"
  by (simp add: release_hash_def)

lemma toISOString_Z: "\<exists>s. toISOString t = s @ ''Z''"
proof -
  obtain y m d where "civil_from_days (t div 86400000) = (y, m, d)" by (cases "civil_from_days (t div 86400000)")
  then show ?thesis
    unfolding toISOString_def Let_def by (simp only: prod.case append_assoc[symmetric]) blast
qed

lemma toISOString_text: "ends_with ''Z'' (toISOString t) \<and> trim (toISOString t) \<noteq> '''' \<and> toISOString t \<noteq> ''''"
proof -
  obtain s where s: "toISOString t = s @ ''Z''" using toISOString_Z by blast
  have "trim (s @ ''Z'') \<noteq> ''''"
  proof
    assume "trim (s @ ''Z'') = ''''"
    then have "\<forall>c\<in>set (dropWhile is_space (s @ ''Z'')). is_space c"
      unfolding trim_def rev_is_Nil_conv dropWhile_eq_Nil_conv set_rev .
    then show False by (auto simp: is_space_def dropWhile_append split: if_splits)
  qed
  with s show ?thesis by (simp add: ends_with_def)
qed

lemma clock_text_simps [simp]:
  "ends_with ''Z'' (clock_text h)" "trim (clock_text h) \<noteq> ''''" "clock_text h \<noteq> ''''"
  "truthy_string (Some (clock_text h))" "present (Some (clock_text h)) = Some (clock_text h)"
  using toISOString_text by (simp_all add: clock_text_def truthy_string_def present_def)

lemma iso_sample [simp]: "h < 14 \<Longrightarrow> iso_utc sample_release_env (clock_text h) l = Inr (clock_text h)"
  by (simp add: iso_utc_def) (simp add: clock_text_def hour_def)

lemma hour_simps [simp]: "hour a < hour b \<longleftrightarrow> a < b" "hour a \<le> hour b \<longleftrightarrow> a \<le> b" "hour (Suc a) - hour a = hour_ms"
  "hour a = hour b \<longleftrightarrow> a = b"
  by (simp_all add: hour_def hour_ms_def)

definition sample_uuid :: "char \<Rightarrow> string" where
  "sample_uuid c = ''00000000-0000-4000-8000-00000000000'' @ [c]"

abbreviation "sample_org \<equiv> sample_uuid CHR ''a''"
abbreviation "sample_project \<equiv> sample_uuid CHR ''b''"
abbreviation "sample_subject \<equiv> sample_uuid CHR ''c''"
abbreviation "sample_goal \<equiv> sample_uuid CHR ''d''"

lemma uuid_sample: "uuid sample_org" "uuid sample_project" "uuid sample_subject" "uuid sample_goal"
  by code_simp+

lemma safe_sample: "safe_id sample_org" "safe_id sample_project" "safe_id sample_subject" "safe_id sample_goal"
  "safe_id ''owner-1''" "safe_id ''request-1''" "safe_id ''audit-1''" "safe_id ''verification-1''"
  by code_simp+

lemma placeholder_sample: "\<not> placeholder sample_org" "\<not> placeholder sample_project" "\<not> placeholder sample_subject"
  "\<not> placeholder sample_goal" "\<not> placeholder ''owner-1''" "\<not> placeholder ''request-1''"
  "\<not> placeholder ''audit-1''" "\<not> placeholder ''verification-1''"
  by code_simp+

lemma trim_sample: "trim sample_org = sample_org" "trim sample_project = sample_project"
  "trim sample_subject = sample_subject" "trim sample_goal = sample_goal" "trim ''owner-1'' = ''owner-1''"
  "trim ''request-1'' = ''request-1''" "trim ''audit-1'' = ''audit-1''" "trim ''verification-1'' = ''verification-1''"
  "trim ''Reviewed with the team'' = ''Reviewed with the team''" "trim ''metrics:hour'' = ''metrics:hour''"
  by code_simp+

lemma scheme_sample: "scheme_ref ''metrics:hour''"
  by code_simp

lemma length_uuid [simp]: "length (sample_uuid c) = 36" "sample_uuid c \<noteq> ''''"
  by (simp_all add: sample_uuid_def)

lemma center_id_sample [simp]:
  "center_id sample_org l = Inr sample_org" "center_id sample_project l = Inr sample_project"
  "center_id sample_subject l = Inr sample_subject" "center_id sample_goal l = Inr sample_goal"
  "center_id ''owner-1'' l = Inr ''owner-1''" "center_id ''request-1'' l = Inr ''request-1''"
  "center_id ''audit-1'' l = Inr ''audit-1''" "center_id ''verification-1'' l = Inr ''verification-1''"
  by (simp_all add: center_id_Inr safe_sample trim_sample)

lemma evidence_sample [simp]: "center_evidenceRefs [''metrics:hour''] l = Inr [''metrics:hour'']"
  by (simp add: center_evidenceRefs_def center_strings_def required_def Let_def trim_sample evidence_ref_iff scheme_sample)

lemma reason_sample [simp]: "required ''Reviewed with the team'' l 4000 = Inr ''Reviewed with the team''"
  by (simp add: required_def Let_def trim_sample)

section \<open>Stages\<close>

definition sample_command :: "nat \<Rightarrow> release_command" where
  "sample_command n = \<lparr>rel_organizationId = sample_org, rel_projectId = sample_project,
     rel_actorId = ''owner-1'', rel_requestId = ''request-1'',
     rel_idempotencyKey = replicate (200 + 100 * n) CHR ''k'', rel_reason = ''Reviewed with the team''\<rparr>"

definition sample_release_call :: "nat \<Rightarrow> release_call" where
  "sample_release_call h = \<lparr>rx_occurredAt = hour h, rx_now = hour h,
     rx_ids = (\<lambda>n. if n = 2 then sample_subject else ''audit-1'')\<rparr>"

definition sample_owners :: role_repository where
  "sample_owners = new_role_repository [\<lparr>binding_id = ''b1'', binding_organizationId = sample_org,
     binding_projectId = None, binding_actorId = ''owner-1'', binding_role = Organization_owner,
     binding_version = 1, binding_createdAt = ''t'', binding_revokedAt = None\<rparr>]"

definition sample_verification :: passed_verification where
  "sample_verification = \<lparr>pv_id = ''verification-1'', pv_verifiedAt = clock_text 12, pv_evidenceRefs = [''metrics:hour'']\<rparr>"

abbreviation "subject_key \<equiv> release_key sample_org sample_project sample_subject"

text \<open>After \<open>n\<close> requests; the receipts have shorter keys than those to come.\<close>

definition receipts_below :: "nat \<Rightarrow> (string \<rightharpoonup> 'a) \<Rightarrow> bool" where
  "receipts_below n f \<longleftrightarrow> (\<forall>k. f k \<noteq> None \<longrightarrow> length k < 200 + 100 * n)"

lemma receipts_below_none: "receipts_below n f \<Longrightarrow> 200 + 100 * n \<le> length k \<Longrightarrow> f k = None"
  unfolding receipts_below_def using leD by blast

lemma receipts_below_added:
  "receipts_below n f \<Longrightarrow> length k < 200 + 100 * Suc n \<Longrightarrow> receipts_below (Suc n) (f(k \<mapsto> x))"
  unfolding receipts_below_def by (auto intro: less_trans)

lemma receipts_below_mono: "receipts_below m f \<Longrightarrow> m \<le> n \<Longrightarrow> receipts_below n f"
  unfolding receipts_below_def by (meson add_left_mono mult_le_mono2 order.strict_trans2)

definition stage_store :: "nat \<Rightarrow> canary_aggregate option \<Rightarrow> production_release option \<Rightarrow> release_store \<Rightarrow> bool" where
  "stage_store n c r st \<longleftrightarrow> stored_canary st subject_key = c \<and> stored_release st subject_key = r \<and>
     receipts_below n (release_receipts st) \<and>
     release_verifications st (release_key sample_org sample_project sample_goal) = Some sample_verification"

definition stage :: "release_store \<Rightarrow> nat \<Rightarrow> canary_aggregate option \<Rightarrow> production_release option \<Rightarrow> bool" where
  "stage st0 n c r \<longleftrightarrow> (\<exists>st. center_run sample_release_env True (sample_owners, st0, []) (sample_owners, st, []) \<and>
     stage_store n c r st)"

lemma sample_identity: "n < 30 \<Longrightarrow> validIdentity (sample_command n) = Inr ()"
  by (simp add: validIdentity_def valid_identity_text_def sample_command_def trim_sample trim_without_spaces is_space_def)

definition sample_metadata :: "nat \<Rightarrow> nat \<Rightarrow> release_request \<Rightarrow> release_metadata" where
  "sample_metadata n h q = \<lparr>md_organizationId = sample_org, md_actorId = ''owner-1'',
     md_idempotencyKey = replicate (200 + 100 * n) CHR ''k'', md_requestHash = replicate 64 CHR ''0'',
     md_endpoint = fst (endpoint_of q), md_auditId = ''audit-1'', md_eventId = ''audit-1'',
     md_eventType = snd (endpoint_of q), md_occurredAt = clock_text h\<rparr>"

lemma sample_metadata: "n < 30 \<Longrightarrow> command_of q = sample_command n \<Longrightarrow>
  release_metadata sample_release_env (sample_release_call h) q = Inr (sample_metadata n h q)"
  by (simp add: release_metadata_def Let_def sample_identity sample_metadata_def sample_release_call_def clock_text_def)
    (simp add: sample_command_def)

lemma canary_endpoint_length: "length (fst (canary_endpoint a)) < 40"
  by (cases a) simp_all

lemma production_endpoint_length: "length (fst (production_endpoint a)) < 40"
  by (cases a) simp_all

lemma endpoint_length: "length (fst (endpoint_of q)) < 40"
  using canary_endpoint_length production_endpoint_length by (cases q) simp_all

lemma sample_key_length:
  "200 + 100 * n \<le> length (command_key (sample_metadata n h q))"
  "length (command_key (sample_metadata n h q)) < 200 + 100 * Suc n"
  using endpoint_length[of q] by (simp_all add: command_key_def sample_metadata_def)

lemma sample_fresh: "stage_store n c r st \<Longrightarrow> replay_command (sample_metadata n h q) st = Inr None"
  using sample_key_length(1)[of n h q] receipts_below_none[of n "release_receipts st"]
  by (simp add: stage_store_def replay_command_def)

lemma sample_authorized:
  "authorizeRole (\<lambda>s. listActive s sample_owners) (release_command_scope (sample_command n)) ''owner'' = Inr ()"
  "authorizePermission (\<lambda>s. listActive s sample_owners) (release_command_scope (sample_command n)) Run_operate = Inr ()"
  by (simp_all add: authorizeRole_def Let_def releaseRoleBindings_def listActive_def release_command_scope_def sample_owners_def
      sample_command_def new_role_repository_def active_def authorizePermission_def assertAllowed_def decide_def
      permissions_def)

text \<open>A request that is prepared and then committed.\<close>

lemma stage_next:
  assumes "stage st0 n c r" and "command_of q = sample_command n" and "n < 30" and "http_request q"
    and "\<And>st. stage_store n c r st \<Longrightarrow> names_current q st"
    and "\<And>st. stage_store n c r st \<Longrightarrow>
      prepare_release sample_release_env (sample_release_call h) (\<lambda>s. listActive s sample_owners) q st = Inr (Inr p)"
    and "\<And>st. stage_store n c r st \<Longrightarrow> stage_store (Suc n) c' r' (snd (perform_release p st))"
  shows "stage st0 (Suc n) c' r'"
proof -
  from assms(1) obtain st where run: "center_run sample_release_env True (sample_owners, st0, []) (sample_owners, st, [])"
    and st: "stage_store n c r st" unfolding stage_def by blast
  from st have "center_step sample_release_env True (sample_owners, st, []) (sample_owners, st, [p])"
    by (intro center_step.prepare[OF assms(4) _ assms(6)] impI assms(5))
  moreover have "center_step sample_release_env True (sample_owners, st, [p]) (sample_owners, snd (perform_release p st), [])"
    using center_step.perform[of p "[p]" st "fst (perform_release p st)" "snd (perform_release p st)"] by simp
  ultimately have "center_run sample_release_env True (sample_owners, st0, []) (sample_owners, snd (perform_release p st), [])"
    using run by (meson rtranclp.rtrancl_into_rtrancl)
  with assms(7)[OF st] show ?thesis unfolding stage_def by blast
qed



lemma stage_canary:
  assumes "stage st0 n (Some cur) r" and "n < 30" and "canary_version cur = v" and "0 < v" and "canary_key cur = subject_key"
    and "\<And>st. stage_store n (Some cur) r st \<Longrightarrow>
      act_on_canary sample_release_env (sample_command n) a (hour h) st cur = Inr new"
  shows "stage st0 (Suc n) (Some new) r"
proof -
  let ?q = "Canary_request (sample_command n) sample_subject v a"
  obtain st1 where "stage_store n (Some cur) r st1" using assms(1) unfolding stage_def by blast
  from act_on_canary_follows[OF assms(6)[OF this]] have key: "canary_key new = subject_key"
    using canary_writes.follows_key assms(5) by simp
  have found: "getCanary sample_org sample_project sample_subject st = Some cur" if "stage_store n (Some cur) r st" for st
    using that by (simp add: getCanary_stored stage_store_def)
  show ?thesis
  proof (rule stage_next[OF assms(1), where q = ?q and h = h and p = "Pending_canary new v (sample_metadata n h ?q)"])
    show "http_request ?q" using assms(4) uuid_sample by (simp add: sample_command_def)
    show "names_current ?q st" if "stage_store n (Some cur) r st" for st
      using found[OF that] assms(3) by (simp add: sample_command_def)
    show "prepare_release sample_release_env (sample_release_call h) (\<lambda>s. listActive s sample_owners) ?q st =
        Inr (Inr (Pending_canary new v (sample_metadata n h ?q)))" if "stage_store n (Some cur) r st" for st
      using found[OF that] assms(6)[OF that] sample_fresh[OF that, of h ?q] assms(2)
      by (simp add: sample_authorized sample_metadata found_or_def required_canary_def)
        (simp add: sample_command_def sample_release_call_def)
    show "stage_store (Suc n) (Some new) r (snd (perform_release (Pending_canary new v (sample_metadata n h ?q)) st))"
      if "stage_store n (Some cur) r st" for st
    proof -
      have "receipts_below (Suc n) ((release_receipts st)(command_key (sample_metadata n h ?q) \<mapsto> x))" for x
        using that by (intro receipts_below_added sample_key_length(2)) (simp add: stage_store_def)
      with that found[OF that] sample_fresh[OF that, of h ?q] assms(3,4) show ?thesis
        by (simp add: commitCanary_def key version_conflict_def getCanary_def stage_store_def stored_canary_def
            stored_release_def remember_command_def update_conv')
    qed
  qed (use assms(2) in simp_all)
qed

lemma stage_release:
  assumes "stage st0 n c (Some cur)" and "n < 30" and "release_version cur = v" and "0 < v" and "production_key cur = subject_key"
    and "act_on_release sample_release_env (sample_release_call h) (sample_command n) a cur = Inr new"
    and "case a of Record_gate g r refs \<Rightarrow> r = ''owner'' | Evaluate_release \<Rightarrow> True | Sign_release r \<Rightarrow> r = ''owner''"
  shows "stage st0 (Suc n) c (Some new)"
proof -
  let ?q = "Release_request (sample_command n) sample_subject v a"
  from act_on_release_follows[OF assms(6)] have key: "production_key new = subject_key"
    using production_writes.follows_key assms(5) by simp
  have found: "getProductionRelease sample_org sample_project sample_subject st = Some cur" if "stage_store n c (Some cur) st" for st
    using that by (simp add: getProductionRelease_stored stage_store_def)
  have auth: "authorize_request (\<lambda>s. listActive s sample_owners) ?q = Inr ()"
    using assms(7) by (cases a) (simp_all add: sample_authorized)
  show ?thesis
  proof (rule stage_next[OF assms(1), where q = ?q and h = h and p = "Pending_release new v (sample_metadata n h ?q)"])
    show "http_request ?q" using assms(4) uuid_sample by (simp add: sample_command_def)
    show "names_current ?q st" if "stage_store n c (Some cur) st" for st
      using found[OF that] assms(3) by (simp add: sample_command_def)
    show "prepare_release sample_release_env (sample_release_call h) (\<lambda>s. listActive s sample_owners) ?q st =
        Inr (Inr (Pending_release new v (sample_metadata n h ?q)))" if "stage_store n c (Some cur) st" for st
      using found[OF that] assms(6) sample_fresh[OF that, of h ?q] assms(2) auth
      by (simp add: sample_metadata found_or_def required_release_def del: authorize_request.simps)
        (simp add: sample_command_def)
    show "stage_store (Suc n) c (Some new) (snd (perform_release (Pending_release new v (sample_metadata n h ?q)) st))"
      if "stage_store n c (Some cur) st" for st
    proof -
      have "receipts_below (Suc n) ((release_receipts st)(command_key (sample_metadata n h ?q) \<mapsto> x))" for x
        using that by (intro receipts_below_added sample_key_length(2)) (simp add: stage_store_def)
      with that found[OF that] sample_fresh[OF that, of h ?q] assms(3,4) show ?thesis
        by (simp add: commitProductionRelease_def key version_conflict_def getProductionRelease_def stage_store_def
            stored_canary_def stored_release_def remember_command_def update_conv')
    qed
  qed (use assms(2) in simp_all)
qed

section \<open>The Canary\<close>

definition sample_input :: create_canary_input where
  "sample_input = \<lparr>ci_goalId = sample_goal, ci_candidateCommit = replicate 40 CHR ''a'', ci_goalContractVersion = 1,
     ci_allowedAreas = [''docs''], ci_excludedAreas = [''data''], ci_successConditions = [''passed''],
     ci_stopConditions = [''critical''], ci_rollbackRunbook = ''docs/runbooks/r.md'',
     ci_stopRunbook = ''docs/runbooks/s.md''\<rparr>"

definition sample_draft :: canary_aggregate where
  "sample_draft = \<lparr>canary_id = sample_subject, canary_organizationId = sample_org, canary_projectId = sample_project,
     canary_goalId = sample_goal, canary_candidateCommit = replicate 40 CHR ''a'',
     canary_status = Canary_draft, canary_attempt = 1, canary_goalContractVersion = 1,
     canary_allowedAreas = [''docs''], canary_excludedAreas = [''data''],
     canary_successConditions = [''passed''], canary_stopConditions = [''critical''],
     canary_rollbackRunbook = ''docs/runbooks/r.md'', canary_stopRunbook = ''docs/runbooks/s.md'',
     canary_ownerId = None, canary_approvedAt = None, canary_startedAt = None,
     canary_endedAt = None, canary_report = None, canary_windows = [], canary_events = [],
     canary_version = 1, canary_createdBy = ''owner-1'', canary_createdAt = clock_text 0,
     canary_updatedAt = clock_text 0\<rparr>"

definition sample_window :: "nat \<Rightarrow> canary_window" where
  "sample_window i = \<lparr>cw_attempt = 1, cw_sequence = int i + 1, cw_startedAt = clock_text i,
     cw_endedAt = clock_text (Suc i), cw_status = Healthy, cw_p0Count = 0, cw_p1Count = 0,
     cw_evidenceRefs = [''metrics:hour''], cw_recordedBy = ''owner-1''\<rparr>"

definition sample_observing :: "nat \<Rightarrow> canary_aggregate" where
  "sample_observing i = sample_draft\<lparr>canary_status := Canary_observing, canary_ownerId := Some ''owner-1'',
     canary_approvedAt := Some (clock_text 0), canary_startedAt := Some (clock_text 0),
     canary_windows := map sample_window [0..<i], canary_version := int i + 2,
     canary_updatedAt := clock_text i\<rparr>"

lemma created_sample:
  "createCanary sample_subject sample_org sample_project ''owner-1'' sample_input (hour 0) = Inr sample_draft"
proof -
  have "commit_sha (replicate 40 CHR ''a'')" by code_simp
  moreover have "center_strings [''docs''] ''allowedAreas'' = Inr [''docs'']"
    "center_strings [''data''] ''excludedAreas'' = Inr [''data'']"
    "center_strings [''passed''] ''successConditions'' = Inr [''passed'']"
    "center_strings [''critical''] ''stopConditions'' = Inr [''critical'']"
    "center_runbook ''docs/runbooks/r.md'' ''rollbackRunbook'' = Inr ''docs/runbooks/r.md''"
    "center_runbook ''docs/runbooks/s.md'' ''stopRunbook'' = Inr ''docs/runbooks/s.md''"
    by code_simp+
  ultimately show ?thesis
    by (simp add: createCanary_def sample_input_def sample_draft_def Let_def clock_text_def)
qed

lemma approved_sample:
  "act_on_canary sample_release_env (sample_command n) Approve_canary (hour 0) st sample_draft = Inr (sample_observing 0)"
  by (simp add: act_on_canary_def approveCanary_def sample_command_def sample_draft_def sample_observing_def Let_def
      clock_text_def)

definition sample_window_input :: "nat \<Rightarrow> window_input" where
  "sample_window_input i = \<lparr>wi_sequence = int i + 1, wi_startedAt = clock_text i,
     wi_endedAt = clock_text (Suc i), wi_status = ''healthy'', wi_p0Count = 0, wi_p1Count = 0,
     wi_evidenceRefs = [''metrics:hour'']\<rparr>"

lemma current_sample: "current_windows (sample_observing i) = map sample_window [0..<i]"
  "current_events (sample_observing i) = []"
  by (simp_all add: current_windows_def current_events_def sample_observing_def sample_draft_def filter_map comp_def
      sample_window_def)

lemma last_sample: "last_end (map sample_window [0..<i]) = (if i = 0 then None else Some (clock_text i))"
  by (cases i) (simp_all add: last_end_def sample_window_def)

lemma observed_sample:
  assumes "i < 12"
  shows "act_on_canary sample_release_env (sample_command n) (Record_window (sample_window_input i)) (hour (Suc i)) st
    (sample_observing i) = Inr (sample_observing (Suc i))"
proof -
  have fields: "canary_status (sample_observing i) = Canary_observing" "canary_startedAt (sample_observing i) = Some (clock_text 0)"
    "canary_attempt (sample_observing i) = 1" "canary_version (sample_observing i) = int i + 2"
    "canary_windows (sample_observing i) = map sample_window [0..<i]"
    by (simp_all add: sample_observing_def sample_draft_def)
  have expected: "(case last_end (map sample_window [0..<i]) of Some s \<Rightarrow> s
      | None \<Rightarrow> the (canary_startedAt (sample_observing i))) = clock_text i"
    using fields(2) by (auto simp: last_sample)
  have "recordCanaryWindow sample_release_env (sample_observing i) ''owner-1'' (sample_window_input i) (hour (Suc i)) =
    Inr (sample_observing (Suc i))"
    using assms
    by (simp add: recordCanaryWindow_def fields current_sample expected sample_window_input_def parse_window_status_def
        release_count_def number_le_def number_less_def number_minus_def Let_def)
      (simp add: sample_observing_def sample_draft_def sample_window_def clock_text_def)
  then show ?thesis by (simp add: act_on_canary_def sample_command_def)
qed

lemma covered_sample:
  "i \<le> 12 \<Longrightarrow> check_windows sample_release_env i (hour i) (map window_json (map sample_window [i..<12])) = Inr (hour 12)"
proof (induction "12 - i" arbitrary: i)
  case 0
  then show ?case by simp
next
  case (Suc k)
  then have i: "i < 12" by simp
  then have "[i..<12] = i # [Suc i..<12]" by (simp add: upt_conv_Cons)
  moreover have "check_windows sample_release_env (Suc i) (hour (Suc i)) (map window_json (map sample_window [Suc i..<12])) = Inr (hour 12)"
    using Suc.hyps(1)[of "Suc i"] Suc.hyps(2) i by simp
  moreover have "gate_timestamp sample_release_env (JStr (clock_text h)) l = Inr (hour h)" if "h < 14" for h l
    using that by (simp add: gate_timestamp_Inr)
  moreover have "gate_evidenceRefs (texts [''metrics:hour'']) l = Inr [''metrics:hour'']" for l
    by (simp add: gate_evidenceRefs_Inr trim_sample scheme_sample)
  ultimately show ?case using i
    by (simp add: window_json_def gate_object_def gate_integer_def sample_window_def window_status_name_def)
qed

lemma gate_timestamp_sample: "h < 14 \<Longrightarrow> gate_timestamp sample_release_env (JStr (clock_text h)) l = Inr (hour h)"
  by (simp add: gate_timestamp_Inr)

lemma gate_id_sample:
  "gate_id (JStr sample_project) l b = Inr sample_project" "gate_id (JStr sample_subject) l b = Inr sample_subject"
  "gate_id (JStr sample_goal) l b = Inr sample_goal" "gate_id (JStr ''owner-1'') l b = Inr ''owner-1''"
  "gate_id (JStr ''verification-1'') l b = Inr ''verification-1''"
  by (simp_all add: gate_id_Inr trim_sample safe_sample placeholder_sample)

lemma gate_evidence_sample: "gate_evidenceRefs (texts [''metrics:hour'']) l = Inr [''metrics:hour'']"
  by (simp add: gate_evidenceRefs_Inr trim_sample scheme_sample)

definition sample_report :: json where
  "sample_report = canary_report_json (sample_observing 12) (clock_text 12) ''verification-1'' (clock_text 12) [''metrics:hour'']"

lemma sample_project_checked:
  "check_project sample_release_env [(''projectId'', JStr sample_project), (''internal'', JBool True),
     (''risk'', JStr ''low''), (''ownerId'', JStr ''owner-1''), (''approvedAt'', JStr (clock_text 0))] = Inr (hour 0)"
  by (simp add: check_project_def gate_id_sample gate_timestamp_sample)

lemma sample_scope_checked:
  "check_scope [(''goalId'', JStr sample_goal), (''goalContractVersion'', JInt 1),
     (''allowedAreas'', texts [''docs'']), (''excludedAreas'', texts [''data''])] = Inr ()"
proof -
  have "gate_strings (texts [''docs'']) l = Inr [''docs'']" "gate_strings (texts [''data'']) l = Inr [''data'']" for l
  proof -
    have "trim ''docs'' \<noteq> ''''" "trim ''data'' \<noteq> ''''" by code_simp+
    then show "gate_strings (texts [''docs'']) l = Inr [''docs'']" "gate_strings (texts [''data'']) l = Inr [''data'']"
      by (simp_all add: gate_strings_Inr)
  qed
  then show ?thesis by (simp add: check_scope_def gate_id_sample gate_integer_def)
qed

lemma sample_conditions_checked:
  "check_conditions [(''success'', texts [''passed'']), (''stop'', texts [''critical'']),
     (''rollbackRunbook'', JStr ''docs/runbooks/r.md''), (''stopRunbook'', JStr ''docs/runbooks/s.md'')] = Inr ()"
  by code_simp

lemma sample_observation_checked:
  "validateObservation sample_release_env [(''requiredDurationHours'', JInt 12),
     (''startedAt'', JStr (clock_text 0)), (''endedAt'', JStr (clock_text 12)),
     (''windows'', JArr (map window_json (map sample_window [0..<12])))] (hour h) = Inr (hour 12, 12)" if "12 \<le> h"
  using that covered_sample[of 0]
  by (simp add: validateObservation_def gate_integer_def gate_array_def P12_CANARY_MINIMUM_HOURS_def
      gate_timestamp_sample hour_def hour_ms_def)

lemma sample_report_accepted:
  assumes "12 \<le> h"
  shows "\<exists>r. validateP12CanaryReport sample_release_env sample_report (hour h) = Inr r"
proof -
  have fields: "canary_id (sample_observing 12) = sample_subject" "canary_projectId (sample_observing 12) = sample_project"
    "canary_ownerId (sample_observing 12) = Some ''owner-1''" "canary_approvedAt (sample_observing 12) = Some (clock_text 0)"
    "canary_startedAt (sample_observing 12) = Some (clock_text 0)" "canary_goalId (sample_observing 12) = sample_goal"
    "canary_goalContractVersion (sample_observing 12) = 1" "canary_allowedAreas (sample_observing 12) = [''docs'']"
    "canary_excludedAreas (sample_observing 12) = [''data'']" "canary_successConditions (sample_observing 12) = [''passed'']"
    "canary_stopConditions (sample_observing 12) = [''critical'']"
    "canary_rollbackRunbook (sample_observing 12) = ''docs/runbooks/r.md''"
    "canary_stopRunbook (sample_observing 12) = ''docs/runbooks/s.md''"
    by (simp_all add: sample_observing_def sample_draft_def)
  have report: "sample_report = JObj [(''schemaVersion'', JStr ''harness.p12-canary-report.v1''),
        (''canaryId'', JStr sample_subject),
        (''status'', JStr ''passed''),
        (''project'', JObj [(''projectId'', JStr sample_project), (''internal'', JBool True),
           (''risk'', JStr ''low''), (''ownerId'', JStr ''owner-1''), (''approvedAt'', JStr (clock_text 0))]),
        (''scope'', JObj [(''goalId'', JStr sample_goal), (''goalContractVersion'', JInt 1),
           (''allowedAreas'', texts [''docs'']), (''excludedAreas'', texts [''data''])]),
        (''conditions'', JObj [(''success'', texts [''passed'']), (''stop'', texts [''critical'']),
           (''rollbackRunbook'', JStr ''docs/runbooks/r.md''), (''stopRunbook'', JStr ''docs/runbooks/s.md'')]),
        (''observation'', JObj [(''requiredDurationHours'', JInt 12), (''startedAt'', JStr (clock_text 0)),
           (''endedAt'', JStr (clock_text 12)), (''windows'', JArr (map window_json (map sample_window [0..<12])))]),
        (''defects'', JArr []), (''alerts'', JArr []), (''interventions'', JArr []),
        (''goalVerification'', JObj [(''status'', JStr ''passed''), (''verificationId'', JStr ''verification-1''),
           (''completedAt'', JStr (clock_text 12)), (''evidenceRefs'', texts [''metrics:hour''])]),
        (''gaps'', JArr []), (''result'', JStr ''passed'')]"
    unfolding sample_report_def canary_report_json_def Let_def fields current_sample by simp
  have events: "validateDefects (JArr []) = Inr 0" "validateOperationalEvents sample_release_env (JArr []) l = Inr ()" for l
    by (simp_all add: validateDefects_def validateOperationalEvents_def gate_array_def)
  have verification: "check_verification sample_release_env [(''status'', JStr ''passed''),
      (''verificationId'', JStr ''verification-1''), (''completedAt'', JStr (clock_text 12)),
      (''evidenceRefs'', texts [''metrics:hour''])]
    [(''requiredDurationHours'', JInt 12), (''startedAt'', JStr (clock_text 0)),
      (''endedAt'', JStr (clock_text 12)), (''windows'', JArr (map window_json (map sample_window [0..<12])))] = Inr ()"
    by (simp add: check_verification_def gate_id_sample gate_timestamp_sample gate_evidence_sample)
  show ?thesis
    unfolding validateP12CanaryReport_def report
    using sample_project_checked sample_scope_checked sample_conditions_checked sample_observation_checked[OF assms] events verification
    by (simp add: gate_object_def gate_array_def gate_id_sample gate_timestamp_sample)
qed

definition sample_passed :: canary_aggregate where
  "sample_passed = (sample_observing 12)\<lparr>canary_status := Canary_passed, canary_endedAt := Some (clock_text 12),
     canary_report := Some sample_report, canary_version := 15, canary_updatedAt := clock_text 12\<rparr>"

lemma passed_sample:
  assumes "release_verifications st (release_key sample_org sample_project sample_goal) = Some sample_verification"
  shows "act_on_canary sample_release_env (sample_command n) Finalize_canary (hour 12) st (sample_observing 12) = Inr sample_passed"
proof -
  have fields: "canary_status (sample_observing 12) = Canary_observing" "canary_goalId (sample_observing 12) = sample_goal"
    "canary_ownerId (sample_observing 12) = Some ''owner-1''" "canary_approvedAt (sample_observing 12) = Some (clock_text 0)"
    "canary_startedAt (sample_observing 12) = Some (clock_text 0)" "canary_version (sample_observing 12) = 14"
    by (simp_all add: sample_observing_def sample_draft_def)
  have order: "\<not> clock_text 12 < clock_text 0" by code_simp
  obtain r where r: "validateP12CanaryReport sample_release_env sample_report (hour 12) = Inr r"
    using sample_report_accepted[of 12] by auto
  have owner: "truthy_string (Some ''owner-1'')" by (simp add: truthy_string_def)
  have "finalizeCanary sample_release_env (sample_observing 12) sample_verification (hour 12) = Inr sample_passed"
    using r
    by (simp add: finalizeCanary_def fields current_sample last_sample owner sample_verification_def Let_def
        sample_report_def[symmetric] number_less_def number_minus_def)
      (simp add: hour_def hour_ms_def sample_passed_def fields clock_text_def)
  then show ?thesis
    using assms order
    by (simp add: act_on_canary_def finalize_current_def fields current_sample last_sample findPassedGoalVerification_def
        sample_verification_def sample_command_def)
qed

section \<open>The production release\<close>

definition sample_gate :: "string \<Rightarrow> production_gate_check" where
  "sample_gate g = \<lparr>pg_gateId = g, pg_ownerRole = ''owner'', pg_checkedAt = clock_text 13,
     pg_evidenceRefs = [''metrics:hour''], pg_checkedBy = ''owner-1''\<rparr>"

definition sample_release :: "nat \<Rightarrow> production_release" where
  "sample_release n = \<lparr>release_aggregate_id = sample_subject, release_organizationId = sample_org,
     release_projectId = sample_project, release_goalId = sample_goal, release_canaryId = sample_subject,
     release_candidateCommit = replicate 40 CHR ''a'', release_status = Release_draft,
     release_canaryReport = sample_report, release_gates = map sample_gate (take n P12_PRODUCTION_GATE_IDS),
     release_p2 = [], release_evaluatedAt = None, release_attestationDigest = None,
     release_signatures = [], release_report = None, release_version = int n + 1,
     release_createdBy = ''owner-1'', release_createdAt = clock_text 13, release_updatedAt = clock_text 13\<rparr>"

lemma drafted_sample:
  "createProductionRelease sample_subject sample_passed ''owner-1'' (hour 13) = Inr (sample_release 0)"
proof -
  have fields: "canary_status sample_passed = Canary_passed" "canary_report sample_passed = Some sample_report"
    "current_events sample_passed = []" "canary_organizationId sample_passed = sample_org"
    "canary_projectId sample_passed = sample_project" "canary_goalId sample_passed = sample_goal"
    "canary_id sample_passed = sample_subject" "canary_candidateCommit sample_passed = replicate 40 CHR ''a''"
    by (simp_all add: sample_passed_def sample_observing_def sample_draft_def current_events_def)
  show ?thesis by (simp add: createProductionRelease_def fields sample_release_def Let_def clock_text_def)
qed

lemma gated_sample:
  assumes "n < 10"
  shows "act_on_release sample_release_env (sample_release_call 13) (sample_command k)
    (Record_gate (P12_PRODUCTION_GATE_IDS ! n) ''owner'' [''metrics:hour'']) (sample_release n) = Inr (sample_release (Suc n))"
proof -
  let ?g = "P12_PRODUCTION_GATE_IDS ! n"
  have d: "distinct P12_PRODUCTION_GATE_IDS" "length P12_PRODUCTION_GATE_IDS = 10" by code_simp+
  then have g: "?g \<in> set P12_PRODUCTION_GATE_IDS" using assms by simp
  have "?g \<notin> set (take n P12_PRODUCTION_GATE_IDS)"
    using d assms by (auto simp: in_set_conv_nth nth_eq_iff_index_eq)
  then have keep: "filter (\<lambda>x. pg_gateId x \<noteq> ?g) (map sample_gate (take n P12_PRODUCTION_GATE_IDS)) =
    map sample_gate (take n P12_PRODUCTION_GATE_IDS)"
    by (auto simp: filter_id_conv sample_gate_def)
  have "take (Suc n) P12_PRODUCTION_GATE_IDS = take n P12_PRODUCTION_GATE_IDS @ [?g]"
    using d assms by (simp add: take_Suc_conv_app_nth)
  with g keep show ?thesis
    by (simp add: act_on_release_def recordProductionGate_def sample_release_def P12_RELEASE_SIGNATURE_ROLES_def
        sample_command_def sample_release_call_def sample_gate_def clock_text_def)
qed

definition sample_digest :: string where
  "sample_digest = replicate 64 CHR ''0''"

definition sample_evaluated :: production_release where
  "sample_evaluated = (sample_release 10)\<lparr>release_status := Awaiting_signatures,
     release_evaluatedAt := Some (clock_text 13), release_attestationDigest := Some sample_digest,
     release_report := Some (productionReport (sample_release 10) [] (clock_text 13)),
     release_version := 12, release_updatedAt := clock_text 13\<rparr>"

definition sample_signature :: production_signature where
  "sample_signature = \<lparr>ps_role = ''owner'', ps_signerId = ''owner-1'', ps_signedAt = clock_text 13,
     ps_reason = ''Reviewed with the team'', ps_requestId = ''request-1'', ps_auditReceiptId = ''audit-1'',
     ps_attestationDigest = sample_digest\<rparr>"

definition sample_approved :: production_release where
  "sample_approved = sample_evaluated\<lparr>release_status := Release_approved, release_signatures := [sample_signature],
     release_report := Some (productionReport sample_evaluated [sample_signature] (clock_text 13)),
     release_version := 13\<rparr>"

lemma sample_gates: "release_gates (sample_release 10) = map sample_gate P12_PRODUCTION_GATE_IDS"
  by (simp add: sample_release_def P12_PRODUCTION_GATE_IDS_def)

lemma digest_sample: "releaseAttestationDigest sample_release_env (productionReport r ss t) = Inr sample_digest"
  by (simp add: releaseAttestationDigest_def productionReport_def gate_object_def sample_digest_def)

lemma evaluated_sample:
  "act_on_release sample_release_env (sample_release_call 13) (sample_command k) Evaluate_release (sample_release 10) =
    Inr sample_evaluated"
proof -
  have "\<not> list_ex (\<lambda>g. g \<notin> pg_gateId ` set (release_gates (sample_release 10))) P12_PRODUCTION_GATE_IDS"
    "length (release_gates (sample_release 10)) = length P12_PRODUCTION_GATE_IDS"
    by (auto simp: sample_gates list_ex_iff sample_gate_def image_image)
  moreover have "release_status (sample_release 10) = Release_draft" "release_version (sample_release 10) = 11"
    by (simp_all add: sample_release_def)
  ultimately show ?thesis
    by (simp add: act_on_release_def evaluateProductionRelease_def Let_def digest_sample sample_evaluated_def
        sample_command_def sample_release_call_def clock_text_def)
qed

lemma gate_texts: "g \<in> set P12_PRODUCTION_GATE_IDS \<Longrightarrow> trim g \<noteq> ''''"
proof -
  have "list_all (\<lambda>g. trim g \<noteq> '''') P12_PRODUCTION_GATE_IDS" by code_simp
  then show "g \<in> set P12_PRODUCTION_GATE_IDS \<Longrightarrow> trim g \<noteq> ''''" by (simp add: list_all_iff)
qed

lemma release_evidence_sample: "release_evidenceRefs (texts [''metrics:hour'']) l = Inr ()"
  by (simp add: release_evidenceRefs_Inr scheme_sample)

lemma gate_checked:
  assumes "g \<in> set P12_PRODUCTION_GATE_IDS" and "g \<notin> set seen"
  shows "check_gate sample_release_env (hour 12) (hour 13) i seen (gate_json (sample_gate g)) = Inr g"
proof -
  have "trim ''owner'' \<noteq> ''''" by code_simp
  with assms gate_texts[OF assms(1)] show ?thesis
    by (simp add: check_gate_def gate_json_def sample_gate_def gate_object_def gate_string_def Let_def
        P12_RELEASE_SIGNATURE_ROLES_def gate_timestamp_sample release_evidence_sample)
qed

lemma gates_checked:
  "set gs \<subseteq> set P12_PRODUCTION_GATE_IDS \<Longrightarrow> distinct gs \<Longrightarrow> set gs \<inter> set seen = {} \<Longrightarrow>
   check_gates sample_release_env (hour 12) (hour 13) i seen (map gate_json (map sample_gate gs)) = Inr (rev gs @ seen)"
  by (induction gs arbitrary: i seen) (simp_all add: gate_checked)

lemma sample_gates_validated:
  "validateGates sample_release_env (JArr (map gate_json (map sample_gate P12_PRODUCTION_GATE_IDS))) (hour 12) (hour 13) = Inr 10"
proof -
  have "distinct P12_PRODUCTION_GATE_IDS" "length P12_PRODUCTION_GATE_IDS = 10" by code_simp+
  with gates_checked[of P12_PRODUCTION_GATE_IDS "[]" 0] show ?thesis
    by (simp add: validateGates_def gate_array_def list_ex_iff del: map_map)
qed

lemma sample_signature_validated:
  "validateSignatures sample_release_env (JArr [signature_json sample_signature]) sample_digest (hour 13) (hour 13) = Inr 1"
proof -
  have t: "trim ''owner'' \<noteq> ''''" "trim sample_digest \<noteq> ''''" "hex_digest sample_digest" by code_simp+
  have id: "release_id (JStr ''owner-1'') l b = Inr ''owner-1''" "release_id (JStr ''request-1'') l b = Inr ''request-1''"
    "release_id (JStr ''audit-1'') l b = Inr ''audit-1''" for l b
    by (simp_all add: release_id_Inr trim_sample safe_sample placeholder_sample)
  show ?thesis using t
    by (simp add: validateSignatures_def gate_array_def P12_RELEASE_SIGNATURE_ROLES_def check_signature_def
        signature_json_def sample_signature_def gate_object_def gate_string_def Let_def id gate_timestamp_sample trim_sample)
qed

lemma sample_release_validated:
  "\<exists>r. validateP12ProductionReleaseGate sample_release_env
     (productionReport sample_evaluated [sample_signature] (clock_text 13)) (hour 13) = Inr r"
proof -
  obtain cs where cs: "sample_report = JObj cs" unfolding sample_report_def canary_report_json_def Let_def by blast
  from cs have obs: "js_get cs ''observation'' = JObj [(''requiredDurationHours'', JInt 12),
     (''startedAt'', JStr (the (canary_startedAt (sample_observing 12)))), (''endedAt'', JStr (clock_text 12)),
     (''windows'', JArr (map window_json (current_windows (sample_observing 12))))]"
    unfolding sample_report_def by (rule observation_of_report)
  obtain r where r: "validateP12CanaryReport sample_release_env (JObj cs) (hour 13) = Inr r"
    using sample_report_accepted[of 13] cs by auto
  have t: "commit_sha (replicate 40 CHR ''a'')" "trim (replicate 40 CHR ''a'') \<noteq> ''''" by code_simp+
  have id: "release_id (JStr sample_subject) l b = Inr sample_subject" for l b
    by (simp add: release_id_Inr trim_sample safe_sample placeholder_sample)
  have fields: "release_aggregate_id sample_evaluated = sample_subject"
    "release_candidateCommit sample_evaluated = replicate 40 CHR ''a''" "release_canaryReport sample_evaluated = JObj cs"
    "release_gates sample_evaluated = map sample_gate P12_PRODUCTION_GATE_IDS" "release_p2 sample_evaluated = []"
    by (simp_all add: sample_evaluated_def sample_gates) (simp_all add: sample_release_def cs)
  have defects: "validateReleaseDefects (JObj [(''p0Count'', JInt 0), (''p1Count'', JInt 0), (''p2'', JArr [])]) = Inr ()"
    by (simp add: validateReleaseDefects_def gate_object_def release_integer_def gate_array_def)
  have digest: "releaseAttestationDigest sample_release_env (JObj fs) = Inr sample_digest" for fs
    by (simp add: releaseAttestationDigest_def gate_object_def sample_digest_def)
  show ?thesis
    unfolding validateP12ProductionReleaseGate_def productionReport_def fields
    using r t obs sample_gates_validated sample_signature_validated defects
    by (simp add: gate_object_def gate_string_def gate_array_def id gate_timestamp_sample digest)
qed

lemma approved_sample_release:
  "act_on_release sample_release_env (sample_release_call 13) (sample_command k) (Sign_release ''owner'') sample_evaluated =
    Inr sample_approved"
proof -
  obtain r where r: "validateP12ProductionReleaseGate sample_release_env
     (productionReport sample_evaluated [sample_signature] (clock_text 13)) (hour 13) = Inr r"
    using sample_release_validated by blast
  have fields: "release_status sample_evaluated = Awaiting_signatures" "release_evaluatedAt sample_evaluated = Some (clock_text 13)"
    "release_attestationDigest sample_evaluated = Some sample_digest" "release_signatures sample_evaluated = []"
    "release_version sample_evaluated = 12" "release_updatedAt sample_evaluated = clock_text 13"
    by (simp_all add: sample_evaluated_def sample_release_def)
  have digest: "truthy_string (Some sample_digest)" by (simp add: truthy_string_def sample_digest_def)
  from r show ?thesis
    by (simp add: act_on_release_def signProductionRelease_def fields digest P12_RELEASE_SIGNATURE_ROLES_def
        sample_command_def sample_release_call_def Let_def sample_signature_def[symmetric] clock_text_def[symmetric])
      (simp add: sample_approved_def fields)
qed

section \<open>The whole run\<close>

lemma stage_start: "stage new_release_store 0 None None"
proof -
  let ?st = "seedVerification sample_org sample_project sample_goal sample_verification new_release_store"
  have "center_run sample_release_env True (sample_owners, new_release_store, []) (sample_owners, ?st, [])"
    by (intro r_into_rtranclp center_step.verified)
  moreover have "stage_store 0 None None ?st"
    by (simp add: stage_store_def receipts_below_def) (simp add: seedVerification_def new_release_store_def)
  ultimately show ?thesis unfolding stage_def by blast
qed

lemma stage_created: "stage new_release_store 1 (Some sample_draft) None"
proof -
  let ?q = "Create_canary (sample_command 0) sample_input"
  let ?p = "Pending_canary sample_draft 0 (sample_metadata 0 0 ?q)"
  have key: "canary_key sample_draft = subject_key" by (simp add: canary_key_def sample_draft_def)
  have "stage new_release_store (Suc 0) (Some sample_draft) None"
  proof (rule stage_next[OF stage_start, where q = ?q and h = 0 and p = ?p])
    show "http_request ?q" using uuid_sample by (simp add: sample_command_def sample_input_def)
    show "names_current ?q st" for st by simp
    show "prepare_release sample_release_env (sample_release_call 0) (\<lambda>s. listActive s sample_owners) ?q st = Inr (Inr ?p)"
      if "stage_store 0 None None st" for st
      using sample_fresh[OF that, of 0 ?q] created_sample
      by (simp add: sample_authorized sample_metadata[of 0] found_or_def)
        (simp add: sample_command_def sample_release_call_def)
    show "stage_store (Suc 0) (Some sample_draft) None (snd (perform_release ?p st))" if "stage_store 0 None None st" for st
    proof -
      have "receipts_below (Suc 0) ((release_receipts st)(command_key (sample_metadata 0 0 ?q) \<mapsto> x))" for x
        using that by (intro receipts_below_added sample_key_length(2)) (simp add: stage_store_def)
      with that sample_fresh[OF that, of 0 ?q] show ?thesis
        by (simp add: commitCanary_def key version_conflict_def stage_store_def stored_canary_def
            stored_release_def remember_command_def update_conv')
    qed
  qed simp_all
  then show ?thesis by simp
qed

lemma sample_canary_keys: "canary_key sample_draft = subject_key" "canary_key (sample_observing i) = subject_key"
  "canary_version sample_draft = 1" "canary_version (sample_observing i) = int i + 2"
  by (simp_all add: canary_key_def sample_observing_def sample_draft_def)

lemma stage_approved: "stage new_release_store 2 (Some (sample_observing 0)) None"
  using stage_canary[OF stage_created, of 1 Approve_canary 0 "sample_observing 0"] approved_sample
  by (simp add: sample_canary_keys numeral_2_eq_2)

lemma stage_observed: "i \<le> 12 \<Longrightarrow> stage new_release_store (2 + i) (Some (sample_observing i)) None"
proof (induction i)
  case 0
  then show ?case using stage_approved by simp
next
  case (Suc i)
  then have "stage new_release_store (2 + i) (Some (sample_observing i)) None" by simp
  from stage_canary[OF this _ _ _ _ observed_sample] Suc.prems show ?case
    by (simp add: sample_canary_keys)
qed

lemma stage_passed: "stage new_release_store 15 (Some sample_passed) None"
proof -
  have "stage new_release_store 14 (Some (sample_observing 12)) None" using stage_observed[of 12] by simp
  from stage_canary[OF this, of 14 Finalize_canary 12 sample_passed] passed_sample show ?thesis
    by (simp add: sample_canary_keys stage_store_def eval_nat_numeral)
qed

lemma stage_drafted: "stage new_release_store 16 (Some sample_passed) (Some (sample_release 0))"
proof -
  let ?q = "Create_release (sample_command 15) sample_subject"
  let ?p = "Pending_release (sample_release 0) 0 (sample_metadata 15 13 ?q)"
  have key: "production_key (sample_release 0) = subject_key" by (simp add: production_key_def sample_release_def)
  have "stage new_release_store (Suc 15) (Some sample_passed) (Some (sample_release 0))"
  proof (rule stage_next[OF stage_passed, where q = ?q and h = 13 and p = ?p])
    show "http_request ?q" using uuid_sample by (simp add: sample_command_def)
    show "names_current ?q st" for st by simp
    show "prepare_release sample_release_env (sample_release_call 13) (\<lambda>s. listActive s sample_owners) ?q st = Inr (Inr ?p)"
      if "stage_store 15 (Some sample_passed) None st" for st
      using sample_fresh[OF that, of 13 ?q] drafted_sample that
      by (simp add: sample_authorized sample_metadata[of 15] found_or_def required_canary_def getCanary_stored)
        (simp add: sample_command_def sample_release_call_def stage_store_def)
    show "stage_store (Suc 15) (Some sample_passed) (Some (sample_release 0)) (snd (perform_release ?p st))"
      if "stage_store 15 (Some sample_passed) None st" for st
    proof -
      have "receipts_below (Suc 15) ((release_receipts st)(command_key (sample_metadata 15 13 ?q) \<mapsto> x))" for x
        using that by (intro receipts_below_added sample_key_length(2)) (simp add: stage_store_def)
      with that sample_fresh[OF that, of 13 ?q] show ?thesis
        by (simp add: commitProductionRelease_def key version_conflict_def stage_store_def stored_canary_def
            stored_release_def remember_command_def update_conv')
    qed
  qed simp_all
  then show ?thesis by simp
qed

lemma sample_release_keys: "production_key (sample_release n) = subject_key" "release_version (sample_release n) = int n + 1"
  "production_key sample_evaluated = subject_key" "release_version sample_evaluated = 12"
  by (simp_all add: production_key_def sample_evaluated_def sample_release_def)

lemma stage_gated: "n \<le> 10 \<Longrightarrow> stage new_release_store (16 + n) (Some sample_passed) (Some (sample_release n))"
proof (induction n)
  case 0
  then show ?case using stage_drafted by simp
next
  case (Suc n)
  then have "stage new_release_store (16 + n) (Some sample_passed) (Some (sample_release n))" by simp
  from stage_release[OF this _ _ _ _ gated_sample] Suc.prems show ?case
    by (simp add: sample_release_keys)
qed

lemma stage_evaluated: "stage new_release_store 27 (Some sample_passed) (Some sample_evaluated)"
proof -
  have "stage new_release_store 26 (Some sample_passed) (Some (sample_release 10))" using stage_gated[of 10] by simp
  from stage_release[OF this _ _ _ _ evaluated_sample, of 11] show ?thesis
    by (simp add: sample_release_keys)
qed

lemma stage_signed: "stage st0 27 (Some sample_passed) (Some sample_evaluated) \<Longrightarrow>
    stage st0 28 (Some sample_passed) (Some sample_approved)"
  using stage_release[OF _ _ _ _ _ approved_sample_release, of st0 27 "Some sample_passed" 12]
  by (simp add: sample_release_keys)

theorem approved_releases_have_valid_evidence_witness:
  "\<exists>st c vid endedAt completedAt refs t1 s.
     center_run sample_release_env True (sample_owners, new_release_store, []) (sample_owners, st, []) \<and>
     stored_release st subject_key = Some sample_approved \<and>
     sample_report = canary_report_json c endedAt vid completedAt refs \<and>
     canary_evidence sample_release_env c endedAt completedAt refs t1 \<and>
     release_signatures sample_approved = [s] \<and> owner_of sample_owners sample_org (ps_signerId s)"
proof -
  obtain st where st: "center_run sample_release_env True (sample_owners, new_release_store, []) (sample_owners, st, [])"
    "stored_release st subject_key = Some sample_approved"
    using stage_signed[OF stage_evaluated] unfolding stage_def stage_store_def by blast
  have f: "release_status sample_approved = Release_approved" "release_canaryReport sample_approved = sample_report"
    "release_organizationId sample_approved = sample_org"
    by (simp_all add: sample_approved_def sample_evaluated_def sample_release_def)
  from approved_releases_have_valid_evidence[OF st f(1)] st show ?thesis unfolding f by blast
qed

theorem evidence_is_locked_witness:
  "\<exists>st st' s. center_run sample_release_env True (sample_owners, st, []) (sample_owners, st', []) \<and>
     stored_release st subject_key = Some sample_evaluated \<and> stored_release st' subject_key = Some sample_approved \<and>
     evidence_kept sample_evaluated sample_approved \<and> stored_canary st' subject_key = Some sample_passed"
proof -
  obtain st where st: "center_run sample_release_env True (sample_owners, new_release_store, []) (sample_owners, st, [])"
    "stage_store 27 (Some sample_passed) (Some sample_evaluated) st"
    using stage_evaluated unfolding stage_def by blast
  then have "stage st 27 (Some sample_passed) (Some sample_evaluated)" unfolding stage_def by blast
  from stage_signed[OF this] obtain st' where run: "center_run sample_release_env True (sample_owners, st, []) (sample_owners, st', [])"
    "stage_store 28 (Some sample_passed) (Some sample_approved) st'" unfolding stage_def by blast
  have status: "release_status sample_evaluated \<noteq> Release_draft" "canary_status sample_passed = Canary_passed"
    by (simp_all add: sample_evaluated_def sample_passed_def)
  from evidence_is_locked[OF st(1) run(1), of subject_key sample_evaluated sample_passed] st(2) run status
  show ?thesis unfolding stage_store_def by auto
qed

text \<open>
  A second check of the first gate that was read before the evaluation, and names the version of
  the approved release.
\<close>

theorem late_gate_check_reopens_an_approved_release_witness:
  "\<exists>st p s. stored_release st subject_key = Some sample_approved \<and>
     stored_release (snd (perform_release p st)) subject_key = Some s \<and>
     release_status s = Release_draft \<and> release_version s = 12 \<and> release_signatures s = []"
proof -
  let ?refs = "[''metrics:hour'']" and ?g = "P12_PRODUCTION_GATE_IDS ! 0"
  let ?q = "Release_request (sample_command 29) sample_subject 13 (Record_gate ?g ''owner'' ?refs)"
  let ?reader = "\<lambda>s. listActive s sample_owners"
  obtain st where st: "center_run sample_release_env True (sample_owners, new_release_store, []) (sample_owners, st, [])"
    "stage_store 26 (Some sample_passed) (Some (sample_release 10)) st"
    using stage_gated[of 10] unfolding stage_def by auto
  obtain st' where st': "stage_store 28 (Some sample_passed) (Some sample_approved) st'"
    using stage_signed[OF stage_evaluated] unfolding stage_def by blast
  have "?g \<in> set P12_PRODUCTION_GATE_IDS" by (simp add: P12_PRODUCTION_GATE_IDS_def)
  then have "\<exists>s. recordProductionGate (sample_release 10) ''owner-1'' ?g ''owner'' ?refs (hour 13) = Inr s"
    by (simp add: recordProductionGate_def sample_release_def P12_RELEASE_SIGNATURE_ROLES_def)
  then obtain s where s: "recordProductionGate (sample_release 10) ''owner-1'' ?g ''owner'' ?refs (hour 13) = Inr s" by blast
  have rec: "receipts_below 29 (release_receipts st)" "receipts_below 29 (release_receipts st')"
    using st(2) st' receipts_below_mono[of 26 _ 29] receipts_below_mono[of 28 _ 29] by (auto simp: stage_store_def)
  have none: "replay_command (sample_metadata 29 13 ?q) t = Inr None" if "receipts_below 29 (release_receipts t)" for t
    using receipts_below_none[OF that, of "command_key (sample_metadata 29 13 ?q)"] sample_key_length(1)[of 29 13 ?q]
    by (simp add: replay_command_def)
  have meta: "release_metadata sample_release_env (sample_release_call 13) ?q = Inr (sample_metadata 29 13 ?q)"
    by (simp add: sample_metadata[of 29])
  have found: "getProductionRelease sample_org sample_project sample_subject st = Some (sample_release 10)"
    using st(2) by (simp add: getProductionRelease_stored stage_store_def)
  have prepared: "prepare_release sample_release_env (sample_release_call 13) ?reader ?q st =
      Inr (Inr (Pending_release s 13 (sample_metadata 29 13 ?q)))"
    using s none[OF rec(1)] found meta
    by (simp add: sample_authorized found_or_def required_release_def act_on_release_def)
      (simp add: sample_command_def sample_release_call_def)
  have under: "stored_under production_key (stored_release st)"
    using exact_run[OF st(1) new_center_exact] by (simp add: exact_state_def)
  have scope: "rel_organizationId (sample_command 29) = sample_org" "rel_projectId (sample_command 29) = sample_project"
    by (simp_all add: sample_command_def)
  have stored: "stored_release st (release_key (rel_organizationId (sample_command 29)) (rel_projectId (sample_command 29)) sample_subject) =
      Some (sample_release 10)"
    "stored_release st' (release_key (rel_organizationId (sample_command 29)) (rel_projectId (sample_command 29)) sample_subject) =
      Some sample_approved"
    using st(2) st' by (simp_all add: scope stage_store_def)
  have fields: "release_version sample_approved = 13" "release_version (sample_release 10) = 11"
    "release_signatures (sample_release 10) = []"
    by (simp_all add: sample_approved_def sample_release_def)
  have unseen: "replay_command m st' = Inr None"
    if "release_metadata sample_release_env (sample_release_call 13) ?q = Inr m" for m
    using that meta none[OF rec(2)] by simp
  from late_gate_check_reopens_an_approved_release[OF prepared stored(1) under stored(2) fields(1) _ unseen]
  obtain t where "stored_release (snd (perform_release (Pending_release s 13 (sample_metadata 29 13 ?q)) st')) subject_key = Some t"
    "release_status t = Release_draft" "release_version t = 12" "release_signatures t = []"
    unfolding scope fields(2,3) by auto
  with stored(2) show ?thesis unfolding scope by blast
qed


end
