(* ===== verification/Spec_Revisions.thy ===== *)
theory Spec_Revisions
  imports Issue_Plan_Safety Goal_Workspace_Safety Spec_Diff Overdesign
begin

text \<open>
  \<^verbatim>\<open>application/spec-generation-service.ts\<close>, \<^verbatim>\<open>adapters/memory-artifact-arts.ts\<close>, the revisions of
  \<^verbatim>\<open>adapters/memory-spec-revision-repository.ts\<close> and \<^verbatim>\<open>domain/spec-compilation-gate.ts\<close>: a planner's
  output becomes a validated bundle in the artifact store and a draft revision of the Goal's
  specification.

  The planner, the authorizer, the clock and the generated ids are the surroundings of a call.
  SHA-256 and \<open>localeCompare\<close> are parameters as in the issue plan service.
\<close>

section \<open>Data\<close>

record spec_revision =
  sr_id :: string
  sr_scope :: goal_scope
  sr_revision :: nat
  sr_previousRevisionId :: "string option"
  sr_status :: spec_revision_status
  sr_sourceGoalVersion :: nat
  sr_artifactRef :: string
  sr_artifactDigest :: string
  sr_artifactMediaType :: string
  sr_artifactSizeBytes :: nat
  sr_plannerRunId :: string
  sr_plannerConfiguration :: issue_planner_configuration
  sr_overdesignPolicyRevision :: string
  sr_overdesignReview :: overdesign_review
  sr_generatedAt :: string
  sr_version :: nat
  sr_createdAt :: string
  sr_updatedAt :: string

datatype spec_approval_decision = Submit_for_review | Approve_spec | Reject_spec | Request_spec_changes

datatype scope_change_operation = Add_scope | Remove_scope

datatype scope_change_kind = Requirement_scope | Non_goal_scope | Constraint_scope

record scope_change =
  sch_operation :: scope_change_operation
  sch_kind :: scope_change_kind
  sch_value :: string

record spec_decision_record =
  sd_id :: string
  sd_scope :: goal_scope
  sd_specRevisionId :: string
  sd_subjectVersion :: nat
  sd_decision :: spec_approval_decision
  sd_actorId :: string
  sd_reason :: string
  sd_requestId :: string
  sd_policyRevision :: string
  sd_affectedElementIds :: "string list"
  sd_helpfulExceptionElementIds :: "string list"
  sd_scopeChanges :: "scope_change list"
  sd_retainedElementIds :: "string list"
  sd_removedElementIds :: "string list"
  sd_createdAt :: string

record spec_approval_receipt =
  rc_receiptId :: string
  rc_targetId :: string
  rc_previousVersion :: nat
  rc_currentVersion :: nat
  rc_decision :: spec_approval_decision
  rc_actorId :: string
  rc_reason :: string
  rc_requestId :: string
  rc_policyRevision :: string
  rc_recordedAt :: string
  rc_specRevision :: spec_revision
  rc_decisionRecord :: spec_decision_record
  rc_retainedElementIds :: "string list"
  rc_removedElementIds :: "string list"

record spec_approval_audit =
  sa_id :: string
  sa_scope :: goal_scope
  sa_actorId :: string
  sa_action :: string
  sa_entityId :: string
  sa_entityVersion :: nat
  sa_reason :: string
  sa_requestId :: string
  sa_policyRevision :: string
  sa_createdAt :: string

record spec_approval_event =
  se_id :: string
  se_organizationId :: string
  se_aggregateId :: string
  se_aggregateVersion :: nat
  se_type :: string
  se_occurredAt :: string
  se_decision :: spec_approval_decision
  se_policyRevision :: string
  se_requestId :: string

section \<open>The repository in memory\<close>

record spec_repository =
  sp_revisions :: "string \<rightharpoonup> spec_revision list"
  sp_decisions :: "spec_decision_record list"
  sp_audits :: "spec_approval_audit list"
  sp_events :: "spec_approval_event list"
  sp_idempotency :: "string \<rightharpoonup> spec_approval_receipt idempotency_record"

definition revisions_at :: "spec_repository \<Rightarrow> goal_scope \<Rightarrow> spec_revision list" where
  "revisions_at repo scope = (case sp_revisions repo (scope_key scope) of None \<Rightarrow> [] | Some rs \<Rightarrow> rs)"

text \<open>The constructor files the given revisions by scope, in the order of their numbers.\<close>

fun file_revisions ::
  "spec_revision list \<Rightarrow> (string \<rightharpoonup> spec_revision list) \<Rightarrow> (string \<rightharpoonup> spec_revision list)" where
  "file_revisions [] m = m"
| "file_revisions (r # rs) m =
     (let k = scope_key (sr_scope r); existing = (case m k of None \<Rightarrow> [] | Some es \<Rightarrow> es) in
      file_revisions rs (m(k \<mapsto> sort_key sr_revision (existing @ [r]))))"

definition new_spec_repository :: "spec_revision list \<Rightarrow> spec_repository" where
  "new_spec_repository rs = \<lparr>sp_revisions = file_revisions rs Map.empty, sp_decisions = [],
     sp_audits = [], sp_events = [], sp_idempotency = Map.empty\<rparr>"

text \<open>\<open>list\<close>.\<close>

definition list_revisions :: "goal_scope \<Rightarrow> spec_repository \<Rightarrow> spec_revision list" where
  "list_revisions scope repo = revisions_at repo scope"

definition get_revision :: "goal_scope \<Rightarrow> string \<Rightarrow> spec_repository \<Rightarrow> spec_revision option" where
  "get_revision scope i repo = find (\<lambda>r. sr_id r = i) (revisions_at repo scope)"

definition latest_revision :: "goal_scope \<Rightarrow> spec_repository \<Rightarrow> spec_revision option" where
  "latest_revision scope repo = at_last (revisions_at repo scope)"

definition append_revision ::
  "spec_revision \<Rightarrow> nat \<Rightarrow> string option \<Rightarrow> spec_repository \<Rightarrow>
   (js_error + spec_revision) \<times> spec_repository" where
  "append_revision r expectedGoalVersion expectedPrevious repo =
     (let rs = revisions_at repo (sr_scope r) in
      if map_option sr_id (at_last rs) \<noteq> expectedPrevious \<or> sr_revision r \<noteq> length rs + 1 \<or>
         sr_sourceGoalVersion r \<noteq> expectedGoalVersion
      then (Inl VersionConflictError, repo)
      else (Inr r, repo\<lparr>sp_revisions := (sp_revisions repo)(scope_key (sr_scope r) \<mapsto> rs @ [r])\<rparr>))"

definition decision_timeline :: "goal_scope \<Rightarrow> string \<Rightarrow> spec_repository \<Rightarrow> spec_decision_record list" where
  "decision_timeline scope i repo =
     filter (\<lambda>d. organizationId (sd_scope d) = organizationId scope \<and>
        projectId (sd_scope d) = projectId scope \<and> goalId (sd_scope d) = goalId scope \<and>
        sd_specRevisionId d = i) (sp_decisions repo)"

section \<open>Immutable artifacts\<close>

record 'c immutable_artifact =
  art_ref :: string
  art_digest :: string
  art_mediaType :: string
  art_sizeBytes :: nat
  art_content :: 'c
  art_createdAt :: string
  art_createdBy :: string

type_synonym artifact_store = "string \<rightharpoonup> json immutable_artifact"

text \<open>The number of bytes of a text in UTF-8: two for a character beyond ASCII.\<close>

definition utf8_length :: "string \<Rightarrow> nat" where
  "utf8_length s = sum_list (map (\<lambda>c. if (of_char c :: nat) < 128 then 1 else 2) s)"

definition put_artifact ::
  "plan_environment \<Rightarrow> json \<Rightarrow> string \<Rightarrow> string \<Rightarrow> artifact_store \<Rightarrow>
   json immutable_artifact \<times> artifact_store" where
  "put_artifact env content at by arts =
     (let serialized = canonicalJson (localeCompare env) content;
          digest = sha256Hex env serialized;
          ref = ''memory://artifacts/sha256/'' @ digest in
      case arts ref of
        Some existing \<Rightarrow> (existing, arts)
      | None \<Rightarrow>
          (let artifact = \<lparr>art_ref = ref, art_digest = digest, art_mediaType = ''application/json'',
             art_sizeBytes = utf8_length serialized, art_content = content,
             art_createdAt = at, art_createdBy = by\<rparr>
           in (artifact, arts(ref \<mapsto> artifact))))"

definition get_artifact :: "string \<Rightarrow> artifact_store \<Rightarrow> json immutable_artifact option" where
  "get_artifact ref arts = arts ref"

section \<open>The compilation gate\<close>

definition requireCompilableSpecRevision ::
  "spec_revision \<Rightarrow> spec_revision \<Rightarrow> int \<Rightarrow> js_error + spec_revision" where
  "requireCompilableSpecRevision candidate latest expected =
     (if sr_id candidate \<noteq> sr_id latest \<or> sr_version candidate \<noteq> sr_version latest \<or>
         int (sr_version candidate) \<noteq> expected
      then Inl VersionConflictError
      else if sr_status candidate \<noteq> Spec_approved \<or> sr_status latest \<noteq> Spec_approved
      then Inl SpecCompilationGateError
      else Inr latest)"

section \<open>Generation\<close>

record planner_draft =
  pd_plannerRunId :: string
  pd_goalId :: string
  pd_sourceGoalVersion :: nat
  pd_output :: json

text \<open>The surroundings of a call; the planner may fail.\<close>

record spec_call =
  spec_authorize :: "string \<Rightarrow> string \<Rightarrow> string \<Rightarrow> string \<Rightarrow> js_error + unit"
  spec_clock :: "nat \<Rightarrow> int"
  spec_generated :: "nat \<Rightarrow> string"
  plan_specification :: "string goal_contract \<Rightarrow> js_error + planner_draft"
  spec_configuration :: issue_planner_configuration

record generation_command =
  gc_scope :: goal_scope
  gc_actorId :: string
  gc_expectedGoalVersion :: int
  gc_reason :: string

definition generation_nonBlank :: "string \<Rightarrow> string \<Rightarrow> nat \<Rightarrow> js_error + string" where
  "generation_nonBlank v name maximum =
     (if trim v = [] \<or> length (trim v) > maximum
      then Inl (SpecGenerationValidationError (name @ '' must be non-blank and bounded''))
      else Inr (trim v))"

record spec_stores =
  spec_repo :: spec_repository
  spec_artifacts :: artifact_store

text \<open>Everything up to the first write: the Goal, the previous revision, the planner's run and its bundle.\<close>

definition prepare_generation ::
  "spec_call \<Rightarrow> generation_command \<Rightarrow> workspace_repository \<Rightarrow> spec_repository \<Rightarrow>
   js_error + (string goal_contract \<times> spec_revision option \<times> string \<times> spec_bundle)" where
  "prepare_generation x c ws repo =
     and_then (spec_authorize x (gc_actorId c) (organizationId (gc_scope c)) (projectId (gc_scope c)) ''spec.generate'') (\<lambda>_.
       if gc_expectedGoalVersion c < 1
       then Inl (SpecGenerationValidationError ''expectedGoalVersion must be positive'')
       else
     and_then (generation_nonBlank (gc_reason c) ''reason'' 4000) (\<lambda>_.
       case workspace_get (gc_scope c) ws of
         None \<Rightarrow> Inl (SpecGenerationValidationError ''Goal was not found'')
       | Some gl \<Rightarrow>
           if int (goal_version gl) \<noteq> gc_expectedGoalVersion c then Inl ClarificationExpiredError
           else if goal_state gl \<noteq> Planning
           then Inl (SpecGenerationValidationError ''Goal must be in planning before spec generation'')
           else
             and_then (plan_specification x gl) (\<lambda>planned.
               if pd_goalId planned \<noteq> goal_id gl \<or> pd_sourceGoalVersion planned \<noteq> goal_version gl
               then Inl ClarificationExpiredError
               else
                 and_then (validateSpecBundle (pd_output planned)) (\<lambda>content.
                   Inr (gl, at_last (list_revisions (gc_scope c) repo), pd_plannerRunId planned, content)))))"

definition goal_facts :: "string goal_contract \<Rightarrow> overdesign_goal_facts" where
  "goal_facts g = \<lparr>acceptanceCriterionIds = map criterion_id (acceptanceCriteria g),
     goal_constraints = constraints g\<rparr>"

definition generated_revision ::
  "spec_call \<Rightarrow> generation_command \<Rightarrow> string \<Rightarrow> string goal_contract \<Rightarrow> spec_revision option \<Rightarrow>
   string \<Rightarrow> spec_bundle \<Rightarrow> json immutable_artifact \<Rightarrow> spec_revision" where
  "generated_revision x c at gl previous run content artifact = \<lparr>
     sr_id = spec_generated x 0, sr_scope = gc_scope c,
     sr_revision = (case previous of None \<Rightarrow> 0 | Some p \<Rightarrow> sr_revision p) + 1,
     sr_previousRevisionId = map_option sr_id previous, sr_status = Spec_draft,
     sr_sourceGoalVersion = goal_version gl, sr_artifactRef = art_ref artifact,
     sr_artifactDigest = art_digest artifact, sr_artifactMediaType = art_mediaType artifact,
     sr_artifactSizeBytes = art_sizeBytes artifact, sr_plannerRunId = run,
     sr_plannerConfiguration = spec_configuration x,
     sr_overdesignPolicyRevision = overdesignPolicyRevision,
     sr_overdesignReview = classifySolutionElements (goal_facts gl) (solutionElements content),
     sr_generatedAt = at, sr_version = 1, sr_createdAt = at, sr_updatedAt = at\<rparr>"

text \<open>The second part: the bundle is stored, and the revision is made.\<close>

definition store_bundle ::
  "plan_environment \<Rightarrow> spec_call \<Rightarrow> generation_command \<Rightarrow>
   string goal_contract \<times> spec_revision option \<times> string \<times> spec_bundle \<Rightarrow> artifact_store \<Rightarrow>
   (spec_revision \<times> json immutable_artifact) \<times> artifact_store" where
  "store_bundle env x c p arts =
     (case p of (gl, previous, run, content) \<Rightarrow>
        let at = toISOString (spec_clock x 0) in
        case put_artifact env (bundle_json content) at (gc_actorId c) arts of
          (artifact, arts') \<Rightarrow>
            ((generated_revision x c at gl previous run content artifact, artifact), arts'))"

definition generate ::
  "plan_environment \<Rightarrow> spec_call \<Rightarrow> generation_command \<Rightarrow> workspace_repository \<Rightarrow> spec_stores \<Rightarrow>
   (js_error + spec_revision \<times> json immutable_artifact) \<times> spec_stores" where
  "generate env x c ws s =
     (case prepare_generation x c ws (spec_repo s) of
        Inl e \<Rightarrow> (Inl e, s)
      | Inr p \<Rightarrow>
          (case store_bundle env x c p (spec_artifacts s) of ((r, artifact), arts) \<Rightarrow>
             (case append_revision r (nat (gc_expectedGoalVersion c)) (sr_previousRevisionId r) (spec_repo s) of
                (Inl e, repo) \<Rightarrow> (Inl e, \<lparr>spec_repo = repo, spec_artifacts = arts\<rparr>)
              | (Inr r', repo) \<Rightarrow> (Inr (r', artifact), \<lparr>spec_repo = repo, spec_artifacts = arts\<rparr>))))"

section \<open>The timeline with its bundles\<close>

definition load_revision ::
  "artifact_store \<Rightarrow> spec_revision \<Rightarrow> js_error + spec_revision \<times> spec_bundle immutable_artifact" where
  "load_revision arts r =
     (let missing = Inl (SpecGenerationValidationError ''Spec artifact is missing or does not match its digest'') in
      case get_artifact (sr_artifactRef r) arts of
        None \<Rightarrow> missing
      | Some a \<Rightarrow>
          if art_digest a \<noteq> sr_artifactDigest r then missing
          else and_then (validateSpecBundle (art_content a)) (\<lambda>b.
            Inr (r, \<lparr>art_ref = art_ref a, art_digest = art_digest a, art_mediaType = art_mediaType a,
              art_sizeBytes = art_sizeBytes a, art_content = b, art_createdAt = art_createdAt a,
              art_createdBy = art_createdBy a\<rparr>)))"

record spec_revision_view =
  view_specRevision :: spec_revision
  view_artifact :: "spec_bundle immutable_artifact"
  changesFromPrevious :: "spec_revision_diff option"

fun revision_views ::
  "spec_bundle option \<Rightarrow> (spec_revision \<times> spec_bundle immutable_artifact) list \<Rightarrow> spec_revision_view list" where
  "revision_views previous [] = []"
| "revision_views previous ((r, a) # rest) =
     \<lparr>view_specRevision = r, view_artifact = a,
      changesFromPrevious = map_option (\<lambda>b. diffSpecBundles b (art_content a)) previous\<rparr> #
     revision_views (Some (art_content a)) rest"

definition generation_timeline ::
  "spec_call \<Rightarrow> goal_scope \<Rightarrow> string \<Rightarrow> spec_stores \<Rightarrow> js_error + spec_revision_view list" where
  "generation_timeline x scope actor s =
     and_then (spec_authorize x actor (organizationId scope) (projectId scope) ''spec.read'') (\<lambda>_.
     and_then (map_try (\<lambda>_. load_revision (spec_artifacts s)) 0 (list_revisions scope (spec_repo s))) (\<lambda>loaded.
       Inr (revision_views None loaded)))"

end
