(* ===== verification/Spec_Approval.thy ===== *)
theory Spec_Approval
  imports Spec_Revisions
begin

text \<open>
  \<^verbatim>\<open>application/spec-approval-service.ts\<close>, \<^verbatim>\<open>domain/spec-approval.ts\<close> and the approvals of
  \<^verbatim>\<open>adapters/memory-spec-revision-repository.ts\<close>: the latest revision of a specification is
  submitted for review, approved, rejected or sent back, under the policy its overdesign review
  was made with. A command carries the values of the request body as they come.
\<close>

section \<open>Commands\<close>

fun spec_decision_name :: "spec_approval_decision \<Rightarrow> string" where
  "spec_decision_name Submit_for_review = ''submit_for_review''"
| "spec_decision_name Approve_spec = ''approve''"
| "spec_decision_name Reject_spec = ''reject''"
| "spec_decision_name Request_spec_changes = ''request_changes''"

definition specApprovalDecisions :: "spec_approval_decision list" where
  "specApprovalDecisions = [Submit_for_review, Approve_spec, Reject_spec, Request_spec_changes]"

definition parse_spec_decision :: "string \<Rightarrow> spec_approval_decision option" where
  "parse_spec_decision s = find (\<lambda>d. spec_decision_name d = s) specApprovalDecisions"

fun scope_operation_name :: "scope_change_operation \<Rightarrow> string" where
  "scope_operation_name Add_scope = ''add''"
| "scope_operation_name Remove_scope = ''remove''"

fun scope_kind_name :: "scope_change_kind \<Rightarrow> string" where
  "scope_kind_name Requirement_scope = ''requirement''"
| "scope_kind_name Non_goal_scope = ''non_goal''"
| "scope_kind_name Constraint_scope = ''constraint''"

definition parse_scope_operation :: "json \<Rightarrow> scope_change_operation option" where
  "parse_scope_operation v = find (\<lambda>a. v = JStr (scope_operation_name a)) [Add_scope, Remove_scope]"

definition parse_scope_kind :: "json \<Rightarrow> scope_change_kind option" where
  "parse_scope_kind v =
     find (\<lambda>k. v = JStr (scope_kind_name k)) [Requirement_scope, Non_goal_scope, Constraint_scope]"

record spec_approval_command =
  sc_scope :: goal_scope
  sc_targetType :: string
  sc_targetId :: string
  sc_expectedVersion :: int
  sc_actorId :: string
  sc_reason :: json
  sc_requestId :: json
  sc_idempotencyKey :: json
  sc_policyRevision :: json
  sc_decision :: string
  sc_affectedItemIds :: json
  sc_payload :: json

definition spec_text :: "json \<Rightarrow> string \<Rightarrow> nat \<Rightarrow> js_error + string" where
  "spec_text v name maximum = bounded_string SpecApprovalValidationError v name maximum"

definition spec_ids :: "json \<Rightarrow> string \<Rightarrow> js_error + string list" where
  "spec_ids v name =
     (case v of
        JArr vs \<Rightarrow>
          if length vs > 200 then Inl (SpecApprovalValidationError (name @ '' must be a bounded list''))
          else and_then (map_try (\<lambda>i item. spec_text item (index_path name i) 64) 0 vs) (\<lambda>ids.
            if has_duplicates ids then Inl (SpecApprovalValidationError (name @ '' contains duplicates''))
            else Inr ids)
      | _ \<Rightarrow> Inl (SpecApprovalValidationError (name @ '' must be a bounded list'')))"

definition parse_scope_change :: "nat \<Rightarrow> json \<Rightarrow> js_error + scope_change" where
  "parse_scope_change i v =
     (let path = index_path ''scopeChanges'' i;
          invalid = Inl (SpecApprovalValidationError (path @ '' is invalid'')) in
      case v of
        JObj fs \<Rightarrow>
          (case parse_scope_operation (js_get fs ''operation'') of
             None \<Rightarrow> invalid
           | Some operation \<Rightarrow>
          (case parse_scope_kind (js_get fs ''kind'') of
             None \<Rightarrow> invalid
           | Some kind \<Rightarrow>
               and_then (spec_text (js_get fs ''value'') (path @ ''.value'') 4000) (\<lambda>t.
                 Inr \<lparr>sch_operation = operation, sch_kind = kind, sch_value = t\<rparr>)))
      | _ \<Rightarrow> invalid)"

definition spec_scope_changes :: "json \<Rightarrow> js_error + scope_change list" where
  "spec_scope_changes v =
     (case v of
        JArr vs \<Rightarrow>
          if length vs > 100 then Inl (SpecApprovalValidationError ''scopeChanges must be a bounded list'')
          else map_try parse_scope_change 0 vs
      | _ \<Rightarrow> Inl (SpecApprovalValidationError ''scopeChanges must be a bounded list''))"

text \<open>The texts and lists of a command, trimmed and checked.\<close>

record normalized_approval =
  na_actorId :: string
  na_reason :: string
  na_requestId :: string
  na_policyRevision :: string
  na_affectedElementIds :: "string list"
  na_helpfulExceptionElementIds :: "string list"
  na_scopeChanges :: "scope_change list"

definition normalize_approval ::
  "spec_approval_command \<Rightarrow> (string \<times> json) list \<Rightarrow> js_error + normalized_approval" where
  "normalize_approval c payload =
     and_then (spec_text (JStr (sc_actorId c)) ''actorId'' 200) (\<lambda>actor.
     and_then (spec_text (sc_reason c) ''reason'' 4000) (\<lambda>reason.
     and_then (spec_text (sc_requestId c) ''requestId'' 200) (\<lambda>request.
     and_then (spec_text (sc_policyRevision c) ''policyRevision'' 100) (\<lambda>policy.
     and_then (spec_ids (sc_affectedItemIds c) ''affectedItemIds'') (\<lambda>affected.
     and_then (spec_ids (js_get payload ''helpfulExceptionElementIds'') ''helpfulExceptionElementIds'') (\<lambda>helpful.
     and_then (spec_scope_changes (js_get payload ''scopeChanges'')) (\<lambda>changes.
       Inr \<lparr>na_actorId = actor, na_reason = reason, na_requestId = request, na_policyRevision = policy,
         na_affectedElementIds = affected, na_helpfulExceptionElementIds = helpful,
         na_scopeChanges = changes\<rparr>)))))))"

definition scope_change_json :: "scope_change \<Rightarrow> json" where
  "scope_change_json ch = JObj [(''operation'', JStr (scope_operation_name (sch_operation ch))),
     (''kind'', JStr (scope_kind_name (sch_kind ch))), (''value'', JStr (sch_value ch))]"

definition scope_json :: "goal_scope \<Rightarrow> json" where
  "scope_json s = JObj [(''organizationId'', JStr (organizationId s)), (''projectId'', JStr (projectId s)),
     (''goalId'', JStr (goalId s))]"

definition target_json :: "string \<Rightarrow> json" where
  "target_json i = JObj [(''type'', JStr ''spec_revision''), (''id'', JStr i)]"

text \<open>\<open>canonical\<close>: the text whose hash identifies the command.\<close>

definition approval_canonical ::
  "spec_approval_command \<Rightarrow> spec_approval_decision \<Rightarrow> normalized_approval \<Rightarrow> string" where
  "approval_canonical c d n = json_stringify (JObj [
     (''endpoint'', JStr ''spec.approval''), (''scope'', scope_json (sc_scope c)),
     (''target'', target_json (sc_targetId c)), (''expectedVersion'', JInt (sc_expectedVersion c)),
     (''decision'', JStr (spec_decision_name d)), (''actorId'', JStr (na_actorId n)),
     (''reason'', JStr (na_reason n)), (''requestId'', JStr (na_requestId n)),
     (''policyRevision'', JStr (na_policyRevision n)),
     (''affectedElementIds'', texts_json (na_affectedElementIds n)),
     (''helpfulExceptionElementIds'', texts_json (na_helpfulExceptionElementIds n)),
     (''scopeChanges'', JArr (map scope_change_json (na_scopeChanges n)))])"

text \<open>The checks before the repository is read.\<close>

definition check_spec_approval ::
  "plan_environment \<Rightarrow> spec_call \<Rightarrow> spec_approval_command \<Rightarrow>
   js_error + (spec_approval_decision \<times> normalized_approval \<times> idempotency_lookup)" where
  "check_spec_approval env x c =
     and_then (spec_authorize x (sc_actorId c) (organizationId (sc_scope c)) (projectId (sc_scope c)) ''spec.approve'') (\<lambda>_.
       if sc_expectedVersion c < 1
       then Inl (SpecApprovalValidationError ''expectedVersion must be positive'')
       else
     (case parse_spec_decision (sc_decision c) of
        None \<Rightarrow> Inl (SpecApprovalValidationError ''decision is invalid'')
      | Some d \<Rightarrow>
          if sc_targetType c \<noteq> ''spec_revision'' \<or> sc_targetId c = ''''
          then Inl (SpecApprovalValidationError ''target must identify a SpecRevision'')
          else
     (case sc_payload c of
        JObj payload \<Rightarrow>
          and_then (normalize_approval c payload) (\<lambda>n.
          and_then (spec_text (sc_idempotencyKey c) ''idempotencyKey'' 200) (\<lambda>key.
            if d \<noteq> Request_spec_changes \<and> na_scopeChanges n \<noteq> []
            then Inl (SpecApprovalValidationError ''scopeChanges require request_changes'')
            else Inr (d, n,
              \<lparr>lookup_organizationId = organizationId (sc_scope c), lookup_actorId = na_actorId n,
               lookup_endpoint = ''spec.approval'', lookup_key = key,
               requestHash = sha256Hex env (approval_canonical c d n)\<rparr>)))
      | _ \<Rightarrow> Inl (SpecApprovalValidationError ''payload must be an object''))))"

section \<open>Decisions\<close>

definition findSpecReceipt ::
  "idempotency_lookup \<Rightarrow> spec_repository \<Rightarrow> js_error + spec_approval_receipt option" where
  "findSpecReceipt l repo = find_receipt l (sp_idempotency repo)"

record spec_commit =
  sk_current :: spec_revision
  sk_next :: spec_revision
  sk_expectedVersion :: int
  sk_decision :: spec_decision_record
  sk_audit :: spec_approval_audit
  sk_event :: spec_approval_event
  sk_lookup :: idempotency_lookup
  sk_responseDigest :: string
  sk_expiresAt :: int
  sk_receipt :: spec_approval_receipt

definition commitSpecApproval ::
  "spec_commit \<Rightarrow> spec_repository \<Rightarrow> (js_error + spec_approval_receipt) \<times> spec_repository" where
  "commitSpecApproval k repo =
     (case findSpecReceipt (sk_lookup k) repo of
        Inl e \<Rightarrow> (Inl e, repo)
      | Inr (Some replay) \<Rightarrow> (Inr replay, repo)
      | Inr None \<Rightarrow>
          (let rs = revisions_at repo (sr_scope (sk_current k)) in
           case find_index (\<lambda>r. sr_id r = sr_id (sk_current k)) rs of
             None \<Rightarrow> (Inl VersionConflictError, repo)
           | Some index \<Rightarrow>
               if index \<noteq> length rs - 1 \<or> int (sr_version (rs ! index)) \<noteq> sk_expectedVersion k \<or>
                  int (sr_version (sk_next k)) \<noteq> sk_expectedVersion k + 1
               then (Inl VersionConflictError, repo)
               else (Inr (sk_receipt k),
                 repo\<lparr>sp_revisions := (sp_revisions repo)
                        (scope_key (sr_scope (sk_current k)) \<mapsto> rs[index := sk_next k]),
                      sp_decisions := sp_decisions repo @ [sk_decision k],
                      sp_audits := sp_audits repo @ [sk_audit k],
                      sp_events := sp_events repo @ [sk_event k],
                      sp_idempotency := (sp_idempotency repo)(idempotency_key (sk_lookup k) \<mapsto>
                        \<lparr>record_lookup = sk_lookup k, record_completed = True,
                         record_receipt = Some (sk_receipt k)\<rparr>)\<rparr>)))"

definition expected_status :: "spec_approval_decision \<Rightarrow> spec_revision_status" where
  "expected_status d = (if d = Submit_for_review then Spec_draft else In_review)"

definition spec_next_status :: "spec_approval_decision \<Rightarrow> spec_revision_status" where
  "spec_next_status d = (if d = Submit_for_review then In_review
     else if d = Approve_spec then Spec_approved else Spec_rejected)"

definition decided_revision :: "spec_approval_decision \<Rightarrow> string \<Rightarrow> spec_revision \<Rightarrow> spec_revision" where
  "decided_revision d at r =
     r\<lparr>sr_status := spec_next_status d, sr_version := sr_version r + 1, sr_updatedAt := at\<rparr>"

definition element_ids_of :: "overdesign_category \<Rightarrow> overdesign_review_item list \<Rightarrow> string list" where
  "element_ids_of cat is = map item_elementId (filter (\<lambda>i. item_category i = cat) is)"

definition retained_elements ::
  "spec_approval_decision \<Rightarrow> string list \<Rightarrow> overdesign_review_item list \<Rightarrow> string list" where
  "retained_elements d exceptions is =
     (if d = Approve_spec
      then map item_elementId (filter (\<lambda>i. item_elementId i \<in> set (element_ids_of Required is) \<or>
             item_elementId i \<in> set exceptions) is)
      else [])"

definition removed_elements ::
  "spec_approval_decision \<Rightarrow> string list \<Rightarrow> overdesign_review_item list \<Rightarrow> string list" where
  "removed_elements d retained is =
     (if d = Submit_for_review then []
      else map item_elementId (filter (\<lambda>i. item_elementId i \<notin> set retained) is))"

definition spec_action :: "spec_approval_decision \<Rightarrow> string" where
  "spec_action d = (case d of Submit_for_review \<Rightarrow> ''spec.review_submitted'' | Approve_spec \<Rightarrow> ''spec.approved''
     | Reject_spec \<Rightarrow> ''spec.rejected'' | Request_spec_changes \<Rightarrow> ''spec.changes_requested'')"

text \<open>The checks on the revision under decision.\<close>

definition check_revision ::
  "spec_approval_command \<Rightarrow> spec_approval_decision \<Rightarrow> normalized_approval \<Rightarrow> spec_repository \<Rightarrow>
   js_error + spec_revision" where
  "check_revision c d n repo =
     (case get_revision (sc_scope c) (sc_targetId c) repo of
        None \<Rightarrow> Inl (SpecApprovalValidationError ''SpecRevision was not found'')
      | Some current \<Rightarrow>
          if map_option sr_id (latest_revision (sc_scope c) repo) \<noteq> Some (sr_id current)
          then Inl VersionConflictError
          else if int (sr_version current) \<noteq> sc_expectedVersion c then Inl VersionConflictError
          else if sr_status current \<noteq> expected_status d
          then Inl (SpecApprovalValidationError
            (if d = Submit_for_review then ''Only a draft SpecRevision can be submitted for review''
             else ''SpecRevision is not awaiting approval''))
          else if sr_overdesignPolicyRevision current \<noteq> na_policyRevision n
          then Inl (SpecApprovalValidationError ''approval policy revision changed'')
          else
            (let is = items (sr_overdesignReview current) in
             if \<exists>i\<in>set (na_affectedElementIds n). i \<notin> set (map item_elementId is)
             then Inl (SpecApprovalValidationError ''affectedElementIds contains an unknown item'')
             else if \<exists>i\<in>set (na_helpfulExceptionElementIds n). i \<notin> set (element_ids_of Helpful is)
             then Inl (SpecApprovalValidationError ''only Helpful elements can be retained by exception'')
             else Inr current))"

section \<open>Values of the receipt\<close>

definition spec_status_name :: "spec_revision_status \<Rightarrow> string" where
  "spec_status_name s = (case s of Spec_draft \<Rightarrow> ''draft'' | In_review \<Rightarrow> ''in_review''
     | Spec_approved \<Rightarrow> ''approved'' | Spec_rejected \<Rightarrow> ''rejected'' | Spec_superseded \<Rightarrow> ''superseded'')"

definition category_name :: "overdesign_category \<Rightarrow> string" where
  "category_name c = (case c of Required \<Rightarrow> ''Required'' | Helpful \<Rightarrow> ''Helpful'' | Speculative \<Rightarrow> ''Speculative'')"

definition review_item_json :: "overdesign_review_item \<Rightarrow> json" where
  "review_item_json i = JObj [(''elementId'', JStr (item_elementId i)), (''title'', JStr (item_title i)),
     (''category'', JStr (category_name (item_category i))),
     (''requirementRefs'', texts_json (item_requirementRefs i)),
     (''constraintRefs'', texts_json (item_constraintRefs i)),
     (''estimatedCost'', item_estimatedCost i), (''removalImpact'', JStr (item_removalImpact i)),
     (''evidence'', texts_json (item_evidence i)), (''rationale'', JStr (item_rationale i))]"

definition overdesign_review_json :: "overdesign_review \<Rightarrow> json" where
  "overdesign_review_json r = JObj [(''schemaVersion'', JStr (review_schemaVersion r)),
     (''policyRevision'', JStr (review_policyRevision r)),
     (''counts'', JObj (map (\<lambda>c. (category_name c, JInt (int (counts r c)))) [Required, Helpful, Speculative])),
     (''items'', JArr (map review_item_json (items r)))]"

definition spec_revision_json :: "spec_revision \<Rightarrow> json" where
  "spec_revision_json r = JObj ([(''id'', JStr (sr_id r))] @ scope_fields (sr_scope r) @
     [(''revision'', JInt (int (sr_revision r))),
      (''previousRevisionId'', case sr_previousRevisionId r of None \<Rightarrow> JNull | Some i \<Rightarrow> JStr i),
      (''status'', JStr (spec_status_name (sr_status r))),
      (''sourceGoalVersion'', JInt (int (sr_sourceGoalVersion r))),
      (''artifactRef'', JStr (sr_artifactRef r)), (''artifactDigest'', JStr (sr_artifactDigest r)),
      (''artifactMediaType'', JStr (sr_artifactMediaType r)),
      (''artifactSizeBytes'', JInt (int (sr_artifactSizeBytes r))),
      (''plannerRunId'', JStr (sr_plannerRunId r)),
      (''plannerConfiguration'', configuration_json (sr_plannerConfiguration r)),
      (''overdesignPolicyRevision'', JStr (sr_overdesignPolicyRevision r)),
      (''overdesignReview'', overdesign_review_json (sr_overdesignReview r)),
      (''generatedAt'', JStr (sr_generatedAt r)), (''version'', JInt (int (sr_version r))),
      (''createdAt'', JStr (sr_createdAt r)), (''updatedAt'', JStr (sr_updatedAt r))])"

definition spec_decision_json :: "spec_decision_record \<Rightarrow> json" where
  "spec_decision_json d = JObj ([(''id'', JStr (sd_id d))] @ scope_fields (sd_scope d) @
     [(''specRevisionId'', JStr (sd_specRevisionId d)),
      (''subjectVersion'', JInt (int (sd_subjectVersion d))),
      (''decision'', JStr (spec_decision_name (sd_decision d))), (''actorId'', JStr (sd_actorId d)),
      (''reason'', JStr (sd_reason d)), (''requestId'', JStr (sd_requestId d)),
      (''policyRevision'', JStr (sd_policyRevision d)),
      (''affectedElementIds'', texts_json (sd_affectedElementIds d)),
      (''helpfulExceptionElementIds'', texts_json (sd_helpfulExceptionElementIds d)),
      (''scopeChanges'', JArr (map scope_change_json (sd_scopeChanges d))),
      (''retainedElementIds'', texts_json (sd_retainedElementIds d)),
      (''removedElementIds'', texts_json (sd_removedElementIds d)),
      (''createdAt'', JStr (sd_createdAt d))])"

definition spec_receipt_json :: "spec_approval_receipt \<Rightarrow> json" where
  "spec_receipt_json r = JObj [(''receiptId'', JStr (rc_receiptId r)),
     (''target'', target_json (rc_targetId r)),
     (''previousVersion'', JInt (int (rc_previousVersion r))),
     (''currentVersion'', JInt (int (rc_currentVersion r))),
     (''decision'', JStr (spec_decision_name (rc_decision r))), (''actorId'', JStr (rc_actorId r)),
     (''reason'', JStr (rc_reason r)), (''requestId'', JStr (rc_requestId r)),
     (''policyRevision'', JStr (rc_policyRevision r)), (''recordedAt'', JStr (rc_recordedAt r)),
     (''result'', JObj [(''specRevision'', spec_revision_json (rc_specRevision r)),
        (''decisionRecord'', spec_decision_json (rc_decisionRecord r)),
        (''retainedElementIds'', texts_json (rc_retainedElementIds r)),
        (''removedElementIds'', texts_json (rc_removedElementIds r))])]"

section \<open>The service\<close>

text \<open>The ids in order: decision, receipt, audit, event.\<close>

definition decision_record_of ::
  "spec_call \<Rightarrow> spec_approval_command \<Rightarrow> spec_approval_decision \<Rightarrow> normalized_approval \<Rightarrow>
   spec_revision \<Rightarrow> spec_decision_record" where
  "decision_record_of x c d n current =
     (let is = items (sr_overdesignReview current);
          retained = retained_elements d (na_helpfulExceptionElementIds n) is in
      \<lparr>sd_id = spec_generated x 0, sd_scope = sc_scope c, sd_specRevisionId = sr_id current,
       sd_subjectVersion = sr_version current, sd_decision = d, sd_actorId = na_actorId n,
       sd_reason = na_reason n, sd_requestId = na_requestId n, sd_policyRevision = na_policyRevision n,
       sd_affectedElementIds = na_affectedElementIds n,
       sd_helpfulExceptionElementIds = na_helpfulExceptionElementIds n,
       sd_scopeChanges = na_scopeChanges n, sd_retainedElementIds = retained,
       sd_removedElementIds = removed_elements d retained is,
       sd_createdAt = toISOString (spec_clock x 0)\<rparr>)"

definition spec_receipt_of ::
  "spec_call \<Rightarrow> spec_approval_command \<Rightarrow> spec_approval_decision \<Rightarrow> normalized_approval \<Rightarrow>
   spec_revision \<Rightarrow> spec_approval_receipt" where
  "spec_receipt_of x c d n current =
     (let at = toISOString (spec_clock x 0); next = decided_revision d at current;
          decision = decision_record_of x c d n current in
      \<lparr>rc_receiptId = spec_generated x 1, rc_targetId = sc_targetId c,
       rc_previousVersion = sr_version current, rc_currentVersion = sr_version next, rc_decision = d,
       rc_actorId = na_actorId n, rc_reason = na_reason n, rc_requestId = na_requestId n,
       rc_policyRevision = na_policyRevision n, rc_recordedAt = at, rc_specRevision = next,
       rc_decisionRecord = decision, rc_retainedElementIds = sd_retainedElementIds decision,
       rc_removedElementIds = sd_removedElementIds decision\<rparr>)"

definition spec_approval_commit ::
  "plan_environment \<Rightarrow> spec_call \<Rightarrow> spec_approval_command \<Rightarrow> spec_approval_decision \<Rightarrow>
   normalized_approval \<Rightarrow> idempotency_lookup \<Rightarrow> spec_revision \<Rightarrow> spec_commit" where
  "spec_approval_commit env x c d n l current =
     (let at = toISOString (spec_clock x 0); next = decided_revision d at current;
          receipt = spec_receipt_of x c d n current in
      \<lparr>sk_current = current, sk_next = next, sk_expectedVersion = sc_expectedVersion c,
       sk_decision = decision_record_of x c d n current,
       sk_audit = \<lparr>sa_id = spec_generated x 2, sa_scope = sc_scope c, sa_actorId = na_actorId n,
         sa_action = spec_action d, sa_entityId = sr_id current, sa_entityVersion = sr_version next,
         sa_reason = na_reason n, sa_requestId = na_requestId n, sa_policyRevision = na_policyRevision n,
         sa_createdAt = at\<rparr>,
       sk_event = \<lparr>se_id = spec_generated x 3, se_organizationId = organizationId (sc_scope c),
         se_aggregateId = sr_id current, se_aggregateVersion = sr_version next,
         se_type = ''spec.approval.recorded'', se_occurredAt = at, se_decision = d,
         se_policyRevision = na_policyRevision n, se_requestId = na_requestId n\<rparr>,
       sk_lookup = l, sk_responseDigest = sha256Hex env (json_stringify (spec_receipt_json receipt)),
       sk_expiresAt = spec_clock x 0 + 24 * 60 * 60 * 1000, sk_receipt = receipt\<rparr>)"

definition prepare_spec_decision ::
  "plan_environment \<Rightarrow> spec_call \<Rightarrow> spec_approval_command \<Rightarrow> spec_repository \<Rightarrow>
   js_error + (spec_approval_receipt + spec_commit)" where
  "prepare_spec_decision env x c repo =
     and_then (check_spec_approval env x c) (\<lambda>(d, n, l).
     and_then (findSpecReceipt l repo) (\<lambda>replay.
       case replay of
         Some receipt \<Rightarrow> Inr (Inl receipt)
       | None \<Rightarrow>
           and_then (check_revision c d n repo) (\<lambda>current.
             Inr (Inr (spec_approval_commit env x c d n l current)))))"

definition decide_spec ::
  "plan_environment \<Rightarrow> spec_call \<Rightarrow> spec_approval_command \<Rightarrow> spec_repository \<Rightarrow>
   (js_error + spec_approval_receipt) \<times> spec_repository" where
  "decide_spec env x c repo =
     (case prepare_spec_decision env x c repo of
        Inl e \<Rightarrow> (Inl e, repo)
      | Inr (Inl receipt) \<Rightarrow> (Inr receipt, repo)
      | Inr (Inr k) \<Rightarrow> commitSpecApproval k repo)"

definition approval_timeline ::
  "spec_call \<Rightarrow> goal_scope \<Rightarrow> string \<Rightarrow> string \<Rightarrow> spec_repository \<Rightarrow> js_error + spec_decision_record list" where
  "approval_timeline x scope i actor repo =
     and_then (spec_authorize x actor (organizationId scope) (projectId scope) ''spec.read'') (\<lambda>_.
       Inr (decision_timeline scope i repo))"

end
