(* ===== verification/Issue_Generation.thy ===== *)
theory Issue_Generation
  imports Issue_Plan_Service Spec_Approval
begin

text \<open>
  \<^verbatim>\<open>application/issue-plan-generation-service.ts\<close>: an Issue plan is planned from an approved
  specification. The planner is a parameter; the draft goes to the Issue plan service as a value.
\<close>

record issue_generation_call =
  ig_authorize :: "string \<Rightarrow> string \<Rightarrow> string \<Rightarrow> string \<Rightarrow> js_error + unit"
  ig_plan :: "string goal_contract \<Rightarrow> spec_bundle \<Rightarrow> js_error + planner_draft"
  ig_configuration :: issue_planner_configuration

record issue_generation_command =
  igc_scope :: goal_scope
  igc_specRevisionId :: string
  igc_expectedSpecVersion :: int
  igc_actorId :: string

definition default_planner_configuration :: issue_planner_configuration where
  "default_planner_configuration = \<lparr>adapter = ''codex'', modelProfile = ''configured-planner'',
     config_schemaVersion = issuePlanDraftSchemaVersion\<rparr>"

text \<open>The Goal, the approved revision and its bundle.\<close>

definition approved_source ::
  "issue_generation_command \<Rightarrow> workspace_repository \<Rightarrow> spec_stores \<Rightarrow>
   js_error + (string goal_contract \<times> spec_revision \<times> spec_bundle)" where
  "approved_source c ws st =
     (let scope = igc_scope c in
      case (workspace_get scope ws, get_revision scope (igc_specRevisionId c) (spec_repo st)) of
        (Some gl, Some r) \<Rightarrow>
          if map_option sr_id (latest_revision scope (spec_repo st)) \<noteq> Some (sr_id r) \<or>
             sr_status r \<noteq> Spec_approved \<or> int (sr_version r) \<noteq> igc_expectedSpecVersion c
          then Inl VersionConflictError
          else
            (case get_artifact (sr_artifactRef r) (spec_artifacts st) of
               None \<Rightarrow> Inl (IssuePlanGenerationError ''Approved specification artifact is unavailable'')
             | Some a \<Rightarrow>
                 if art_digest a \<noteq> sr_artifactDigest r
                 then Inl (IssuePlanGenerationError ''Approved specification artifact is unavailable'')
                 else and_then (validateSpecBundle (art_content a)) (\<lambda>b. Inr (gl, r, b)))
      | _ \<Rightarrow> Inl (IssuePlanGenerationError ''Approved source was not found''))"

definition generated_source :: "string goal_contract \<Rightarrow> spec_revision \<Rightarrow> spec_bundle \<Rightarrow> issue_plan_source" where
  "generated_source gl r b = \<lparr>specRevisionId = sr_id r, specRevisionVersion = sr_version r,
     specArtifactDigest = sr_artifactDigest r,
     source_requirements = map (\<lambda>q. \<lparr>requirement_id = req_id q,
       source_requirement.acceptanceCriterionRefs = spec_requirement.acceptanceCriterionRefs q\<rparr>)
       (spec_prd.requirements (prd b)),
     source_criteria = map criterion_id (acceptanceCriteria gl)\<rparr>"

text \<open>\<open>generate\<close> up to the call of the Issue plan service.\<close>

definition prepare_issue_generation ::
  "issue_generation_call \<Rightarrow> issue_generation_command \<Rightarrow> workspace_repository \<Rightarrow> spec_stores \<Rightarrow>
   js_error + create_draft_command" where
  "prepare_issue_generation x c ws st =
     and_then (ig_authorize x (igc_actorId c) (organizationId (igc_scope c)) (projectId (igc_scope c)) ''issue.generate'') (\<lambda>_.
       if igc_expectedSpecVersion c < 1
       then Inl (IssuePlanGenerationError ''expectedSpecVersion must be positive'')
       else
     and_then (approved_source c ws st) (\<lambda>(gl, r, b).
     and_then (ig_plan x gl b) (\<lambda>planned.
       if pd_goalId planned \<noteq> goal_id gl \<or> pd_sourceGoalVersion planned \<noteq> goal_version gl
       then Inl VersionConflictError
       else
     and_then (validateIssuePlanDraft (pd_output planned)) (\<lambda>ds.
       Inr \<lparr>cd_scope = igc_scope c, cd_source = generated_source gl r b, cd_draft = draft_json ds,
         cd_plannerRunId = pd_plannerRunId planned, cd_plannerConfiguration = ig_configuration x,
         cd_actorId = igc_actorId c\<rparr>))))"

definition generate_issues ::
  "plan_environment \<Rightarrow> issue_generation_call \<Rightarrow> plan_call \<Rightarrow> issue_generation_command \<Rightarrow>
   workspace_repository \<Rightarrow> spec_stores \<Rightarrow> plan_repository \<Rightarrow> (js_error + issue_plan) \<times> plan_repository" where
  "generate_issues env x px c ws st repo =
     (case prepare_issue_generation x c ws st of
        Inl e \<Rightarrow> (Inl e, repo)
      | Inr command \<Rightarrow> createDraft env px command repo)"

end
