(* ===== verification/Revision_Lists.thy ===== *)
theory Revision_Lists
  imports Issue_Plan_Safety
begin

text \<open>
  Lists of versioned revisions of which only the last may be decided. The approval services read
  a revision, prepare a commit from what they read and hand it to a repository that compares the
  position, the id and the version. The locale shows that a commit which passes this comparison
  is about the revision as it still is, whatever was appended or decided since it was read.
\<close>

text \<open>The revision with the id of \<open>c\<close> is \<open>c\<close> itself or has a later version.\<close>

definition read_from :: "('r \<Rightarrow> string) \<Rightarrow> ('r \<Rightarrow> nat) \<Rightarrow> 'r list \<Rightarrow> 'r \<Rightarrow> bool" where
  "read_from ident vers rs c \<longleftrightarrow>
     (\<exists>j. find_index (\<lambda>r. ident r = ident c) rs = Some j \<and> (vers c < vers (rs ! j) \<or> rs ! j = c))"

lemmas last_update_Suc = last_update[unfolded One_nat_def]

locale revision_lists =
  fixes ident :: "'r \<Rightarrow> string" and vers :: "'r \<Rightarrow> nat" and decided :: "'d \<Rightarrow> 'r \<Rightarrow> 'r"
  assumes ident_decided: "ident (decided d r) = ident r"
    and vers_decided: "vers (decided d r) = Suc (vers r)"
begin

lemma read_found:
  assumes "List.find (\<lambda>r. ident r = i) rs = Some c"
  shows "read_from ident vers rs c"
  using assms find_index_found[OF assms] unfolding read_from_def by (auto simp: find_Some_iff)

lemma read_append:
  assumes "read_from ident vers rs c"
  shows "read_from ident vers (rs @ [r]) c"
proof -
  from assms obtain j where j: "find_index (\<lambda>r. ident r = ident c) rs = Some j"
    "vers c < vers (rs ! j) \<or> rs ! j = c" unfolding read_from_def by blast
  with find_index_nth[OF j(1)] show ?thesis
    unfolding read_from_def by (intro exI[of _ j]) (simp add: find_index_append nth_append)
qed

lemma read_decided:
  assumes "read_from ident vers rs c" and "rs \<noteq> []"
  shows "read_from ident vers (butlast rs @ [decided d (last rs)]) c"
proof -
  let ?i = "length rs - 1"
  from assms(1) obtain j where j: "find_index (\<lambda>r. ident r = ident c) rs = Some j"
    "vers c < vers (rs ! j) \<or> rs ! j = c" unfolding read_from_def by blast
  have eq: "butlast rs @ [decided d (last rs)] = rs[?i := decided d (rs ! ?i)]"
    using assms(2) by (simp add: last_update_Suc last_conv_nth)
  have "find_index (\<lambda>r. ident r = ident c) (rs[?i := decided d (rs ! ?i)]) = Some j"
    using j(1) assms(2) by (subst find_index_update) (auto simp: ident_decided)
  moreover have "vers c < vers (rs[?i := decided d (rs ! ?i)] ! j) \<or> rs[?i := decided d (rs ! ?i)] ! j = c"
    using j(2) find_index_nth[OF j(1)] by (cases "j = ?i") (auto simp: vers_decided)
  ultimately show ?thesis unfolding read_from_def eq by blast
qed

text \<open>The comparison of the repository: the last position, the version that was read.\<close>

lemma committed_is_current:
  assumes "read_from ident vers rs c" and "find_index (\<lambda>r. ident r = ident c) rs = Some i"
    and "i = length rs - 1" and "vers (rs ! i) = vers c"
  shows "rs \<noteq> []" "last rs = c" "rs[i := x] = butlast rs @ [x]" "\<forall>j<length rs - 1. ident (rs ! j) \<noteq> ident c"
proof -
  from assms(1,2,4) have i: "rs ! i = c" unfolding read_from_def by auto
  from find_index_nth[OF assms(2)] show ne: "rs \<noteq> []" by auto
  with i assms(3) show "last rs = c" by (simp add: last_conv_nth)
  from ne assms(3) show "rs[i := x] = butlast rs @ [x]" by (simp add: last_update_Suc)
  have "\<forall>j<i. \<not> P (rs ! j)" if "find_index P rs = Some i" for P i
    using that by (induction P rs arbitrary: i rule: find_index.induct)
      (auto split: if_splits simp: nth_Cons split: nat.splits)
  from this[OF assms(2)] assms(3) show "\<forall>j<length rs - 1. ident (rs ! j) \<noteq> ident c" by simp
qed

end

interpretation plan_lists: revision_lists plan_id plan_version "\<lambda>(d, at). decided_plan d at"
  by unfold_locales auto

end
