(* ===== verification/Spec_Approval_Safety.thy ===== *)
theory Spec_Approval_Safety
  imports Spec_Approval Revision_Lists
begin

text \<open>
  What specification generation and approval guarantee over the repository in memory, for requests
  that are in flight together: the status of a revision is what its recorded decisions make of it,
  an approved revision was reviewed and keeps exactly the elements it must, every revision can be
  loaded from the artifact store, and a decision takes effect at most once.
\<close>

section \<open>Decisions take effect at most once\<close>

lemma commitSpecApproval_cases:
  assumes "commitSpecApproval k repo = (r, repo')"
  obtains (unchanged) "repo' = repo" "(\<exists>e. r = Inl e) \<or>
      (\<exists>receipt. r = Inr receipt \<and> findSpecReceipt (sk_lookup k) repo = Inr (Some receipt))"
  | (decided) i where "findSpecReceipt (sk_lookup k) repo = Inr None"
      "find_index (\<lambda>r. sr_id r = sr_id (sk_current k)) (revisions_at repo (sr_scope (sk_current k))) = Some i"
      "i = length (revisions_at repo (sr_scope (sk_current k))) - 1"
      "int (sr_version (revisions_at repo (sr_scope (sk_current k)) ! i)) = sk_expectedVersion k"
      "r = Inr (sk_receipt k)"
      "repo' = repo\<lparr>sp_revisions := (sp_revisions repo)(scope_key (sr_scope (sk_current k)) \<mapsto>
          (revisions_at repo (sr_scope (sk_current k)))[i := sk_next k]),
        sp_decisions := sp_decisions repo @ [sk_decision k], sp_audits := sp_audits repo @ [sk_audit k],
        sp_events := sp_events repo @ [sk_event k],
        sp_idempotency := (sp_idempotency repo)(idempotency_key (sk_lookup k) \<mapsto>
          \<lparr>record_lookup = sk_lookup k, record_completed = True, record_receipt = Some (sk_receipt k)\<rparr>)\<rparr>"
proof -
  let ?rs = "revisions_at repo (sr_scope (sk_current k))"
  let ?found = "find_index (\<lambda>r. sr_id r = sr_id (sk_current k)) ?rs"
  consider (e) e where "findSpecReceipt (sk_lookup k) repo = Inl e"
    | (old) q where "findSpecReceipt (sk_lookup k) repo = Inr (Some q)"
    | (lost) "findSpecReceipt (sk_lookup k) repo = Inr None" "?found = None"
    | (new) i where "findSpecReceipt (sk_lookup k) repo = Inr None" "?found = Some i"
    by (metis option.exhaust sum.exhaust)
  then show thesis
  proof cases
    case (new i)
    show thesis
    proof (cases "i \<noteq> length ?rs - 1 \<or> int (sr_version (?rs ! i)) \<noteq> sk_expectedVersion k \<or>
        int (sr_version (sk_next k)) \<noteq> sk_expectedVersion k + 1")
      case True
      with new assms have "repo' = repo" "r = Inl VersionConflictError"
        by (simp_all add: commitSpecApproval_def Let_def split: if_splits)
      then show thesis by (intro unchanged) simp_all
    next
      case False
      with new assms show thesis by (intro decided[of i]) (simp_all add: commitSpecApproval_def Let_def split: if_splits)
    qed
  qed (use assms in \<open>auto simp: commitSpecApproval_def Let_def intro: unchanged\<close>)
qed

lemma commitSpecApproval_found:
  "commitSpecApproval k repo = (Inr r, repo') \<Longrightarrow> findSpecReceipt (sk_lookup k) repo' = Inr (Some r)"
  by (erule commitSpecApproval_cases) (auto simp: findSpecReceipt_def find_receipt_added)

lemma commitSpecApproval_keeps:
  assumes "findSpecReceipt l repo = Inr (Some r)"
  shows "findSpecReceipt l (snd (commitSpecApproval k repo)) = Inr (Some r)"
proof (cases "commitSpecApproval k repo")
  case (Pair res repo')
  with assms show ?thesis
    by (auto simp: findSpecReceipt_def find_receipt_kept elim!: commitSpecApproval_cases)
qed

definition spec_looks_up ::
  "plan_environment \<Rightarrow> spec_call \<Rightarrow> spec_approval_command \<Rightarrow> idempotency_lookup option" where
  "spec_looks_up env x c = (case check_spec_approval env x c of Inl e \<Rightarrow> None | Inr (d, n, l) \<Rightarrow> Some l)"

text \<open>A decision, or anything that leaves the receipts alone, as generation does.\<close>

definition spec_moves :: "spec_repository \<Rightarrow> spec_repository \<Rightarrow> bool" where
  "spec_moves repo repo' \<longleftrightarrow>
     sp_idempotency repo' = sp_idempotency repo \<or> (\<exists>k. repo' = snd (commitSpecApproval k repo))"

lemma prepare_spec_decision_cases:
  assumes "prepare_spec_decision env x c repo = Inr p"
  shows "\<exists>d n l. check_spec_approval env x c = Inr (d, n, l) \<and>
    ((\<exists>receipt. p = Inl receipt \<and> findSpecReceipt l repo = Inr (Some receipt)) \<or>
     (\<exists>current. check_revision c d n repo = Inr current \<and>
        p = Inr (spec_approval_commit env x c d n l current)))"
  using assms
  by (auto simp: prepare_spec_decision_def result_simps split: option.splits)

lemma spec_approval_commit_simps [simp]:
  "sk_current (spec_approval_commit env x c d n l r) = r"
  "sk_next (spec_approval_commit env x c d n l r) = decided_revision d (toISOString (spec_clock x 0)) r"
  "sk_expectedVersion (spec_approval_commit env x c d n l r) = sc_expectedVersion c"
  "sk_decision (spec_approval_commit env x c d n l r) = decision_record_of x c d n r"
  "sk_lookup (spec_approval_commit env x c d n l r) = l"
  by (simp_all add: spec_approval_commit_def Let_def)

interpretation spec_approvals: idempotent_service "spec_looks_up env" findSpecReceipt
  "decide_spec env" spec_moves for env
proof
  fix x c l s r
  assume "spec_looks_up env x c = Some l" "findSpecReceipt l s = Inr (Some r)"
  then show "decide_spec env x c s = (Inr r, s)"
    by (auto simp: spec_looks_up_def decide_spec_def prepare_spec_decision_def split: sum.splits prod.splits)
next
  fix x c s r s'
  assume h: "decide_spec env x c s = (Inr r, s')"
  show "\<exists>l. spec_looks_up env x c = Some l \<and> findSpecReceipt l s' = Inr (Some r)"
  proof (cases "prepare_spec_decision env x c s")
    case (Inr p)
    from prepare_spec_decision_cases[OF this] obtain d n l where
      l: "check_spec_approval env x c = Inr (d, n, l)" and
      p: "(\<exists>receipt. p = Inl receipt \<and> findSpecReceipt l s = Inr (Some receipt)) \<or>
       (\<exists>current. p = Inr (spec_approval_commit env x c d n l current))" by blast
    from p h Inr commitSpecApproval_found[of _ s r s'] have "findSpecReceipt l s' = Inr (Some r)"
      by (fastforce simp: decide_spec_def)
    with l show ?thesis by (simp add: spec_looks_up_def)
  qed (use h in \<open>simp add: decide_spec_def\<close>)
next
  fix s s' l r
  assume "spec_moves s s'" "findSpecReceipt l s = Inr (Some r)"
  then show "findSpecReceipt l s' = Inr (Some r)"
    by (auto simp: spec_moves_def commitSpecApproval_keeps) (simp add: findSpecReceipt_def)
next
  fix x c s e s'
  assume "decide_spec env x c s = (Inl e, s')"
  then show "s' = s"
    by (auto simp: decide_spec_def elim!: commitSpecApproval_cases split: sum.splits)
qed

lemma decided_revision_simps [simp]:
  "sr_id (decided_revision d at r) = sr_id r" "sr_scope (decided_revision d at r) = sr_scope r"
  "sr_revision (decided_revision d at r) = sr_revision r"
  "sr_previousRevisionId (decided_revision d at r) = sr_previousRevisionId r"
  "sr_version (decided_revision d at r) = Suc (sr_version r)"
  "sr_status (decided_revision d at r) = spec_next_status d"
  "sr_artifactRef (decided_revision d at r) = sr_artifactRef r"
  "sr_artifactDigest (decided_revision d at r) = sr_artifactDigest r"
  "sr_overdesignReview (decided_revision d at r) = sr_overdesignReview r"
  "sr_overdesignPolicyRevision (decided_revision d at r) = sr_overdesignPolicyRevision r"
  "sr_sourceGoalVersion (decided_revision d at r) = sr_sourceGoalVersion r"
  by (simp_all add: decided_revision_def)

interpretation spec_lists: revision_lists sr_id sr_version "\<lambda>(d, at). decided_revision d at"
  by unfold_locales auto

section \<open>Requests in flight\<close>

text \<open>The handlers admit UUIDs only, so the keys of the repositories name one scope each.\<close>

definition plain_scope :: "goal_scope \<Rightarrow> bool" where
  "plain_scope s \<longleftrightarrow> plain_id (organizationId s) \<and> plain_id (projectId s)"

lemma plain_scope_key: "plain_scope s \<Longrightarrow> plain_scope t \<Longrightarrow> scope_key s = scope_key t \<longleftrightarrow> s = t"
  by (simp add: plain_scope_def scope_key_inject)

type_synonym prepared_generation =
  "spec_call \<times> generation_command \<times> string goal_contract \<times> spec_revision option \<times> string \<times> spec_bundle"

record specs_in_flight =
  spec_store :: spec_stores
  due_bundles :: "prepared_generation list"
  due_revisions :: "spec_revision list"
  due_spec_decisions :: "spec_commit list"

text \<open>
  A generation reads a Goal, runs the planner, stores the bundle and appends the revision in three
  steps; a decision reads the revision and commits in two. The Goals change meanwhile as they like.
\<close>

inductive spec_step :: "plan_environment \<Rightarrow> specs_in_flight \<Rightarrow> specs_in_flight \<Rightarrow> bool" for env where
  planned: "prepare_generation x c ws (spec_repo (spec_store f)) = Inr p \<Longrightarrow> plain_scope (gc_scope c) \<Longrightarrow>
    spec_step env f (f\<lparr>due_bundles := (x, c, p) # due_bundles f\<rparr>)"
| stored: "(x, c, p) \<in> set (due_bundles f) \<Longrightarrow>
    store_bundle env x c p (spec_artifacts (spec_store f)) = ((r, a), arts) \<Longrightarrow>
    spec_step env f (f\<lparr>spec_store := (spec_store f)\<lparr>spec_artifacts := arts\<rparr>,
      due_bundles := remove1 (x, c, p) (due_bundles f), due_revisions := r # due_revisions f\<rparr>)"
| appended: "r \<in> set (due_revisions f) \<Longrightarrow>
    append_revision r (sr_sourceGoalVersion r) (sr_previousRevisionId r) (spec_repo (spec_store f)) = (res, repo) \<Longrightarrow>
    spec_step env f (f\<lparr>spec_store := (spec_store f)\<lparr>spec_repo := repo\<rparr>,
      due_revisions := remove1 r (due_revisions f)\<rparr>)"
| judged: "prepare_spec_decision env x ac (spec_repo (spec_store f)) = Inr (Inr k) \<Longrightarrow>
    plain_scope (sc_scope ac) \<Longrightarrow>
    spec_step env f (f\<lparr>due_spec_decisions := k # due_spec_decisions f\<rparr>)"
| committed: "k \<in> set (due_spec_decisions f) \<Longrightarrow>
    commitSpecApproval k (spec_repo (spec_store f)) = (res', repo) \<Longrightarrow>
    spec_step env f (f\<lparr>spec_store := (spec_store f)\<lparr>spec_repo := repo\<rparr>,
      due_spec_decisions := remove1 k (due_spec_decisions f)\<rparr>)"

definition no_specs :: specs_in_flight where
  "no_specs = \<lparr>spec_store = \<lparr>spec_repo = new_spec_repository [], spec_artifacts = Map.empty\<rparr>,
     due_bundles = [], due_revisions = [], due_spec_decisions = []\<rparr>"

definition specs_under :: "specs_in_flight \<Rightarrow> string \<Rightarrow> spec_revision list" where
  "specs_under f k = (case sp_revisions (spec_repo (spec_store f)) k of None \<Rightarrow> [] | Some rs \<Rightarrow> rs)"

abbreviation spec_log :: "specs_in_flight \<Rightarrow> spec_decision_record list" where
  "spec_log f \<equiv> sp_decisions (spec_repo (spec_store f))"

lemma revisions_at_under: "revisions_at (spec_repo (spec_store f)) s = specs_under f (scope_key s)"
  by (simp add: revisions_at_def specs_under_def)

section \<open>What is known of a revision\<close>

text \<open>A generated revision: reviewed against the facts of a Goal, its bundle in the artifact store.\<close>

definition reviewed_bundle :: "plan_environment \<Rightarrow> spec_revision \<Rightarrow> spec_bundle \<Rightarrow> bool" where
  "reviewed_bundle env r b \<longleftrightarrow> clean_bundle b \<and>
     (\<exists>g. sr_overdesignReview r = classifySolutionElements g (solutionElements b)) \<and>
     sr_artifactDigest r = sha256Hex env (canonicalJson (localeCompare env) (bundle_json b))"

definition stored_artifact :: "plan_environment \<Rightarrow> string \<Rightarrow> json immutable_artifact \<Rightarrow> bool" where
  "stored_artifact env ref a \<longleftrightarrow> (\<exists>b. clean_bundle b \<and> art_content a = bundle_json b \<and>
     art_digest a = sha256Hex env (canonicalJson (localeCompare env) (bundle_json b)) \<and>
     ref = ''memory://artifacts/sha256/'' @ art_digest a \<and> art_ref a = ref)"

definition generated_fine :: "plan_environment \<Rightarrow> artifact_store \<Rightarrow> spec_revision \<Rightarrow> bool" where
  "generated_fine env arts r \<longleftrightarrow> plain_scope (sr_scope r) \<and>
     sr_overdesignPolicyRevision r = overdesignPolicyRevision \<and> (\<exists>b. reviewed_bundle env r b) \<and>
     (\<exists>a. arts (sr_artifactRef r) = Some a \<and> art_digest a = sr_artifactDigest r)"

definition spec_chain :: "spec_revision list \<Rightarrow> bool" where
  "spec_chain rs \<longleftrightarrow> (\<forall>i < length rs. sr_revision (rs ! i) = i + 1 \<and>
     sr_previousRevisionId (rs ! i) = (if i = 0 then None else Some (sr_id (rs ! (i - 1)))))"

definition decisions_on :: "spec_decision_record list \<Rightarrow> spec_revision \<Rightarrow> spec_decision_record list" where
  "decisions_on log r = filter (\<lambda>d. sd_scope d = sr_scope r \<and> sd_specRevisionId d = sr_id r) log"

text \<open>The life of a revision: submitted once, decided once.\<close>

definition life :: "spec_approval_decision list \<Rightarrow> spec_revision_status \<Rightarrow> bool" where
  "life ds st \<longleftrightarrow> ds = [] \<and> st = Spec_draft \<or> ds = [Submit_for_review] \<and> st = In_review \<or>
     (\<exists>d. d \<noteq> Submit_for_review \<and> ds = [Submit_for_review, d] \<and> st = spec_next_status d)"

definition record_fine :: "spec_revision \<Rightarrow> spec_decision_record \<Rightarrow> bool" where
  "record_fine r d \<longleftrightarrow>
     (let is = items (sr_overdesignReview r) in
      sd_policyRevision d = sr_overdesignPolicyRevision r \<and>
      set (sd_affectedElementIds d) \<subseteq> set (map item_elementId is) \<and>
      set (sd_helpfulExceptionElementIds d) \<subseteq> set (element_ids_of Helpful is) \<and>
      sd_retainedElementIds d = retained_elements (sd_decision d) (sd_helpfulExceptionElementIds d) is \<and>
      sd_removedElementIds d = removed_elements (sd_decision d) (sd_retainedElementIds d) is \<and>
      (sd_scopeChanges d \<noteq> [] \<longrightarrow> sd_decision d = Request_spec_changes))"

definition history_fine :: "spec_decision_record list \<Rightarrow> spec_revision \<Rightarrow> bool" where
  "history_fine log r \<longleftrightarrow>
     sr_version r = length (decisions_on log r) + 1 \<and>
     map sd_subjectVersion (decisions_on log r) = [1..<sr_version r] \<and>
     life (map sd_decision (decisions_on log r)) (sr_status r) \<and>
     (\<forall>d\<in>set (decisions_on log r). record_fine r d)"

definition due_decision_fine :: "(string \<Rightarrow> spec_revision list) \<Rightarrow> spec_commit \<Rightarrow> bool" where
  "due_decision_fine ss k \<longleftrightarrow>
     (let c = sk_current k; d = sd_decision (sk_decision k) in
      read_from sr_id sr_version (ss (scope_key (sr_scope c))) c \<and>
      sk_expectedVersion k = int (sr_version c) \<and> (\<exists>at. sk_next k = decided_revision d at c) \<and>
      sr_status c = expected_status d \<and> record_fine c (sk_decision k) \<and>
      sd_scope (sk_decision k) = sr_scope c \<and> sd_specRevisionId (sk_decision k) = sr_id c \<and>
      sd_subjectVersion (sk_decision k) = sr_version c)"

text \<open>The revision is the first of its list with its id, the one \<open>get\<close> finds.\<close>

definition first_with_id :: "spec_revision list \<Rightarrow> nat \<Rightarrow> bool" where
  "first_with_id rs j \<longleftrightarrow> (\<forall>i<j. sr_id (rs ! i) \<noteq> sr_id (rs ! j))"

definition list_fine :: "plan_environment \<Rightarrow> artifact_store \<Rightarrow> spec_decision_record list \<Rightarrow> string \<Rightarrow> spec_revision list \<Rightarrow> bool" where
  "list_fine env arts log k rs \<longleftrightarrow> spec_chain rs \<and>
     (\<forall>r\<in>set rs. scope_key (sr_scope r) = k \<and> generated_fine env arts r) \<and>
     (\<forall>j<length rs. first_with_id rs j \<longrightarrow> history_fine log (rs ! j))"

text \<open>The repository and the artifact store; the requests in flight.\<close>

definition specs_fine ::
  "plan_environment \<Rightarrow> artifact_store \<Rightarrow> spec_decision_record list \<Rightarrow> (string \<Rightarrow> spec_revision list) \<Rightarrow> bool" where
  "specs_fine env arts log ss \<longleftrightarrow>
     (\<forall>k. list_fine env arts log k (ss k)) \<and>
     (\<forall>d\<in>set log. plain_scope (sd_scope d) \<and>
        (\<exists>r\<in>set (ss (scope_key (sd_scope d))). sr_id r = sd_specRevisionId d)) \<and>
     (\<forall>ref a. arts ref = Some a \<longrightarrow> stored_artifact env ref a)"

definition bundle_due :: "prepared_generation \<Rightarrow> bool" where
  "bundle_due p \<longleftrightarrow> (case p of (x, c, g, q, run, b) \<Rightarrow> plain_scope (gc_scope c) \<and> clean_bundle b)"

definition revision_due :: "plan_environment \<Rightarrow> artifact_store \<Rightarrow> spec_revision \<Rightarrow> bool" where
  "revision_due env arts r \<longleftrightarrow> generated_fine env arts r \<and> sr_status r = Spec_draft \<and> sr_version r = 1"

definition specs_ok :: "plan_environment \<Rightarrow> specs_in_flight \<Rightarrow> bool" where
  "specs_ok env f \<longleftrightarrow>
     specs_fine env (spec_artifacts (spec_store f)) (spec_log f) (specs_under f) \<and>
     (\<forall>p\<in>set (due_bundles f). bundle_due p) \<and>
     (\<forall>r\<in>set (due_revisions f). revision_due env (spec_artifacts (spec_store f)) r) \<and>
     (\<forall>k\<in>set (due_spec_decisions f). due_decision_fine (specs_under f) k)"

lemma specs_fineD:
  assumes "specs_fine env arts log ss"
  shows "list_fine env arts log k (ss k)"
    "d \<in> set log \<Longrightarrow> plain_scope (sd_scope d) \<and>
        (\<exists>r\<in>set (ss (scope_key (sd_scope d))). sr_id r = sd_specRevisionId d)"
    "arts ref = Some a \<Longrightarrow> stored_artifact env ref a"
  using assms unfolding specs_fine_def by fast+

section \<open>Each step keeps it\<close>

lemma put_artifact_stored:
  assumes "put_artifact env (bundle_json b) at by arts = (a, arts')" "clean_bundle b"
    and fine: "\<And>ref a. arts ref = Some a \<Longrightarrow> stored_artifact env ref a"
  shows "arts' (art_ref a) = Some a"
    "art_digest a = sha256Hex env (canonicalJson (localeCompare env) (bundle_json b))"
    "arts' ref = Some a' \<Longrightarrow> stored_artifact env ref a'"
    "arts ref' = Some a'' \<Longrightarrow> arts' ref' = Some a''"
proof -
  let ?digest = "sha256Hex env (canonicalJson (localeCompare env) (bundle_json b))"
  let ?ref = "''memory://artifacts/sha256/'' @ ?digest"
  have *: "arts' (art_ref a) = Some a \<and> art_digest a = ?digest \<and>
    (\<forall>ref a'. arts' ref = Some a' \<longrightarrow> stored_artifact env ref a') \<and>
    (\<forall>ref a'. arts ref = Some a' \<longrightarrow> arts' ref = Some a')"
  proof (cases "arts ?ref")
    case None
    with assms(1) have a: "arts' = arts(?ref \<mapsto> a)" "art_ref a = ?ref" "art_digest a = ?digest"
      "art_content a = bundle_json b"
      by (auto simp: put_artifact_def Let_def)
    have "stored_artifact env ?ref a" using a assms(2) by (auto simp: stored_artifact_def)
    with a None fine show ?thesis by auto
  next
    case (Some e)
    with assms(1) have "a = e" "arts' = arts" by (auto simp: put_artifact_def Let_def)
    with Some fine[OF Some] fine show ?thesis by (auto simp: stored_artifact_def)
  qed
  then show "arts' (art_ref a) = Some a" "art_digest a = ?digest"
    "arts' ref = Some a' \<Longrightarrow> stored_artifact env ref a'"
    "arts ref' = Some a'' \<Longrightarrow> arts' ref' = Some a''" by blast+
qed

lemma generated_fine_grows:
  "generated_fine env arts r \<Longrightarrow> (\<And>ref a. arts ref = Some a \<Longrightarrow> arts' ref = Some a) \<Longrightarrow>
   generated_fine env arts' r"
  unfolding generated_fine_def by blast

lemma generated_fine_decided [simp]:
  "generated_fine env arts (decided_revision d at r) \<longleftrightarrow> generated_fine env arts r"
  by (simp add: generated_fine_def reviewed_bundle_def)

lemma list_fine_grows:
  "list_fine env arts log k rs \<Longrightarrow> (\<And>ref a. arts ref = Some a \<Longrightarrow> arts' ref = Some a) \<Longrightarrow>
   list_fine env arts' log k rs"
  unfolding list_fine_def using generated_fine_grows by blast

lemma spec_chain_append:
  assumes "spec_chain rs" "map_option sr_id (at_last rs) = sr_previousRevisionId r"
    "sr_revision r = length rs + 1"
  shows "spec_chain (rs @ [r])"
proof (cases "rs = []")
  case True
  with assms show ?thesis by (simp add: spec_chain_def at_last_def)
next
  case False
  with assms show ?thesis
    by (auto simp: spec_chain_def at_last_def last_conv_nth nth_append less_Suc_eq)
qed

lemma spec_chain_decided:
  assumes "spec_chain rs" "rs \<noteq> []"
  shows "spec_chain (butlast rs @ [decided_revision d at (last rs)])"
proof -
  have "butlast rs @ [decided_revision d at (last rs)] =
      rs[length rs - 1 := decided_revision d at (rs ! (length rs - 1))]"
    using assms(2) by (simp add: last_update_Suc last_conv_nth)
  with assms show ?thesis by (auto simp: spec_chain_def nth_list_update)
qed

lemma first_with_id_append:
  "j < length rs \<Longrightarrow> first_with_id (rs @ xs) j \<longleftrightarrow> first_with_id rs j"
  by (auto simp: first_with_id_def nth_append)

text \<open>A new revision has no decisions yet: decisions are on revisions of the list.\<close>

lemma list_fine_append:
  assumes "list_fine env arts log k rs" and "generated_fine env arts r" and "scope_key (sr_scope r) = k"
    and "map_option sr_id (at_last rs) = sr_previousRevisionId r" "sr_revision r = length rs + 1"
    and "sr_status r = Spec_draft" "sr_version r = 1"
    and "\<And>d. d \<in> set log \<Longrightarrow> sd_scope d = sr_scope r \<Longrightarrow> \<exists>q\<in>set rs. sr_id q = sd_specRevisionId d"
  shows "list_fine env arts log k (rs @ [r])"
proof -
  have new: "history_fine log r" if "first_with_id (rs @ [r]) (length rs)"
  proof -
    have "decisions_on log r = []"
    proof (rule ccontr)
      assume "decisions_on log r \<noteq> []"
      then obtain d where d: "d \<in> set log" "sd_scope d = sr_scope r" "sd_specRevisionId d = sr_id r"
        by (auto simp: decisions_on_def filter_empty_conv)
      from assms(8)[OF d(1,2)] d(3) obtain i where "i < length rs" "sr_id (rs ! i) = sr_id r"
        by (metis in_set_conv_nth)
      with that show False by (auto simp: first_with_id_def nth_append)
    qed
    with assms(6,7) show ?thesis by (simp add: history_fine_def life_def)
  qed
  show ?thesis
    unfolding list_fine_def
  proof (intro conjI allI impI)
    show "spec_chain (rs @ [r])"
      using assms(1,4,5) by (intro spec_chain_append) (simp_all add: list_fine_def)
    show "\<forall>q\<in>set (rs @ [r]). scope_key (sr_scope q) = k \<and> generated_fine env arts q"
      using assms(1,2,3) by (auto simp: list_fine_def)
    fix j assume j: "j < length (rs @ [r])" "first_with_id (rs @ [r]) j"
    show "history_fine log ((rs @ [r]) ! j)"
    proof (cases "j < length rs")
      case True
      with j assms(1) show ?thesis by (simp add: first_with_id_append nth_append list_fine_def)
    next
      case False
      with j have "j = length rs" by simp
      with j new show ?thesis by simp
    qed
  qed
qed

text \<open>A decision is recorded on the last revision; the others keep their history.\<close>

lemma decisions_on_snoc:
  "decisions_on (log @ [d]) r = decisions_on log r @
     (if sd_scope d = sr_scope r \<and> sd_specRevisionId d = sr_id r then [d] else [])"
  by (simp add: decisions_on_def)

lemma history_fine_other:
  "history_fine log r \<Longrightarrow> sd_specRevisionId d \<noteq> sr_id r \<or> sd_scope d \<noteq> sr_scope r \<Longrightarrow> history_fine (log @ [d]) r"
  by (auto simp: history_fine_def decisions_on_snoc)

lemma life_decided:
  assumes "life ds st" "st = expected_status d"
  shows "life (ds @ [d]) (spec_next_status d)"
  using assms by (auto simp: life_def expected_status_def spec_next_status_def split: if_splits)

lemma history_fine_decided:
  assumes "history_fine log r" and "record_fine r d" "sd_scope d = sr_scope r" "sd_specRevisionId d = sr_id r"
    and "sd_subjectVersion d = sr_version r" "sr_status r = expected_status (sd_decision d)"
  shows "history_fine (log @ [d]) (decided_revision (sd_decision d) at r)"
proof -
  have ds: "decisions_on (log @ [d]) (decided_revision (sd_decision d) at r) = decisions_on log r @ [d]"
    using assms(3,4) by (simp add: decisions_on_def)
  have fine: "record_fine (decided_revision (sd_decision d) at r) e = record_fine r e" for e
    by (simp add: record_fine_def)
  from assms(1) have "map sd_subjectVersion (decisions_on log r) = [1..<sr_version r]" "1 \<le> sr_version r"
    by (simp_all add: history_fine_def)
  with assms life_decided[of "map sd_decision (decisions_on log r)" "sr_status r" "sd_decision d"]
  show ?thesis by (auto simp: history_fine_def ds fine)
qed

lemma list_fine_decided:
  assumes "list_fine env arts log k rs" and "rs \<noteq> []" "r = last rs"
    and "record_fine r d" "sd_scope d = sr_scope r" "sd_specRevisionId d = sr_id r"
    and "sd_subjectVersion d = sr_version r" "sr_status r = expected_status (sd_decision d)"
    and "\<forall>j<length rs - 1. sr_id (rs ! j) \<noteq> sr_id r"
  shows "list_fine env arts (log @ [d]) k (butlast rs @ [decided_revision (sd_decision d) at r])"
proof -
  let ?qs = "butlast rs @ [decided_revision (sd_decision d) at r]"
  have r: "r \<in> set rs" "rs ! (length rs - 1) = r" using assms(2,3) by (simp_all add: last_conv_nth)
  show ?thesis
    unfolding list_fine_def
  proof (intro conjI allI impI)
    show "spec_chain ?qs" using assms(1,2,3) by (simp add: list_fine_def spec_chain_decided)
    show "\<forall>q\<in>set ?qs. scope_key (sr_scope q) = k \<and> generated_fine env arts q"
      using assms(1) r(1) by (auto simp: list_fine_def dest: in_set_butlastD)
    fix j assume j: "j < length ?qs" "first_with_id ?qs j"
    show "history_fine (log @ [d]) (?qs ! j)"
    proof (cases "j < length rs - 1")
      case True
      then have q: "?qs ! j = rs ! j" by (simp add: nth_append nth_butlast)
      have "first_with_id rs j"
        using j(2) True by (auto simp: first_with_id_def nth_append nth_butlast)
      with assms(1) True have "history_fine log (rs ! j)" by (simp add: list_fine_def)
      with assms(6,9) True q show ?thesis by (auto intro!: history_fine_other)
    next
      case False
      have "length ?qs = length rs" using assms(2) by simp
      with j(1) False have l: "j = length rs - 1" by linarith
      have "first_with_id rs (length rs - 1)" using assms(9) r(2) by (simp add: first_with_id_def)
      with assms(1,2) r(2) have "history_fine log r"
        unfolding list_fine_def by (metis diff_less length_greater_0_conv less_one)
      from history_fine_decided[OF this assms(4-8)] l show ?thesis by (simp add: nth_append)
    qed
  qed
qed

lemma list_fine_other:
  assumes "list_fine env arts log k rs" "sd_scope d \<notin> sr_scope ` set rs"
  shows "list_fine env arts (log @ [d]) k rs"
  using assms unfolding list_fine_def
  by (metis history_fine_other image_eqI nth_mem)


lemma list_fineD:
  assumes "list_fine env arts log k rs"
  shows "spec_chain rs" "r \<in> set rs \<Longrightarrow> scope_key (sr_scope r) = k \<and> generated_fine env arts r"
    "j < length rs \<Longrightarrow> first_with_id rs j \<Longrightarrow> history_fine log (rs ! j)"
  using assms by (simp_all add: list_fine_def)

lemma specs_under_simps [simp]:
  "specs_under (f\<lparr>due_bundles := b\<rparr>) = specs_under f" "specs_under (f\<lparr>due_revisions := rs\<rparr>) = specs_under f"
  "specs_under (f\<lparr>due_spec_decisions := ks\<rparr>) = specs_under f"
  "specs_under (f\<lparr>spec_store := (spec_store f)\<lparr>spec_artifacts := st\<rparr>\<rparr>) = specs_under f"
  "specs_under (f\<lparr>spec_store := (spec_store f)\<lparr>spec_artifacts := st\<rparr>, due_bundles := b, due_revisions := rs\<rparr>) =
     specs_under f"
  by (simp_all add: specs_under_def fun_eq_iff)

lemma specs_under_repo:
  "specs_under (f\<lparr>spec_store := (spec_store f)\<lparr>spec_repo := repo\<rparr>\<rparr>) k =
     (case sp_revisions repo k of None \<Rightarrow> [] | Some rs \<Rightarrow> rs)"
  by (simp add: specs_under_def)

lemma step_planned:
  assumes "specs_ok env f" "prepare_generation x c ws (spec_repo (spec_store f)) = Inr p" "plain_scope (gc_scope c)"
  shows "specs_ok env (f\<lparr>due_bundles := (x, c, p) # due_bundles f\<rparr>)"
proof -
  obtain g q run b where p: "p = (g, q, run, b)" by (cases p) auto
  have "\<exists>v. validateSpecBundle v = Inr b"
    using assms(2) p by (auto simp: prepare_generation_def result_simps split: option.splits if_splits)
  then have "clean_bundle b" using validated_bundle_clean by blast
  with assms(1,3) p show ?thesis by (simp add: specs_ok_def bundle_due_def)
qed

lemma specs_fine_stored:
  assumes "specs_fine env arts log ss" and "\<And>ref a. arts ref = Some a \<Longrightarrow> arts' ref = Some a"
    and "\<And>ref a. arts' ref = Some a \<Longrightarrow> stored_artifact env ref a"
  shows "specs_fine env arts' log ss"
proof -
  have "list_fine env arts' log k (ss k)" for k
    using specs_fineD(1)[OF assms(1)] assms(2) by (rule list_fine_grows)
  with assms(1,3) show ?thesis by (simp add: specs_fine_def)
qed

lemma step_stored:
  assumes ok: "specs_ok env f" and "(x, c, p) \<in> set (due_bundles f)"
    and "store_bundle env x c p (spec_artifacts (spec_store f)) = ((r, a), arts)"
  shows "specs_ok env (f\<lparr>spec_store := (spec_store f)\<lparr>spec_artifacts := arts\<rparr>,
      due_bundles := remove1 (x, c, p) (due_bundles f), due_revisions := r # due_revisions f\<rparr>)"
proof -
  obtain g q run b where p: "p = (g, q, run, b)" by (cases p) auto
  from ok assms(2) p have c: "plain_scope (gc_scope c)" "clean_bundle b"
    by (auto simp: specs_ok_def bundle_due_def)
  from assms(3) p have put: "put_artifact env (bundle_json b) (toISOString (spec_clock x 0)) (gc_actorId c)
      (spec_artifacts (spec_store f)) = (a, arts)"
    and r: "r = generated_revision x c (toISOString (spec_clock x 0)) g q run b a"
    by (auto simp: store_bundle_def Let_def split: prod.splits)
  from ok have fine: "specs_fine env (spec_artifacts (spec_store f)) (spec_log f) (specs_under f)"
    by (simp add: specs_ok_def)
  note st = put_artifact_stored[OF put c(2) specs_fineD(3)[OF fine]]
  have "revision_due env arts r"
    using c st(1,2) by (auto simp: r generated_revision_def generated_fine_def reviewed_bundle_def revision_due_def)
  moreover have "revision_due env arts q" if "revision_due env (spec_artifacts (spec_store f)) q" for q
    using that st(4) unfolding revision_due_def by (blast intro: generated_fine_grows)
  ultimately have "\<forall>q\<in>set (r # due_revisions f). revision_due env arts q"
    using ok by (simp add: specs_ok_def)
  moreover have "\<forall>p\<in>set (remove1 (x, c, p) (due_bundles f)). bundle_due p"
    using ok by (auto simp: specs_ok_def dest: notin_set_remove1)
  moreover have "specs_fine env arts (spec_log f) (specs_under f)" by (rule specs_fine_stored[OF fine st(4,3)])
  ultimately show ?thesis using ok by (simp add: specs_ok_def)
qed

lemma append_revision_cases:
  assumes "append_revision r v prev repo = (res, repo')"
  obtains (refused) "repo' = repo"
  | (done_so) "map_option sr_id (at_last (revisions_at repo (sr_scope r))) = prev"
      "sr_revision r = length (revisions_at repo (sr_scope r)) + 1"
      "repo' = repo\<lparr>sp_revisions := (sp_revisions repo)(scope_key (sr_scope r) \<mapsto>
         revisions_at repo (sr_scope r) @ [r])\<rparr>"
proof (cases "map_option sr_id (at_last (revisions_at repo (sr_scope r))) \<noteq> prev \<or>
    sr_revision r \<noteq> length (revisions_at repo (sr_scope r)) + 1 \<or> sr_sourceGoalVersion r \<noteq> v")
  case True
  with assms have "repo' = repo" by (simp add: append_revision_def Let_def split: if_splits)
  then show thesis by (rule refused)
next
  case False
  with assms show thesis by (intro done_so) (simp_all add: append_revision_def Let_def split: if_splits)
qed

lemma specs_fine_append:
  assumes fine: "specs_fine env arts log ss" and due: "revision_due env arts r"
    and k: "k = scope_key (sr_scope r)"
    and "map_option sr_id (at_last (ss k)) = sr_previousRevisionId r" "sr_revision r = length (ss k) + 1"
  shows "specs_fine env arts log (ss(k := ss k @ [r]))"
proof -
  have "list_fine env arts log k (ss k @ [r])"
  proof (rule list_fine_append[OF specs_fineD(1)[OF fine]])
    fix d assume "d \<in> set log" "sd_scope d = sr_scope r"
    with specs_fineD(2)[OF fine, of d] k show "\<exists>q\<in>set (ss k). sr_id q = sd_specRevisionId d" by simp
  qed (use assms in \<open>simp_all add: revision_due_def\<close>)
  moreover have "\<exists>q\<in>set ((ss(k := ss k @ [r])) (scope_key (sd_scope d))). sr_id q = sd_specRevisionId d"
    if "d \<in> set log" for d
    using specs_fineD(2)[OF fine that] by auto
  ultimately show ?thesis using fine by (simp add: specs_fine_def)
qed

lemma due_decision_append:
  "due_decision_fine ss c \<Longrightarrow> due_decision_fine (ss(k := ss k @ [r])) c"
  by (auto simp: due_decision_fine_def Let_def spec_lists.read_append)

lemma step_appended:
  assumes ok: "specs_ok env f" and r: "r \<in> set (due_revisions f)"
    and app: "append_revision r (sr_sourceGoalVersion r) (sr_previousRevisionId r) (spec_repo (spec_store f)) = (res, repo)"
  shows "specs_ok env (f\<lparr>spec_store := (spec_store f)\<lparr>spec_repo := repo\<rparr>,
      due_revisions := remove1 r (due_revisions f)\<rparr>)"
  using app
proof (cases rule: append_revision_cases)
  case refused
  with ok show ?thesis by (auto simp: specs_ok_def dest: notin_set_remove1)
next
  case done_so
  let ?g = "f\<lparr>spec_store := (spec_store f)\<lparr>spec_repo := repo\<rparr>, due_revisions := remove1 r (due_revisions f)\<rparr>"
  define k where "k = scope_key (sr_scope r)"
  have under: "specs_under ?g = (specs_under f)(k := specs_under f k @ [r])"
    using done_so(3) by (auto simp: specs_under_def k_def revisions_at_def fun_eq_iff)
  have log: "spec_log ?g = spec_log f" using done_so(3) by simp
  from ok r have "revision_due env (spec_artifacts (spec_store f)) r" by (simp add: specs_ok_def)
  with ok done_so have "specs_fine env (spec_artifacts (spec_store f)) (spec_log f) (specs_under ?g)"
    unfolding under by (intro specs_fine_append) (simp_all add: specs_ok_def k_def revisions_at_under)
  moreover have "due_decision_fine (specs_under ?g) c" if "due_decision_fine (specs_under f) c" for c
    unfolding under using that by (rule due_decision_append)
  ultimately show ?thesis
    using ok unfolding specs_ok_def log by (auto dest: notin_set_remove1)
qed

lemma check_revision_Inr:
  assumes "check_revision c d n repo = Inr r"
  shows "get_revision (sc_scope c) (sc_targetId c) repo = Some r"
    "int (sr_version r) = sc_expectedVersion c" "sr_status r = expected_status d"
    "sr_overdesignPolicyRevision r = na_policyRevision n"
    "set (na_affectedElementIds n) \<subseteq> set (map item_elementId (items (sr_overdesignReview r)))"
    "set (na_helpfulExceptionElementIds n) \<subseteq> set (element_ids_of Helpful (items (sr_overdesignReview r)))"
  using assms
  by (auto simp: check_revision_def Let_def result_simps split: option.splits if_splits)

lemma check_spec_approval_Inr:
  assumes "check_spec_approval env x c = Inr (d, n, l)"
  shows "na_scopeChanges n \<noteq> [] \<Longrightarrow> d = Request_spec_changes"
  using assms
  by (auto simp: check_spec_approval_def result_simps split: option.splits if_splits json.splits)

lemma step_judged:
  assumes ok: "specs_ok env f" and prep: "prepare_spec_decision env x c (spec_repo (spec_store f)) = Inr (Inr k)"
    and plain: "plain_scope (sc_scope c)"
  shows "specs_ok env (f\<lparr>due_spec_decisions := k # due_spec_decisions f\<rparr>)"
proof -
  from prepare_spec_decision_cases[OF prep] obtain d n l r where
    chk: "check_spec_approval env x c = Inr (d, n, l)" and rev: "check_revision c d n (spec_repo (spec_store f)) = Inr r"
    and k: "k = spec_approval_commit env x c d n l r" by auto
  note r = check_revision_Inr[OF rev]
  from r(1) have found: "List.find (\<lambda>r. sr_id r = sc_targetId c) (specs_under f (scope_key (sc_scope c))) = Some r"
    by (simp add: get_revision_def revisions_at_under)
  then have r': "r \<in> set (specs_under f (scope_key (sc_scope c)))" "sr_id r = sc_targetId c"
    by (auto simp: find_Some_iff)
  from ok have "list_fine env (spec_artifacts (spec_store f)) (spec_log f) (scope_key (sc_scope c)) (specs_under f (scope_key (sc_scope c)))"
    by (simp add: specs_ok_def specs_fineD)
  from list_fineD(2)[OF this r'(1)] plain have scope: "sr_scope r = sc_scope c"
    using plain_scope_key by (auto simp: generated_fine_def)
  have "due_decision_fine (specs_under f) k"
    using r scope spec_lists.read_found[OF found] check_spec_approval_Inr[OF chk]
    by (auto simp: due_decision_fine_def Let_def k decision_record_of_def record_fine_def)
  with ok show ?thesis by (simp add: specs_ok_def)
qed

lemma specs_fine_decided:
  assumes fine: "specs_fine env arts log ss" and due: "due_decision_fine ss k"
    and kk: "kk = scope_key (sr_scope (sk_current k))"
    and "find_index (\<lambda>r. sr_id r = sr_id (sk_current k)) (ss kk) = Some i" "i = length (ss kk) - 1"
    and "int (sr_version (ss kk ! i)) = sk_expectedVersion k"
  shows "ss kk \<noteq> []" "(ss kk)[i := sk_next k] = butlast (ss kk) @ [sk_next k]"
    "\<exists>at. sk_next k = decided_revision (sd_decision (sk_decision k)) at (last (ss kk))"
    "specs_fine env arts (log @ [sk_decision k]) (ss(kk := (ss kk)[i := sk_next k]))"
proof -
  let ?c = "sk_current k" and ?d = "sk_decision k"
  from due kk obtain at where c: "read_from sr_id sr_version (ss kk) ?c"
    "sk_expectedVersion k = int (sr_version ?c)" "sk_next k = decided_revision (sd_decision ?d) at ?c"
    "sr_status ?c = expected_status (sd_decision ?d)" "record_fine ?c ?d" "sd_scope ?d = sr_scope ?c"
    "sd_specRevisionId ?d = sr_id ?c" "sd_subjectVersion ?d = sr_version ?c"
    by (auto simp: due_decision_fine_def Let_def)
  have ver: "sr_version (ss kk ! i) = sr_version ?c" using assms(6) c(2) by simp
  note cur = spec_lists.committed_is_current[OF c(1) assms(4,5) ver]
  show "ss kk \<noteq> []" "(ss kk)[i := sk_next k] = butlast (ss kk) @ [sk_next k]" using cur(1,3) by auto
  show "\<exists>at. sk_next k = decided_revision (sd_decision (sk_decision k)) at (last (ss kk))" using c(3) cur(2) by auto
  have last: "?c \<in> set (ss kk)" using cur(1,2) by (metis last_in_set)
  note lf = specs_fineD(1)[OF fine, of kk]
  have mine: "list_fine env arts (log @ [?d]) kk (butlast (ss kk) @ [decided_revision (sd_decision ?d) at ?c])"
    using list_fine_decided[OF lf cur(1) cur(2)[symmetric] c(5-8,4) cur(4)] .
  have others: "list_fine env arts (log @ [?d]) k' (ss k')" if "k' \<noteq> kk" for k'
  proof (rule list_fine_other[OF specs_fineD(1)[OF fine]])
    show "sd_scope ?d \<notin> sr_scope ` set (ss k')"
      using list_fineD(2)[OF specs_fineD(1)[OF fine, of k']] that kk c(6) by fastforce
  qed
  have ids: "sr_id ` set (butlast (ss kk) @ [sk_next k]) = sr_id ` set (ss kk)"
    using cur(1,2) c(3) by (metis (no_types, lifting) append_butlast_last_id decided_revision_simps(1)
        image_insert image_Un list.simps(15) set_append list.set(1))
  show "specs_fine env arts (log @ [?d]) (ss(kk := (ss kk)[i := sk_next k]))"
    unfolding specs_fine_def
  proof (intro conjI allI ballI impI)
    show "list_fine env arts (log @ [?d]) k' ((ss(kk := (ss kk)[i := sk_next k])) k')" for k'
      using mine others cur(3) c(3) by simp
    show "stored_artifact env ref a" if "arts ref = Some a" for ref a
      using specs_fineD(3)[OF fine that] .
    fix d assume d: "d \<in> set (log @ [?d])"
    have "plain_scope (sr_scope ?c)" using list_fineD(2)[OF lf last] by (simp add: generated_fine_def)
    then show "plain_scope (sd_scope d)" using d specs_fineD(2)[OF fine, of d] c(6) by auto
    have "\<exists>r\<in>set (ss (scope_key (sd_scope d))). sr_id r = sd_specRevisionId d"
      using d specs_fineD(2)[OF fine, of d] c(6,7) last kk by auto
    then have "sd_specRevisionId d \<in> sr_id ` set (ss (scope_key (sd_scope d)))" by (metis image_eqI)
    then have "sd_specRevisionId d \<in> sr_id ` set ((ss(kk := (ss kk)[i := sk_next k])) (scope_key (sd_scope d)))"
      using ids cur(3) by auto
    then show "\<exists>r\<in>set ((ss(kk := (ss kk)[i := sk_next k])) (scope_key (sd_scope d))). sr_id r = sd_specRevisionId d"
      by (metis imageE)
  qed
qed

lemma due_decision_decided:
  assumes "due_decision_fine ss c" and "ss kk \<noteq> []"
  shows "due_decision_fine (ss(kk := butlast (ss kk) @ [decided_revision d at (last (ss kk))])) c"
  using assms spec_lists.read_decided[of "ss kk" "sk_current c" "(d, at)"]
  by (auto simp: due_decision_fine_def Let_def)

lemma step_committed:
  assumes ok: "specs_ok env f" and k: "k \<in> set (due_spec_decisions f)"
    and com: "commitSpecApproval k (spec_repo (spec_store f)) = (res, repo)"
  shows "specs_ok env (f\<lparr>spec_store := (spec_store f)\<lparr>spec_repo := repo\<rparr>,
      due_spec_decisions := remove1 k (due_spec_decisions f)\<rparr>)"
  using com
proof (cases rule: commitSpecApproval_cases)
  case unchanged
  with ok show ?thesis by (auto simp: specs_ok_def dest: notin_set_remove1)
next
  case (decided i)
  let ?g = "f\<lparr>spec_store := (spec_store f)\<lparr>spec_repo := repo\<rparr>,
      due_spec_decisions := remove1 k (due_spec_decisions f)\<rparr>"
  define kk where "kk = scope_key (sr_scope (sk_current k))"
  from ok k have fine: "specs_fine env (spec_artifacts (spec_store f)) (spec_log f) (specs_under f)"
    and due: "due_decision_fine (specs_under f) k" by (simp_all add: specs_ok_def)
  note d = decided(2-4)[unfolded revisions_at_under, folded kk_def]
  note upd = specs_fine_decided[OF fine due kk_def d]
  have under: "specs_under ?g = (specs_under f)(kk := (specs_under f kk)[i := sk_next k])"
    using decided(6) by (auto simp: specs_under_def kk_def revisions_at_def fun_eq_iff)
  have log: "spec_log ?g = spec_log f @ [sk_decision k]" using decided(6) by simp
  from upd(3) obtain at where at: "sk_next k = decided_revision (sd_decision (sk_decision k)) at (last (specs_under f kk))"
    by blast
  have "specs_under ?g = (specs_under f)
      (kk := butlast (specs_under f kk) @ [decided_revision (sd_decision (sk_decision k)) at (last (specs_under f kk))])"
    unfolding under upd(2) by (simp only: at)
  then have "due_decision_fine (specs_under ?g) c" if "due_decision_fine (specs_under f) c" for c
    using due_decision_decided[OF that upd(1)] by metis
  moreover have "specs_fine env (spec_artifacts (spec_store ?g)) (spec_log ?g) (specs_under ?g)"
    using upd(4) unfolding under log by simp
  moreover have "set (due_spec_decisions ?g) \<subseteq> set (due_spec_decisions f)" by (simp add: set_remove1_subset)
  ultimately show ?thesis
    using ok unfolding specs_ok_def by (simp, blast)
qed

lemma specs_ok_step: "spec_step env f g \<Longrightarrow> specs_ok env f \<Longrightarrow> specs_ok env g"
  by (erule spec_step.cases)
    (auto intro: step_planned step_stored step_appended step_judged step_committed)

lemma specs_ok_start: "specs_ok env no_specs"
  by (simp add: specs_ok_def no_specs_def specs_fine_def list_fine_def spec_chain_def new_spec_repository_def
      specs_under_def)

lemma specs_ok_reachable: "(spec_step env)\<^sup>*\<^sup>* no_specs f \<Longrightarrow> specs_ok env f"
  by (induction rule: rtranclp_induct) (auto intro: specs_ok_start specs_ok_step)

section \<open>What holds of every specification\<close>

text \<open>The revision that \<open>get\<close> finds is the first with its id.\<close>

lemma find_first:
  assumes "List.find P xs = Some x"
  shows "\<exists>j<length xs. xs ! j = x \<and> P x \<and> (\<forall>i<j. \<not> P (xs ! i))"
  using assms by (auto simp: find_Some_iff)

lemma got_revision:
  assumes "specs_ok env f" "get_revision scope i (spec_repo (spec_store f)) = Some r" "plain_scope scope"
  shows "sr_scope r = scope" "sr_id r = i" "generated_fine env (spec_artifacts (spec_store f)) r"
    "history_fine (spec_log f) r" "decision_timeline scope i (spec_repo (spec_store f)) = decisions_on (spec_log f) r"
proof -
  let ?rs = "specs_under f (scope_key scope)"
  from find_first[of "\<lambda>r. sr_id r = i" ?rs r] assms(2) obtain j where
    j: "j < length ?rs" "?rs ! j = r" "sr_id r = i" "\<forall>k<j. sr_id (?rs ! k) \<noteq> i"
    by (auto simp: get_revision_def revisions_at_under)
  from assms(1) have lf: "list_fine env (spec_artifacts (spec_store f)) (spec_log f) (scope_key scope) ?rs"
    by (simp add: specs_ok_def specs_fineD)
  from j have "r \<in> set ?rs" by auto
  from list_fineD(2)[OF lf this] show g: "generated_fine env (spec_artifacts (spec_store f)) r"
    and s: "sr_scope r = scope"
    using plain_scope_key assms(3) by (auto simp: generated_fine_def)
  show "sr_id r = i" by (rule j(3))
  have "first_with_id ?rs j" using j by (simp add: first_with_id_def)
  from list_fineD(3)[OF lf j(1) this] j(2) show "history_fine (spec_log f) r" by simp
  have "organizationId a = organizationId b \<and> projectId a = projectId b \<and> goalId a = goalId b \<longleftrightarrow> a = b"
    for a b :: goal_scope by (metis goal_scope.equality unit.exhaust goal_scope.surjective)
  then show "decision_timeline scope i (spec_repo (spec_store f)) = decisions_on (spec_log f) r"
    unfolding decision_timeline_def decisions_on_def s j(3) by (metis (mono_tags, lifting))
qed

lemma review_ids:
  assumes "reviewed_bundle env r b"
  shows "distinct (map item_elementId (items (sr_overdesignReview r)))"
  using assms
  by (auto simp: reviewed_bundle_def clean_bundle_def classifySolutionElements_def Let_def review_item_def o_def)

lemma partitioned_ids:
  assumes "distinct (map f xs)"
  shows "distinct (map f (filter P xs) @ map f (filter (\<lambda>x. f x \<notin> set (map f (filter P xs))) xs))"
    "set (map f (filter P xs)) \<union> set (map f (filter (\<lambda>x. f x \<notin> set (map f (filter P xs))) xs)) = set (map f xs)"
  using assms by (auto simp: distinct_map inj_on_def)

definition kept_and_removed :: "overdesign_review_item list \<Rightarrow> spec_decision_record \<Rightarrow> bool" where
  "kept_and_removed is d \<longleftrightarrow>
     distinct (sd_retainedElementIds d @ sd_removedElementIds d) \<and>
     set (sd_retainedElementIds d) \<union> set (sd_removedElementIds d) = item_elementId ` set is \<and>
     (\<forall>i\<in>set is. item_elementId i \<in> set (sd_retainedElementIds d) \<longleftrightarrow>
        item_category i = Required \<or>
        item_category i = Helpful \<and> item_elementId i \<in> set (sd_helpfulExceptionElementIds d))"

lemma approval_keeps:
  assumes "record_fine r d" "sd_decision d = Approve_spec" "reviewed_bundle env r b"
  shows "kept_and_removed (items (sr_overdesignReview r)) d"
proof -
  let ?is = "items (sr_overdesignReview r)" and ?ex = "set (sd_helpfulExceptionElementIds d)"
  note dist = review_ids[OF assms(3)]
  have inj: "i = j" if "i \<in> set ?is" "j \<in> set ?is" "item_elementId i = item_elementId j" for i j
    using dist that by (auto simp: distinct_map inj_on_def)
  from assms(1) have ex: "?ex \<subseteq> set (element_ids_of Helpful ?is)"
    and ret: "sd_retainedElementIds d = map item_elementId (filter (\<lambda>i.
        item_elementId i \<in> set (element_ids_of Required ?is) \<or> item_elementId i \<in> ?ex) ?is)"
    and rem: "sd_removedElementIds d = map item_elementId (filter (\<lambda>i.
        item_elementId i \<notin> set (sd_retainedElementIds d)) ?is)"
    using assms(2) by (auto simp: record_fine_def Let_def retained_elements_def removed_elements_def)
  have "item_elementId i \<in> set (sd_retainedElementIds d) \<longleftrightarrow>
      item_category i = Required \<or> item_category i = Helpful \<and> item_elementId i \<in> ?ex" if "i \<in> set ?is" for i
  proof -
    have "item_elementId i \<in> set (element_ids_of c ?is) \<longleftrightarrow> item_category i = c" for c
      using that inj by (auto simp: element_ids_of_def)
    then have "item_category i = Helpful" if "item_elementId i \<in> ?ex" using ex that by blast
    with that \<open>\<And>c. (item_elementId i \<in> set (element_ids_of c ?is)) = (item_category i = c)\<close>
    show ?thesis unfolding ret by (auto dest: inj)
  qed
  then show ?thesis
    unfolding kept_and_removed_def
    using partitioned_ids[OF dist, of "\<lambda>i. item_elementId i \<in> set (element_ids_of Required ?is) \<or> item_elementId i \<in> ?ex"]
    by (simp add: rem flip: ret)
qed

text \<open>A revision can be loaded, and the bundle has the digest the revision names.\<close>

lemma loads:
  assumes "specs_ok env f" "generated_fine env (spec_artifacts (spec_store f)) r"
  shows "\<exists>a. load_revision (spec_artifacts (spec_store f)) r = Inr (r, a) \<and> clean_bundle (art_content a) \<and>
    sha256Hex env (canonicalJson (localeCompare env) (bundle_json (art_content a))) = sr_artifactDigest r"
proof -
  from assms(2) obtain a where a: "spec_artifacts (spec_store f) (sr_artifactRef r) = Some a"
    "art_digest a = sr_artifactDigest r" by (auto simp: generated_fine_def)
  from assms(1) have "stored_artifact env (sr_artifactRef r) a"
    unfolding specs_ok_def using specs_fineD(3) a(1) by blast
  then obtain b where b: "clean_bundle b" "art_content a = bundle_json b"
    "art_digest a = sha256Hex env (canonicalJson (localeCompare env) (bundle_json b))"
    by (auto simp: stored_artifact_def)
  with a clean_bundle_accepted[OF b(1)] show ?thesis
    by (simp add: load_revision_def get_artifact_def Let_def)
qed

text \<open>
  Property C25. The status and version of a revision are what its recorded decisions make of it:
  none for a draft, its submission for a revision in review, and one more decision, which may
  approve, reject or send back, for a settled one. Each decision was made on the version it names,
  under the policy of the review, about elements of the review, and lists changes of scope only
  when it sends the revision back.
\<close>

theorem spec_status_is_its_decisions:
  assumes "(spec_step env)\<^sup>*\<^sup>* no_specs f" and "plain_scope scope"
    and "get_revision scope i (spec_repo (spec_store f)) = Some r"
  shows "let ds = decision_timeline scope i (spec_repo (spec_store f)) in
    life (map sd_decision ds) (sr_status r) \<and> sr_version r = length ds + 1 \<and>
    map sd_subjectVersion ds = [1..<sr_version r] \<and> (\<forall>d\<in>set ds. record_fine r d)"
  using got_revision[OF specs_ok_reachable[OF assms(1)] assms(3,2)] by (simp add: history_fine_def Let_def)

text \<open>
  Property C24. An approved specification was submitted and then approved, each once. The approval
  divides the elements of the design into kept and removed ones: it keeps every element that a
  criterion of the Goal requires, none that is speculative, and of the helpful ones those the
  approver named. Its bundle can be loaded, is valid, and has the digest the revision names.
\<close>

theorem approved_specs_keep_what_is_required:
  assumes "(spec_step env)\<^sup>*\<^sup>* no_specs f" and "plain_scope scope"
    and "get_revision scope i (spec_repo (spec_store f)) = Some r" and "sr_status r = Spec_approved"
  shows "(\<exists>s a. decision_timeline scope i (spec_repo (spec_store f)) = [s, a] \<and>
      sd_decision s = Submit_for_review \<and> sd_decision a = Approve_spec \<and>
      kept_and_removed (items (sr_overdesignReview r)) a) \<and>
    (\<exists>a. load_revision (spec_artifacts (spec_store f)) r = Inr (r, a) \<and> clean_bundle (art_content a) \<and>
      sha256Hex env (canonicalJson (localeCompare env) (bundle_json (art_content a))) = sr_artifactDigest r)"
proof -
  note ok = specs_ok_reachable[OF assms(1)]
  note r = got_revision[OF ok assms(3,2)]
  let ?ds = "decision_timeline scope i (spec_repo (spec_store f))"
  from r(4,5) assms(4) have l: "life (map sd_decision ?ds) Spec_approved" "\<forall>d\<in>set ?ds. record_fine r d"
    by (simp_all add: history_fine_def)
  from l(1) have "map sd_decision ?ds = [Submit_for_review, Approve_spec]"
    by (auto simp: life_def spec_next_status_def split: if_splits)
  then obtain s a where ds: "?ds = [s, a]" "sd_decision s = Submit_for_review" "sd_decision a = Approve_spec"
    by (auto simp: map_eq_Cons_conv)
  from r(3) obtain b where "reviewed_bundle env r b" by (auto simp: generated_fine_def)
  with approval_keeps[OF _ ds(3)] l(2) ds(1) have "kept_and_removed (items (sr_overdesignReview r)) a" by simp
  with ds loads[OF ok r(3)] show ?thesis by simp
qed

section \<open>How the list of revisions changes\<close>

lemma committed_change:
  assumes "specs_ok env f" "k \<in> set (due_spec_decisions f)"
    "commitSpecApproval k (spec_repo (spec_store f)) = (res, repo)"
  shows "sp_revisions repo = sp_revisions (spec_repo (spec_store f)) \<or>
    (\<exists>kk at. let rs = specs_under f kk; d = sd_decision (sk_decision k) in
       rs \<noteq> [] \<and> sr_status (last rs) = expected_status d \<and>
       sp_revisions repo = (sp_revisions (spec_repo (spec_store f)))
         (kk \<mapsto> butlast rs @ [decided_revision d at (last rs)]))"
  using assms(3)
proof (cases rule: commitSpecApproval_cases)
  case (decided i)
  define kk where "kk = scope_key (sr_scope (sk_current k))"
  from assms(1,2) have fine: "specs_fine env (spec_artifacts (spec_store f)) (spec_log f) (specs_under f)"
    and due: "due_decision_fine (specs_under f) k" by (simp_all add: specs_ok_def)
  note d = decided(2-4)[unfolded revisions_at_under, folded kk_def]
  note upd = specs_fine_decided[OF fine due kk_def d]
  from due have c: "read_from sr_id sr_version (specs_under f kk) (sk_current k)"
    "sk_expectedVersion k = int (sr_version (sk_current k))"
    "sr_status (sk_current k) = expected_status (sd_decision (sk_decision k))"
    by (simp_all add: due_decision_fine_def Let_def kk_def)
  have "sr_version (specs_under f kk ! i) = sr_version (sk_current k)" using d(3) c(2) by simp
  from spec_lists.committed_is_current(2)[OF c(1) d(1,2) this] c(3)
  have st: "sr_status (last (specs_under f kk)) = expected_status (sd_decision (sk_decision k))" by simp
  from upd(3) obtain at where at: "sk_next k = decided_revision (sd_decision (sk_decision k)) at (last (specs_under f kk))"
    by blast
  have "sp_revisions repo = (sp_revisions (spec_repo (spec_store f)))
      (kk \<mapsto> (specs_under f kk)[i := sk_next k])"
    using decided(6) by (simp add: kk_def revisions_at_under)
  then have "sp_revisions repo = (sp_revisions (spec_repo (spec_store f)))
      (kk \<mapsto> butlast (specs_under f kk) @ [sk_next k])" by (simp only: upd(2))
  then have "sp_revisions repo = (sp_revisions (spec_repo (spec_store f)))
      (kk \<mapsto> butlast (specs_under f kk) @ [decided_revision (sd_decision (sk_decision k)) at (last (specs_under f kk))])"
    by (simp only: at)
  with upd(1) st show ?thesis unfolding Let_def by blast
qed simp

text \<open>
  The revisions of a specification are numbered from one and each names the one before
  it. A step leaves them alone, appends a draft, or decides the last one: it submits a draft, or
  settles a revision in review. So settled revisions and all but the last never change.
\<close>

theorem spec_history_is_append_only:
  assumes "(spec_step env)\<^sup>*\<^sup>* no_specs f" and "spec_step env f g"
  shows "spec_chain (specs_under g k) \<and>
    (specs_under g k = specs_under f k \<or>
     (\<exists>r. specs_under g k = specs_under f k @ [r] \<and> sr_status r = Spec_draft \<and> sr_version r = 1) \<or>
     (\<exists>d at. specs_under f k \<noteq> [] \<and> sr_status (last (specs_under f k)) = expected_status d \<and>
        specs_under g k = butlast (specs_under f k) @ [decided_revision d at (last (specs_under f k))]))"
proof
  note ok = specs_ok_reachable[OF assms(1)]
  have "specs_ok env g" by (rule specs_ok_step[OF assms(2) ok])
  then show "spec_chain (specs_under g k)"
    using list_fineD(1) specs_fineD(1) unfolding specs_ok_def by blast
  show "specs_under g k = specs_under f k \<or>
     (\<exists>r. specs_under g k = specs_under f k @ [r] \<and> sr_status r = Spec_draft \<and> sr_version r = 1) \<or>
     (\<exists>d at. specs_under f k \<noteq> [] \<and> sr_status (last (specs_under f k)) = expected_status d \<and>
        specs_under g k = butlast (specs_under f k) @ [decided_revision d at (last (specs_under f k))])"
    using assms(2)
  proof cases
    case (appended r res repo)
    from ok appended(2) have due: "sr_status r = Spec_draft" "sr_version r = 1"
      by (simp_all add: specs_ok_def revision_due_def)
    from appended(3) show ?thesis
    proof (cases rule: append_revision_cases)
      case refused
      with appended(1) show ?thesis by (simp add: specs_under_def)
    next
      case done_so
      then have "sp_revisions repo = (sp_revisions (spec_repo (spec_store f)))
          (scope_key (sr_scope r) \<mapsto> specs_under f (scope_key (sr_scope r)) @ [r])"
        by (simp add: revisions_at_under)
      with appended(1) due show ?thesis
        by (cases "k = scope_key (sr_scope r)") (simp_all add: specs_under_def)
    qed
  next
    case (committed kk res repo)
    from committed_change[OF ok committed(2,3)] consider "sp_revisions repo = sp_revisions (spec_repo (spec_store f))"
      | q d at where "specs_under f q \<noteq> []" "sr_status (last (specs_under f q)) = expected_status d"
        "sp_revisions repo = (sp_revisions (spec_repo (spec_store f)))
           (q \<mapsto> butlast (specs_under f q) @ [decided_revision d at (last (specs_under f q))])"
      unfolding Let_def by blast
    then show ?thesis
    proof cases
      case 1
      with committed(1) show ?thesis by (simp add: specs_under_def)
    next
      case (2 q d at)
      then have "specs_under g k = (if k = q then butlast (specs_under f q) @
          [decided_revision d at (last (specs_under f q))] else specs_under f k)"
        using committed(1) by (simp add: specs_under_def)
      with 2(1,2) show ?thesis by auto
    qed
  qed (simp_all add: specs_under_def)
qed

text \<open>
  Deciding is idempotent: once a decision with a given lookup was recorded, the same
  command is answered with the receipt of that decision and changes nothing, whatever was
  generated or decided in between.
\<close>

theorem spec_decision_takes_effect_once:
  assumes "decide_spec env x c repo = (Inr receipt, repo1)"
    and "spec_moves\<^sup>*\<^sup>* repo1 repo2"
    and "spec_looks_up env x' c' = spec_looks_up env x c"
  shows "decide_spec env x' c' repo2 = (Inr receipt, repo2)"
  using assms by (rule spec_approvals.at_most_once)

end
