(* ===== verification/Planning_Pipeline.thy ===== *)
theory Planning_Pipeline
  imports Issue_Generation Issue_Plan_Safety Spec_Approval_Safety
begin

text \<open>
  Specifications and Issue plans together: the two systems of requests in flight, joined by the
  generation of an Issue plan from an approved specification. Every Issue plan of the repository
  comes from a specification that was approved, at the version and with the digest it names.
\<close>

section \<open>The joint system\<close>

record pipeline =
  pl_specs :: specs_in_flight
  pl_plans :: plans_in_flight
  pl_due :: "create_draft_command list"

text \<open>
  The Issue plan service is called by the generation and by the remediation of gaps, which takes the
  source of the plan that failed; every other step of it revises, appends or decides.
\<close>

definition remediates :: "plan_repository \<Rightarrow> create_draft_command \<Rightarrow> bool" where
  "remediates repo c \<longleftrightarrow> (\<exists>i p. get_plan (cd_scope c) i repo = Some p \<and> cd_source c = plan_source p)"

definition drafts_nothing :: "plan_environment \<Rightarrow> plans_in_flight \<Rightarrow> plans_in_flight \<Rightarrow> bool" where
  "drafts_nothing env f g \<longleftrightarrow> (\<forall>a\<in>set (due_appends g). a \<in> set (due_appends f) \<or>
     (\<exists>x c. prepare_revision env x c (plan_store f) = Inr a))"

inductive pipeline_step :: "plan_environment \<Rightarrow> pipeline \<Rightarrow> pipeline \<Rightarrow> bool" for env where
  spec_moved: "spec_step env (pl_specs f) s \<Longrightarrow> pipeline_step env f (f\<lparr>pl_specs := s\<rparr>)"
| source_read: "prepare_issue_generation x c ws (spec_store (pl_specs f)) = Inr command \<Longrightarrow>
    plain_scope (igc_scope c) \<Longrightarrow>
    pipeline_step env f (f\<lparr>pl_due := command # pl_due f\<rparr>)"
| drafted: "command \<in> set (pl_due f) \<or> remediates (plan_store (pl_plans f)) command \<and> plain_scope (cd_scope command) \<Longrightarrow>
    prepare_draft env px command (plan_store (pl_plans f)) = Inr a \<Longrightarrow>
    pipeline_step env f (f\<lparr>pl_plans := (pl_plans f)\<lparr>due_appends := a # due_appends (pl_plans f)\<rparr>,
      pl_due := remove1 command (pl_due f)\<rparr>)"
| plan_moved: "plan_step env (pl_plans f) p \<Longrightarrow> drafts_nothing env (pl_plans f) p \<Longrightarrow>
    pipeline_step env f (f\<lparr>pl_plans := p\<rparr>)"

definition empty_pipeline :: pipeline where
  "empty_pipeline = \<lparr>pl_specs = no_specs, pl_plans = no_plans, pl_due = []\<rparr>"

section \<open>Where a plan comes from\<close>

definition comes_from ::
  "plan_environment \<Rightarrow> (string \<Rightarrow> spec_revision list) \<Rightarrow> string \<Rightarrow> issue_plan_source \<Rightarrow> bool" where
  "comes_from env ss k src \<longleftrightarrow> (\<exists>r\<in>set (ss k). \<exists>b gl.
     sr_status r = Spec_approved \<and> clean_bundle b \<and>
     sr_artifactDigest r = sha256Hex env (canonicalJson (localeCompare env) (bundle_json b)) \<and>
     src = generated_source gl r b)"

definition pipeline_fine :: "plan_environment \<Rightarrow> pipeline \<Rightarrow> bool" where
  "pipeline_fine env f \<longleftrightarrow>
     (\<forall>k. \<forall>p\<in>set (plans_under (pl_plans f) k). comes_from env (specs_under (pl_specs f)) k (plan_source p)) \<and>
     (\<forall>(p, q)\<in>set (due_appends (pl_plans f)).
        comes_from env (specs_under (pl_specs f)) (scope_key (plan_scope p)) (plan_source p)) \<and>
     (\<forall>c\<in>set (pl_due f). comes_from env (specs_under (pl_specs f)) (scope_key (cd_scope c)) (cd_source c))"

lemma pipeline_parts:
  "(pipeline_step env)\<^sup>*\<^sup>* empty_pipeline f \<Longrightarrow>
     (spec_step env)\<^sup>*\<^sup>* no_specs (pl_specs f) \<and> (plan_step env)\<^sup>*\<^sup>* no_plans (pl_plans f)"
proof (induction rule: rtranclp_induct)
  case base
  show ?case by (simp add: empty_pipeline_def)
next
  case (step f g)
  from step(2,3) show ?case
  proof cases
    case (spec_moved s)
    with step(3) rtranclp.rtrancl_into_rtrancl[OF conjunct1[OF step(3)] spec_moved(2)] show ?thesis by simp
  next
    case (drafted command px a)
    with step(3) rtranclp.rtrancl_into_rtrancl[OF conjunct2[OF step(3)] plan_step.due_draft[OF drafted(3)]]
    show ?thesis by simp
  next
    case (plan_moved p)
    with step(3) rtranclp.rtrancl_into_rtrancl[OF conjunct2[OF step(3)] plan_moved(2)] show ?thesis by simp
  qed simp
qed

text \<open>An approved revision stays.\<close>

lemma comes_from_step:
  assumes "(spec_step env)\<^sup>*\<^sup>* no_specs f" "spec_step env f g" "comes_from env (specs_under f) k src"
  shows "comes_from env (specs_under g) k src"
proof -
  from assms(3) obtain r b gl where r: "r \<in> set (specs_under f k)" "sr_status r = Spec_approved" "clean_bundle b"
    "sr_artifactDigest r = sha256Hex env (canonicalJson (localeCompare env) (bundle_json b))"
    "src = generated_source gl r b" unfolding comes_from_def by blast
  have "r \<in> set (specs_under g k)"
  proof -
    consider "specs_under g k = specs_under f k" | q where "specs_under g k = specs_under f k @ [q]"
      | d at where "specs_under f k \<noteq> []" "sr_status (last (specs_under f k)) = expected_status d"
        "specs_under g k = butlast (specs_under f k) @ [decided_revision d at (last (specs_under f k))]"
      using spec_history_is_append_only[OF assms(1,2), of k] by blast
    then show ?thesis
    proof cases
      case (3 d at)
      then have "r \<noteq> last (specs_under f k)"
        using r(2) by (auto simp: expected_status_def split: if_splits)
      with r(1) 3(1) have "r \<in> set (butlast (specs_under f k))"
        by (metis UnE append_butlast_last_id empty_iff insert_iff list.simps(15) list.set(1) set_append)
      with 3 show ?thesis by simp
    qed (use r(1) in simp_all)
  qed
  with r show ?thesis unfolding comes_from_def by blast
qed

lemma prepared_source:
  assumes "specs_ok env s" "prepare_issue_generation x c ws (spec_store s) = Inr command"
  shows "comes_from env (specs_under s) (scope_key (cd_scope command)) (cd_source command)"
proof -
  from assms(2) obtain gl r b where src: "approved_source c ws (spec_store s) = Inr (gl, r, b)"
    and cmd: "cd_scope command = igc_scope c" "cd_source command = generated_source gl r b"
    by (auto simp: prepare_issue_generation_def result_simps split: if_splits)
  from src obtain a where r: "get_revision (igc_scope c) (igc_specRevisionId c) (spec_repo (spec_store s)) = Some r"
    "sr_status r = Spec_approved" and a: "get_artifact (sr_artifactRef r) (spec_artifacts (spec_store s)) = Some a"
    "art_digest a = sr_artifactDigest r" "validateSpecBundle (art_content a) = Inr b"
    by (auto simp: approved_source_def Let_def and_then_eq_Inr split: option.splits if_splits)
  have "stored_artifact env (sr_artifactRef r) a"
    using assms(1) a(1) specs_fineD(3) unfolding specs_ok_def get_artifact_def by blast
  then obtain b' where b': "clean_bundle b'" "art_content a = bundle_json b'"
    "art_digest a = sha256Hex env (canonicalJson (localeCompare env) (bundle_json b'))"
    by (auto simp: stored_artifact_def)
  with a(3) clean_bundle_accepted[OF b'(1)] have "b' = b" by simp
  with b' a(2) have b: "clean_bundle b"
    "sr_artifactDigest r = sha256Hex env (canonicalJson (localeCompare env) (bundle_json b))" by simp_all
  have "r \<in> set (specs_under s (scope_key (igc_scope c)))"
    using find_SomeD[OF r(1)[unfolded get_revision_def revisions_at_under]] by simp
  with r(2) b cmd show ?thesis unfolding comes_from_def by auto
qed

text \<open>What the plan service keeps of a source.\<close>

lemma build_source:
  "build env now i scope source ds previous runId config overrides = Inr p \<Longrightarrow>
     plan_source p = source \<and> plan_scope p = scope"
  by (auto simp: build_def Let_def result_simps)

lemma prepare_draft_source:
  "prepare_draft env x c repo = Inr (p, q) \<Longrightarrow> plan_source p = cd_source c \<and> plan_scope p = cd_scope c"
  by (auto simp: prepare_draft_def Let_def result_simps dest!: build_source)

lemma get_plan_member: "get_plan scope i (plan_store f) = Some p \<Longrightarrow> p \<in> set (plans_under f (scope_key scope))"
  by (auto simp: get_plan_def plans_at_under dest: find_SomeD)

lemma prepare_revision_source:
  assumes "prepare_revision env x c (plan_store f) = Inr (p, q)"
  shows "\<exists>old\<in>set (plans_under f (scope_key (plan_scope p))). plan_source p = plan_source old"
proof -
  from assms obtain current where g: "get_plan (rv_scope c) (rv_planId c) (plan_store f) = Some current"
    and p: "plan_source p = plan_source current" "plan_scope p = rv_scope c"
    by (auto simp: prepare_revision_def Let_def result_simps dest!: build_source split: option.splits if_splits)
  from get_plan_member[OF g] p show ?thesis by auto
qed

lemma plan_step_sources:
  assumes "plans_ok env f" "plan_step env f g" "p \<in> set (plans_under g k)"
  shows "(\<exists>old\<in>set (plans_under f k). plan_source p = plan_source old) \<or>
    (\<exists>q. (p, q) \<in> set (due_appends f) \<and> scope_key (plan_scope p) = k)"
  using assms(2)
proof cases
  case (append p' previous r repo)
  from append_effect[OF assms(1) append(2,3)] append(1) assms(3) show ?thesis
  proof (elim disjE conjE)
    assume *: "plans repo = (plans (plan_store f))(scope_key (plan_scope p') \<mapsto>
        plans_under f (scope_key (plan_scope p')) @ [p'])"
    have "plans_under g k = (if k = scope_key (plan_scope p') then plans_under f k @ [p'] else plans_under f k)"
      using plans_under_step[of g f "scope_key (plan_scope p')"] * append(1) by simp
    with assms(3) append(2) show ?thesis by (auto split: if_splits)
  qed (auto simp: plans_under_def)
next
  case (decide c r' repo)
  from decide_effect[OF assms(1) decide(2,3)] show ?thesis
  proof (elim disjE exE conjE)
    fix q qs assume *: "plans repo = (plans (plan_store f))(q \<mapsto> qs)" "decides_last (plans_under f q) qs"
    have u: "plans_under g k = (if k = q then qs else plans_under f k)"
      using plans_under_step[of g f q qs] *(1) decide(1) by simp
    from *(2) obtain d at where l: "plans_under f q \<noteq> []"
      "qs = butlast (plans_under f q) @ [decided_plan d at (last (plans_under f q))]"
      unfolding decides_last_def by blast
    show ?thesis
    proof (cases "k = q")
      case True
      with u l assms(3) have "p \<in> set (plans_under f q) \<or> p = decided_plan d at (last (plans_under f q))"
        by (auto dest: in_set_butlastD)
      with True l(1) show ?thesis by (auto simp: decided_plan_def)
    qed (use u assms(3) in auto)
  qed (use decide(1) assms(3) in \<open>auto simp: plans_under_def\<close>)
qed (use assms(3) in \<open>auto simp: plans_under_def\<close>)

lemma pipeline_step_fine:
  assumes "pipeline_step env f g" "pipeline_fine env f"
    and specs: "(spec_step env)\<^sup>*\<^sup>* no_specs (pl_specs f)" and plans: "(plan_step env)\<^sup>*\<^sup>* no_plans (pl_plans f)"
  shows "pipeline_fine env g"
  using assms(1)
proof cases
  case (spec_moved s)
  have "comes_from env (specs_under s) k src" if "comes_from env (specs_under (pl_specs f)) k src" for k src
    by (rule comes_from_step[OF specs spec_moved(2) that])
  with assms(2) show ?thesis unfolding spec_moved(1) pipeline_fine_def by fastforce
next
  case (source_read x c ws command)
  from prepared_source[OF specs_ok_reachable[OF specs] source_read(2)] assms(2)
  show ?thesis unfolding source_read(1) pipeline_fine_def by simp
next
  case (drafted command px a)
  obtain p q where a: "a = (p, q)" by (cases a)
  from drafted(2) have "comes_from env (specs_under (pl_specs f)) (scope_key (cd_scope command)) (cd_source command)"
  proof
    assume "command \<in> set (pl_due f)"
    with assms(2) show ?thesis unfolding pipeline_fine_def by blast
  next
    assume "remediates (plan_store (pl_plans f)) command \<and> plain_scope (cd_scope command)"
    then obtain i old where "get_plan (cd_scope command) i (plan_store (pl_plans f)) = Some old"
      "cd_source command = plan_source old" unfolding remediates_def by blast
    with get_plan_member[of "cd_scope command" i "pl_plans f" old] assms(2) show ?thesis
      unfolding pipeline_fine_def by simp
  qed
  with prepare_draft_source[of env px command _ p q] drafted(3) a
  have new: "comes_from env (specs_under (pl_specs f)) (scope_key (plan_scope p)) (plan_source p)" by simp
  have "plans_under ((pl_plans f)\<lparr>due_appends := as\<rparr>) = plans_under (pl_plans f)" for as
    by (simp add: plans_under_def fun_eq_iff)
  with assms(2) new show ?thesis unfolding drafted(1) pipeline_fine_def a
    by (auto dest: notin_set_remove1)
next
  case (plan_moved p)
  let ?ss = "specs_under (pl_specs f)"
  have "comes_from env ?ss k (plan_source q)" if "q \<in> set (plans_under p k)" for q k
    using plan_step_sources[OF plans_ok_reachable[OF plans] plan_moved(2) that] assms(2)
    unfolding pipeline_fine_def by fastforce
  moreover have "comes_from env ?ss (scope_key (plan_scope q)) (plan_source q)" if "(q, pr) \<in> set (due_appends p)" for q pr
  proof -
    from that plan_moved(3) consider "(q, pr) \<in> set (due_appends (pl_plans f))"
      | x c where "prepare_revision env x c (plan_store (pl_plans f)) = Inr (q, pr)"
      unfolding drafts_nothing_def by blast
    then show ?thesis
    proof cases
      case 1
      with assms(2) show ?thesis unfolding pipeline_fine_def by blast
    next
      case (2 x c)
      from prepare_revision_source[OF 2] assms(2) show ?thesis unfolding pipeline_fine_def by fastforce
    qed
  qed
  ultimately show ?thesis using assms(2) unfolding plan_moved(1) pipeline_fine_def by auto
qed

lemma pipeline_fine_reachable: "(pipeline_step env)\<^sup>*\<^sup>* empty_pipeline f \<Longrightarrow> pipeline_fine env f"
proof (induction rule: rtranclp_induct)
  case base
  show ?case by (simp add: pipeline_fine_def empty_pipeline_def no_plans_def plans_under_def)
next
  case (step f g)
  from pipeline_parts[OF step(1)] pipeline_step_fine[OF step(2,3)] show ?case by blast
qed

text \<open>
  Property C4. Every Issue plan, in any interleaving of requests to both services, names a
  specification of its own scope that is approved, at its version and with the digest of its bundle;
  it is compiled against the requirements of that bundle, and an approved plan covers each of them.
\<close>

theorem issue_plans_come_from_approved_specs:
  assumes "(pipeline_step env)\<^sup>*\<^sup>* empty_pipeline f" and "p \<in> set (plans_under (pl_plans f) k)"
  shows "\<exists>r\<in>set (specs_under (pl_specs f) k). \<exists>b. sr_status r = Spec_approved \<and> clean_bundle b \<and>
    specRevisionId (plan_source p) = sr_id r \<and> specRevisionVersion (plan_source p) = sr_version r \<and>
    specArtifactDigest (plan_source p) = sr_artifactDigest r \<and>
    sr_artifactDigest r = sha256Hex env (canonicalJson (localeCompare env) (bundle_json b)) \<and>
    map requirement_id (source_requirements (plan_source p)) = map req_id (spec_prd.requirements (prd b)) \<and>
    (plan_status p = Plan_approved \<longrightarrow> plan_ok (plan_input p))"
proof -
  from pipeline_fine_reachable[OF assms(1)] assms(2) obtain r b gl where
    "r \<in> set (specs_under (pl_specs f) k)" "sr_status r = Spec_approved" "clean_bundle b"
    "sr_artifactDigest r = sha256Hex env (canonicalJson (localeCompare env) (bundle_json b))"
    "plan_source p = generated_source gl r b" unfolding pipeline_fine_def comes_from_def by blast
  moreover have "plan_status p = Plan_approved \<longrightarrow> plan_ok (plan_input p)"
  proof
    assume ap: "plan_status p = Plan_approved"
    have "plans_ok env (pl_plans f)" using pipeline_parts[OF assms(1)] plans_ok_reachable by blast
    from plans_okD(2)[OF this assms(2)] have "built_plan env p" "complete_plan p"
      using ap by (simp_all add: plan_fine_def)
    with built_complete[of env p] show "plan_ok (plan_input p)"
      by (simp add: built_plan_def plan_input_def flip: compiled_valid_iff)
  qed
  ultimately show ?thesis by (force simp: generated_source_def)
qed

end
