(* ===== verification/Spec_Sample.thy ===== *)
theory Spec_Sample
  imports Spec_Approval_Safety
begin

text \<open>
  A specification that is generated, submitted and approved: the run that shows that the
  hypotheses of the theorems about specifications can hold.
\<close>

definition generate_now ::
  "plan_environment \<Rightarrow> spec_call \<Rightarrow> generation_command \<Rightarrow> workspace_repository \<Rightarrow> specs_in_flight \<Rightarrow> specs_in_flight" where
  "generate_now env x c ws f = f\<lparr>spec_store := snd (generate env x c ws (spec_store f))\<rparr>"

definition judge_now ::
  "plan_environment \<Rightarrow> spec_call \<Rightarrow> spec_approval_command \<Rightarrow> specs_in_flight \<Rightarrow> specs_in_flight" where
  "judge_now env x c f =
     f\<lparr>spec_store := (spec_store f)\<lparr>spec_repo := snd (decide_spec env x c (spec_repo (spec_store f)))\<rparr>\<rparr>"

lemma spec_stores_both [simp]:
  "s\<lparr>spec_artifacts := a, spec_repo := r\<rparr> = \<lparr>spec_repo = r, spec_artifacts = a\<rparr>" for s :: spec_stores
  by (cases s) simp

lemma spec_store_same [simp]:
  "f\<lparr>spec_store := (spec_store f)\<lparr>spec_repo := spec_repo (spec_store f)\<rparr>\<rparr> = f" for f :: specs_in_flight
  by (cases f) simp

text \<open>A service call that nothing interrupts is a sequence of steps.\<close>

lemma generate_now_steps:
  assumes "plain_scope (gc_scope c)"
  shows "(spec_step env)\<^sup>*\<^sup>* f (generate_now env x c ws f)"
proof (cases "prepare_generation x c ws (spec_repo (spec_store f))")
  case (Inl e)
  then show ?thesis by (simp add: generate_now_def generate_def)
next
  case (Inr p)
  obtain g q run b where p: "p = (g, q, run, b)" by (cases p) auto
  obtain r a arts where put: "store_bundle env x c p (spec_artifacts (spec_store f)) = ((r, a), arts)"
    by (metis prod.exhaust)
  obtain res repo where app: "append_revision r (sr_sourceGoalVersion r) (sr_previousRevisionId r)
      (spec_repo (spec_store f)) = (res, repo)" by fastforce
  have v: "sr_sourceGoalVersion r = nat (gc_expectedGoalVersion c)"
    using put Inr p
    by (auto simp: store_bundle_def Let_def generated_revision_def prepare_generation_def result_simps
        split: prod.splits option.splits if_splits)
  let ?f1 = "f\<lparr>due_bundles := (x, c, p) # due_bundles f\<rparr>"
  let ?f2 = "f\<lparr>spec_store := (spec_store f)\<lparr>spec_artifacts := arts\<rparr>, due_revisions := r # due_revisions f\<rparr>"
  have "spec_step env f ?f1" by (rule planned[OF Inr assms])
  moreover have "spec_step env ?f1 ?f2"
    using stored[of x c p ?f1 env r a arts] put by simp
  moreover have "spec_step env ?f2 (generate_now env x c ws f)"
    using appended[of r ?f2 res repo env] app
    by (simp add: generate_now_def generate_def Inr put app[unfolded v] split: sum.splits)
  ultimately show ?thesis
    by (rule converse_rtranclp_into_rtranclp[OF _ converse_rtranclp_into_rtranclp[OF _ r_into_rtranclp]])
qed

lemma judge_now_steps:
  assumes "plain_scope (sc_scope c)"
  shows "(spec_step env)\<^sup>*\<^sup>* f (judge_now env x c f)"
proof (cases "\<exists>k. prepare_spec_decision env x c (spec_repo (spec_store f)) = Inr (Inr k)")
  case True
  then obtain k where k: "prepare_spec_decision env x c (spec_repo (spec_store f)) = Inr (Inr k)" by blast
  let ?f = "f\<lparr>due_spec_decisions := k # due_spec_decisions f\<rparr>"
  have "spec_step env f ?f" by (rule judged[OF k assms])
  moreover have "spec_step env ?f (judge_now env x c f)"
    using committed[of k ?f "fst (commitSpecApproval k (spec_repo (spec_store f)))"
        "snd (commitSpecApproval k (spec_repo (spec_store f)))" env]
    by (simp add: judge_now_def decide_spec_def k)
  ultimately show ?thesis by (rule converse_rtranclp_into_rtranclp[OF _ r_into_rtranclp])
next
  case False
  then have "judge_now env x c f = f"
    by (cases "prepare_spec_decision env x c (spec_repo (spec_store f))")
      (auto simp: judge_now_def decide_spec_def split: sum.splits)
  then show ?thesis by simp
qed

section \<open>The run\<close>

definition sample_goal :: "string goal_contract" where
  "sample_goal = \<lparr>goal_id = ''goal-1'', goal_organizationId = ''org'', goal_projectId = ''project'',
     goal_title = ''Ship it'', problemStatement = ''Slow'', desiredOutcome = ''Fast'',
     acceptanceCriteria = [\<lparr>criterion_id = ''A1'', position = 1, criterion_statement = ''Works'',
       criterion_version = 1\<rparr>], goal_nonGoals = [], constraints = [], goal_state = Planning,
     goal_version = 3, createdAt = ''t'', updatedAt = ''t''\<rparr>"

definition sample_goals :: workspace_repository where
  "sample_goals = \<lparr>ws_goals = Map.empty(goal_key sample_goal \<mapsto> sample_goal), ws_events = [], ws_audits = [],
     ws_idempotency = Map.empty\<rparr>"

definition sample_spec_call :: spec_call where
  "sample_spec_call = \<lparr>spec_authorize = (\<lambda>actor organization project permission. Inr ()),
     spec_clock = (\<lambda>n. 1000), spec_generated = (\<lambda>n. ''spec-1''),
     plan_specification = (\<lambda>g. Inr \<lparr>pd_plannerRunId = ''run-1'', pd_goalId = ''goal-1'',
       pd_sourceGoalVersion = 3, pd_output = bundle_json sample_bundle\<rparr>),
     spec_configuration = \<lparr>adapter = ''codex'', modelProfile = ''default'', config_schemaVersion = ''v1''\<rparr>\<rparr>"

definition sample_generation :: generation_command where
  "sample_generation = \<lparr>gc_scope = sample_scope, gc_actorId = ''actor'', gc_expectedGoalVersion = 3,
     gc_reason = ''Plan''\<rparr>"

definition sample_judgement :: "string \<Rightarrow> int \<Rightarrow> string \<Rightarrow> spec_approval_command" where
  "sample_judgement d v k = \<lparr>sc_scope = sample_scope, sc_targetType = ''spec_revision'', sc_targetId = ''spec-1'',
     sc_expectedVersion = v, sc_actorId = ''actor'', sc_reason = JStr ''Agreed'', sc_requestId = JStr ''request'',
     sc_idempotencyKey = JStr k, sc_policyRevision = JStr overdesignPolicyRevision, sc_decision = d,
     sc_affectedItemIds = JArr [], sc_payload = JObj [(''helpfulExceptionElementIds'', JArr []),
       (''scopeChanges'', JArr [])]\<rparr>"

definition specs_generated :: specs_in_flight where
  "specs_generated = generate_now sample_environment sample_spec_call sample_generation sample_goals no_specs"

definition specs_submitted :: specs_in_flight where
  "specs_submitted = judge_now sample_environment sample_spec_call
     (sample_judgement ''submit_for_review'' 1 ''k1'') specs_generated"

definition specs_approved :: specs_in_flight where
  "specs_approved = judge_now sample_environment sample_spec_call
     (sample_judgement ''approve'' 2 ''k2'') specs_submitted"

lemma sample_plain: "plain_scope sample_scope"
  by (simp add: plain_scope_def sample_scope_def plain_id_def)

lemma specs_approved_run: "(spec_step sample_environment)\<^sup>*\<^sup>* no_specs specs_approved"
  unfolding specs_approved_def specs_submitted_def specs_generated_def
  by (intro rtranclp_trans[OF _ judge_now_steps] generate_now_steps)
    (simp_all add: sample_judgement_def sample_generation_def sample_plain)

definition sample_revision :: spec_revision where
  "sample_revision = generated_revision sample_spec_call sample_generation (toISOString 1000) sample_goal None ''run-1''
     sample_bundle (fst (put_artifact sample_environment (bundle_json sample_bundle) (toISOString 1000) ''actor'' Map.empty))"

lemma sample_revision_simps [simp]:
  "sr_id sample_revision = ''spec-1''" "sr_scope sample_revision = sample_scope"
  "sr_status sample_revision = Spec_draft" "sr_version sample_revision = 1"
  "sr_overdesignPolicyRevision sample_revision = overdesignPolicyRevision"
  by (simp_all add: sample_revision_def generated_revision_def sample_spec_call_def sample_generation_def)

lemma sample_goal_key: "goal_key sample_goal = scope_key sample_scope"
  by (simp add: goal_key_def scope_of_def sample_goal_def sample_scope_def)

lemma specs_generated_list: "spec_repo (spec_store specs_generated) =
    (new_spec_repository [])\<lparr>sp_revisions := Map.empty(scope_key sample_scope \<mapsto> [sample_revision])\<rparr>"
proof -
  have reason: "generation_nonBlank ''Plan'' ''reason'' 4000 = Inr ''Plan''" by code_simp
  have prep: "prepare_generation sample_spec_call sample_generation sample_goals (new_spec_repository []) =
      Inr (sample_goal, None, ''run-1'', sample_bundle)"
    by (simp add: prepare_generation_def sample_spec_call_def sample_generation_def reason workspace_get_def
        sample_goals_def flip: sample_goal_key)
      (simp add: sample_goal_def clean_bundle_accepted[OF sample_bundle_clean] list_revisions_def
        revisions_at_def new_spec_repository_def at_last_def)
  obtain a arts where a: "put_artifact sample_environment (bundle_json sample_bundle) (toISOString 1000) ''actor''
      Map.empty = (a, arts)" by fastforce
  have "store_bundle sample_environment sample_spec_call sample_generation
      (sample_goal, None, ''run-1'', sample_bundle) Map.empty = ((sample_revision, a), arts)"
    using a by (simp add: store_bundle_def Let_def sample_revision_def)
      (simp add: sample_spec_call_def sample_generation_def)
  moreover have "sr_revision sample_revision = 1" "sr_sourceGoalVersion sample_revision = 3"
    "sr_previousRevisionId sample_revision = None"
    by (simp_all add: sample_revision_def generated_revision_def sample_goal_def)
  ultimately show ?thesis
    using prep
    by (simp add: specs_generated_def generate_now_def no_specs_def generate_def append_revision_def
        revisions_at_def at_last_def new_spec_repository_def sample_generation_def)
qed

text \<open>A decision on the revision as it is stored, with a fresh key.\<close>

lemma judgement_checked:
  assumes "parse_spec_decision d = Some dd" "1 \<le> v" "clean_text 200 k"
  shows "\<exists>l. check_spec_approval sample_environment sample_spec_call (sample_judgement d v k) =
      Inr (dd, \<lparr>na_actorId = ''actor'', na_reason = ''Agreed'', na_requestId = ''request'',
        na_policyRevision = overdesignPolicyRevision, na_affectedElementIds = [],
        na_helpfulExceptionElementIds = [], na_scopeChanges = []\<rparr>, l) \<and> idempotency_key l = ''org/actor/spec.approval/'' @ k"
proof -
  have texts: "spec_text (JStr ''actor'') ''actorId'' 200 = Inr ''actor''"
    "spec_text (JStr ''Agreed'') ''reason'' 4000 = Inr ''Agreed''"
    "spec_text (JStr ''request'') ''requestId'' 200 = Inr ''request''"
    "spec_text (JStr overdesignPolicyRevision) ''policyRevision'' 100 = Inr overdesignPolicyRevision"
    "spec_ids (JArr []) ''affectedItemIds'' = Inr []"
    "spec_ids (JArr []) ''helpfulExceptionElementIds'' = Inr []"
    "spec_scope_changes (JArr []) = Inr []" by code_simp+
  have key: "spec_text (JStr k) ''idempotencyKey'' 200 = Inr k"
    using assms(3) by (simp add: spec_text_def)
  show ?thesis
    using assms(1,2)
    by (simp add: check_spec_approval_def sample_judgement_def normalize_approval_def texts key)
      (simp add: sample_spec_call_def idempotency_key_def sample_scope_def)
qed

lemma judge_now_effect:
  assumes "sp_revisions (spec_repo (spec_store f)) = Map.empty(scope_key sample_scope \<mapsto> [r])"
    and "sr_id r = ''spec-1''" "sr_scope r = sample_scope" "int (sr_version r) = v"
      "sr_status r = expected_status dd" "sr_overdesignPolicyRevision r = overdesignPolicyRevision"
    and "parse_spec_decision d = Some dd" "1 \<le> v" "clean_text 200 k"
    and fresh: "sp_idempotency (spec_repo (spec_store f)) (''org/actor/spec.approval/'' @ k) = None"
  shows "\<exists>receipt. let repo = spec_repo (spec_store (judge_now sample_environment sample_spec_call (sample_judgement d v k) f)) in
    sp_revisions repo = Map.empty(scope_key sample_scope \<mapsto> [decided_revision dd (toISOString 1000) r]) \<and>
    (\<forall>j. j \<noteq> k \<longrightarrow> sp_idempotency repo (''org/actor/spec.approval/'' @ j) =
       sp_idempotency (spec_repo (spec_store f)) (''org/actor/spec.approval/'' @ j)) \<and>
    decide_spec sample_environment sample_spec_call (sample_judgement d v k) (spec_repo (spec_store f)) = (Inr receipt, repo)"
proof -
  let ?repo = "spec_repo (spec_store f)" and ?c = "sample_judgement d v k"
  from judgement_checked[OF assms(7-9)] obtain n l where
    chk: "check_spec_approval sample_environment sample_spec_call ?c = Inr (dd, n, l)"
    and n: "na_policyRevision n = overdesignPolicyRevision" "na_affectedElementIds n = []"
      "na_helpfulExceptionElementIds n = []"
    and l: "idempotency_key l = ''org/actor/spec.approval/'' @ k" by auto
  have none: "findSpecReceipt l ?repo = Inr None"
    using fresh by (simp add: findSpecReceipt_def find_receipt_None l)
  have at: "revisions_at ?repo sample_scope = [r]" by (simp add: revisions_at_def assms(1))
  have c: "sc_scope ?c = sample_scope" "sc_targetId ?c = ''spec-1''" "sc_expectedVersion ?c = v"
    by (simp_all add: sample_judgement_def)
  have rev: "check_revision ?c dd n ?repo = Inr r"
    using assms(2-6) n by (simp add: check_revision_def c get_revision_def latest_revision_def at at_last_def)
  let ?k = "spec_approval_commit sample_environment sample_spec_call ?c dd n l r"
  have prep: "prepare_spec_decision sample_environment sample_spec_call ?c ?repo = Inr (Inr ?k)"
    by (simp add: prepare_spec_decision_def chk none rev)
  obtain res repo' where com: "commitSpecApproval ?k ?repo = (res, repo')" by fastforce
  then have "res = Inr (sk_receipt ?k)"
    "sp_revisions repo' = Map.empty(scope_key sample_scope \<mapsto> [decided_revision dd (toISOString 1000) r])"
    "\<forall>j. j \<noteq> k \<longrightarrow> sp_idempotency repo' (''org/actor/spec.approval/'' @ j) =
       sp_idempotency ?repo (''org/actor/spec.approval/'' @ j)"
    using assms(1,2,4) by (auto simp: commitSpecApproval_def none assms(3) at c l sample_spec_call_def)
  with com show ?thesis by (simp add: Let_def judge_now_def decide_spec_def prep)
qed

lemma specs_approved_list:
  "specs_under specs_approved (scope_key sample_scope) =
     [decided_revision Approve_spec (toISOString 1000) (decided_revision Submit_for_review (toISOString 1000) sample_revision)]"
proof -
  have names: "parse_spec_decision ''submit_for_review'' = Some Submit_for_review"
    "parse_spec_decision ''approve'' = Some Approve_spec" "clean_text 200 ''k1''" "clean_text 200 ''k2''" by code_simp+
  have "sp_revisions (spec_repo (spec_store specs_submitted)) =
      Map.empty(scope_key sample_scope \<mapsto> [decided_revision Submit_for_review (toISOString 1000) sample_revision]) \<and>
    sp_idempotency (spec_repo (spec_store specs_submitted)) (''org/actor/spec.approval/'' @ ''k2'') = None"
    using judge_now_effect[of specs_generated sample_revision 1 Submit_for_review "''submit_for_review''" "''k1''"] names
    by (auto simp: specs_submitted_def specs_generated_list new_spec_repository_def expected_status_def Let_def)
  with judge_now_effect[of specs_submitted "decided_revision Submit_for_review (toISOString 1000) sample_revision"
      2 Approve_spec "''approve''" "''k2''"] names
  show ?thesis
    by (auto simp: specs_approved_def specs_under_def expected_status_def spec_next_status_def Let_def)
qed

lemma specs_approved_found:
  "get_revision sample_scope ''spec-1'' (spec_repo (spec_store specs_approved)) =
     Some (decided_revision Approve_spec (toISOString 1000)
       (decided_revision Submit_for_review (toISOString 1000) sample_revision))"
  by (simp add: get_revision_def revisions_at_under specs_approved_list)

lemma specs_submitted_list:
  "specs_under specs_submitted (scope_key sample_scope) =
     [decided_revision Submit_for_review (toISOString 1000) sample_revision]"
proof -
  have "parse_spec_decision ''submit_for_review'' = Some Submit_for_review" "clean_text 200 ''k1''" by code_simp+
  with judge_now_effect[of specs_generated sample_revision 1 Submit_for_review "''submit_for_review''" "''k1''"]
  show ?thesis
    by (auto simp: specs_submitted_def specs_under_def specs_generated_list new_spec_repository_def
        expected_status_def Let_def)
qed

theorem spec_status_is_its_decisions_witness:
  "\<exists>r. get_revision sample_scope ''spec-1'' (spec_repo (spec_store specs_approved)) = Some r \<and>
     sr_status r = Spec_approved \<and> sr_version r = 3 \<and>
     length (decision_timeline sample_scope ''spec-1'' (spec_repo (spec_store specs_approved))) = 2"
  using spec_status_is_its_decisions[OF specs_approved_run sample_plain specs_approved_found] specs_approved_found
  by (simp add: Let_def spec_next_status_def)

lemma kept_required:
  assumes "kept_and_removed [i] d" and "item_category i = Required"
  shows "set (sd_retainedElementIds d) = {item_elementId i} \<and> sd_removedElementIds d = []"
proof -
  from assms(1) have k: "distinct (sd_retainedElementIds d @ sd_removedElementIds d)"
    "set (sd_retainedElementIds d) \<union> set (sd_removedElementIds d) = item_elementId ` set [i]"
    "\<forall>j\<in>set [i]. item_elementId j \<in> set (sd_retainedElementIds d) \<longleftrightarrow>
       item_category j = Required \<or>
       item_category j = Helpful \<and> item_elementId j \<in> set (sd_helpfulExceptionElementIds d)"
    unfolding kept_and_removed_def by blast+
  have u: "set (sd_retainedElementIds d) \<union> set (sd_removedElementIds d) = {item_elementId i}"
    using k(2) by simp
  moreover have "set (sd_retainedElementIds d) \<inter> set (sd_removedElementIds d) = {}"
    using k(1) unfolding distinct_append by blast
  moreover have "item_elementId i \<in> set (sd_retainedElementIds d)"
    using k(3) assms(2) by (metis list.set_intros(1))
  moreover have "B = {}" if "A \<union> B = {x}" "A \<inter> B = {}" "x \<in> A" for A B :: "string set" and x
    using that by auto
  ultimately have none: "set (sd_removedElementIds d) = {}" by metis
  then have "set (sd_retainedElementIds d) = {item_elementId i}" using u unfolding none by blast
  with none show ?thesis unfolding set_empty by blast
qed

theorem approved_specs_keep_what_is_required_witness:
  "\<exists>s a. decision_timeline sample_scope ''spec-1'' (spec_repo (spec_store specs_approved)) = [s, a] \<and>
     set (sd_retainedElementIds a) = {''E1''} \<and> sd_removedElementIds a = []"
proof -
  have st: "sr_status (decided_revision Approve_spec (toISOString 1000)
      (decided_revision Submit_for_review (toISOString 1000) sample_revision)) = Spec_approved"
    by (simp add: spec_next_status_def)
  define i where "i = review_item (goal_facts sample_goal) sample_element"
  have "items (sr_overdesignReview sample_revision) = [i]"
    by (simp add: sample_revision_def generated_revision_def classifySolutionElements_def Let_def sample_bundle_def i_def)
  then have its: "items (sr_overdesignReview (decided_revision Approve_spec (toISOString 1000)
      (decided_revision Submit_for_review (toISOString 1000) sample_revision))) = [i]"
    by simp
  have req: "item_category i = Required" unfolding i_def by code_simp
  have ident: "item_elementId i = ''E1''" unfolding i_def by code_simp
  from approved_specs_keep_what_is_required[OF specs_approved_run sample_plain specs_approved_found st]
  obtain s a where ds: "decision_timeline sample_scope ''spec-1'' (spec_repo (spec_store specs_approved)) = [s, a]"
    and kept: "kept_and_removed [i] a"
    unfolding its by blast
  from kept_required[OF kept req] ds show ?thesis by (simp add: ident)
qed

theorem spec_history_is_append_only_witness:
  "\<forall>g. spec_step sample_environment specs_approved g \<longrightarrow>
     specs_under g (scope_key sample_scope) ! 0 = specs_under specs_approved (scope_key sample_scope) ! 0"
proof (intro allI impI)
  fix g assume "spec_step sample_environment specs_approved g"
  from spec_history_is_append_only[OF specs_approved_run this, of "scope_key sample_scope"]
  show "specs_under g (scope_key sample_scope) ! 0 = specs_under specs_approved (scope_key sample_scope) ! 0"
    by (auto simp: specs_approved_list spec_next_status_def expected_status_def split: if_splits)
qed

theorem spec_decision_takes_effect_once_witness:
  "\<exists>receipt. decide_spec sample_environment (sample_spec_call\<lparr>spec_clock := (\<lambda>n. 9000)\<rparr>)
     (sample_judgement ''submit_for_review'' 1 ''k1'') (spec_repo (spec_store specs_submitted)) =
     (Inr receipt, spec_repo (spec_store specs_submitted))"
proof -
  have "parse_spec_decision ''submit_for_review'' = Some Submit_for_review" "clean_text 200 ''k1''" by code_simp+
  with judge_now_effect[of specs_generated sample_revision 1 Submit_for_review "''submit_for_review''" "''k1''"]
  obtain receipt where r: "decide_spec sample_environment sample_spec_call (sample_judgement ''submit_for_review'' 1 ''k1'')
      (spec_repo (spec_store specs_generated)) = (Inr receipt, spec_repo (spec_store specs_submitted))"
    by (auto simp: specs_submitted_def specs_generated_list new_spec_repository_def expected_status_def Let_def)
  have "spec_looks_up sample_environment (sample_spec_call\<lparr>spec_clock := (\<lambda>n. 9000)\<rparr>)
      (sample_judgement ''submit_for_review'' 1 ''k1'') =
    spec_looks_up sample_environment sample_spec_call (sample_judgement ''submit_for_review'' 1 ''k1'')"
    by (simp add: spec_looks_up_def check_spec_approval_def sample_spec_call_def)
  from spec_decision_takes_effect_once[OF r rtranclp.rtrancl_refl this] show ?thesis by blast
qed

end
