(* ===== verification/Planning_Sample.thy ===== *)
theory Planning_Sample
  imports Planning_Pipeline Spec_Sample
begin

text \<open>An Issue plan that is generated from the approved specification of \<open>Spec_Sample\<close>.\<close>

definition sample_issue_generation :: issue_generation_call where
  "sample_issue_generation = \<lparr>ig_authorize = (\<lambda>actor organization project permission. Inr ()),
     ig_plan = (\<lambda>g b. Inr \<lparr>pd_plannerRunId = ''run-2'', pd_goalId = ''goal-1'', pd_sourceGoalVersion = 3,
       pd_output = draft_json (issues sample_input)\<rparr>),
     ig_configuration = default_planner_configuration\<rparr>"

definition sample_issue_request :: issue_generation_command where
  "sample_issue_request = \<lparr>igc_scope = sample_scope, igc_specRevisionId = ''spec-1'', igc_expectedSpecVersion = 3,
     igc_actorId = ''actor''\<rparr>"

definition approved_revision :: spec_revision where
  "approved_revision = decided_revision Approve_spec (toISOString 1000)
     (decided_revision Submit_for_review (toISOString 1000) sample_revision)"

lemma sample_bundle_stored:
  "\<exists>a. get_artifact (sr_artifactRef approved_revision) (spec_artifacts (spec_store specs_approved)) = Some a \<and>
     art_digest a = sr_artifactDigest approved_revision \<and> (\<exists>b. validateSpecBundle (art_content a) = Inr b)"
proof -
  have ok: "specs_ok sample_environment specs_approved" by (rule specs_ok_reachable[OF specs_approved_run])
  note r = got_revision[OF ok specs_approved_found[folded approved_revision_def] sample_plain]
  from loads[OF ok r(3)] show ?thesis
    by (auto simp: load_revision_def Let_def and_then_eq_Inr split: option.splits if_splits)
qed

lemma specs_run_in_pipeline:
  "(spec_step env)\<^sup>*\<^sup>* no_specs s \<Longrightarrow> (pipeline_step env)\<^sup>*\<^sup>* empty_pipeline (empty_pipeline\<lparr>pl_specs := s\<rparr>)"
proof (induction rule: rtranclp_induct)
  case base
  then show ?case by (simp add: empty_pipeline_def)
next
  case (step s t)
  have "pipeline_step env (empty_pipeline\<lparr>pl_specs := s\<rparr>) (empty_pipeline\<lparr>pl_specs := t\<rparr>)"
    using spec_moved[of env "empty_pipeline\<lparr>pl_specs := s\<rparr>" t] step(2) by simp
  with step(3) show ?case by (rule rtranclp.rtrancl_into_rtrancl)
qed

lemma sample_issue_generation_prepared:
  "\<exists>command. prepare_issue_generation sample_issue_generation sample_issue_request sample_goals
      (spec_store specs_approved) = Inr command \<and> cd_scope command = sample_scope \<and>
    cd_draft command = draft_json (issues sample_input) \<and> cd_plannerRunId command = ''run-2''"
proof -
  obtain a b where a: "get_artifact (sr_artifactRef approved_revision) (spec_artifacts (spec_store specs_approved)) = Some a"
    "art_digest a = sr_artifactDigest approved_revision" "validateSpecBundle (art_content a) = Inr b"
    using sample_bundle_stored by blast
  have g: "workspace_get sample_scope sample_goals = Some sample_goal"
    by (simp add: workspace_get_def sample_goals_def flip: sample_goal_key)
  have l: "latest_revision sample_scope (spec_repo (spec_store specs_approved)) = Some approved_revision"
    by (simp add: latest_revision_def revisions_at_under specs_approved_list at_last_def approved_revision_def)
  have r: "sr_status approved_revision = Spec_approved" "sr_version approved_revision = 3"
    by (simp_all add: approved_revision_def spec_next_status_def)
  have "approved_source sample_issue_request sample_goals (spec_store specs_approved) =
      Inr (sample_goal, approved_revision, b)"
    using a r by (simp add: approved_source_def sample_issue_request_def g l specs_approved_found[folded approved_revision_def])
  then show ?thesis
    by (simp add: prepare_issue_generation_def sample_issue_request_def)
      (simp add: sample_issue_generation_def sample_goal_def sample_draft_accepted)
qed

theorem issue_plans_come_from_approved_specs_witness:
  "\<exists>f p. (pipeline_step sample_environment)\<^sup>*\<^sup>* empty_pipeline f \<and> plans_under (pl_plans f) (scope_key sample_scope) = [p] \<and>
     specRevisionId (plan_source p) = ''spec-1'' \<and> specRevisionVersion (plan_source p) = 3"
proof -
  obtain command where command: "prepare_issue_generation sample_issue_generation sample_issue_request sample_goals
      (spec_store specs_approved) = Inr command" "cd_scope command = sample_scope"
    "cd_draft command = draft_json (issues sample_input)" "cd_plannerRunId command = ''run-2''"
    using sample_issue_generation_prepared by blast
  have run: "plan_text ''run-2'' ''plannerRunId'' 200 = Inr ''run-2''" by code_simp
  obtain p where p: "build sample_environment 1000 ''plan-1'' sample_scope (cd_source command) (issues sample_input) None
      ''run-2'' (cd_plannerConfiguration command) [] = Inr p"
    using build_plain by blast
  then have scope: "plan_scope p = sample_scope" "previousPlanId p = None" "revision p = 1"
    using build_built[OF p] by (auto simp: build_def Let_def result_simps)
  have none: "getLatest sample_scope (plan_store no_plans) = None"
    by (simp add: getLatest_def plans_at_def no_plans_def at_last_def)
  have draft: "prepare_draft sample_environment sample_plan_call command (plan_store no_plans) = Inr (p, None)"
    using p run none by (simp add: prepare_draft_def command(2-4) sample_draft_accepted)
      (simp add: sample_plan_call_def)
  obtain r repo where app: "append_plan p None (plan_store no_plans) = (r, repo)" by fastforce
  then have repo: "plans repo = Map.empty(scope_key sample_scope \<mapsto> [p])"
    using none scope by (auto simp: append_plan_def getLatest_def Let_def plans_at_def no_plans_def at_last_def split: if_splits)
  let ?f1 = "empty_pipeline\<lparr>pl_specs := specs_approved\<rparr>"
  let ?f2 = "?f1\<lparr>pl_due := [command]\<rparr>"
  let ?f3 = "?f1\<lparr>pl_plans := no_plans\<lparr>due_appends := [(p, None)]\<rparr>\<rparr>"
  let ?f4 = "?f1\<lparr>pl_plans := no_plans\<lparr>plan_store := repo\<rparr>\<rparr>"
  have s1: "(pipeline_step sample_environment)\<^sup>*\<^sup>* empty_pipeline ?f1"
    by (rule specs_run_in_pipeline[OF specs_approved_run])
  have s2: "pipeline_step sample_environment ?f1 ?f2"
    using source_read[of sample_issue_generation sample_issue_request sample_goals ?f1 command sample_environment]
      command(1) sample_plain by (simp add: sample_issue_request_def empty_pipeline_def)
  have s3: "pipeline_step sample_environment ?f2 ?f3"
    using drafted[of command ?f2 sample_environment sample_plan_call "(p, None)"] draft
    by (simp add: empty_pipeline_def no_plans_def)
  have s4: "pipeline_step sample_environment ?f3 ?f4"
  proof -
    have "plan_step sample_environment (pl_plans ?f3) (pl_plans ?f4)"
      using plan_step.append[of p None "pl_plans ?f3" r repo sample_environment] app by (simp add: no_plans_def)
    from plan_moved[OF this] show ?thesis by (simp add: drafts_nothing_def no_plans_def)
  qed
  from s1 s2 s3 s4 have run4: "(pipeline_step sample_environment)\<^sup>*\<^sup>* empty_pipeline ?f4"
    by (meson rtranclp.rtrancl_into_rtrancl)
  have under: "plans_under (pl_plans ?f4) (scope_key sample_scope) = [p]" by (simp add: plans_under_def repo)
  then have "p \<in> set (plans_under (pl_plans ?f4) (scope_key sample_scope))" by simp
  from issue_plans_come_from_approved_specs[OF run4 this] obtain q where
    q: "q \<in> set (specs_under specs_approved (scope_key sample_scope))"
    "specRevisionId (plan_source p) = sr_id q" "specRevisionVersion (plan_source p) = sr_version q" by auto
  from q(1) have "q = approved_revision" by (simp add: specs_approved_list approved_revision_def)
  with q run4 under show ?thesis
    by (intro exI[of _ ?f4] exI[of _ p]) (simp add: approved_revision_def)
qed

end
