(* ===== verification/Verification_Repository.thy ===== *)
theory Verification_Repository
  imports Issue_Plan_Service Acceptance_Verification Goal_Verifier Goal_Workspace
begin

text \<open>
  The records of \<^verbatim>\<open>domain/goal-verification.ts\<close>, \<^verbatim>\<open>domain/verification-gap.ts\<close> and
  \<^verbatim>\<open>domain/delivery-report.ts\<close>, and \<^verbatim>\<open>adapters/memory-goal-verification-repository.ts\<close>: verification
  plans, verifications, gap reports, delivery reports and the copy of the Goals that an accepted
  report completes. A map is the association list of its entries in insertion order, whose values
  are listed and sorted by revision.
\<close>

section \<open>Verifications\<close>

record manual_approval =
  ma_actorId :: string
  ma_reason :: string
  ma_signedAt :: string

record deterministic_result =
  det_entryId :: string
  det_criterionRef :: string
  det_status :: string
  det_evidenceRefs :: "string list"
  det_summary :: string
  det_durationMs :: nat
  det_manualApproval :: "manual_approval option"

datatype verification_verdict = Verdict_passed | Verdict_failed | Verdict_needs_manual

record goal_verification =
  gv_id :: string
  gv_scope :: goal_scope
  gv_planId :: string
  gv_issuePlanId :: string
  gv_revision :: nat
  gv_previousId :: "string option"
  gv_goalVersion :: nat
  gv_verdict :: verification_verdict
  gv_results :: "deterministic_result list"
  gv_output :: goal_verifier_output
  gv_verifierIdentity :: string
  gv_verifierVersion :: string
  gv_sessionId :: string
  gv_verifiedAt :: string
  gv_version :: nat

section \<open>Gaps\<close>

datatype gap_source_kind = Acceptance_criterion_gap | Non_goal_gap | Constraint_gap

record verification_gap =
  gap_sourceKind :: gap_source_kind
  gap_sourceRef :: string
  gap_criterionRef :: "string option"
  gap_evidenceRefs :: "string list"
  gap_text :: string
  gap_impact :: string
  gap_remediation :: string

record verification_gap_report =
  gr_id :: string
  gr_scope :: goal_scope
  gr_verificationId :: string
  gr_issuePlanId :: string
  gr_failedCriterionRefs :: "string list"
  gr_preservedEvidenceRefs :: "string list"
  gr_gaps :: "verification_gap list"
  gr_createdBy :: string
  gr_createdAt :: string
  gr_version :: nat

record remediation_plan =
  rp_id :: string
  rp_previousPlanId :: "string option"
  rp_revision :: nat
  rp_status :: string
  rp_valid :: bool
  rp_version :: nat

record remediation_receipt =
  rr_reportId :: string
  rr_plan :: remediation_plan
  rr_preservedEvidenceRefs :: "string list"
  rr_actorId :: string
  rr_reason :: string
  rr_recordedAt :: string

section \<open>Delivery reports\<close>

record known_risk =
  kr_severity :: string
  kr_statement :: string
  kr_disposition :: string

record human_acceptance =
  ha_actorId :: string
  ha_reason :: string
  ha_requestId :: string
  ha_acceptedAt :: string

record pull_request_ref =
  prr_externalId :: string
  prr_url :: string
  prr_status :: string

record delivery_issue_run =
  ir_issueId :: string
  ir_issueKey :: string
  ir_runId :: string
  ir_status :: string
  ir_artifactRefs :: "string list"
  ir_reviewIds :: "string list"
  ir_commitSha :: "string option"
  ir_pullRequest :: "pull_request_ref option"

record report_acceptance =
  acc_criterionRef :: string
  acc_statement :: string
  acc_evidenceRefs :: "string list"
  acc_rationale :: string

datatype delivery_report_status = Awaiting_human_acceptance | Report_accepted

record delivery_report =
  rep_id :: string
  rep_scope :: goal_scope
  rep_revision :: nat
  rep_previousId :: "string option"
  rep_verificationId :: string
  rep_planId :: string
  rep_issuePlanId :: string
  rep_goal :: "string goal_contract"
  rep_acceptance :: "report_acceptance list"
  rep_issueRuns :: "delivery_issue_run list"
  rep_exceptions :: "string list"
  rep_knownRisks :: "known_risk list"
  rep_regressionRisks :: "regression_risk list"
  rep_status :: delivery_report_status
  rep_humanAcceptance :: "human_acceptance option"
  rep_digest :: string
  rep_generatedBy :: string
  rep_generatedAt :: string
  rep_version :: nat

record delivery_report_source =
  src_goal :: "string goal_contract"
  src_issueRuns :: "delivery_issue_run list"
  src_exceptions :: "string list"

section \<open>The repository\<close>

record verification_repository =
  vr_plans :: "(string \<times> acceptance_verification_plan) list"
  vr_verifications :: "(string \<times> goal_verification) list"
  vr_gaps :: "(string \<times> verification_gap_report) list"
  vr_remediations :: "(string \<times> (string \<times> remediation_receipt)) list"
  vr_reports :: "(string \<times> delivery_report) list"
  vr_goals :: "string \<rightharpoonup> string goal_contract"
  vr_acceptances :: "string \<rightharpoonup> string \<times> delivery_report \<times> string goal_contract"

definition new_verification_repository :: verification_repository where
  "new_verification_repository = \<lparr>vr_plans = [], vr_verifications = [], vr_gaps = [],
     vr_remediations = [], vr_reports = [], vr_goals = Map.empty, vr_acceptances = Map.empty\<rparr>"

definition vplan_scope :: "acceptance_verification_plan \<Rightarrow> goal_scope" where
  "vplan_scope p = \<lparr>organizationId = plan_organizationId p, projectId = plan_projectId p,
     goalId = plan_goalId p\<rparr>"

text \<open>\<open>scoped(values, scope)\<close>.\<close>

definition scoped_values :: "('v \<Rightarrow> goal_scope) \<Rightarrow> goal_scope \<Rightarrow> (string \<times> 'v) list \<Rightarrow> 'v list" where
  "scoped_values sc scope m = filter (\<lambda>v. scope_key (sc v) = scope_key scope) (map snd m)"

text \<open>An entity by its id, when it belongs to the scope.\<close>

definition get_scoped ::
  "('v \<Rightarrow> goal_scope) \<Rightarrow> goal_scope \<Rightarrow> string \<Rightarrow> (string \<times> 'v) list \<Rightarrow> 'v option" where
  "get_scoped sc scope i m =
     (case map_of m i of
        None \<Rightarrow> None
      | Some v \<Rightarrow> if scope_key (sc v) = scope_key scope then Some v else None)"

text \<open>The values of a scope in the order of their revisions.\<close>

definition by_revision ::
  "('v \<Rightarrow> goal_scope) \<Rightarrow> ('v \<Rightarrow> nat) \<Rightarrow> goal_scope \<Rightarrow> (string \<times> 'v) list \<Rightarrow> 'v list" where
  "by_revision sc rv scope m = sort_key rv (scoped_values sc scope m)"

text \<open>\<open>appendPlan\<close>, \<open>appendVerification\<close> and \<open>appendDeliveryReport\<close> check the chain in the same way.\<close>

definition append_chained ::
  "string \<Rightarrow> ('v \<Rightarrow> goal_scope) \<Rightarrow> ('v \<Rightarrow> nat) \<Rightarrow> ('v \<Rightarrow> string) \<Rightarrow> ('v \<Rightarrow> string option) \<Rightarrow>
   'v \<Rightarrow> (string \<times> 'v) list \<Rightarrow> js_error + (string \<times> 'v) list" where
  "append_chained noun sc rv ident previous v m =
     (if map_of m (ident v) \<noteq> None then Inl (PlainError (noun @ '' already exists''))
      else
        (let latest = at_last (by_revision sc rv (sc v) m) in
         if map_option ident latest \<noteq> previous v \<or>
            rv v \<noteq> (case latest of None \<Rightarrow> 0 | Some l \<Rightarrow> rv l) + 1
         then Inl (PlainError (noun @ '' revision conflict''))
         else Inr (m @ [(ident v, v)])))"

definition appendPlan ::
  "acceptance_verification_plan \<Rightarrow> verification_repository \<Rightarrow>
   (js_error + acceptance_verification_plan) \<times> verification_repository" where
  "appendPlan p repo =
     (case append_chained ''Verification plan'' vplan_scope plan_revision
             acceptance_verification_plan.plan_id acceptance_verification_plan.previousPlanId p (vr_plans repo) of
        Inl e \<Rightarrow> (Inl e, repo)
      | Inr m \<Rightarrow> (Inr p, repo\<lparr>vr_plans := m\<rparr>))"

definition getPlan ::
  "goal_scope \<Rightarrow> string \<Rightarrow> verification_repository \<Rightarrow> acceptance_verification_plan option" where
  "getPlan scope i repo = get_scoped vplan_scope scope i (vr_plans repo)"

definition listPlans :: "goal_scope \<Rightarrow> verification_repository \<Rightarrow> acceptance_verification_plan list" where
  "listPlans scope repo = by_revision vplan_scope plan_revision scope (vr_plans repo)"

definition appendVerification ::
  "goal_verification \<Rightarrow> verification_repository \<Rightarrow>
   (js_error + goal_verification) \<times> verification_repository" where
  "appendVerification v repo =
     (case append_chained ''Goal verification'' gv_scope gv_revision gv_id gv_previousId v (vr_verifications repo) of
        Inl e \<Rightarrow> (Inl e, repo)
      | Inr m \<Rightarrow> (Inr v, repo\<lparr>vr_verifications := m\<rparr>))"

definition getVerification ::
  "goal_scope \<Rightarrow> string \<Rightarrow> verification_repository \<Rightarrow> goal_verification option" where
  "getVerification scope i repo = get_scoped gv_scope scope i (vr_verifications repo)"

definition listVerifications :: "goal_scope \<Rightarrow> verification_repository \<Rightarrow> goal_verification list" where
  "listVerifications scope repo = by_revision gv_scope gv_revision scope (vr_verifications repo)"

definition findGapReportByVerification ::
  "goal_scope \<Rightarrow> string \<Rightarrow> verification_repository \<Rightarrow> verification_gap_report option" where
  "findGapReportByVerification scope v repo =
     find (\<lambda>r. gr_verificationId r = v) (scoped_values gr_scope scope (vr_gaps repo))"

definition appendGapReport ::
  "verification_gap_report \<Rightarrow> verification_repository \<Rightarrow>
   (js_error + verification_gap_report) \<times> verification_repository" where
  "appendGapReport r repo =
     (if map_of (vr_gaps repo) (gr_id r) \<noteq> None \<or>
         findGapReportByVerification (gr_scope r) (gr_verificationId r) repo \<noteq> None
      then (Inl (PlainError ''Verification gap report already exists''), repo)
      else (Inr r, repo\<lparr>vr_gaps := vr_gaps repo @ [(gr_id r, r)]\<rparr>))"

definition getGapReport ::
  "goal_scope \<Rightarrow> string \<Rightarrow> verification_repository \<Rightarrow> verification_gap_report option" where
  "getGapReport scope i repo = get_scoped gr_scope scope i (vr_gaps repo)"

definition listGapReports ::
  "(string \<Rightarrow> string \<Rightarrow> bool) \<Rightarrow> goal_scope \<Rightarrow> verification_repository \<Rightarrow> verification_gap_report list" where
  "listGapReports lc scope repo =
     sort_by (\<lambda>a b. lc (gr_createdAt a) (gr_createdAt b)) (scoped_values gr_scope scope (vr_gaps repo))"

definition remediation_key :: "string \<Rightarrow> string \<Rightarrow> string \<Rightarrow> string \<Rightarrow> string" where
  "remediation_key org report actor k = org @ ''/'' @ report @ ''/'' @ actor @ ''/'' @ k"

definition findGapRemediation ::
  "string \<Rightarrow> verification_repository \<Rightarrow> (string \<times> remediation_receipt) option" where
  "findGapRemediation k repo = map_of (vr_remediations repo) k"

definition saveGapRemediation ::
  "string \<Rightarrow> string \<Rightarrow> remediation_receipt \<Rightarrow> verification_repository \<Rightarrow>
   (js_error + remediation_receipt) \<times> verification_repository" where
  "saveGapRemediation k hash receipt repo =
     (case map_of (vr_remediations repo) k of
        Some (h, existing) \<Rightarrow>
          if h \<noteq> hash then (Inl (PlainError ''Gap remediation idempotency conflict''), repo)
          else (Inr existing, repo)
      | None \<Rightarrow> (Inr receipt, repo\<lparr>vr_remediations := vr_remediations repo @ [(k, (hash, receipt))]\<rparr>))"

definition appendDeliveryReport ::
  "delivery_report \<Rightarrow> verification_repository \<Rightarrow>
   (js_error + delivery_report) \<times> verification_repository" where
  "appendDeliveryReport r repo =
     (case append_chained ''Delivery Report'' rep_scope rep_revision rep_id rep_previousId r (vr_reports repo) of
        Inl e \<Rightarrow> (Inl e, repo)
      | Inr m \<Rightarrow> (Inr r, repo\<lparr>vr_reports := m\<rparr>))"

definition getDeliveryReport ::
  "goal_scope \<Rightarrow> string \<Rightarrow> verification_repository \<Rightarrow> delivery_report option" where
  "getDeliveryReport scope i repo = get_scoped rep_scope scope i (vr_reports repo)"

definition listDeliveryReports :: "goal_scope \<Rightarrow> verification_repository \<Rightarrow> delivery_report list" where
  "listDeliveryReports scope repo = by_revision rep_scope rep_revision scope (vr_reports repo)"

definition getGoal :: "goal_scope \<Rightarrow> verification_repository \<Rightarrow> string goal_contract option" where
  "getGoal scope repo = vr_goals repo (scope_key scope)"

definition synchronizeGoal :: "string goal_contract \<Rightarrow> verification_repository \<Rightarrow> verification_repository" where
  "synchronizeGoal g repo =
     (case vr_goals repo (goal_key g) of
        Some current \<Rightarrow>
          if goal_version current \<le> goal_version g
          then repo\<lparr>vr_goals := (vr_goals repo)(goal_key g \<mapsto> g)\<rparr> else repo
      | None \<Rightarrow> repo\<lparr>vr_goals := (vr_goals repo)(goal_key g \<mapsto> g)\<rparr>)"

record report_acceptance_command =
  rac_current :: delivery_report
  rac_accepted :: delivery_report
  rac_expectedGoalVersion :: int
  rac_idempotencyKey :: string
  rac_requestHash :: string

definition acceptance_key :: "report_acceptance_command \<Rightarrow> string" where
  "acceptance_key c = organizationId (rep_scope (rac_current c)) @ ''/'' @
     (case rep_humanAcceptance (rac_accepted c) of None \<Rightarrow> ''undefined'' | Some h \<Rightarrow> ha_actorId h) @ ''/'' @
     rac_idempotencyKey c"

definition completed_goal :: "string \<Rightarrow> string goal_contract \<Rightarrow> string goal_contract" where
  "completed_goal at g = g\<lparr>goal_state := Goal_completed, goal_version := goal_version g + 1, updatedAt := at\<rparr>"

definition acceptDeliveryReport ::
  "report_acceptance_command \<Rightarrow> verification_repository \<Rightarrow>
   (js_error + delivery_report \<times> string goal_contract) \<times> verification_repository" where
  "acceptDeliveryReport c repo =
     (case vr_acceptances repo (acceptance_key c) of
        Some (hash, result) \<Rightarrow>
          if hash \<noteq> rac_requestHash c then (Inl (PlainError ''Delivery acceptance idempotency conflict''), repo)
          else (Inr result, repo)
      | None \<Rightarrow>
          (let scope = rep_scope (rac_current c); accepted = rac_accepted c;
               conflict = (Inl (PlainError ''Delivery acceptance version conflict''), repo) in
           case (at_last (listDeliveryReports scope repo), vr_goals repo (scope_key scope)) of
             (Some latest, Some gl) \<Rightarrow>
               if rep_id latest \<noteq> rep_id (rac_current c) \<or> goal_state gl \<noteq> Verifying \<or>
                  int (goal_version gl) \<noteq> rac_expectedGoalVersion c \<or>
                  rep_previousId accepted \<noteq> Some (rep_id (rac_current c)) \<or>
                  rep_status accepted \<noteq> Report_accepted
               then conflict
               else
                 (let completed = completed_goal (rep_generatedAt accepted) gl in
                  (Inr (accepted, completed),
                   repo\<lparr>vr_reports := AList.update (rep_id accepted) accepted (vr_reports repo),
                        vr_goals := (vr_goals repo)(goal_key completed \<mapsto> completed),
                        vr_acceptances := (vr_acceptances repo)
                          (acceptance_key c \<mapsto> (rac_requestHash c, accepted, completed))\<rparr>))
           | _ \<Rightarrow> conflict))"

end
