(* ===== verification/Goal_Verification.thy ===== *)
theory Goal_Verification
  imports Verification_Repository
begin

text \<open>
  \<^verbatim>\<open>application/acceptance-verification-plan-service.ts\<close> and
  \<^verbatim>\<open>application/goal-verification-service.ts\<close>: a Goal in verification gets a compiled plan, whose
  entries are run by deterministic verifiers or signed by hand, and the result is judged by a
  verifier that must not be one of the builders.

  What runs the entries, the verifier, the list of builders, the catalogue of references, the
  authorizer, the clock and the ids are the surroundings of a call. A verifier that exceeds its
  time limit is one that fails with the error of \<open>within\<close>.
\<close>

section \<open>Verification plans\<close>

record vplan_call =
  vplan_authorize :: "string \<Rightarrow> string \<Rightarrow> string \<Rightarrow> string \<Rightarrow> js_error + unit"
  vplan_clock :: int
  vplan_newId :: string
  vplan_catalog :: verification_reference_catalog

record compile_command =
  cc_scope :: goal_scope
  cc_issuePlanId :: string
  cc_expectedGoalVersion :: int
  cc_expectedIssuePlanVersion :: int
  cc_actorId :: string
  cc_draft :: json

definition vplan_input ::
  "vplan_call \<Rightarrow> compile_command \<Rightarrow> string goal_contract \<Rightarrow> issue_plan \<Rightarrow>
   acceptance_verification_plan option \<Rightarrow> string compile_plan_input" where
  "vplan_input x c gl p previous = \<lparr>in_id = vplan_newId x,
     in_organizationId = organizationId (cc_scope c), in_projectId = projectId (cc_scope c),
     in_goalId = goalId (cc_scope c), in_goalVersion = goal_version gl,
     in_issuePlanId = issue_plan.plan_id p, in_issuePlanVersion = issue_plan.plan_version p,
     in_revision = (case previous of None \<Rightarrow> 0 | Some q \<Rightarrow> plan_revision q) + 1,
     in_previousPlanId = map_option acceptance_verification_plan.plan_id previous,
     criteria = acceptanceCriteria gl, draft = cc_draft c,
     availableReferences = vplan_catalog x, in_compiledAt = toISOString (vplan_clock x)\<rparr>"

definition prepare_vplan ::
  "plan_environment \<Rightarrow> vplan_call \<Rightarrow> compile_command \<Rightarrow> workspace_repository \<Rightarrow> plan_repository \<Rightarrow>
   verification_repository \<Rightarrow> js_error + acceptance_verification_plan" where
  "prepare_vplan env x c ws ps repo =
     and_then (vplan_authorize x (cc_actorId c) (organizationId (cc_scope c)) (projectId (cc_scope c)) ''goal.verify'') (\<lambda>_.
       let stale = Inl (PlainError ''Goal or Issue plan is stale or not eligible for verification'') in
       case (workspace_get (cc_scope c) ws, get_plan (cc_scope c) (cc_issuePlanId c) ps) of
         (Some gl, Some p) \<Rightarrow>
           if goal_state gl \<noteq> Verifying \<or> int (goal_version gl) \<noteq> cc_expectedGoalVersion c \<or>
              int (issue_plan.plan_version p) \<noteq> cc_expectedIssuePlanVersion c \<or>
              map_option issue_plan.plan_id (getLatest (cc_scope c) ps) \<noteq> Some (issue_plan.plan_id p) \<or>
              plan_status p \<noteq> Plan_approved \<or> \<not> compiled_valid (compilation p)
           then stale
           else compileAcceptanceVerificationPlan (sha256Hex env) (localeCompare env)
             (vplan_input x c gl p (at_last (listPlans (cc_scope c) repo)))
       | _ \<Rightarrow> stale)"

definition compile_vplan ::
  "plan_environment \<Rightarrow> vplan_call \<Rightarrow> compile_command \<Rightarrow> workspace_repository \<Rightarrow> plan_repository \<Rightarrow>
   verification_repository \<Rightarrow> (js_error + acceptance_verification_plan) \<times> verification_repository" where
  "compile_vplan env x c ws ps repo =
     (case prepare_vplan env x c ws ps repo of
        Inl e \<Rightarrow> (Inl e, repo)
      | Inr p \<Rightarrow> appendPlan p repo)"

definition vplan_timeline ::
  "vplan_call \<Rightarrow> goal_scope \<Rightarrow> string \<Rightarrow> verification_repository \<Rightarrow> js_error + acceptance_verification_plan list" where
  "vplan_timeline x scope actor repo =
     and_then (vplan_authorize x actor (organizationId scope) (projectId scope) ''goal.verify'') (\<lambda>_.
       Inr (listPlans scope repo))"

section \<open>Running the entries\<close>

text \<open>What a deterministic verifier returns for an entry.\<close>

record verifier_result =
  vres_status :: string
  vres_evidenceRefs :: "string list"
  vres_summary :: string
  vres_durationMs :: "nat option"
  vres_manualApproval :: "manual_approval option"

record verifier_request =
  vq_goal :: "string goal_contract"
  vq_plan :: acceptance_verification_plan
  vq_results :: "deterministic_result list"
  vq_verifierIdentity :: string
  vq_builders :: "string list"
  vq_sessionId :: string

text \<open>The clock is read once for every entry signed by hand, and at the end.\<close>

record verify_call =
  vc_authorize :: "string \<Rightarrow> string \<Rightarrow> string \<Rightarrow> string \<Rightarrow> js_error + unit"
  vc_clock :: "nat \<Rightarrow> int"
  vc_newId :: string
  vc_sessionId :: string
  vc_builders :: "goal_scope \<Rightarrow> string \<Rightarrow> string list"
  vc_run :: "acceptance_verification_entry \<Rightarrow> goal_scope \<Rightarrow> js_error + verifier_result"
  vc_elapsed :: "nat \<Rightarrow> nat"
  vc_verify :: "verifier_request \<Rightarrow> js_error + json"
  vc_identity :: string \<comment> \<open>as configured, not yet trimmed\<close>
  vc_version :: string

record manual_evidence =
  me_entryId :: string
  me_evidenceRef :: string
  me_reason :: string

record verify_command =
  vk_scope :: goal_scope
  vk_planId :: string
  vk_actorId :: string
  vk_expectedGoalVersion :: int
  vk_manualEvidence :: "manual_evidence list"

definition manual_entry :: "acceptance_verification_entry \<Rightarrow> bool" where
  "manual_entry e = (case strategy e of Manual howto \<Rightarrow> True | Referenced type ref \<Rightarrow> False)"

definition signed_result ::
  "verify_call \<Rightarrow> verify_command \<Rightarrow> nat \<Rightarrow> acceptance_verification_entry \<Rightarrow> manual_evidence \<Rightarrow>
   js_error + verifier_result" where
  "signed_result x c i e m =
     and_then (vc_authorize x (vk_actorId c) (organizationId (vk_scope c)) (projectId (vk_scope c)) ''goal.accept'') (\<lambda>_.
       if trim (me_evidenceRef m) = '''' \<or> trim (me_reason m) = ''''
       then Inl (GoalVerifierContractError (''Manual verification '' @ entry_id e @ '' requires evidence and reason''))
       else Inr \<lparr>vres_status = ''passed'', vres_evidenceRefs = [trim (me_evidenceRef m)],
         vres_summary = trim (me_reason m), vres_durationMs = Some 0,
         vres_manualApproval = Some \<lparr>ma_actorId = vk_actorId c, ma_reason = trim (me_reason m),
           ma_signedAt = toISOString (vc_clock x i)\<rparr>\<rparr>)"

definition run_entry ::
  "verify_call \<Rightarrow> verify_command \<Rightarrow> nat \<Rightarrow> acceptance_verification_entry \<Rightarrow> js_error + verifier_result" where
  "run_entry x c i e =
     (case strategy e of
        Manual howto \<Rightarrow>
          (case find (\<lambda>m. me_entryId m = entry_id e) (vk_manualEvidence c) of
             Some m \<Rightarrow> signed_result x c i e m
           | None \<Rightarrow> Inr \<lparr>vres_status = ''needs_manual'', vres_evidenceRefs = [], vres_summary = howto,
               vres_durationMs = Some 0, vres_manualApproval = None\<rparr>)
      | Referenced type ref \<Rightarrow> vc_run x e (vk_scope c))"

definition judged_entry ::
  "verify_call \<Rightarrow> verify_command \<Rightarrow> nat \<Rightarrow> acceptance_verification_entry \<Rightarrow> js_error + deterministic_result" where
  "judged_entry x c i e =
     and_then (run_entry x c i e) (\<lambda>r.
       if vres_status r \<notin> {''passed'', ''failed'', ''needs_manual''} \<or> trim (vres_summary r) = '''' \<or>
          (vres_status r = ''passed'' \<and> vres_evidenceRefs r = [])
       then Inl (GoalVerifierContractError (''Deterministic verification '' @ entry_id e @ '' returned invalid evidence''))
       else Inr \<lparr>det_entryId = entry_id e, det_criterionRef = entry_criterionRef e, det_status = vres_status r,
         det_evidenceRefs = js_set (vres_evidenceRefs r), det_summary = trim (vres_summary r),
         det_durationMs = (case vres_durationMs r of Some d \<Rightarrow> d | None \<Rightarrow> vc_elapsed x i),
         det_manualApproval = vres_manualApproval r\<rparr>)"

section \<open>The verdict\<close>

definition derivedVerdict :: "deterministic_result list \<Rightarrow> goal_verifier_output \<Rightarrow> verification_verdict" where
  "derivedVerdict ds out =
     (if (\<exists>d\<in>set ds. det_status d = ''failed'') \<or> overallVerdict out = JStr ''failed'' \<or>
         (\<exists>c\<in>set (criterion_verdicts out). criterion_verdict c = JStr ''failed'') \<or>
         (\<exists>b\<in>set (nonGoal_verdicts out). boundary_verdict b = ''violated'') \<or>
         (\<exists>b\<in>set (constraint_verdicts out). boundary_verdict b = ''violated'')
      then Verdict_failed
      else if (\<exists>d\<in>set ds. det_status d = ''needs_manual'') \<or> overallVerdict out = JStr ''needs_manual'' \<or>
         (\<exists>c\<in>set (criterion_verdicts out). criterion_verdict c = JStr ''needs_manual'') \<or>
         (\<exists>b\<in>set (nonGoal_verdicts out). boundary_verdict b = ''unknown'') \<or>
         (\<exists>b\<in>set (constraint_verdicts out). boundary_verdict b = ''unknown'')
      then Verdict_needs_manual
      else Verdict_passed)"

section \<open>A verification\<close>

text \<open>The Goal, its plan and the Issue plan as they were read.\<close>

definition eligible_plan ::
  "verify_command \<Rightarrow> workspace_repository \<Rightarrow> plan_repository \<Rightarrow> verification_repository \<Rightarrow>
   js_error + (string goal_contract \<times> acceptance_verification_plan)" where
  "eligible_plan c ws ps repo =
     (let stale = Inl (GoalVerifierContractError ''Goal or compiled verification plan is stale or unavailable'');
          scope = vk_scope c in
      case (workspace_get scope ws, getPlan scope (vk_planId c) repo, getLatest scope ps) of
        (Some gl, Some p, Some ip) \<Rightarrow>
          if goal_state gl \<noteq> Verifying \<or> int (goal_version gl) \<noteq> vk_expectedGoalVersion c \<or>
             plan_goalVersion p \<noteq> goal_version gl \<or>
             map_option acceptance_verification_plan.plan_id (at_last (listPlans scope repo)) \<noteq>
               Some (acceptance_verification_plan.plan_id p) \<or>
             issue_plan.plan_id ip \<noteq> plan_issuePlanId p \<or> plan_status ip \<noteq> Plan_approved
          then stale else Inr (gl, p)
      | _ \<Rightarrow> stale)"

definition independent_builders ::
  "verify_call \<Rightarrow> goal_scope \<Rightarrow> string \<Rightarrow> js_error + string list" where
  "independent_builders x scope issuePlan =
     (let builders = filter (\<lambda>b. b \<noteq> '''') (js_set (vc_builders x scope issuePlan)) in
      if trim (vc_identity x) = '''' \<or> trim (vc_version x) = '''' \<or>
         (\<exists>b\<in>set builders. lower (trim b) = lower (trim (vc_identity x)))
      then Inl (GoalVerifierContractError ''Goal Verifier identity must be independent from every Builder'')
      else Inr builders)"

definition judged_entries ::
  "verify_call \<Rightarrow> verify_command \<Rightarrow> acceptance_verification_plan \<Rightarrow> js_error + deterministic_result list" where
  "judged_entries x c p =
     (if has_duplicates (map me_entryId (vk_manualEvidence c))
      then Inl (GoalVerifierContractError ''Manual evidence entry IDs must be unique'')
      else and_then (map_try (judged_entry x c) 0 (entries p)) (\<lambda>ds.
        if \<exists>m\<in>set (vk_manualEvidence c).
             \<not> (\<exists>e\<in>set (entries p). entry_id e = me_entryId m \<and> manual_entry e)
        then Inl (GoalVerifierContractError ''Manual evidence references an unknown entry'')
        else Inr ds))"

definition verifier_judgement ::
  "verify_call \<Rightarrow> string goal_contract \<Rightarrow> acceptance_verification_plan \<Rightarrow> string list \<Rightarrow>
   deterministic_result list \<Rightarrow> js_error + goal_verifier_output" where
  "verifier_judgement x gl p builders ds =
     and_then (vc_verify x \<lparr>vq_goal = gl, vq_plan = p, vq_results = ds,
         vq_verifierIdentity = trim (vc_identity x), vq_builders = builders,
         vq_sessionId = vc_sessionId x\<rparr>) (\<lambda>raw.
     and_then (validateGoalVerifierOutput raw gl) (\<lambda>out.
       if \<exists>v\<in>set (criterion_verdicts out). criterion_verdict v = JStr ''passed'' \<and>
            (verdict_evidenceRefs v = [] \<or>
             \<not> set (verdict_evidenceRefs v) \<subseteq> set (concat (map det_evidenceRefs ds)))
       then Inl (GoalVerifierContractError ''Verifier cited missing evidence for a passed criterion'')
       else Inr out))"

definition prepare_verification ::
  "verify_call \<Rightarrow> verify_command \<Rightarrow> workspace_repository \<Rightarrow> plan_repository \<Rightarrow>
   verification_repository \<Rightarrow> js_error + goal_verification" where
  "prepare_verification x c ws ps repo =
     and_then (vc_authorize x (vk_actorId c) (organizationId (vk_scope c)) (projectId (vk_scope c)) ''goal.verify'') (\<lambda>_.
     and_then (eligible_plan c ws ps repo) (\<lambda>(gl, p).
     and_then (independent_builders x (vk_scope c) (plan_issuePlanId p)) (\<lambda>builders.
     and_then (judged_entries x c p) (\<lambda>ds.
     and_then (verifier_judgement x gl p builders ds) (\<lambda>out.
       let latest = at_last (listVerifications (vk_scope c) repo) in
       Inr \<lparr>gv_id = vc_newId x, gv_scope = vk_scope c, gv_planId = acceptance_verification_plan.plan_id p,
         gv_issuePlanId = plan_issuePlanId p,
         gv_revision = (case latest of None \<Rightarrow> 0 | Some v \<Rightarrow> gv_revision v) + 1,
         gv_previousId = map_option gv_id latest, gv_goalVersion = goal_version gl,
         gv_verdict = derivedVerdict ds out, gv_results = ds, gv_output = out,
         gv_verifierIdentity = trim (vc_identity x), gv_verifierVersion = trim (vc_version x),
         gv_sessionId = vc_sessionId x,
         gv_verifiedAt = toISOString (vc_clock x (length (entries p))), gv_version = 1\<rparr>)))))"

definition verify ::
  "verify_call \<Rightarrow> verify_command \<Rightarrow> workspace_repository \<Rightarrow> plan_repository \<Rightarrow>
   verification_repository \<Rightarrow> (js_error + goal_verification) \<times> verification_repository" where
  "verify x c ws ps repo =
     (case prepare_verification x c ws ps repo of
        Inl e \<Rightarrow> (Inl e, repo)
      | Inr v \<Rightarrow> appendVerification v repo)"

definition verification_timeline ::
  "verify_call \<Rightarrow> goal_scope \<Rightarrow> string \<Rightarrow> verification_repository \<Rightarrow> js_error + goal_verification list" where
  "verification_timeline x scope actor repo =
     and_then (vc_authorize x actor (organizationId scope) (projectId scope) ''goal.verify'') (\<lambda>_.
       Inr (listVerifications scope repo))"

end
