(* ===== verification/Delivery_Reports.thy ===== *)
theory Delivery_Reports
  imports Goal_Verification
begin

text \<open>
  \<^verbatim>\<open>application/verification-gap-service.ts\<close> with \<^verbatim>\<open>adapters/issue-plan-gap-remediation-adapter.ts\<close>, and
  \<^verbatim>\<open>application/delivery-report-service.ts\<close>: a verification that did not pass becomes a report of its
  gaps and, confirmed by a person, the draft of another Issue plan; one that passed becomes a
  delivery report, whose acceptance by a person completes the Goal.

  Freezing an object and the pretty printed export of a report have no counterpart.
\<close>

section \<open>Gaps of a verification\<close>

record gap_call =
  gap_authorize :: "string \<Rightarrow> string \<Rightarrow> string \<Rightarrow> string \<Rightarrow> js_error + unit"
  gap_clock :: int
  gap_newId :: string

record gap_command =
  gapc_scope :: goal_scope
  gapc_verificationId :: string
  gapc_actorId :: string

text \<open>A later result of the same criterion replaces an earlier one.\<close>

definition evidence_of :: "deterministic_result list \<Rightarrow> string \<Rightarrow> string list" where
  "evidence_of ds ref =
     (case map_of (js_map (map (\<lambda>d. (det_criterionRef d, det_evidenceRefs d)) ds)) ref of
        None \<Rightarrow> [] | Some refs \<Rightarrow> refs)"

definition criterion_impact :: "goal_verifier_output \<Rightarrow> criterion_verdict \<Rightarrow> string" where
  "criterion_impact out c =
     (let t = join '' '' (map risk_description (filter (\<lambda>r. \<exists>ref\<in>set (risk_evidenceRefs r).
             ref \<in> set (verdict_evidenceRefs c)) (regressionRisks out))) in
      if t = '''' then ''The original AcceptanceCriterion remains unproved.'' else t)"

definition criterion_gap ::
  "deterministic_result list \<Rightarrow> goal_verifier_output \<Rightarrow> criterion_verdict \<Rightarrow> verification_gap" where
  "criterion_gap ds out c = \<lparr>gap_sourceKind = Acceptance_criterion_gap,
     gap_sourceRef = verdict_criterionRef c, gap_criterionRef = Some (verdict_criterionRef c),
     gap_evidenceRefs = js_set (evidence_of ds (verdict_criterionRef c) @ verdict_evidenceRefs c),
     gap_text = verdict_rationale c, gap_impact = criterion_impact out c,
     gap_remediation = ''Create a new Issue plan revision that closes this evidence gap, then re-run '' @
       ''Compiler, approval, execution, and verification.''\<rparr>"

definition nonGoal_gap :: "boundary_verdict \<Rightarrow> verification_gap" where
  "nonGoal_gap b = \<lparr>gap_sourceKind = Non_goal_gap, gap_sourceRef = boundary_statement b,
     gap_criterionRef = None, gap_evidenceRefs = [], gap_text = boundary_rationale b,
     gap_impact = ''The delivered scope may violate an explicit non-goal.'',
     gap_remediation = ''Create a new Issue plan revision that restores the non-goal boundary, then '' @
       ''re-run Compiler, approval, execution, and verification.''\<rparr>"

definition constraint_gap :: "boundary_verdict \<Rightarrow> verification_gap" where
  "constraint_gap b = \<lparr>gap_sourceKind = Constraint_gap, gap_sourceRef = boundary_statement b,
     gap_criterionRef = None, gap_evidenceRefs = [], gap_text = boundary_rationale b,
     gap_impact = ''The delivered implementation may violate an explicit constraint.'',
     gap_remediation = ''Create a new Issue plan revision that satisfies the constraint, then re-run '' @
       ''Compiler, approval, execution, and verification.''\<rparr>"

definition gaps_of :: "goal_verification \<Rightarrow> verification_gap list" where
  "gaps_of v =
     (let out = gv_output v in
      map (criterion_gap (gv_results v) out)
        (filter (\<lambda>c. criterion_verdict c \<noteq> JStr ''passed'') (criterion_verdicts out)) @
      map nonGoal_gap (filter (\<lambda>b. boundary_verdict b \<noteq> ''preserved'') (nonGoal_verdicts out)) @
      map constraint_gap (filter (\<lambda>b. boundary_verdict b \<noteq> ''satisfied'') (constraint_verdicts out)))"

definition gap_report_of :: "gap_call \<Rightarrow> gap_command \<Rightarrow> goal_verification \<Rightarrow> verification_gap_report" where
  "gap_report_of x c v = \<lparr>gr_id = gap_newId x, gr_scope = gapc_scope c, gr_verificationId = gv_id v,
     gr_issuePlanId = gv_issuePlanId v,
     gr_failedCriterionRefs = concat (map (\<lambda>g. case gap_criterionRef g of
         Some r \<Rightarrow> if r = '''' then [] else [r] | None \<Rightarrow> []) (gaps_of v)),
     gr_preservedEvidenceRefs = sort (js_set (concat (map det_evidenceRefs (gv_results v)))),
     gr_gaps = gaps_of v, gr_createdBy = gapc_actorId c, gr_createdAt = toISOString (gap_clock x),
     gr_version = 1\<rparr>"

text \<open>\<open>create\<close> up to the write: the report that exists, or the one to append.\<close>

definition prepare_gap_report ::
  "gap_call \<Rightarrow> gap_command \<Rightarrow> verification_repository \<Rightarrow>
   js_error + (verification_gap_report + verification_gap_report)" where
  "prepare_gap_report x c repo =
     and_then (gap_authorize x (gapc_actorId c) (organizationId (gapc_scope c)) (projectId (gapc_scope c)) ''goal.verify'') (\<lambda>_.
       case findGapReportByVerification (gapc_scope c) (gapc_verificationId c) repo of
         Some existing \<Rightarrow> Inr (Inl existing)
       | None \<Rightarrow>
           (case getVerification (gapc_scope c) (gapc_verificationId c) repo of
              None \<Rightarrow> Inl (PlainError ''Only the latest failed verification can create a gap report'')
            | Some v \<Rightarrow>
                if map_option gv_id (at_last (listVerifications (gapc_scope c) repo)) \<noteq> Some (gv_id v) \<or>
                   gv_verdict v = Verdict_passed
                then Inl (PlainError ''Only the latest failed verification can create a gap report'')
                else if gaps_of v = []
                then Inl (PlainError ''A failed verification must identify at least one criterion gap'')
                else Inr (Inr (gap_report_of x c v))))"

definition create_gap_report ::
  "gap_call \<Rightarrow> gap_command \<Rightarrow> verification_repository \<Rightarrow>
   (js_error + verification_gap_report) \<times> verification_repository" where
  "create_gap_report x c repo =
     (case prepare_gap_report x c repo of
        Inl e \<Rightarrow> (Inl e, repo)
      | Inr (Inl existing) \<Rightarrow> (Inr existing, repo)
      | Inr (Inr r) \<Rightarrow> appendGapReport r repo)"

section \<open>Remediation\<close>

definition gap_bounded :: "string \<Rightarrow> string \<Rightarrow> nat \<Rightarrow> js_error + string" where
  "gap_bounded v name maximum =
     (if trim v = '''' \<or> length (trim v) > maximum
      then Inl (PlainError (name @ '' must be non-blank and bounded''))
      else Inr (trim v))"

record confirm_command =
  cf_scope :: goal_scope
  cf_reportId :: string
  cf_actorId :: string
  cf_humanConfirmed :: bool
  cf_reason :: string
  cf_idempotencyKey :: string
  cf_draft :: json

definition remediation_of :: "issue_plan \<Rightarrow> remediation_plan" where
  "remediation_of p = \<lparr>rp_id = issue_plan.plan_id p, rp_previousPlanId = issue_plan.previousPlanId p,
     rp_revision = revision p, rp_status = plan_status_name (plan_status p),
     rp_valid = compiled_valid (compilation p), rp_version = issue_plan.plan_version p\<rparr>"

text \<open>The plan an earlier attempt of the same remediation left behind.\<close>

definition recovered_plan :: "string \<Rightarrow> string \<Rightarrow> issue_plan option \<Rightarrow> remediation_plan option" where
  "recovered_plan previousId run latest =
     (case latest of
        None \<Rightarrow> None
      | Some p \<Rightarrow>
          if issue_plan.previousPlanId p = Some previousId \<and> plannerRunId p = run \<and>
             adapter (plannerConfiguration p) = ''goal-verifier-gap''
          then Some (remediation_of p) else None)"

definition remediation_configuration :: issue_planner_configuration where
  "remediation_configuration = \<lparr>adapter = ''goal-verifier-gap'',
     modelProfile = ''human-confirmed-remediation'', config_schemaVersion = ''issue-plan-draft.v1''\<rparr>"

definition createRemediationDraft ::
  "plan_environment \<Rightarrow> plan_call \<Rightarrow> goal_scope \<Rightarrow> string \<Rightarrow> string \<Rightarrow> string \<Rightarrow> json \<Rightarrow>
   plan_repository \<Rightarrow> (js_error + remediation_plan) \<times> plan_repository" where
  "createRemediationDraft env x scope previousId reportId actor dr ps =
     (let run = ''gap-remediation:'' @ reportId; latest = getLatest scope ps in
      case get_plan scope previousId ps of
        None \<Rightarrow> (Inl (PlainError ''Gap remediation source Issue plan is stale''), ps)
      | Some previous \<Rightarrow>
          (case recovered_plan previousId run latest of
             Some p \<Rightarrow> (Inr p, ps)
           | None \<Rightarrow>
               if map_option issue_plan.plan_id latest \<noteq> Some (issue_plan.plan_id previous)
               then (Inl (PlainError ''Gap remediation source Issue plan is stale''), ps)
               else
                 (case createDraft env x \<lparr>cd_scope = scope, cd_source = plan_source previous, cd_draft = dr,
                      cd_plannerRunId = run, cd_plannerConfiguration = remediation_configuration,
                      cd_actorId = actor\<rparr> ps of
                    (Inr p, ps') \<Rightarrow> (Inr (remediation_of p), ps')
                  | (Inl e, ps') \<Rightarrow>
                      (case recovered_plan previousId run (getLatest scope ps') of
                         Some p \<Rightarrow> (Inr p, ps')
                       | None \<Rightarrow> (Inl e, ps')))))"

definition confirm_gap ::
  "plan_environment \<Rightarrow> gap_call \<Rightarrow> plan_call \<Rightarrow> confirm_command \<Rightarrow>
   plan_repository \<Rightarrow> verification_repository \<Rightarrow>
   (js_error + remediation_receipt) \<times> plan_repository \<times> verification_repository" where
  "confirm_gap env x px c ps repo =
     (let scope = cf_scope c;
          checked =
            and_then (gap_authorize x (cf_actorId c) (organizationId scope) (projectId scope) ''issue.generate'') (\<lambda>_.
              if \<not> cf_humanConfirmed c
              then Inl (PlainError ''Explicit human confirmation is required for remediation'')
              else
            and_then (gap_bounded (cf_reason c) ''reason'' 4000) (\<lambda>reason.
            and_then (gap_bounded (cf_idempotencyKey c) ''idempotencyKey'' 200) (\<lambda>k.
              if length k < 8 then Inl (PlainError ''idempotencyKey is too short'')
              else
                (case getGapReport scope (cf_reportId c) repo of
                   None \<Rightarrow> Inl (PlainError ''Verification gap report was not found'')
                 | Some r \<Rightarrow> Inr (reason, k, r))))) in
      case checked of
        Inl e \<Rightarrow> (Inl e, ps, repo)
      | Inr (reason, k, r) \<Rightarrow>
          (let hash = sha256Hex env (canonicalJson (localeCompare env) (JObj [(''reportId'', JStr (gr_id r)),
                 (''actorId'', JStr (cf_actorId c)), (''reason'', JStr reason), (''draft'', cf_draft c)]));
               opkey = remediation_key (organizationId scope) (gr_id r) (cf_actorId c) k in
           case findGapRemediation opkey repo of
             Some (h, receipt) \<Rightarrow>
               (if h \<noteq> hash then Inl (PlainError ''Gap remediation idempotency conflict'') else Inr receipt, ps, repo)
           | None \<Rightarrow>
               (case createRemediationDraft env px scope (gr_issuePlanId r) (gr_id r) (cf_actorId c) (cf_draft c) ps of
                  (Inl e, ps') \<Rightarrow> (Inl e, ps', repo)
                | (Inr p, ps') \<Rightarrow>
                    if rp_previousPlanId p \<noteq> Some (gr_issuePlanId r) \<or> rp_status p \<noteq> ''draft'' \<or> \<not> rp_valid p
                    then (Inl (PlainError ''Gap remediation must create a compiled draft after the failed Issue plan''), ps', repo)
                    else
                      (case saveGapRemediation opkey hash \<lparr>rr_reportId = gr_id r, rr_plan = p,
                           rr_preservedEvidenceRefs = gr_preservedEvidenceRefs r, rr_actorId = cf_actorId c,
                           rr_reason = reason, rr_recordedAt = toISOString (gap_clock x)\<rparr> repo of
                         (res, repo') \<Rightarrow> (res, ps', repo')))))"

definition gap_timeline ::
  "plan_environment \<Rightarrow> gap_call \<Rightarrow> goal_scope \<Rightarrow> string \<Rightarrow> verification_repository \<Rightarrow>
   js_error + verification_gap_report list" where
  "gap_timeline env x scope actor repo =
     and_then (gap_authorize x actor (organizationId scope) (projectId scope) ''goal.verify'') (\<lambda>_.
       Inr (listGapReports (localeCompare env) scope repo))"

section \<open>The digest of a delivery report\<close>

definition report_acceptance_json :: "report_acceptance \<Rightarrow> json" where
  "report_acceptance_json a = JObj [(''criterionRef'', JStr (acc_criterionRef a)),
     (''statement'', JStr (acc_statement a)), (''verdict'', JStr ''passed''),
     (''evidenceRefs'', texts_json (acc_evidenceRefs a)), (''rationale'', JStr (acc_rationale a))]"

definition issue_run_json :: "delivery_issue_run \<Rightarrow> json" where
  "issue_run_json r = JObj ([(''issueId'', JStr (ir_issueId r)), (''issueKey'', JStr (ir_issueKey r)),
     (''runId'', JStr (ir_runId r)), (''status'', JStr (ir_status r)),
     (''artifactRefs'', texts_json (ir_artifactRefs r)), (''reviewIds'', texts_json (ir_reviewIds r)),
     (''commitSha'', nullable (ir_commitSha r))] @
     (case ir_pullRequest r of None \<Rightarrow> [] | Some p \<Rightarrow> [(''pullRequest'', JObj [
        (''externalId'', JStr (prr_externalId p)), (''url'', JStr (prr_url p)),
        (''status'', JStr (prr_status p))])]))"

definition known_risk_json :: "known_risk \<Rightarrow> json" where
  "known_risk_json k = JObj [(''severity'', JStr (kr_severity k)), (''statement'', JStr (kr_statement k)),
     (''disposition'', JStr (kr_disposition k))]"

definition human_acceptance_json :: "human_acceptance option \<Rightarrow> json" where
  "human_acceptance_json h = (case h of None \<Rightarrow> JNull | Some a \<Rightarrow> JObj [
     (''actorId'', JStr (ha_actorId a)), (''role'', JStr ''approver''), (''reason'', JStr (ha_reason a)),
     (''requestId'', JStr (ha_requestId a)), (''acceptedAt'', JStr (ha_acceptedAt a))])"

text \<open>All fields but the digest.\<close>

definition report_json :: "delivery_report \<Rightarrow> json" where
  "report_json r = JObj ([(''schemaVersion'', JStr ''delivery-report.v1''), (''id'', JStr (rep_id r))] @
     scope_fields (rep_scope r) @
     [(''revision'', JInt (int (rep_revision r))), (''previousReportId'', nullable (rep_previousId r)),
      (''verificationId'', JStr (rep_verificationId r)), (''verificationPlanId'', JStr (rep_planId r)),
      (''issuePlanId'', JStr (rep_issuePlanId r)), (''goal'', contract_json (rep_goal r)),
      (''acceptance'', JArr (map report_acceptance_json (rep_acceptance r))),
      (''issueRuns'', JArr (map issue_run_json (rep_issueRuns r))),
      (''exceptions'', texts_json (rep_exceptions r)),
      (''knownRisks'', JArr (map known_risk_json (rep_knownRisks r))),
      (''regressionRisks'', JArr (map risk_json (rep_regressionRisks r))),
      (''status'', JStr (case rep_status r of Awaiting_human_acceptance \<Rightarrow> ''awaiting_human_acceptance''
         | Report_accepted \<Rightarrow> ''accepted'')),
      (''humanAcceptance'', human_acceptance_json (rep_humanAcceptance r)),
      (''generatedBy'', JStr (rep_generatedBy r)), (''generatedAt'', JStr (rep_generatedAt r)),
      (''version'', JInt (int (rep_version r)))])"

definition withDigest :: "plan_environment \<Rightarrow> delivery_report \<Rightarrow> delivery_report" where
  "withDigest env r = r\<lparr>rep_digest := sha256Hex env (canonicalJson (localeCompare env) (report_json r))\<rparr>"

section \<open>Generating a report\<close>

record report_call =
  rep_authorize :: "string \<Rightarrow> string \<Rightarrow> string \<Rightarrow> string \<Rightarrow> js_error + unit"
  rep_clock :: int
  rep_newId :: string
  rep_source :: "goal_scope \<Rightarrow> delivery_report_source"

record report_command =
  rpc_scope :: goal_scope
  rpc_verificationId :: string
  rpc_actorId :: string
  rpc_knownRisks :: "known_risk list"

definition validate_known_risk :: "nat \<Rightarrow> known_risk \<Rightarrow> js_error + known_risk" where
  "validate_known_risk i k =
     (let path = index_path ''knownRisks'' i in
      if kr_severity k \<notin> {''low'', ''medium'', ''high'', ''critical''} \<or>
         kr_disposition k \<notin> {''accepted'', ''monitor'', ''blocked''}
      then Inl (PlainError (path @ '' is invalid''))
      else and_then (gap_bounded (kr_statement k) (path @ ''.statement'') 4000) (\<lambda>s.
        Inr \<lparr>kr_severity = kr_severity k, kr_statement = s, kr_disposition = kr_disposition k\<rparr>))"

definition validateRisks :: "known_risk list \<Rightarrow> js_error + known_risk list" where
  "validateRisks ks =
     (if length ks > 100 then Inl (PlainError ''knownRisks must be a bounded list'')
      else map_try validate_known_risk 0 ks)"

text \<open>What is read at the start; the Goal of the source is then copied into the repository.\<close>

definition read_report_inputs ::
  "report_call \<Rightarrow> report_command \<Rightarrow> verification_repository \<Rightarrow>
   js_error + (goal_verification \<times> acceptance_verification_plan \<times> delivery_report_source \<times> delivery_report option)" where
  "read_report_inputs x c repo =
     (let scope = rpc_scope c; src = rep_source x scope in
      and_then (rep_authorize x (rpc_actorId c) (organizationId scope) (projectId scope) ''delivery_report.generate'') (\<lambda>_.
        case getVerification scope (rpc_verificationId c) repo of
          None \<Rightarrow> Inl (PlainError ''A passed Goal verification is required for Delivery Report'')
        | Some v \<Rightarrow>
            if map_option gv_id (at_last (listVerifications scope repo)) \<noteq> Some (gv_id v) \<or>
               gv_verdict v \<noteq> Verdict_passed \<or> overallVerdict (gv_output v) \<noteq> JStr ''passed''
            then Inl (PlainError ''A passed Goal verification is required for Delivery Report'')
            else
              (case getPlan scope (gv_planId v) repo of
                 None \<Rightarrow> Inl (PlainError ''Delivery Report source or verification plan is stale'')
               | Some p \<Rightarrow>
                   if map_option acceptance_verification_plan.plan_id (at_last (listPlans scope repo)) \<noteq>
                        Some (acceptance_verification_plan.plan_id p) \<or>
                      plan_issuePlanId p \<noteq> gv_issuePlanId v \<or> goal_id (src_goal src) \<noteq> goalId scope \<or>
                      goal_state (src_goal src) \<noteq> Verifying \<or>
                      goal_version (src_goal src) \<noteq> gv_goalVersion v
                   then Inl (PlainError ''Delivery Report source or verification plan is stale'')
                   else Inr (v, p, src, at_last (listDeliveryReports scope repo)))))"

definition report_criterion ::
  "string goal_contract \<Rightarrow> nat \<Rightarrow> criterion_verdict \<Rightarrow> js_error + report_acceptance" where
  "report_criterion g i r =
     (let missing = Inl (PlainError ''Every criterion requires a passed verdict and evidence'') in
      case map_of (js_map (map (\<lambda>c. (criterion_id c, c)) (acceptanceCriteria g))) (verdict_criterionRef r) of
        None \<Rightarrow> missing
      | Some criterion \<Rightarrow>
          if criterion_verdict r \<noteq> JStr ''passed'' \<or> verdict_evidenceRefs r = [] then missing
          else Inr \<lparr>acc_criterionRef = verdict_criterionRef r, acc_statement = criterion_statement criterion,
            acc_evidenceRefs = verdict_evidenceRefs r, acc_rationale = verdict_rationale r\<rparr>)"

definition available_refs :: "delivery_report_source \<Rightarrow> goal_verification \<Rightarrow> string set" where
  "available_refs src v = set (concat (map ir_artifactRefs (src_issueRuns src))) \<union>
     set (concat (map det_evidenceRefs (gv_results v)))"

definition complete_run :: "delivery_issue_run \<Rightarrow> bool" where
  "complete_run r \<longleftrightarrow> ir_status r = ''completed'' \<and> ir_artifactRefs r \<noteq> [] \<and> ir_reviewIds r \<noteq> [] \<and>
     ir_commitSha r \<noteq> None \<and> ir_commitSha r \<noteq> Some ''''"

definition build_report ::
  "plan_environment \<Rightarrow> report_call \<Rightarrow> report_command \<Rightarrow>
   goal_verification \<times> acceptance_verification_plan \<times> delivery_report_source \<times> delivery_report option \<Rightarrow>
   js_error + delivery_report" where
  "build_report env x c inputs =
     (case inputs of (v, p, src, latest) \<Rightarrow>
      and_then (map_try (report_criterion (src_goal src)) 0 (criterion_verdicts (gv_output v))) (\<lambda>acceptance.
        if src_issueRuns src = [] \<or> (\<exists>r\<in>set (src_issueRuns src). \<not> complete_run r) \<or>
           (\<exists>a\<in>set acceptance. \<not> set (acc_evidenceRefs a) \<subseteq> available_refs src v)
        then Inl (PlainError ''Completed Issue, immutable evidence, Review, and Commit references are required'')
        else
      and_then (validateRisks (rpc_knownRisks c)) (\<lambda>risks.
        if \<exists>k\<in>set risks. kr_disposition k = ''blocked''
        then Inl (PlainError ''Blocked risk prevents Delivery Report generation'')
        else Inr (withDigest env \<lparr>rep_id = rep_newId x, rep_scope = rpc_scope c,
          rep_revision = (case latest of None \<Rightarrow> 0 | Some l \<Rightarrow> rep_revision l) + 1,
          rep_previousId = map_option rep_id latest, rep_verificationId = gv_id v,
          rep_planId = acceptance_verification_plan.plan_id p, rep_issuePlanId = gv_issuePlanId v,
          rep_goal = src_goal src, rep_acceptance = acceptance, rep_issueRuns = src_issueRuns src,
          rep_exceptions = src_exceptions src, rep_knownRisks = risks,
          rep_regressionRisks = regressionRisks (gv_output v), rep_status = Awaiting_human_acceptance,
          rep_humanAcceptance = None, rep_digest = '''', rep_generatedBy = rpc_actorId c,
          rep_generatedAt = toISOString (rep_clock x), rep_version = 1\<rparr>))))"

definition generate_report ::
  "plan_environment \<Rightarrow> report_call \<Rightarrow> report_command \<Rightarrow> verification_repository \<Rightarrow>
   (js_error + delivery_report) \<times> verification_repository" where
  "generate_report env x c repo =
     (case read_report_inputs x c repo of
        Inl e \<Rightarrow> (Inl e, repo)
      | Inr (v, p, src, latest) \<Rightarrow>
          (let repo' = synchronizeGoal (src_goal src) repo in
           case build_report env x c (v, p, src, latest) of
             Inl e \<Rightarrow> (Inl e, repo')
           | Inr r \<Rightarrow> appendDeliveryReport r repo'))"

section \<open>Accepting a report\<close>

record accept_command =
  ak_scope :: goal_scope
  ak_reportId :: string
  ak_actorId :: string
  ak_expectedGoalVersion :: int
  ak_reason :: string
  ak_requestId :: string
  ak_idempotencyKey :: string

definition accept_hash_json :: "accept_command \<Rightarrow> string \<Rightarrow> string \<Rightarrow> json" where
  "accept_hash_json c reason request = JObj (scope_fields (ak_scope c) @ [
     (''reportId'', JStr (ak_reportId c)), (''actorId'', JStr (ak_actorId c)),
     (''expectedGoalVersion'', JInt (ak_expectedGoalVersion c)), (''reason'', JStr reason),
     (''requestId'', JStr request)])"

definition check_accept ::
  "report_call \<Rightarrow> accept_command \<Rightarrow> js_error + (string \<times> string \<times> string)" where
  "check_accept x c =
     and_then (rep_authorize x (ak_actorId c) (organizationId (ak_scope c)) (projectId (ak_scope c)) ''goal.accept'') (\<lambda>_.
     and_then (gap_bounded (ak_reason c) ''reason'' 4000) (\<lambda>reason.
     and_then (gap_bounded (ak_requestId c) ''requestId'' 200) (\<lambda>request.
     and_then (gap_bounded (ak_idempotencyKey c) ''idempotencyKey'' 200) (\<lambda>k.
       if length k < 8 then Inl (PlainError ''idempotencyKey is too short'')
       else Inr (reason, request, k)))))"

definition accepted_report ::
  "plan_environment \<Rightarrow> report_call \<Rightarrow> accept_command \<Rightarrow> string \<Rightarrow> string \<Rightarrow> delivery_report \<Rightarrow> delivery_report" where
  "accepted_report env x c reason request current =
     (let at = toISOString (rep_clock x) in
      withDigest env (current\<lparr>rep_id := rep_newId x, rep_revision := rep_revision current + 1,
        rep_previousId := Some (rep_id current), rep_status := Report_accepted,
        rep_humanAcceptance := Some \<lparr>ha_actorId = ak_actorId c, ha_reason = reason,
          ha_requestId = request, ha_acceptedAt = at\<rparr>,
        rep_generatedBy := ak_actorId c, rep_generatedAt := at, rep_version := 1\<rparr>))"

definition prepare_accept ::
  "plan_environment \<Rightarrow> report_call \<Rightarrow> accept_command \<Rightarrow> verification_repository \<Rightarrow>
   js_error + report_acceptance_command" where
  "prepare_accept env x c repo =
     and_then (check_accept x c) (\<lambda>(reason, request, k).
       let scope = ak_scope c;
           hash = sha256Hex env (canonicalJson (localeCompare env) (accept_hash_json c reason request));
           conflict = Inl (PlainError ''Delivery Report or Goal version conflict'') in
       case getDeliveryReport scope (ak_reportId c) repo of
         None \<Rightarrow> conflict
       | Some current \<Rightarrow>
           (case at_last (listDeliveryReports scope repo) of
              None \<Rightarrow> conflict
            | Some latest \<Rightarrow>
                if rep_status latest = Report_accepted \<and> rep_previousId latest = Some (rep_id current)
                then Inr \<lparr>rac_current = current, rac_accepted = latest,
                  rac_expectedGoalVersion = ak_expectedGoalVersion c, rac_idempotencyKey = k,
                  rac_requestHash = hash\<rparr>
                else
                  (case getGoal scope repo of
                     None \<Rightarrow> conflict
                   | Some g \<Rightarrow>
                       if rep_id latest \<noteq> rep_id current \<or> rep_status current \<noteq> Awaiting_human_acceptance \<or>
                          goal_state g \<noteq> Verifying \<or> int (goal_version g) \<noteq> ak_expectedGoalVersion c \<or>
                          (\<exists>k\<in>set (rep_knownRisks current). kr_disposition k = ''blocked'')
                       then conflict
                       else Inr \<lparr>rac_current = current,
                         rac_accepted = accepted_report env x c reason request current,
                         rac_expectedGoalVersion = ak_expectedGoalVersion c, rac_idempotencyKey = k,
                         rac_requestHash = hash\<rparr>)))"

definition accept_report ::
  "plan_environment \<Rightarrow> report_call \<Rightarrow> accept_command \<Rightarrow> verification_repository \<Rightarrow>
   (js_error + delivery_report \<times> string goal_contract) \<times> verification_repository" where
  "accept_report env x c repo =
     (case prepare_accept env x c repo of
        Inl e \<Rightarrow> (Inl e, repo)
      | Inr k \<Rightarrow> acceptDeliveryReport k repo)"

definition report_timeline ::
  "report_call \<Rightarrow> goal_scope \<Rightarrow> string \<Rightarrow> verification_repository \<Rightarrow> js_error + delivery_report list" where
  "report_timeline x scope actor repo =
     and_then (rep_authorize x actor (organizationId scope) (projectId scope) ''delivery_report.read'') (\<lambda>_.
       Inr (listDeliveryReports scope repo))"

end
