(* ===== verification/Verification_Safety.thy ===== *)
theory Verification_Safety
  imports Delivery_Reports
begin

text \<open>
  What verification and delivery guarantee: what a passed verification rests on, which calls are
  refused, and, over every sequence of requests in flight together, that a delivery report rests on
  a passed verification and a Goal is completed by an accepted report only.
\<close>

section \<open>A verification\<close>

lemma prepare_verificationE:
  assumes "prepare_verification x c ws ps repo = Inr v"
  obtains gl p builders where "eligible_plan c ws ps repo = Inr (gl, p)"
    "independent_builders x (vk_scope c) (plan_issuePlanId p) = Inr builders"
    "judged_entries x c p = Inr (gv_results v)"
    "verifier_judgement x gl p builders (gv_results v) = Inr (gv_output v)"
    "gv_verdict v = derivedVerdict (gv_results v) (gv_output v)"
    "gv_scope v = vk_scope c" "gv_planId v = acceptance_verification_plan.plan_id p"
    "gv_issuePlanId v = plan_issuePlanId p" "gv_goalVersion v = goal_version gl"
    "gv_verifierIdentity v = trim (vc_identity x)"
  using assms by (auto simp: prepare_verification_def result_simps Let_def)

lemma eligible_planD:
  "eligible_plan c ws ps repo = Inr (gl, p) \<Longrightarrow>
     workspace_get (vk_scope c) ws = Some gl \<and> goal_state gl = Verifying \<and>
     int (goal_version gl) = vk_expectedGoalVersion c \<and> plan_goalVersion p = goal_version gl \<and>
     getPlan (vk_scope c) (vk_planId c) repo = Some p"
  by (auto simp: eligible_plan_def Let_def split: option.splits if_splits)

lemma independent_buildersD:
  "independent_builders x s i = Inr bs \<Longrightarrow>
     (\<forall>b\<in>set (vc_builders x s i). b \<noteq> '''' \<longrightarrow> lower (trim b) \<noteq> lower (trim (vc_identity x))) \<and>
     trim (vc_identity x) \<noteq> ''''"
  by (auto simp: independent_builders_def Let_def split: if_splits)

lemma judged_entriesD:
  assumes "judged_entries x c p = Inr ds"
  shows "map_try (judged_entry x c) 0 (entries p) = Inr ds" "distinct (map me_entryId (vk_manualEvidence c))"
    "\<forall>m\<in>set (vk_manualEvidence c). \<exists>e\<in>set (entries p). entry_id e = me_entryId m \<and> manual_entry e"
  using assms by (auto simp: judged_entries_def result_simps split: if_splits)

lemma judged_entry_simps:
  assumes "judged_entry x c i e = Inr d"
  shows "det_entryId d = entry_id e" "det_criterionRef d = entry_criterionRef e"
    "det_status d \<in> {''passed'', ''failed'', ''needs_manual''}"
    "det_status d = ''passed'' \<Longrightarrow> det_evidenceRefs d \<noteq> []"
  using assms by (auto simp: judged_entry_def result_simps split: if_splits dest: arg_cong[where f = set])

text \<open>An entry verified by hand passes only by the signature of someone who may accept the Goal.\<close>

definition signed_by_hand :: "verify_call \<Rightarrow> verify_command \<Rightarrow> acceptance_verification_entry \<Rightarrow> bool" where
  "signed_by_hand x c e \<longleftrightarrow>
     vc_authorize x (vk_actorId c) (organizationId (vk_scope c)) (projectId (vk_scope c)) ''goal.accept'' = Inr () \<and>
     (\<exists>m\<in>set (vk_manualEvidence c). me_entryId m = entry_id e \<and> trim (me_evidenceRef m) \<noteq> '''' \<and>
        trim (me_reason m) \<noteq> '''')"

lemma manual_entry_passes:
  assumes "judged_entry x c i e = Inr d" "det_status d = ''passed''" "manual_entry e"
  shows "signed_by_hand x c e"
proof -
  from assms obtain r where r: "run_entry x c i e = Inr r" "vres_status r = ''passed''"
    by (auto simp: judged_entry_def result_simps split: if_splits)
  from assms(3) obtain howto where "strategy e = Manual howto"
    by (auto simp: manual_entry_def split: verification_strategy.splits)
  with r show ?thesis
    by (auto simp: run_entry_def signed_result_def result_simps signed_by_hand_def
        split: option.splits if_splits dest!: find_SomeD)
qed

definition backed_result ::
  "verify_call \<Rightarrow> verify_command \<Rightarrow> acceptance_verification_entry \<Rightarrow> deterministic_result \<Rightarrow> bool" where
  "backed_result x c e d \<longleftrightarrow> det_entryId d = entry_id e \<and> det_criterionRef d = entry_criterionRef e \<and>
     det_status d = ''passed'' \<and> det_evidenceRefs d \<noteq> [] \<and> (manual_entry e \<longrightarrow> signed_by_hand x c e)"

lemma passed_verdict:
  assumes "derivedVerdict ds out = Verdict_passed" "clean_output g out"
  shows "\<forall>d\<in>set ds. det_status d \<noteq> ''failed'' \<and> det_status d \<noteq> ''needs_manual''"
    "overallVerdict out \<noteq> JStr ''failed''" "overallVerdict out \<noteq> JStr ''needs_manual''"
    "\<forall>b\<in>set (nonGoal_verdicts out). boundary_verdict b = ''preserved''"
    "\<forall>b\<in>set (constraint_verdicts out). boundary_verdict b = ''satisfied''"
    "\<forall>v\<in>set (criterion_verdicts out). \<forall>s. criterion_verdict v = JStr s \<longrightarrow> s = ''passed''"
proof -
  from assms(1) have n: "(\<forall>d\<in>set ds. det_status d \<noteq> ''failed'' \<and> det_status d \<noteq> ''needs_manual'')"
    "overallVerdict out \<noteq> JStr ''failed''" "overallVerdict out \<noteq> JStr ''needs_manual''"
    "(\<forall>b\<in>set (nonGoal_verdicts out). boundary_verdict b \<notin> {''violated'', ''unknown''})"
    "(\<forall>b\<in>set (constraint_verdicts out). boundary_verdict b \<notin> {''violated'', ''unknown''})"
    "(\<forall>v\<in>set (criterion_verdicts out). criterion_verdict v \<notin> {JStr ''failed'', JStr ''needs_manual''})"
    by (auto simp: derivedVerdict_def split: if_splits)
  then show "\<forall>d\<in>set ds. det_status d \<noteq> ''failed'' \<and> det_status d \<noteq> ''needs_manual''"
    "overallVerdict out \<noteq> JStr ''failed''" "overallVerdict out \<noteq> JStr ''needs_manual''" by auto
  from assms(2) n(4) show "\<forall>b\<in>set (nonGoal_verdicts out). boundary_verdict b = ''preserved''"
    by (auto simp: clean_output_def clean_boundary_def nonGoal_names_def list_all_iff)
  from assms(2) n(5) show "\<forall>b\<in>set (constraint_verdicts out). boundary_verdict b = ''satisfied''"
    by (auto simp: clean_output_def clean_boundary_def constraint_names_def list_all_iff)
  from assms(2) n(6) show "\<forall>v\<in>set (criterion_verdicts out). \<forall>s. criterion_verdict v = JStr s \<longrightarrow> s = ''passed''"
    by (fastforce simp: clean_output_def clean_criterion_verdict_def verdicts_def list_all_iff)
qed

lemma verifier_judgementD:
  assumes "verifier_judgement x gl p bs ds = Inr out"
  shows "clean_output gl out"
    "\<forall>v\<in>set (criterion_verdicts out). criterion_verdict v = JStr ''passed'' \<longrightarrow>
       verdict_evidenceRefs v \<noteq> [] \<and> set (verdict_evidenceRefs v) \<subseteq> set (concat (map det_evidenceRefs ds))"
  using assms validated_output_clean
  by (auto simp: verifier_judgement_def result_simps split: if_splits)

lemma judged_entries_passed:
  assumes "judged_entries x c p = Inr ds" "\<forall>d\<in>set ds. det_status d \<noteq> ''failed'' \<and> det_status d \<noteq> ''needs_manual''"
  shows "list_all2 (backed_result x c) (entries p) ds"
proof (rule list_all2_all_nthI)
  from judged_entriesD(1)[OF assms(1)] have m: "map_try (judged_entry x c) 0 (entries p) = Inr ds" .
  from map_try_length[OF m] show len: "length (entries p) = length ds" by simp
  fix i assume i: "i < length (entries p)"
  from map_try_nth[OF m i] have j: "judged_entry x c (0 + i) (entries p ! i) = Inr (ds ! i)" .
  from assms(2) i len have "det_status (ds ! i) \<noteq> ''failed'' \<and> det_status (ds ! i) \<noteq> ''needs_manual''" by simp
  with judged_entry_simps[OF j] have "det_status (ds ! i) = ''passed''" by auto
  with judged_entry_simps[OF j] manual_entry_passes[OF j] show "backed_result x c (entries p ! i) (ds ! i)"
    by (simp add: backed_result_def)
qed

text \<open>
  Property C11. A passed verification is of a Goal in verification, at the version its plan was
  compiled for; every entry of the plan has a passed result with evidence, and the entries for
  a person were signed by an actor who may accept the Goal. The verifier gave one verdict for each
  criterion of the Goal; those given as a text say passed and cite evidence that the entries
  produced. All non-goals are preserved and all constraints satisfied. The verifier is none of the
  builders of the Issue plan, whatever the case and the white space of their names.
\<close>

theorem passed_verification_is_backed:
  assumes "prepare_verification x c ws ps repo = Inr v" and "gv_verdict v = Verdict_passed"
  shows "\<exists>gl p. workspace_get (vk_scope c) ws = Some gl \<and> goal_state gl = Verifying \<and>
    getPlan (vk_scope c) (vk_planId c) repo = Some p \<and> plan_goalVersion p = goal_version gl \<and>
    list_all2 (backed_result x c) (entries p) (gv_results v) \<and>
    mset (map verdict_criterionRef (criterion_verdicts (gv_output v))) =
      mset (map criterion_id (acceptanceCriteria gl)) \<and>
    (\<forall>r\<in>set (criterion_verdicts (gv_output v)). \<forall>s. criterion_verdict r = JStr s \<longrightarrow>
       s = ''passed'' \<and> verdict_evidenceRefs r \<noteq> [] \<and>
       set (verdict_evidenceRefs r) \<subseteq> set (concat (map det_evidenceRefs (gv_results v)))) \<and>
    (\<forall>b\<in>set (nonGoal_verdicts (gv_output v)). boundary_verdict b = ''preserved'') \<and>
    (\<forall>b\<in>set (constraint_verdicts (gv_output v)). boundary_verdict b = ''satisfied'') \<and>
    (\<forall>b\<in>set (vc_builders x (vk_scope c) (plan_issuePlanId p)). b \<noteq> '''' \<longrightarrow>
       lower (trim b) \<noteq> lower (gv_verifierIdentity v))"
proof -
  from assms(1) obtain gl p builders where e: "eligible_plan c ws ps repo = Inr (gl, p)"
    and b: "independent_builders x (vk_scope c) (plan_issuePlanId p) = Inr builders"
    and j: "judged_entries x c p = Inr (gv_results v)"
    and o: "verifier_judgement x gl p builders (gv_results v) = Inr (gv_output v)"
    and d: "gv_verdict v = derivedVerdict (gv_results v) (gv_output v)"
    and i: "gv_verifierIdentity v = trim (vc_identity x)" by (rule prepare_verificationE)
  from verifier_judgementD(1)[OF o] have clean: "clean_output gl (gv_output v)" .
  from passed_verdict[OF _ clean] assms(2) d
  have ds: "\<forall>d\<in>set (gv_results v). det_status d \<noteq> ''failed'' \<and> det_status d \<noteq> ''needs_manual''"
    and bs: "\<forall>b\<in>set (nonGoal_verdicts (gv_output v)). boundary_verdict b = ''preserved''"
      "\<forall>b\<in>set (constraint_verdicts (gv_output v)). boundary_verdict b = ''satisfied''"
    and cs: "\<forall>r\<in>set (criterion_verdicts (gv_output v)). \<forall>s. criterion_verdict r = JStr s \<longrightarrow> s = ''passed''"
    by simp_all
  from cs verifier_judgementD(2)[OF o] have vs: "\<forall>r\<in>set (criterion_verdicts (gv_output v)). \<forall>s.
      criterion_verdict r = JStr s \<longrightarrow> s = ''passed'' \<and> verdict_evidenceRefs r \<noteq> [] \<and>
       set (verdict_evidenceRefs r) \<subseteq> set (concat (map det_evidenceRefs (gv_results v)))" by blast
  from clean have "mset (map verdict_criterionRef (criterion_verdicts (gv_output v))) =
      mset (map criterion_id (acceptanceCriteria gl))" by (simp add: clean_output_def)
  with eligible_planD[OF e] judged_entries_passed[OF j ds] vs bs independent_buildersD[OF b] i
  show ?thesis by simp
qed

section \<open>Refusals\<close>


section \<open>Verdicts that are not texts\<close>

text \<open>
  The validator checks the verdicts by their text, the comparison that derives the
  verdict does not: an output that passes still passes when its overall verdict is replaced by the
  array of the one text \<open>Property C36. failed\<close>.
\<close>

theorem array_verdict_passes:
  assumes "clean_output g out" and "derivedVerdict ds out = Verdict_passed"
  defines "out' \<equiv> out\<lparr>overallVerdict := JArr [JStr ''failed'']\<rparr>"
  shows "validateGoalVerifierOutput (output_json out') g = Inr out' \<and>
    js_String (overallVerdict out') = ''failed'' \<and> derivedVerdict ds out' = Verdict_passed"
proof -
  have "js_String (JArr [JStr ''failed'']) = ''failed''" by simp
  with assms(1) have "clean_output g out'" by (simp add: out'_def clean_output_def verdicts_def)
  with clean_output_accepted assms(2) show ?thesis
    by (simp add: out'_def derivedVerdict_def split: if_splits)
qed

section \<open>Requests in flight\<close>

type_synonym report_inputs =
  "goal_verification \<times> acceptance_verification_plan \<times> delivery_report_source \<times> delivery_report option"

record deliveries_in_flight =
  df_repo :: verification_repository
  due_vplans :: "acceptance_verification_plan list"
  due_verifications :: "goal_verification list"
  due_copies :: "(report_call \<times> report_command \<times> report_inputs) list"
  due_reports :: "delivery_report list"
  due_acceptances :: "report_acceptance_command list"

text \<open>
  A plan, a verification and an acceptance are prepared and then written; a report reads, copies
  the Goal, and is built and appended. The Goals and Issue plans read meanwhile are any. The gap
  service leaves the five maps concerned alone.
\<close>

definition deliveries_alike :: "verification_repository \<Rightarrow> verification_repository \<Rightarrow> bool" where
  "deliveries_alike a b \<longleftrightarrow> vr_plans a = vr_plans b \<and> vr_verifications a = vr_verifications b \<and>
     vr_reports a = vr_reports b \<and> vr_goals a = vr_goals b \<and> vr_acceptances a = vr_acceptances b"

inductive delivery_step :: "plan_environment \<Rightarrow> deliveries_in_flight \<Rightarrow> deliveries_in_flight \<Rightarrow> bool" for env where
  vplan_compiled: "prepare_vplan env vx vc ws ps (df_repo f) = Inr p \<Longrightarrow>
    delivery_step env f (f\<lparr>due_vplans := p # due_vplans f\<rparr>)"
| vplan_appended: "p \<in> set (due_vplans f) \<Longrightarrow> appendPlan p (df_repo f) = (pres, repo) \<Longrightarrow>
    delivery_step env f (f\<lparr>df_repo := repo, due_vplans := remove1 p (due_vplans f)\<rparr>)"
| verified: "prepare_verification gx gc ws ps (df_repo f) = Inr v \<Longrightarrow>
    delivery_step env f (f\<lparr>due_verifications := v # due_verifications f\<rparr>)"
| verification_appended: "v \<in> set (due_verifications f) \<Longrightarrow> appendVerification v (df_repo f) = (vres, repo) \<Longrightarrow>
    delivery_step env f (f\<lparr>df_repo := repo, due_verifications := remove1 v (due_verifications f)\<rparr>)"
| report_read: "read_report_inputs x c (df_repo f) = Inr i \<Longrightarrow>
    delivery_step env f (f\<lparr>due_copies := (x, c, i) # due_copies f\<rparr>)"
| goal_copied: "(x, c, i) \<in> set (due_copies f) \<Longrightarrow> i = (v, p, src, latest) \<Longrightarrow>
    delivery_step env f (f\<lparr>df_repo := synchronizeGoal (src_goal src) (df_repo f),
      due_copies := remove1 (x, c, i) (due_copies f),
      due_reports := (case build_report env x c i of Inl e \<Rightarrow> [] | Inr r \<Rightarrow> [r]) @ due_reports f\<rparr>)"
| report_appended: "r \<in> set (due_reports f) \<Longrightarrow> appendDeliveryReport r (df_repo f) = (res, repo) \<Longrightarrow>
    delivery_step env f (f\<lparr>df_repo := repo, due_reports := remove1 r (due_reports f)\<rparr>)"
| acceptance_prepared: "prepare_accept env x ac (df_repo f) = Inr k \<Longrightarrow>
    delivery_step env f (f\<lparr>due_acceptances := k # due_acceptances f\<rparr>)"
| report_accepted: "k \<in> set (due_acceptances f) \<Longrightarrow> acceptDeliveryReport k (df_repo f) = (ares, repo) \<Longrightarrow>
    delivery_step env f (f\<lparr>df_repo := repo, due_acceptances := remove1 k (due_acceptances f)\<rparr>)"
| gaps_handled: "deliveries_alike (df_repo f) repo \<Longrightarrow> delivery_step env f (f\<lparr>df_repo := repo\<rparr>)"

definition no_deliveries :: deliveries_in_flight where
  "no_deliveries = \<lparr>df_repo = new_verification_repository, due_vplans = [], due_verifications = [],
     due_copies = [], due_reports = [], due_acceptances = []\<rparr>"

section \<open>The invariant\<close>

text \<open>A verification whose entries are those of a compiled plan of the repository.\<close>

definition verification_fine :: "verification_repository \<Rightarrow> goal_verification \<Rightarrow> bool" where
  "verification_fine repo v \<longleftrightarrow>
     (\<exists>p \<in> snd ` set (vr_plans repo). acceptance_verification_plan.plan_id p = gv_planId v \<and>
        map det_entryId (gv_results v) = map entry_id (entries p) \<and> plan_issuePlanId p = gv_issuePlanId v) \<and>
     (gv_verdict v = Verdict_passed \<longrightarrow> (\<forall>d\<in>set (gv_results v). det_status d = ''passed'' \<and> det_evidenceRefs d \<noteq> []))"

definition backed_criterion :: "criterion_verdict \<Rightarrow> report_acceptance \<Rightarrow> bool" where
  "backed_criterion r a \<longleftrightarrow> acc_criterionRef a = verdict_criterionRef r \<and> criterion_verdict r = JStr ''passed'' \<and>
     acc_evidenceRefs a = verdict_evidenceRefs r \<and> acc_evidenceRefs a \<noteq> []"

text \<open>A report that rests on a passed verification of its scope.\<close>

definition report_backed :: "plan_environment \<Rightarrow> verification_repository \<Rightarrow> delivery_report \<Rightarrow> bool" where
  "report_backed env repo r \<longleftrightarrow>
     (\<exists>v \<in> snd ` set (vr_verifications repo). gv_id v = rep_verificationId r \<and>
        scope_key (gv_scope v) = scope_key (rep_scope r) \<and> gv_verdict v = Verdict_passed \<and>
        overallVerdict (gv_output v) = JStr ''passed'' \<and>
        list_all2 backed_criterion (criterion_verdicts (gv_output v)) (rep_acceptance r) \<and>
        (\<forall>a\<in>set (rep_acceptance r). set (acc_evidenceRefs a) \<subseteq>
           set (concat (map ir_artifactRefs (rep_issueRuns r))) \<union> set (concat (map det_evidenceRefs (gv_results v))))) \<and>
     rep_issueRuns r \<noteq> [] \<and> (\<forall>i\<in>set (rep_issueRuns r). complete_run i) \<and>
     (\<forall>k\<in>set (rep_knownRisks r). kr_disposition k \<noteq> ''blocked'') \<and>
     rep_digest r = sha256Hex env (canonicalJson (localeCompare env) (report_json r)) \<and>
     (rep_status r = Report_accepted \<longrightarrow> (\<exists>h. rep_humanAcceptance r = Some h \<and> ha_reason h \<noteq> ''''))"

definition acceptance_fine :: "plan_environment \<Rightarrow> verification_repository \<Rightarrow> report_acceptance_command \<Rightarrow> bool" where
  "acceptance_fine env repo k \<longleftrightarrow> report_backed env repo (rac_accepted k) \<and>
     scope_key (rep_scope (rac_accepted k)) = scope_key (rep_scope (rac_current k))"

definition completing_report :: "plan_environment \<Rightarrow> verification_repository \<Rightarrow> string \<Rightarrow> string goal_contract \<Rightarrow> bool" where
  "completing_report env repo k g \<longleftrightarrow> (\<exists>key' h r. vr_acceptances repo key' = Some (h, r, g) \<and>
     report_backed env repo r \<and> rep_status r = Report_accepted \<and> scope_key (rep_scope r) = k)"

definition goals_fine :: "plan_environment \<Rightarrow> verification_repository \<Rightarrow> bool" where
  "goals_fine env repo \<longleftrightarrow> (\<forall>k g. vr_goals repo k = Some g \<longrightarrow> goal_key g = k \<and>
     (goal_state g = Verifying \<or> goal_state g = Goal_completed \<and> completing_report env repo k g))"

definition copy_fine :: "verification_repository \<Rightarrow> report_command \<Rightarrow> report_inputs \<Rightarrow> bool" where
  "copy_fine repo c i \<longleftrightarrow> (case i of (v, p, src, latest) \<Rightarrow> v \<in> snd ` set (vr_verifications repo) \<and>
     gv_verdict v = Verdict_passed \<and> overallVerdict (gv_output v) = JStr ''passed'' \<and>
     scope_key (gv_scope v) = scope_key (rpc_scope c) \<and> goal_state (src_goal src) = Verifying)"

definition deliveries_fine :: "plan_environment \<Rightarrow> deliveries_in_flight \<Rightarrow> bool" where
  "deliveries_fine env f \<longleftrightarrow>
     (\<forall>v\<in>snd ` set (vr_verifications (df_repo f)) \<union> set (due_verifications f). verification_fine (df_repo f) v) \<and>
     (\<forall>(x, c, i)\<in>set (due_copies f). copy_fine (df_repo f) c i) \<and>
     (\<forall>r\<in>snd ` set (vr_reports (df_repo f)) \<union> set (due_reports f). report_backed env (df_repo f) r) \<and>
     (\<forall>k\<in>set (due_acceptances f). acceptance_fine env (df_repo f) k) \<and>
     goals_fine env (df_repo f)"

lemma verification_fine_grows:
  "verification_fine repo v \<Longrightarrow> set (vr_plans repo) \<subseteq> set (vr_plans repo') \<Longrightarrow> verification_fine repo' v"
  unfolding verification_fine_def by blast

lemma report_backed_grows:
  "report_backed env repo r \<Longrightarrow> set (vr_verifications repo) \<subseteq> set (vr_verifications repo') \<Longrightarrow>
     report_backed env repo' r"
  unfolding report_backed_def by blast

lemma acceptance_fine_grows:
  "acceptance_fine env repo k \<Longrightarrow> set (vr_verifications repo) \<subseteq> set (vr_verifications repo') \<Longrightarrow>
     acceptance_fine env repo' k"
  unfolding acceptance_fine_def by (blast intro: report_backed_grows)

lemma copy_fine_grows:
  "copy_fine repo c i \<Longrightarrow> set (vr_verifications repo) \<subseteq> set (vr_verifications repo') \<Longrightarrow> copy_fine repo' c i"
  by (auto simp: copy_fine_def)

lemma goals_fine_grows:
  assumes "goals_fine env repo" "set (vr_verifications repo) \<subseteq> set (vr_verifications repo')"
    "vr_goals repo' = vr_goals repo" "vr_acceptances repo' = vr_acceptances repo"
  shows "goals_fine env repo'"
  using assms report_backed_grows unfolding goals_fine_def completing_report_def by metis

text \<open>A step that only adds plans and verifications keeps what is known of the rest.\<close>

lemma deliveries_grow:
  assumes "deliveries_fine env f" "set (vr_plans (df_repo f)) \<subseteq> set (vr_plans repo)"
    "set (vr_verifications (df_repo f)) \<subseteq> set (vr_verifications repo)"
    "vr_reports repo = vr_reports (df_repo f)" "vr_goals repo = vr_goals (df_repo f)"
    "vr_acceptances repo = vr_acceptances (df_repo f)"
    "\<forall>v\<in>snd ` set (vr_verifications repo). v \<in> snd ` set (vr_verifications (df_repo f)) \<or> verification_fine repo v"
  shows "deliveries_fine env (f\<lparr>df_repo := repo\<rparr>)"
proof -
  note f = assms(1)[unfolded deliveries_fine_def]
  have "\<forall>v\<in>snd ` set (vr_verifications repo) \<union> set (due_verifications f). verification_fine repo v"
    using conjunct1[OF f] assms(7) verification_fine_grows[OF _ assms(2)] by (metis UnE UnI1 UnI2)
  moreover have "\<forall>(x, c, i)\<in>set (due_copies f). copy_fine repo c i"
    using f copy_fine_grows[OF _ assms(3)] by (simp add: split_beta)
  moreover have "\<forall>r\<in>snd ` set (vr_reports repo) \<union> set (due_reports f). report_backed env repo r"
    using f report_backed_grows[OF _ assms(3)] by (simp add: assms(4))
  moreover have "\<forall>k\<in>set (due_acceptances f). acceptance_fine env repo k"
    using f acceptance_fine_grows[OF _ assms(3)] by simp
  ultimately show ?thesis
    using goals_fine_grows[OF _ assms(3,5,6)] f by (simp add: deliveries_fine_def)
qed

lemma append_chained_set:
  "append_chained noun sc rv ident previous v m = Inr m' \<Longrightarrow> m' = m @ [(ident v, v)]"
  by (simp add: append_chained_def Let_def split: if_splits)

lemma get_scopedD:
  "get_scoped sc scope i m = Some v \<Longrightarrow> v \<in> snd ` set m \<and> scope_key (sc v) = scope_key scope"
  by (force simp: get_scoped_def split: option.splits if_splits dest: map_of_SomeD)

lemma latest_by_revision:
  "at_last (by_revision sc rv scope m) = Some v \<Longrightarrow> v \<in> snd ` set m \<and> scope_key (sc v) = scope_key scope"
proof -
  assume "at_last (by_revision sc rv scope m) = Some v"
  then have "v \<in> set (by_revision sc rv scope m)" by (auto simp: at_last_def split: if_splits)
  then show ?thesis by (auto simp: by_revision_def scoped_values_def)
qed

lemma judged_entries_ids:
  assumes "judged_entries x c p = Inr ds"
  shows "map det_entryId ds = map entry_id (entries p)"
proof -
  have "list_all2 (\<lambda>e d. det_entryId d = entry_id e) (entries p) ds"
    by (rule map_try_all_rel[OF judged_entriesD(1)[OF assms]]) (rule judged_entry_simps(1))
  then show ?thesis by (induction rule: list_all2_induct) auto
qed

lemma prepared_verification_fine:
  assumes "prepare_verification x c ws ps repo = Inr v"
  shows "verification_fine repo v"
proof -
  from assms obtain gl p builders where e: "eligible_plan c ws ps repo = Inr (gl, p)"
    and j: "judged_entries x c p = Inr (gv_results v)"
    and o: "verifier_judgement x gl p builders (gv_results v) = Inr (gv_output v)"
    and d: "gv_verdict v = derivedVerdict (gv_results v) (gv_output v)"
    and i: "gv_planId v = acceptance_verification_plan.plan_id p" "gv_issuePlanId v = plan_issuePlanId p"
    by (rule prepare_verificationE)
  from eligible_planD[OF e] have "p \<in> snd ` set (vr_plans repo)"
    using get_scopedD[of vplan_scope "vk_scope c" "vk_planId c" "vr_plans repo" p] by (simp add: getPlan_def)
  moreover have "det_status d = ''passed'' \<and> det_evidenceRefs d \<noteq> []"
    if "gv_verdict v = Verdict_passed" "d \<in> set (gv_results v)" for d
    using that judged_entries_passed[OF j passed_verdict(1)[OF _ verifier_judgementD(1)[OF o]]] d
    by (auto simp: list_all2_conv_all_nth in_set_conv_nth backed_result_def)
  ultimately show ?thesis using i judged_entries_ids[OF j] unfolding verification_fine_def by metis
qed

section \<open>Reports\<close>

lemma read_report_inputs_fine:
  assumes "read_report_inputs x c repo = Inr i"
  shows "copy_fine repo c i"
proof -
  obtain v p src latest where i: "i = (v, p, src, latest)" by (metis surj_pair)
  from assms i have "getVerification (rpc_scope c) (rpc_verificationId c) repo = Some v"
    "gv_verdict v = Verdict_passed" "overallVerdict (gv_output v) = JStr ''passed''" "goal_state (src_goal src) = Verifying"
    by (auto simp: read_report_inputs_def Let_def and_then_eq_Inr split: option.splits if_splits)
  with get_scopedD[of gv_scope "rpc_scope c" _ _ v] i show ?thesis
    by (simp add: copy_fine_def getVerification_def)
qed

lemma report_json_digest [simp]: "report_json (r\<lparr>rep_digest := d\<rparr>) = report_json r"
  by (simp add: report_json_def)

lemma withDigest_simps [simp]:
  "rep_id (withDigest env r) = rep_id r" "rep_scope (withDigest env r) = rep_scope r"
  "rep_revision (withDigest env r) = rep_revision r"
  "rep_previousId (withDigest env r) = rep_previousId r"
  "rep_verificationId (withDigest env r) = rep_verificationId r" "rep_acceptance (withDigest env r) = rep_acceptance r"
  "rep_issueRuns (withDigest env r) = rep_issueRuns r" "rep_knownRisks (withDigest env r) = rep_knownRisks r"
  "rep_status (withDigest env r) = rep_status r" "rep_humanAcceptance (withDigest env r) = rep_humanAcceptance r"
  "rep_digest (withDigest env r) =
     sha256Hex env (canonicalJson (localeCompare env) (report_json (withDigest env r)))"
  by (simp_all add: withDigest_def)

lemma report_criterion_backed: "report_criterion g i r = Inr a \<Longrightarrow> backed_criterion r a"
  by (auto simp: report_criterion_def Let_def backed_criterion_def split: option.splits if_splits)

lemma built_report_backed:
  assumes "copy_fine repo c i" "build_report env x c i = Inr r"
  shows "report_backed env repo r" "rep_status r = Awaiting_human_acceptance"
proof -
  obtain v p src latest where i: "i = (v, p, src, latest)" by (metis surj_pair)
  from assms(2) i obtain acceptance risks where
    a: "map_try (report_criterion (src_goal src)) 0 (criterion_verdicts (gv_output v)) = Inr acceptance"
    and ok: "src_issueRuns src \<noteq> []" "\<forall>r\<in>set (src_issueRuns src). complete_run r"
      "\<forall>a\<in>set acceptance. set (acc_evidenceRefs a) \<subseteq> available_refs src v"
      "\<forall>k\<in>set risks. kr_disposition k \<noteq> ''blocked''"
    and r: "rep_scope r = rpc_scope c" "rep_verificationId r = gv_id v" "rep_acceptance r = acceptance"
      "rep_issueRuns r = src_issueRuns src" "rep_knownRisks r = risks"
      "rep_status r = Awaiting_human_acceptance"
      "rep_digest r = sha256Hex env (canonicalJson (localeCompare env) (report_json r))"
    by (auto simp: build_report_def and_then_eq_Inr Let_def split: if_splits)
  show "rep_status r = Awaiting_human_acceptance" by fact
  have "list_all2 backed_criterion (criterion_verdicts (gv_output v)) acceptance"
    by (rule map_try_all_rel[OF a]) (rule report_criterion_backed)
  with assms(1) i ok r show "report_backed env repo r"
    unfolding report_backed_def copy_fine_def available_refs_def by (simp, blast)
qed

lemma accepted_report_backed:
  assumes "report_backed env repo current" "reason \<noteq> ''''"
  shows "report_backed env repo (accepted_report env x c reason request current)"
  using assms unfolding report_backed_def accepted_report_def Let_def by simp

lemma check_accept_reason: "check_accept x c = Inr (reason, request, k) \<Longrightarrow> reason \<noteq> ''''"
  by (auto simp: check_accept_def and_then_eq_Inr gap_bounded_def split: if_splits)

lemma prepared_acceptance_fine:
  assumes "prepare_accept env x c repo = Inr k" "\<forall>r\<in>snd ` set (vr_reports repo). report_backed env repo r"
  shows "acceptance_fine env repo k"
proof -
  from assms(1) obtain reason request k' current latest where ch: "check_accept x c = Inr (reason, request, k')"
    and cur: "getDeliveryReport (ak_scope c) (ak_reportId c) repo = Some current"
    and lat: "at_last (listDeliveryReports (ak_scope c) repo) = Some latest"
    and k: "rac_current k = current" "rac_accepted k = latest \<or>
        rac_accepted k = accepted_report env x c reason request current"
  proof -
    from assms(1) obtain reason request k' where ch: "check_accept x c = Inr (reason, request, k')"
      by (auto simp: prepare_accept_def and_then_eq_Inr)
    with assms(1) obtain current latest where cur: "getDeliveryReport (ak_scope c) (ak_reportId c) repo = Some current"
      and lat: "at_last (listDeliveryReports (ak_scope c) repo) = Some latest"
      by (simp add: prepare_accept_def Let_def split: option.splits)
    have "rac_current k = current \<and> (rac_accepted k = latest \<or>
        rac_accepted k = accepted_report env x c reason request current)"
    proof (cases "rep_status latest = Report_accepted \<and> rep_previousId latest = Some (rep_id current)")
      case True
      with assms(1) ch cur lat show ?thesis by (auto simp: prepare_accept_def)
    next
      case False
      with assms(1) ch cur lat show ?thesis
        by (auto simp: prepare_accept_def Let_def split: option.splits if_splits)
    qed
    then show thesis using that ch cur lat by blast
  qed
  have c: "current \<in> snd ` set (vr_reports repo)" "scope_key (rep_scope current) = scope_key (ak_scope c)"
    using get_scopedD[OF cur[unfolded getDeliveryReport_def]] by simp_all
  have l: "latest \<in> snd ` set (vr_reports repo)" "scope_key (rep_scope latest) = scope_key (ak_scope c)"
    using latest_by_revision[OF lat[unfolded listDeliveryReports_def]] by simp_all
  have "rep_scope (accepted_report env x c reason request current) = rep_scope current"
    by (simp add: accepted_report_def Let_def)
  moreover have "report_backed env repo (accepted_report env x c reason request current)"
    by (rule accepted_report_backed) (use assms(2) c(1) check_accept_reason[OF ch] in blast)+
  ultimately show ?thesis using k c l assms(2) unfolding acceptance_fine_def by metis
qed

lemma acceptDeliveryReport_cases:
  assumes "acceptDeliveryReport k repo = (res, repo')"
  obtains (unchanged) "repo' = repo"
  | (accepted) gl where "vr_acceptances repo (acceptance_key k) = None"
      "vr_goals repo (scope_key (rep_scope (rac_current k))) = Some gl" "goal_state gl = Verifying"
      "int (goal_version gl) = rac_expectedGoalVersion k"
      "rep_status (rac_accepted k) = Report_accepted"
      "res = Inr (rac_accepted k, completed_goal (rep_generatedAt (rac_accepted k)) gl)"
      "repo' = repo\<lparr>vr_reports := AList.update (rep_id (rac_accepted k)) (rac_accepted k) (vr_reports repo),
         vr_goals := (vr_goals repo)(goal_key (completed_goal (rep_generatedAt (rac_accepted k)) gl) \<mapsto>
           completed_goal (rep_generatedAt (rac_accepted k)) gl),
         vr_acceptances := (vr_acceptances repo)(acceptance_key k \<mapsto>
           (rac_requestHash k, rac_accepted k, completed_goal (rep_generatedAt (rac_accepted k)) gl))\<rparr>"
proof -
  let ?k = "scope_key (rep_scope (rac_current k))"
  consider (old) q where "vr_acceptances repo (acceptance_key k) = Some q"
    | (empty) "vr_acceptances repo (acceptance_key k) = None"
        "at_last (listDeliveryReports (rep_scope (rac_current k)) repo) = None \<or> vr_goals repo ?k = None"
    | (new) latest gl where "vr_acceptances repo (acceptance_key k) = None"
        "at_last (listDeliveryReports (rep_scope (rac_current k)) repo) = Some latest" "vr_goals repo ?k = Some gl"
    by (metis option.exhaust)
  then show thesis
  proof cases
    case (old q)
    with assms have "repo' = repo"
      by (cases q) (auto simp: acceptDeliveryReport_def split: if_splits)
    then show thesis by (rule unchanged)
  next
    case empty
    with assms have "repo' = repo"
      by (auto simp: acceptDeliveryReport_def Let_def split: option.splits)
    then show thesis by (rule unchanged)
  next
    case (new latest gl)
    show thesis
    proof (cases "rep_id latest \<noteq> rep_id (rac_current k) \<or> goal_state gl \<noteq> Verifying \<or>
        int (goal_version gl) \<noteq> rac_expectedGoalVersion k \<or>
        rep_previousId (rac_accepted k) \<noteq> Some (rep_id (rac_current k)) \<or>
        rep_status (rac_accepted k) \<noteq> Report_accepted")
      case True
      with new assms have "repo' = repo" by (simp add: acceptDeliveryReport_def Let_def)
      then show thesis by (rule unchanged)
    next
      case False
      with new assms show thesis by (intro accepted[of gl]) (simp_all add: acceptDeliveryReport_def Let_def)
    qed
  qed
qed

lemma completed_goal_simps [simp]:
  "goal_key (completed_goal at g) = goal_key g" "goal_state (completed_goal at g) = Goal_completed"
  "goal_version (completed_goal at g) = Suc (goal_version g)"
  by (simp_all add: completed_goal_def goal_key_def scope_of_def)

lemma values_of_update: "snd ` set (AList.update k v m) \<subseteq> insert v (snd ` set m)"
  by (induction m) auto

section \<open>The invariant holds\<close>

lemma deliveries_fineD:
  assumes "deliveries_fine env f"
  shows "\<forall>v\<in>snd ` set (vr_verifications (df_repo f)). verification_fine (df_repo f) v"
    "\<forall>v\<in>set (due_verifications f). verification_fine (df_repo f) v"
    "\<forall>(x, c, i)\<in>set (due_copies f). copy_fine (df_repo f) c i"
    "\<forall>r\<in>snd ` set (vr_reports (df_repo f)). report_backed env (df_repo f) r"
    "\<forall>r\<in>set (due_reports f). report_backed env (df_repo f) r"
    "\<forall>k\<in>set (due_acceptances f). acceptance_fine env (df_repo f) k"
    "goals_fine env (df_repo f)"
  using assms unfolding deliveries_fine_def by simp_all

lemma deliveries_fineI:
  assumes "\<forall>v\<in>snd ` set (vr_verifications (df_repo f)). verification_fine (df_repo f) v"
    "\<forall>v\<in>set (due_verifications f). verification_fine (df_repo f) v"
    "\<forall>(x, c, i)\<in>set (due_copies f). copy_fine (df_repo f) c i"
    "\<forall>r\<in>snd ` set (vr_reports (df_repo f)). report_backed env (df_repo f) r"
    "\<forall>r\<in>set (due_reports f). report_backed env (df_repo f) r"
    "\<forall>k\<in>set (due_acceptances f). acceptance_fine env (df_repo f) k"
    "goals_fine env (df_repo f)"
  shows "deliveries_fine env f"
  using assms unfolding deliveries_fine_def by auto

lemma deliveries_fine_fewer:
  assumes "deliveries_fine env f" "df_repo f' = df_repo f"
    "set (due_verifications f') \<subseteq> set (due_verifications f)" "set (due_copies f') \<subseteq> set (due_copies f)"
    "set (due_reports f') \<subseteq> set (due_reports f)" "set (due_acceptances f') \<subseteq> set (due_acceptances f)"
  shows "deliveries_fine env f'"
proof -
  note d = deliveries_fineD[OF assms(1)]
  show ?thesis
  proof (rule deliveries_fineI)
    show "\<forall>v\<in>set (due_verifications f'). verification_fine (df_repo f') v"
      "\<forall>(x, c, i)\<in>set (due_copies f'). copy_fine (df_repo f') c i"
      "\<forall>r\<in>set (due_reports f'). report_backed env (df_repo f') r"
      "\<forall>k\<in>set (due_acceptances f'). acceptance_fine env (df_repo f') k"
      unfolding assms(2) using d(2,3,5,6) assms(3-6) by blast+
  qed (use d(1,4,7) in \<open>simp_all add: assms(2)\<close>)
qed

text \<open>A Goal that is copied is in verification.\<close>

lemma synchronizeGoal_fine:
  assumes "goals_fine env repo" "goal_state g = Verifying"
  shows "goals_fine env (synchronizeGoal g repo)"
proof -
  obtain gs where s: "synchronizeGoal g repo = repo\<lparr>vr_goals := gs\<rparr>"
    "gs = vr_goals repo \<or> gs = (vr_goals repo)(goal_key g \<mapsto> g)"
  proof -
    have "synchronizeGoal g repo = repo\<lparr>vr_goals := (vr_goals repo)(goal_key g \<mapsto> g)\<rparr> \<or>
        synchronizeGoal g repo = repo\<lparr>vr_goals := vr_goals repo\<rparr>"
      by (auto simp: synchronizeGoal_def split: option.splits)
    then show thesis using that by blast
  qed
  have c: "completing_report env (repo\<lparr>vr_goals := gs\<rparr>) k h \<longleftrightarrow> completing_report env repo k h" for k h
    by (simp add: completing_report_def report_backed_def)
  show ?thesis
    unfolding s(1) goals_fine_def c
  proof (intro allI impI)
    fix k h assume "vr_goals (repo\<lparr>vr_goals := gs\<rparr>) k = Some h"
    with s(2) have "vr_goals repo k = Some h \<or> h = g \<and> k = goal_key g" by (auto split: if_splits)
    with assms show "goal_key h = k \<and> (goal_state h = Verifying \<or>
        goal_state h = Goal_completed \<and> completing_report env repo k h)" unfolding goals_fine_def by blast
  qed
qed

lemma deliveries_copy_goal:
  assumes "deliveries_fine env f" "goal_state g = Verifying"
  shows "deliveries_fine env (f\<lparr>df_repo := synchronizeGoal g (df_repo f)\<rparr>)"
proof -
  obtain gs where s: "synchronizeGoal g (df_repo f) = (df_repo f)\<lparr>vr_goals := gs\<rparr>"
  proof -
    have "(\<exists>gs. synchronizeGoal g (df_repo f) = (df_repo f)\<lparr>vr_goals := gs\<rparr>)"
      by (auto simp: synchronizeGoal_def split: option.splits intro: exI[of _ "vr_goals (df_repo f)"])
    then show thesis using that by blast
  qed
  note d = deliveries_fineD[OF assms(1)]
  have same: "verification_fine (repo\<lparr>vr_goals := gs\<rparr>) v = verification_fine repo v"
    "report_backed env (repo\<lparr>vr_goals := gs\<rparr>) r = report_backed env repo r"
    "acceptance_fine env (repo\<lparr>vr_goals := gs\<rparr>) k = acceptance_fine env repo k"
    "copy_fine (repo\<lparr>vr_goals := gs\<rparr>) c i = copy_fine repo c i" for repo v r k c i
    by (simp_all add: verification_fine_def report_backed_def acceptance_fine_def copy_fine_def)
  show ?thesis
    using d(1-6) synchronizeGoal_fine[OF d(7) assms(2)] unfolding s
    by (intro deliveries_fineI) (simp_all add: same)
qed

lemma goals_after_acceptance:
  assumes "goals_fine env repo" "acceptance_fine env repo k" "rep_status (rac_accepted k) = Report_accepted"
    "vr_acceptances repo a = None" "vr_goals repo (scope_key (rep_scope (rac_current k))) = Some gl"
    "goal_state g = Goal_completed" "goal_key g = goal_key gl"
  shows "goals_fine env (repo\<lparr>vr_reports := rs, vr_goals := (vr_goals repo)(goal_key g \<mapsto> g),
    vr_acceptances := (vr_acceptances repo)(a \<mapsto> (h, rac_accepted k, g))\<rparr>)" (is "goals_fine env ?repo'")
proof -
  have same: "report_backed env ?repo' r = report_backed env repo r" for r
    by (simp add: report_backed_def)
  have old: "completing_report env ?repo' k' g'" if "completing_report env repo k' g'" for k' g'
  proof -
    from that obtain key' h' r where r: "vr_acceptances repo key' = Some (h', r, g')" "report_backed env repo r"
      "rep_status r = Report_accepted" "scope_key (rep_scope r) = k'" unfolding completing_report_def by blast
    with assms(4) have "vr_acceptances ?repo' key' = Some (h', r, g')" by auto
    with r show ?thesis unfolding completing_report_def same by blast
  qed
  have "goal_key gl = scope_key (rep_scope (rac_current k))"
    using assms(1,5) unfolding goals_fine_def by blast
  with assms(2,3,7) have new: "completing_report env ?repo' (goal_key g) g"
    unfolding completing_report_def same acceptance_fine_def
    by (intro exI[of _ a] exI[of _ h] exI[of _ "rac_accepted k"]) simp
  show ?thesis
    unfolding goals_fine_def
  proof (intro allI impI)
    fix k' g' assume "vr_goals ?repo' k' = Some g'"
    then have "vr_goals repo k' = Some g' \<or> g' = g \<and> k' = goal_key g" by (auto split: if_splits)
    with assms(1,6) old[of k' g'] new show "goal_key g' = k' \<and> (goal_state g' = Verifying \<or>
        goal_state g' = Goal_completed \<and> completing_report env ?repo' k' g')"
      unfolding goals_fine_def by metis
  qed
qed

lemma deliveries_accepted:
  assumes "deliveries_fine env f" "k \<in> set (due_acceptances f)"
    "acceptDeliveryReport k (df_repo f) = (res, repo)"
  shows "deliveries_fine env (f\<lparr>df_repo := repo\<rparr>)"
  using assms(3)
proof (cases rule: acceptDeliveryReport_cases)
  case unchanged
  then show ?thesis using assms(1) by simp
next
  case (accepted gl)
  note d = deliveries_fineD[OF assms(1)]
  let ?g = "completed_goal (rep_generatedAt (rac_accepted k)) gl"
  have k: "acceptance_fine env (df_repo f) k" using d(6) assms(2) by blast
  have same: "verification_fine repo v = verification_fine (df_repo f) v"
    "report_backed env repo r = report_backed env (df_repo f) r"
    "acceptance_fine env repo k' = acceptance_fine env (df_repo f) k'"
    "copy_fine repo c i = copy_fine (df_repo f) c i" for v r k' c i
    unfolding accepted(7) by (simp_all add: verification_fine_def report_backed_def acceptance_fine_def copy_fine_def)
  have "\<forall>r\<in>snd ` set (vr_reports repo). report_backed env (df_repo f) r"
  proof
    fix r assume "r \<in> snd ` set (vr_reports repo)"
    then have "r \<in> snd ` set (AList.update (rep_id (rac_accepted k)) (rac_accepted k) (vr_reports (df_repo f)))"
      by (simp add: accepted(7))
    with values_of_update[of "rep_id (rac_accepted k)" "rac_accepted k" "vr_reports (df_repo f)"]
    have "r = rac_accepted k \<or> r \<in> snd ` set (vr_reports (df_repo f))" by blast
    with d(4) k show "report_backed env (df_repo f) r" unfolding acceptance_fine_def by blast
  qed
  moreover have "goals_fine env repo"
    unfolding accepted(7) using accepted(1,2,5) by (intro goals_after_acceptance[OF d(7) k]) simp_all
  moreover have "vr_verifications repo = vr_verifications (df_repo f)" by (simp add: accepted(7))
  ultimately show ?thesis
    using d(1-6) by (intro deliveries_fineI) (simp_all add: same)
qed

lemma deliveries_appended:
  assumes "deliveries_fine env f"
  shows "appendPlan p (df_repo f) = (pres, repo) \<Longrightarrow> deliveries_fine env (f\<lparr>df_repo := repo\<rparr>)"
    "v \<in> set (due_verifications f) \<Longrightarrow> appendVerification v (df_repo f) = (vres, repo) \<Longrightarrow>
       deliveries_fine env (f\<lparr>df_repo := repo\<rparr>)"
    "r \<in> set (due_reports f) \<Longrightarrow> appendDeliveryReport r (df_repo f) = (res, repo) \<Longrightarrow>
       deliveries_fine env (f\<lparr>df_repo := repo\<rparr>)"
proof -
  note d = deliveries_fineD[OF assms]
  show "deliveries_fine env (f\<lparr>df_repo := repo\<rparr>)" if "appendPlan p (df_repo f) = (pres, repo)"
    using that by (intro deliveries_grow[OF assms])
      (auto simp: appendPlan_def split: sum.splits dest!: append_chained_set)
  show "deliveries_fine env (f\<lparr>df_repo := repo\<rparr>)"
    if v: "v \<in> set (due_verifications f)" and a: "appendVerification v (df_repo f) = (vres, repo)"
  proof (rule deliveries_grow[OF assms])
    from a have r: "repo = df_repo f \<or>
        repo = (df_repo f)\<lparr>vr_verifications := vr_verifications (df_repo f) @ [(gv_id v, v)]\<rparr>"
      by (auto simp: appendVerification_def split: sum.splits dest!: append_chained_set)
    then show "set (vr_plans (df_repo f)) \<subseteq> set (vr_plans repo)"
      "set (vr_verifications (df_repo f)) \<subseteq> set (vr_verifications repo)"
      "vr_reports repo = vr_reports (df_repo f)" "vr_goals repo = vr_goals (df_repo f)"
      "vr_acceptances repo = vr_acceptances (df_repo f)" by auto
    have "verification_fine repo v"
      using r bspec[OF d(2) v] by (auto simp: verification_fine_def)
    with r show "\<forall>v\<in>snd ` set (vr_verifications repo). v \<in> snd ` set (vr_verifications (df_repo f)) \<or>
        verification_fine repo v" by auto
  qed
  show "deliveries_fine env (f\<lparr>df_repo := repo\<rparr>)"
    if r: "r \<in> set (due_reports f)" and a: "appendDeliveryReport r (df_repo f) = (res, repo)"
  proof -
    from a have rs: "repo = (df_repo f)\<lparr>vr_reports := vr_reports repo\<rparr>"
      "set (vr_reports repo) \<subseteq> insert (rep_id r, r) (set (vr_reports (df_repo f)))"
      by (auto simp: appendDeliveryReport_def split: sum.splits dest!: append_chained_set)
    have same: "verification_fine repo v = verification_fine (df_repo f) v"
      "report_backed env repo r' = report_backed env (df_repo f) r'"
      "acceptance_fine env repo k' = acceptance_fine env (df_repo f) k'"
      "copy_fine repo c i = copy_fine (df_repo f) c i"
      "goals_fine env repo = goals_fine env (df_repo f)" for v r' k' c i
      by (subst rs(1), simp add: verification_fine_def report_backed_def acceptance_fine_def copy_fine_def
          goals_fine_def completing_report_def)+
    have "report_backed env (df_repo f) r'" if "r' \<in> snd ` set (vr_reports repo)" for r'
      using that rs(2) d(4) bspec[OF d(5) r] by auto
    moreover have "vr_verifications repo = vr_verifications (df_repo f)" by (subst rs(1)) simp
    ultimately show ?thesis using d by (intro deliveries_fineI) (simp_all add: same)
  qed
qed

lemma delivery_step_fine:
  assumes "delivery_step env f f'" "deliveries_fine env f"
  shows "deliveries_fine env f'"
  using assms
proof (cases rule: delivery_step.cases)
  case (vplan_compiled vx vc ws ps p)
  show ?thesis unfolding vplan_compiled(1) by (rule deliveries_fine_fewer[OF assms(2)]) simp_all
next
  case (vplan_appended p pres repo)
  show ?thesis unfolding vplan_appended(1)
    by (rule deliveries_fine_fewer[OF deliveries_appended(1)[OF assms(2) vplan_appended(3)]]) simp_all
next
  case (verified gx gc ws ps v)
  from prepared_verification_fine[OF verified(2)] deliveries_fineD[OF assms(2)] show ?thesis
    unfolding verified(1) by (intro deliveries_fineI) simp_all
next
  case (verification_appended v vres repo)
  show ?thesis unfolding verification_appended(1)
    by (rule deliveries_fine_fewer[OF deliveries_appended(2)[OF assms(2) verification_appended(2,3)]])
      (simp_all add: set_remove1_subset)
next
  case (report_read x c i)
  from read_report_inputs_fine[OF report_read(2)] deliveries_fineD[OF assms(2)] show ?thesis
    unfolding report_read(1) by (intro deliveries_fineI) simp_all
next
  case (goal_copied x c i v p src latest)
  note d = deliveries_fineD[OF assms(2)]
  from d(3) goal_copied(2) have i: "copy_fine (df_repo f) c i" by auto
  then have "goal_state (src_goal src) = Verifying" by (simp add: copy_fine_def goal_copied(3))
  from deliveries_copy_goal[OF assms(2) this]
  have fine: "deliveries_fine env (f\<lparr>df_repo := synchronizeGoal (src_goal src) (df_repo f)\<rparr>)" .
  have "vr_verifications (synchronizeGoal (src_goal src) (df_repo f)) = vr_verifications (df_repo f)"
    by (simp add: synchronizeGoal_def split: option.splits)
  with built_report_backed(1)[OF i, of env x]
  have new: "\<forall>r\<in>set (case build_report env x c i of Inl e \<Rightarrow> [] | Inr r \<Rightarrow> [r]).
      report_backed env (synchronizeGoal (src_goal src) (df_repo f)) r"
    using report_backed_grows[of env "df_repo f" _ "synchronizeGoal (src_goal src) (df_repo f)"]
    by (auto split: sum.splits)
  have "deliveries_fine env (f\<lparr>df_repo := synchronizeGoal (src_goal src) (df_repo f),
      due_reports := (case build_report env x c i of Inl e \<Rightarrow> [] | Inr r \<Rightarrow> [r]) @ due_reports f\<rparr>)"
    using deliveries_fineD[OF fine] new by (intro deliveries_fineI) (simp_all add: ball_Un)
  then show ?thesis unfolding goal_copied(1)
    by (rule deliveries_fine_fewer) (simp_all add: set_remove1_subset)
next
  case (report_appended r res repo)
  show ?thesis unfolding report_appended(1)
    by (rule deliveries_fine_fewer[OF deliveries_appended(3)[OF assms(2) report_appended(2,3)]])
      (simp_all add: set_remove1_subset)
next
  case (acceptance_prepared x ac k)
  note d = deliveries_fineD[OF assms(2)]
  from prepared_acceptance_fine[OF acceptance_prepared(2) d(4)] d show ?thesis
    unfolding acceptance_prepared(1) by (intro deliveries_fineI) simp_all
next
  case (report_accepted k ares repo)
  show ?thesis unfolding report_accepted(1)
    by (rule deliveries_fine_fewer[OF deliveries_accepted[OF assms(2) report_accepted(2,3)]])
      (simp_all add: set_remove1_subset)
next
  case (gaps_handled repo)
  show ?thesis unfolding gaps_handled(1)
    by (rule deliveries_grow[OF assms(2)]) (use gaps_handled(2) in \<open>auto simp: deliveries_alike_def\<close>)
qed

lemma reachable_deliveries_fine: "(delivery_step env)\<^sup>*\<^sup>* no_deliveries f \<Longrightarrow> deliveries_fine env f"
proof (induction rule: rtranclp_induct)
  case base
  show ?case
    by (rule deliveries_fineI)
      (simp_all add: no_deliveries_def new_verification_repository_def goals_fine_def)
qed (rule delivery_step_fine)


end
