(* ===== verification/Verification_Sample.thy ===== *)
theory Verification_Sample
  imports Verification_Safety Issue_Plan_Safety
begin

text \<open>
  A Goal that is verified, reported and accepted: the run that shows that the hypotheses of the
  theorems about verification and delivery can hold.
\<close>

section \<open>Calls that nothing interrupts\<close>

definition compile_now ::
  "plan_environment \<Rightarrow> vplan_call \<Rightarrow> compile_command \<Rightarrow> workspace_repository \<Rightarrow> plan_repository \<Rightarrow>
   deliveries_in_flight \<Rightarrow> deliveries_in_flight" where
  "compile_now env x c ws ps f = f\<lparr>df_repo := snd (compile_vplan env x c ws ps (df_repo f))\<rparr>"

definition verify_now ::
  "verify_call \<Rightarrow> verify_command \<Rightarrow> workspace_repository \<Rightarrow> plan_repository \<Rightarrow>
   deliveries_in_flight \<Rightarrow> deliveries_in_flight" where
  "verify_now x c ws ps f = f\<lparr>df_repo := snd (verify x c ws ps (df_repo f))\<rparr>"

definition report_now ::
  "plan_environment \<Rightarrow> report_call \<Rightarrow> report_command \<Rightarrow> deliveries_in_flight \<Rightarrow> deliveries_in_flight" where
  "report_now env x c f = f\<lparr>df_repo := snd (generate_report env x c (df_repo f))\<rparr>"

definition accept_now ::
  "plan_environment \<Rightarrow> report_call \<Rightarrow> accept_command \<Rightarrow> deliveries_in_flight \<Rightarrow> deliveries_in_flight" where
  "accept_now env x c f = f\<lparr>df_repo := snd (accept_report env x c (df_repo f))\<rparr>"

lemma same_repo [simp]: "f\<lparr>df_repo := df_repo f\<rparr> = f" for f :: deliveries_in_flight
  by (cases f) simp

lemma compile_now_steps: "(delivery_step env)\<^sup>*\<^sup>* f (compile_now env x c ws ps f)"
proof (cases "prepare_vplan env x c ws ps (df_repo f)")
  case (Inr p)
  let ?f = "f\<lparr>due_vplans := p # due_vplans f\<rparr>"
  obtain res repo where a: "appendPlan p (df_repo f) = (res, repo)" by fastforce
  have "delivery_step env f ?f" by (rule vplan_compiled[OF Inr])
  moreover have "delivery_step env ?f (compile_now env x c ws ps f)"
    using vplan_appended[of p ?f res repo env] a by (simp add: compile_now_def compile_vplan_def Inr)
  ultimately show ?thesis by (rule converse_rtranclp_into_rtranclp[OF _ r_into_rtranclp])
qed (simp add: compile_now_def compile_vplan_def)

lemma verify_now_steps: "(delivery_step env)\<^sup>*\<^sup>* f (verify_now x c ws ps f)"
proof (cases "prepare_verification x c ws ps (df_repo f)")
  case (Inr v)
  let ?f = "f\<lparr>due_verifications := v # due_verifications f\<rparr>"
  obtain res repo where a: "appendVerification v (df_repo f) = (res, repo)" by fastforce
  have "delivery_step env f ?f" by (rule verified[OF Inr])
  moreover have "delivery_step env ?f (verify_now x c ws ps f)"
    using verification_appended[of v ?f res repo env] a by (simp add: verify_now_def verify_def Inr)
  ultimately show ?thesis by (rule converse_rtranclp_into_rtranclp[OF _ r_into_rtranclp])
qed (simp add: verify_now_def verify_def)

lemma report_now_steps: "(delivery_step env)\<^sup>*\<^sup>* f (report_now env x c f)"
proof (cases "read_report_inputs x c (df_repo f)")
  case (Inr i)
  obtain v p src latest where i: "i = (v, p, src, latest)" by (metis surj_pair)
  let ?f1 = "f\<lparr>due_copies := (x, c, i) # due_copies f\<rparr>"
  let ?rs = "case build_report env x c i of Inl e \<Rightarrow> [] | Inr r \<Rightarrow> [r]"
  let ?f2 = "f\<lparr>df_repo := synchronizeGoal (src_goal src) (df_repo f), due_reports := ?rs @ due_reports f\<rparr>"
  have s1: "delivery_step env f ?f1" by (rule report_read[OF Inr])
  have s2: "delivery_step env ?f1 ?f2"
    using goal_copied[of x c i ?f1 v p src latest env] i by simp
  show ?thesis
  proof (cases "build_report env x c i")
    case (Inl e)
    then have "?f2 = report_now env x c f"
      using Inr by (simp add: report_now_def generate_report_def i)
    with s1 s2 show ?thesis by (metis (no_types, lifting) converse_rtranclp_into_rtranclp rtranclp.rtrancl_refl)
  next
    case b: (Inr r)
    obtain res repo where a: "appendDeliveryReport r (synchronizeGoal (src_goal src) (df_repo f)) = (res, repo)"
      by fastforce
    have "delivery_step env ?f2 (report_now env x c f)"
      using report_appended[of r ?f2 res repo env] a b Inr by (simp add: report_now_def generate_report_def i)
    with s1 s2 show ?thesis
      by (rule converse_rtranclp_into_rtranclp[OF _ converse_rtranclp_into_rtranclp[OF _ r_into_rtranclp]])
  qed
qed (simp add: report_now_def generate_report_def)

lemma accept_now_steps: "(delivery_step env)\<^sup>*\<^sup>* f (accept_now env x c f)"
proof (cases "prepare_accept env x c (df_repo f)")
  case (Inr k)
  let ?f = "f\<lparr>due_acceptances := k # due_acceptances f\<rparr>"
  obtain res repo where a: "acceptDeliveryReport k (df_repo f) = (res, repo)" by fastforce
  have "delivery_step env f ?f" by (rule acceptance_prepared[OF Inr])
  moreover have "delivery_step env ?f (accept_now env x c f)"
    using report_accepted[of k ?f res repo env] a by (simp add: accept_now_def accept_report_def Inr)
  ultimately show ?thesis by (rule converse_rtranclp_into_rtranclp[OF _ r_into_rtranclp])
qed (simp add: accept_now_def accept_report_def)

section \<open>The verification\<close>

definition goal_in_verification :: "string goal_contract" where
  "goal_in_verification = \<lparr>goal_id = ''goal-1'', goal_organizationId = ''org'', goal_projectId = ''project'',
     goal_title = ''Ship it'', problemStatement = ''Slow'', desiredOutcome = ''Fast'',
     acceptanceCriteria = criteria sample_compile_input, goal_nonGoals = [], constraints = [],
     goal_state = Verifying, goal_version = 5, createdAt = ''t'', updatedAt = ''t''\<rparr>"

definition goals_in_verification :: workspace_repository where
  "goals_in_verification = \<lparr>ws_goals = Map.empty(goal_key goal_in_verification \<mapsto> goal_in_verification),
     ws_events = [], ws_audits = [], ws_idempotency = Map.empty\<rparr>"

definition finished_plan :: issue_plan where
  "finished_plan = \<lparr>plan_schemaVersion = ''issue-plan.v1'', plan_id = ''plan-1'', plan_scope = sample_scope,
     revision = 1, previousPlanId = None, plan_status = Plan_approved, plan_source = sample_source,
     plan_issues = issues sample_input, compilation = \<lparr>compiled_valid = True, diagnostics = [],
       requirement_coverage = \<lparr>covered = [], uncovered = []\<rparr>, acceptance_coverage = \<lparr>covered = [], uncovered = []\<rparr>, topological_order = []\<rparr>,
     plan_conflicts = [], plan_waves = [], modelRecommendations = [], plannerRunId = ''run-1'',
     plannerConfiguration = \<lparr>adapter = ''codex'', modelProfile = ''default'', config_schemaVersion = ''v1''\<rparr>,
     plan_compilerPolicy = ''c'', plan_conflictPolicy = ''c'', plan_routerPolicy = ''r'', plan_digest = ''d'',
     generatedAt = ''t'', plan_version = 2, plan_createdAt = ''t'', plan_updatedAt = ''t''\<rparr>"

definition finished_plans :: plan_repository where
  "finished_plans = \<lparr>plans = Map.empty(scope_key sample_scope \<mapsto> [finished_plan]),
     plan_idempotency = Map.empty, plan_audits = [], plan_events = []\<rparr>"

definition sample_vplan_call :: vplan_call where
  "sample_vplan_call = \<lparr>vplan_authorize = (\<lambda>actor organization project permission. Inr ()), vplan_clock = 1000,
     vplan_newId = ''vplan-1'', vplan_catalog = availableReferences sample_compile_input\<rparr>"

definition sample_compilation :: compile_command where
  "sample_compilation = \<lparr>cc_scope = sample_scope, cc_issuePlanId = ''plan-1'', cc_expectedGoalVersion = 5,
     cc_expectedIssuePlanVersion = 2, cc_actorId = ''actor'', cc_draft = vplan_draft_json [sample_entry]\<rparr>"

definition sample_vplan :: acceptance_verification_plan where
  "sample_vplan = (let b = plan_base (vplan_input sample_vplan_call sample_compilation goal_in_verification
       finished_plan None) [sample_entry] in
     b\<lparr>digest := sha256Hex sample_environment (canonicalJson (localeCompare sample_environment) (plan_base_json b))\<rparr>)"

lemma sample_vplan_simps [simp]:
  "acceptance_verification_plan.plan_id sample_vplan = ''vplan-1''" "vplan_scope sample_vplan = sample_scope"
  "plan_revision sample_vplan = 1" "acceptance_verification_plan.previousPlanId sample_vplan = None"
  "plan_goalVersion sample_vplan = 5" "plan_issuePlanId sample_vplan = ''plan-1''"
  "entries sample_vplan = [sample_entry]"
  by (simp_all add: sample_vplan_def Let_def plan_base_def vplan_input_def sample_vplan_call_def
      sample_compilation_def goal_in_verification_def finished_plan_def vplan_scope_def sample_scope_def)

lemma verified_goal_key: "goal_key goal_in_verification = scope_key sample_scope"
  by (simp add: goal_key_def scope_of_def goal_in_verification_def sample_scope_def)

lemma verified_goal_read: "workspace_get sample_scope goals_in_verification = Some goal_in_verification"
  by (simp add: workspace_get_def goals_in_verification_def verified_goal_key)

lemma finished_plan_read: "getLatest sample_scope finished_plans = Some finished_plan"
  "get_plan sample_scope ''plan-1'' finished_plans = Some finished_plan"
  by (simp_all add: getLatest_def get_plan_def plans_at_def finished_plans_def at_last_def finished_plan_def)

lemma sample_vplan_prepared:
  "prepare_vplan sample_environment sample_vplan_call sample_compilation goals_in_verification finished_plans
     new_verification_repository = Inr sample_vplan"
proof -
  let ?i = "vplan_input sample_vplan_call sample_compilation goal_in_verification finished_plan None"
  have "validateAcceptanceVerificationPlanDraft (draft ?i) = Inr [sample_entry]"
    using clean_entries_accepted[OF sample_entries_clean] by (simp add: vplan_input_def sample_compilation_def)
  moreover have "criteria ?i = criteria sample_compile_input"
    "availableReferences ?i = availableReferences sample_compile_input"
    by (simp_all add: vplan_input_def goal_in_verification_def sample_vplan_call_def)
  moreover have "map entry_criterionRef [sample_entry] = map criterion_id (criteria sample_compile_input)"
    "check_references (availableReferences sample_compile_input) [sample_entry] = Inr ()"
    by (simp_all add: sample_compile_input_def sample_entry_def catalog_of_def)
  ultimately have "compileAcceptanceVerificationPlan (sha256Hex sample_environment) (localeCompare sample_environment) ?i =
      Inr sample_vplan"
    by (simp add: compileAcceptanceVerificationPlan_def sample_vplan_def Let_def)
  then show ?thesis
    by (simp add: prepare_vplan_def sample_compilation_def verified_goal_read finished_plan_read
        listPlans_def by_revision_def scoped_values_def new_verification_repository_def at_last_def)
      (simp add: sample_vplan_call_def goal_in_verification_def finished_plan_def)
qed

definition repo_with_plan :: verification_repository where
  "repo_with_plan = new_verification_repository\<lparr>vr_plans := [(''vplan-1'', sample_vplan)]\<rparr>"

lemma compiled_repo:
  "df_repo (compile_now sample_environment sample_vplan_call sample_compilation goals_in_verification finished_plans
     no_deliveries) = repo_with_plan"
  by (simp add: compile_now_def compile_vplan_def no_deliveries_def sample_vplan_prepared appendPlan_def
      append_chained_def by_revision_def scoped_values_def at_last_def repo_with_plan_def)
    (simp add: new_verification_repository_def append_chained_def by_revision_def scoped_values_def at_last_def)

definition sample_verdict :: goal_verifier_output where
  "sample_verdict = \<lparr>overallVerdict = JStr ''passed'',
     criterion_verdicts = [\<lparr>verdict_criterionRef = ''A1'', criterion_verdict = JStr ''passed'',
       verdict_evidenceRefs = [''log-1''], verdict_rationale = ''The command passed''\<rparr>],
     nonGoal_verdicts = [], constraint_verdicts = [], regressionRisks = []\<rparr>"

lemma sample_verdict_clean: "clean_output goal_in_verification sample_verdict"
proof -
  have "clean_text 200 ''A1''" "clean_text 8000 ''The command passed''" "clean_texts 500 1000 [''log-1'']" by code_simp+
  then show ?thesis
    by (simp add: clean_output_def sample_verdict_def clean_criterion_verdict_def verdicts_def
        goal_in_verification_def sample_compile_input_def)
qed

definition sample_verify_call :: verify_call where
  "sample_verify_call = \<lparr>vc_authorize = (\<lambda>actor organization project permission. Inr ()), vc_clock = (\<lambda>n. 2000),
     vc_newId = ''verification-1'', vc_sessionId = ''session-1'', vc_builders = (\<lambda>s p. [''Builder'']),
     vc_run = (\<lambda>e s. Inr \<lparr>vres_status = ''passed'', vres_evidenceRefs = [''log-1''], vres_summary = ''Done'',
       vres_durationMs = None, vres_manualApproval = None\<rparr>),
     vc_elapsed = (\<lambda>n. 7), vc_verify = (\<lambda>q. Inr (output_json sample_verdict)),
     vc_identity = '' Verifier '', vc_version = ''1''\<rparr>"

definition sample_verification_request :: verify_command where
  "sample_verification_request = \<lparr>vk_scope = sample_scope, vk_planId = ''vplan-1'', vk_actorId = ''actor'',
     vk_expectedGoalVersion = 5, vk_manualEvidence = []\<rparr>"

definition sample_results :: "deterministic_result list" where
  "sample_results = [\<lparr>det_entryId = ''e1'', det_criterionRef = ''A1'', det_status = ''passed'',
     det_evidenceRefs = [''log-1''], det_summary = ''Done'', det_durationMs = 7, det_manualApproval = None\<rparr>]"

definition sample_verification :: goal_verification where
  "sample_verification = \<lparr>gv_id = ''verification-1'', gv_scope = sample_scope, gv_planId = ''vplan-1'',
     gv_issuePlanId = ''plan-1'', gv_revision = 1, gv_previousId = None, gv_goalVersion = 5,
     gv_verdict = Verdict_passed, gv_results = sample_results, gv_output = sample_verdict,
     gv_verifierIdentity = ''Verifier'', gv_verifierVersion = ''1'', gv_sessionId = ''session-1'',
     gv_verifiedAt = toISOString 2000, gv_version = 1\<rparr>"

lemma sample_verification_prepared:
  "prepare_verification sample_verify_call sample_verification_request goals_in_verification finished_plans
     repo_with_plan = Inr sample_verification"
proof -
  have "eligible_plan sample_verification_request goals_in_verification finished_plans repo_with_plan =
      Inr (goal_in_verification, sample_vplan)"
    by (simp add: eligible_plan_def sample_verification_request_def verified_goal_read finished_plan_read
        getPlan_def get_scoped_def listPlans_def by_revision_def scoped_values_def repo_with_plan_def at_last_def)
      (simp add: goal_in_verification_def finished_plan_def)
  moreover have "trim '' Verifier '' = ''Verifier''" "trim ''1'' = ''1''" "trim ''Done'' = ''Done''"
    "lower (trim ''Builder'') \<noteq> lower (trim '' Verifier '')" by code_simp+
  moreover from this have "independent_builders sample_verify_call sample_scope ''plan-1'' = Inr [''Builder'']"
    by (simp add: independent_builders_def sample_verify_call_def)
  moreover have "judged_entries sample_verify_call sample_verification_request sample_vplan = Inr sample_results"
    by (simp add: judged_entries_def judged_entry_def run_entry_def sample_entry_def sample_verify_call_def
        sample_verification_request_def sample_results_def \<open>trim ''Done'' = ''Done''\<close>)
  moreover have "verifier_judgement sample_verify_call goal_in_verification sample_vplan [''Builder''] sample_results =
      Inr sample_verdict"
    by (simp add: verifier_judgement_def sample_verify_call_def clean_output_accepted[OF sample_verdict_clean])
      (simp add: sample_verdict_def sample_results_def)
  moreover have "derivedVerdict sample_results sample_verdict = Verdict_passed"
    by (simp add: derivedVerdict_def sample_results_def sample_verdict_def)
  moreover have "listVerifications sample_scope repo_with_plan = []"
    by (simp add: listVerifications_def by_revision_def scoped_values_def repo_with_plan_def new_verification_repository_def)
  ultimately show ?thesis
    by (simp add: prepare_verification_def sample_verification_request_def at_last_def sample_verification_def)
      (simp add: sample_verify_call_def goal_in_verification_def)
qed

theorem passed_verification_is_backed_witness:
  "list_all2 (backed_result sample_verify_call sample_verification_request) [sample_entry] sample_results \<and>
   goal_state goal_in_verification = Verifying \<and> lower ''Builder'' \<noteq> lower ''Verifier''"
proof -
  have p: "getPlan sample_scope ''vplan-1'' repo_with_plan = Some sample_vplan"
    by (simp add: getPlan_def get_scoped_def repo_with_plan_def)
  have "gv_verdict sample_verification = Verdict_passed" by (simp add: sample_verification_def)
  from passed_verification_is_backed[OF sample_verification_prepared this] p
  have "list_all2 (backed_result sample_verify_call sample_verification_request) [sample_entry] sample_results"
    by (auto simp: sample_verification_request_def sample_verification_def)
  then show ?thesis by (simp add: goal_in_verification_def lower_def lower_char_def)
qed


theorem array_verdict_passes_witness:
  "\<exists>out. validateGoalVerifierOutput (output_json out) goal_in_verification = Inr out \<and>
     overallVerdict out = JArr [JStr ''failed''] \<and> derivedVerdict sample_results out = Verdict_passed"
proof -
  have "derivedVerdict sample_results sample_verdict = Verdict_passed"
    by (simp add: derivedVerdict_def sample_results_def sample_verdict_def)
  from array_verdict_passes[OF sample_verdict_clean this] show ?thesis
    by (intro exI[of _ "sample_verdict\<lparr>overallVerdict := JArr [JStr ''failed'']\<rparr>"]) simp
qed

section \<open>The delivery\<close>

definition repo_verified :: verification_repository where
  "repo_verified = repo_with_plan\<lparr>vr_verifications := [(''verification-1'', sample_verification)]\<rparr>"

lemma verified_repo:
  assumes "df_repo f = repo_with_plan"
  shows "df_repo (verify_now sample_verify_call sample_verification_request goals_in_verification finished_plans f) =
    repo_verified"
proof -
  have "appendVerification sample_verification repo_with_plan = (Inr sample_verification, repo_verified)"
    by (simp add: appendVerification_def append_chained_def by_revision_def scoped_values_def at_last_def
        repo_with_plan_def repo_verified_def new_verification_repository_def)
      (simp add: sample_verification_def)
  then show ?thesis by (simp add: verify_now_def verify_def assms sample_verification_prepared)
qed

definition sample_run :: delivery_issue_run where
  "sample_run = \<lparr>ir_issueId = ''A'', ir_issueKey = ''A'', ir_runId = ''run-1'', ir_status = ''completed'',
     ir_artifactRefs = [''patch''], ir_reviewIds = [''review-1''], ir_commitSha = Some ''abc'', ir_pullRequest = None\<rparr>"

definition sample_report_call :: report_call where
  "sample_report_call = \<lparr>rep_authorize = (\<lambda>actor organization project permission. Inr ()), rep_clock = 3000,
     rep_newId = ''report-1'', rep_source = (\<lambda>s. \<lparr>src_goal = goal_in_verification, src_issueRuns = [sample_run],
       src_exceptions = []\<rparr>)\<rparr>"

definition sample_report_request :: report_command where
  "sample_report_request = \<lparr>rpc_scope = sample_scope, rpc_verificationId = ''verification-1'',
     rpc_actorId = ''actor'', rpc_knownRisks = []\<rparr>"

definition sample_report :: delivery_report where
  "sample_report = withDigest sample_environment \<lparr>rep_id = ''report-1'', rep_scope = sample_scope, rep_revision = 1,
     rep_previousId = None, rep_verificationId = ''verification-1'', rep_planId = ''vplan-1'',
     rep_issuePlanId = ''plan-1'', rep_goal = goal_in_verification,
     rep_acceptance = [\<lparr>acc_criterionRef = ''A1'', acc_statement = ''Works'', acc_evidenceRefs = [''log-1''],
       acc_rationale = ''The command passed''\<rparr>],
     rep_issueRuns = [sample_run], rep_exceptions = [], rep_knownRisks = [], rep_regressionRisks = [],
     rep_status = Awaiting_human_acceptance, rep_humanAcceptance = None, rep_digest = '''',
     rep_generatedBy = ''actor'', rep_generatedAt = toISOString 3000, rep_version = 1\<rparr>"

definition repo_reported :: verification_repository where
  "repo_reported = repo_verified\<lparr>vr_goals := Map.empty(scope_key sample_scope \<mapsto> goal_in_verification),
     vr_reports := [(''report-1'', sample_report)]\<rparr>"

lemma reported_repo:
  assumes "df_repo f = repo_verified"
  shows "df_repo (report_now sample_environment sample_report_call sample_report_request f) = repo_reported"
proof -
  let ?i = "(sample_verification, sample_vplan, rep_source sample_report_call sample_scope, None)"
  have v: "gv_scope sample_verification = sample_scope" "gv_id sample_verification = ''verification-1''"
    "gv_verdict sample_verification = Verdict_passed" "gv_planId sample_verification = ''vplan-1''"
    "overallVerdict (gv_output sample_verification) = JStr ''passed''"
    "gv_issuePlanId sample_verification = ''plan-1''" "gv_goalVersion sample_verification = 5"
    by (simp_all add: sample_verification_def sample_verdict_def)
  have read: "getVerification sample_scope ''verification-1'' repo_verified = Some sample_verification"
    "listVerifications sample_scope repo_verified = [sample_verification]"
    "getPlan sample_scope ''vplan-1'' repo_verified = Some sample_vplan"
    "listPlans sample_scope repo_verified = [sample_vplan]" "listDeliveryReports sample_scope repo_verified = []"
    by (simp_all add: getVerification_def get_scoped_def listVerifications_def getPlan_def listPlans_def
        listDeliveryReports_def by_revision_def scoped_values_def repo_verified_def repo_with_plan_def
        new_verification_repository_def v)
  have g: "goal_id goal_in_verification = goalId sample_scope" "goal_state goal_in_verification = Verifying"
    "goal_version goal_in_verification = 5"
    by (simp_all add: goal_in_verification_def sample_scope_def)
  have "read_report_inputs sample_report_call sample_report_request repo_verified = Inr ?i"
    by (simp add: read_report_inputs_def sample_report_request_def read v at_last_def)
      (simp add: sample_report_call_def g read at_last_def)
  moreover have "synchronizeGoal goal_in_verification repo_verified =
      repo_verified\<lparr>vr_goals := Map.empty(scope_key sample_scope \<mapsto> goal_in_verification)\<rparr>"
    by (simp add: synchronizeGoal_def repo_verified_def repo_with_plan_def new_verification_repository_def
        verified_goal_key)
  moreover have "build_report sample_environment sample_report_call sample_report_request ?i = Inr sample_report"
    by (simp add: build_report_def sample_verification_def sample_verdict_def report_criterion_def
        sample_report_call_def goal_in_verification_def sample_compile_input_def)
      (simp add: complete_run_def sample_run_def available_refs_def sample_results_def validateRisks_def
        sample_report_request_def sample_report_def goal_in_verification_def sample_compile_input_def)
  moreover have "appendDeliveryReport sample_report
      (repo_verified\<lparr>vr_goals := Map.empty(scope_key sample_scope \<mapsto> goal_in_verification)\<rparr>) =
      (Inr sample_report, repo_reported)"
    by (simp add: appendDeliveryReport_def append_chained_def by_revision_def scoped_values_def at_last_def
        repo_reported_def repo_verified_def repo_with_plan_def new_verification_repository_def)
      (simp add: sample_report_def)
  ultimately show ?thesis
    by (simp add: report_now_def generate_report_def assms) (simp add: sample_report_call_def)
qed

definition sample_acceptance :: accept_command where
  "sample_acceptance = \<lparr>ak_scope = sample_scope, ak_reportId = ''report-1'', ak_actorId = ''owner'',
     ak_expectedGoalVersion = 5, ak_reason = ''Agreed'', ak_requestId = ''request-1'', ak_idempotencyKey = ''accept-key''\<rparr>"

definition sample_accept_call :: report_call where
  "sample_accept_call = sample_report_call\<lparr>rep_newId := ''report-2'', rep_clock := 4000\<rparr>"

lemma accepted_repo:
  assumes "df_repo f = repo_reported"
  shows "\<exists>r. rep_status r = Report_accepted \<and>
    vr_goals (df_repo (accept_now sample_environment sample_accept_call sample_acceptance f)) (scope_key sample_scope) =
      Some (completed_goal (toISOString 4000) goal_in_verification) \<and>
    (''report-2'', r) \<in> set (vr_reports (df_repo (accept_now sample_environment sample_accept_call sample_acceptance f)))"
proof -
  let ?r = "accepted_report sample_environment sample_accept_call sample_acceptance ''Agreed'' ''request-1'' sample_report"
  have texts: "gap_bounded ''Agreed'' ''reason'' 4000 = Inr ''Agreed''"
    "gap_bounded ''request-1'' ''requestId'' 200 = Inr ''request-1''"
    "gap_bounded ''accept-key'' ''idempotencyKey'' 200 = Inr ''accept-key''" by code_simp+
  have chk: "check_accept sample_accept_call sample_acceptance = Inr (''Agreed'', ''request-1'', ''accept-key'')"
    by (simp add: check_accept_def sample_acceptance_def texts) (simp add: sample_accept_call_def sample_report_call_def)
  have rep: "rep_id sample_report = ''report-1''" "rep_scope sample_report = sample_scope"
    "rep_status sample_report = Awaiting_human_acceptance" "rep_knownRisks sample_report = []"
    by (simp_all add: sample_report_def)
  have read: "getDeliveryReport sample_scope ''report-1'' repo_reported = Some sample_report"
    "listDeliveryReports sample_scope repo_reported = [sample_report]"
    "getGoal sample_scope repo_reported = Some goal_in_verification"
    by (simp_all add: getDeliveryReport_def get_scoped_def listDeliveryReports_def by_revision_def
        scoped_values_def getGoal_def repo_reported_def rep)
  obtain k where k: "prepare_accept sample_environment sample_accept_call sample_acceptance repo_reported = Inr k"
    "rac_current k = sample_report" "rac_accepted k = ?r" "rac_expectedGoalVersion k = 5"
    by (simp add: prepare_accept_def chk) (simp add: sample_acceptance_def read rep at_last_def goal_in_verification_def)
  have acc: "rep_status ?r = Report_accepted" "rep_previousId ?r = Some ''report-1''" "rep_id ?r = ''report-2''"
    "rep_generatedAt ?r = toISOString 4000"
    by (simp_all add: accepted_report_def Let_def rep sample_accept_call_def withDigest_def)
  have g: "goal_state goal_in_verification = Verifying" "goal_version goal_in_verification = 5"
    by (simp_all add: goal_in_verification_def)
  have "vr_acceptances repo_reported a = None" for a
    by (simp add: repo_reported_def repo_verified_def repo_with_plan_def new_verification_repository_def)
  moreover have "vr_goals repo_reported (scope_key sample_scope) = Some goal_in_verification"
    by (simp add: repo_reported_def)
  ultimately have "acceptDeliveryReport k repo_reported = (Inr (?r, completed_goal (toISOString 4000) goal_in_verification),
      repo_reported\<lparr>vr_reports := AList.update ''report-2'' ?r (vr_reports repo_reported),
        vr_goals := (vr_goals repo_reported)(scope_key sample_scope \<mapsto> completed_goal (toISOString 4000) goal_in_verification),
        vr_acceptances := (vr_acceptances repo_reported)
          (acceptance_key k \<mapsto> (rac_requestHash k, ?r, completed_goal (toISOString 4000) goal_in_verification))\<rparr>)"
    by (simp add: acceptDeliveryReport_def k read rep acc g at_last_def verified_goal_key Let_def)
  with acc(1) show ?thesis
    by (intro exI[of _ ?r]) (simp add: accept_now_def accept_report_def assms k(1), simp add: repo_reported_def)
qed

definition delivered :: deliveries_in_flight where
  "delivered = accept_now sample_environment sample_accept_call sample_acceptance
     (report_now sample_environment sample_report_call sample_report_request
       (verify_now sample_verify_call sample_verification_request goals_in_verification finished_plans
         (compile_now sample_environment sample_vplan_call sample_compilation goals_in_verification finished_plans
           no_deliveries)))"

lemma delivered_run: "(delivery_step sample_environment)\<^sup>*\<^sup>* no_deliveries delivered"
  unfolding delivered_def
  by (intro rtranclp_trans[OF _ accept_now_steps] rtranclp_trans[OF _ report_now_steps]
      rtranclp_trans[OF _ verify_now_steps] compile_now_steps)


end
