(* ===== verification/Execution_Events.thy ===== *)
theory Execution_Events
  imports State_Machines Issue_Plan_Service
begin

text \<open>
  \<^verbatim>\<open>application/external-event-service.ts\<close> and \<^verbatim>\<open>adapters/memory-execution-event-repository.ts\<close>: the events
  of an external run arrive more than once and out of order; an inbox keeps them, and each is applied
  to the projection of its run when it is the next in sequence.

  A sequence number is an integer; one that is not is refused by the service before anything else is
  done with it. What turns the lines of a worker into events and the telemetry are not modelled.
\<close>

section \<open>Events and runs\<close>

record observability_context =
  obs_process :: string
  obs_requestId :: string
  obs_goalId :: "string option"
  obs_issueId :: "string option"
  obs_runId :: "string option"
  obs_receiptId :: "string option"
  obs_traceId :: string
  obs_spanId :: string
  obs_parentSpanId :: "string option"
  obs_traceFlags :: string

record run_event =
  ev_schemaVersion :: string
  ev_sourceEventId :: string
  ev_externalRunId :: string
  ev_externalTaskId :: string
  ev_sequence :: int
  ev_occurredAt :: string
  ev_phase :: string
  ev_status :: string
  ev_message :: string
  ev_observability :: "observability_context option"

record run_projection =
  run_id :: string
  run_organizationId :: string
  run_projectId :: string
  run_goalId :: string
  run_issueId :: "string option"
  run_externalRunId :: string
  run_externalTaskId :: string
  run_state :: run_status
  run_phase :: string
  run_version :: nat
  lastEventSequence :: int
  reconciliationRequired :: bool

datatype processing_status = Inbox_pending | Inbox_applied | Inbox_gap | Inbox_ignored

record inbox_record =
  ib_event :: run_event
  ib_digest :: string
  ib_status :: processing_status

record run_notice =
  rn_eventType :: string
  rn_runId :: string
  rn_version :: nat

record event_store =
  es_runs :: "run_projection list"
  es_inbox :: "inbox_record list"
  es_outbox :: "run_notice list"

definition terminal_runs :: "run_status list" where
  "terminal_runs = [Succeeded, Failed, Run_cancelled]"

definition run_status_name :: "run_status \<Rightarrow> string" where
  "run_status_name s = (case s of Queued \<Rightarrow> ''queued'' | Running \<Rightarrow> ''running'' | Succeeded \<Rightarrow> ''succeeded''
     | Failed \<Rightarrow> ''failed'' | Run_cancelled \<Rightarrow> ''cancelled'')"

definition mappedStatus :: "run_event \<Rightarrow> run_status option" where
  "mappedStatus e =
     (let status = lower (ev_status e); phase = lower (ev_phase e) in
      if status \<in> {''succeeded'', ''done'', ''completed'', ''complete''} \<or> phase = ''complete'' then Some Succeeded
      else if status \<in> {''failed'', ''error'', ''blocked''} then Some Failed
      else if status \<in> {''cancelled'', ''canceled'', ''stopped''} then Some Run_cancelled
      else if status \<in> {''running'', ''in_progress'', ''started''} \<or>
        phase \<in> {''claim'', ''worktree'', ''prompt'', ''builder'', ''verify'', ''review'', ''landing''} then Some Running
      else None)"

section \<open>Applying an event\<close>

definition notice :: "string \<Rightarrow> run_projection \<Rightarrow> run_notice" where
  "notice type run = \<lparr>rn_eventType = type, rn_runId = run_id run, rn_version = run_version run\<rparr>"

text \<open>The status of a run moves, one version and one notice each time.\<close>

definition move_run :: "run_status \<Rightarrow> string \<Rightarrow> run_projection \<times> run_notice list \<Rightarrow> run_projection \<times> run_notice list" where
  "move_run s type ro =
     (case ro of (run, out) \<Rightarrow>
        (let run' = run\<lparr>run_state := s, run_version := run_version run + 1\<rparr> in (run', out @ [notice type run'])))"

definition advance_status ::
  "run_status \<Rightarrow> run_projection \<times> run_notice list \<Rightarrow> run_projection \<times> run_notice list" where
  "advance_status s ro =
     (let ro1 = (if run_state (fst ro) = Queued \<and> s \<noteq> Running then move_run Running ''run.started'' ro else ro) in
      if s \<noteq> Running \<or> run_state (fst ro1) = Queued
      then move_run s (if s = Running then ''run.started'' else ''run.'' @ run_status_name s) ro1
      else move_run s ''run.started'' ro1)"

text \<open>The body of the loop: the next event of the run, and whether it came too late.\<close>

definition apply_event ::
  "run_event \<Rightarrow> run_projection \<times> run_notice list \<Rightarrow> (run_projection \<times> run_notice list) \<times> processing_status" where
  "apply_event e ro =
     (case ro of (run, out) \<Rightarrow>
        (let run1 = run\<lparr>run_phase := ev_phase e, lastEventSequence := ev_sequence e\<rparr> in
         if run_state run \<in> set terminal_runs then ((run1, out), Inbox_ignored)
         else
           (case mappedStatus e of
              None \<Rightarrow> ((run1, out), Inbox_applied)
            | Some s \<Rightarrow> if s = run_state run1 then ((run1, out), Inbox_applied)
                else (advance_status s (run1, out), Inbox_applied))))"

definition kept_waiting :: "inbox_record \<Rightarrow> bool" where
  "kept_waiting r \<longleftrightarrow> ib_status r \<in> {Inbox_pending, Inbox_gap}"

definition is_next :: "run_projection \<Rightarrow> inbox_record \<Rightarrow> bool" where
  "is_next run r \<longleftrightarrow> ev_externalRunId (ib_event r) = run_externalRunId run \<and>
     ev_sequence (ib_event r) = lastEventSequence run + 1 \<and> kept_waiting r"

lemma filter_update_less:
  "i < length xs \<Longrightarrow> P (xs ! i) \<Longrightarrow> \<not> P y \<Longrightarrow> length (filter P (xs[i := y])) < length (filter P xs)"
  by (induction xs arbitrary: i) (auto split: nat.splits intro: less_SucI)

text \<open>\<open>for (;;)\<close>: every round takes one event out of the ones that wait.\<close>

function drain ::
  "run_projection \<times> run_notice list \<Rightarrow> inbox_record list \<Rightarrow> processing_status \<Rightarrow>
   (run_projection \<times> run_notice list) \<times> inbox_record list \<times> processing_status" where
  "drain ro inbox last_one =
     (case find_index (is_next (fst ro)) inbox of
        None \<Rightarrow> (ro, inbox, last_one)
      | Some i \<Rightarrow>
          (let r = inbox ! i; step = apply_event (ib_event r) ro in
           drain (fst step) (inbox[i := r\<lparr>ib_status := snd step\<rparr>]) (snd step)))"
  by pat_completeness auto

lemma apply_event_status: "snd (apply_event e ro) \<in> {Inbox_applied, Inbox_ignored}"
  by (auto simp: apply_event_def Let_def split: prod.splits option.splits)

termination drain
proof (relation "measure (\<lambda>(ro, inbox, l). length (filter kept_waiting inbox))")
  fix ro :: "run_projection \<times> run_notice list" and inbox :: "inbox_record list" and l :: processing_status
    and i r step
  assume i: "find_index (is_next (fst ro)) inbox = Some i" and r: "r = inbox ! i" and s: "step = apply_event (ib_event r) ro"
  from find_index_nth[OF i] have "i < length inbox" "kept_waiting (inbox ! i)" by (simp_all add: is_next_def)
  moreover have "\<not> kept_waiting (r\<lparr>ib_status := snd step\<rparr>)"
    using apply_event_status[of "ib_event r" ro] by (auto simp: s kept_waiting_def)
  ultimately have "length (filter kept_waiting (inbox[i := r\<lparr>ib_status := snd step\<rparr>])) < length (filter kept_waiting inbox)"
    by (rule filter_update_less)
  then show "((fst step, inbox[i := r\<lparr>ib_status := snd step\<rparr>], snd step), ro, inbox, l)
      \<in> measure (\<lambda>(ro, inbox, l). length (filter kept_waiting inbox))" by simp
qed simp

declare drain.simps [simp del]

section \<open>Ingesting an event\<close>

datatype ingest_result =
    Ingest_duplicate
  | Ingest_conflict string
  | Run_not_found
  | Identity_mismatch
  | Ingest_gap run_projection
  | Ingest_ignored run_projection
  | Ingest_applied run_projection

definition observed_elsewhere :: "run_projection \<Rightarrow> run_event \<Rightarrow> bool" where
  "observed_elsewhere run e =
     (case ev_observability e of
        None \<Rightarrow> False
      | Some ob \<Rightarrow> obs_runId ob \<noteq> Some (run_id run) \<or> obs_goalId ob \<noteq> Some (run_goalId run) \<or>
          run_issueId run \<noteq> None \<and> obs_issueId ob \<noteq> run_issueId run)"

definition still_missing :: "run_projection \<Rightarrow> inbox_record list \<Rightarrow> bool" where
  "still_missing run inbox \<longleftrightarrow> (\<exists>r\<in>set inbox. ev_externalRunId (ib_event r) = run_externalRunId run \<and>
     ib_status r = Inbox_gap \<and> lastEventSequence run < ev_sequence (ib_event r))"

definition take_in :: "run_event \<Rightarrow> string \<Rightarrow> nat \<Rightarrow> event_store \<Rightarrow> ingest_result \<times> event_store" where
  "take_in e d i st =
     (let run = es_runs st ! i; record = \<lparr>ib_event = e, ib_digest = d, ib_status = Inbox_pending\<rparr> in
      if ev_sequence e > lastEventSequence run + 1 then
        (let run' = run\<lparr>reconciliationRequired := True\<rparr> in
         (Ingest_gap run', st\<lparr>es_runs := (es_runs st)[i := run'],
            es_inbox := es_inbox st @ [record\<lparr>ib_status := Inbox_gap\<rparr>]\<rparr>))
      else if ev_sequence e \<le> lastEventSequence run then
        (Ingest_ignored run, st\<lparr>es_inbox := es_inbox st @ [record\<lparr>ib_status := Inbox_ignored\<rparr>]\<rparr>)
      else
        (case drain (run, []) (es_inbox st @ [record]) Inbox_applied of
           ((run1, out), inbox, last_one) \<Rightarrow>
             (let run' = run1\<lparr>reconciliationRequired := still_missing run1 inbox\<rparr> in
              (if last_one = Inbox_ignored then Ingest_ignored run' else Ingest_applied run',
               st\<lparr>es_runs := (es_runs st)[i := run'], es_inbox := inbox, es_outbox := es_outbox st @ out\<rparr>))))"

definition ingest_event :: "run_event \<Rightarrow> string \<Rightarrow> event_store \<Rightarrow> ingest_result \<times> event_store" where
  "ingest_event e d st =
     (case find (\<lambda>r. ev_sourceEventId (ib_event r) = ev_sourceEventId e) (es_inbox st) of
        Some existing \<Rightarrow> (if ib_digest existing = d then Ingest_duplicate else Ingest_conflict (ib_digest existing), st)
      | None \<Rightarrow>
          (case find_index (\<lambda>r. run_externalRunId r = ev_externalRunId e) (es_runs st) of
             None \<Rightarrow> (Run_not_found, st)
           | Some i \<Rightarrow>
               (let run = es_runs st ! i in
                if run_externalTaskId run \<noteq> ev_externalTaskId e \<or> observed_elsewhere run e
                then (Identity_mismatch, st) else take_in e d i st)))"

section \<open>The service\<close>

definition source_event_id :: "string \<Rightarrow> bool" where
  "source_event_id s \<longleftrightarrow>
     (case s of [] \<Rightarrow> False
      | c # cs \<Rightarrow> (is_upper c \<or> is_lower c \<or> is_digit c) \<and> length cs \<le> 199 \<and>
          list_all (\<lambda>c. is_upper c \<or> is_lower c \<or> is_digit c \<or> c \<in> set ''_.:-'') cs)"

definition validate_event :: "plan_environment \<Rightarrow> run_event \<Rightarrow> js_error + unit" where
  "validate_event env e =
     (if ev_schemaVersion e \<noteq> ''autodev.run-event.v1''
      then Inl (ExternalEventValidationError ''Unsupported AutoDev event schema'')
      else if \<not> source_event_id (ev_sourceEventId e)
      then Inl (ExternalEventValidationError ''Invalid source event id'')
      else if \<bar>ev_sequence e\<bar> > 2 ^ 53 - 1 \<or> ev_sequence e < 1
      then Inl (ExternalEventValidationError ''Invalid source event sequence'')
      else if trim (ev_externalRunId e) = '''' \<or> trim (ev_externalTaskId e) = ''''
      then Inl (ExternalEventValidationError ''External run and task identities are required'')
      else if \<not> valid_date env (ev_occurredAt e)
      then Inl (ExternalEventValidationError ''Invalid event timestamp'')
      else if trim (ev_phase e) = '''' \<or> trim (ev_status e) = ''''
      then Inl (ExternalEventValidationError ''Event phase and status are required'')
      else if (case ev_observability e of None \<Rightarrow> False | Some ob \<Rightarrow> obs_runId ob = None)
      then Inl (ExternalEventValidationError
        ''Worker observability context requires the authoritative run identity'')
      else Inr ())"

definition optional_field :: "string \<Rightarrow> string option \<Rightarrow> (string \<times> json) list" where
  "optional_field k v = (case v of None \<Rightarrow> [] | Some s \<Rightarrow> [(k, JStr s)])"

definition observability_json :: "observability_context \<Rightarrow> json" where
  "observability_json ob = JObj ([(''schemaVersion'', JStr ''harness.observability.v1''),
     (''process'', JStr (obs_process ob)), (''requestId'', JStr (obs_requestId ob))] @
     optional_field ''goalId'' (obs_goalId ob) @ optional_field ''issueId'' (obs_issueId ob) @
     optional_field ''runId'' (obs_runId ob) @ optional_field ''receiptId'' (obs_receiptId ob) @
     [(''traceId'', JStr (obs_traceId ob)), (''spanId'', JStr (obs_spanId ob))] @
     optional_field ''parentSpanId'' (obs_parentSpanId ob) @ [(''traceFlags'', JStr (obs_traceFlags ob))])"

definition event_json :: "run_event \<Rightarrow> json" where
  "event_json e = JObj ([(''schemaVersion'', JStr (ev_schemaVersion e)),
     (''sourceEventId'', JStr (ev_sourceEventId e)), (''externalRunId'', JStr (ev_externalRunId e)),
     (''externalTaskId'', JStr (ev_externalTaskId e)), (''sequence'', JInt (ev_sequence e)),
     (''occurredAt'', JStr (ev_occurredAt e)), (''phase'', JStr (ev_phase e)), (''status'', JStr (ev_status e)),
     (''message'', JStr (ev_message e))] @
     (case ev_observability e of None \<Rightarrow> [] | Some ob \<Rightarrow> [(''observability'', observability_json ob)]))"

definition event_digest :: "plan_environment \<Rightarrow> run_event \<Rightarrow> string" where
  "event_digest env e = sha256Hex env (canonicalJson (localeCompare env) (event_json e))"

definition ingest :: "plan_environment \<Rightarrow> run_event \<Rightarrow> event_store \<Rightarrow> (js_error + ingest_result) \<times> event_store" where
  "ingest env e st =
     (case validate_event env e of
        Inl err \<Rightarrow> (Inl err, st)
      | Inr u \<Rightarrow>
          (case ingest_event e (event_digest env e) st of
             (res, st') \<Rightarrow>
               ((case res of
                   Ingest_conflict h \<Rightarrow> Inl (ExternalEventConflictError)
                 | Run_not_found \<Rightarrow> Inl (ExternalEventValidationError ''External run is not registered'')
                 | Identity_mismatch \<Rightarrow> Inl (ExternalEventValidationError ''External task does not own the registered run'')
                 | _ \<Rightarrow> Inr res), st')))"

end
