(* ===== verification/Execution_Events_Safety.thy ===== *)
theory Execution_Events_Safety
  imports Execution_Events
begin

text \<open>
  Events of a run that arrive more than once and in any order have the effect of their sequence:
  the projection of the run and the notices in the outbox are those of applying, in order and once
  each, the events up to the first that is missing. What is known of a run only moves forward.
\<close>

section \<open>Applying events in their order\<close>

definition replay :: "run_projection \<times> run_notice list \<Rightarrow> run_event list \<Rightarrow> run_projection \<times> run_notice list" where
  "replay ro es = foldl (\<lambda>ro e. fst (apply_event e ro)) ro es"

lemma replay_simps [simp]:
  "replay ro [] = ro" "replay ro (e # es) = replay (fst (apply_event e ro)) es"
  "replay ro (es @ fs) = replay (replay ro es) fs"
  by (simp_all add: replay_def)

lemma move_run_parts:
  "fst (move_run s t (run, out)) = run\<lparr>run_state := s, run_version := Suc (run_version run)\<rparr>"
  "snd (move_run s t (run, out)) =
     out @ [notice t (run\<lparr>run_state := s, run_version := Suc (run_version run)\<rparr>)]"
  by (simp_all add: move_run_def Let_def)

lemma move_run_frame:
  "move_run s t (run\<lparr>reconciliationRequired := b\<rparr>, o1 @ o2) =
     (case move_run s t (run, o2) of (r, out) \<Rightarrow> (r\<lparr>reconciliationRequired := b\<rparr>, o1 @ out))"
  by (simp add: move_run_def notice_def Let_def)

lemma advance_status_frame:
  "advance_status s (run\<lparr>reconciliationRequired := b\<rparr>, o1 @ o2) =
     (case advance_status s (run, o2) of (r, out) \<Rightarrow> (r\<lparr>reconciliationRequired := b\<rparr>, o1 @ out))"
  by (auto simp: advance_status_def Let_def move_run_frame move_run_parts split: prod.splits)

lemma flag_later:
  "run\<lparr>reconciliationRequired := b, run_phase := p, lastEventSequence := l\<rparr> =
     run\<lparr>run_phase := p, lastEventSequence := l, reconciliationRequired := b\<rparr>" for run :: run_projection
  by (cases run) simp

text \<open>What was noticed before, and whether an event is missing, play no part in it.\<close>

lemma apply_event_frame:
  "apply_event e (run\<lparr>reconciliationRequired := b\<rparr>, o1 @ o2) =
     (case apply_event e (run, o2) of ((r, out), s) \<Rightarrow> ((r\<lparr>reconciliationRequired := b\<rparr>, o1 @ out), s))"
  using advance_status_frame[of _ b "run\<lparr>run_phase := ev_phase e, lastEventSequence := ev_sequence e\<rparr>" o1 o2]
  by (auto simp: apply_event_def Let_def flag_later split: option.splits prod.splits)

lemma replay_frame:
  "replay (run\<lparr>reconciliationRequired := b\<rparr>, o1 @ o2) es =
     (case replay (run, o2) es of (r, out) \<Rightarrow> (r\<lparr>reconciliationRequired := b\<rparr>, o1 @ out))"
proof (induction es arbitrary: run o2)
  case (Cons e es)
  obtain r out s where a: "apply_event e (run, o2) = ((r, out), s)" by (metis surj_pair)
  with Cons show ?case by (simp add: apply_event_frame)
qed simp

definition same_run :: "run_projection \<Rightarrow> run_projection \<Rightarrow> bool" where
  "same_run a b \<longleftrightarrow> run_id a = run_id b \<and> run_goalId a = run_goalId b \<and> run_issueId a = run_issueId b \<and>
     run_externalRunId a = run_externalRunId b \<and> run_externalTaskId a = run_externalTaskId b"

lemma advance_status_same: "same_run (fst (advance_status s (run, out))) run"
  "lastEventSequence (fst (advance_status s (run, out))) = lastEventSequence run"
  by (simp_all add: advance_status_def move_run_def Let_def same_run_def)

lemma apply_event_same: "same_run (fst (fst (apply_event e ro))) (fst ro)"
  "lastEventSequence (fst (fst (apply_event e ro))) = ev_sequence e"
  using advance_status_same(1)[of _ "fst ro\<lparr>run_phase := ev_phase e, lastEventSequence := ev_sequence e\<rparr>"]
  by (auto simp: apply_event_def advance_status_same(2) Let_def same_run_def split: prod.splits option.splits)

lemma replay_same: "same_run (fst (replay ro es)) (fst ro)"
proof (induction es arbitrary: ro)
  case (Cons e es)
  from Cons[of "fst (apply_event e ro)"] apply_event_same(1)[of e ro] show ?case by (simp add: same_run_def)
qed (simp add: same_run_def)

section \<open>The events of a run\<close>

text \<open>Event \<open>k\<close> of a run has number \<open>k\<close>, its own id, and the identity of the run.\<close>

definition stream :: "nat set \<Rightarrow> run_projection \<Rightarrow> (nat \<Rightarrow> run_event) \<Rightarrow> bool" where
  "stream K run ev \<longleftrightarrow> inj_on (\<lambda>k. ev_sourceEventId (ev k)) K \<and>
     (\<forall>k\<in>K. 1 \<le> k \<and> ev_sequence (ev k) = int k \<and> ev_externalRunId (ev k) = run_externalRunId run \<and>
        ev_externalTaskId (ev k) = run_externalTaskId run \<and> \<not> observed_elsewhere run (ev k))"

text \<open>The inbox holds the events \<open>ks\<close>; those up to \<open>n\<close> are applied, those after \<open>n + 1\<close> wait for one.\<close>

definition inbox_holds ::
  "(nat \<Rightarrow> run_event) \<Rightarrow> (run_event \<Rightarrow> string) \<Rightarrow> nat list \<Rightarrow> nat \<Rightarrow> inbox_record list \<Rightarrow> bool" where
  "inbox_holds ev dg ks n inbox \<longleftrightarrow> length inbox = length ks \<and>
     (\<forall>j<length ks. ib_event (inbox ! j) = ev (ks ! j) \<and> ib_digest (inbox ! j) = dg (ev (ks ! j)) \<and>
        (kept_waiting (inbox ! j) \<longleftrightarrow> n < ks ! j) \<and> (Suc n < ks ! j \<longrightarrow> ib_status (inbox ! j) = Inbox_gap))"

lemma drain_replays:
  assumes "stream K run ev" "set ks \<subseteq> K" "distinct ks"
  shows "inbox_holds ev dg ks n inbox \<Longrightarrow> lastEventSequence (fst ro) = int n \<Longrightarrow> same_run (fst ro) run \<Longrightarrow>
    \<exists>m inbox' l'. n \<le> m \<and> {n<..m} \<subseteq> set ks \<and> Suc m \<notin> set ks \<and> inbox_holds ev dg ks m inbox' \<and>
      drain ro inbox l = (replay ro (map ev [Suc n..<Suc m]), inbox', l')"
proof (induction ro inbox l arbitrary: n rule: drain.induct)
  case (1 ro inbox l)
  have nth: "ev_sequence (ib_event (inbox ! j)) = int (ks ! j)"
    "ev_externalRunId (ib_event (inbox ! j)) = run_externalRunId (fst ro)" if "j < length ks" for j
  proof -
    from that assms(2) have "ks ! j \<in> K" by auto
    with assms(1) 1(2,4) that show "ev_sequence (ib_event (inbox ! j)) = int (ks ! j)"
      "ev_externalRunId (ib_event (inbox ! j)) = run_externalRunId (fst ro)"
      by (simp_all add: inbox_holds_def stream_def same_run_def)
  qed
  have len: "length inbox = length ks" using 1(2) by (simp add: inbox_holds_def)
  have next_iff: "is_next (fst ro) (inbox ! j) \<longleftrightarrow> ks ! j = Suc n" if "j < length ks" for j
    using nth[OF that] 1(2,3) that by (auto simp: is_next_def inbox_holds_def)
  show ?case
  proof (cases "find_index (is_next (fst ro)) inbox")
    case None
    have "Suc n \<notin> set ks"
    proof
      assume "Suc n \<in> set ks"
      then obtain j where "j < length ks" "ks ! j = Suc n" by (metis in_set_conv_nth)
      with next_iff find_index_NoneD[OF None, of j] len show False by simp
    qed
    with 1(2) None show ?thesis
      by (intro exI[of _ n]) (simp add: drain.simps[of ro inbox l])
  next
    case (Some i)
    from find_index_nth[OF Some] len have i: "i < length ks" "ks ! i = Suc n" using next_iff by auto
    let ?e = "ib_event (inbox ! i)"
    let ?step = "apply_event ?e ro"
    let ?inbox = "inbox[i := (inbox ! i)\<lparr>ib_status := snd ?step\<rparr>]"
    have e: "?e = ev (Suc n)" using 1(2) i by (simp add: inbox_holds_def)
    have other: "ks ! j \<noteq> Suc n" if "j < length ks" "j \<noteq> i" for j
      using assms(3) i that by (metis nth_eq_iff_index_eq)
    have "inbox_holds ev dg ks (Suc n) ?inbox"
      unfolding inbox_holds_def
    proof (intro conjI allI impI)
      show "length ?inbox = length ks" using len by simp
      fix j assume j: "j < length ks"
      have st: "\<not> kept_waiting ((inbox ! i)\<lparr>ib_status := snd ?step\<rparr>)"
        using apply_event_status[of ?e ro] by (auto simp: kept_waiting_def)
      show "ib_event (?inbox ! j) = ev (ks ! j)" "ib_digest (?inbox ! j) = dg (ev (ks ! j))"
        "kept_waiting (?inbox ! j) \<longleftrightarrow> Suc n < ks ! j" "Suc (Suc n) < ks ! j \<Longrightarrow> ib_status (?inbox ! j) = Inbox_gap"
        using 1(2) st i j len other[of j] by (cases "j = i"; auto simp: inbox_holds_def)+
    qed
    moreover have "lastEventSequence (fst (fst ?step)) = int (Suc n)"
      using apply_event_same(2)[of ?e ro] nth(1)[OF i(1)] i(2) by simp
    moreover have "same_run (fst (fst ?step)) run"
      using apply_event_same(1)[of ?e ro] 1(4) by (simp add: same_run_def)
    ultimately obtain m inbox' l' where m: "Suc n \<le> m" "{Suc n<..m} \<subseteq> set ks" "Suc m \<notin> set ks"
      "inbox_holds ev dg ks m inbox'"
      "drain (fst ?step) ?inbox (snd ?step) = (replay (fst ?step) (map ev [Suc (Suc n)..<Suc m]), inbox', l')"
      using 1(1)[OF Some refl refl, of "Suc n"] by blast
    have "{n<..m} = insert (Suc n) {Suc n<..m}" using m(1) by auto
    moreover have "Suc n \<in> set ks" using i by (metis nth_mem)
    moreover have "[Suc n..<Suc m] = Suc n # [Suc (Suc n)..<Suc m]" using m(1) by (simp add: upt_conv_Cons)
    ultimately show ?thesis
      using m by (intro exI[of _ m] exI[of _ inbox'] exI[of _ l'])
        (simp add: drain.simps[of ro inbox l] Some Let_def e[symmetric])
  qed
qed

section \<open>Delivery in any order\<close>

definition after_events :: "(nat \<Rightarrow> run_event) \<Rightarrow> run_projection \<Rightarrow> nat \<Rightarrow> run_projection \<times> run_notice list" where
  "after_events ev run n = replay (run, []) (map ev [1..<Suc n])"

definition caught_up ::
  "(nat \<Rightarrow> run_event) \<Rightarrow> (run_event \<Rightarrow> string) \<Rightarrow> run_projection \<Rightarrow> nat \<Rightarrow> event_store \<Rightarrow> nat list \<Rightarrow> nat \<Rightarrow>
   event_store \<Rightarrow> bool" where
  "caught_up ev dg run i s0 ks n s \<longleftrightarrow> distinct ks \<and> {1..n} \<subseteq> set ks \<and> Suc n \<notin> set ks \<and>
     inbox_holds ev dg ks n (es_inbox s) \<and>
     (let ro = after_events ev run n in
      es_runs s = (es_runs s0)[i := (fst ro)\<lparr>reconciliationRequired := (\<exists>k\<in>set ks. n < k)\<rparr>] \<and>
      es_outbox s = es_outbox s0 @ snd ro)"

lemma find_unique_id:
  assumes "stream K run ev" "set ks \<subseteq> K" "k \<in> K" "inbox_holds ev dg ks n inbox"
  shows "k \<in> set ks \<Longrightarrow> \<exists>r. find (\<lambda>r. ev_sourceEventId (ib_event r) = ev_sourceEventId (ev k)) inbox = Some r \<and>
      ib_digest r = dg (ev k)"
    and "k \<notin> set ks \<Longrightarrow> find (\<lambda>r. ev_sourceEventId (ib_event r) = ev_sourceEventId (ev k)) inbox = None"
proof -
  have same: "ev_sourceEventId (ib_event (inbox ! j)) = ev_sourceEventId (ev k) \<longleftrightarrow> ks ! j = k" if "j < length ks" for j
  proof -
    have "ks ! j \<in> K" using assms(2) that by auto
    with assms that show ?thesis by (auto simp: stream_def inbox_holds_def inj_on_def)
  qed
  have len: "length inbox = length ks" using assms(4) by (simp add: inbox_holds_def)
  show "\<exists>r. find (\<lambda>r. ev_sourceEventId (ib_event r) = ev_sourceEventId (ev k)) inbox = Some r \<and>
      ib_digest r = dg (ev k)" if k: "k \<in> set ks"
  proof (cases "find (\<lambda>r. ev_sourceEventId (ib_event r) = ev_sourceEventId (ev k)) inbox")
    case None
    from k obtain j where j: "j < length ks" "ks ! j = k" by (metis in_set_conv_nth)
    from j(1) len have "inbox ! j \<in> set inbox" by simp
    moreover from same[OF j(1)] j(2) have "ev_sourceEventId (ib_event (inbox ! j)) = ev_sourceEventId (ev k)" by simp
    ultimately show ?thesis using None[unfolded find_None_iff'] by blast
  next
    case (Some r)
    from find_SomeD[OF this] obtain j where j: "j < length inbox" "inbox ! j = r"
      "ev_sourceEventId (ib_event r) = ev_sourceEventId (ev k)" by (auto simp: in_set_conv_nth)
    with same len have "ks ! j = k" by auto
    with assms(4) j len Some show ?thesis by (auto simp: inbox_holds_def)
  qed
  show "find (\<lambda>r. ev_sourceEventId (ib_event r) = ev_sourceEventId (ev k)) inbox = None" if k: "k \<notin> set ks"
    unfolding find_None_iff'
  proof
    fix r assume "r \<in> set inbox"
    then obtain j where j: "j < length ks" "inbox ! j = r" using len by (metis in_set_conv_nth)
    with k have "ks ! j \<noteq> k" by auto
    with same[OF j(1)] j(2) show "ev_sourceEventId (ib_event r) \<noteq> ev_sourceEventId (ev k)" by simp
  qed
qed

lemma inbox_holds_append:
  assumes "inbox_holds ev dg ks n inbox" "ib_event r = ev k" "ib_digest r = dg (ev k)"
    "kept_waiting r \<longleftrightarrow> n < k" "Suc n < k \<Longrightarrow> ib_status r = Inbox_gap"
  shows "inbox_holds ev dg (ks @ [k]) n (inbox @ [r])"
  using assms by (auto simp: inbox_holds_def nth_append less_Suc_eq)

lemma missing_iff:
  assumes "stream K run ev" "set ks \<subseteq> K" "inbox_holds ev dg ks n inbox" "Suc n \<notin> set ks"
    "same_run r run" "lastEventSequence r = int n"
  shows "still_missing r inbox \<longleftrightarrow> (\<exists>k\<in>set ks. n < k)"
proof -
  have len: "length inbox = length ks" using assms(3) by (simp add: inbox_holds_def)
  have "(ev_externalRunId (ib_event (inbox ! j)) = run_externalRunId r \<and> ib_status (inbox ! j) = Inbox_gap \<and>
      lastEventSequence r < ev_sequence (ib_event (inbox ! j))) \<longleftrightarrow> n < ks ! j" if j: "j < length ks" for j
  proof -
    have "ks ! j \<in> K" "ks ! j \<noteq> Suc n" using assms(2,4) nth_mem[OF j] by auto
    with assms j show ?thesis by (auto simp: stream_def inbox_holds_def same_run_def)
  qed
  with len have "(\<exists>j<length inbox. ev_externalRunId (ib_event (inbox ! j)) = run_externalRunId r \<and>
      ib_status (inbox ! j) = Inbox_gap \<and> lastEventSequence r < ev_sequence (ib_event (inbox ! j))) \<longleftrightarrow>
      (\<exists>j<length ks. n < ks ! j)" by auto
  then show ?thesis unfolding still_missing_def Bex_def in_set_conv_nth by metis
qed

lemma after_events_last:
  assumes "stream K run ev" "{1..n} \<subseteq> K" "lastEventSequence run = 0"
  shows "lastEventSequence (fst (after_events ev run n)) = int n"
proof (cases n)
  case (Suc m)
  then have "[1..<Suc n] = [1..<Suc m] @ [n]" "n \<in> K" using assms(2) by auto
  with assms(1) show ?thesis by (simp add: after_events_def apply_event_same(2) stream_def)
qed (simp add: after_events_def assms(3))

lemma after_events_same: "same_run (fst (after_events ev run n)) run"
  using replay_same[of "(run, [])" "map ev [1..<Suc n]"] unfolding after_events_def by simp

lemma after_events_more:
  assumes "n \<le> m"
  shows "after_events ev run m = replay (after_events ev run n) (map ev [Suc n..<Suc m])"
proof -
  have "[1..<Suc m] = [1..<Suc n] @ [Suc n..<Suc m]"
    using assms upt_add_eq_append[of 1 "Suc n" "m - n"] by simp
  then show ?thesis unfolding after_events_def by (simp del: upt_Suc)
qed

lemma ingest_one:
  assumes st: "stream K run ev" and K: "set ks \<subseteq> K" "k \<in> K" and zero: "lastEventSequence run = 0"
    and i: "i < length (es_runs s0)" "find_index (\<lambda>r. run_externalRunId r = run_externalRunId run) (es_runs s0) = Some i"
    "es_runs s0 ! i = run"
    and up: "caught_up ev dg run i s0 ks n s"
  shows "\<exists>js m. set js = insert k (set ks) \<and> caught_up ev dg run i s0 js m (snd (ingest_event (ev k) (dg (ev k)) s))"
proof (cases "k \<in> set ks")
  case True
  from up have "inbox_holds ev dg ks n (es_inbox s)" by (simp add: caught_up_def)
  from find_unique_id(1)[OF st K this True]
  have "snd (ingest_event (ev k) (dg (ev k)) s) = s" by (auto simp: ingest_event_def)
  with up True show ?thesis by (intro exI[of _ ks] exI[of _ n]) auto
next
  case False
  define ro where "ro = after_events ev run n"
  let ?run = "(fst ro)\<lparr>reconciliationRequired := (\<exists>k\<in>set ks. n < k)\<rparr>"
  from up have ks: "distinct ks" "{1..n} \<subseteq> set ks" "Suc n \<notin> set ks"
    and holds: "inbox_holds ev dg ks n (es_inbox s)"
    and runs: "es_runs s = (es_runs s0)[i := ?run]" and out: "es_outbox s = es_outbox s0 @ snd ro"
    by (simp_all add: caught_up_def Let_def ro_def)
  have n: "{1..n} \<subseteq> K" using ks(2) K(1) by blast
  have same: "same_run ?run run" using after_events_same[of ev run n] by (simp add: same_run_def ro_def)
  have last: "lastEventSequence ?run = int n" using after_events_last[OF st n zero] by (simp add: ro_def)
  have k: "1 \<le> k" "ev_sequence (ev k) = int k" "ev_externalRunId (ev k) = run_externalRunId run"
    "ev_externalTaskId (ev k) = run_externalTaskId run" "\<not> observed_elsewhere run (ev k)"
    using st K(2) by (simp_all add: stream_def)
  have found: "find_index (\<lambda>r. run_externalRunId r = ev_externalRunId (ev k)) (es_runs s) = Some i"
    using find_index_update[of "\<lambda>r. run_externalRunId r = run_externalRunId run" ?run "es_runs s0" i] i same k(3)
    by (simp add: runs same_run_def)
  have at: "es_runs s ! i = ?run" using i(1) by (simp add: runs)
  have not_elsewhere: "\<not> observed_elsewhere ?run (ev k)"
    using k(5) same by (simp add: observed_elsewhere_def same_run_def split: option.splits)
  have task: "run_externalTaskId ?run = ev_externalTaskId (ev k)" using same k(4) by (simp add: same_run_def)
  have take_in: "ingest_event (ev k) (dg (ev k)) s = take_in (ev k) (dg (ev k)) i s"
    using find_unique_id(2)[OF st K holds False] found not_elsewhere task
    by (simp add: ingest_event_def at Let_def)
  have bigger: "n < k" using False ks(2) k(1) by (meson atLeastAtMost_iff leI subsetD)
  let ?fresh = "\<lparr>ib_event = ev k, ib_digest = dg (ev k), ib_status = Inbox_pending\<rparr>"
  show ?thesis
  proof (cases "k = Suc n")
    case False
    with bigger have gap: "Suc n < k" by simp
    then have "snd (ingest_event (ev k) (dg (ev k)) s) = s\<lparr>es_runs := (es_runs s)[i := ?run\<lparr>reconciliationRequired := True\<rparr>],
        es_inbox := es_inbox s @ [?fresh\<lparr>ib_status := Inbox_gap\<rparr>]\<rparr>"
      using last k(2) unfolding take_in by (simp add: take_in_def at Let_def)
    moreover have "inbox_holds ev dg (ks @ [k]) n (es_inbox s @ [?fresh\<lparr>ib_status := Inbox_gap\<rparr>])"
      by (rule inbox_holds_append[OF holds]) (simp_all add: kept_waiting_def bigger)
    ultimately have "caught_up ev dg run i s0 (ks @ [k]) n (snd (ingest_event (ev k) (dg (ev k)) s))"
      using ks \<open>k \<notin> set ks\<close> False bigger by (simp add: caught_up_def Let_def runs out flip: ro_def) auto
    then show ?thesis by (intro exI[of _ "ks @ [k]"] exI[of _ n]) simp
  next
    case True
    have holds': "inbox_holds ev dg (ks @ [k]) n (es_inbox s @ [?fresh])"
      by (rule inbox_holds_append[OF holds]) (simp_all add: kept_waiting_def True)
    have sub: "set (ks @ [k]) \<subseteq> K" "distinct (ks @ [k])" using K ks(1) \<open>k \<notin> set ks\<close> by auto
    obtain m inbox' l' where m: "n \<le> m" "{n<..m} \<subseteq> set (ks @ [k])" "Suc m \<notin> set (ks @ [k])"
      "inbox_holds ev dg (ks @ [k]) m inbox'"
      "drain (?run, []) (es_inbox s @ [?fresh]) Inbox_applied = (replay (?run, []) (map ev [Suc n..<Suc m]), inbox', l')"
      using drain_replays[OF st sub holds', of "(?run, [])" Inbox_applied] last same by auto
    obtain r o1 where r: "replay ro (map ev [Suc n..<Suc m]) = (r, snd ro @ o1)"
      "replay (?run, []) (map ev [Suc n..<Suc m]) = (r\<lparr>reconciliationRequired := (\<exists>k\<in>set ks. n < k)\<rparr>, o1)"
    proof -
      obtain r o1 where a: "replay (fst ro, []) (map ev [Suc n..<Suc m]) = (r, o1)" by fastforce
      from replay_frame[of "\<exists>k\<in>set ks. n < k" "fst ro" "[]" "[]" "map ev [Suc n..<Suc m]"] a
      have "replay (?run, []) (map ev [Suc n..<Suc m]) = (r\<lparr>reconciliationRequired := (\<exists>k\<in>set ks. n < k)\<rparr>, o1)" by simp
      moreover have "replay ro (map ev [Suc n..<Suc m]) =
          (r\<lparr>reconciliationRequired := reconciliationRequired (fst ro)\<rparr>, snd ro @ o1)"
        using replay_frame[of "reconciliationRequired (fst ro)" "fst ro" "snd ro" "[]" "map ev [Suc n..<Suc m]"] a
        by simp
      ultimately show thesis using that[of "r\<lparr>reconciliationRequired := reconciliationRequired (fst ro)\<rparr>" o1] by simp
    qed
    have all: "after_events ev run m = (r, snd ro @ o1)" using after_events_more[OF m(1)] r(1) by (simp add: ro_def)
    have mK: "{1..m} \<subseteq> set (ks @ [k])"
    proof -
      have "{1..m} = {1..n} \<union> {n<..m}" using m(1) by auto
      with ks(2) m(2) show ?thesis by auto
    qed
    let ?r = "r\<lparr>reconciliationRequired := (\<exists>k\<in>set ks. n < k)\<rparr>"
    have "lastEventSequence r = int m" using after_events_last[OF st _ zero, of m] mK sub(1) all by auto
    moreover have "same_run r run" using after_events_same[of ev run m] all by simp
    ultimately have "still_missing ?r inbox' \<longleftrightarrow> (\<exists>j\<in>set (ks @ [k]). m < j)"
      by (intro missing_iff[OF st sub(1) m(4,3)]) (simp_all add: same_run_def)
    then have "snd (ingest_event (ev k) (dg (ev k)) s) =
        s\<lparr>es_runs := (es_runs s)[i := r\<lparr>reconciliationRequired := (\<exists>j\<in>set (ks @ [k]). m < j)\<rparr>], es_inbox := inbox',
          es_outbox := es_outbox s @ o1\<rparr>"
      using last k(2) True m(5) unfolding take_in r(2) by (simp add: take_in_def at Let_def)
    then have "caught_up ev dg run i s0 (ks @ [k]) m (snd (ingest_event (ev k) (dg (ev k)) s))"
      using sub(2) mK m(3,4) by (simp add: caught_up_def Let_def runs out all del: set_append)
    then show ?thesis by (intro exI[of _ "ks @ [k]"] exI[of _ m]) simp
  qed
qed

lemma deliveries_caught_up:
  assumes "stream K run ev" "lastEventSequence run = 0" "i < length (es_runs s0)"
    "find_index (\<lambda>r. run_externalRunId r = run_externalRunId run) (es_runs s0) = Some i" "es_runs s0 ! i = run"
  shows "set ks \<subseteq> K \<Longrightarrow> set js \<subseteq> K \<Longrightarrow> caught_up ev dg run i s0 js n s \<Longrightarrow>
    \<exists>js' m. set js' = set js \<union> set ks \<and>
      caught_up ev dg run i s0 js' m (fold (\<lambda>k s. snd (ingest_event (ev k) (dg (ev k)) s)) ks s)"
proof (induction ks arbitrary: js n s)
  case Nil
  then show ?case by auto
next
  case (Cons k ks)
  from ingest_one[OF assms(1) Cons.prems(2) _ assms(2-5) Cons.prems(3), of k] Cons.prems(1)
  obtain js1 m where js1: "set js1 = insert k (set js)"
    "caught_up ev dg run i s0 js1 m (snd (ingest_event (ev k) (dg (ev k)) s))" by auto
  from Cons.IH[OF _ _ js1(2)] js1(1) Cons.prems(1,2) obtain js2 m2 where
    "set js2 = set js1 \<union> set ks"
    "caught_up ev dg run i s0 js2 m2 (fold (\<lambda>k s. snd (ingest_event (ev k) (dg (ev k)) s)) ks
       (snd (ingest_event (ev k) (dg (ev k)) s)))" by auto
  with js1(1) show ?case by (intro exI[of _ js2] exI[of _ m2]) auto
qed

lemma ingest_valid:
  "validate_event env e = Inr () \<Longrightarrow> snd (ingest env e s) = snd (ingest_event e (event_digest env e) s)"
  by (simp add: ingest_def split: prod.splits)

text \<open>
  Property C8. Valid events of one run may arrive in any order and any number of times: the
  run and the outbox end as if the events up to the first missing one had been applied in their
  order, once each, and the run asks for reconciliation exactly if a later event waits for it.
\<close>

theorem events_take_effect_in_order:
  assumes "stream (set ks) run ev" and "\<forall>k\<in>set ks. validate_event env (ev k) = Inr ()"
    and "i < length (es_runs s0)" and "es_runs s0 ! i = run"
    and "find_index (\<lambda>r. run_externalRunId r = run_externalRunId run) (es_runs s0) = Some i"
    and "es_inbox s0 = []" and "lastEventSequence run = 0" and "\<not> reconciliationRequired run"
  shows "\<exists>n. {1..n} \<subseteq> set ks \<and> Suc n \<notin> set ks \<and>
    (let s = fold (\<lambda>k s. snd (ingest env (ev k) s)) ks s0 in
     es_runs s = (es_runs s0)[i := (fst (after_events ev run n))\<lparr>reconciliationRequired := (\<exists>k\<in>set ks. n < k)\<rparr>] \<and>
     es_outbox s = es_outbox s0 @ snd (after_events ev run n))"
proof -
  have "run\<lparr>reconciliationRequired := False\<rparr> = run" using assms(8) by (cases run) simp
  moreover have "(es_runs s0)[i := run] = es_runs s0" using assms(4) by (metis list_update_id)
  ultimately have "caught_up ev (event_digest env) run i s0 [] 0 s0"
    using assms(6) by (simp add: caught_up_def inbox_holds_def after_events_def)
  from deliveries_caught_up[OF assms(1,7,3,5,4) _ _ this, of ks] obtain js m where
    "set js = set ks" "caught_up ev (event_digest env) run i s0 js m
       (fold (\<lambda>k s. snd (ingest_event (ev k) (event_digest env (ev k)) s)) ks s0)" by auto
  moreover have "fold (\<lambda>k s. snd (ingest env (ev k) s)) ks s0 =
      fold (\<lambda>k s. snd (ingest_event (ev k) (event_digest env (ev k)) s)) ks s0"
    using assms(2) by (intro fold_cong) (simp_all add: ingest_valid)
  ultimately show ?thesis by (intro exI[of _ m]) (simp add: caught_up_def Let_def)
qed

section \<open>What is known of a run only moves forward\<close>

definition forward :: "run_projection \<Rightarrow> run_projection \<Rightarrow> run_notice list \<Rightarrow> bool" where
  "forward a b out \<longleftrightarrow> same_run b a \<and> lastEventSequence a \<le> lastEventSequence b \<and>
     map rn_version out = [Suc (run_version a)..<Suc (run_version b)] \<and> (\<forall>n\<in>set out. rn_runId n = run_id a) \<and>
     run_version a \<le> run_version b \<and>
     (run_state b = run_state a \<or> run_state a = Queued \<or> run_state a = Running \<and> run_state b \<in> set terminal_runs) \<and>
     (run_state a \<in> set terminal_runs \<longrightarrow> run_version b = run_version a)"

lemma forward_refl: "forward a a []"
  by (simp add: forward_def same_run_def)

lemma forward_trans:
  assumes "forward a b o1" "forward b c o2"
  shows "forward a c (o1 @ o2)"
proof -
  have "[Suc (run_version a)..<Suc (run_version c)] =
      [Suc (run_version a)..<Suc (run_version b)] @ [Suc (run_version b)..<Suc (run_version c)]"
    using assms upt_add_eq_append[of "Suc (run_version a)" "Suc (run_version b)" "run_version c - run_version b"]
    by (simp add: forward_def)
  then have "map rn_version (o1 @ o2) = [Suc (run_version a)..<Suc (run_version c)]"
    using assms by (simp only: forward_def map_append)
  moreover have "Queued \<notin> set terminal_runs" "Running \<notin> set terminal_runs" by (simp_all add: terminal_runs_def)
  moreover have "run_state b = run_state a \<or> run_state a = Queued \<or> run_state a = Running \<and> run_state b \<in> set terminal_runs"
    "run_state c = run_state b \<or> run_state b = Queued \<or> run_state b = Running \<and> run_state c \<in> set terminal_runs"
    "run_state a \<in> set terminal_runs \<longrightarrow> run_version b = run_version a"
    "run_state b \<in> set terminal_runs \<longrightarrow> run_version c = run_version b"
    using assms unfolding forward_def by blast+
  ultimately have "run_state c = run_state a \<or> run_state a = Queued \<or> run_state a = Running \<and> run_state c \<in> set terminal_runs"
    "run_state a \<in> set terminal_runs \<longrightarrow> run_version c = run_version a"
    "map rn_version (o1 @ o2) = [Suc (run_version a)..<Suc (run_version c)]" by metis+
  moreover have "\<forall>n\<in>set (o1 @ o2). rn_runId n = run_id a" using assms by (auto simp: forward_def same_run_def)
  ultimately show ?thesis using assms unfolding forward_def same_run_def by simp
qed

lemma mappedStatus_not_queued: "mappedStatus e \<noteq> Some Queued"
  by (simp add: mappedStatus_def Let_def)

lemma apply_event_forward:
  assumes "ev_sequence e \<ge> lastEventSequence run"
  shows "\<exists>out. snd (fst (apply_event e (run, o1))) = o1 @ out \<and> forward run (fst (fst (apply_event e (run, o1)))) out"
proof -
  consider (late) "run_state run \<in> set terminal_runs" | (queued) "run_state run = Queued" | (running) "run_state run = Running"
    by (cases "run_state run") (auto simp: terminal_runs_def)
  then show ?thesis
  proof cases
    case late
    then show ?thesis using assms by (simp add: apply_event_def Let_def forward_def same_run_def)
  next
    case queued
    with assms mappedStatus_not_queued[of e] show ?thesis
      by (cases "mappedStatus e"; cases "the (mappedStatus e)")
        (simp_all add: apply_event_def Let_def forward_def same_run_def terminal_runs_def advance_status_def
          move_run_def notice_def)
  next
    case running
    with assms mappedStatus_not_queued[of e] show ?thesis
      by (cases "mappedStatus e"; cases "the (mappedStatus e)")
        (simp_all add: apply_event_def Let_def forward_def same_run_def terminal_runs_def advance_status_def
          move_run_def notice_def)
  qed
qed

lemma drain_forward:
  "\<exists>out. snd (fst (drain ro inbox l)) = snd ro @ out \<and> forward (fst ro) (fst (fst (drain ro inbox l))) out"
proof (induction ro inbox l rule: drain.induct)
  case (1 ro inbox l)
  show ?case
  proof (cases "find_index (is_next (fst ro)) inbox")
    case None
    then show ?thesis by (simp add: drain.simps[of ro inbox l] forward_refl)
  next
    case (Some i)
    let ?step = "apply_event (ib_event (inbox ! i)) ro"
    let ?rest = "drain (fst ?step) (inbox[i := (inbox ! i)\<lparr>ib_status := snd ?step\<rparr>]) (snd ?step)"
    have "ev_sequence (ib_event (inbox ! i)) \<ge> lastEventSequence (fst ro)"
      using find_index_nth[OF Some] by (simp add: is_next_def)
    from apply_event_forward[OF this, of "snd ro"] obtain o1 where
      o1: "snd (fst ?step) = snd ro @ o1" "forward (fst ro) (fst (fst ?step)) o1" by auto
    from 1[OF Some refl refl] obtain o2 where
      o2: "snd (fst ?rest) = snd (fst ?step) @ o2" "forward (fst (fst ?step)) (fst (fst ?rest)) o2" by blast
    have "drain ro inbox l = ?rest" by (simp add: drain.simps[of ro inbox l] Some Let_def)
    with o1 o2 forward_trans[OF o1(2) o2(2)] show ?thesis by (intro exI[of _ "o1 @ o2"]) simp
  qed
qed

text \<open>
  Property C13. Whatever is ingested, at most one run changes: its identity stays, its sequence never
  goes back, it leaves a terminal status never again, and the outbox gets one notice for each
  version the run gained, in order. Nothing leaves the outbox.
\<close>

theorem runs_only_move_forward:
  "\<exists>i run out. es_runs (snd (ingest env e s)) = (es_runs s)[i := run] \<and>
     es_outbox (snd (ingest env e s)) = es_outbox s @ out \<and>
     (if i < length (es_runs s) then forward (es_runs s ! i) run out else out = [])"
proof -
  let ?s = "snd (ingest env e s)"
  have unchanged: "?thesis" if "?s = s"
    using that by (intro exI[of _ "length (es_runs s)"] exI[of _ "undefined :: run_projection"] exI[of _ "[]"]) (simp add: list_update_beyond)
  have flag: "forward a (b\<lparr>reconciliationRequired := f\<rparr>) out = forward a b out" for a b f out
    by (simp add: forward_def same_run_def)
  have "?s = s \<or> ?s = snd (ingest_event e (event_digest env e) s)"
    by (simp add: ingest_def split: sum.splits prod.splits)
  moreover have "snd (ingest_event e (event_digest env e) s) = s \<or> (\<exists>i.
      find_index (\<lambda>r. run_externalRunId r = ev_externalRunId e) (es_runs s) = Some i \<and>
      snd (ingest_event e (event_digest env e) s) = snd (take_in e (event_digest env e) i s))"
    by (simp add: ingest_event_def Let_def split: option.splits)
  ultimately consider "?s = s" | i where "find_index (\<lambda>r. run_externalRunId r = ev_externalRunId e) (es_runs s) = Some i"
    "?s = snd (take_in e (event_digest env e) i s)" by metis
  then show ?thesis
  proof cases
    case (2 i)
    from find_index_nth[OF 2(1)] have i: "i < length (es_runs s)" by simp
    let ?run = "es_runs s ! i"
    obtain run1 out inbox l where d: "drain (?run, [])
        (es_inbox s @ [\<lparr>ib_event = e, ib_digest = event_digest env e, ib_status = Inbox_pending\<rparr>]) Inbox_applied =
        ((run1, out), inbox, l)" by (metis surj_pair)
    with drain_forward[of "(?run, [])" _ Inbox_applied] have f: "forward ?run run1 out" by (metis append_Nil fst_conv snd_conv)
    from 2(2) d consider "es_outbox ?s = es_outbox s" "es_runs ?s = (es_runs s)[i := ?run\<lparr>reconciliationRequired := True\<rparr>]"
      | "es_outbox ?s = es_outbox s" "es_runs ?s = es_runs s"
      | b where "es_outbox ?s = es_outbox s @ out" "es_runs ?s = (es_runs s)[i := run1\<lparr>reconciliationRequired := b\<rparr>]"
      by (auto simp: take_in_def Let_def split: if_splits)
    then show ?thesis
    proof cases
      case 1
      with i show ?thesis by (intro exI[of _ i] exI[of _ "?run\<lparr>reconciliationRequired := True\<rparr>"] exI[of _ "[]"]) (simp add: flag forward_refl)
    next
      case 2
      with i show ?thesis by (intro exI[of _ i] exI[of _ ?run] exI[of _ "[]"]) (simp add: forward_refl)
    next
      case (3 b)
      with i f show ?thesis by (intro exI[of _ i] exI[of _ "run1\<lparr>reconciliationRequired := b\<rparr>"] exI[of _ out]) (simp add: flag)
    qed
  qed (rule unchanged)
qed

section \<open>A run of three events\<close>

definition sample_run_projection :: run_projection where
  "sample_run_projection = \<lparr>run_id = ''run-1'', run_organizationId = ''org'', run_projectId = ''project'',
     run_goalId = ''goal-1'', run_issueId = None, run_externalRunId = ''x-1'', run_externalTaskId = ''t-1'',
     run_state = Queued, run_phase = '''', run_version = 1, lastEventSequence = 0, reconciliationRequired = False\<rparr>"

definition sample_event :: "nat \<Rightarrow> run_event" where
  "sample_event k = \<lparr>ev_schemaVersion = ''autodev.run-event.v1'', ev_sourceEventId = replicate k CHR ''e'',
     ev_externalRunId = ''x-1'', ev_externalTaskId = ''t-1'', ev_sequence = int k, ev_occurredAt = ''now'',
     ev_phase = ''builder'', ev_status = (if k = 3 then ''done'' else ''running''), ev_message = '''',
     ev_observability = None\<rparr>"

definition sample_env :: plan_environment where
  "sample_env = \<lparr>sha256Hex = (\<lambda>s. ''''), localeCompare = (\<le>), valid_date = (\<lambda>s. True)\<rparr>"

text \<open>Events 3, 1, 3 and 2 arrive: the run ends as if it had seen 1, 2 and 3.\<close>

theorem events_take_effect_in_order_witness:
  "let s = fold (\<lambda>k s. snd (ingest sample_env (sample_event k) s)) [3, 1, 3, 2]
       \<lparr>es_runs = [sample_run_projection], es_inbox = [], es_outbox = []\<rparr> in
   run_state (es_runs s ! 0) = Succeeded \<and> lastEventSequence (es_runs s ! 0) = 3 \<and>
   \<not> reconciliationRequired (es_runs s ! 0) \<and> map rn_eventType (es_outbox s) = [''run.started'', ''run.succeeded'']"
proof -
  let ?s0 = "\<lparr>es_runs = [sample_run_projection], es_inbox = [], es_outbox = []\<rparr>"
  have inj: "replicate a CHR ''e'' = replicate b CHR ''e'' \<Longrightarrow> a = b" for a b by (metis length_replicate)
  have "stream (set [3, 1, 3, 2]) sample_run_projection sample_event"
    by (auto simp: stream_def inj_on_def sample_event_def sample_run_projection_def observed_elsewhere_def dest: inj)
  moreover have "\<forall>k\<in>set [3, 1, 3, 2]. validate_event sample_env (sample_event k) = Inr ()"
    by (simp add: validate_event_def sample_event_def sample_env_def source_event_id_def is_lower_def
        numeral_3_eq_3 numeral_2_eq_2 trim_def is_space_def)
  moreover have "find_index (\<lambda>r. run_externalRunId r = run_externalRunId sample_run_projection) [sample_run_projection] = Some 0"
    by simp
  moreover have start: "lastEventSequence sample_run_projection = 0" "\<not> reconciliationRequired sample_run_projection"
    by (simp_all add: sample_run_projection_def)
  ultimately obtain n where n: "{1..n} \<subseteq> set [3, 1, 3, 2]" "Suc n \<notin> set [3, 1, 3, 2]"
    and s: "let s = fold (\<lambda>k s. snd (ingest sample_env (sample_event k) s)) [3, 1, 3, 2] ?s0 in
     es_runs s = [(fst (after_events sample_event sample_run_projection n))\<lparr>reconciliationRequired :=
       (\<exists>k\<in>set [3, 1, 3, 2]. n < k)\<rparr>] \<and> es_outbox s = snd (after_events sample_event sample_run_projection n)"
    using events_take_effect_in_order[of "[3, 1, 3, 2]" sample_run_projection sample_event sample_env 0 ?s0]
      start by auto
  have "n = 3"
  proof -
    have "n \<le> 3" using n(1) by (cases "n \<ge> 1") auto
    moreover have "n \<noteq> 0" "n \<noteq> 1" "n \<noteq> 2" using n(2) by auto
    ultimately show ?thesis by simp
  qed
  moreover have "run_state (fst (after_events sample_event sample_run_projection 3)) = Succeeded"
    "lastEventSequence (fst (after_events sample_event sample_run_projection 3)) = 3"
    "map rn_eventType (snd (after_events sample_event sample_run_projection 3)) = [''run.started'', ''run.succeeded'']"
    by code_simp+
  ultimately show ?thesis using s by (auto simp: Let_def)
qed

end
