(* ===== verification/Spec2Isabelle.thy ===== *)
theory Spec2Isabelle
  imports Execution_Waves Model_Router Classification Spec_Diff Overdesign Published_Schemas
    Scheduler_Leases Goal_Workspace_Safety Issue_Plan_Safety Access_Safety Release_Sample Planning_Sample Verification_Sample
    Execution_Events_Safety
begin

text \<open>
  A development of the control plane of \<^verbatim>\<open>src/prototype/web-ui/app\<close>. The control plane takes a Goal
  from a draft contract through clarification, classification, specification, an issue plan and
  its execution by external agents to a verified delivery. People approve at fixed points;
  planners and verifiers are external programs whose JSON output is checked before it is used; the
  work runs on nodes that an external gateway drives. Paths below are relative to
  \<^verbatim>\<open>src/prototype/web-ui/app\<close>; \<^verbatim>\<open>domain/\<close>, \<^verbatim>\<open>application/\<close>, \<^verbatim>\<open>adapters/\<close> and \<^verbatim>\<open>ports/\<close> lie in
  \<^verbatim>\<open>control-plane/\<close>.

  \<^bold>\<open>Conventions.\<close> A function that may throw returns \<^verbatim>\<open>js_error + 'a\<close>, with one constructor of
  \<^verbatim>\<open>js_error\<close> per error class; \<^verbatim>\<open>and_then\<close> sequences such functions, so that every early return and
  every throw is a branch. Interfaces are records with one field per property; a field name that
  would clash carries a prefix. Values of type \<open>unknown\<close> are the datatype \<^verbatim>\<open>json\<close>, objects being
  association lists in insertion order. Strings are char lists whose characters stand for UTF-16
  code units below 256; \<^verbatim>\<open>Classification\<close>, which counts units and searches Chinese keywords, uses
  lists of code units. Code outside the repository is an argument: \<^verbatim>\<open>localeCompare\<close> (required to be
  a total preorder where that matters, and to separate distinct strings where the text says so), SHA-256
  (required to be injective on the texts compared), the locale's lower case, the validity of a date
  text, the clock, generated ids, the authorizer of a command and the execution gateway. Instants
  are milliseconds since the epoch, and \<^verbatim>\<open>toISOString\<close> is written out for them.

  \<^bold>\<open>Groundwork.\<close> \<^verbatim>\<open>Prelude\<close>: results, JavaScript's list, set, map and string operations and the
  lemma collections. \<^verbatim>\<open>Errors\<close>: the error classes. \<^verbatim>\<open>Json_Values\<close>, \<^verbatim>\<open>Json_Schema\<close>, \<^verbatim>\<open>Json_Text\<close>:
  JSON values, the schemas published to planners, \<open>JSON.stringify\<close> and the canonical texts of \<^verbatim>\<open>domain/spec-artifact.ts\<close>;
  the canonical text determines a value up to the order of its object keys. \<^verbatim>\<open>Instants\<close>: dates.

  \<^bold>\<open>Goals.\<close> \<^verbatim>\<open>State_Machines\<close> models \<^verbatim>\<open>domain/state-machines.ts\<close>: the four life-cycle tables and the
  guarded, version-checked \<^verbatim>\<open>transitionState\<close>; its lemmas show the tables well formed, that a
  version admits one command and that completion passes every gate. \<^verbatim>\<open>Goal_Contract\<close> models
  \<^verbatim>\<open>domain/goal-contract.ts\<close>. \<^verbatim>\<open>Goal_Transitions\<close> models \<^verbatim>\<open>application/goal-application-service.ts\<close> over
  \<^verbatim>\<open>adapters/memory-goal-repository.ts\<close>, \<^verbatim>\<open>Goal_Workspace\<close> the contracts of
  \<^verbatim>\<open>application/goal-workspace-service.ts\<close> over its repository; \<^verbatim>\<open>Goal_Workspace_Safety\<close> shows for both
  together that no update is lost and that every version has one audit record.

  \<^bold>\<open>Planning.\<close> \<^verbatim>\<open>Classification\<close> models \<^verbatim>\<open>domain/deterministic-classification.ts\<close>,
  \<^verbatim>\<open>Planner_Clarification\<close>, \<^verbatim>\<open>Spec_Artifact\<close>, \<^verbatim>\<open>Issue_Plan\<close>, \<^verbatim>\<open>Acceptance_Verification\<close> and
  \<^verbatim>\<open>Goal_Verifier\<close> the validators of external output in \<^verbatim>\<open>domain/\<close> with every error they raise, and
  \<^verbatim>\<open>Published_Schemas\<close> relates them to the schemas they publish. \<^verbatim>\<open>Spec_Diff\<close> and \<^verbatim>\<open>Overdesign\<close> model
  the review of specifications. \<^verbatim>\<open>Dependency_Graph\<close> and \<^verbatim>\<open>Issue_Compiler\<close> model
  \<^verbatim>\<open>domain/issue-compiler.ts\<close>, \<^verbatim>\<open>Execution_Waves\<close> models \<^verbatim>\<open>domain/execution-waves.ts\<close> and
  \<^verbatim>\<open>Model_Router\<close> models \<^verbatim>\<open>domain/model-router.ts\<close>. \<^verbatim>\<open>Issue_Plan_Service\<close> models
  \<^verbatim>\<open>application/issue-plan-service.ts\<close> over its repository in memory, and \<^verbatim>\<open>Issue_Plan_Safety\<close> shows
  that an approved plan is complete, ordered, conflict free and bound by its digest.

  \<^bold>\<open>Execution.\<close> \<^verbatim>\<open>Scheduler_Repository\<close> models \<^verbatim>\<open>adapters/memory-scheduler-repository.ts\<close>,
  \<^verbatim>\<open>Scheduler_Supervisor\<close> one tick of \<^verbatim>\<open>application/scheduler-supervisor.ts\<close> over it and an arbitrary
  gateway, \<^verbatim>\<open>Scheduler_Leases\<close> what becomes of the leases of finished jobs.

  \<^bold>\<open>Access.\<close> \<^verbatim>\<open>Access_Control\<close> models the roles, the policy, the service and the visibility scopes of
  \<^verbatim>\<open>auth/\<close>; \<^verbatim>\<open>Access_Safety\<close> shows that roles cannot be escalated and that what is visible is
  permitted.

  \<^bold>\<open>Release.\<close> \<^verbatim>\<open>Release_Evidence\<close> models the two gates of \<^verbatim>\<open>reliability/p12-canary-gate.ts\<close> and
  \<^verbatim>\<open>reliability/p12-production-release-gate.ts\<close>, \<^verbatim>\<open>Release_Center\<close> the Canaries and releases of
  \<^verbatim>\<open>release-center/domain.ts\<close>, \<^verbatim>\<open>Release_Service\<close> the service of \<^verbatim>\<open>release-center/service.ts\<close> over
  its repository in memory with the authorizer over role bindings. \<^verbatim>\<open>Release_Gates\<close> says what the
  gates establish, \<^verbatim>\<open>Release_Safety\<close> that approved releases have it in every run and that evidence
  is locked while requests name the version they read, and \<^verbatim>\<open>Release_Sample\<close> runs a release from
  beginning to end.

  \<^bold>\<open>Interfaces.\<close> \<^verbatim>\<open>idempotent_service\<close> is the contract between a command service and the repository
  that keeps its receipts; it is interpreted for Goal transitions, for the Goal workspace, for
  plan approvals and for release commands, and \<^verbatim>\<open>goal_store\<close>, the contract of a repository of Goals, extends it. \<^verbatim>\<open>layering\<close>
  is the contract of a loop that peels a dependency map; the topological order and the wave
  schedule interpret it. \<^verbatim>\<open>role_reader\<close> is the contract between the policy and the bindings.
  \<^verbatim>\<open>versioned_aggregate\<close> is the contract of aggregates that are replaced under a version check; it is
  interpreted for Canaries and for releases.

  \<^bold>\<open>Steps, fuel and bounds.\<close> A command of a service is two steps, the reads and checks before its
  commit and the commit, and the step relations (\<^verbatim>\<open>goal_step\<close>, \<^verbatim>\<open>goals_step\<close>, \<^verbatim>\<open>plan_step\<close>,
  \<^verbatim>\<open>role_step\<close>, \<^verbatim>\<open>center_step\<close>) let any other steps run in between; the in-memory repositories have no \<open>await\<close>
  inside an operation, so each is one step. A scheduler tick is one step of \<^verbatim>\<open>tick_run\<close>.
  The search for a cycle recurses on fuel \<^verbatim>\<open>Suc (length g)\<close>; the active path repeats no node, so
  it never runs out, and \<^verbatim>\<open>findCycle_correct\<close> is stated without fuel. Every other loop terminates
  structurally or by a measure. The hash of a visibility scope keeps its 32 bits.

  \<^bold>\<open>Not modelled.\<close> The PostgreSQL adapters and the schema (their statements run in a database), HTTP
  handlers and routes, React components, scripts, the runtime wiring and telemetry, the command
  line gateways and the autodev Python code; the manifest lists each with its reason.
\<close>

end
